(* ===== verification/Prelude.thy ===== *)
theory Prelude
  imports Main "HOL-Library.Sublist"
begin

text \<open>
  Shared vocabulary of the development: Go's byte strings (\<open>strings.TrimSpace\<close>,
  \<open>strings.ToUpper\<close>, the KRA PIN regular expression), 64-bit signed arithmetic with its
  wrap-around written out, the error values of the program, and generic facts on tables
  (lists of rows) that the store and its clients share.

  A Go string is a sequence of bytes, and so is \<open>string\<close> here. The two library functions
  that look at Unicode are translated on bytes: \<open>TrimSpace\<close> strips the UTF-8 encodings of
  the runes for which \<open>unicode.IsSpace\<close> holds, and \<open>ToUpper\<close> maps ASCII letters and the
  two non-ASCII runes whose upper case is an ASCII letter (U+0131 to I, U+017F to S); every
  other non-ASCII byte stays non-ASCII in Go as it does here, and no caller accepts one.
\<close>

named_theorems frame \<open>which parts of the store an operation leaves alone\<close>
named_theorems preserves_intros \<open>composition rules for store invariants\<close>

subsection \<open>Identifiers, time\<close>

text \<open>
  A UUID is an opaque identifier. Time is counted in nanoseconds from Go's zero time
  (1 January of year 1, UTC), so \<open>Time.IsZero\<close> is \<open>t = 0\<close>; a duration is a number of
  nanoseconds.
\<close>

type_synonym uuid = nat
type_synonym time = int
type_synonym duration = int
type_synonym bytes = string

definition second :: duration where "second = 1000000000"
definition minute :: duration where "minute = 60 * second"
definition hour :: duration where "hour = 60 * minute"

lemmas duration_defs = second_def minute_def hour_def

subsection \<open>64-bit signed integers\<close>

text \<open>\<open>int64\<close> arithmetic of Go wraps around in two's complement.\<close>

definition wrap64 :: "int \<Rightarrow> int" where
  "wrap64 x = (x + 2 ^ 63) mod 2 ^ 64 - 2 ^ 63"

definition in_int64 :: "int \<Rightarrow> bool" where
  "in_int64 x \<longleftrightarrow> - (2 ^ 63) \<le> x \<and> x < 2 ^ 63"

definition abs64 :: "int \<Rightarrow> int" where
  "abs64 n = (if n < 0 then wrap64 (- n) else n)"

lemma wrap64_id [simp]: "in_int64 x \<Longrightarrow> wrap64 x = x"
  by (simp add: wrap64_def in_int64_def)

lemma in_int64_wrap64 [simp]: "in_int64 (wrap64 x)"
proof -
  have "0 \<le> (x + 2 ^ 63) mod 2 ^ 64" and "(x + 2 ^ 63) mod 2 ^ 64 < 2 ^ 64"
    by simp_all
  then show ?thesis by (simp add: wrap64_def in_int64_def)
qed

lemma wrap64_mod: "wrap64 x mod 2 ^ 64 = x mod 2 ^ 64"
  unfolding wrap64_def by (simp add: mod_simps)

lemma wrap64_eq: "x mod 2 ^ 64 = y mod 2 ^ 64 \<Longrightarrow> wrap64 x = wrap64 y"
  unfolding wrap64_def by (metis mod_add_left_eq)

lemma wrap64_add_left [simp]: "wrap64 (wrap64 x + y) = wrap64 (x + y)"
  by (rule wrap64_eq) (metis mod_add_left_eq wrap64_mod)

lemma wrap64_add_right [simp]: "wrap64 (x + wrap64 y) = wrap64 (x + y)"
  by (metis wrap64_add_left add.commute)

lemma wrap64_minus_left [simp]: "wrap64 (wrap64 x - y) = wrap64 (x - y)"
  using wrap64_add_left [of x "- y"] by simp

lemma wrap64_minus_right [simp]: "wrap64 (x - wrap64 y) = wrap64 (x - y)"
  by (rule wrap64_eq) (metis mod_diff_right_eq wrap64_mod)

lemma abs64_nonneg: "in_int64 n \<Longrightarrow> n \<noteq> - (2 ^ 63) \<Longrightarrow> abs64 n = \<bar>n\<bar>"
  by (simp add: abs64_def in_int64_def wrap64_def)

subsection \<open>Strings\<close>

definition digit_chars :: string where "digit_chars = ''0123456789''"
definition upper_chars :: string where "upper_chars = ''ABCDEFGHIJKLMNOPQRSTUVWXYZ''"
definition lower_chars :: string where "lower_chars = ''abcdefghijklmnopqrstuvwxyz''"

definition is_digit :: "char \<Rightarrow> bool" where
  "is_digit c \<longleftrightarrow> c \<in> set digit_chars"

definition is_upper :: "char \<Rightarrow> bool" where
  "is_upper c \<longleftrightarrow> c \<in> set upper_chars"

lemmas char_class_defs = is_digit_def is_upper_def digit_chars_def upper_chars_def lower_chars_def

definition ascii :: "char \<Rightarrow> bool" where
  "ascii c \<longleftrightarrow> (of_char c :: nat) < 128"

text \<open>The UTF-8 encodings of the runes \<open>unicode.IsSpace\<close> accepts.\<close>

definition space_runes :: "string list" where
  "space_runes =
     [[CHR 0x09], [CHR 0x0A], [CHR 0x0B], [CHR 0x0C], [CHR 0x0D], [CHR 0x20],
      [CHR 0xC2, CHR 0x85], [CHR 0xC2, CHR 0xA0], [CHR 0xE1, CHR 0x9A, CHR 0x80],
      [CHR 0xE2, CHR 0x80, CHR 0x80], [CHR 0xE2, CHR 0x80, CHR 0x81],
      [CHR 0xE2, CHR 0x80, CHR 0x82], [CHR 0xE2, CHR 0x80, CHR 0x83],
      [CHR 0xE2, CHR 0x80, CHR 0x84], [CHR 0xE2, CHR 0x80, CHR 0x85],
      [CHR 0xE2, CHR 0x80, CHR 0x86], [CHR 0xE2, CHR 0x80, CHR 0x87],
      [CHR 0xE2, CHR 0x80, CHR 0x88], [CHR 0xE2, CHR 0x80, CHR 0x89],
      [CHR 0xE2, CHR 0x80, CHR 0x8A], [CHR 0xE2, CHR 0x80, CHR 0xA8],
      [CHR 0xE2, CHR 0x80, CHR 0xA9], [CHR 0xE2, CHR 0x80, CHR 0xAF],
      [CHR 0xE2, CHR 0x81, CHR 0x9F], [CHR 0xE3, CHR 0x80, CHR 0x80]]"

text \<open>How many bytes a leading member of \<open>ws\<close> takes; 0 when there is none.\<close>

fun leading :: "string list \<Rightarrow> string \<Rightarrow> nat" where
  "leading [] s = 0"
| "leading (w # ws) s = (if w \<noteq> [] \<and> prefix w s then length w else leading ws s)"

lemma list_all_drop: "list_all P xs \<Longrightarrow> list_all P (drop n xs)"
  by (auto simp: list_all_iff dest: in_set_dropD)

lemma leading_le: "leading ws s \<le> length s"
  by (induction ws) (auto dest: prefix_length_le)

function strip :: "string list \<Rightarrow> string \<Rightarrow> string" where
  "strip ws s = (if leading ws s = 0 then s else strip ws (drop (leading ws s) s))"
  by pat_completeness auto
termination
proof (relation "measure (\<lambda>(ws, s). length s)", simp)
  fix ws s
  assume "leading ws s \<noteq> 0"
  with leading_le [of ws s] have "0 < length s" by linarith
  with \<open>leading ws s \<noteq> 0\<close>
  show "((ws, drop (leading ws s) s), (ws, s)) \<in> measure (\<lambda>(ws, s). length s)" by simp
qed

declare strip.simps [simp del]

definition trim_space :: "string \<Rightarrow> string" where
  "trim_space s = rev (strip (map rev space_runes) (rev (strip space_runes s)))"

text \<open>\<open>strings.ToUpper\<close> on one ASCII letter, and on a string.\<close>

definition upper_char :: "char \<Rightarrow> char" where
  "upper_char c = (case map_of (zip lower_chars upper_chars) c of None \<Rightarrow> c | Some d \<Rightarrow> d)"

fun to_upper :: "string \<Rightarrow> string" where
  "to_upper [] = []"
| "to_upper (c # cs) =
     (if c = CHR 0xC4 \<and> take 1 cs = [CHR 0xB1] then CHR ''I'' # to_upper (drop 1 cs)
      else if c = CHR 0xC5 \<and> take 1 cs = [CHR 0xBF] then CHR ''S'' # to_upper (drop 1 cs)
      else upper_char c # to_upper cs)"

text \<open>\<open>^[AP][0-9]{9}[A-Z]$\<close>, the KRA PIN format the code compiles in five packages.\<close>

definition PINRe :: "string \<Rightarrow> bool" where
  "PINRe s \<longleftrightarrow> length s = 11 \<and> s ! 0 \<in> set ''AP'' \<and>
     list_all is_digit (take 9 (drop 1 s)) \<and> is_upper (s ! 10)"

lemma strip_id: "leading ws s = 0 \<Longrightarrow> strip ws s = s"
  by (subst strip.simps) simp

text \<open>A character that begins (or ends) no encoding of a space rune.\<close>

definition solid :: "char \<Rightarrow> bool" where
  "solid c \<longleftrightarrow> c \<notin> set (map hd space_runes) \<and> c \<notin> set (map last space_runes)"

lemma leading_solid:
  "c \<notin> set (map hd ws) \<Longrightarrow> leading ws (c # s) = 0"
  by (induction ws) (auto simp: prefix_def neq_Nil_conv)

lemma trim_space_solid:
  assumes "s \<noteq> []" and "solid (hd s)" and "solid (last s)"
  shows "trim_space s = s"
proof -
  obtain c t where s: "s = c # t" using assms(1) by (cases s) auto
  obtain d u where r: "rev s = d # u" using assms(1) by (cases "rev s") auto
  have d: "d = last s" using r assms(1) by (metis hd_rev list.sel(1))
  have l: "leading space_runes s = 0"
    using assms(2) s by (auto simp: solid_def intro!: leading_solid)
  have hl: "map hd (map rev space_runes) = map last space_runes"
    by (simp add: space_runes_def)
  have "d \<notin> set (map hd (map rev space_runes))"
    using assms(3) d unfolding hl by (simp add: solid_def)
  then have "leading (map rev space_runes) (rev s) = 0"
    unfolding r by (rule leading_solid)
  with l show ?thesis by (simp add: trim_space_def strip_id)
qed

lemma trim_space_Nil [simp]: "trim_space [] = []"
  by (simp add: trim_space_def strip.simps space_runes_def prefix_def)

lemma alnum_fixed: "list_all (\<lambda>c. solid c \<and> upper_char c = c) (digit_chars @ upper_chars)"
  by code_simp

lemma solid_alnum: "is_digit c \<or> is_upper c \<Longrightarrow> solid c"
  using alnum_fixed by (auto simp: is_digit_def is_upper_def list_all_iff)

lemma upper_char_id: "is_digit c \<or> is_upper c \<Longrightarrow> upper_char c = c"
  using alnum_fixed by (auto simp: is_digit_def is_upper_def list_all_iff)

lemma not_alnum [simp]:
  "\<not> is_digit (CHR 0xC4)" "\<not> is_upper (CHR 0xC4)" "\<not> is_digit (CHR 0xC5)" "\<not> is_upper (CHR 0xC5)"
  by (simp_all add: char_class_defs)

lemma to_upper_id: "list_all (\<lambda>c. is_digit c \<or> is_upper c) s \<Longrightarrow> to_upper s = s"
  by (induction s) (auto simp: upper_char_id)

subsection \<open>Errors\<close>

text \<open>
  Error values of the program. \<open>PgError\<close> carries the SQLSTATE of a failed statement;
  \<open>Wrap m e\<close> is \<open>fmt.Errorf\<close> with one \<open>%w\<close> verb, \<open>m\<close> the whole text and \<open>e\<close> the wrapped
  error; \<open>Panic\<close> is a run-time panic (a nil dereference), which no error check of the
  program sees.
\<close>

datatype go_error =
    ErrNoRows | ErrDuplicate | ErrUnknownShortcode | ErrInvalidPIN | ErrCreditNoteExists
  | ErrIllegalTransition | ErrShortcodeClaimed | ErrAlreadyVerified | ErrInvalidReceiptCode
  | ErrUnknownSTKRequest | ErrNotFound | ErrLookupNotSupported | ErrPINUnknown
  | ErrLookupUnavailable | ErrMalformed
  | ValidationError string string string \<comment> \<open>code, message, field\<close>
  | ConfigError string string \<comment> \<open>code, message\<close>
  | TransientError string string \<comment> \<open>code, message\<close>
  | DeadlineExceeded | Canceled | NetError string
  | Invalid string \<comment> \<open>ledger's validationError\<close>
  | PgError string
  | ErrorString string
  | Wrap string go_error
  | Panic string

text \<open>\<open>errors.Is\<close> and \<open>errors.As\<close> look through \<open>%w\<close> chains.\<close>

fun err_root :: "go_error \<Rightarrow> go_error" where
  "err_root (Wrap m e) = err_root e"
| "err_root e = e"

definition errors_is :: "go_error \<Rightarrow> go_error \<Rightarrow> bool" where
  "errors_is e target \<longleftrightarrow> err_root e = target"

definition isUniqueViolation :: "go_error \<Rightarrow> bool" where
  "isUniqueViolation e \<longleftrightarrow> err_root e = PgError ''23505''"

definition is_panic :: "go_error \<Rightarrow> bool" where
  "is_panic e \<longleftrightarrow> (case e of Panic _ \<Rightarrow> True | _ \<Rightarrow> False)"

text \<open>\<open>err.Error()\<close>. The texts of Postgres and network errors are their own.\<close>

fun err_text :: "go_error \<Rightarrow> string" where
  "err_text ErrNoRows = ''no rows in result set''"
| "err_text ErrDuplicate = ''ledger: duplicate transaction''"
| "err_text ErrUnknownShortcode = ''ledger: no verified shortcode''"
| "err_text ErrInvalidPIN = ''ledger: invalid buyer KRA PIN''"
| "err_text ErrCreditNoteExists = ''ledger: credit note already exists for this invoice''"
| "err_text ErrIllegalTransition = ''fiscal: illegal state transition''"
| "err_text ErrShortcodeClaimed = ''ledger: shortcode already verified by another organisation''"
| "err_text ErrAlreadyVerified = ''ledger: shortcode is already verified''"
| "err_text ErrInvalidReceiptCode = ''fiscal: invalid receipt code''"
| "err_text ErrUnknownSTKRequest = ''ledger: unknown stk request''"
| "err_text ErrNotFound = ''fiscal: invoice not found''"
| "err_text ErrLookupNotSupported = ''kra oscu does not support client id lookup''"
| "err_text ErrPINUnknown = ''fiscal: KRA does not know this PIN''"
| "err_text ErrLookupUnavailable = ''fiscal: PIN lookup unavailable''"
| "err_text ErrMalformed = ''crypto: malformed ciphertext''"
| "err_text (ValidationError c m f) =
     (if f \<noteq> '''' then ''fiscal: validation '' @ c @ '' on '' @ f @ '': '' @ m
      else ''fiscal: validation '' @ c @ '': '' @ m)"
| "err_text (ConfigError c m) = ''fiscal: config '' @ c @ '': '' @ m"
| "err_text (TransientError c m) = ''fiscal: transient '' @ c @ '': '' @ m"
| "err_text DeadlineExceeded = ''context deadline exceeded''"
| "err_text Canceled = ''context canceled''"
| "err_text (NetError m) = m"
| "err_text (Invalid m) = m"
| "err_text (PgError c) = ''SQLSTATE '' @ c"
| "err_text (ErrorString m) = m"
| "err_text (Wrap m e) = m"
| "err_text (Panic m) = m"

subsection \<open>Tables\<close>

text \<open>
  A table is the list of its rows in insertion order. \<open>row_by k i rows\<close> is the row with key
  \<open>i\<close>, \<open>update_rows p f rows\<close> an UPDATE with condition \<open>p\<close>, and \<open>latest t rows\<close> an
  \<open>ORDER BY t DESC LIMIT 1\<close> (of rows with equal \<open>t\<close>, the one inserted last).
\<close>

definition row_by :: "('r \<Rightarrow> 'k) \<Rightarrow> 'k \<Rightarrow> 'r list \<Rightarrow> 'r option" where
  "row_by key i rows = find (\<lambda>r. key r = i) rows"

definition update_rows :: "('r \<Rightarrow> bool) \<Rightarrow> ('r \<Rightarrow> 'r) \<Rightarrow> 'r list \<Rightarrow> 'r list" where
  "update_rows p f rows = map (\<lambda>r. if p r then f r else r) rows"

fun latest :: "('r \<Rightarrow> time) \<Rightarrow> 'r list \<Rightarrow> 'r option" where
  "latest t [] = None"
| "latest t (r # rs) =
     (case latest t rs of None \<Rightarrow> Some r | Some r' \<Rightarrow> if t r' < t r then Some r else Some r')"

lemma row_by_Some: "row_by key i rows = Some r \<Longrightarrow> r \<in> set rows \<and> key r = i"
  by (auto simp: row_by_def find_Some_iff)

lemma row_by_None: "row_by key i rows = None \<longleftrightarrow> i \<notin> key ` set rows"
  by (auto simp: row_by_def find_None_iff)

lemma row_by_unique:
  assumes "distinct (map key rows)" and "r \<in> set rows"
  shows "row_by key (key r) rows = Some r"
proof (cases "row_by key (key r) rows")
  case None
  with assms(2) show ?thesis by (auto simp: row_by_None)
next
  case (Some r')
  with row_by_Some [OF Some] assms show ?thesis by (auto simp: distinct_map dest: inj_onD)
qed

lemma row_by_append [simp]:
  "row_by key i (rows @ more) =
     (case row_by key i rows of None \<Rightarrow> row_by key i more | Some r \<Rightarrow> Some r)"
  by (induction rows) (auto simp: row_by_def)

lemma row_by_Nil [simp]: "row_by key i [] = None"
  by (simp add: row_by_def)

lemma row_by_Cons [simp]:
  "row_by key i (r # rows) = (if key r = i then Some r else row_by key i rows)"
  by (simp add: row_by_def)

lemma update_rows_Nil [simp]: "update_rows p f [] = []"
  by (simp add: update_rows_def)

lemma update_rows_Cons [simp]:
  "update_rows p f (r # rows) = (if p r then f r else r) # update_rows p f rows"
  by (simp add: update_rows_def)

lemma update_rows_append [simp]:
  "update_rows p f (xs @ ys) = update_rows p f xs @ update_rows p f ys"
  by (simp add: update_rows_def)

lemma set_update_rows: "set (update_rows p f rows) = (\<lambda>r. if p r then f r else r) ` set rows"
  by (simp add: update_rows_def)

lemma map_update_rows:
  "(\<And>r. p r \<Longrightarrow> key (f r) = key r) \<Longrightarrow> map key (update_rows p f rows) = map key rows"
  by (induction rows) auto

lemma row_by_update_rows:
  assumes "\<And>r. p r \<Longrightarrow> key (f r) = key r"
  shows "row_by key i (update_rows p f rows) =
    map_option (\<lambda>r. if p r then f r else r) (row_by key i rows)"
  using assms by (induction rows) auto

lemma update_rows_id: "(\<And>r. r \<in> set rows \<Longrightarrow> p r \<Longrightarrow> f r = r) \<Longrightarrow> update_rows p f rows = rows"
  by (induction rows) auto

lemma latest_in: "latest t rows = Some r \<Longrightarrow> r \<in> set rows"
  by (induction rows arbitrary: r) (auto split: option.splits if_splits)

lemma latest_None [simp]: "latest t rows = None \<longleftrightarrow> rows = []"
  by (cases rows) (auto split: option.splits)

lemma latest_max: "latest t rows = Some r \<Longrightarrow> r' \<in> set rows \<Longrightarrow> t r' \<le> t r"
proof (induction rows arbitrary: r r')
  case (Cons x xs)
  show ?case
  proof (cases "latest t xs")
    case None
    with Cons.prems show ?thesis by auto
  next
    case (Some y)
    have "\<And>z. z \<in> set xs \<Longrightarrow> t z \<le> t y" using Some by (rule Cons.IH)
    with Cons.prems Some show ?thesis by (fastforce split: if_splits)
  qed
qed simp

end
