(* ===== verification/TaxCodes.thy ===== *)
theory TaxCodes
  imports Prelude
begin

text \<open>
  \<open>internal/fiscal/taxcodes.go\<close>: the KRA tax categories with their rates in basis points,
  the VAT contained in a VAT-inclusive amount (rounded half up on arbitrary-precision
  integers, then read back as an \<open>int64\<close>) and the invoice totals (\<open>int64\<close> sums, which wrap).
\<close>

type_synonym TaxCategory = string

definition TaxExempt :: TaxCategory where "TaxExempt = ''A''"
definition TaxStandard :: TaxCategory where "TaxStandard = ''B''"
definition TaxZeroRated :: TaxCategory where "TaxZeroRated = ''C''"
definition TaxNonVAT :: TaxCategory where "TaxNonVAT = ''D''"
definition TaxReduced :: TaxCategory where "TaxReduced = ''E''"

lemmas tax_category_defs =
  TaxExempt_def TaxStandard_def TaxZeroRated_def TaxNonVAT_def TaxReduced_def

definition rateBP :: "TaxCategory \<rightharpoonup> int" where
  "rateBP = map_of
     [(TaxExempt, 0), (TaxStandard, 1600), (TaxZeroRated, 0), (TaxNonVAT, 0), (TaxReduced, 800)]"

definition tax_category_valid :: "TaxCategory \<Rightarrow> bool" where
  "tax_category_valid c \<longleftrightarrow> rateBP c \<noteq> None"

definition RateBP :: "TaxCategory \<Rightarrow> int" where
  "RateBP c = (case rateBP c of None \<Rightarrow> 0 | Some r \<Rightarrow> r)"

definition ParseTaxCategory :: "string \<Rightarrow> go_error + TaxCategory" where
  "ParseTaxCategory s =
     (if \<not> tax_category_valid s then Inl (ErrorString (''fiscal: unknown tax category '' @ s))
      else Inr s)"

definition DefaultTaxCategory :: "bool \<Rightarrow> TaxCategory" where
  "DefaultTaxCategory vatRegistered = (if vatRegistered then TaxStandard else TaxNonVAT)"

text \<open>\<open>big.Int.QuoRem\<close> truncates towards zero.\<close>

definition quo :: "int \<Rightarrow> int \<Rightarrow> int" where
  "quo a b = sgn a * sgn b * (\<bar>a\<bar> div \<bar>b\<bar>)"

definition rem :: "int \<Rightarrow> int \<Rightarrow> int" where
  "rem a b = a - b * quo a b"

definition roundHalfUp :: "int \<Rightarrow> int \<Rightarrow> int" where
  "roundHalfUp num den =
     (let q = quo num den; r = rem num den; twice = \<bar>r\<bar> * 2;
          sign = (if num < 0 then - 1 else 1)
      in wrap64 (if \<bar>den\<bar> \<le> twice then q + sign else q))"

definition LineTax :: "int \<Rightarrow> int \<Rightarrow> int" where
  "LineTax lineTotalCents rate =
     (if rate = 0 \<or> lineTotalCents = 0 then 0
      else roundHalfUp (lineTotalCents * rate) (10000 + rate))"

text \<open>The adapter-facing invoice line (\<open>fiscal.Line\<close> of \<open>provider.go\<close>).\<close>

record Line =
  ItemCode :: string
  Description :: string
  Qty :: string
  Unit :: string
  UnitPriceCents :: int
  LineTaxCategory :: TaxCategory
  LineTotalCents :: int
  LineTaxCents :: int

fun totals_loop :: "Line list \<Rightarrow> int \<Rightarrow> int \<Rightarrow> int \<times> int" where
  "totals_loop [] tax tot = (tax, tot)"
| "totals_loop (l # ls) tax tot =
     totals_loop ls (wrap64 (tax + LineTaxCents l)) (wrap64 (tot + LineTotalCents l))"

definition Totals :: "Line list \<Rightarrow> int \<times> int \<times> int" where
  "Totals ls = (case totals_loop ls 0 0 of (tax, tot) \<Rightarrow> (wrap64 (tot - tax), tax, tot))"

subsection \<open>Rounding\<close>

lemma quo_nonneg: "0 \<le> a \<Longrightarrow> 0 < b \<Longrightarrow> quo a b = a div b"
  by (cases "a = 0") (simp_all add: quo_def)

lemma rem_nonneg: "0 \<le> a \<Longrightarrow> 0 < b \<Longrightarrow> rem a b = a mod b"
  by (simp add: rem_def quo_nonneg minus_mult_div_eq_mod)

lemma quo_minus: "quo (- a) b = - quo a b"
  by (simp add: quo_def)

lemma rem_minus: "rem (- a) b = - rem a b"
  by (simp add: rem_def quo_minus)

lemma half_up_div:
  fixes n d :: int
  assumes "0 < d"
  shows "(2 * n + d) div (2 * d) = (if d \<le> n mod d * 2 then n div d + 1 else n div d)"
proof -
  define q m where "q = n div d" and "m = n mod d"
  have m: "0 \<le> m" "m < d" using assms by (auto simp: m_def)
  have "n = q * d + m" by (simp add: q_def m_def)
  then have e: "2 * n + d = (2 * m + d) + q * (2 * d)" by (simp add: algebra_simps)
  have *: "(2 * n + d) div (2 * d) = q + (2 * m + d) div (2 * d)"
    unfolding e by (rule div_mult_self1) (use assms in simp)
  have "(2 * m + d) div (2 * d) = (if d \<le> m * 2 then 1 else 0)"
  proof (cases "d \<le> m * 2")
    case True
    then show ?thesis using m assms by (intro int_div_pos_eq [where r = "2 * m - d"]) auto
  next
    case False
    then show ?thesis using m assms by (auto intro!: div_pos_pos_trivial)
  qed
  with * show ?thesis by (auto simp: q_def m_def)
qed

lemma roundHalfUp_nonneg:
  assumes "0 \<le> n" and "0 < d"
  shows "roundHalfUp n d = wrap64 ((2 * n + d) div (2 * d))"
proof -
  have "\<bar>rem n d\<bar> = n mod d" using assms by (simp add: rem_nonneg)
  then show ?thesis using assms by (simp add: roundHalfUp_def Let_def quo_nonneg half_up_div)
qed

lemma div_less_mult:
  fixes a d t :: int
  assumes "0 < d" and "a < t * d"
  shows "a div d < t"
proof (rule ccontr)
  assume "\<not> a div d < t"
  then have "t * d \<le> a div d * d" using assms(1) by (intro mult_right_mono) auto
  also have "\<dots> \<le> a" using assms(1) div_mult_mod_eq [of a d] pos_mod_sign [of d a] by linarith
  finally show False using assms(2) by simp
qed

lemma half_up_bounds:
  fixes t r :: int
  assumes "0 \<le> t" and "0 \<le> r"
  defines "d \<equiv> 10000 + r"
  shows "0 \<le> (2 * (t * r) + d) div (2 * d)" and "(2 * (t * r) + d) div (2 * d) \<le> t"
proof -
  have d: "0 < d" using assms by simp
  have "0 \<le> 2 * (t * r) + d" using assms by simp
  then show "0 \<le> (2 * (t * r) + d) div (2 * d)"
    using d by (simp add: pos_imp_zdiv_nonneg_iff)
  show "(2 * (t * r) + d) div (2 * d) \<le> t"
  proof (cases "t = 0")
    case True
    then show ?thesis using d by simp
  next
    case False
    have "1 * 10000 \<le> t * 10000" using False assms(1) by (intro mult_right_mono) auto
    moreover have "1 * r \<le> t * r" using False assms by (intro mult_right_mono) auto
    ultimately have "2 * (t * r) + d < (t + 1) * (2 * d)"
      using assms by (simp add: algebra_simps)
    then have "(2 * (t * r) + d) div (2 * d) < t + 1" using d by (intro div_less_mult) simp_all
    then show ?thesis by simp
  qed
qed

lemma LineTax_nonneg_eq:
  assumes "0 \<le> t" and "0 \<le> r" and "in_int64 t"
  shows "LineTax t r = (2 * (t * r) + (10000 + r)) div (2 * (10000 + r))"
proof (cases "r = 0 \<or> t = 0")
  case True
  then show ?thesis using assms by (auto simp: LineTax_def)
next
  case False
  have "in_int64 ((2 * (t * r) + (10000 + r)) div (2 * (10000 + r)))"
    using half_up_bounds [OF assms(1,2)] assms(3) by (simp add: in_int64_def)
  then show ?thesis using False assms by (simp add: LineTax_def roundHalfUp_nonneg)
qed

lemma LineTax_bounds:
  assumes "0 \<le> t" and "0 \<le> r" and "in_int64 t"
  shows "0 \<le> LineTax t r" and "LineTax t r \<le> t"
  using half_up_bounds [OF assms(1,2)] by (simp_all add: LineTax_nonneg_eq [OF assms])

lemma roundHalfUp_minus:
  assumes "0 < n" and "0 < d" and "in_int64 (- ((2 * n + d) div (2 * d)))"
    and "in_int64 ((2 * n + d) div (2 * d))"
  shows "roundHalfUp (- n) d = - roundHalfUp n d"
proof -
  let ?x = "if d \<le> n mod d * 2 then n div d + 1 else n div d"
  have x: "(2 * n + d) div (2 * d) = ?x" using assms(2) by (rule half_up_div)
  have "\<bar>rem (- n) d\<bar> = n mod d" using assms by (simp add: rem_minus rem_nonneg)
  then have "roundHalfUp (- n) d = wrap64 (- ?x)"
    using assms by (auto simp: roundHalfUp_def Let_def quo_minus quo_nonneg)
  also have "\<dots> = - wrap64 ?x" using assms(3,4) unfolding x by simp
  finally show ?thesis using assms x by (simp add: roundHalfUp_nonneg)
qed

lemma LineTax_minus:
  assumes "0 \<le> t" and "0 \<le> r" and "in_int64 t"
  shows "LineTax (- t) r = - LineTax t r"
proof (cases "r = 0 \<or> t = 0")
  case True
  then show ?thesis by (auto simp: LineTax_def)
next
  case False
  have "0 < t * r" using False assms by simp
  moreover have "in_int64 (- ((2 * (t * r) + (10000 + r)) div (2 * (10000 + r))))"
    and "in_int64 ((2 * (t * r) + (10000 + r)) div (2 * (10000 + r)))"
    using half_up_bounds [OF assms(1,2)] assms(3) by (simp_all add: in_int64_def)
  ultimately have "roundHalfUp (- (t * r)) (10000 + r) = - roundHalfUp (t * r) (10000 + r)"
    using assms(2) by (intro roundHalfUp_minus) auto
  then show ?thesis using False by (simp add: LineTax_def)
qed

lemma RateBP_nonneg: "0 \<le> RateBP c"
  by (auto simp: RateBP_def rateBP_def tax_category_defs split: option.splits if_splits)

lemma RateBP_cases: "RateBP c \<in> {0, 800, 1600}"
  by (auto simp: RateBP_def rateBP_def tax_category_defs split: option.splits if_splits)

subsection \<open>Totals\<close>

lemma totals_loop_eq:
  "totals_loop ls tax tot =
     (if ls = [] then (tax, tot)
      else (wrap64 (tax + (\<Sum>l\<leftarrow>ls. LineTaxCents l)), wrap64 (tot + (\<Sum>l\<leftarrow>ls. LineTotalCents l))))"
proof (induction ls arbitrary: tax tot)
  case (Cons l ls)
  show ?case unfolding totals_loop.simps(2) Cons.IH by (simp add: add.assoc)
qed simp

lemma Totals_eq:
  "Totals ls = (wrap64 ((\<Sum>l\<leftarrow>ls. LineTotalCents l) - (\<Sum>l\<leftarrow>ls. LineTaxCents l)),
     wrap64 (\<Sum>l\<leftarrow>ls. LineTaxCents l), wrap64 (\<Sum>l\<leftarrow>ls. LineTotalCents l))"
proof -
  have "wrap64 0 = 0" by (simp add: in_int64_def)
  then show ?thesis by (cases "ls = []") (simp_all add: Totals_def totals_loop_eq)
qed

subsection \<open>Properties\<close>

text \<open>
  C22. For a VAT-inclusive amount and a rate of at least zero basis points, \<open>LineTax\<close> is the
  contained VAT rounded half up, and the VAT of a refund is exactly the negated VAT of the
  sale: \<open>amount * rate / (10000 + rate)\<close> rounded to the nearest cent, ties away from zero,
  with no cent lost between a sale and its credit note. It never overflows and lies between
  zero and the amount, so the taxable part is never negative.
\<close>

theorem line_tax_correct:
  assumes "in_int64 t" and "0 \<le> t" and "0 \<le> r"
  shows "LineTax t r = (2 * t * r + (10000 + r)) div (2 * (10000 + r)) \<and>
    LineTax (- t) r = - LineTax t r \<and> 0 \<le> LineTax t r \<and> LineTax t r \<le> t"
  using LineTax_nonneg_eq [of t r] LineTax_minus [of t r] LineTax_bounds [of t r] assms
  by (simp add: mult.assoc)

theorem line_tax_correct_witness:
  "LineTax 240000 1600 = 33103 \<and> LineTax (- 240000) 1600 = - 33103"
  using line_tax_correct [of 240000 1600] by (simp add: in_int64_def)

text \<open>
  \<open>Totals\<close> never re-rounds: whatever the lines, the subtotal and the tax it returns add up
  to the total it returns in \<open>int64\<close> arithmetic, and when the exact sums fit in 64 bits they
  are the exact sums of the lines.
\<close>

theorem totals_balance:
  "case Totals ls of (subtotal, tax, tot) \<Rightarrow>
     wrap64 (subtotal + tax) = tot \<and> in_int64 subtotal \<and> in_int64 tax \<and> in_int64 tot \<and>
     (in_int64 (\<Sum>l\<leftarrow>ls. LineTotalCents l) \<longrightarrow> tot = (\<Sum>l\<leftarrow>ls. LineTotalCents l)) \<and>
     (in_int64 (\<Sum>l\<leftarrow>ls. LineTaxCents l) \<longrightarrow> tax = (\<Sum>l\<leftarrow>ls. LineTaxCents l))"
  by (simp add: Totals_eq)

theorem totals_balance_witness:
  "Totals [\<lparr>ItemCode = ''1'', Description = ''a'', Qty = ''1'', Unit = ''PCS'', UnitPriceCents = 116,
      LineTaxCategory = ''B'', LineTotalCents = 116, LineTaxCents = 16\<rparr>] = (100, 16, 116)"
  using totals_balance [of "[\<lparr>ItemCode = ''1'', Description = ''a'', Qty = ''1'', Unit = ''PCS'',
    UnitPriceCents = 116, LineTaxCategory = ''B'', LineTotalCents = 116, LineTaxCents = 16\<rparr>]"]
  by (simp add: Totals_eq in_int64_def)

end
