(* ===== verification/Provider.thy ===== *)
theory Provider
  imports TaxCodes
begin

text \<open>
  The fiscal port, \<open>internal/fiscal/provider.go\<close>: the adapter-facing documents and the
  \<open>Provider\<close> interface as a record of state transformers over the adapter's own state
  \<open>'p\<close>. Go returns the pair of an \<open>Ack\<close> and an error; so do the operations here, with
  \<open>None\<close> for a nil error. The locale \<open>fiscal_provider\<close> is the contract the interface
  documents: a submission is idempotent by document id, and a lookup finds what a
  submission of that id has acknowledged.
\<close>

record FiscalInvoice =
  doc_ID :: string
  doc_OrgID :: string
  doc_SellerPIN :: string
  doc_SellerName :: string
  doc_BranchID :: string
  doc_BuyerPIN :: string
  doc_BuyerName :: string
  doc_IssuedAt :: time
  doc_Lines :: "Line list"
  doc_SubtotalCents :: int
  doc_TaxCents :: int
  doc_TotalCents :: int
  doc_PaymentMethod :: string
  doc_DeviceProfile :: string

record CreditNote =
  cn_ID :: string
  cn_OrgID :: string
  cn_OriginalKRANo :: string
  cn_OriginalInvoice :: FiscalInvoice
  cn_Reason :: string
  cn_ReasonCode :: string
  cn_Lines :: "Line list"
  cn_TotalCents :: int
  cn_DeviceProfile :: string

record Ack =
  KRAInvoiceNo :: string
  Signature :: string
  QRPayload :: string
  ReceivedAt :: time
  Raw :: string

definition no_ack :: Ack where
  "no_ack = \<lparr>KRAInvoiceNo = [], Signature = [], QRPayload = [], ReceivedAt = 0, Raw = []\<rparr>"

definition no_doc :: FiscalInvoice where
  "no_doc = \<lparr>doc_ID = [], doc_OrgID = [], doc_SellerPIN = [], doc_SellerName = [],
     doc_BranchID = [], doc_BuyerPIN = [], doc_BuyerName = [], doc_IssuedAt = 0, doc_Lines = [],
     doc_SubtotalCents = 0, doc_TaxCents = 0, doc_TotalCents = 0, doc_PaymentMethod = [],
     doc_DeviceProfile = []\<rparr>"

type_synonym ack_result = "Ack \<times> go_error option"

record 'p Provider =
  provider_Name :: string
  SubmitInvoice :: "FiscalInvoice \<Rightarrow> 'p \<Rightarrow> ack_result \<times> 'p"
  SubmitCreditNote :: "CreditNote \<Rightarrow> 'p \<Rightarrow> ack_result \<times> 'p"
  LookupInvoice :: "string \<Rightarrow> 'p \<Rightarrow> ack_result \<times> 'p"

text \<open>
  The documented contract. \<open>acked P p i = Some a\<close> says that in adapter state \<open>p\<close> the backend
  has accepted the document \<open>i\<close> with acknowledgement \<open>a\<close>.
\<close>

locale fiscal_provider =
  fixes P :: "'p Provider"
    and acked :: "'p \<Rightarrow> string \<Rightarrow> Ack option"
    and inv :: "'p \<Rightarrow> bool"
  assumes submit_ok: "inv p \<Longrightarrow> SubmitInvoice P d p = ((a, None), p') \<Longrightarrow>
      acked p' (doc_ID d) = Some a"
    and submit_cn_ok: "inv p \<Longrightarrow> SubmitCreditNote P c p = ((a, None), p') \<Longrightarrow>
      acked p' (cn_ID c) = Some a"
    and submit_stable: "inv p \<Longrightarrow> SubmitInvoice P d p = (r, p') \<Longrightarrow>
      acked p i = Some a \<Longrightarrow> acked p' i = Some a"
    and submit_cn_stable: "inv p \<Longrightarrow> SubmitCreditNote P c p = (r, p') \<Longrightarrow>
      acked p i = Some a \<Longrightarrow> acked p' i = Some a"
    and lookup_same: "inv p \<Longrightarrow> LookupInvoice P i p = (r, p') \<Longrightarrow> p' = p"
    and lookup_ok: "inv p \<Longrightarrow> LookupInvoice P i p = ((a, None), p') \<Longrightarrow> acked p i = Some a"
    and inv_submit: "inv p \<Longrightarrow> inv (snd (SubmitInvoice P d p))"
    and inv_submit_cn: "inv p \<Longrightarrow> inv (snd (SubmitCreditNote P c p))"
    and acked_no: "inv p \<Longrightarrow> acked p i = Some a \<Longrightarrow> KRAInvoiceNo a \<noteq> []"
begin

text \<open>A run of calls of the adapter; what it answers with a nil error never changes for an id.\<close>

inductive calls :: "'p \<Rightarrow> 'p \<Rightarrow> bool" where
  calls_refl: "calls p p"
| calls_invoice: "calls p q \<Longrightarrow> calls p (snd (SubmitInvoice P d q))"
| calls_credit_note: "calls p q \<Longrightarrow> calls p (snd (SubmitCreditNote P c q))"
| calls_lookup: "calls p q \<Longrightarrow> calls p (snd (LookupInvoice P i q))"

lemma calls_inv: "calls p q \<Longrightarrow> inv p \<Longrightarrow> inv q"
proof (induction rule: calls.induct)
  case (calls_lookup p q i)
  then have "inv q" by blast
  with lookup_same [of q i] show ?case by (metis prod.collapse)
qed (simp_all add: inv_submit inv_submit_cn)

lemma calls_stable: "calls p q \<Longrightarrow> inv p \<Longrightarrow> acked p i = Some a \<Longrightarrow> acked q i = Some a"
proof (induction rule: calls.induct)
  case (calls_invoice p q d)
  then show ?case using submit_stable calls_inv by (metis prod.collapse)
next
  case (calls_credit_note p q c)
  then show ?case using submit_cn_stable calls_inv by (metis prod.collapse)
next
  case (calls_lookup p q j)
  then show ?case using lookup_same calls_inv by (metis prod.collapse)
qed simp

theorem one_ack_per_document:
  assumes "inv p" and "SubmitInvoice P d p = ((a, None), p1)" and "calls p1 p2"
    and "SubmitInvoice P d' p2 = ((a', None), p3)" and "doc_ID d' = doc_ID d"
  shows "a' = a"
proof -
  have "inv p1" using inv_submit [OF assms(1), of d] assms(2) by simp
  have "acked p1 (doc_ID d) = Some a" using assms(1,2) by (rule submit_ok)
  then have "acked p2 (doc_ID d) = Some a" using calls_stable assms(3) \<open>inv p1\<close> by blast
  moreover have "inv p2" using calls_inv assms(3) \<open>inv p1\<close> by blast
  ultimately have "acked p3 (doc_ID d) = Some a" using submit_stable assms(4) by blast
  moreover have "acked p3 (doc_ID d) = Some a'"
    using submit_ok [OF \<open>inv p2\<close> assms(4)] assms(5) by simp
  ultimately show ?thesis by simp
qed

theorem lookup_recovers:
  assumes "inv p" and "SubmitInvoice P d p = ((a, None), p1)" and "calls p1 p2"
    and "LookupInvoice P (doc_ID d) p2 = ((a', None), p3)"
  shows "a' = a \<and> p3 = p2"
proof -
  have "inv p1" using inv_submit [OF assms(1), of d] assms(2) by simp
  then have "inv p2" using calls_inv assms(3) by blast
  have "acked p1 (doc_ID d) = Some a" using assms(1,2) by (rule submit_ok)
  then have "acked p2 (doc_ID d) = Some a" using calls_stable assms(3) \<open>inv p1\<close> by blast
  with lookup_ok [OF \<open>inv p2\<close> assms(4)] lookup_same [OF \<open>inv p2\<close> assms(4)]
  show ?thesis by simp
qed

end

end
