(* ===== verification/FiscalState.thy ===== *)
theory FiscalState
  imports Prelude "HOL-Library.Transitive_Closure_Table"
begin

text \<open>
  \<open>internal/fiscal/state.go\<close> and \<open>internal/fiscal/errors.go\<close>: the invoice life cycle, the
  classification of submission errors and the retry policy. A \<open>State\<close> of the code is a
  string; the eight known ones are constructors here and \<open>UnknownState\<close> stands for any other
  text, so that the checks for unknown states are kept.
\<close>

datatype State =
    StateDraft | StateTaxPending | StateQueued | StateSubmitted | StateAcked
  | StateFailedRetryable | StateFailedTerminal | StateNeedsReview | UnknownState string

fun transitions :: "State \<Rightarrow> State list option" where
  "transitions StateDraft = Some [StateQueued]"
| "transitions StateTaxPending = Some [StateQueued]"
| "transitions StateQueued = Some [StateSubmitted]"
| "transitions StateSubmitted = Some [StateAcked, StateFailedRetryable, StateFailedTerminal]"
| "transitions StateFailedRetryable = Some [StateQueued, StateSubmitted, StateFailedTerminal]"
| "transitions StateFailedTerminal = Some [StateNeedsReview]"
| "transitions StateNeedsReview = Some [StateQueued]"
| "transitions StateAcked = Some []"
| "transitions (UnknownState s) = None"

definition state_valid :: "State \<Rightarrow> bool" where
  "state_valid s \<longleftrightarrow> transitions s \<noteq> None"

definition Terminal :: "State \<Rightarrow> bool" where
  "Terminal s \<longleftrightarrow> s = StateAcked \<or> s = StateNeedsReview \<or> s = StateTaxPending"

definition CanTransition :: "State \<Rightarrow> State \<Rightarrow> bool" where
  "CanTransition from to = (case transitions from of None \<Rightarrow> False | Some ts \<Rightarrow> to \<in> set ts)"

definition Transition :: "State \<Rightarrow> State \<Rightarrow> go_error + State" where
  "Transition from to =
     (if \<not> state_valid from \<or> \<not> state_valid to
      then Inl (Wrap ''fiscal: illegal state transition (unknown state)'' ErrIllegalTransition)
      else if \<not> CanTransition from to
      then Inl (Wrap ''fiscal: illegal state transition'' ErrIllegalTransition)
      else Inr to)"

definition MaxAttempts :: int where "MaxAttempts = 6"

definition backoffSchedule :: "duration list" where
  "backoffSchedule = [1 * minute, 5 * minute, 1 * hour, 12 * hour, 12 * hour]"

definition Backoff :: "int \<Rightarrow> duration" where
  "Backoff attempt =
     (if attempt < 1 then backoffSchedule ! 0
      else if attempt > int (length backoffSchedule)
      then backoffSchedule ! (length backoffSchedule - 1)
      else backoffSchedule ! nat (attempt - 1))"

datatype Class = ClassOK | ClassRetryable | ClassTerminal

definition Classify :: "go_error option \<Rightarrow> Class" where
  "Classify err =
     (case err of None \<Rightarrow> ClassOK
      | Some e \<Rightarrow> (case err_root e of
            ValidationError c m f \<Rightarrow> ClassTerminal
          | ConfigError c m \<Rightarrow> ClassTerminal
          | TransientError c m \<Rightarrow> ClassRetryable
          | DeadlineExceeded \<Rightarrow> ClassRetryable
          | Canceled \<Rightarrow> ClassRetryable
          | NetError m \<Rightarrow> ClassRetryable
          | _ \<Rightarrow> ClassRetryable))"

definition ErrorCode :: "go_error option \<Rightarrow> string" where
  "ErrorCode err =
     (case err of None \<Rightarrow> ''''
      | Some e \<Rightarrow> (case err_root e of
            ValidationError c m f \<Rightarrow> c
          | ConfigError c m \<Rightarrow> c
          | TransientError c m \<Rightarrow> c
          | DeadlineExceeded \<Rightarrow> ''timeout''
          | _ \<Rightarrow> ''unknown''))"

record Outcome =
  Next :: State
  RetryIn :: duration

definition Resolve :: "int \<Rightarrow> go_error option \<Rightarrow> Outcome" where
  "Resolve attempt err =
     (if err = None then \<lparr>Next = StateAcked, RetryIn = 0\<rparr>
      else case Classify err of
        ClassTerminal \<Rightarrow> \<lparr>Next = StateFailedTerminal, RetryIn = 0\<rparr>
      | _ \<Rightarrow> if attempt \<ge> MaxAttempts then \<lparr>Next = StateFailedTerminal, RetryIn = 0\<rparr>
            else \<lparr>Next = StateQueued, RetryIn = Backoff attempt\<rparr>)"

subsection \<open>Library lemmas\<close>

lemma CanTransition_simps [simp]:
  "CanTransition StateDraft t \<longleftrightarrow> t = StateQueued"
  "CanTransition StateTaxPending t \<longleftrightarrow> t = StateQueued"
  "CanTransition StateQueued t \<longleftrightarrow> t = StateSubmitted"
  "CanTransition StateSubmitted t \<longleftrightarrow> t = StateAcked \<or> t = StateFailedRetryable \<or> t = StateFailedTerminal"
  "CanTransition StateFailedRetryable t \<longleftrightarrow> t = StateQueued \<or> t = StateSubmitted \<or> t = StateFailedTerminal"
  "CanTransition StateFailedTerminal t \<longleftrightarrow> t = StateNeedsReview"
  "CanTransition StateNeedsReview t \<longleftrightarrow> t = StateQueued"
  "\<not> CanTransition StateAcked t"
  "\<not> CanTransition (UnknownState u) t"
  by (simp_all add: CanTransition_def)

lemma CanTransition_valid: "CanTransition s t \<Longrightarrow> state_valid s \<and> state_valid t"
  by (cases s) (auto simp: state_valid_def)

lemma state_valid_iff: "state_valid s \<longleftrightarrow> (\<forall>u. s \<noteq> UnknownState u)"
  by (cases s) (auto simp: state_valid_def)

lemma Transition_Inr: "Transition s t = Inr u \<longleftrightarrow> u = t \<and> CanTransition s t"
  by (auto simp: Transition_def dest: CanTransition_valid)

lemma Transition_Inl: "Transition s t = Inl e \<Longrightarrow> errors_is e ErrIllegalTransition"
  by (auto simp: Transition_def errors_is_def split: if_splits)

lemma queued_reaches_acked: "CanTransition\<^sup>*\<^sup>* StateQueued StateAcked"
  by (rule rtranclp.rtrancl_into_rtrancl [where b = StateSubmitted]) auto

lemma valid_reaches_queued: "state_valid s \<Longrightarrow> s \<noteq> StateAcked \<Longrightarrow> s \<noteq> StateQueued \<Longrightarrow> CanTransition\<^sup>+\<^sup>+ s StateQueued"
proof (cases s)
  case StateSubmitted
  have "CanTransition\<^sup>+\<^sup>+ StateSubmitted StateFailedRetryable" by (rule tranclp.r_into_trancl) simp
  then show ?thesis using StateSubmitted by (simp add: tranclp.trancl_into_trancl)
next
  case StateFailedTerminal
  have "CanTransition\<^sup>+\<^sup>+ StateFailedTerminal StateNeedsReview" by (rule tranclp.r_into_trancl) simp
  then show ?thesis using StateFailedTerminal by (simp add: tranclp.trancl_into_trancl)
qed (auto simp: state_valid_iff intro: tranclp.r_into_trancl)

lemma valid_reaches_acked: "state_valid s \<Longrightarrow> CanTransition\<^sup>*\<^sup>* s StateAcked"
  using valid_reaches_queued [of s] queued_reaches_acked
  by (metis rtranclp.rtrancl_refl rtranclp_trans tranclp_into_rtranclp)

lemma Backoff_cases:
  "Backoff n = (if n \<le> 1 then minute else if n = 2 then 5 * minute else if n = 3 then hour else 12 * hour)"
proof -
  have "n \<le> 1 \<or> n = 2 \<or> n = 3 \<or> n = 4 \<or> n = 5 \<or> n > 5" by arith
  then show ?thesis by (auto simp: Backoff_def backoffSchedule_def)
qed

lemma Backoff_mono: "m \<le> n \<Longrightarrow> Backoff m \<le> Backoff n"
  by (auto simp: Backoff_cases duration_defs)

lemma Backoff_pos: "0 < Backoff n"
  by (simp add: Backoff_cases duration_defs)

lemma Resolve_None [simp]: "Resolve n None = \<lparr>Next = StateAcked, RetryIn = 0\<rparr>"
  by (simp add: Resolve_def)

lemma Resolve_Some:
  "Resolve n (Some e) =
     (if Classify (Some e) = ClassTerminal \<or> MaxAttempts \<le> n
      then \<lparr>Next = StateFailedTerminal, RetryIn = 0\<rparr> else \<lparr>Next = StateQueued, RetryIn = Backoff n\<rparr>)"
  by (auto simp: Resolve_def split: Class.splits)

lemma Classify_ErrorString [simp]: "Classify (Some (ErrorString m)) = ClassRetryable"
  by (simp add: Classify_def)

subsection \<open>Properties\<close>

text \<open>
  The life cycle has no dead end and no way back from an acknowledgement: from every known
  state a path of allowed transitions leads to ACKED, ACKED has no successor, and no path leads
  from a known state to an unknown one. \<open>Transition\<close> accepts exactly the allowed moves and
  answers every other request with \<open>ErrIllegalTransition\<close>.
\<close>

theorem lifecycle_complete:
  "(state_valid s \<longrightarrow> CanTransition\<^sup>*\<^sup>* s StateAcked) \<and>
   (CanTransition\<^sup>*\<^sup>* StateAcked t \<longrightarrow> t = StateAcked) \<and>
   (state_valid s \<and> CanTransition\<^sup>*\<^sup>* s t \<longrightarrow> state_valid t) \<and>
   (Transition s t = Inr u \<longleftrightarrow> u = t \<and> CanTransition s t) \<and>
   (\<forall>e. Transition s t = Inl e \<longrightarrow> errors_is e ErrIllegalTransition)"
proof (intro conjI impI allI)
  assume "CanTransition\<^sup>*\<^sup>* StateAcked t"
  then show "t = StateAcked" by (cases rule: converse_rtranclpE) auto
next
  assume "state_valid s \<and> CanTransition\<^sup>*\<^sup>* s t"
  then show "state_valid t" by (auto elim: rtranclp.cases dest: CanTransition_valid)
qed (auto simp: Transition_Inr dest: Transition_Inl valid_reaches_acked)

theorem lifecycle_complete_witness:
  "CanTransition\<^sup>*\<^sup>* StateFailedTerminal StateAcked \<and> Transition StateQueued StateSubmitted = Inr StateSubmitted"
  using lifecycle_complete [of StateFailedTerminal StateAcked StateAcked]
    lifecycle_complete [of StateQueued StateSubmitted StateSubmitted]
  by (simp add: state_valid_def)

text \<open>
  The retry policy. A success is acknowledged; a validation or configuration error, wrapped
  or not, is terminal at once; any other error is retried with the scheduled back-off until the
  sixth attempt, which is terminal. A delay is set exactly when the invoice is queued again, is
  positive, never shrinks as attempts go on, and the five retries of an invoice that keeps
  failing wait 25 hours and 6 minutes in all.
\<close>

theorem retry_policy:
  "Resolve n None = \<lparr>Next = StateAcked, RetryIn = 0\<rparr> \<and>
   (Next (Resolve n (Some e)) = StateQueued \<longleftrightarrow> Classify (Some e) = ClassRetryable \<and> n < 6) \<and>
   (Next (Resolve n (Some e)) \<noteq> StateQueued \<longrightarrow> Next (Resolve n (Some e)) = StateFailedTerminal) \<and>
   (0 < RetryIn (Resolve n err) \<longleftrightarrow> Next (Resolve n err) = StateQueued) \<and>
   (Next (Resolve n err) = StateQueued \<longrightarrow> Next (Resolve m err) = StateQueued \<longrightarrow> m \<le> n \<longrightarrow>
      RetryIn (Resolve m err) \<le> RetryIn (Resolve n err)) \<and>
   (Classify (Some e) = ClassTerminal \<longleftrightarrow>
      (\<exists>c m f. err_root e = ValidationError c m f) \<or> (\<exists>c m. err_root e = ConfigError c m)) \<and>
   (Classify (Some e) = ClassRetryable \<longrightarrow>
      (\<Sum>k = 1..5. RetryIn (Resolve k (Some e))) = 25 * hour + 6 * minute)"
proof (intro conjI)
  show "Next (Resolve n (Some e)) = StateQueued \<longleftrightarrow> Classify (Some e) = ClassRetryable \<and> n < 6"
    by (cases "Classify (Some e)")
      (auto simp: Resolve_Some MaxAttempts_def Classify_def split: go_error.splits)
  show "0 < RetryIn (Resolve n err) \<longleftrightarrow> Next (Resolve n err) = StateQueued"
    by (cases err) (auto simp: Resolve_Some Backoff_pos)
  show "Next (Resolve n err) = StateQueued \<longrightarrow> Next (Resolve m err) = StateQueued \<longrightarrow> m \<le> n \<longrightarrow>
      RetryIn (Resolve m err) \<le> RetryIn (Resolve n err)"
    by (cases err) (auto simp: Resolve_Some Backoff_mono)
  show "Classify (Some e) = ClassTerminal \<longleftrightarrow>
      (\<exists>c m f. err_root e = ValidationError c m f) \<or> (\<exists>c m. err_root e = ConfigError c m)"
    by (auto simp: Classify_def split: go_error.splits)
  have "{1..5::int} = {1, 2, 3, 4, 5}" by auto
  then show "Classify (Some e) = ClassRetryable \<longrightarrow>
      (\<Sum>k = 1..5. RetryIn (Resolve k (Some e))) = 25 * hour + 6 * minute"
    by (auto simp: Resolve_Some MaxAttempts_def Backoff_cases duration_defs)
qed (auto simp: Resolve_Some)

theorem retry_policy_witness:
  "Next (Resolve 5 (Some (Wrap ''x'' (TransientError ''upstream_5xx'' ''m'')))) = StateQueued \<and>
   Next (Resolve 6 (Some (Wrap ''x'' (TransientError ''upstream_5xx'' ''m'')))) = StateFailedTerminal"
  using retry_policy [of 5 "Wrap ''x'' (TransientError ''upstream_5xx'' ''m'')" None 1]
    retry_policy [of 6 "Wrap ''x'' (TransientError ''upstream_5xx'' ''m'')" None 1]
  by (auto simp: Classify_def)

end
