(* ===== verification/Store.thy ===== *)
theory Store
  imports Provider FiscalState
begin

text \<open>
  The database as the program sees it: the tables of \<open>db/migrations\<close>, the row-level
  security scopes and the transactions of \<open>internal/platform/db/db.go\<close>, and the River job
  insertions of \<open>internal/platform/jobs/jobs.go\<close>.

  A transaction body is a state transformer \<open>'a tx\<close> that returns an error or a value. A
  statement of an aborted transaction fails with SQLSTATE 25P02, and a statement that
  violates a constraint aborts its transaction; \<open>scoped\<close> commits the body's effects or
  restores the tables. Conventions: a nil or NULL byte string is \<open>[]\<close>; \<open>numeric(12,3)\<close>
  is an integer number of thousandths; JSON that the code writes and never reads back is
  kept structured; foreign keys are not modelled (no row of these tables is ever deleted
  and every reference the code stores is the id of a row it read or created). A fresh
  identifier is a number greater than every identifier handed out before.
\<close>

subsection \<open>Rows\<close>

record Org =
  org_id :: uuid
  org_name :: string
  org_kra_pin_enc :: bytes
  org_kra_pin_hash :: bytes
  org_vat_registered :: bool
  org_fiscal_profile :: string
  org_locale :: string
  org_etims_status :: string
  org_pin_verified_at :: "time option"
  org_kra_bhf_id :: "string option"
  org_kra_device_serial :: "string option"
  org_kra_cmc_key_enc :: bytes
  org_etims_failed_reason :: "string option"
  org_etims_initialized_at :: "time option"
  org_daraja_status :: string
  org_created_at :: time

record User =
  user_id :: uuid
  user_msisdn_enc :: bytes
  user_msisdn_hash :: bytes
  user_name :: string
  user_locale :: string
  user_email :: "string option"
  user_created_at :: time

record Membership =
  mem_id :: uuid
  mem_org_id :: uuid
  mem_user_id :: uuid
  mem_role :: string
  mem_is_default :: bool
  mem_created_at :: time

record SessionRow =
  ses_id :: uuid
  ses_user_id :: uuid
  ses_token_hash :: bytes
  ses_csrf_token :: string
  ses_expires_at :: time
  ses_revoked_at :: "time option"
  ses_user_agent :: string
  ses_ip :: "string option"

record OtpCode =
  otp_id :: uuid
  otp_msisdn_hash :: bytes
  otp_code_hash :: bytes
  otp_expires_at :: time
  otp_attempts :: int
  otp_consumed_at :: "time option"
  otp_created_at :: time

record OrgInvite =
  oi_id :: uuid
  oi_org_id :: uuid
  oi_invited_by :: uuid
  oi_role :: string
  oi_phone :: "string option"
  oi_phone_hash :: bytes
  oi_email :: "string option"
  oi_status :: string
  oi_created_at :: time
  oi_updated_at :: time

record WebhookEvent =
  we_id :: uuid
  we_kind :: string
  we_external_id :: string
  we_payload :: string
  we_received_at :: time
  we_processed_at :: "time option"
  we_error :: "string option"

record Item =
  item_id :: uuid
  item_org_id :: uuid
  item_name :: string
  item_class_code :: string
  item_tax_category :: string
  item_unit :: string
  item_price_cents :: int
  item_is_active :: bool
  item_track_stock :: bool
  item_stock_qty :: int

record Shortcode =
  sc_id :: uuid
  sc_org_id :: uuid
  sc_kind :: string
  sc_shortcode :: string
  sc_label :: string
  sc_default_item_id :: "uuid option"
  sc_auto_invoice :: bool
  sc_verified_at :: "time option"
  sc_status :: string
  sc_letter_path :: "string option"
  sc_submitted_at :: "time option"
  sc_reviewed_by :: "string option"
  sc_reviewed_at :: "time option"
  sc_rejection_reason :: "string option"
  sc_c2b_registered_at :: "time option"
  sc_created_at :: time

record Customer =
  cust_id :: uuid
  cust_org_id :: uuid
  cust_name :: string
  cust_msisdn_enc :: bytes
  cust_msisdn_hash :: bytes
  cust_kra_pin_enc :: bytes
  cust_kra_pin_hash :: bytes
  cust_created_at :: time

record Sale =
  sale_id :: uuid
  sale_org_id :: uuid
  sale_ref :: string
  sale_kind :: string
  sale_status :: string
  sale_customer_id :: "uuid option"
  sale_subtotal_cents :: int
  sale_tax_cents :: int
  sale_total_cents :: int
  sale_client_ref :: "string option"
  sale_created_by :: "uuid option"
  sale_paid_at :: "time option"
  sale_buyer_name :: string
  sale_created_at :: time

record SaleItem =
  si_id :: uuid
  si_org_id :: uuid
  si_sale_id :: uuid
  si_item_id :: "uuid option"
  si_description :: string
  si_class_code :: string
  si_unit :: string
  si_qty :: int
  si_unit_price_cents :: int
  si_tax_category :: string
  si_tax_rate_bp :: int
  si_line_total_cents :: int
  si_line_tax_cents :: int
  si_position :: int

record StkRequest =
  stk_id :: uuid
  stk_org_id :: uuid
  stk_sale_id :: "uuid option"
  stk_shortcode_id :: uuid
  stk_msisdn_hash :: bytes
  stk_amount_cents :: int
  stk_checkout_id :: string
  stk_purpose :: string
  stk_status :: string
  stk_result_code :: "int option"
  stk_result_desc :: "string option"
  stk_created_at :: time

record Payment =
  pay_id :: uuid
  pay_org_id :: uuid
  pay_shortcode_id :: uuid
  pay_webhook_event_id :: "uuid option"
  pay_trans_id :: string
  pay_amount_cents :: int
  pay_msisdn_enc :: bytes
  pay_msisdn_hash :: bytes
  pay_payer_name :: string
  pay_bill_ref :: string
  pay_paid_at :: time
  pay_status :: string
  pay_sale_id :: "uuid option"
  pay_match_rule :: "string option"
  pay_reversed_at :: "time option"

record Invoice =
  inv_id :: uuid
  inv_org_id :: uuid
  inv_sale_id :: uuid
  inv_payment_id :: "uuid option"
  inv_kind :: string
  inv_parent_id :: "uuid option"
  inv_state :: State
  inv_attempt :: int
  inv_next_attempt_at :: "time option"
  inv_buyer_pin_enc :: bytes
  inv_buyer_pin_hash :: bytes
  inv_buyer_name :: string
  inv_kra_invoice_no :: "string option"
  inv_kra_signature :: "string option"
  inv_kra_qr_payload :: "string option"
  inv_receipt_code :: string
  inv_subtotal_cents :: int
  inv_tax_cents :: int
  inv_total_cents :: int
  inv_issued_at :: time
  inv_submitted_at :: "time option"
  inv_acked_at :: "time option"
  inv_last_error :: "string option"
  inv_created_at :: time
  inv_updated_at :: time
  inv_superseded_by :: "uuid option"
  inv_superseded_at :: "time option"

record FiscalSubmission =
  fs_id :: uuid
  fs_org_id :: uuid
  fs_invoice_id :: uuid
  fs_attempt :: int
  fs_adapter :: string
  fs_request :: FiscalInvoice
  fs_response :: string
  fs_error :: "string option"
  fs_classification :: Class

record UsageCounter =
  uc_org_id :: uuid
  uc_period :: string
  uc_invoices_acked :: int
  uc_sms_sent :: int
  uc_whatsapp_sent :: int

record Notification =
  nt_id :: uuid
  nt_org_id :: uuid
  nt_invoice_id :: "uuid option"
  nt_channel :: string
  nt_to_msisdn_enc :: bytes
  nt_to_msisdn_hash :: bytes
  nt_template :: string
  nt_locale :: string
  nt_body :: string
  nt_message_id :: "string option"
  nt_status :: string
  nt_cost_cents :: int
  nt_sent_at :: "time option"
  nt_delivered_at :: "time option"
  nt_created_at :: time

record Plan =
  plan_code :: string
  plan_name :: string
  plan_price_cents :: int
  plan_invoice_cap :: "int option"
  plan_overage_cents :: int
  plan_features :: string

record Subscription =
  sub_org_id :: uuid
  sub_plan_code :: string
  sub_status :: string
  sub_period_start :: time
  sub_period_end :: "time option"

text \<open>The \<open>after\<close> column of the audit log, one constructor per JSON shape the code formats.\<close>

datatype AuditAfter =
    NoAfter
  | RawAfter string
  | CountAfter int
  | ErrorAfter string
  | RescueAfter string int
  | CreditAfter string uuid
  | ShaAfter string
  | NoteAfter string
  | ReasonAfter string

record Audit =
  au_org_id :: uuid
  au_actor_type :: string
  au_actor_id :: "string option"
  au_action :: string
  au_entity :: string
  au_entity_id :: uuid
  au_after :: AuditAfter
  au_at :: time

text \<open>A call of River's \<open>InsertTx\<close>, committed with its transaction; \<open>None\<close>: run at once.\<close>

datatype JobArgs =
    SubmitInvoiceArgs uuid uuid
  | SendReceiptArgs uuid uuid string

type_synonym JobRequest = "JobArgs \<times> time option"

subsection \<open>The store\<close>

record tables =
  orgs :: "Org list"
  webhook_events :: "WebhookEvent list"
  items :: "Item list"
  mpesa_shortcodes :: "Shortcode list"
  customers :: "Customer list"
  sales :: "Sale list"
  sale_items :: "SaleItem list"
  stk_requests :: "StkRequest list"
  payments :: "Payment list"
  invoices :: "Invoice list"
  fiscal_submissions :: "FiscalSubmission list"
  usage_counters :: "UsageCounter list"
  audit_log :: "Audit list"
  jobs :: "JobRequest list"
  users :: "User list"
  memberships :: "Membership list"
  sessions :: "SessionRow list"
  otp_codes :: "OtpCode list"
  org_invites :: "OrgInvite list"
  notifications :: "Notification list"
  plans :: "Plan list"
  subscriptions :: "Subscription list"
  next_id :: uuid

text \<open>
  The scope set by \<open>set_config\<close>, the transaction's \<open>now()\<close>, whether the transaction is
  aborted, and the process's source of random bytes (what the n-th read of \<open>crypto/rand\<close>
  delivers, or how it fails).
\<close>

datatype Scope =
    ScopeNone | ScopeOrg uuid | ScopeIngest | ScopeAdmin | ScopeAccountant | ScopeReceipt string

record db = tables +
  clock :: time
  scope :: Scope
  aborted :: bool
  entropy :: "nat \<Rightarrow> go_error + (nat \<Rightarrow> nat)"
  reads :: nat

type_synonym 'a tx = "db \<Rightarrow> (go_error + 'a) \<times> db"

subsection \<open>Transaction bodies\<close>

definition ret :: "'a \<Rightarrow> 'a tx" where
  "ret x = (\<lambda>s. (Inr x, s))"

definition raise :: "go_error \<Rightarrow> 'a tx" where
  "raise e = (\<lambda>s. (Inl e, s))"

definition tbind :: "'a tx \<Rightarrow> ('a \<Rightarrow> 'b tx) \<Rightarrow> 'b tx" where
  "tbind m f = (\<lambda>s. case m s of (Inl e, s') \<Rightarrow> (Inl e, s') | (Inr x, s') \<Rightarrow> f x s')"

text \<open>\<open>x, err := m\<close> with the error inspected by the caller; a panic is not an error value.\<close>

definition attempt :: "'a tx \<Rightarrow> (go_error + 'a) tx" where
  "attempt m = (\<lambda>s. case m s of
     (Inl e, s') \<Rightarrow> if is_panic e then (Inl e, s') else (Inr (Inl e), s')
   | (Inr x, s') \<Rightarrow> (Inr (Inr x), s'))"

text \<open>\<open>_ = m\<close>\<close>

definition ignore :: "'a tx \<Rightarrow> unit tx" where
  "ignore m = tbind (attempt m) (\<lambda>_. ret ())"

definition of_result :: "go_error + 'a \<Rightarrow> 'a tx" where
  "of_result r = (\<lambda>s. (r, s))"

fun for_each :: "('a \<Rightarrow> unit tx) \<Rightarrow> 'a list \<Rightarrow> unit tx" where
  "for_each f [] = ret ()"
| "for_each f (x # xs) = tbind (f x) (\<lambda>_. for_each f xs)"

text \<open>\<open>rand.Read\<close> into a buffer of \<open>k\<close> bytes.\<close>

definition rand_read :: "nat \<Rightarrow> (go_error + nat list) tx" where
  "rand_read k = (\<lambda>s. (Inr (case entropy s (reads s) of
     Inl e \<Rightarrow> Inl e | Inr f \<Rightarrow> Inr (map (\<lambda>i. f i mod 256) [0..<k])), s\<lparr>reads := Suc (reads s)\<rparr>))"

text \<open>One SQL statement that may write, and one that only reads.\<close>

definition in_failed_tx :: go_error where
  "in_failed_tx = PgError ''25P02''"

definition stmt :: "(db \<Rightarrow> go_error + ('a \<times> db)) \<Rightarrow> 'a tx" where
  "stmt q = (\<lambda>s. if aborted s then (Inl in_failed_tx, s)
     else case q s of
       Inl (PgError c) \<Rightarrow> (Inl (PgError c), s\<lparr>aborted := True\<rparr>)
     | Inl e \<Rightarrow> (Inl e, s)
     | Inr (x, s') \<Rightarrow> (Inr x, s'))"

definition query :: "(db \<Rightarrow> 'a) \<Rightarrow> 'a tx" where
  "query q = (\<lambda>s. if aborted s then (Inl in_failed_tx, s) else (Inr (q s), s))"

definition query_one :: "(db \<Rightarrow> 'a option) \<Rightarrow> 'a tx" where
  "query_one q = tbind (query q) (\<lambda>r. case r of None \<Rightarrow> raise ErrNoRows | Some x \<Rightarrow> ret x)"

definition update :: "(db \<Rightarrow> db) \<Rightarrow> unit tx" where
  "update u = stmt (\<lambda>s. Inr ((), u s))"

text \<open>
  \<open>DB.scoped\<close>: begin, set the scope, run the body, commit. An error of the body rolls the
  tables back; so does the commit of an aborted transaction, which reports an error.
\<close>

definition rollback :: "db \<Rightarrow> db \<Rightarrow> db" where
  "rollback s s' = s\<lparr>reads := reads s'\<rparr>"

definition commit_rolled_back :: go_error where
  "commit_rolled_back = ErrorString ''commit unexpectedly resulted in rollback''"

definition scoped :: "Scope \<Rightarrow> 'a tx \<Rightarrow> 'a tx" where
  "scoped sc fn = (\<lambda>s. case fn (s\<lparr>scope := sc, aborted := False\<rparr>) of
     (Inl e, s') \<Rightarrow> (Inl e, rollback s s')
   | (Inr x, s') \<Rightarrow>
       if aborted s' then (Inl commit_rolled_back, rollback s s')
       else (Inr x, s'\<lparr>scope := scope s, aborted := aborted s\<rparr>))"

definition WithOrg :: "uuid \<Rightarrow> 'a tx \<Rightarrow> 'a tx" where "WithOrg oid fn = scoped (ScopeOrg oid) fn"
definition WithIngest :: "'a tx \<Rightarrow> 'a tx" where "WithIngest fn = scoped ScopeIngest fn"
definition WithAdmin :: "'a tx \<Rightarrow> 'a tx" where "WithAdmin fn = scoped ScopeAdmin fn"
definition WithAccountant :: "'a tx \<Rightarrow> 'a tx" where
  "WithAccountant fn = scoped ScopeAccountant fn"
definition WithReceipt :: "string \<Rightarrow> 'a tx \<Rightarrow> 'a tx" where
  "WithReceipt code fn = scoped (ScopeReceipt code) fn"
definition Unscoped :: "'a tx \<Rightarrow> 'a tx" where "Unscoped fn = scoped ScopeNone fn"

lemmas scope_defs = WithOrg_def WithIngest_def WithAdmin_def WithAccountant_def
  WithReceipt_def Unscoped_def

end
