(* ===== verification/Formats.thy ===== *)
theory Formats
  imports Prelude
begin

text \<open>
  Printing: decimal and hexadecimal numbers, the canonical text of a UUID, the civil
  calendar behind \<open>to_char(..., 'YYMMDD')\<close> and Go's \<open>Format("2006-01")\<close>, and the Nairobi
  day (UTC+3 throughout the year).
\<close>

definition digit_char :: "int \<Rightarrow> char" where
  "digit_char d = ''0123456789abcdef'' ! nat (d mod 16)"

function digits :: "int \<Rightarrow> int \<Rightarrow> string" where
  "digits base n =
     (if base < 2 \<or> n < base then [digit_char n]
      else digits base (n div base) @ [digit_char (n mod base)])"
  by pat_completeness auto
termination
proof (relation "measure (\<lambda>(base, n). nat n)", simp)
  fix base n :: int
  assume "\<not> (base < 2 \<or> n < base)"
  then have "n div base < n" and "0 < n" by (simp_all add: int_div_less_self)
  then show "((base, n div base), (base, n)) \<in> measure (\<lambda>(base, n). nat n)" by simp
qed

declare digits.simps [simp del]

definition itoa :: "int \<Rightarrow> string" where
  "itoa n = (if n < 0 then ''-'' @ digits 10 (- n) else digits 10 n)"

text \<open>\<open>%0wd\<close> of a natural number: padded, never cut.\<close>

definition zero_pad :: "nat \<Rightarrow> int \<Rightarrow> string" where
  "zero_pad w n = replicate (w - length (digits 10 n)) (CHR ''0'') @ digits 10 n"

text \<open>SQL's \<open>lpad(s, w, '0')\<close>, which cuts a longer text to its first \<open>w\<close> characters.\<close>

definition lpad :: "string \<Rightarrow> nat \<Rightarrow> string" where
  "lpad s w = (if w < length s then take w s else replicate (w - length s) (CHR ''0'') @ s)"

definition hex32 :: "nat \<Rightarrow> string" where
  "hex32 n = (let h = digits 16 (int n) in replicate (32 - length h) (CHR ''0'') @ h)"

definition uuid_String :: "uuid \<Rightarrow> string" where
  "uuid_String n = (let h = hex32 n in
     take 8 h @ ''-'' @ take 4 (drop 8 h) @ ''-'' @ take 4 (drop 12 h) @ ''-'' @
     take 4 (drop 16 h) @ ''-'' @ drop 20 h)"

subsection \<open>Calendar\<close>

definition day :: duration where "day = 24 * hour"

text \<open>Year, month and day of the \<open>n\<close>-th day after 1 January of year 1.\<close>

definition civil :: "int \<Rightarrow> int \<times> int \<times> int" where
  "civil n = (let z = n + 306; era = z div 146097; doe = z mod 146097;
     yoe = (doe - doe div 1460 + doe div 36524 - doe div 146096) div 365;
     doy = doe - (365 * yoe + yoe div 4 - yoe div 100);
     mp = (5 * doy + 2) div 153;
     m = (if mp < 10 then mp + 3 else mp - 9)
     in (yoe + era * 400 + (if m \<le> 2 then 1 else 0), m, doy - (153 * mp + 2) div 5 + 1))"

definition nairobi_offset :: duration where "nairobi_offset = 3 * hour"

definition nairobi_day :: "time \<Rightarrow> int" where
  "nairobi_day t = (t + nairobi_offset) div day"

definition nairobi_midnight :: "time \<Rightarrow> time" where
  "nairobi_midnight t = nairobi_day t * day - nairobi_offset"

definition two :: "int \<Rightarrow> string" where "two n = zero_pad 2 (n mod 100)"

definition YYMMDD :: "time \<Rightarrow> string" where
  "YYMMDD t = (case civil (nairobi_day t) of (y, m, d) \<Rightarrow> two y @ two m @ two d)"

text \<open>\<open>t.Format("2006-01")\<close> in UTC.\<close>

definition format_month :: "time \<Rightarrow> string" where
  "format_month t = (case civil (t div day) of (y, m, d) \<Rightarrow> zero_pad 4 y @ ''-'' @ two m)"

subsection \<open>Lemmas\<close>

lemma nairobi_midnight_le: "nairobi_midnight t \<le> t" and nairobi_midnight_day: "t < nairobi_midnight t + day"
proof -
  have pos: "(0::int) < day" by (simp add: day_def duration_defs)
  show "nairobi_midnight t \<le> t"
    using div_mult_mod_eq [of "t + nairobi_offset" day] pos_mod_sign [OF pos, of "t + nairobi_offset"]
    unfolding nairobi_midnight_def nairobi_day_def by linarith
  show "t < nairobi_midnight t + day"
    using div_mult_mod_eq [of "t + nairobi_offset" day] pos_mod_bound [OF pos, of "t + nairobi_offset"]
    unfolding nairobi_midnight_def nairobi_day_def by linarith
qed

lemma digits_not_Nil [simp]: "digits b n \<noteq> []"
  by (subst digits.simps) simp

end
