(* ===== verification/ReceiptCode.thy ===== *)
theory ReceiptCode
  imports Prelude
begin

text \<open>
  \<open>internal/fiscal/receiptcode.go\<close>: the six-character Crockford base32 codes of the public
  receipt links, and the normalisation of what a buyer types. The six random bytes of
  \<open>rand.Read\<close> are an argument.
\<close>

definition crockford :: string where
  "crockford = ''0123456789ABCDEFGHJKMNPQRSTVWXYZ''"

definition ReceiptCodeLen :: nat where "ReceiptCodeLen = 6"

definition NewReceiptCode :: "go_error + nat list \<Rightarrow> go_error + string" where
  "NewReceiptCode rand =
     (case rand of Inl e \<Rightarrow> Inl e
      | Inr b \<Rightarrow> Inr (map (\<lambda>v. crockford ! (v mod length crockford)) b))"

text \<open>\<open>strings.NewReplacer("I", "1", "L", "1", "O", "0", "U", "V", "-", "", " ", "")\<close>\<close>

definition replace_char :: "char \<Rightarrow> string" where
  "replace_char c =
     (if c = CHR ''I'' then ''1'' else if c = CHR ''L'' then ''1''
      else if c = CHR ''O'' then ''0'' else if c = CHR ''U'' then ''V''
      else if c = CHR ''-'' then '''' else if c = CHR '' '' then '''' else [c])"

definition NormaliseReceiptCode :: "string \<Rightarrow> go_error + string" where
  "NormaliseReceiptCode s0 =
     (let s = concat (map replace_char (to_upper (trim_space s0)))
      in if length s \<noteq> ReceiptCodeLen
         then Inl (Wrap ''fiscal: invalid receipt code: must be 6 characters'' ErrInvalidReceiptCode)
         else if \<not> list_all (\<lambda>c. c \<in> set crockford) s
         then Inl (Wrap ''fiscal: invalid receipt code: invalid character'' ErrInvalidReceiptCode)
         else Inr s)"

definition valid_receipt_code :: "string \<Rightarrow> bool" where
  "valid_receipt_code c \<longleftrightarrow> length c = ReceiptCodeLen \<and> list_all (\<lambda>x. x \<in> set crockford) c"

lemma crockford_fixed:
  "list_all (\<lambda>c. (is_digit c \<or> is_upper c) \<and> replace_char c = [c]) crockford"
  by code_simp

lemma crockford_alnum: "c \<in> set crockford \<Longrightarrow> is_digit c \<or> is_upper c"
  and crockford_kept: "c \<in> set crockford \<Longrightarrow> replace_char c = [c]"
  using crockford_fixed by (auto simp: list_all_iff)

lemma replace_kept: "list_all (\<lambda>x. x \<in> set crockford) s \<Longrightarrow> concat (map replace_char s) = s"
  by (induction s) (auto simp: crockford_kept)

lemma trim_kept:
  assumes "list_all (\<lambda>x. x \<in> set crockford) s" and "s \<noteq> []"
  shows "trim_space s = s"
  using assms by (intro trim_space_solid) (auto simp: list_all_iff intro!: solid_alnum crockford_alnum)

lemma normalise_valid: "valid_receipt_code c \<Longrightarrow> NormaliseReceiptCode c = Inr c"
proof -
  assume v: "valid_receipt_code c"
  then have ne: "c \<noteq> []" and all: "list_all (\<lambda>x. x \<in> set crockford) c"
    by (auto simp: valid_receipt_code_def ReceiptCodeLen_def)
  have "list_all (\<lambda>x. is_digit x \<or> is_upper x) c"
    using all crockford_alnum by (auto simp: list_all_iff)
  then have "to_upper (trim_space c) = c" by (simp add: trim_kept [OF all ne] to_upper_id)
  then show ?thesis using v replace_kept [OF all]
    by (simp add: NormaliseReceiptCode_def Let_def valid_receipt_code_def)
qed

lemma normalise_result: "NormaliseReceiptCode s = Inr c \<Longrightarrow> valid_receipt_code c"
  by (auto simp: NormaliseReceiptCode_def valid_receipt_code_def Let_def split: if_splits)

lemma normalise_error: "NormaliseReceiptCode s = Inl e \<Longrightarrow> errors_is e ErrInvalidReceiptCode"
  by (auto simp: NormaliseReceiptCode_def errors_is_def Let_def split: if_splits)

lemma crockford_nth: "i < 32 \<Longrightarrow> crockford ! i \<in> set crockford"
  by (rule nth_mem) (simp add: crockford_def)

lemma new_receipt_code_valid:
  "length b = ReceiptCodeLen \<Longrightarrow> NewReceiptCode (Inr b) = Inr c \<Longrightarrow> valid_receipt_code c"
proof -
  have "length crockford = 32" by (simp add: crockford_def)
  then show "length b = ReceiptCodeLen \<Longrightarrow> NewReceiptCode (Inr b) = Inr c \<Longrightarrow> valid_receipt_code c"
    by (auto simp: NewReceiptCode_def valid_receipt_code_def list_all_iff intro!: crockford_nth)
qed

text \<open>
  Receipt codes round-trip: a freshly drawn code is accepted unchanged by
  \<open>NormaliseReceiptCode\<close>, so the link printed on a receipt always resolves; whatever
  normalisation accepts is a six-character code over the Crockford alphabet and a fixed point
  of it; every rejection is an \<open>ErrInvalidReceiptCode\<close>; and every code of the alphabet can be
  drawn.
\<close>

theorem receipt_code_roundtrip:
  "(length b = ReceiptCodeLen \<longrightarrow>
      (\<exists>c. NewReceiptCode (Inr b) = Inr c \<and> valid_receipt_code c \<and> NormaliseReceiptCode c = Inr c)) \<and>
   (\<forall>c. NormaliseReceiptCode s = Inr c \<longrightarrow> valid_receipt_code c \<and> NormaliseReceiptCode c = Inr c) \<and>
   (\<forall>e. NormaliseReceiptCode s = Inl e \<longrightarrow> errors_is e ErrInvalidReceiptCode) \<and>
   (\<forall>c. valid_receipt_code c \<longrightarrow>
      (\<exists>b. length b = ReceiptCodeLen \<and> list_all (\<lambda>v. v < 256) b \<and> NewReceiptCode (Inr b) = Inr c))"
proof (intro conjI allI impI)
  assume "length b = ReceiptCodeLen"
  then show "\<exists>c. NewReceiptCode (Inr b) = Inr c \<and> valid_receipt_code c \<and> NormaliseReceiptCode c = Inr c"
    using new_receipt_code_valid [of b] normalise_valid by (auto simp: NewReceiptCode_def)
next
  fix c assume c: "valid_receipt_code c"
  define b where "b = map (\<lambda>x. SOME i. i < 32 \<and> crockford ! i = x) c"
  have l: "length crockford = 32" by (simp add: crockford_def)
  have *: "\<exists>i. i < 32 \<and> crockford ! i = x" if "x \<in> set c" for x
  proof -
    have "x \<in> set crockford" using that c by (auto simp: valid_receipt_code_def list_all_iff)
    then show ?thesis by (simp add: in_set_conv_nth l)
  qed
  have **: "(SOME i. i < 32 \<and> crockford ! i = x) < 32 \<and>
      crockford ! (SOME i. i < 32 \<and> crockford ! i = x) = x" if "x \<in> set c" for x
    using someI_ex [OF * [OF that]] .
  have "map (\<lambda>v. crockford ! (v mod length crockford)) b = c"
    unfolding b_def map_map comp_def l using ** by (intro map_idI) auto
  then have "NewReceiptCode (Inr b) = Inr c" by (simp add: NewReceiptCode_def)
  moreover have "list_all (\<lambda>v. v < 256) b" using ** by (fastforce simp: b_def list_all_iff)
  moreover have "length b = ReceiptCodeLen" using c by (simp add: b_def valid_receipt_code_def)
  ultimately show "\<exists>b. length b = ReceiptCodeLen \<and> list_all (\<lambda>v. v < 256) b \<and> NewReceiptCode (Inr b) = Inr c"
    by blast
qed (auto dest: normalise_result normalise_error intro: normalise_valid)

theorem receipt_code_roundtrip_witness:
  "NewReceiptCode (Inr [0, 33, 66, 99, 132, 255]) = Inr ''01234Z'' \<and>
   NormaliseReceiptCode ''01234Z'' = Inr ''01234Z''"
proof -
  have e: "NewReceiptCode (Inr [0, 33, 66, 99, 132, 255]) = Inr ''01234Z''"
    by (simp add: NewReceiptCode_def crockford_def)
  then show ?thesis
    using receipt_code_roundtrip [of "[0, 33, 66, 99, 132, 255]" "''01234Z''"]
    by (simp add: ReceiptCodeLen_def)
qed

end
