(* ===== verification/Queries.thy ===== *)
theory Queries
  imports Store Formats ReceiptCode
begin

text \<open>
  The SQL of \<open>db/queries\<close> (compiled to \<open>internal/platform/db/gen\<close>) that the modelled
  components run, each as a transaction body over the store: the row-level-security
  policies, CHECK constraints and unique indexes of \<open>db/migrations\<close> that bear on it, its
  condition, its ordering and its RETURNING clause. A row that the scope of the
  transaction does not see does not exist for the statement.
\<close>

subsection \<open>Row-level security\<close>

definition own :: "db \<Rightarrow> uuid \<Rightarrow> bool" where
  "own s oid \<longleftrightarrow> scope s = ScopeOrg oid"

text \<open>\<open>get_receipt_chain_invoice_ids\<close>: the invoice and at most nine successors.\<close>

fun chain_from :: "nat \<Rightarrow> Invoice list \<Rightarrow> Invoice \<Rightarrow> Invoice list" where
  "chain_from 0 rows i = [i]"
| "chain_from (Suc n) rows i = i # (case inv_superseded_by i of None \<Rightarrow> []
     | Some j \<Rightarrow> (case row_by inv_id j rows of None \<Rightarrow> [] | Some k \<Rightarrow> chain_from n rows k))"

definition receipt_chain :: "Invoice list \<Rightarrow> string \<Rightarrow> Invoice list" where
  "receipt_chain rows code = (case row_by inv_receipt_code code rows of None \<Rightarrow> []
     | Some i \<Rightarrow> chain_from 9 rows i)"

definition receipt_sees :: "db \<Rightarrow> Invoice \<Rightarrow> bool" where
  "receipt_sees s i \<longleftrightarrow> (case scope s of
     ScopeReceipt code \<Rightarrow> code \<noteq> [] \<and>
       (inv_receipt_code i = code \<or> inv_id i \<in> inv_id ` set (receipt_chain (invoices s) code))
   | _ \<Rightarrow> False)"

definition sees_invoice :: "db \<Rightarrow> Invoice \<Rightarrow> bool" where
  "sees_invoice s i \<longleftrightarrow> own s (inv_org_id i) \<or> scope s = ScopeAdmin \<or> receipt_sees s i"

definition writes_invoice :: "db \<Rightarrow> Invoice \<Rightarrow> bool" where
  "writes_invoice s i \<longleftrightarrow> own s (inv_org_id i) \<or> scope s = ScopeAdmin"

definition sees_sale :: "db \<Rightarrow> Sale \<Rightarrow> bool" where
  "sees_sale s r \<longleftrightarrow> own s (sale_org_id r) \<or> (case scope s of
     ScopeReceipt code \<Rightarrow> code \<noteq> [] \<and>
       sale_id r \<in> inv_sale_id ` {i \<in> set (invoices s). inv_receipt_code i = code}
   | _ \<Rightarrow> False)"

definition sees_payment :: "db \<Rightarrow> Payment \<Rightarrow> bool" where
  "sees_payment s p \<longleftrightarrow> own s (pay_org_id p) \<or>
     (\<exists>i \<in> set (invoices s). receipt_sees s i \<and> inv_payment_id i = Some (pay_id p))"

definition sees_shortcode :: "db \<Rightarrow> Shortcode \<Rightarrow> bool" where
  "sees_shortcode s r \<longleftrightarrow> own s (sc_org_id r) \<or> scope s = ScopeIngest \<or> scope s = ScopeAdmin"

definition sees_stk :: "db \<Rightarrow> StkRequest \<Rightarrow> bool" where
  "sees_stk s r \<longleftrightarrow> own s (stk_org_id r) \<or> scope s = ScopeIngest"

lemmas sees_defs = sees_invoice_def writes_invoice_def sees_sale_def sees_payment_def
  sees_shortcode_def sees_stk_def

definition rls_violation :: go_error where "rls_violation = PgError ''42501''"
definition check_violation :: go_error where "check_violation = PgError ''23514''"
definition unique_violation :: go_error where "unique_violation = PgError ''23505''"
definition numeric_overflow :: go_error where "numeric_overflow = PgError ''22003''"
definition raise_exception :: go_error where "raise_exception = PgError ''P0001''"

lemmas pg_errors = rls_violation_def check_violation_def unique_violation_def
  numeric_overflow_def raise_exception_def

subsection \<open>orgs, webhook_events, mpesa_shortcodes\<close>

definition GetOrg :: "uuid \<Rightarrow> Org tx" where
  "GetOrg i = query_one (\<lambda>s. row_by org_id i (orgs s))"

definition webhook_kinds :: "string list" where
  "webhook_kinds =
     [''c2b_validation'', ''c2b_confirmation'', ''stk_callback'', ''reversal'', ''at_delivery'']"

definition InsertWebhookEvent :: "string \<Rightarrow> string \<Rightarrow> string \<Rightarrow> uuid tx" where
  "InsertWebhookEvent kind external_id payload = stmt (\<lambda>s.
     if kind \<notin> set webhook_kinds then Inl check_violation
     else if external_id \<in> we_external_id ` set (webhook_events s) then Inl ErrNoRows
     else Inr (next_id s, s\<lparr>next_id := Suc (next_id s), webhook_events := webhook_events s @
       [\<lparr>we_id = next_id s, we_kind = kind, we_external_id = external_id, we_payload = payload,
         we_received_at = clock s, we_processed_at = None, we_error = None\<rparr>]\<rparr>))"

definition MarkWebhookProcessed :: "uuid \<Rightarrow> string option \<Rightarrow> unit tx" where
  "MarkWebhookProcessed i err = update (\<lambda>s. s\<lparr>webhook_events :=
     update_rows (\<lambda>e. we_id e = i) (\<lambda>e. e\<lparr>we_processed_at := Some (clock s), we_error := err\<rparr>)
       (webhook_events s)\<rparr>)"

definition set_webhook_error :: "uuid \<Rightarrow> string \<Rightarrow> unit tx" where
  "set_webhook_error i err = update (\<lambda>s. s\<lparr>webhook_events :=
     update_rows (\<lambda>e. we_id e = i) (\<lambda>e. e\<lparr>we_error := Some err\<rparr>) (webhook_events s)\<rparr>)"

record ResolveShortcodeRow =
  rs_ID :: uuid
  rs_OrgID :: uuid
  rs_Shortcode :: string
  rs_DefaultItemID :: "uuid option"
  rs_AutoInvoice :: bool
  rs_Status :: string

definition resolve_row :: "Shortcode \<Rightarrow> ResolveShortcodeRow" where
  "resolve_row r = \<lparr>rs_ID = sc_id r, rs_OrgID = sc_org_id r, rs_Shortcode = sc_shortcode r,
     rs_DefaultItemID = sc_default_item_id r, rs_AutoInvoice = sc_auto_invoice r,
     rs_Status = sc_status r\<rparr>"

definition ResolveShortcode :: "string \<Rightarrow> ResolveShortcodeRow tx" where
  "ResolveShortcode code = query_one (\<lambda>s. map_option resolve_row
     (find (\<lambda>r. sees_shortcode s r \<and> sc_shortcode r = code \<and> sc_status r = ''verified'' \<and>
        sc_org_id r \<in> org_id ` set (orgs s)) (mpesa_shortcodes s)))"

definition GetShortcode :: "uuid \<Rightarrow> Shortcode tx" where
  "GetShortcode i = query_one (\<lambda>s. find (\<lambda>r. sees_shortcode s r \<and> sc_id r = i) (mpesa_shortcodes s))"

definition FindPendingSTKRequest :: "uuid \<Rightarrow> bytes \<Rightarrow> int \<Rightarrow> time \<Rightarrow> StkRequest tx" where
  "FindPendingSTKRequest oid h amount since = query_one (\<lambda>s. latest stk_created_at
     (filter (\<lambda>r. sees_stk s r \<and> stk_org_id r = oid \<and> stk_msisdn_hash r = h \<and>
        stk_amount_cents r = amount \<and> stk_status r = ''pending'' \<and> since < stk_created_at r)
      (stk_requests s)))"

definition GetSTKRequestByCheckoutID :: "string \<Rightarrow> StkRequest tx" where
  "GetSTKRequestByCheckoutID c = query_one (\<lambda>s.
     find (\<lambda>r. sees_stk s r \<and> stk_checkout_id r = c) (stk_requests s))"

definition stk_statuses :: "string list" where
  "stk_statuses = [''pending'', ''success'', ''failed'', ''expired'']"

definition UpdateSTKRequestResult ::
    "uuid \<Rightarrow> string \<Rightarrow> int option \<Rightarrow> string option \<Rightarrow> unit tx" where
  "UpdateSTKRequestResult i st code desc = stmt (\<lambda>s.
     let p = (\<lambda>r. own s (stk_org_id r) \<and> stk_id r = i) in
     if st \<notin> set stk_statuses \<and> (\<exists>r \<in> set (stk_requests s). p r) then Inl check_violation
     else Inr ((), s\<lparr>stk_requests := update_rows p
       (\<lambda>r. r\<lparr>stk_status := st, stk_result_code := code, stk_result_desc := desc\<rparr>)
       (stk_requests s)\<rparr>))"

subsection \<open>items, customers\<close>

definition GetItem :: "uuid \<Rightarrow> Item tx" where
  "GetItem i = query_one (\<lambda>s. find (\<lambda>r. own s (item_org_id r) \<and> item_id r = i) (items s))"

text \<open>A \<open>numeric(12,3)\<close> value, in thousandths.\<close>

definition numeric_ok :: "int \<Rightarrow> bool" where
  "numeric_ok q \<longleftrightarrow> \<bar>q\<bar> < 10 ^ 12"

definition DecrementItemStock :: "uuid \<Rightarrow> int \<Rightarrow> unit tx" where
  "DecrementItemStock i qty = stmt (\<lambda>s.
     let p = (\<lambda>r. own s (item_org_id r) \<and> item_id r = i \<and> item_track_stock r) in
     if \<exists>r \<in> set (items s). p r \<and> \<not> numeric_ok (item_stock_qty r - qty) then Inl numeric_overflow
     else Inr ((), s\<lparr>items := update_rows p
       (\<lambda>r. r\<lparr>item_stock_qty := item_stock_qty r - qty\<rparr>) (items s)\<rparr>))"

definition FindCustomerByMSISDNHash :: "uuid \<Rightarrow> bytes \<Rightarrow> Customer tx" where
  "FindCustomerByMSISDNHash oid h = query_one (\<lambda>s. latest (\<lambda>c. - cust_created_at c)
     (rev (filter (\<lambda>c. own s (cust_org_id c) \<and> cust_org_id c = oid \<and> cust_msisdn_hash c = h \<and> h \<noteq> [])
       (customers s))))"

text \<open>
  \<open>ON CONFLICT DO NOTHING\<close>: the row carries no PIN hash, so no unique index of
  \<open>customers\<close> can conflict.
\<close>

definition UpsertCustomerByMSISDN :: "uuid \<Rightarrow> string \<Rightarrow> bytes \<Rightarrow> bytes \<Rightarrow> Customer tx" where
  "UpsertCustomerByMSISDN oid name enc h = stmt (\<lambda>s.
     if \<not> own s oid then Inl rls_violation
     else let c = \<lparr>cust_id = next_id s, cust_org_id = oid, cust_name = name,
       cust_msisdn_enc = enc, cust_msisdn_hash = h, cust_kra_pin_enc = [],
       cust_kra_pin_hash = [], cust_created_at = clock s\<rparr> in
     Inr (c, s\<lparr>next_id := Suc (next_id s), customers := customers s @ [c]\<rparr>))"

definition FindCustomerByID :: "uuid \<Rightarrow> Customer tx" where
  "FindCustomerByID i = query_one (\<lambda>s.
     find (\<lambda>c. own s (cust_org_id c) \<and> cust_id c = i) (customers s))"

text \<open>
  The inline UPDATE of \<open>ReissueInvoice\<close>: a customer without a PIN, or without a name, gets
  the claimed PIN. The partial unique index on \<open>(org_id, kra_pin_hash)\<close> may reject it.
\<close>

definition set_customer_pin :: "bytes \<Rightarrow> bytes \<Rightarrow> uuid \<Rightarrow> string \<Rightarrow> unit tx" where
  "set_customer_pin enc h i name = stmt (\<lambda>s.
     let p = (\<lambda>c. own s (cust_org_id c) \<and> cust_id c = i \<and>
       (cust_kra_pin_hash c = [] \<or> cust_name c = [])) in
     if h \<noteq> [] \<and> (\<exists>c \<in> set (customers s). p c \<and> (\<exists>d \<in> set (customers s).
          cust_id d \<noteq> cust_id c \<and> cust_org_id d = cust_org_id c \<and> cust_kra_pin_hash d = h))
     then Inl unique_violation
     else Inr ((), s\<lparr>customers := update_rows p
       (\<lambda>c. c\<lparr>cust_kra_pin_enc := enc, cust_kra_pin_hash := h,
         cust_name := if cust_name c = [] then name else cust_name c\<rparr>) (customers s)\<rparr>))"

subsection \<open>sales\<close>

definition GetSale :: "uuid \<Rightarrow> Sale tx" where
  "GetSale i = query_one (\<lambda>s. find (\<lambda>r. sees_sale s r \<and> sale_id r = i) (sales s))"

definition GetOpenSaleByRef :: "uuid \<Rightarrow> string \<Rightarrow> Sale tx" where
  "GetOpenSaleByRef oid ref = query_one (\<lambda>s. find (\<lambda>r. sees_sale s r \<and> sale_org_id r = oid \<and>
     sale_status r = ''open'' \<and> to_upper (sale_ref r) = to_upper ref) (sales s))"

definition FindRecentOpenSaleByAmount :: "uuid \<Rightarrow> int \<Rightarrow> time \<Rightarrow> Sale tx" where
  "FindRecentOpenSaleByAmount oid amount since = query_one (\<lambda>s. latest sale_created_at
     (filter (\<lambda>r. sees_sale s r \<and> sale_org_id r = oid \<and> sale_status r = ''open'' \<and>
        sale_total_cents r = amount \<and> since \<le> sale_created_at r) (sales s)))"

definition FindRecentOpenSaleByCustomer :: "uuid \<Rightarrow> bytes \<Rightarrow> time \<Rightarrow> Sale tx" where
  "FindRecentOpenSaleByCustomer oid h since = query_one (\<lambda>s. latest sale_created_at
     (filter (\<lambda>r. sees_sale s r \<and> sale_org_id r = oid \<and> sale_status r = ''open'' \<and>
        since \<le> sale_created_at r \<and> (\<exists>c \<in> set (customers s). own s (cust_org_id c) \<and>
          sale_customer_id r = Some (cust_id c) \<and> cust_msisdn_hash c = h \<and> h \<noteq> [])) (sales s)))"

definition MarkSalePaid :: "uuid \<Rightarrow> time \<Rightarrow> unit tx" where
  "MarkSalePaid i t = update (\<lambda>s. s\<lparr>sales := update_rows
     (\<lambda>r. own s (sale_org_id r) \<and> sale_id r = i \<and> sale_status r = ''open'')
     (\<lambda>r. r\<lparr>sale_status := ''paid'', sale_paid_at := Some t\<rparr>) (sales s)\<rparr>)"

definition set_sale_buyer_name :: "string \<Rightarrow> uuid \<Rightarrow> unit tx" where
  "set_sale_buyer_name name i = update (\<lambda>s. s\<lparr>sales := update_rows
     (\<lambda>r. own s (sale_org_id r) \<and> sale_id r = i) (\<lambda>r. r\<lparr>sale_buyer_name := name\<rparr>) (sales s)\<rparr>)"

definition next_sale_ref :: "uuid \<Rightarrow> db \<Rightarrow> string" where
  "next_sale_ref oid s =
     (let n = length (filter (\<lambda>r. sees_sale s r \<and> sale_org_id r = oid \<and>
       nairobi_midnight (clock s) \<le> sale_created_at r) (sales s))
     in ''S-'' @ YYMMDD (clock s) @ ''-'' @ lpad (itoa (int n + 1)) 4)"

definition NextSaleRef :: "uuid \<Rightarrow> string tx" where
  "NextSaleRef oid = query (next_sale_ref oid)"

record CreateSaleParams =
  cs_OrgID :: uuid
  cs_Ref :: string
  cs_Kind :: string
  cs_Status :: string
  cs_CustomerID :: "uuid option"
  cs_SubtotalCents :: int
  cs_TaxCents :: int
  cs_TotalCents :: int
  cs_ClientRef :: "string option"
  cs_CreatedBy :: "uuid option"
  cs_PaidAt :: "time option"
  cs_BuyerName :: string

definition sale_conflict :: "CreateSaleParams \<Rightarrow> Sale \<Rightarrow> bool" where
  "sale_conflict p r \<longleftrightarrow> sale_org_id r = cs_OrgID p \<and>
     (sale_ref r = cs_Ref p \<or> (cs_ClientRef p \<noteq> None \<and> sale_client_ref r = cs_ClientRef p))"

definition CreateSale :: "CreateSaleParams \<Rightarrow> Sale tx" where
  "CreateSale p = stmt (\<lambda>s.
     if \<not> own s (cs_OrgID p) then Inl rls_violation
     else if cs_Kind p \<notin> {''open'', ''cash''} \<or> cs_Status p \<notin> {''open'', ''paid'', ''void''}
     then Inl check_violation
     else if list_ex (sale_conflict p) (sales s) then Inl unique_violation
     else let r = \<lparr>sale_id = next_id s, sale_org_id = cs_OrgID p, sale_ref = cs_Ref p,
       sale_kind = cs_Kind p, sale_status = cs_Status p, sale_customer_id = cs_CustomerID p,
       sale_subtotal_cents = cs_SubtotalCents p, sale_tax_cents = cs_TaxCents p,
       sale_total_cents = cs_TotalCents p, sale_client_ref = cs_ClientRef p,
       sale_created_by = cs_CreatedBy p, sale_paid_at = cs_PaidAt p,
       sale_buyer_name = cs_BuyerName p, sale_created_at = clock s\<rparr> in
     Inr (r, s\<lparr>next_id := Suc (next_id s), sales := sales s @ [r]\<rparr>))"

record CreateSaleItemParams =
  ci_OrgID :: uuid
  ci_SaleID :: uuid
  ci_ItemID :: "uuid option"
  ci_Description :: string
  ci_EtimsClassCode :: string
  ci_Unit :: string
  ci_Qty :: int
  ci_UnitPriceCents :: int
  ci_TaxCategory :: string
  ci_TaxRateBp :: int
  ci_LineTotalCents :: int
  ci_LineTaxCents :: int
  ci_Position :: int

definition CreateSaleItem :: "CreateSaleItemParams \<Rightarrow> SaleItem tx" where
  "CreateSaleItem p = stmt (\<lambda>s.
     if \<not> own s (ci_OrgID p) then Inl rls_violation
     else if \<not> numeric_ok (ci_Qty p) then Inl numeric_overflow
     else if \<not> tax_category_valid (ci_TaxCategory p) then Inl check_violation
     else let r = \<lparr>si_id = next_id s, si_org_id = ci_OrgID p, si_sale_id = ci_SaleID p,
       si_item_id = ci_ItemID p, si_description = ci_Description p,
       si_class_code = ci_EtimsClassCode p, si_unit = ci_Unit p, si_qty = ci_Qty p,
       si_unit_price_cents = ci_UnitPriceCents p, si_tax_category = ci_TaxCategory p,
       si_tax_rate_bp = ci_TaxRateBp p, si_line_total_cents = ci_LineTotalCents p,
       si_line_tax_cents = ci_LineTaxCents p, si_position = ci_Position p\<rparr> in
     Inr (r, s\<lparr>next_id := Suc (next_id s), sale_items := sale_items s @ [r]\<rparr>))"

definition sees_sale_item :: "db \<Rightarrow> SaleItem \<Rightarrow> bool" where
  "sees_sale_item s r \<longleftrightarrow> own s (si_org_id r) \<or> (case scope s of
     ScopeReceipt code \<Rightarrow> code \<noteq> [] \<and>
       si_sale_id r \<in> inv_sale_id ` {i \<in> set (invoices s). inv_receipt_code i = code}
   | _ \<Rightarrow> False)"

definition ListSaleItems :: "uuid \<Rightarrow> SaleItem list tx" where
  "ListSaleItems i = query (\<lambda>s. sort_key si_position
     (filter (\<lambda>r. sees_sale_item s r \<and> si_sale_id r = i) (sale_items s)))"

subsection \<open>payments\<close>

definition payment_statuses :: "string list" where
  "payment_statuses = [''matched'', ''cash_sale'', ''unmatched'', ''reversed'', ''partial'']"

definition match_rules :: "string list" where
  "match_rules = [''bill_ref'', ''stk_window'', ''auto_invoice'', ''manual'']"

text \<open>The CHECK constraints on \<open>status\<close> and \<open>match_rule\<close> (a NULL rule passes).\<close>

definition payment_checks :: "string \<Rightarrow> string option \<Rightarrow> bool" where
  "payment_checks st rule \<longleftrightarrow> st \<in> set payment_statuses \<and>
     (case rule of None \<Rightarrow> True | Some r \<Rightarrow> r \<in> set match_rules)"

record CreatePaymentParams =
  cp_OrgID :: uuid
  cp_ShortcodeID :: uuid
  cp_WebhookEventID :: "uuid option"
  cp_TransID :: string
  cp_AmountCents :: int
  cp_MsisdnEnc :: bytes
  cp_MsisdnHash :: bytes
  cp_PayerName :: string
  cp_BillRef :: string
  cp_PaidAt :: time
  cp_Status :: string
  cp_SaleID :: "uuid option"
  cp_MatchRule :: "string option"

definition CreatePayment :: "CreatePaymentParams \<Rightarrow> Payment tx" where
  "CreatePayment p = stmt (\<lambda>s.
     if \<not> own s (cp_OrgID p) then Inl rls_violation
     else if \<not> 0 < cp_AmountCents p \<or> \<not> payment_checks (cp_Status p) (cp_MatchRule p)
     then Inl check_violation
     else if cp_TransID p \<in> pay_trans_id ` set (payments s) then Inl ErrNoRows
     else let r = \<lparr>pay_id = next_id s, pay_org_id = cp_OrgID p,
       pay_shortcode_id = cp_ShortcodeID p, pay_webhook_event_id = cp_WebhookEventID p,
       pay_trans_id = cp_TransID p, pay_amount_cents = cp_AmountCents p,
       pay_msisdn_enc = cp_MsisdnEnc p, pay_msisdn_hash = cp_MsisdnHash p,
       pay_payer_name = cp_PayerName p, pay_bill_ref = cp_BillRef p, pay_paid_at = cp_PaidAt p,
       pay_status = cp_Status p, pay_sale_id = cp_SaleID p, pay_match_rule = cp_MatchRule p,
       pay_reversed_at = None\<rparr> in
     Inr (r, s\<lparr>next_id := Suc (next_id s), payments := payments s @ [r]\<rparr>))"

definition GetPayment :: "uuid \<Rightarrow> Payment tx" where
  "GetPayment i = query_one (\<lambda>s. find (\<lambda>r. sees_payment s r \<and> pay_id r = i) (payments s))"

definition GetPaymentByTransID :: "string \<Rightarrow> Payment tx" where
  "GetPaymentByTransID t = query_one (\<lambda>s.
     find (\<lambda>r. sees_payment s r \<and> pay_trans_id r = t) (payments s))"

definition MarkPaymentReversed :: "uuid \<Rightarrow> unit tx" where
  "MarkPaymentReversed i = update (\<lambda>s. s\<lparr>payments := update_rows
     (\<lambda>r. own s (pay_org_id r) \<and> pay_id r = i)
     (\<lambda>r. r\<lparr>pay_status := ''reversed'', pay_reversed_at := Some (clock s)\<rparr>) (payments s)\<rparr>)"

definition AttachPaymentToSale :: "uuid \<Rightarrow> uuid option \<Rightarrow> string \<Rightarrow> string option \<Rightarrow> unit tx" where
  "AttachPaymentToSale i sid st rule = stmt (\<lambda>s.
     let p = (\<lambda>r. own s (pay_org_id r) \<and> pay_id r = i) in
     if list_ex p (payments s) \<and> \<not> payment_checks st rule then Inl check_violation
     else Inr ((), s\<lparr>payments := update_rows p
       (\<lambda>r. r\<lparr>pay_sale_id := sid, pay_status := st, pay_match_rule := rule\<rparr>) (payments s)\<rparr>))"

definition ListPaymentsForSale :: "uuid \<Rightarrow> Payment list tx" where
  "ListPaymentsForSale sid = query (\<lambda>s. sort_key pay_paid_at
     (filter (\<lambda>r. sees_payment s r \<and> pay_sale_id r = Some sid) (payments s)))"

definition UpdatePaymentStatus :: "uuid \<Rightarrow> string \<Rightarrow> unit tx" where
  "UpdatePaymentStatus i st = stmt (\<lambda>s.
     let p = (\<lambda>r. own s (pay_org_id r) \<and> pay_id r = i) in
     if list_ex p (payments s) \<and> st \<notin> set payment_statuses then Inl check_violation
     else Inr ((), s\<lparr>payments := update_rows p (\<lambda>r. r\<lparr>pay_status := st\<rparr>) (payments s)\<rparr>))"

subsection \<open>invoices\<close>

record CreateInvoiceParams =
  iv_OrgID :: uuid
  iv_SaleID :: uuid
  iv_PaymentID :: "uuid option"
  iv_Kind :: string
  iv_ParentInvoiceID :: "uuid option"
  iv_State :: State
  iv_BuyerPinEnc :: bytes
  iv_BuyerPinHash :: bytes
  iv_BuyerName :: string
  iv_ReceiptCode :: string
  iv_SubtotalCents :: int
  iv_TaxCents :: int
  iv_TotalCents :: int
  iv_IssuedAt :: time

definition new_invoice :: "uuid \<Rightarrow> time \<Rightarrow> CreateInvoiceParams \<Rightarrow> Invoice" where
  "new_invoice i t p = \<lparr>inv_id = i, inv_org_id = iv_OrgID p, inv_sale_id = iv_SaleID p,
     inv_payment_id = iv_PaymentID p, inv_kind = iv_Kind p, inv_parent_id = iv_ParentInvoiceID p,
     inv_state = iv_State p, inv_attempt = 0, inv_next_attempt_at = None,
     inv_buyer_pin_enc = iv_BuyerPinEnc p, inv_buyer_pin_hash = iv_BuyerPinHash p,
     inv_buyer_name = iv_BuyerName p, inv_kra_invoice_no = None, inv_kra_signature = None,
     inv_kra_qr_payload = None, inv_receipt_code = iv_ReceiptCode p,
     inv_subtotal_cents = iv_SubtotalCents p, inv_tax_cents = iv_TaxCents p,
     inv_total_cents = iv_TotalCents p, inv_issued_at = iv_IssuedAt p, inv_submitted_at = None,
     inv_acked_at = None, inv_last_error = None, inv_created_at = t, inv_updated_at = t,
     inv_superseded_by = None, inv_superseded_at = None\<rparr>"

definition CreateInvoice :: "CreateInvoiceParams \<Rightarrow> Invoice tx" where
  "CreateInvoice p = stmt (\<lambda>s.
     if \<not> own s (iv_OrgID p) then Inl rls_violation
     else if iv_Kind p \<notin> {''INVOICE'', ''CREDIT_NOTE''} \<or> \<not> state_valid (iv_State p)
     then Inl check_violation
     else if iv_ReceiptCode p \<in> inv_receipt_code ` set (invoices s) then Inl unique_violation
     else let i = new_invoice (next_id s) (clock s) p in
     Inr (i, s\<lparr>next_id := Suc (next_id s), invoices := invoices s @ [i]\<rparr>))"

definition GetInvoice :: "uuid \<Rightarrow> Invoice tx" where
  "GetInvoice i = query_one (\<lambda>s. find (\<lambda>r. sees_invoice s r \<and> inv_id r = i) (invoices s))"

definition FindCreditNoteForParent :: "uuid \<Rightarrow> Invoice tx" where
  "FindCreditNoteForParent i = query_one (\<lambda>s. find (\<lambda>r. sees_invoice s r \<and>
     inv_parent_id r = Some i \<and> inv_kind r = ''CREDIT_NOTE'') (invoices s))"

definition GetAckedInvoiceForSale :: "uuid \<Rightarrow> Invoice tx" where
  "GetAckedInvoiceForSale i = query_one (\<lambda>s. latest inv_created_at (filter (\<lambda>r. sees_invoice s r \<and>
     inv_sale_id r = i \<and> inv_kind r = ''INVOICE'' \<and> inv_state r = StateAcked) (invoices s)))"

definition GetInvoiceByPayment :: "uuid \<Rightarrow> Invoice tx" where
  "GetInvoiceByPayment i = query_one (\<lambda>s. latest inv_created_at (filter (\<lambda>r. sees_invoice s r \<and>
     inv_payment_id r = Some i \<and> inv_kind r = ''INVOICE'') (invoices s)))"

definition GetInvoiceBySale :: "uuid \<Rightarrow> Invoice tx" where
  "GetInvoiceBySale i = query_one (\<lambda>s. latest inv_created_at (filter (\<lambda>r. sees_invoice s r \<and>
     inv_sale_id r = i \<and> inv_kind r = ''INVOICE'') (invoices s)))"

record ReceiptRow =
  rr_Invoice :: Invoice
  rr_OrgName :: string
  rr_OrgPinEnc :: bytes
  rr_SaleRef :: string
  rr_PayerName :: string

definition receipt_row :: "db \<Rightarrow> Invoice \<Rightarrow> ReceiptRow option" where
  "receipt_row s i = (case row_by org_id (inv_org_id i) (orgs s) of None \<Rightarrow> None
     | Some oo \<Rightarrow> (case find (\<lambda>r. sees_sale s r \<and> sale_id r = inv_sale_id i) (sales s) of None \<Rightarrow> None
     | Some sa \<Rightarrow> Some \<lparr>rr_Invoice = i, rr_OrgName = org_name oo, rr_OrgPinEnc = org_kra_pin_enc oo,
         rr_SaleRef = sale_ref sa,
         rr_PayerName = (case find (\<lambda>p. sees_payment s p \<and> inv_payment_id i = Some (pay_id p))
            (payments s) of None \<Rightarrow> [] | Some p \<Rightarrow> pay_payer_name p)\<rparr>))"

definition GetInvoiceByReceiptCode :: "string \<Rightarrow> ReceiptRow tx" where
  "GetInvoiceByReceiptCode code = query_one (\<lambda>s.
     let rows = List.map_filter (receipt_row s)
       (receipt_chain (filter (sees_invoice s) (invoices s)) code)
     in if rows = [] then None else Some (last rows))"

text \<open>
  An UPDATE of invoices with RETURNING: the condition \<open>p\<close>, the assignment \<open>f\<close> (given
  \<open>now()\<close>), the state CHECK, the \<open>updated_at\<close> trigger and the trigger that freezes the
  amounts of an ACKED invoice. The returned row is the first.
\<close>

definition amounts :: "Invoice \<Rightarrow> int \<times> int \<times> int" where
  "amounts i = (inv_subtotal_cents i, inv_tax_cents i, inv_total_cents i)"

definition update_invoice :: "(Invoice \<Rightarrow> bool) \<Rightarrow> (time \<Rightarrow> Invoice \<Rightarrow> Invoice) \<Rightarrow> Invoice tx" where
  "update_invoice p f = stmt (\<lambda>s.
     let q = (\<lambda>i. writes_invoice s i \<and> p i);
         g = (\<lambda>i. (f (clock s) i)\<lparr>inv_updated_at := clock s\<rparr>) in
     if list_ex (\<lambda>i. q i \<and> inv_state i = StateAcked \<and> amounts (g i) \<noteq> amounts i) (invoices s)
     then Inl raise_exception
     else if list_ex (\<lambda>i. q i \<and> \<not> state_valid (inv_state (g i))) (invoices s)
     then Inl check_violation
     else case find q (invoices s) of None \<Rightarrow> Inl ErrNoRows
       | Some i \<Rightarrow> Inr (g i, s\<lparr>invoices := update_rows q g (invoices s)\<rparr>))"

definition SetInvoiceState ::
    "uuid \<Rightarrow> State \<Rightarrow> int option \<Rightarrow> time option \<Rightarrow> string option \<Rightarrow> State \<Rightarrow> Invoice tx" where
  "SetInvoiceState i st att next_at err expected =
     update_invoice (\<lambda>r. inv_id r = i \<and> inv_state r = expected)
       (\<lambda>now r. r\<lparr>inv_state := st,
          inv_attempt := (case att of None \<Rightarrow> inv_attempt r | Some n \<Rightarrow> n),
          inv_next_attempt_at := next_at, inv_last_error := err,
          inv_submitted_at := (if st = StateSubmitted then Some now else inv_submitted_at r)\<rparr>)"

definition AckInvoice :: "uuid \<Rightarrow> string \<Rightarrow> string \<Rightarrow> string \<Rightarrow> time \<Rightarrow> Invoice tx" where
  "AckInvoice i no sig qr at = update_invoice (\<lambda>r. inv_id r = i)
     (\<lambda>now r. r\<lparr>inv_state := StateAcked, inv_kra_invoice_no := Some no, inv_kra_signature := Some sig,
        inv_kra_qr_payload := Some qr, inv_acked_at := Some at, inv_last_error := None,
        inv_next_attempt_at := None\<rparr>)"

definition ResetInvoiceForRetry :: "uuid \<Rightarrow> Invoice tx" where
  "ResetInvoiceForRetry i = update_invoice
     (\<lambda>r. inv_id r = i \<and> inv_state r \<in> {StateNeedsReview, StateFailedTerminal})
     (\<lambda>now r. r\<lparr>inv_state := StateQueued, inv_attempt := 0, inv_next_attempt_at := None,
        inv_last_error := None\<rparr>)"

text \<open>An \<open>:exec\<close> update affects no row without an error.\<close>

definition exec :: "'a tx \<Rightarrow> unit tx" where
  "exec m = tbind (attempt m) (\<lambda>r. case r of
     Inl e \<Rightarrow> if e = ErrNoRows then ret () else raise e | Inr _ \<Rightarrow> ret ())"

definition SupersedeInvoice :: "uuid \<Rightarrow> uuid \<Rightarrow> unit tx" where
  "SupersedeInvoice i by_id = exec (update_invoice (\<lambda>r. inv_id r = i)
     (\<lambda>now r. r\<lparr>inv_superseded_by := Some by_id, inv_superseded_at := Some now\<rparr>))"

definition ActivateTaxPendingInvoices :: "uuid \<Rightarrow> uuid list tx" where
  "ActivateTaxPendingInvoices oid = stmt (\<lambda>s.
     let q = (\<lambda>i. writes_invoice s i \<and> inv_org_id i = oid \<and> inv_state i = StateTaxPending) in
     Inr (map inv_id (filter q (invoices s)),
       s\<lparr>invoices := update_rows q (\<lambda>i. i\<lparr>inv_state := StateQueued, inv_updated_at := clock s\<rparr>)
          (invoices s)\<rparr>))"

definition ListStaleSubmittedInvoices :: "Invoice list tx" where
  "ListStaleSubmittedInvoices = query (\<lambda>s. sort_key inv_updated_at (filter (\<lambda>i. sees_invoice s i \<and>
     inv_state i = StateSubmitted \<and> inv_updated_at i < clock s - 15 * minute) (invoices s)))"

subsection \<open>fiscal_submissions, usage_counters, audit_log, jobs\<close>

definition CreateFiscalSubmission ::
    "uuid \<Rightarrow> uuid \<Rightarrow> int \<Rightarrow> string \<Rightarrow> FiscalInvoice \<Rightarrow> string \<Rightarrow> string option \<Rightarrow> Class
      \<Rightarrow> FiscalSubmission tx" where
  "CreateFiscalSubmission oid iid att adapter req resp err cls = stmt (\<lambda>s.
     if \<not> own s oid then Inl rls_violation
     else let r = \<lparr>fs_id = next_id s, fs_org_id = oid, fs_invoice_id = iid, fs_attempt = att,
       fs_adapter = adapter, fs_request = req, fs_response = resp, fs_error = err,
       fs_classification = cls\<rparr> in
     Inr (r, s\<lparr>next_id := Suc (next_id s), fiscal_submissions := fiscal_submissions s @ [r]\<rparr>))"

definition BumpUsage :: "uuid \<Rightarrow> string \<Rightarrow> int \<Rightarrow> int \<Rightarrow> int \<Rightarrow> unit tx" where
  "BumpUsage oid period acked sms wa = stmt (\<lambda>s.
     let p = (\<lambda>u. uc_org_id u = oid \<and> uc_period u = period) in
     if \<not> own s oid then Inl rls_violation
     else Inr ((), s\<lparr>usage_counters := (if list_ex p (usage_counters s)
       then update_rows p (\<lambda>u. u\<lparr>uc_invoices_acked := uc_invoices_acked u + acked,
         uc_sms_sent := uc_sms_sent u + sms, uc_whatsapp_sent := uc_whatsapp_sent u + wa\<rparr>)
         (usage_counters s)
       else usage_counters s @ [\<lparr>uc_org_id = oid, uc_period = period, uc_invoices_acked = acked,
         uc_sms_sent = sms, uc_whatsapp_sent = wa\<rparr>])\<rparr>))"

definition AppendAudit ::
    "uuid \<Rightarrow> string \<Rightarrow> string option \<Rightarrow> string \<Rightarrow> string \<Rightarrow> uuid \<Rightarrow> AuditAfter \<Rightarrow> unit tx" where
  "AppendAudit oid actor_type actor action entity eid after = stmt (\<lambda>s.
     if \<not> own s oid then Inl rls_violation
     else if actor_type \<notin> {''user'', ''system'', ''admin''} then Inl check_violation
     else Inr ((), s\<lparr>audit_log := audit_log s @ [\<lparr>au_org_id = oid, au_actor_type = actor_type,
       au_actor_id = actor, au_action = action, au_entity = entity, au_entity_id = eid,
       au_after = after, au_at = clock s\<rparr>]\<rparr>))"

definition EnqueueTx :: "JobArgs \<Rightarrow> unit tx" where
  "EnqueueTx args = update (\<lambda>s. s\<lparr>jobs := jobs s @ [(args, None)]\<rparr>)"

definition EnqueueAfterTx :: "JobArgs \<Rightarrow> time \<Rightarrow> duration \<Rightarrow> unit tx" where
  "EnqueueAfterTx args now delay = update (\<lambda>s. s\<lparr>jobs := jobs s @ [(args, Some (now + delay))]\<rparr>)"

definition PendingReceiptDelay :: duration where "PendingReceiptDelay = 5 * minute"

end
