(* ===== verification/TxLogic.thy ===== *)
theory TxLogic
  imports Queries
begin

text \<open>
  Reasoning about transaction bodies. \<open>keeps S R m\<close> says that from a state whose scope is
  in \<open>S\<close> the body \<open>m\<close>, whether it succeeds, fails or panics, leaves scope and clock alone
  and moves the tables along the relation \<open>R\<close>. The locale \<open>table_frame\<close> is the contract
  of a relation for which this composes; \<open>write_frame\<close> and \<open>store_frame\<close> extend it with one law per
  statement that writes, and the components prove once, inside it, that each of their
  operations moves the tables along any such \<open>R\<close>. The second half evaluates bodies: what
  a sequence returns and which tables it changes.
\<close>

definition tbl :: "db \<Rightarrow> tables" where
  "tbl s = \<lparr>orgs = orgs s, webhook_events = webhook_events s, items = items s,
     mpesa_shortcodes = mpesa_shortcodes s, customers = customers s, sales = sales s,
     sale_items = sale_items s, stk_requests = stk_requests s, payments = payments s,
     invoices = invoices s, fiscal_submissions = fiscal_submissions s,
     usage_counters = usage_counters s, audit_log = audit_log s, jobs = jobs s,
     users = users s, memberships = memberships s, sessions = sessions s, otp_codes = otp_codes s,
     org_invites = org_invites s, notifications = notifications s, plans = plans s,
     subscriptions = subscriptions s, next_id = next_id s\<rparr>"

lemma tbl_session [simp]:
  "tbl (s\<lparr>scope := a\<rparr>) = tbl s" "tbl (s\<lparr>aborted := b\<rparr>) = tbl s" "tbl (s\<lparr>reads := n\<rparr>) = tbl s"
  "tbl (s\<lparr>clock := c\<rparr>) = tbl s"
  by (simp_all add: tbl_def)

lemma tbl_sel [simp]:
  "orgs (tbl s) = orgs s" "webhook_events (tbl s) = webhook_events s" "items (tbl s) = items s"
  "mpesa_shortcodes (tbl s) = mpesa_shortcodes s" "customers (tbl s) = customers s"
  "sales (tbl s) = sales s" "sale_items (tbl s) = sale_items s"
  "stk_requests (tbl s) = stk_requests s" "payments (tbl s) = payments s"
  "invoices (tbl s) = invoices s" "fiscal_submissions (tbl s) = fiscal_submissions s"
  "usage_counters (tbl s) = usage_counters s" "audit_log (tbl s) = audit_log s"
  "jobs (tbl s) = jobs s" "next_id (tbl s) = next_id s" "users (tbl s) = users s"
  "memberships (tbl s) = memberships s" "sessions (tbl s) = sessions s"
  "otp_codes (tbl s) = otp_codes s" "org_invites (tbl s) = org_invites s"
  "notifications (tbl s) = notifications s" "plans (tbl s) = plans s"
  "subscriptions (tbl s) = subscriptions s"
  by (simp_all add: tbl_def)

definition keeps :: "Scope set \<Rightarrow> (tables \<Rightarrow> tables \<Rightarrow> bool) \<Rightarrow> 'a tx \<Rightarrow> bool" where
  "keeps S R m \<longleftrightarrow> (\<forall>s. scope s \<in> S \<longrightarrow> scope (snd (m s)) = scope s \<and>
     clock (snd (m s)) = clock s \<and> R (tbl s) (tbl (snd (m s))))"

lemma keepsI:
  assumes "\<And>s r s'. scope s \<in> S \<Longrightarrow> m s = (r, s') \<Longrightarrow>
    scope s' = scope s \<and> clock s' = clock s \<and> R (tbl s) (tbl s')"
  shows "keeps S R m"
  unfolding keeps_def by (metis assms prod.collapse)

lemma keepsD:
  "keeps S R m \<Longrightarrow> scope s \<in> S \<Longrightarrow> m s = (r, s') \<Longrightarrow>
    scope s' = scope s \<and> clock s' = clock s \<and> R (tbl s) (tbl s')"
  unfolding keeps_def by (metis snd_conv)

lemma keeps_tables: "keeps UNIV R m \<Longrightarrow> R (tbl s) (tbl (snd (m s)))"
  by (simp add: keeps_def)

lemma keeps_mono: "keeps S R m \<Longrightarrow> S' \<subseteq> S \<Longrightarrow> keeps S' R m"
  unfolding keeps_def by blast

locale table_frame =
  fixes R :: "tables \<Rightarrow> tables \<Rightarrow> bool"
  assumes R_refl: "R t t"
    and R_trans: "R t u \<Longrightarrow> R u v \<Longrightarrow> R t v"
begin

lemma keeps_ret: "keeps S R (ret x)"
  by (simp add: keeps_def ret_def R_refl)

lemma keeps_raise: "keeps S R (raise e)"
  by (simp add: keeps_def raise_def R_refl)

lemma keeps_of_result: "keeps S R (of_result r)"
  by (simp add: keeps_def of_result_def R_refl)

lemma keeps_rand_read: "keeps S R (rand_read n)"
  by (simp add: keeps_def rand_read_def R_refl)

lemma keeps_tbind:
  assumes "keeps S R m" and "\<And>x. keeps S R (f x)"
  shows "keeps S R (tbind m f)"
proof (rule keepsI)
  fix s r s'
  assume sc: "scope s \<in> S" and run: "tbind m f s = (r, s')"
  obtain r1 s1 where m: "m s = (r1, s1)" by (cases "m s")
  note k1 = keepsD [OF assms(1) sc m]
  show "scope s' = scope s \<and> clock s' = clock s \<and> R (tbl s) (tbl s')"
  proof (cases r1)
    case (Inl e)
    with k1 run m show ?thesis by (auto simp: tbind_def)
  next
    case (Inr x)
    with run m have f: "f x s1 = (r, s')" by (simp add: tbind_def)
    have "scope s1 \<in> S" using k1 sc by simp
    from keepsD [OF assms(2) this f] k1 show ?thesis by (metis R_trans)
  qed
qed

lemma keeps_attempt: "keeps S R m \<Longrightarrow> keeps S R (attempt m)"
  unfolding keeps_def attempt_def by (simp split: prod.splits sum.splits if_splits)
     (metis snd_conv)

lemma keeps_ignore: "keeps S R m \<Longrightarrow> keeps S R (ignore m)"
  unfolding ignore_def by (intro keeps_tbind keeps_attempt keeps_ret)

lemma keeps_for_each: "(\<And>x. x \<in> set xs \<Longrightarrow> keeps S R (f x)) \<Longrightarrow> keeps S R (for_each f xs)"
  by (induction xs) (auto intro: keeps_ret keeps_tbind)

lemma keeps_query: "keeps S R (query q)"
  by (simp add: keeps_def query_def R_refl)

lemma keeps_query_one: "keeps S R (query_one q)"
  unfolding query_one_def
  by (intro keeps_tbind keeps_query) (simp add: keeps_ret keeps_raise split: option.splits)

lemma keeps_stmt:
  assumes "\<And>s x s'. scope s \<in> S \<Longrightarrow> q s = Inr (x, s') \<Longrightarrow>
    scope s' = scope s \<and> clock s' = clock s \<and> R (tbl s) (tbl s')"
  shows "keeps S R (stmt q)"
  unfolding keeps_def stmt_def
  by (auto simp: R_refl split: sum.splits go_error.splits dest: assms)

lemma keeps_update:
  assumes "\<And>s. scope s \<in> S \<Longrightarrow> scope (u s) = scope s \<and> clock (u s) = clock s \<and> R (tbl s) (tbl (u s))"
  shows "keeps S R (update u)"
  unfolding update_def by (rule keeps_stmt) (use assms in auto)

lemma keeps_exec: "keeps S R m \<Longrightarrow> keeps S R (exec m)"
  unfolding exec_def
  by (intro keeps_tbind keeps_attempt) (auto simp: keeps_ret keeps_raise split: sum.splits)

lemma keeps_scoped:
  assumes "keeps {sc} R fn"
  shows "keeps S R (scoped sc fn)"
proof (rule keepsI)
  fix s r s'
  assume run: "scoped sc fn s = (r, s')"
  obtain r1 s1 where f: "fn (s\<lparr>scope := sc, aborted := False\<rparr>) = (r1, s1)"
    by (cases "fn (s\<lparr>scope := sc, aborted := False\<rparr>)")
  from keepsD [OF assms _ f] have k: "clock s1 = clock s" "R (tbl s) (tbl s1)" by simp_all
  show "scope s' = scope s \<and> clock s' = clock s \<and> R (tbl s) (tbl s')"
    using run k unfolding scoped_def f
    by (auto simp: rollback_def R_refl split: sum.splits if_splits)
qed

lemma keeps_if: "(b \<Longrightarrow> keeps S R m) \<Longrightarrow> (\<not> b \<Longrightarrow> keeps S R n) \<Longrightarrow> keeps S R (if b then m else n)"
  by simp

lemma keeps_sum:
  "(\<And>e. keeps S R (f e)) \<Longrightarrow> (\<And>x. keeps S R (g x)) \<Longrightarrow>
    keeps S R (case r of Inl e \<Rightarrow> f e | Inr x \<Rightarrow> g x)"
  by (cases r) simp_all

lemma keeps_option:
  "keeps S R n \<Longrightarrow> (\<And>x. keeps S R (f x)) \<Longrightarrow> keeps S R (case r of None \<Rightarrow> n | Some x \<Rightarrow> f x)"
  by (cases r) simp_all

lemma keeps_pair: "(\<And>x y. keeps S R (f x y)) \<Longrightarrow> keeps S R (case p of (x, y) \<Rightarrow> f x y)"
  by (cases p) simp

lemmas keeps_intros = keeps_ret keeps_raise keeps_of_result keeps_rand_read keeps_tbind
  keeps_attempt keeps_ignore keeps_for_each keeps_query keeps_query_one keeps_exec keeps_if
  keeps_sum keeps_option keeps_pair

end

subsection \<open>Every statement that writes\<close>

lemmas write_defs = InsertWebhookEvent_def MarkWebhookProcessed_def set_webhook_error_def
  UpdateSTKRequestResult_def DecrementItemStock_def UpsertCustomerByMSISDN_def
  set_customer_pin_def CreateSale_def CreateSaleItem_def MarkSalePaid_def
  set_sale_buyer_name_def CreatePayment_def MarkPaymentReversed_def AttachPaymentToSale_def
  UpdatePaymentStatus_def CreateInvoice_def ActivateTaxPendingInvoices_def
  CreateFiscalSubmission_def BumpUsage_def AppendAudit_def EnqueueTx_def EnqueueAfterTx_def

locale write_frame = table_frame +
  fixes S :: "Scope set"
  assumes k_InsertWebhookEvent: "keeps S R (InsertWebhookEvent k x pl)"
    and k_MarkWebhookProcessed: "keeps S R (MarkWebhookProcessed i err)"
    and k_set_webhook_error: "keeps S R (set_webhook_error i msg)"
    and k_UpdateSTKRequestResult: "keeps S R (UpdateSTKRequestResult i st code desc)"
    and k_DecrementItemStock: "keeps S R (DecrementItemStock i qty)"
    and k_UpsertCustomer: "keeps S R (UpsertCustomerByMSISDN i name enc h)"
    and k_set_customer_pin: "keeps S R (set_customer_pin enc h i name)"
    and k_CreateSale: "keeps S R (CreateSale csp)"
    and k_CreateSaleItem: "keeps S R (CreateSaleItem cip)"
    and k_MarkSalePaid: "keeps S R (MarkSalePaid i t)"
    and k_set_sale_buyer_name: "keeps S R (set_sale_buyer_name name i)"
    and k_CreatePayment: "keeps S R (CreatePayment cpp)"
    and k_MarkPaymentReversed: "keeps S R (MarkPaymentReversed i)"
    and k_AttachPaymentToSale: "keeps S R (AttachPaymentToSale i sid st rule)"
    and k_UpdatePaymentStatus: "keeps S R (UpdatePaymentStatus i st)"
    and k_CreateInvoice: "keeps S R (CreateInvoice ivp)"
    and k_SetInvoiceState: "old \<noteq> StateAcked \<Longrightarrow> keeps S R (SetInvoiceState i new att nxt err old)"
    and k_AckInvoice: "keeps S R (AckInvoice i no sig qr at)"
    and k_ResetInvoiceForRetry: "keeps S R (ResetInvoiceForRetry i)"
    and k_ActivateTaxPending: "keeps S R (ActivateTaxPendingInvoices i)"
    and k_CreateFiscalSubmission: "keeps S R (CreateFiscalSubmission i j n adapter req resp err cls)"
    and k_BumpUsage: "keeps S R (BumpUsage i period a b c)"
    and k_AppendAudit: "keeps S R (AppendAudit i at' ai action entity j after)"
    and k_EnqueueTx: "keeps S R (EnqueueTx args)"
    and k_EnqueueAfterTx: "keeps S R (EnqueueAfterTx args now delay)"
begin

text \<open>The statements that only read.\<close>

lemma keeps_reads:
  "keeps S' R (GetOrg i)" "keeps S' R (ResolveShortcode code)" "keeps S' R (GetShortcode i)"
  "keeps S' R (FindPendingSTKRequest i h a t)" "keeps S' R (GetSTKRequestByCheckoutID c)"
  "keeps S' R (GetItem i)" "keeps S' R (FindCustomerByMSISDNHash i h)"
  "keeps S' R (FindCustomerByID i)" "keeps S' R (GetSale i)" "keeps S' R (GetOpenSaleByRef i ref)"
  "keeps S' R (FindRecentOpenSaleByAmount i a t)" "keeps S' R (FindRecentOpenSaleByCustomer i h t)"
  "keeps S' R (NextSaleRef i)" "keeps S' R (ListSaleItems i)" "keeps S' R (GetPayment i)"
  "keeps S' R (GetPaymentByTransID t')" "keeps S' R (ListPaymentsForSale i)"
  "keeps S' R (GetInvoice i)" "keeps S' R (FindCreditNoteForParent i)"
  "keeps S' R (GetAckedInvoiceForSale i)" "keeps S' R (GetInvoiceByPayment i)"
  "keeps S' R (GetInvoiceBySale i)" "keeps S' R (GetInvoiceByReceiptCode code)"
  "keeps S' R ListStaleSubmittedInvoices"
  unfolding GetOrg_def ResolveShortcode_def GetShortcode_def FindPendingSTKRequest_def
    GetSTKRequestByCheckoutID_def GetItem_def FindCustomerByMSISDNHash_def FindCustomerByID_def
    GetSale_def GetOpenSaleByRef_def FindRecentOpenSaleByAmount_def
    FindRecentOpenSaleByCustomer_def NextSaleRef_def ListSaleItems_def GetPayment_def
    GetPaymentByTransID_def ListPaymentsForSale_def GetInvoice_def FindCreditNoteForParent_def
    GetAckedInvoiceForSale_def GetInvoiceByPayment_def GetInvoiceBySale_def
    GetInvoiceByReceiptCode_def ListStaleSubmittedInvoices_def
  by (simp_all add: keeps_query keeps_query_one)

lemmas keeps_writes = k_InsertWebhookEvent k_MarkWebhookProcessed k_set_webhook_error
  k_UpdateSTKRequestResult k_DecrementItemStock k_UpsertCustomer k_set_customer_pin k_CreateSale
  k_CreateSaleItem k_MarkSalePaid k_set_sale_buyer_name k_CreatePayment k_MarkPaymentReversed
  k_AttachPaymentToSale k_UpdatePaymentStatus k_CreateInvoice k_AckInvoice
  k_ResetInvoiceForRetry k_ActivateTaxPending k_CreateFiscalSubmission
  k_BumpUsage k_AppendAudit k_EnqueueTx k_EnqueueAfterTx

lemmas keeps_all = keeps_intros keeps_reads keeps_writes

lemma keeps_scope:
  "sc \<in> S \<Longrightarrow> keeps S R fn \<Longrightarrow> keeps S' R (scoped sc fn)"
  by (rule keeps_scoped) (erule keeps_mono, simp)

end

text \<open>Linking an invoice to its successor is kept apart: some relations allow it only for a newer successor.\<close>

locale store_frame = write_frame +
  assumes k_SupersedeInvoice: "keeps S R (SupersedeInvoice i j)"

subsection \<open>Evaluation\<close>

lemma tbind_Inr_iff:
  "tbind m f s = (Inr y, s') \<longleftrightarrow> (\<exists>x s1. m s = (Inr x, s1) \<and> f x s1 = (Inr y, s'))"
  by (auto simp: tbind_def split: prod.splits sum.splits)

lemma tbind_step [simp]: "m s = (Inr x, s1) \<Longrightarrow> tbind m f s = f x s1"
  by (simp add: tbind_def)

lemma tbind_fail [simp]: "m s = (Inl e, s1) \<Longrightarrow> tbind m f s = (Inl e, s1)"
  by (simp add: tbind_def)

lemma ret_apply [simp]: "ret x s = (Inr x, s)"
  by (simp add: ret_def)

lemma raise_apply [simp]: "raise e s = (Inl e, s)"
  by (simp add: raise_def)

lemma of_result_apply [simp]: "of_result r s = (r, s)"
  by (simp add: of_result_def)

lemma rand_read_apply:
  "rand_read k s = (Inr (case entropy s (reads s) of Inl e \<Rightarrow> Inl e
     | Inr f \<Rightarrow> Inr (map (\<lambda>i. f i mod 256) [0..<k])), s\<lparr>reads := Suc (reads s)\<rparr>)"
  by (simp add: rand_read_def)

lemma attempt_Inr [simp]: "m s = (Inr x, s1) \<Longrightarrow> attempt m s = (Inr (Inr x), s1)"
  by (simp add: attempt_def)

lemma attempt_Inl [simp]: "m s = (Inl e, s1) \<Longrightarrow> \<not> is_panic e \<Longrightarrow> attempt m s = (Inr (Inl e), s1)"
  by (simp add: attempt_def)

lemma attempt_case_Inr:
  "tbind (attempt m) (\<lambda>r. case r of Inl e \<Rightarrow> f e | Inr x \<Rightarrow> g x) s = (Inr y, s') \<longleftrightarrow>
     (\<exists>x s1. m s = (Inr x, s1) \<and> g x s1 = (Inr y, s')) \<or>
     (\<exists>e s1. m s = (Inl e, s1) \<and> \<not> is_panic e \<and> f e s1 = (Inr y, s'))"
  by (cases "m s"; cases "fst (m s)") (auto simp: attempt_def tbind_def)

lemma is_panic_simps [simp]:
  "is_panic (Panic m)" "\<not> is_panic ErrNoRows" "\<not> is_panic (PgError c)"
  "\<not> is_panic (Wrap m e)" "\<not> is_panic (ErrorString m)" "\<not> is_panic ErrDuplicate"
  by (simp_all add: is_panic_def)

lemma query_apply: "query q s = (if aborted s then (Inl in_failed_tx, s) else (Inr (q s), s))"
  by (simp add: query_def)

lemma query_one_apply:
  "query_one q s = (if aborted s then (Inl in_failed_tx, s)
     else case q s of None \<Rightarrow> (Inl ErrNoRows, s) | Some x \<Rightarrow> (Inr x, s))"
  by (simp add: query_one_def query_def tbind_def split: option.splits)

lemma query_one_Inr_iff:
  "query_one q s = (Inr x, s') \<longleftrightarrow> \<not> aborted s \<and> q s = Some x \<and> s' = s"
  by (auto simp: query_one_apply split: option.splits)

lemma query_Inr_iff: "query q s = (Inr x, s') \<longleftrightarrow> \<not> aborted s \<and> x = q s \<and> s' = s"
  by (auto simp: query_apply)

lemma stmt_Inr_iff: "stmt q s = (Inr x, s') \<longleftrightarrow> \<not> aborted s \<and> q s = Inr (x, s')"
  by (auto simp: stmt_def split: sum.splits go_error.splits)

lemma update_apply: "update u s = (if aborted s then (Inl in_failed_tx, s) else (Inr (), u s))"
  by (simp add: update_def stmt_def)

lemma scoped_Inr_iff:
  "scoped sc fn s = (Inr x, s') \<longleftrightarrow> (\<exists>s1. fn (s\<lparr>scope := sc, aborted := False\<rparr>) = (Inr x, s1) \<and>
     \<not> aborted s1 \<and> s' = s1\<lparr>scope := scope s, aborted := aborted s\<rparr>)"
  by (auto simp: scoped_def split: prod.splits sum.splits if_splits)

lemma scoped_Inl: "scoped sc fn s = (Inl e, s') \<Longrightarrow> s' = s\<lparr>reads := reads s'\<rparr>"
  by (auto simp: scoped_def rollback_def split: prod.splits sum.splits if_splits)

lemma scoped_step:
  "fn (s\<lparr>scope := sc, aborted := False\<rparr>) = (Inr x, s1) \<Longrightarrow> \<not> aborted s1 \<Longrightarrow>
    scoped sc fn s = (Inr x, s1\<lparr>scope := scope s, aborted := aborted s\<rparr>)"
  by (simp add: scoped_def)

lemma scoped_fail:
  "fn (s\<lparr>scope := sc, aborted := False\<rparr>) = (Inl e, s1) \<Longrightarrow> scoped sc fn s = (Inl e, s\<lparr>reads := reads s1\<rparr>)"
  by (simp add: scoped_def rollback_def)

text \<open>A body that writes nothing: at most it reads random bytes.\<close>

definition readonly :: "'a tx \<Rightarrow> bool" where
  "readonly m \<longleftrightarrow> (\<forall>s. \<exists>n. snd (m s) = s\<lparr>reads := n\<rparr>)"

lemma readonlyD: "readonly m \<Longrightarrow> m s = (r, s') \<Longrightarrow> \<exists>n. s' = s\<lparr>reads := n\<rparr>"
  unfolding readonly_def by (metis snd_conv)

lemma readonly_same: "(\<And>s. snd (m s) = s) \<Longrightarrow> readonly m"
  unfolding readonly_def
proof
  fix s
  assume "\<And>s. snd (m s) = s"
  then show "\<exists>n. snd (m s) = s\<lparr>reads := n\<rparr>" by (intro exI [of _ "reads s"]) simp
qed

lemma readonly_tbind:
  assumes "readonly m" and "\<And>x. readonly (f x)"
  shows "readonly (tbind m f)"
  unfolding readonly_def
proof
  fix s
  obtain r s1 where m: "m s = (r, s1)" by (cases "m s")
  obtain n where n: "s1 = s\<lparr>reads := n\<rparr>" using readonlyD [OF assms(1) m] by blast
  show "\<exists>n. snd (tbind m f s) = s\<lparr>reads := n\<rparr>"
  proof (cases r)
    case (Inl e)
    with m n show ?thesis by auto
  next
    case (Inr x)
    obtain k where "snd (f x s1) = s1\<lparr>reads := k\<rparr>"
      using assms(2) [of x] unfolding readonly_def by blast
    with m n Inr show ?thesis by auto
  qed
qed

lemma readonly_rand_read: "readonly (rand_read k)"
  by (auto simp: readonly_def rand_read_def)

lemma readonly_attempt: "readonly m \<Longrightarrow> readonly (attempt m)"
  unfolding readonly_def attempt_def
  by (simp split: prod.splits sum.splits if_splits) (metis snd_conv)

lemma readonly_basic: "readonly (ret x)" "readonly (raise e)" "readonly (of_result r)"
  "readonly (query q)" "readonly (query_one q')"
  by (auto intro!: readonly_same simp: query_apply query_one_apply split: option.splits)

lemma readonly_if: "readonly m \<Longrightarrow> readonly n \<Longrightarrow> readonly (if b then m else n)"
  by simp

lemmas readonly_intros = readonly_basic readonly_tbind readonly_rand_read readonly_attempt
  readonly_if

lemma readonly_keeps: "readonly m \<Longrightarrow> (\<And>t. R t t) \<Longrightarrow> keeps S R m"
  by (rule keepsI) (auto dest: readonlyD)

text \<open>What a successful UPDATE of invoices returns and does.\<close>

definition stamped :: "(time \<Rightarrow> Invoice \<Rightarrow> Invoice) \<Rightarrow> time \<Rightarrow> Invoice \<Rightarrow> Invoice" where
  "stamped f now i = (f now i)\<lparr>inv_updated_at := now\<rparr>"

definition updated_db ::
    "(Invoice \<Rightarrow> bool) \<Rightarrow> (time \<Rightarrow> Invoice \<Rightarrow> Invoice) \<Rightarrow> db \<Rightarrow> db" where
  "updated_db p f s = s\<lparr>invoices :=
     update_rows (\<lambda>i. writes_invoice s i \<and> p i) (stamped f (clock s)) (invoices s)\<rparr>"

lemma update_invoice_Inr:
  assumes "update_invoice p f s = (Inr x, s')"
  shows "\<not> aborted s \<and> s' = updated_db p f s \<and>
    (\<exists>i \<in> set (invoices s). writes_invoice s i \<and> p i \<and> x = stamped f (clock s) i)"
  using assms unfolding update_invoice_def stmt_Inr_iff Let_def updated_db_def stamped_def
  by (auto split: if_splits option.splits simp: find_Some_iff)

lemma stamped_simps [simp]:
  "inv_updated_at (stamped f now i) = now" "inv_id (stamped f now i) = inv_id (f now i)"
  "inv_org_id (stamped f now i) = inv_org_id (f now i)"
  "inv_state (stamped f now i) = inv_state (f now i)"
  "inv_attempt (stamped f now i) = inv_attempt (f now i)"
  "inv_receipt_code (stamped f now i) = inv_receipt_code (f now i)"
  "inv_superseded_by (stamped f now i) = inv_superseded_by (f now i)"
  "inv_kind (stamped f now i) = inv_kind (f now i)"
  "inv_parent_id (stamped f now i) = inv_parent_id (f now i)"
  "inv_sale_id (stamped f now i) = inv_sale_id (f now i)"
  "inv_kra_invoice_no (stamped f now i) = inv_kra_invoice_no (f now i)"
  "inv_next_attempt_at (stamped f now i) = inv_next_attempt_at (f now i)"
  "inv_last_error (stamped f now i) = inv_last_error (f now i)"
  "amounts (stamped f now i) = amounts (f now i)"
  by (simp_all add: stamped_def amounts_def)

lemma updated_db_simps [simp]:
  "scope (updated_db p f s) = scope s" "clock (updated_db p f s) = clock s"
  "aborted (updated_db p f s) = aborted s" "reads (updated_db p f s) = reads s"
  "entropy (updated_db p f s) = entropy s"
  "orgs (updated_db p f s) = orgs s" "webhook_events (updated_db p f s) = webhook_events s"
  "items (updated_db p f s) = items s" "mpesa_shortcodes (updated_db p f s) = mpesa_shortcodes s"
  "customers (updated_db p f s) = customers s" "sales (updated_db p f s) = sales s"
  "sale_items (updated_db p f s) = sale_items s"
  "stk_requests (updated_db p f s) = stk_requests s" "payments (updated_db p f s) = payments s"
  "fiscal_submissions (updated_db p f s) = fiscal_submissions s"
  "usage_counters (updated_db p f s) = usage_counters s" "audit_log (updated_db p f s) = audit_log s"
  "jobs (updated_db p f s) = jobs s" "next_id (updated_db p f s) = next_id s"
  "users (updated_db p f s) = users s" "memberships (updated_db p f s) = memberships s"
  "sessions (updated_db p f s) = sessions s" "otp_codes (updated_db p f s) = otp_codes s"
  "org_invites (updated_db p f s) = org_invites s"
  "notifications (updated_db p f s) = notifications s" "plans (updated_db p f s) = plans s"
  "subscriptions (updated_db p f s) = subscriptions s"
  by (simp_all add: updated_db_def)

lemma update_invoice_fail_tbl: "update_invoice p f s = (Inl e, s') \<Longrightarrow>
    s' = s \<or> s' = s\<lparr>aborted := True\<rparr>"
  by (auto simp: update_invoice_def stmt_def Let_def pg_errors split: if_splits option.splits)

lemma keeps_update_invoice:
  assumes "\<And>t. R t t" and "\<And>s. scope s \<in> S \<Longrightarrow> R (tbl s) (tbl (updated_db p f s))"
  shows "keeps S R (update_invoice p f)"
proof (rule keepsI)
  fix s r s'
  assume sc: "scope s \<in> S" and run: "update_invoice p f s = (r, s')"
  show "scope s' = scope s \<and> clock s' = clock s \<and> R (tbl s) (tbl s')"
  proof (cases r)
    case (Inl e)
    with run update_invoice_fail_tbl [of p f s e s'] assms(1) show ?thesis by auto
  next
    case (Inr x)
    with run update_invoice_Inr [of p f s x s'] assms(2) [OF sc] show ?thesis by simp
  qed
qed

lemmas run_defs = tbind_def attempt_def query_apply query_one_apply stmt_def update_apply
  exec_def ignore_def scoped_def rollback_def

end
