(* ===== verification/Crypto.thy ===== *)
theory Crypto
  imports TxLogic
begin

text \<open>
  \<open>internal/platform/crypto/crypto.go\<close>: envelope encryption of personal data, the keyed
  hash for equality lookups, and the normal form of Kenyan phone numbers; and the masks of
  \<open>internal/platform/log/log.go\<close>. AES-GCM and HMAC-SHA256 are fields of the keyring, with
  what the code relies on stated by \<open>aead_ok\<close>.
\<close>

definition version1 :: nat where "version1 = 1"
definition nonceSize :: nat where "nonceSize = 12"
definition dekSize :: nat where "dekSize = 32"
definition wrappedSize :: nat where "wrappedSize = dekSize + 16"
definition headerSize :: nat where "headerSize = 1 + nonceSize + wrappedSize + nonceSize"

lemmas size_defs = version1_def nonceSize_def dekSize_def wrappedSize_def headerSize_def

text \<open>\<open>gcm_Seal key nonce plaintext ad\<close>, \<open>gcm_Open key nonce ciphertext ad\<close>, \<open>hmac key value\<close>.\<close>

record Keyring =
  master :: bytes
  pepper :: bytes
  gcm_Seal :: "bytes \<Rightarrow> bytes \<Rightarrow> bytes \<Rightarrow> bytes \<Rightarrow> bytes"
  gcm_Open :: "bytes \<Rightarrow> bytes \<Rightarrow> bytes \<Rightarrow> bytes \<Rightarrow> bytes option"
  hmac :: "bytes \<Rightarrow> bytes \<Rightarrow> bytes"

definition aead_ok :: "Keyring \<Rightarrow> bool" where
  "aead_ok k \<longleftrightarrow> (\<forall>key nonce p ad. gcm_Open k key nonce (gcm_Seal k key nonce p ad) ad = Some p \<and>
     length (gcm_Seal k key nonce p ad) = length p + 16)"

definition version_byte :: bytes where "version_byte = [char_of version1]"

definition random_bytes :: "nat \<Rightarrow> bytes tx" where
  "random_bytes n = tbind (rand_read n) (\<lambda>r. of_result (map_sum id (map char_of) r))"

definition Encrypt :: "Keyring \<Rightarrow> bytes \<Rightarrow> bytes tx" where
  "Encrypt k plaintext =
     (if plaintext = [] then ret []
      else tbind (random_bytes dekSize) (\<lambda>dek.
       tbind (random_bytes nonceSize) (\<lambda>dekNonce.
       tbind (random_bytes nonceSize) (\<lambda>dataNonce.
       ret (version_byte @ dekNonce @ gcm_Seal k (master k) dekNonce dek version_byte @
         dataNonce @ gcm_Seal k dek dataNonce plaintext [])))))"

definition Decrypt :: "Keyring \<Rightarrow> bytes \<Rightarrow> go_error + bytes" where
  "Decrypt k blob =
     (if blob = [] then Inr []
      else if length blob < headerSize \<or> take 1 blob \<noteq> version_byte then Inl ErrMalformed
      else let dekNonce = take nonceSize (drop 1 blob);
               wrapped = take wrappedSize (drop (1 + nonceSize) blob);
               dataNonce = take nonceSize (drop (1 + nonceSize + wrappedSize) blob);
               ciphertext = drop headerSize blob
           in (case gcm_Open k (master k) dekNonce wrapped version_byte of
                 None \<Rightarrow> Inl (ErrorString ''crypto: unwrap dek'')
               | Some dek \<Rightarrow>
                   if length dek \<notin> {16, 24, 32} then Inl (ErrorString ''crypto/aes: invalid key size'')
                   else (case gcm_Open k dek dataNonce ciphertext [] of
                       None \<Rightarrow> Inl (ErrorString ''crypto: open'')
                     | Some plain \<Rightarrow> Inr plain)))"

definition EncryptString :: "Keyring \<Rightarrow> string \<Rightarrow> bytes tx" where
  "EncryptString k str = Encrypt k str"

definition DecryptString :: "Keyring \<Rightarrow> bytes \<Rightarrow> go_error + string" where
  "DecryptString k blob = Decrypt k blob"

definition Hash :: "Keyring \<Rightarrow> string \<Rightarrow> bytes" where
  "Hash k v = (if v = [] then [] else hmac k (pepper k) v)"

definition NormaliseMSISDN :: "string \<Rightarrow> go_error + string" where
  "NormaliseMSISDN raw =
     (let d = filter is_digit raw in
      if length d = 12 \<and> prefix ''254'' d then Inr d
      else if length d = 10 \<and> (prefix ''07'' d \<or> prefix ''01'' d) then Inr (''254'' @ drop 1 d)
      else if length d = 9 \<and> (d ! 0 = CHR ''7'' \<or> d ! 0 = CHR ''1'') then Inr (''254'' @ d)
      else Inl (ErrorString (''crypto: '' @ raw @ '' is not a Kenyan MSISDN'')))"

definition HashMSISDN :: "Keyring \<Rightarrow> string \<Rightarrow> bytes" where
  "HashMSISDN k m = (case NormaliseMSISDN m of Inl _ \<Rightarrow> [] | Inr n \<Rightarrow> Hash k n)"

definition NormalisePIN :: "string \<Rightarrow> string" where
  "NormalisePIN raw = to_upper (trim_space raw)"

text \<open>The bullet point U+2022 in UTF-8.\<close>

definition bullet :: string where "bullet = [CHR 0xE2, CHR 0x80, CHR 0xA2]"

definition bullets :: "nat \<Rightarrow> string" where "bullets n = concat (replicate n bullet)"

definition MaskMSISDN :: "string \<Rightarrow> string" where
  "MaskMSISDN raw = (let m = trim_space raw in
     if length m < 7 then bullets (length m)
     else take 4 m @ bullets (length m - 7) @ drop (length m - 3) m)"

definition MaskPIN :: "string \<Rightarrow> string" where
  "MaskPIN raw = (let pin = trim_space raw in
     if length pin < 7 then bullets (length pin)
     else take 3 pin @ bullets (max 5 (length pin - 6)) @ drop (length pin - 3) pin)"

subsection \<open>Properties\<close>

lemma random_bytes_Inr:
  "random_bytes n s = (Inr x, s') \<Longrightarrow> length x = n \<and> s' = s\<lparr>reads := Suc (reads s)\<rparr>"
  by (auto simp: random_bytes_def tbind_Inr_iff rand_read_apply split: sum.splits)

lemma Encrypt_Inr:
  assumes "Encrypt k p s = (Inr b, s')" and "p \<noteq> []"
  obtains dek dn xn where "length dek = dekSize" "length dn = nonceSize" "length xn = nonceSize"
    "b = version_byte @ dn @ gcm_Seal k (master k) dn dek version_byte @ xn @ gcm_Seal k dek xn p []"
  using assms by (auto simp: Encrypt_def tbind_Inr_iff dest!: random_bytes_Inr)

lemma readonly_Encrypt: "readonly (Encrypt k p)"
  unfolding Encrypt_def random_bytes_def by (intro readonly_intros)

lemma readonly_EncryptString: "readonly (EncryptString k p)"
  unfolding EncryptString_def by (rule readonly_Encrypt)

lemma Decrypt_layout:
  assumes "length dn = nonceSize" "length w = wrappedSize" "length xn = nonceSize"
  shows "Decrypt k (version_byte @ dn @ w @ xn @ c) =
    (case gcm_Open k (master k) dn w version_byte of
       None \<Rightarrow> Inl (ErrorString ''crypto: unwrap dek'')
     | Some dek \<Rightarrow>
         if length dek \<notin> {16, 24, 32} then Inl (ErrorString ''crypto/aes: invalid key size'')
         else (case gcm_Open k dek xn c [] of
             None \<Rightarrow> Inl (ErrorString ''crypto: open'') | Some plain \<Rightarrow> Inr plain))"
proof -
  let ?blob = "version_byte @ dn @ w @ xn @ c"
  have len: "length version_byte = 1" by (simp add: version_byte_def)
  have parts: "take nonceSize (drop 1 ?blob) = dn"
    "take wrappedSize (drop (1 + nonceSize) ?blob) = w"
    "take nonceSize (drop (1 + nonceSize + wrappedSize) ?blob) = xn"
    "drop headerSize ?blob = c" "take 1 ?blob = version_byte" "\<not> length ?blob < headerSize"
    "?blob \<noteq> []"
    using assms len by (simp_all add: headerSize_def version_byte_def)
  show ?thesis unfolding Decrypt_def Let_def parts(1-5) using parts(6,7) len by auto
qed

text \<open>
  C24. Envelope encryption is undone by decryption: whatever the random source delivers, a
  value that was encrypted is read back, and an empty value is stored as no bytes at all. A
  blob that is too short or does not carry the version byte is rejected as malformed.
\<close>

theorem envelope_roundtrip:
  assumes "aead_ok k"
  shows "(EncryptString k p s = (Inr b, s') \<longrightarrow> DecryptString k b = Inr p \<and> (b = [] \<longleftrightarrow> p = [])) \<and>
    (blob \<noteq> [] \<and> (length blob < 73 \<or> hd blob \<noteq> CHR 0x01) \<longrightarrow>
      DecryptString k blob = Inl ErrMalformed)"
proof (intro conjI impI)
  assume enc: "EncryptString k p s = (Inr b, s')"
  have open_seal: "gcm_Open k key n (gcm_Seal k key n q ad) ad = Some q"
    and seal_len: "length (gcm_Seal k key n q ad) = length q + 16" for key n q ad
    using assms by (simp_all add: aead_ok_def)
  have both: "DecryptString k b = Inr p \<and> (b = [] \<longleftrightarrow> p = [])"
  proof (cases "p = []")
    case True
    with enc show ?thesis
      by (auto simp: EncryptString_def Encrypt_def DecryptString_def Decrypt_def)
  next
    case False
    with enc obtain dek dn xn where l: "length dek = dekSize" "length dn = nonceSize"
        "length xn = nonceSize"
      and b: "b = version_byte @ dn @ gcm_Seal k (master k) dn dek version_byte @ xn @
        gcm_Seal k dek xn p []"
      unfolding EncryptString_def by (rule Encrypt_Inr)
    have "Decrypt k b = Inr p"
      unfolding b using l by (subst Decrypt_layout)
        (simp_all add: seal_len open_seal wrappedSize_def dekSize_def)
    with False show ?thesis by (simp add: DecryptString_def b version_byte_def)
  qed
  then show "DecryptString k b = Inr p" and "b = [] \<longleftrightarrow> p = []" by auto
next
  assume bad: "blob \<noteq> [] \<and> (length blob < 73 \<or> hd blob \<noteq> CHR 0x01)"
  have vb: "version_byte = [CHR 0x01]" by code_simp
  have "headerSize = 73" by (simp add: size_defs)
  then have "length blob < headerSize \<or> take 1 blob \<noteq> version_byte"
    unfolding vb using bad by (cases blob) auto
  with bad show "DecryptString k blob = Inl ErrMalformed"
    by (simp add: DecryptString_def Decrypt_def)
qed

text \<open>A keyring over a transparent cipher, and an empty store, for evaluation.\<close>

definition plain_keyring :: Keyring where
  "plain_keyring = \<lparr>master = replicate 32 (CHR ''m''), pepper = ''pepper'',
     gcm_Seal = (\<lambda>key nonce p ad. p @ replicate 16 (CHR ''t'')),
     gcm_Open = (\<lambda>key nonce c ad. Some (take (length c - 16) c)),
     hmac = (\<lambda>key v. ''h:'' @ v)\<rparr>"

definition empty_db :: db where
  "empty_db = \<lparr>orgs = [], webhook_events = [], items = [], mpesa_shortcodes = [], customers = [],
     sales = [], sale_items = [], stk_requests = [], payments = [], invoices = [],
     fiscal_submissions = [], usage_counters = [], audit_log = [], jobs = [],
     users = [], memberships = [], sessions = [], otp_codes = [], org_invites = [],
     notifications = [], plans = [], subscriptions = [], next_id = 1,
     clock = 63871200000 * second, scope = ScopeNone, aborted = False,
     entropy = (\<lambda>n. Inr (\<lambda>i. n * 7 + i)), reads = 0\<rparr>"

lemma aead_ok_plain: "aead_ok plain_keyring"
  by (simp add: aead_ok_def plain_keyring_def)

theorem envelope_roundtrip_witness:
  "\<exists>b s'. EncryptString plain_keyring ''A000000001B'' empty_db = (Inr b, s') \<and>
     DecryptString plain_keyring b = Inr ''A000000001B'' \<and>
     DecryptString plain_keyring ''xyz'' = Inl ErrMalformed"
proof -
  obtain b s' where enc: "EncryptString plain_keyring ''A000000001B'' empty_db = (Inr b, s')"
    by (simp add: EncryptString_def Encrypt_def random_bytes_def tbind_def rand_read_apply
      empty_db_def)
  show ?thesis
    using envelope_roundtrip [OF aead_ok_plain, of "''A000000001B''" empty_db b s' "''xyz''"] enc
    by auto
qed

subsection \<open>Phone numbers and masks\<close>

definition canonical_msisdn :: "string \<Rightarrow> bool" where
  "canonical_msisdn d \<longleftrightarrow> length d = 12 \<and> prefix ''254'' d \<and> list_all is_digit d"

lemma digits_254: "list_all is_digit ''254''"
  by code_simp

lemma filter_all: "list_all P xs \<Longrightarrow> filter P xs = xs"
  by (induction xs) auto

lemma list_all_filter: "list_all P (filter P xs)"
  by (simp add: list_all_iff)

lemma NormaliseMSISDN_canonical: "canonical_msisdn d \<Longrightarrow> NormaliseMSISDN d = Inr d"
  by (simp add: canonical_msisdn_def NormaliseMSISDN_def filter_all)

lemma NormaliseMSISDN_result:
  assumes "NormaliseMSISDN raw = Inr d"
  shows "canonical_msisdn d"
proof -
  let ?d = "filter is_digit raw"
  have dig: "list_all is_digit ?d" by (rule list_all_filter)
  consider "length ?d = 12" "prefix ''254'' ?d" "d = ?d" | "length ?d = 10" "d = ''254'' @ drop 1 ?d"
    | "length ?d = 9" "d = ''254'' @ ?d"
    using assms by (auto simp: NormaliseMSISDN_def Let_def split: if_splits)
  then show ?thesis
    using dig digits_254 list_all_drop [OF dig, of 1] by cases (auto simp: canonical_msisdn_def)
qed

text \<open>
  A phone number is normalised to twelve digits beginning with 254 or refused; the
  normal form is a fixed point, it depends on the digits only (spaces, dashes and a plus
  sign are ignored), and the local notations of a subscriber number (leading 0, or none)
  and the international one normalise, and therefore hash, alike.
\<close>

theorem msisdn_normal_form:
  assumes "list_all is_digit sub" and "length sub = 9" and "hd sub = CHR ''7'' \<or> hd sub = CHR ''1''"
  shows "(NormaliseMSISDN raw = Inr d \<longrightarrow> canonical_msisdn d \<and> NormaliseMSISDN d = Inr d) \<and>
    (filter is_digit raw = filter is_digit raw' \<longrightarrow>
      (\<forall>d. NormaliseMSISDN raw = Inr d \<longleftrightarrow> NormaliseMSISDN raw' = Inr d)) \<and>
    NormaliseMSISDN sub = Inr (''254'' @ sub) \<and>
    NormaliseMSISDN (''0'' @ sub) = Inr (''254'' @ sub) \<and>
    NormaliseMSISDN (''+254'' @ sub) = Inr (''254'' @ sub) \<and>
    HashMSISDN k (''0'' @ sub) = HashMSISDN k (''+254'' @ sub)"
proof -
  obtain c rest where sub: "sub = c # rest" using assms(2) by (cases sub) auto
  have f: "filter is_digit sub = sub" using assms(1) by (rule filter_all)
  have zero: "is_digit (CHR ''0'')" "is_digit (CHR ''2'')" "is_digit (CHR ''5'')"
    "is_digit (CHR ''4'')" "\<not> is_digit (CHR ''+'')" by code_simp+
  have n9: "NormaliseMSISDN sub = Inr (''254'' @ sub)"
    using assms f sub by (simp add: NormaliseMSISDN_def Let_def)
  have n10: "NormaliseMSISDN (''0'' @ sub) = Inr (''254'' @ sub)"
    using assms f sub zero by (auto simp: NormaliseMSISDN_def Let_def prefix_def)
  have n12: "NormaliseMSISDN (''+254'' @ sub) = Inr (''254'' @ sub)"
    using assms f sub zero by (auto simp: NormaliseMSISDN_def Let_def prefix_def)
  have same: "NormaliseMSISDN raw = Inr d \<longleftrightarrow> NormaliseMSISDN raw' = Inr d"
    if "filter is_digit raw = filter is_digit raw'" for d
    using that by (auto simp: NormaliseMSISDN_def Let_def)
  show ?thesis
    using n9 n10 n12 same NormaliseMSISDN_result NormaliseMSISDN_canonical
    by (auto simp: HashMSISDN_def)
qed

theorem msisdn_normal_form_witness:
  "NormaliseMSISDN ''0712345678'' = Inr ''254712345678'' \<and>
   HashMSISDN plain_keyring ''0712345678'' = HashMSISDN plain_keyring ''+254712345678''"
  using msisdn_normal_form [of "''712345678''"] by (simp add: char_class_defs)

end
