(* ===== verification/Matcher.thy ===== *)
theory Matcher
  imports Prelude
begin

text \<open>
  \<open>internal/ledger/matcher.go\<close>: the pure decision which sale, if any, an incoming payment
  settles. The read-only questions are functions the caller supplies; a nil function is
  \<open>None\<close>, and \<open>(x, true)\<close> / \<open>(_, false)\<close> is \<open>Some x\<close> / \<open>None\<close>.
\<close>

definition STKWindow :: duration where "STKWindow = 10 * minute"
definition CounterWindow :: duration where "CounterWindow = 5 * minute"

definition RuleBillRef :: string where "RuleBillRef = ''bill_ref''"
definition RuleSTKWindow :: string where "RuleSTKWindow = ''stk_window''"
definition RuleCounterWindow :: string where "RuleCounterWindow = ''counter_window''"
definition RuleAutoInvoice :: string where "RuleAutoInvoice = ''auto_invoice''"
definition RuleManual :: string where "RuleManual = ''manual''"

definition StatusMatched :: string where "StatusMatched = ''matched''"
definition StatusCashSale :: string where "StatusCashSale = ''cash_sale''"
definition StatusUnmatched :: string where "StatusUnmatched = ''unmatched''"
definition StatusPartial :: string where "StatusPartial = ''partial''"
definition StatusReversed :: string where "StatusReversed = ''reversed''"

lemmas rule_defs = RuleBillRef_def RuleSTKWindow_def RuleCounterWindow_def RuleAutoInvoice_def
  RuleManual_def
lemmas status_defs = StatusMatched_def StatusCashSale_def StatusUnmatched_def StatusPartial_def
  StatusReversed_def

record Incoming =
  in_AmountCents :: int
  in_BillRef :: string
  in_MSISDNHash :: bytes
  in_PaidAt :: time

record OpenSale =
  os_ID :: uuid
  os_TotalCents :: int

record PendingSTK =
  ps_ID :: uuid
  ps_SaleID :: "uuid option"
  ps_CreatedAt :: time

record ShortcodeRule =
  sr_AutoInvoice :: bool
  sr_DefaultItemID :: "uuid option"

record Lookups =
  lk_OpenSaleByRef :: "(string \<Rightarrow> OpenSale option) option"
  lk_PendingSTK :: "(bytes \<Rightarrow> int \<Rightarrow> time \<Rightarrow> PendingSTK option) option"
  lk_OpenSaleByCustomer :: "(bytes \<Rightarrow> time \<Rightarrow> OpenSale option) option"
  lk_OpenSaleByAmount :: "(int \<Rightarrow> time \<Rightarrow> OpenSale option) option"

record Decision =
  d_Status :: string
  d_Rule :: string
  d_SaleID :: "uuid option"
  d_STKRequestID :: "uuid option"
  d_CreateCashSale :: bool
  d_Reason :: string

definition no_decision :: Decision where
  "no_decision = \<lparr>d_Status = [], d_Rule = [], d_SaleID = None, d_STKRequestID = None,
     d_CreateCashSale = False, d_Reason = []\<rparr>"

text \<open>The answers of the four questions, each asked only when the code asks it.\<close>

definition by_ref :: "Incoming \<Rightarrow> Lookups \<Rightarrow> OpenSale option" where
  "by_ref inp lk = (let ref = trim_space (in_BillRef inp) in
     if ref = [] then None else case lk_OpenSaleByRef lk of None \<Rightarrow> None | Some f \<Rightarrow> f ref)"

definition by_stk :: "Incoming \<Rightarrow> Lookups \<Rightarrow> PendingSTK option" where
  "by_stk inp lk = (if in_MSISDNHash inp = [] then None else case lk_PendingSTK lk of None \<Rightarrow> None
     | Some f \<Rightarrow> f (in_MSISDNHash inp) (in_AmountCents inp) (in_PaidAt inp - STKWindow))"

definition by_customer :: "Incoming \<Rightarrow> Lookups \<Rightarrow> OpenSale option" where
  "by_customer inp lk = (if in_MSISDNHash inp = [] then None
     else case lk_OpenSaleByCustomer lk of None \<Rightarrow> None
     | Some f \<Rightarrow> f (in_MSISDNHash inp) (in_PaidAt inp - CounterWindow))"

definition by_amount :: "Incoming \<Rightarrow> Lookups \<Rightarrow> OpenSale option" where
  "by_amount inp lk = (case lk_OpenSaleByAmount lk of None \<Rightarrow> None
     | Some f \<Rightarrow> f (in_AmountCents inp) (in_PaidAt inp - CounterWindow))"

definition sale_decision :: "string \<Rightarrow> Incoming \<Rightarrow> OpenSale \<Rightarrow> Decision" where
  "sale_decision rule inp sa = (let d = no_decision\<lparr>d_Rule := rule, d_SaleID := Some (os_ID sa)\<rparr> in
     if os_TotalCents sa \<le> in_AmountCents inp then d\<lparr>d_Status := StatusMatched\<rparr>
     else d\<lparr>d_Status := StatusPartial, d_Reason := ''amount below sale total''\<rparr>)"

definition stk_decision :: "PendingSTK \<Rightarrow> Decision" where
  "stk_decision r = (let d = no_decision\<lparr>d_Rule := RuleSTKWindow, d_STKRequestID := Some (ps_ID r)\<rparr> in
     case ps_SaleID r of
       Some sid \<Rightarrow> d\<lparr>d_Status := StatusMatched, d_SaleID := Some sid\<rparr>
     | None \<Rightarrow> d\<lparr>d_Status := StatusCashSale, d_CreateCashSale := True\<rparr>)"

definition Match :: "Incoming \<Rightarrow> ShortcodeRule \<Rightarrow> Lookups \<Rightarrow> Decision" where
  "Match inp sc lk = (case by_ref inp lk of Some sa \<Rightarrow> sale_decision RuleBillRef inp sa
     | None \<Rightarrow> (case by_stk inp lk of Some r \<Rightarrow> stk_decision r
     | None \<Rightarrow> (case by_customer inp lk of Some sa \<Rightarrow> sale_decision RuleCounterWindow inp sa
     | None \<Rightarrow> (case by_amount inp lk of
         Some sa \<Rightarrow> no_decision\<lparr>d_Status := StatusMatched, d_Rule := RuleCounterWindow,
           d_SaleID := Some (os_ID sa)\<rparr>
     | None \<Rightarrow>
         if sr_AutoInvoice sc \<and> sr_DefaultItemID sc \<noteq> None
         then no_decision\<lparr>d_Status := StatusCashSale, d_Rule := RuleAutoInvoice,
           d_CreateCashSale := True\<rparr>
         else no_decision\<lparr>d_Status := StatusUnmatched,
           d_Reason := if \<not> sr_AutoInvoice sc then ''auto-invoice off for this shortcode''
             else if sr_DefaultItemID sc = None then ''shortcode has no default item''
             else ''no open sale, no STK request''\<rparr>))))"

subsection \<open>Properties\<close>

lemma decision_cases:
  obtains (ref) sa where "by_ref inp lk = Some sa" "Match inp sc lk = sale_decision RuleBillRef inp sa"
  | (stk) r where "by_ref inp lk = None" "by_stk inp lk = Some r" "Match inp sc lk = stk_decision r"
  | (customer) sa where "by_ref inp lk = None" "by_stk inp lk = None"
      "by_customer inp lk = Some sa" "Match inp sc lk = sale_decision RuleCounterWindow inp sa"
  | (amount) sa where "by_ref inp lk = None" "by_stk inp lk = None" "by_customer inp lk = None"
      "by_amount inp lk = Some sa" "d_SaleID (Match inp sc lk) = Some (os_ID sa)"
      "d_Status (Match inp sc lk) = StatusMatched" "d_Rule (Match inp sc lk) = RuleCounterWindow"
      "d_STKRequestID (Match inp sc lk) = None" "\<not> d_CreateCashSale (Match inp sc lk)"
  | (cash) "by_ref inp lk = None" "by_stk inp lk = None" "by_customer inp lk = None"
      "by_amount inp lk = None" "sr_AutoInvoice sc" "sr_DefaultItemID sc \<noteq> None"
      "d_Status (Match inp sc lk) = StatusCashSale" "d_CreateCashSale (Match inp sc lk)"
      "d_SaleID (Match inp sc lk) = None" "d_Rule (Match inp sc lk) = RuleAutoInvoice"
      "d_STKRequestID (Match inp sc lk) = None"
  | (none) "by_ref inp lk = None" "by_stk inp lk = None" "by_customer inp lk = None"
      "by_amount inp lk = None" "\<not> sr_AutoInvoice sc \<or> sr_DefaultItemID sc = None"
      "d_Status (Match inp sc lk) = StatusUnmatched" "\<not> d_CreateCashSale (Match inp sc lk)"
      "d_SaleID (Match inp sc lk) = None" "d_Rule (Match inp sc lk) = []"
      "d_STKRequestID (Match inp sc lk) = None"
proof (cases "by_ref inp lk")
  case (Some sa)
  then show ?thesis by (intro ref) (simp_all add: Match_def)
next
  case nref: None
  show ?thesis
  proof (cases "by_stk inp lk")
    case (Some r)
    with nref show ?thesis by (intro stk) (simp_all add: Match_def)
  next
    case nstk: None
    show ?thesis
    proof (cases "by_customer inp lk")
      case (Some sa)
      with nref nstk show ?thesis by (intro customer) (simp_all add: Match_def)
    next
      case ncust: None
      show ?thesis
      proof (cases "by_amount inp lk")
        case (Some sa)
        with nref nstk ncust show ?thesis by (intro amount) (simp_all add: Match_def no_decision_def)
      next
        case None
        note eqs = nref nstk ncust None
        show ?thesis
        proof (cases "sr_AutoInvoice sc \<and> sr_DefaultItemID sc \<noteq> None")
          case True
          with eqs show ?thesis by (intro cash) (simp_all add: Match_def no_decision_def)
        next
          case False
          with eqs show ?thesis by (intro none) (auto simp: Match_def no_decision_def)
        qed
      qed
    qed
  qed
qed

lemma sale_decision_simps [simp]:
  "d_SaleID (sale_decision rule inp sa) = Some (os_ID sa)"
  "d_Rule (sale_decision rule inp sa) = rule" "d_STKRequestID (sale_decision rule inp sa) = None"
  "d_CreateCashSale (sale_decision rule inp sa) = False"
  "d_Status (sale_decision rule inp sa) =
     (if os_TotalCents sa \<le> in_AmountCents inp then StatusMatched else StatusPartial)"
  by (simp_all add: sale_decision_def no_decision_def Let_def)

lemma stk_decision_simps [simp]:
  "d_SaleID (stk_decision r) = ps_SaleID r" "d_Rule (stk_decision r) = RuleSTKWindow"
  "d_STKRequestID (stk_decision r) = Some (ps_ID r)"
  "d_CreateCashSale (stk_decision r) = (ps_SaleID r = None)"
  "d_Status (stk_decision r) = (if ps_SaleID r = None then StatusCashSale else StatusMatched)"
  by (auto simp: stk_decision_def no_decision_def Let_def split: option.splits)

lemma status_distinct [simp]:
  "StatusMatched \<noteq> StatusCashSale" "StatusMatched \<noteq> StatusUnmatched" "StatusMatched \<noteq> StatusPartial"
  "StatusCashSale \<noteq> StatusMatched" "StatusCashSale \<noteq> StatusUnmatched" "StatusCashSale \<noteq> StatusPartial"
  "StatusUnmatched \<noteq> StatusMatched" "StatusUnmatched \<noteq> StatusCashSale" "StatusUnmatched \<noteq> StatusPartial"
  "StatusPartial \<noteq> StatusMatched" "StatusPartial \<noteq> StatusCashSale" "StatusPartial \<noteq> StatusUnmatched"
  by (simp_all add: status_defs)

lemma rule_distinct [simp]:
  "RuleBillRef \<noteq> RuleSTKWindow" "RuleBillRef \<noteq> RuleCounterWindow" "RuleBillRef \<noteq> RuleAutoInvoice"
  "RuleSTKWindow \<noteq> RuleBillRef" "RuleSTKWindow \<noteq> RuleCounterWindow" "RuleSTKWindow \<noteq> RuleAutoInvoice"
  "RuleCounterWindow \<noteq> RuleBillRef" "RuleCounterWindow \<noteq> RuleSTKWindow"
  "RuleCounterWindow \<noteq> RuleAutoInvoice" "RuleAutoInvoice \<noteq> RuleBillRef"
  "RuleAutoInvoice \<noteq> RuleSTKWindow" "RuleAutoInvoice \<noteq> RuleCounterWindow"
  "[] \<noteq> RuleBillRef" "[] \<noteq> RuleSTKWindow" "[] \<noteq> RuleCounterWindow" "[] \<noteq> RuleAutoInvoice"
  "RuleBillRef \<noteq> []" "RuleSTKWindow \<noteq> []" "RuleCounterWindow \<noteq> []" "RuleAutoInvoice \<noteq> []"
  by (simp_all add: rule_defs)

text \<open>
  C21. The contract of \<open>Decision\<close>: a decision names a sale or asks for a cash sale, never
  both, and an unmatched payment has neither; a decision is partial exactly when the sale
  it names by reference or by payer costs more than was paid; a cash sale is asked for only
  by a request-to-pay without a sale or by a shortcode with auto-invoice and a default
  item; and the rules are tried in their order, a later one deciding only when every
  earlier one found nothing.
\<close>

theorem match_decision:
  shows "(let d = Match inp sc lk in
    (d_CreateCashSale d \<longleftrightarrow> d_Status d = StatusCashSale) \<and>
    (d_SaleID d \<noteq> None \<longleftrightarrow> d_Status d \<in> {StatusMatched, StatusPartial}) \<and>
    (d_Status d = StatusUnmatched \<longleftrightarrow> d_Rule d = []) \<and>
    (d_Status d = StatusPartial \<longleftrightarrow>
      (\<exists>sa. d_SaleID d = Some (os_ID sa) \<and> in_AmountCents inp < os_TotalCents sa \<and>
        (by_ref inp lk = Some sa \<or>
         by_ref inp lk = None \<and> by_stk inp lk = None \<and> by_customer inp lk = Some sa))) \<and>
    (d_CreateCashSale d \<longleftrightarrow> by_ref inp lk = None \<and>
      (case by_stk inp lk of Some r \<Rightarrow> ps_SaleID r = None
       | None \<Rightarrow> by_customer inp lk = None \<and> by_amount inp lk = None \<and>
           sr_AutoInvoice sc \<and> sr_DefaultItemID sc \<noteq> None)) \<and>
    (d_Rule d = RuleBillRef \<longleftrightarrow> by_ref inp lk \<noteq> None) \<and>
    (d_Rule d = RuleSTKWindow \<longleftrightarrow> by_ref inp lk = None \<and> by_stk inp lk \<noteq> None) \<and>
    (d_Rule d = RuleCounterWindow \<longleftrightarrow> by_ref inp lk = None \<and> by_stk inp lk = None \<and>
      \<not> (by_customer inp lk = None \<and> by_amount inp lk = None)) \<and>
    (d_STKRequestID d = (if by_ref inp lk = None then map_option ps_ID (by_stk inp lk) else None)))"
  by (cases rule: decision_cases [of inp lk sc]) (auto simp: Let_def)

end
