(* ===== verification/StoreInvariants.thy ===== *)
theory StoreInvariants
  imports TxLogic
begin

text \<open>
  Three relations between the tables before and after, each an interpretation of
  \<open>store_frame\<close>: \<open>history\<close> (what the ledger has recorded is never edited or lost, and an
  ACKED invoice stays ACKED), \<open>isolated\<close> (a transaction under one organisation's scope
  leaves the rows of every other organisation alone) and \<open>keeps_wf\<close> (the well-formedness
  the schema's keys and constraints promise).
\<close>

subsection \<open>History\<close>

definition grows :: "('r \<Rightarrow> 'k) \<Rightarrow> 'r list \<Rightarrow> 'r list \<Rightarrow> bool" where
  "grows core xs ys \<longleftrightarrow> prefix (map core xs) (map core ys)"

lemma grows_refl [simp]: "grows core xs xs"
  by (simp add: grows_def)

lemma grows_append [simp]: "grows core xs (xs @ ys)"
  by (simp add: grows_def)

lemma grows_trans: "grows core xs ys \<Longrightarrow> grows core ys zs \<Longrightarrow> grows core xs zs"
  by (auto simp: grows_def intro: prefix_order.trans)

lemma grows_update_rows:
  "(\<And>r. core (f r) = core r) \<Longrightarrow> grows core xs (update_rows p f xs)"
  by (simp add: grows_def map_update_rows)

definition invoice_core ::
    "Invoice \<Rightarrow> uuid \<times> uuid \<times> uuid \<times> uuid option \<times> string \<times> uuid option \<times> string
      \<times> (int \<times> int \<times> int) \<times> time" where
  "invoice_core i = (inv_id i, inv_org_id i, inv_sale_id i, inv_payment_id i, inv_kind i,
     inv_parent_id i, inv_receipt_code i, amounts i, inv_issued_at i)"

definition payment_core :: "Payment \<Rightarrow> uuid \<times> uuid \<times> string \<times> int \<times> time" where
  "payment_core p = (pay_id p, pay_org_id p, pay_trans_id p, pay_amount_cents p, pay_paid_at p)"

definition sale_core :: "Sale \<Rightarrow> uuid \<times> uuid \<times> string \<times> int \<times> int \<times> int" where
  "sale_core r = (sale_id r, sale_org_id r, sale_ref r, sale_subtotal_cents r, sale_tax_cents r,
     sale_total_cents r)"

definition event_core :: "WebhookEvent \<Rightarrow> uuid \<times> string \<times> string \<times> string" where
  "event_core e = (we_id e, we_kind e, we_external_id e, we_payload e)"

definition acked_ids :: "tables \<Rightarrow> uuid set" where
  "acked_ids t = inv_id ` {i \<in> set (invoices t). inv_state i = StateAcked}"

definition history :: "tables \<Rightarrow> tables \<Rightarrow> bool" where
  "history t u \<longleftrightarrow> grows invoice_core (invoices t) (invoices u) \<and>
     grows payment_core (payments t) (payments u) \<and> grows sale_core (sales t) (sales u) \<and>
     grows event_core (webhook_events t) (webhook_events u) \<and> prefix (sale_items t) (sale_items u) \<and>
     prefix (fiscal_submissions t) (fiscal_submissions u) \<and>
     prefix (audit_log t) (audit_log u) \<and> prefix (jobs t) (jobs u) \<and>
     acked_ids t \<subseteq> acked_ids u"

lemma acked_ids_append [simp]:
  "acked_ids (t\<lparr>invoices := xs @ ys\<rparr>) = acked_ids (t\<lparr>invoices := xs\<rparr>) \<union> acked_ids (t\<lparr>invoices := ys\<rparr>)"
  by (auto simp: acked_ids_def)

lemma acked_ids_cong: "invoices t = invoices u \<Longrightarrow> acked_ids t = acked_ids u"
  by (simp add: acked_ids_def)

lemma history_other:
  "invoices u = invoices t \<Longrightarrow> grows payment_core (payments t) (payments u) \<Longrightarrow>
   grows sale_core (sales t) (sales u) \<Longrightarrow> grows event_core (webhook_events t) (webhook_events u) \<Longrightarrow>
   prefix (sale_items t) (sale_items u) \<Longrightarrow>
   prefix (fiscal_submissions t) (fiscal_submissions u) \<Longrightarrow> prefix (audit_log t) (audit_log u) \<Longrightarrow>
   prefix (jobs t) (jobs u) \<Longrightarrow> history t u"
  by (simp add: history_def acked_ids_def)

lemma history_invoices:
  assumes "grows invoice_core (invoices t) rows"
    and "\<And>i. i \<in> set (invoices t) \<Longrightarrow> inv_state i = StateAcked \<Longrightarrow>
      \<exists>j \<in> set rows. inv_id j = inv_id i \<and> inv_state j = StateAcked"
    and "invoices u = rows" and "payments u = payments t" and "sales u = sales t"
    and "sale_items u = sale_items t" and "fiscal_submissions u = fiscal_submissions t"
    and "webhook_events u = webhook_events t" and "audit_log u = audit_log t" and "jobs u = jobs t"
  shows "history t u"
  using assms(1,3-10) assms(2) unfolding history_def acked_ids_def by auto (metis (mono_tags, lifting) image_iff mem_Collect_eq)

lemma update_keeps_acked:
  assumes "i \<in> set rows" and "inv_state i = StateAcked"
    and "\<And>r. inv_id (f r) = inv_id r"
    and "p i \<Longrightarrow> inv_state (f i) = StateAcked"
  shows "\<exists>j \<in> set (update_rows p f rows). inv_id j = inv_id i \<and> inv_state j = StateAcked"
  using assms by (cases "p i") (auto simp: set_update_rows)

lemma history_update_invoice:
  assumes core: "\<And>now r. invoice_core (f now r) = invoice_core r"
    and acked: "\<And>now r. p r \<Longrightarrow> inv_state r = StateAcked \<Longrightarrow> inv_state (f now r) = StateAcked"
    and tf: "table_frame history"
  shows "keeps S history (update_invoice p f)"
proof -
  have ids: "\<And>now r. inv_id (f now r) = inv_id r"
    using core by (simp add: invoice_core_def)
  have upd: "invoice_core (r\<lparr>inv_updated_at := c\<rparr>) = invoice_core r" for r c
    by (simp add: invoice_core_def amounts_def)
  have "history (tbl s) (tbl (updated_db p f s))" for s
  proof (rule history_invoices)
    show "grows invoice_core (invoices (tbl s)) (invoices (updated_db p f s))"
      by (simp add: updated_db_def grows_update_rows core upd stamped_def)
    show "\<exists>j \<in> set (invoices (updated_db p f s)). inv_id j = inv_id i \<and> inv_state j = StateAcked"
      if "i \<in> set (invoices (tbl s))" "inv_state i = StateAcked" for i
      using that unfolding updated_db_def by (auto simp: ids acked intro!: update_keeps_acked)
  qed simp_all
  then show ?thesis
    by (intro keeps_update_invoice) (auto simp: table_frame.R_refl [OF tf])
qed

lemma history_exec: "table_frame history \<Longrightarrow> keeps S history m \<Longrightarrow> keeps S history (exec m)"
  by (rule table_frame.keeps_exec)

lemma history_frame: "table_frame history"
proof
  show "history t t" for t by (simp add: history_def)
  show "history t v" if "history t u" "history u v" for t u v
    using that by (auto simp: history_def dest: grows_trans prefix_order.trans)
qed

lemmas history_stmt = table_frame.keeps_stmt [OF history_frame]
lemmas history_update = table_frame.keeps_update [OF history_frame]

interpretation history: store_frame history UNIV
proof (intro store_frame.intro write_frame.intro history_frame write_frame_axioms.intro store_frame_axioms.intro, goal_cases)
  case (17 old i new att nxt err)
  then show ?case unfolding SetInvoiceState_def
    by (intro history_update_invoice history_frame)
      (auto simp: invoice_core_def amounts_def)
next
  case (18 i no sig qr at)
  show ?case unfolding AckInvoice_def
    by (intro history_update_invoice history_frame) (auto simp: invoice_core_def amounts_def)
next
  case (19 i)
  show ?case unfolding ResetInvoiceForRetry_def
    by (intro history_update_invoice history_frame) (auto simp: invoice_core_def amounts_def)
next
  case (26 i j)
  show ?case unfolding SupersedeInvoice_def
    by (intro history_exec history_update_invoice history_frame)
      (auto simp: invoice_core_def amounts_def)
next
  case (20 i)
  show ?case unfolding ActivateTaxPendingInvoices_def Let_def
  proof (rule history_stmt, goal_cases)
    case (1 s x s')
    then show ?case
      by (auto simp: invoice_core_def amounts_def
        intro!: history_invoices [OF _ _ refl] grows_update_rows update_keeps_acked)
  qed
qed (unfold write_defs Let_def,
  (rule history_stmt history_update,
    force simp: history_def acked_ids_def sale_core_def payment_core_def event_core_def split: if_splits
      intro!: grows_update_rows)+)

subsection \<open>Tenant isolation\<close>

definition others :: "('r \<Rightarrow> uuid) \<Rightarrow> uuid \<Rightarrow> 'r list \<Rightarrow> 'r list" where
  "others org oid rows = filter (\<lambda>r. org r \<noteq> oid) rows"

text \<open>Every table under row-level security; \<open>river_job\<close>, \<open>orgs\<close> and \<open>webhook_events\<close> are not.\<close>

definition isolated :: "uuid \<Rightarrow> tables \<Rightarrow> tables \<Rightarrow> bool" where
  "isolated oid t u \<longleftrightarrow>
     others inv_org_id oid (invoices u) = others inv_org_id oid (invoices t) \<and>
     others pay_org_id oid (payments u) = others pay_org_id oid (payments t) \<and>
     others sale_org_id oid (sales u) = others sale_org_id oid (sales t) \<and>
     others si_org_id oid (sale_items u) = others si_org_id oid (sale_items t) \<and>
     others item_org_id oid (items u) = others item_org_id oid (items t) \<and>
     others cust_org_id oid (customers u) = others cust_org_id oid (customers t) \<and>
     others stk_org_id oid (stk_requests u) = others stk_org_id oid (stk_requests t) \<and>
     others sc_org_id oid (mpesa_shortcodes u) = others sc_org_id oid (mpesa_shortcodes t) \<and>
     others fs_org_id oid (fiscal_submissions u) = others fs_org_id oid (fiscal_submissions t) \<and>
     others uc_org_id oid (usage_counters u) = others uc_org_id oid (usage_counters t) \<and>
     others au_org_id oid (audit_log u) = others au_org_id oid (audit_log t) \<and>
     others oi_org_id oid (org_invites u) = others oi_org_id oid (org_invites t) \<and>
     others nt_org_id oid (notifications u) = others nt_org_id oid (notifications t) \<and>
     others sub_org_id oid (subscriptions u) = others sub_org_id oid (subscriptions t)"

definition tenant_scopes :: "uuid \<Rightarrow> Scope set" where
  "tenant_scopes oid = {sc. sc \<noteq> ScopeAdmin \<and> (\<forall>other. sc = ScopeOrg other \<longrightarrow> other = oid)}"

lemma tenant_scopes_simps [simp]:
  "ScopeOrg other \<in> tenant_scopes oid \<longleftrightarrow> other = oid" "ScopeIngest \<in> tenant_scopes oid"
  "ScopeNone \<in> tenant_scopes oid" "ScopeReceipt c \<in> tenant_scopes oid"
  "ScopeAdmin \<notin> tenant_scopes oid"
  by (auto simp: tenant_scopes_def)

lemma own_tenant: "own s other \<Longrightarrow> scope s \<in> tenant_scopes oid \<Longrightarrow> other = oid"
  by (auto simp: own_def)

lemma writes_tenant: "writes_invoice s i \<Longrightarrow> scope s \<in> tenant_scopes oid \<Longrightarrow> inv_org_id i = oid"
  by (auto simp: writes_invoice_def own_def tenant_scopes_def)

lemma others_append [simp]: "others org oid (xs @ ys) = others org oid xs @ others org oid ys"
  by (simp add: others_def)

lemma others_single: "org r = oid \<Longrightarrow> others org oid [r] = []"
  by (simp add: others_def)

lemma others_update_rows:
  "(\<And>r. p r \<Longrightarrow> org r = oid \<and> org (f r) = oid) \<Longrightarrow>
    others org oid (update_rows p f rows) = others org oid rows"
  by (induction rows) (auto simp: others_def)

lemma isolated_frame: "table_frame (isolated oid)"
  by unfold_locales (simp_all add: isolated_def)

lemmas isolated_stmt = table_frame.keeps_stmt [OF isolated_frame]
lemmas isolated_update = table_frame.keeps_update [OF isolated_frame]

lemma isolated_update_invoice:
  assumes "\<And>now r. inv_org_id (f now r) = inv_org_id r"
  shows "keeps (tenant_scopes oid) (isolated oid) (update_invoice p f)"
proof (rule keeps_update_invoice)
  show "isolated oid t t" for t by (simp add: isolated_def)
  show "isolated oid (tbl s) (tbl (updated_db p f s))" if "scope s \<in> tenant_scopes oid" for s
  proof -
    have "others inv_org_id oid (invoices (updated_db p f s)) = others inv_org_id oid (invoices s)"
      unfolding updated_db_def using writes_tenant [OF _ that]
      by (auto simp: assms intro!: others_update_rows)
    then show ?thesis by (simp add: isolated_def)
  qed
qed

lemmas isolated_updates = isolated_update_invoice table_frame.keeps_exec [OF isolated_frame]

interpretation isolated: store_frame "isolated oid" "tenant_scopes oid" for oid
proof (intro store_frame.intro write_frame.intro isolated_frame write_frame_axioms.intro store_frame_axioms.intro, goal_cases)
  case (17 old i new att nxt err)
  show ?case unfolding SetInvoiceState_def by (intro isolated_updates) simp
next
  case (18 i no sig qr at)
  show ?case unfolding AckInvoice_def by (intro isolated_updates) simp
next
  case (19 i)
  show ?case unfolding ResetInvoiceForRetry_def by (intro isolated_updates) simp
next
  case (26 i j)
  show ?case unfolding SupersedeInvoice_def by (intro isolated_updates) simp
next
  case (16 p)
  show ?case unfolding CreateInvoice_def Let_def
    by (rule isolated_stmt) (auto simp: isolated_def new_invoice_def split: if_splits
      intro!: others_single dest: own_tenant)
qed (unfold write_defs Let_def,
  (rule isolated_stmt isolated_update,
    force simp: isolated_def split: if_splits
      intro!: others_single others_update_rows dest: own_tenant writes_tenant)+)

subsection \<open>Well-formedness\<close>

text \<open>Identifiers and natural keys are unique, and no row has an identifier not handed out yet.\<close>

definition keyed :: "('r \<Rightarrow> uuid) \<Rightarrow> ('r \<Rightarrow> 'k) \<Rightarrow> uuid \<Rightarrow> 'r list \<Rightarrow> bool" where
  "keyed ident key n rows \<longleftrightarrow> distinct (map ident rows) \<and> distinct (map key rows) \<and>
     (\<forall>r \<in> set rows. ident r < n)"

definition wf_invoices :: "tables \<Rightarrow> bool" where
  "wf_invoices t \<longleftrightarrow> keyed inv_id inv_receipt_code (next_id t) (invoices t) \<and>
     (\<forall>i \<in> set (invoices t). state_valid (inv_state i) \<and> inv_kind i \<in> {''INVOICE'', ''CREDIT_NOTE''})"

definition wf_payments :: "tables \<Rightarrow> bool" where
  "wf_payments t \<longleftrightarrow> keyed pay_id pay_trans_id (next_id t) (payments t) \<and>
     (\<forall>p \<in> set (payments t). 0 < pay_amount_cents p \<and> payment_checks (pay_status p) (pay_match_rule p))"

definition wf_sales :: "tables \<Rightarrow> bool" where
  "wf_sales t \<longleftrightarrow> keyed sale_id (\<lambda>r. (sale_org_id r, sale_ref r)) (next_id t) (sales t)"

definition wf_events :: "tables \<Rightarrow> bool" where
  "wf_events t \<longleftrightarrow> keyed we_id we_external_id (next_id t) (webhook_events t)"

definition wf :: "tables \<Rightarrow> bool" where
  "wf t \<longleftrightarrow> wf_invoices t \<and> wf_payments t \<and> wf_sales t \<and> wf_events t"

definition keeps_wf :: "tables \<Rightarrow> tables \<Rightarrow> bool" where
  "keeps_wf t u \<longleftrightarrow> (wf t \<longrightarrow> wf u)"

lemma keyed_mono: "keyed ident key n rows \<Longrightarrow> n \<le> m \<Longrightarrow> keyed ident key m rows"
  by (force simp: keyed_def)

lemma keyed_snoc:
  assumes "keyed ident key n rows" and "ident r = n" and "key r \<notin> key ` set rows"
  shows "keyed ident key (Suc n) (rows @ [r])"
  using assms by (auto simp: keyed_def less_Suc_eq)

lemma keyed_update_rows:
  assumes "keyed ident key n rows" and "\<And>r. ident (f r) = ident r" and "\<And>r. key (f r) = key r"
  shows "keyed ident key n (update_rows p f rows)"
  using assms by (auto simp: keyed_def map_update_rows set_update_rows)

lemmas wf_defs = wf_def wf_invoices_def wf_payments_def wf_sales_def wf_events_def

lemma wf_fresh_id: "wf (tbl s) \<Longrightarrow> r \<in> set (invoices s) \<Longrightarrow> inv_id r < next_id s"
  by (auto simp: wf_defs keyed_def)

lemma wf_same_id:
  "wf (tbl s) \<Longrightarrow> r \<in> set (invoices s) \<Longrightarrow> q \<in> set (invoices s) \<Longrightarrow> inv_id r = inv_id q \<Longrightarrow> r = q"
  by (auto simp: wf_defs keyed_def distinct_map dest: inj_onD)

lemma wf_frame: "table_frame keeps_wf"
  by unfold_locales (auto simp: keeps_wf_def)

lemmas wf_stmt = table_frame.keeps_stmt [OF wf_frame]
lemmas wf_update = table_frame.keeps_update [OF wf_frame]

lemma wf_update_invoice:
  assumes "\<And>now r. inv_id (f now r) = inv_id r" and "\<And>now r. inv_kind (f now r) = inv_kind r"
    and "\<And>now r. inv_receipt_code (f now r) = inv_receipt_code r"
    and "\<And>now r. p r \<Longrightarrow> state_valid (inv_state r) \<Longrightarrow> state_valid (inv_state (f now r))"
  shows "keeps S keeps_wf (update_invoice p f)"
proof (rule keeps_update_invoice)
  show "keeps_wf t t" for t by (simp add: keeps_wf_def)
  show "keeps_wf (tbl s) (tbl (updated_db p f s))" for s
    using assms unfolding keeps_wf_def wf_defs updated_db_def
    by (auto simp: set_update_rows intro!: keyed_update_rows)
qed

lemmas wf_updates = wf_update_invoice table_frame.keeps_exec [OF wf_frame]

lemma SetInvoiceState_invalid:
  assumes "\<not> state_valid new"
  shows "keeps S keeps_wf (SetInvoiceState i new att nxt err old)"
proof (rule keepsI)
  fix s r s'
  assume "SetInvoiceState i new att nxt err old s = (r, s')"
  then show "scope s' = scope s \<and> clock s' = clock s \<and> keeps_wf (tbl s) (tbl s')"
    using assms unfolding SetInvoiceState_def update_invoice_def stmt_def Let_def
    by (auto simp: keeps_wf_def list_ex_iff find_Some_iff pg_errors
        split: if_splits option.splits dest!: nth_mem)
qed

lemma wf_CreateInvoice: "keeps S keeps_wf (CreateInvoice p)"
  unfolding CreateInvoice_def Let_def
proof (rule wf_stmt, goal_cases)
  case (1 s x s')
  then have s': "s' = s\<lparr>next_id := Suc (next_id s),
      invoices := invoices s @ [new_invoice (next_id s) (clock s) p]\<rparr>"
    and fresh: "iv_ReceiptCode p \<notin> inv_receipt_code ` set (invoices s)"
    and ok: "iv_Kind p \<in> {''INVOICE'', ''CREDIT_NOTE''}" "state_valid (iv_State p)"
    by (auto split: if_splits)
  have "wf (tbl s')" if w: "wf (tbl s)"
  proof -
    have "keyed inv_id inv_receipt_code (Suc (next_id s))
        (invoices s @ [new_invoice (next_id s) (clock s) p])"
      using w fresh by (intro keyed_snoc) (simp_all add: wf_defs new_invoice_def)
    with w ok show ?thesis
      by (auto simp: wf_defs s' new_invoice_def elim: keyed_mono)
  qed
  then show ?case by (simp add: keeps_wf_def s')
qed

lemma wf_CreatePayment: "keeps S keeps_wf (CreatePayment p)"
  unfolding CreatePayment_def Let_def
  by (rule wf_stmt) (auto simp: keeps_wf_def wf_defs split: if_splits
    intro!: keyed_snoc elim: keyed_mono)

lemma wf_CreateSale: "keeps S keeps_wf (CreateSale p)"
  unfolding CreateSale_def Let_def
  by (rule wf_stmt) (auto simp: keeps_wf_def wf_defs list_ex_iff sale_conflict_def split: if_splits
    intro!: keyed_snoc elim: keyed_mono)

lemma wf_InsertWebhookEvent: "keeps S keeps_wf (InsertWebhookEvent k x pl)"
  unfolding InsertWebhookEvent_def Let_def
  by (rule wf_stmt) (auto simp: keeps_wf_def wf_defs split: if_splits
    intro!: keyed_snoc elim: keyed_mono)

lemma reversed_status [simp]: "''reversed'' \<in> set payment_statuses"
  by (simp add: payment_statuses_def)

lemma wf_other:
  "invoices u = invoices t \<Longrightarrow> payments u = payments t \<Longrightarrow> sales u = sales t \<Longrightarrow>
   webhook_events u = webhook_events t \<Longrightarrow> next_id t \<le> next_id u \<Longrightarrow> keeps_wf t u"
  by (auto simp: keeps_wf_def wf_defs elim: keyed_mono)

lemma wf_event_rows:
  assumes "\<And>r. we_id (f r) = we_id r" and "\<And>r. we_external_id (f r) = we_external_id r"
  shows "keeps_wf (tbl s) (tbl (s\<lparr>webhook_events := update_rows p f (webhook_events s)\<rparr>))"
  using assms by (auto simp: keeps_wf_def wf_defs intro!: keyed_update_rows)

lemma wf_sale_rows:
  assumes "\<And>r. sale_id (f r) = sale_id r" and "\<And>r. sale_org_id (f r) = sale_org_id r"
    and "\<And>r. sale_ref (f r) = sale_ref r"
  shows "keeps_wf (tbl s) (tbl (s\<lparr>sales := update_rows p f (sales s)\<rparr>))"
  using assms by (auto simp: keeps_wf_def wf_defs intro!: keyed_update_rows)

lemma wf_payment_rows:
  assumes "\<And>r. pay_id (f r) = pay_id r" and "\<And>r. pay_trans_id (f r) = pay_trans_id r"
    and "\<And>r. pay_amount_cents (f r) = pay_amount_cents r"
    and "\<And>r. r \<in> set (payments s) \<Longrightarrow> p r \<Longrightarrow> payment_checks (pay_status r) (pay_match_rule r) \<Longrightarrow>
      payment_checks (pay_status (f r)) (pay_match_rule (f r))"
  shows "keeps_wf (tbl s) (tbl (s\<lparr>payments := update_rows p f (payments s)\<rparr>))"
  using assms by (auto simp: keeps_wf_def wf_defs set_update_rows intro!: keyed_update_rows)

interpretation wf: store_frame keeps_wf UNIV
proof (intro store_frame.intro write_frame.intro wf_frame write_frame_axioms.intro store_frame_axioms.intro, goal_cases)
  case (1 k x pl)
  show ?case by (rule wf_InsertWebhookEvent)
next
  case (8 p)
  show ?case by (rule wf_CreateSale)
next
  case (12 p)
  show ?case by (rule wf_CreatePayment)
next
  case (16 p)
  show ?case by (rule wf_CreateInvoice)
next
  case (17 old i new att nxt err)
  show ?case
  proof (cases "state_valid new")
    case True
    then show ?thesis unfolding SetInvoiceState_def by (intro wf_updates) simp_all
  qed (rule SetInvoiceState_invalid)
next
  case (18 i no sig qr at)
  show ?case unfolding AckInvoice_def by (intro wf_updates) (simp_all add: state_valid_iff)
next
  case (19 i)
  show ?case unfolding ResetInvoiceForRetry_def
    by (intro wf_updates) (simp_all add: state_valid_iff)
next
  case (26 i j)
  show ?case unfolding SupersedeInvoice_def by (intro wf_updates) simp_all
next
  case (20 i)
  show ?case unfolding ActivateTaxPendingInvoices_def Let_def
    by (rule wf_stmt) (auto simp: keeps_wf_def wf_defs set_update_rows state_valid_iff
      intro!: keyed_update_rows)
next
  case (2 i err)
  show ?case unfolding MarkWebhookProcessed_def by (rule wf_update) (simp add: wf_event_rows)
next
  case (3 i msg)
  show ?case unfolding set_webhook_error_def by (rule wf_update) (simp add: wf_event_rows)
next
  case (10 i t)
  show ?case unfolding MarkSalePaid_def by (rule wf_update) (simp add: wf_sale_rows)
next
  case (11 name i)
  show ?case unfolding set_sale_buyer_name_def by (rule wf_update) (simp add: wf_sale_rows)
next
  case (13 i)
  show ?case unfolding MarkPaymentReversed_def
    by (rule wf_update) (auto simp: payment_checks_def intro!: wf_payment_rows)
next
  case (14 i sid st rule)
  show ?case unfolding AttachPaymentToSale_def Let_def
    by (rule wf_stmt) (auto simp: list_ex_iff split: if_splits intro!: wf_payment_rows)
next
  case (15 i st)
  show ?case unfolding UpdatePaymentStatus_def Let_def
    by (rule wf_stmt) (auto simp: list_ex_iff payment_checks_def split: if_splits
      intro!: wf_payment_rows)
qed (unfold write_defs Let_def,
  (rule wf_stmt wf_update, auto split: if_splits intro!: wf_other)+)

end
