(* ===== verification/Ledger.thy ===== *)
theory Ledger
  imports Crypto Matcher StoreInvariants
begin

text \<open>
  \<open>internal/ledger/service.go\<close> and \<open>stk.go\<close>: what the ledger does with an M-Pesa
  confirmation (store the event once, resolve the shortcode, match, create sale, payment,
  invoice and job in one transaction), with a request-to-pay result, with the activation of
  eTIMS, with a claimed or corrected buyer PIN (credit note and re-issue) and with a
  reversal. Every operation is a state transformer; the keyring and the clock readings of
  \<open>Now\<close> and \<open>time.Now\<close> are arguments. Log lines are left out. Of the result of a
  duplicate delivery only the organisation and the flag are kept: the other fields describe
  rows that were rolled back.
\<close>

record C2BInput =
  c2b_Kind :: string
  c2b_TransID :: string
  c2b_ShortCode :: string
  c2b_AmountCents :: int
  c2b_MSISDN :: string
  c2b_PayerName :: string
  c2b_BillRef :: string
  c2b_PaidAt :: time
  c2b_OriginalID :: string
  c2b_Raw :: string

record C2BResult =
  res_OrgID :: uuid
  res_PaymentID :: uuid
  res_SaleID :: "uuid option"
  res_InvoiceID :: "uuid option"
  res_Status :: string
  res_Rule :: string
  res_Duplicate :: bool

definition no_result :: C2BResult where
  "no_result = \<lparr>res_OrgID = 0, res_PaymentID = 0, res_SaleID = None, res_InvoiceID = None,
     res_Status = [], res_Rule = [], res_Duplicate = False\<rparr>"

subsection \<open>Creating an invoice\<close>

text \<open>
  \<open>for attempt := 0; attempt < 5; attempt++\<close>: draw a receipt code, insert, and draw again on
  a unique violation. The argument counts the attempts left.
\<close>

definition NewReceiptCodeTx :: "string tx" where
  "NewReceiptCodeTx = tbind (rand_read ReceiptCodeLen) (\<lambda>r. of_result (NewReceiptCode r))"

fun create_loop :: "nat \<Rightarrow> (string \<Rightarrow> CreateInvoiceParams) \<Rightarrow> Invoice tx" where
  "create_loop 0 p = raise (Panic ''unreachable: the last attempt returns'')"
| "create_loop (Suc n) p =
     tbind NewReceiptCodeTx (\<lambda>code.
     tbind (attempt (CreateInvoice (p code))) (\<lambda>r. case r of
       Inr iv \<Rightarrow> ret iv
     | Inl e \<Rightarrow> if \<not> isUniqueViolation e \<or> n = 0 then raise e else create_loop n p))"

definition create_with_code :: "(string \<Rightarrow> CreateInvoiceParams) \<Rightarrow> Invoice tx" where
  "create_with_code p = create_loop 5 p"

definition initial_state :: "Org \<Rightarrow> State" where
  "initial_state oo = (if org_etims_status oo \<noteq> ''initialized'' then StateTaxPending else StateQueued)"

text \<open>The name and PIN the invoice carries, from the sale's customer when there is one.\<close>

definition sale_buyer :: "Sale \<Rightarrow> (string \<times> bytes \<times> bytes) tx" where
  "sale_buyer sa =
     tbind (case sale_customer_id sa of None \<Rightarrow> ret ([], [], [])
       | Some c \<Rightarrow> tbind (attempt (FindCustomerByID c)) (\<lambda>r. ret (case r of Inl _ \<Rightarrow> ([], [], [])
           | Inr c \<Rightarrow> (cust_name c, cust_kra_pin_enc c, cust_kra_pin_hash c))))
       (\<lambda>(name, enc, h). ret (if name = [] \<and> sale_buyer_name sa \<noteq> [] then sale_buyer_name sa else name,
          enc, h))"

definition decrement_stock :: "uuid \<Rightarrow> unit tx" where
  "decrement_stock sid = tbind (attempt (ListSaleItems sid)) (\<lambda>r. case r of Inl _ \<Rightarrow> ret ()
     | Inr rows \<Rightarrow> for_each (\<lambda>si. case si_item_id si of None \<Rightarrow> ret ()
         | Some i \<Rightarrow> ignore (DecrementItemStock i (si_qty si))) rows)"

definition CreateInvoiceForSale ::
    "time \<Rightarrow> uuid \<Rightarrow> uuid \<Rightarrow> uuid option \<Rightarrow> time \<Rightarrow> Invoice tx" where
  "CreateInvoiceForSale now oid sid pid issuedAt =
     tbind (GetSale sid) (\<lambda>sa.
     tbind (GetOrg oid) (\<lambda>oo.
     let state = initial_state oo in
     tbind (sale_buyer sa) (\<lambda>(buyerName, enc, h).
     tbind (create_with_code (\<lambda>code.
       \<lparr>iv_OrgID = oid, iv_SaleID = sid, iv_PaymentID = pid, iv_Kind = ''INVOICE'',
        iv_ParentInvoiceID = None, iv_State = state, iv_BuyerPinEnc = enc, iv_BuyerPinHash = h,
        iv_BuyerName = buyerName, iv_ReceiptCode = code, iv_SubtotalCents = sale_subtotal_cents sa,
        iv_TaxCents = sale_tax_cents sa, iv_TotalCents = sale_total_cents sa,
        iv_IssuedAt = issuedAt\<rparr>)) (\<lambda>iv.
     tbind (decrement_stock sid) (\<lambda>_.
     tbind (if state = StateQueued then
         tbind (EnqueueTx (SubmitInvoiceArgs oid (inv_id iv))) (\<lambda>_.
         EnqueueAfterTx (SendReceiptArgs oid (inv_id iv) ''receipt_pending'') now PendingReceiptDelay)
       else ret ()) (\<lambda>_.
     tbind (AppendAudit oid ''system'' None
       (if state = StateTaxPending then ''invoice.tax_pending'' else ''invoice.created'')
       ''invoice'' (inv_id iv) NoAfter) (\<lambda>_.
     ret iv)))))))"

subsection \<open>Applying a payment\<close>

definition find_or_add_customer :: "uuid \<Rightarrow> string \<Rightarrow> bytes \<Rightarrow> bytes \<Rightarrow> uuid option tx" where
  "find_or_add_customer oid name enc h =
     (if h = [] then ret None
      else tbind (attempt (FindCustomerByMSISDNHash oid h)) (\<lambda>r. case r of
        Inr c \<Rightarrow> ret (Some (cust_id c))
      | Inl _ \<Rightarrow> tbind (attempt (UpsertCustomerByMSISDN oid name enc h)) (\<lambda>r. ret (case r of
          Inr c \<Rightarrow> Some (cust_id c) | Inl _ \<Rightarrow> None))))"

definition createCashSale ::
    "ResolveShortcodeRow \<Rightarrow> C2BInput \<Rightarrow> bytes \<Rightarrow> bytes \<Rightarrow> Sale tx" where
  "createCashSale sc inp h enc = (case rs_DefaultItemID sc of
     None \<Rightarrow> raise (Panic ''nil pointer dereference: sc.DefaultItemID'')
   | Some did \<Rightarrow>
     tbind (attempt (GetItem did)) (\<lambda>r. case r of
       Inl e \<Rightarrow> raise (Wrap (''ledger: default item: '' @ err_text e) e)
     | Inr item \<Rightarrow>
     tbind (of_result (ParseTaxCategory (item_tax_category item))) (\<lambda>cat.
     let tax = LineTax (c2b_AmountCents inp) (RateBP cat) in
     tbind (find_or_add_customer (rs_OrgID sc) (c2b_PayerName inp) enc h) (\<lambda>customerID.
     tbind (NextSaleRef (rs_OrgID sc)) (\<lambda>ref.
     tbind (CreateSale
       \<lparr>cs_OrgID = rs_OrgID sc, cs_Ref = ref, cs_Kind = ''cash'', cs_Status = ''paid'',
        cs_CustomerID = customerID, cs_SubtotalCents = wrap64 (c2b_AmountCents inp - tax),
        cs_TaxCents = tax, cs_TotalCents = c2b_AmountCents inp, cs_ClientRef = None,
        cs_CreatedBy = None, cs_PaidAt = Some (c2b_PaidAt inp), cs_BuyerName = c2b_PayerName inp\<rparr>) (\<lambda>sale.
     tbind (CreateSaleItem
       \<lparr>ci_OrgID = rs_OrgID sc, ci_SaleID = sale_id sale, ci_ItemID = Some (item_id item),
        ci_Description = item_name item, ci_EtimsClassCode = item_class_code item,
        ci_Unit = item_unit item, ci_Qty = 1000, ci_UnitPriceCents = c2b_AmountCents inp,
        ci_TaxCategory = cat, ci_TaxRateBp = RateBP cat,
        ci_LineTotalCents = c2b_AmountCents inp, ci_LineTaxCents = tax, ci_Position = 0\<rparr>) (\<lambda>_.
     ret sale)))))))"

text \<open>The four questions of the matcher, asked of the store under the tenant's scope.\<close>

definition ask :: "'a tx \<Rightarrow> ('a \<Rightarrow> 'b) \<Rightarrow> db \<Rightarrow> 'b option" where
  "ask m f s = (case fst (m s) of Inl _ \<Rightarrow> None | Inr x \<Rightarrow> Some (f x))"

definition open_sale :: "Sale \<Rightarrow> OpenSale" where
  "open_sale sa = \<lparr>os_ID = sale_id sa, os_TotalCents = sale_total_cents sa\<rparr>"

definition lookups :: "uuid \<Rightarrow> db \<Rightarrow> Lookups" where
  "lookups oid s =
     \<lparr>lk_OpenSaleByRef = Some (\<lambda>ref. ask (GetOpenSaleByRef oid ref) open_sale s),
      lk_PendingSTK = Some (\<lambda>h a since. ask (FindPendingSTKRequest oid h a since)
        (\<lambda>r. \<lparr>ps_ID = stk_id r, ps_SaleID = stk_sale_id r, ps_CreatedAt = stk_created_at r\<rparr>) s),
      lk_OpenSaleByCustomer = Some (\<lambda>h since. ask (FindRecentOpenSaleByCustomer oid h since) open_sale s),
      lk_OpenSaleByAmount = Some (\<lambda>a since. ask (FindRecentOpenSaleByAmount oid a since) open_sale s)\<rparr>"

definition decide :: "ResolveShortcodeRow \<Rightarrow> C2BInput \<Rightarrow> bytes \<Rightarrow> Decision tx" where
  "decide sc inp h = (\<lambda>s. (Inr (Match
     \<lparr>in_AmountCents = c2b_AmountCents inp, in_BillRef = c2b_BillRef inp, in_MSISDNHash = h,
      in_PaidAt = c2b_PaidAt inp\<rparr>
     \<lparr>sr_AutoInvoice = rs_AutoInvoice sc, sr_DefaultItemID = rs_DefaultItemID sc\<rparr>
     (lookups (rs_OrgID sc) s)), s))"

definition payer_keys :: "Keyring \<Rightarrow> string \<Rightarrow> (bytes \<times> bytes) tx" where
  "payer_keys k msisdn = (case NormaliseMSISDN msisdn of Inl _ \<Rightarrow> ret ([], [])
     | Inr norm \<Rightarrow> tbind (attempt (EncryptString k norm)) (\<lambda>r.
         ret (Hash k norm, case r of Inl _ \<Rightarrow> [] | Inr enc \<Rightarrow> enc)))"

definition settle_target ::
    "ResolveShortcodeRow \<Rightarrow> C2BInput \<Rightarrow> Decision \<Rightarrow> bytes \<Rightarrow> bytes \<Rightarrow> uuid option tx" where
  "settle_target sc inp d h enc =
     (if d_CreateCashSale d then tbind (createCashSale sc inp h enc) (\<lambda>sale. ret (Some (sale_id sale)))
      else (case d_SaleID d of None \<Rightarrow> ret None
        | Some sid \<Rightarrow> tbind (if d_Status d = StatusMatched then MarkSalePaid sid (c2b_PaidAt inp) else ret ())
            (\<lambda>_. ret (Some sid))))"

definition applyPayment ::
    "Keyring \<Rightarrow> time \<Rightarrow> ResolveShortcodeRow \<Rightarrow> C2BInput \<Rightarrow> uuid \<Rightarrow> C2BResult \<Rightarrow> C2BResult tx" where
  "applyPayment k now sc inp eventID res =
     tbind (payer_keys k (c2b_MSISDN inp)) (\<lambda>(h, enc).
     tbind (decide sc inp h) (\<lambda>d.
     tbind (settle_target sc inp d h enc) (\<lambda>saleID.
     tbind (attempt (CreatePayment
       \<lparr>cp_OrgID = rs_OrgID sc, cp_ShortcodeID = rs_ID sc, cp_WebhookEventID = Some eventID,
        cp_TransID = c2b_TransID inp, cp_AmountCents = c2b_AmountCents inp, cp_MsisdnEnc = enc,
        cp_MsisdnHash = h, cp_PayerName = c2b_PayerName inp, cp_BillRef = c2b_BillRef inp,
        cp_PaidAt = c2b_PaidAt inp, cp_Status = d_Status d, cp_SaleID = saleID,
        cp_MatchRule = (if d_Rule d \<noteq> [] then Some (d_Rule d) else None)\<rparr>)) (\<lambda>r. case r of
       Inl e \<Rightarrow> raise (if errors_is e ErrNoRows then ErrDuplicate else e)
     | Inr p \<Rightarrow>
     let res1 = res\<lparr>res_Status := d_Status d, res_Rule := d_Rule d, res_SaleID := saleID,
       res_PaymentID := pay_id p\<rparr> in
     tbind (case d_STKRequestID d of None \<Rightarrow> ret ()
       | Some i \<Rightarrow> ignore (UpdateSTKRequestResult i ''success'' None
           (Some (''matched to '' @ c2b_TransID inp)))) (\<lambda>_.
     (case saleID of None \<Rightarrow> ret res1
      | Some sid \<Rightarrow> if d_Status d = StatusPartial then ret res1
          else tbind (CreateInvoiceForSale now (rs_OrgID sc) sid (Some (pay_id p)) (c2b_PaidAt inp))
            (\<lambda>iv. ret (res1\<lparr>res_InvoiceID := Some (inv_id iv)\<rparr>))))))))"

subsection \<open>Reversal of a payment inside the C2B stream\<close>

definition applyReversal ::
    "ResolveShortcodeRow \<Rightarrow> C2BInput \<Rightarrow> C2BResult \<Rightarrow> C2BResult tx" where
  "applyReversal sc inp res =
     tbind (attempt (GetPaymentByTransID (c2b_OriginalID inp))) (\<lambda>r. case r of
       Inl e \<Rightarrow> if errors_is e ErrNoRows then ret res else raise e
     | Inr orig \<Rightarrow>
     tbind (MarkPaymentReversed (pay_id orig)) (\<lambda>_.
     let res1 = res\<lparr>res_PaymentID := pay_id orig, res_Status := StatusReversed,
       res_SaleID := pay_sale_id orig\<rparr> in
     (case pay_sale_id orig of None \<Rightarrow> ret res1
      | Some sid \<Rightarrow>
     tbind (attempt (GetAckedInvoiceForSale sid)) (\<lambda>r. case r of
       Inl e \<Rightarrow> if errors_is e ErrNoRows then ret res1 else raise e
     | Inr iv \<Rightarrow>
     tbind NewReceiptCodeTx (\<lambda>code.
     tbind (CreateInvoice
       \<lparr>iv_OrgID = rs_OrgID sc, iv_SaleID = inv_sale_id iv, iv_PaymentID = Some (pay_id orig),
        iv_Kind = ''CREDIT_NOTE'', iv_ParentInvoiceID = Some (inv_id iv), iv_State = StateQueued,
        iv_BuyerPinEnc = inv_buyer_pin_enc iv, iv_BuyerPinHash = inv_buyer_pin_hash iv,
        iv_BuyerName = inv_buyer_name iv, iv_ReceiptCode = code,
        iv_SubtotalCents = wrap64 (- inv_subtotal_cents iv), iv_TaxCents = wrap64 (- inv_tax_cents iv),
        iv_TotalCents = wrap64 (- inv_total_cents iv), iv_IssuedAt = c2b_PaidAt inp\<rparr>) (\<lambda>cn.
     tbind (EnqueueTx (SubmitInvoiceArgs (rs_OrgID sc) (inv_id cn))) (\<lambda>_.
     tbind (AppendAudit (rs_OrgID sc) ''system'' None ''credit_note.created'' ''invoice'' (inv_id cn) NoAfter)
       (\<lambda>_. ret (res1\<lparr>res_InvoiceID := Some (inv_id cn)\<rparr>)))))))))"

subsection \<open>Ingest\<close>

definition ResolveForC2B :: "C2BInput \<Rightarrow> ResolveShortcodeRow tx" where
  "ResolveForC2B inp = ResolveShortcode (c2b_ShortCode inp)"

definition ProcessStoredC2B ::
    "Keyring \<Rightarrow> time \<Rightarrow> uuid \<Rightarrow> ResolveShortcodeRow \<Rightarrow> C2BInput \<Rightarrow> C2BResult tx" where
  "ProcessStoredC2B k now eventID sc inp =
     (let res = no_result\<lparr>res_OrgID := rs_OrgID sc\<rparr> in
     tbind (attempt (WithOrg (rs_OrgID sc)
       (if c2b_Kind inp = ''reversal'' then applyReversal sc inp res
        else applyPayment k now sc inp eventID res))) (\<lambda>r.
     let r1 = (case r of
       Inl e \<Rightarrow> if errors_is e ErrDuplicate then Inr (res\<lparr>res_Duplicate := True\<rparr>) else Inl e
     | Inr x \<Rightarrow> Inr x) in
     tbind (ignore (WithIngest (case r1 of
         Inl e \<Rightarrow> set_webhook_error eventID (err_text e)
       | Inr _ \<Rightarrow> MarkWebhookProcessed eventID None))) (\<lambda>_.
     of_result r1)))"

definition store_and_resolve :: "C2BInput \<Rightarrow> (uuid \<times> ResolveShortcodeRow option) tx" where
  "store_and_resolve inp =
     tbind (attempt (InsertWebhookEvent (c2b_Kind inp) (''mpesa:'' @ c2b_TransID inp) (c2b_Raw inp)))
       (\<lambda>r. case r of
         Inl e \<Rightarrow> raise (if errors_is e ErrNoRows then ErrDuplicate else e)
       | Inr i \<Rightarrow>
     tbind (attempt (ResolveForC2B inp)) (\<lambda>r. case r of
         Inr sc \<Rightarrow> ret (i, Some sc)
       | Inl e \<Rightarrow> if errors_is e ErrNoRows then
           tbind (MarkWebhookProcessed i (Some (''no verified shortcode '' @ c2b_ShortCode inp)))
             (\<lambda>_. ret (i, None))
         else raise e))"

definition IngestC2B :: "Keyring \<Rightarrow> time \<Rightarrow> C2BInput \<Rightarrow> C2BResult tx" where
  "IngestC2B k now inp =
     tbind (attempt (WithIngest (store_and_resolve inp))) (\<lambda>r. case r of
       Inl e \<Rightarrow> if errors_is e ErrDuplicate then ret (no_result\<lparr>res_Duplicate := True\<rparr>) else raise e
     | Inr (i, None) \<Rightarrow> raise ErrUnknownShortcode
     | Inr (i, Some sc) \<Rightarrow> ProcessStoredC2B k now i sc inp)"

subsection \<open>Activation of eTIMS\<close>

definition ActivateTaxPending :: "uuid \<Rightarrow> int tx" where
  "ActivateTaxPending oid = WithOrg oid (
     tbind (ActivateTaxPendingInvoices oid) (\<lambda>ids.
     tbind (for_each (\<lambda>i. EnqueueTx (SubmitInvoiceArgs oid i)) ids) (\<lambda>_.
     tbind (if ids = [] then ret ()
       else AppendAudit oid ''system'' None ''invoice.tax_pending_activated'' ''org'' oid
         (CountAfter (int (length ids)))) (\<lambda>_.
     ret (int (length ids))))))"

subsection \<open>Re-issue and credit notes\<close>

record ReissueInput =
  ri_BuyerPIN :: string
  ri_BuyerName :: string
  ri_ActorType :: string
  ri_ActorID :: "string option"

text \<open>
  \<open>for orig.SupersededByID != nil\<close>: follow the chain to its end, or to the first invoice
  whose successor cannot be read. The first argument bounds the number of steps; running
  out of it stands for a loop that does not end.
\<close>

fun active_from :: "nat \<Rightarrow> Invoice \<Rightarrow> Invoice tx" where
  "active_from 0 i = raise (Panic ''superseded chain does not end'')"
| "active_from (Suc n) i = (case inv_superseded_by i of None \<Rightarrow> ret i
     | Some j \<Rightarrow> tbind (attempt (GetInvoice j)) (\<lambda>r. case r of
         Inl _ \<Rightarrow> ret i
       | Inr k \<Rightarrow> active_from n k))"

definition active_invoice :: "Invoice \<Rightarrow> Invoice tx" where
  "active_invoice i = (\<lambda>s. active_from (Suc (length (invoices s))) i s)"

definition buyer_keys :: "Keyring \<Rightarrow> string \<Rightarrow> (bytes \<times> bytes) tx" where
  "buyer_keys k pin = (if pin = [] then ret ([], [])
     else tbind (EncryptString k pin) (\<lambda>enc. ret (enc, Hash k pin)))"

text \<open>Step 1: the credit note that reverses an ACKED original.\<close>

definition reversing_note :: "uuid \<Rightarrow> State \<Rightarrow> time \<Rightarrow> Invoice \<Rightarrow> string \<Rightarrow> CreateInvoiceParams" where
  "reversing_note oid st now orig code =
     \<lparr>iv_OrgID = oid, iv_SaleID = inv_sale_id orig, iv_PaymentID = inv_payment_id orig,
      iv_Kind = ''CREDIT_NOTE'', iv_ParentInvoiceID = Some (inv_id orig), iv_State = st,
      iv_BuyerPinEnc = inv_buyer_pin_enc orig, iv_BuyerPinHash = inv_buyer_pin_hash orig,
      iv_BuyerName = inv_buyer_name orig, iv_ReceiptCode = code,
      iv_SubtotalCents = wrap64 (- inv_subtotal_cents orig), iv_TaxCents = wrap64 (- inv_tax_cents orig),
      iv_TotalCents = wrap64 (- inv_total_cents orig), iv_IssuedAt = now\<rparr>"

definition reissue_note :: "uuid \<Rightarrow> State \<Rightarrow> time \<Rightarrow> Invoice \<Rightarrow> Invoice option tx" where
  "reissue_note oid st now orig =
     (if inv_state orig = StateAcked then
        tbind (create_with_code (reversing_note oid st now orig)) (\<lambda>cn.
        tbind (if st = StateQueued then EnqueueTx (SubmitInvoiceArgs oid (inv_id cn)) else ret ())
          (\<lambda>_. ret (Some cn)))
      else ret None)"

definition update_sale_buyer :: "Invoice \<Rightarrow> string \<Rightarrow> bytes \<Rightarrow> bytes \<Rightarrow> unit tx" where
  "update_sale_buyer orig buyerName enc h =
     tbind (attempt (GetSale (inv_sale_id orig))) (\<lambda>r. case r of Inl _ \<Rightarrow> ret ()
       | Inr sale \<Rightarrow>
         tbind (if buyerName \<noteq> [] then ignore (set_sale_buyer_name buyerName (inv_sale_id orig))
           else ret ()) (\<lambda>_.
         (case sale_customer_id sale of None \<Rightarrow> ret ()
          | Some c \<Rightarrow> if enc \<noteq> [] then ignore (set_customer_pin enc h c buyerName) else ret ())))"

definition reissue_tx :: "Keyring \<Rightarrow> time \<Rightarrow> uuid \<Rightarrow> uuid \<Rightarrow> string \<Rightarrow> ReissueInput \<Rightarrow> Invoice tx" where
  "reissue_tx k now oid iid pin ri =
     tbind (GetInvoice iid) (\<lambda>first.
     tbind (active_invoice first) (\<lambda>orig.
     if inv_kind orig \<noteq> ''INVOICE'' then raise (ErrorString ''ledger: cannot reissue a credit note'')
     else
     tbind (GetOrg oid) (\<lambda>oo.
     tbind (buyer_keys k pin) (\<lambda>(enc, h).
     let buyerName = (if ri_BuyerName ri = [] then inv_buyer_name orig else ri_BuyerName ri);
         st = initial_state oo in
     tbind (reissue_note oid st now orig) (\<lambda>cn.
     tbind (create_with_code (\<lambda>code.
       \<lparr>iv_OrgID = oid, iv_SaleID = inv_sale_id orig, iv_PaymentID = inv_payment_id orig,
        iv_Kind = ''INVOICE'',
        iv_ParentInvoiceID = Some (case cn of None \<Rightarrow> inv_id orig | Some c \<Rightarrow> inv_id c),
        iv_State = st, iv_BuyerPinEnc = enc, iv_BuyerPinHash = h, iv_BuyerName = buyerName,
        iv_ReceiptCode = code, iv_SubtotalCents = inv_subtotal_cents orig,
        iv_TaxCents = inv_tax_cents orig, iv_TotalCents = inv_total_cents orig,
        iv_IssuedAt = now\<rparr>)) (\<lambda>newInv.
     tbind (SupersedeInvoice (inv_id orig) (inv_id newInv)) (\<lambda>_.
     tbind (case cn of None \<Rightarrow> ret () | Some c \<Rightarrow> SupersedeInvoice (inv_id c) (inv_id newInv)) (\<lambda>_.
     tbind (update_sale_buyer orig buyerName enc h) (\<lambda>_.
     tbind (if st = StateQueued then EnqueueTx (SubmitInvoiceArgs oid (inv_id newInv)) else ret ()) (\<lambda>_.
     tbind (ignore (EnqueueTx (SendReceiptArgs oid (inv_id newInv) ''receipt_updated''))) (\<lambda>_.
     tbind (AppendAudit oid (if ri_ActorType ri = [] then ''system'' else ri_ActorType ri)
       (ri_ActorID ri) ''invoice.reissued'' ''invoice'' (inv_id newInv) NoAfter) (\<lambda>_.
     ret newInv))))))))))))"

definition ReissueInvoice :: "Keyring \<Rightarrow> time \<Rightarrow> uuid \<Rightarrow> uuid \<Rightarrow> ReissueInput \<Rightarrow> Invoice tx" where
  "ReissueInvoice k now oid iid ri =
     (let pin = NormalisePIN (ri_BuyerPIN ri) in
      if pin \<noteq> [] \<and> \<not> PINRe pin then raise ErrInvalidPIN
      else WithOrg oid (reissue_tx k now oid iid pin ri))"

text \<open>\<open>CheckPIN\<close> of the KRA gateway is a parameter: the taxpayer's name, or an error.\<close>

definition ClaimReceiptByCode ::
    "Keyring \<Rightarrow> (string \<Rightarrow> go_error + string) option \<Rightarrow> time \<Rightarrow> string \<Rightarrow> string \<Rightarrow> string
      \<Rightarrow> Invoice tx" where
  "ClaimReceiptByCode k resolver now code0 buyerPIN buyerName0 =
     (case NormaliseReceiptCode code0 of Inl _ \<Rightarrow> raise ErrInvalidReceiptCode
      | Inr code \<Rightarrow>
        let pin = NormalisePIN buyerPIN in
        if \<not> PINRe pin then raise ErrInvalidPIN
        else tbind (case resolver of None \<Rightarrow> ret buyerName0
          | Some CheckPIN \<Rightarrow> (case CheckPIN pin of
              Inl e \<Rightarrow> raise (Wrap (''kra gateway: '' @ err_text e) e)
            | Inr name \<Rightarrow> ret (if name \<noteq> [] then name else buyerName0))) (\<lambda>buyerName.
        tbind (WithReceipt code (GetInvoiceByReceiptCode code)) (\<lambda>row.
        ReissueInvoice k now (inv_org_id (rr_Invoice row)) (inv_id (rr_Invoice row))
          \<lparr>ri_BuyerPIN = pin, ri_BuyerName = buyerName, ri_ActorType = ''system'',
           ri_ActorID = Some (''buyer:'' @ code)\<rparr>)))"

definition cancelling_note :: "uuid \<Rightarrow> State \<Rightarrow> time \<Rightarrow> Invoice \<Rightarrow> string \<Rightarrow> CreateInvoiceParams" where
  "cancelling_note oid st now orig code =
     \<lparr>iv_OrgID = oid, iv_SaleID = inv_sale_id orig, iv_PaymentID = inv_payment_id orig,
      iv_Kind = ''CREDIT_NOTE'', iv_ParentInvoiceID = Some (inv_id orig), iv_State = st,
      iv_BuyerPinEnc = inv_buyer_pin_enc orig, iv_BuyerPinHash = inv_buyer_pin_hash orig,
      iv_BuyerName = inv_buyer_name orig, iv_ReceiptCode = code,
      iv_SubtotalCents = wrap64 (- abs64 (inv_subtotal_cents orig)),
      iv_TaxCents = wrap64 (- abs64 (inv_tax_cents orig)),
      iv_TotalCents = wrap64 (- abs64 (inv_total_cents orig)), iv_IssuedAt = now\<rparr>"

definition no_existing_note :: "Invoice \<Rightarrow> unit tx" where
  "no_existing_note orig = tbind (attempt (FindCreditNoteForParent (inv_id orig))) (\<lambda>r. case r of
     Inr cn \<Rightarrow> raise (Wrap (err_text ErrCreditNoteExists @ '': receipt '' @ inv_receipt_code cn)
       ErrCreditNoteExists)
   | Inl e \<Rightarrow> if errors_is e ErrNoRows then ret () else raise e)"

definition credit_note_tx ::
    "time \<Rightarrow> uuid \<Rightarrow> uuid \<Rightarrow> string \<Rightarrow> string \<Rightarrow> string option \<Rightarrow> Invoice tx" where
  "credit_note_tx now oid iid reason actorType actorID =
     tbind (GetInvoice iid) (\<lambda>orig.
     if inv_kind orig \<noteq> ''INVOICE''
     then raise (ErrorString ''ledger: cannot create a credit note for a credit note'')
     else if inv_superseded_by orig \<noteq> None
     then raise (ErrorString ''ledger: invoice is already superseded'')
     else
     tbind (no_existing_note orig) (\<lambda>_.
     tbind (GetOrg oid) (\<lambda>oo.
     let st = initial_state oo in
     tbind (create_with_code (cancelling_note oid st now orig)) (\<lambda>cn.
     tbind (SupersedeInvoice (inv_id orig) (inv_id cn)) (\<lambda>_.
     tbind (case inv_payment_id orig of None \<Rightarrow> ret () | Some p \<Rightarrow> ignore (MarkPaymentReversed p)) (\<lambda>_.
     tbind (AppendAudit oid (if actorType = [] then ''user'' else actorType) actorID
       ''invoice.credit_noted'' ''invoice'' (inv_id cn)
       (CreditAfter (if reason = [] then ''Merchant Cancellation / Return'' else reason) (inv_id orig))) (\<lambda>_.
     tbind (if st = StateQueued then EnqueueTx (SubmitInvoiceArgs oid (inv_id cn)) else ret ()) (\<lambda>_.
     tbind (ignore (EnqueueTx (SendReceiptArgs oid (inv_id cn) ''credit_note''))) (\<lambda>_.
     ret cn)))))))))"

definition CreateCreditNoteForInvoice ::
    "time \<Rightarrow> uuid \<Rightarrow> uuid \<Rightarrow> string \<Rightarrow> string \<Rightarrow> string option \<Rightarrow> Invoice tx" where
  "CreateCreditNoteForInvoice now oid iid reason actorType actorID =
     WithOrg oid (credit_note_tx now oid iid reason actorType actorID)"

definition invoice_of_payment :: "Payment \<Rightarrow> Invoice option tx" where
  "invoice_of_payment p =
     tbind (attempt (GetInvoiceByPayment (pay_id p))) (\<lambda>r. case r of
       Inr i \<Rightarrow> ret (Some i)
     | Inl _ \<Rightarrow> (case pay_sale_id p of None \<Rightarrow> ret None
         | Some sid \<Rightarrow> tbind (attempt (GetInvoiceBySale sid)) (\<lambda>r. ret (case r of
             Inr i \<Rightarrow> Some i | Inl _ \<Rightarrow> None))))"

definition IngestReversal :: "time \<Rightarrow> string \<Rightarrow> string \<Rightarrow> unit tx" where
  "IngestReversal now origTransID reason =
     tbind (attempt (WithIngest (GetPaymentByTransID origTransID))) (\<lambda>r. case r of
       Inl e \<Rightarrow> raise (Wrap (''ledger: reversal payment not found ('' @ origTransID @ ''): '' @ err_text e) e)
     | Inr payment \<Rightarrow>
     tbind (WithOrg (pay_org_id payment) (invoice_of_payment payment)) (\<lambda>found. case found of
       None \<Rightarrow> raise (ErrorString (''ledger: no invoice found for reversed payment '' @ origTransID))
     | Some iv \<Rightarrow>
     tbind (attempt (CreateCreditNoteForInvoice now (pay_org_id payment) (inv_id iv) reason ''system''
       (Some (''mpesa:reversal:'' @ origTransID)))) (\<lambda>r. case r of
       Inl e \<Rightarrow> if errors_is e ErrCreditNoteExists then ret () else raise e
     | Inr _ \<Rightarrow> ret ())))"

subsection \<open>Request-to-pay results\<close>

record STKInput =
  stki_CheckoutRequestID :: string
  stki_ResultCode :: int
  stki_ResultDesc :: string
  stki_Success :: bool
  stki_AmountCents :: int
  stki_ReceiptNo :: string
  stki_MSISDN :: string
  stki_PaidAt :: time
  stki_Raw :: string

definition stk_target :: "STKInput \<Rightarrow> (StkRequest \<times> ResolveShortcodeRow) tx" where
  "stk_target inp =
     tbind (attempt (GetSTKRequestByCheckoutID (stki_CheckoutRequestID inp))) (\<lambda>r. case r of
       Inl e \<Rightarrow> raise (if errors_is e ErrNoRows then ErrUnknownSTKRequest else e)
     | Inr req \<Rightarrow> tbind (GetShortcode (stk_shortcode_id req)) (\<lambda>row. ret (req, resolve_row row)))"

definition saleRef :: "uuid \<Rightarrow> uuid \<Rightarrow> string tx" where
  "saleRef oid sid = WithOrg oid (tbind (GetSale sid) (\<lambda>sale. ret (sale_ref sale)))"

definition IngestSTK :: "Keyring \<Rightarrow> time \<Rightarrow> STKInput \<Rightarrow> unit tx" where
  "IngestSTK k now inp =
     tbind (WithIngest (stk_target inp)) (\<lambda>(req, sc).
     tbind (WithOrg (stk_org_id req) (UpdateSTKRequestResult (stk_id req)
       (if stki_Success inp then ''success'' else ''failed'') (Some (stki_ResultCode inp))
       (Some (stki_ResultDesc inp)))) (\<lambda>_.
     if \<not> stki_Success inp \<or> stki_ReceiptNo inp = [] \<or> stk_purpose req = ''verify'' then ret ()
     else
     tbind (case stk_sale_id req of None \<Rightarrow> ret []
       | Some sid \<Rightarrow> tbind (attempt (saleRef (stk_org_id req) sid)) (\<lambda>r. ret (case r of
           Inr ref \<Rightarrow> ref | Inl _ \<Rightarrow> []))) (\<lambda>billRef.
     tbind (IngestC2B k now
       \<lparr>c2b_Kind = ''c2b_confirmation'', c2b_TransID = stki_ReceiptNo inp,
        c2b_ShortCode = rs_Shortcode sc, c2b_AmountCents = stki_AmountCents inp,
        c2b_MSISDN = stki_MSISDN inp, c2b_PayerName = [], c2b_BillRef = billRef,
        c2b_PaidAt = (if stki_PaidAt inp = 0 then now else stki_PaidAt inp),
        c2b_OriginalID = [], c2b_Raw = stki_Raw inp\<rparr>) (\<lambda>_.
     ret ()))))"

end
