(* ===== verification/Http.thy ===== *)
theory Http
  imports Crypto
begin

text \<open>
  The HTTP layer of \<open>internal/platform/httpx/httpx.go\<close> that the handlers share: responses,
  the principal on the request context, the role gates of \<open>internal/org/handler.go\<close> and
  \<open>internal/ledger/handler.go\<close>, and the fixed-window rate limiter.

  A handler is a transaction body that returns a response; a panic of the handler stays a
  panic. Decoding a JSON body is the job of the standard library: a handler receives the
  decoded value, or \<open>None\<close> when \<open>httpx.Decode\<close> fails; a path parameter is the parsed
  identifier, or \<open>None\<close>. The limiter's Retry-After header is not modelled.
\<close>

subsection \<open>Responses\<close>

datatype 'v response =
    JSON nat 'v
  | Fail nat string string \<comment> \<open>status, code, message\<close>
  | NoContent nat

definition http_status :: "'v response \<Rightarrow> nat" where
  "http_status r = (case r of JSON n _ \<Rightarrow> n | Fail n _ _ \<Rightarrow> n | NoContent n \<Rightarrow> n)"

definition accepted_response :: "'v response \<Rightarrow> bool" where
  "accepted_response r \<longleftrightarrow> 200 \<le> http_status r \<and> http_status r < 300"

lemma accepted_simps [simp]:
  "\<not> accepted_response (Fail 400 c m)" "\<not> accepted_response (Fail 401 c m)"
  "\<not> accepted_response (Fail 403 c m)" "\<not> accepted_response (Fail 404 c m)"
  "\<not> accepted_response (Fail 409 c m)" "\<not> accepted_response (Fail 422 c m)"
  "\<not> accepted_response (Fail 500 c m)" "\<not> accepted_response (Fail 501 c m)"
  "accepted_response (JSON 200 v)" "accepted_response (JSON 201 v)" "accepted_response (JSON 202 v)"
  by (simp_all add: accepted_response_def http_status_def)

text \<open>Run an operation and answer for its error or its value.\<close>

definition answer :: "'a tx \<Rightarrow> (go_error \<Rightarrow> 'v response) \<Rightarrow> ('a \<Rightarrow> 'v response) \<Rightarrow> 'v response tx" where
  "answer m bad good = tbind (attempt m) (\<lambda>r. case r of Inl e \<Rightarrow> ret (bad e) | Inr x \<Rightarrow> ret (good x))"

lemma answer_Inr [simp]: "m s = (Inr x, s') \<Longrightarrow> answer m bad good s = (Inr (good x), s')"
  by (simp add: answer_def)

lemma answer_Inl [simp]:
  "m s = (Inl e, s') \<Longrightarrow> \<not> is_panic e \<Longrightarrow> answer m bad good s = (Inr (bad e), s')"
  by (simp add: answer_def)

lemma answer_good:
  assumes "answer m bad good s = (Inr r, s')" and "accepted_response r"
    and "\<And>e. \<not> accepted_response (bad e)"
  obtains x where "m s = (Inr x, s')" and "r = good x"
  using assms unfolding answer_def attempt_case_Inr by auto

subsection \<open>Principals and gates\<close>

definition nil_uuid :: uuid where "nil_uuid = 0"

record HttpPrincipal =
  pr_UserID :: uuid
  pr_OrgID :: uuid
  pr_Role :: string
  pr_SessionID :: uuid
  pr_CSRF :: string
  pr_Locale :: string

definition RequireOrg :: "HttpPrincipal option \<Rightarrow> 'v response tx \<Rightarrow> 'v response tx" where
  "RequireOrg p handler = (case p of
     None \<Rightarrow> ret (Fail 403 ''no_org'' ''Create your business first'')
   | Some q \<Rightarrow> if pr_OrgID q = nil_uuid then ret (Fail 403 ''no_org'' ''Create your business first'')
       else handler)"

definition RequireRole :: "string list \<Rightarrow> HttpPrincipal option \<Rightarrow> 'v response tx \<Rightarrow> 'v response tx" where
  "RequireRole roles p handler = (case p of
     None \<Rightarrow> ret (Fail 403 ''forbidden'' ''Your role cannot do that'')
   | Some q \<Rightarrow> if pr_Role q \<notin> set roles then ret (Fail 403 ''forbidden'' ''Your role cannot do that'')
       else handler)"

text \<open>The middleware of the mutating routes in \<open>ledger.Handler.Mount\<close>.\<close>

definition accountants_read_only :: "HttpPrincipal option \<Rightarrow> 'v response tx \<Rightarrow> 'v response tx" where
  "accountants_read_only p handler = (case p of
     Some q \<Rightarrow> if pr_Role q = ''accountant''
       then ret (Fail 403 ''forbidden'' ''Accountants have read-only access'') else handler
   | None \<Rightarrow> handler)"

definition idParam :: "uuid option \<Rightarrow> (uuid \<Rightarrow> 'v response tx) \<Rightarrow> 'v response tx" where
  "idParam i handler = (case i of None \<Rightarrow> ret (Fail 404 ''not_found'' ''Unknown id'')
   | Some x \<Rightarrow> handler x)"

subsection \<open>Numbers in requests\<close>

definition digit_value :: "char \<Rightarrow> int" where
  "digit_value c = int (of_char c) - 48"

definition decimal :: "string \<Rightarrow> int" where
  "decimal ds = foldl (\<lambda>a c. 10 * a + digit_value c) 0 ds"

text \<open>\<open>strconv.ParseInt(s, 10, 64)\<close>\<close>

definition ParseInt :: "string \<Rightarrow> int option" where
  "ParseInt s =
     (let (neg, ds) = (case s of [] \<Rightarrow> (False, [])
        | c # cs \<Rightarrow> if c = CHR ''-'' then (True, cs) else if c = CHR ''+'' then (False, cs)
            else (False, s));
          v = (if neg then - decimal ds else decimal ds)
      in if ds = [] \<or> \<not> list_all is_digit ds \<or> \<not> in_int64 v then None else Some v)"

definition wrap32 :: "int \<Rightarrow> int" where
  "wrap32 x = (x + 2 ^ 31) mod 2 ^ 32 - 2 ^ 31"

text \<open>The \<open>limit\<close> and \<open>offset\<close> of a list request; a conversion to \<open>int32\<close> truncates.\<close>

definition page :: "string \<Rightarrow> string \<Rightarrow> int \<times> int" where
  "page limit offset =
     ((case ParseInt limit of Some n \<Rightarrow> if 0 < n \<and> n \<le> 200 then n else 50 | None \<Rightarrow> 50),
      (case ParseInt offset of Some n \<Rightarrow> if 0 \<le> n then wrap32 n else 0 | None \<Rightarrow> 0))"

definition optString :: "string \<Rightarrow> string option" where
  "optString s = (if s = [] then None else Some s)"

subsection \<open>The rate limiter\<close>

record bucket =
  bk_n :: int
  bk_reset :: time

type_synonym buckets = "(string \<times> bucket) list"

definition bucket_sweep :: nat where "bucket_sweep = 50000"

definition set_bucket :: "string \<Rightarrow> bucket \<Rightarrow> buckets \<Rightarrow> buckets" where
  "set_bucket k b bs = (k, b) # filter (\<lambda>(j, _). j \<noteq> k) bs"

definition current_bucket :: "duration \<Rightarrow> string \<Rightarrow> time \<Rightarrow> buckets \<Rightarrow> bucket \<times> buckets" where
  "current_bucket window k now bs =
     (case map_of bs k of
        Some b \<Rightarrow> if bk_reset b < now then
            (let b' = \<lparr>bk_n = 0, bk_reset = now + window\<rparr>; bs' = set_bucket k b' bs in
             (b', if bucket_sweep < length bs' then filter (\<lambda>(_, c). \<not> bk_reset c < now) bs' else bs'))
          else (b, bs)
      | None \<Rightarrow>
          (let b' = \<lparr>bk_n = 0, bk_reset = now + window\<rparr>; bs' = set_bucket k b' bs in
           (b', if bucket_sweep < length bs' then filter (\<lambda>(_, c). \<not> bk_reset c < now) bs' else bs')))"

text \<open>One request for key \<open>k\<close>: whether it passes, and the buckets afterwards.\<close>

definition RateLimit :: "int \<Rightarrow> duration \<Rightarrow> string \<Rightarrow> time \<Rightarrow> buckets \<Rightarrow> bool \<times> buckets" where
  "RateLimit limit window k now bs =
     (let (b, bs') = current_bucket window k now bs; b' = b\<lparr>bk_n := bk_n b + 1\<rparr> in
      (bk_n b' \<le> limit, map (\<lambda>(j, c). if j = k then (j, b') else (j, c)) bs'))"

text \<open>A sequence of requests, and how many of key \<open>k\<close> pass.\<close>

fun admitted :: "int \<Rightarrow> duration \<Rightarrow> string \<Rightarrow> (string \<times> time) list \<Rightarrow> buckets \<Rightarrow> nat" where
  "admitted limit window k [] bs = 0"
| "admitted limit window k ((j, now) # rest) bs =
     (let (ok, bs') = RateLimit limit window j now bs in
      (if ok \<and> j = k then 1 else 0) + admitted limit window k rest bs')"


fun buckets_after :: "int \<Rightarrow> duration \<Rightarrow> (string \<times> time) list \<Rightarrow> buckets \<Rightarrow> buckets" where
  "buckets_after limit window [] bs = bs"
| "buckets_after limit window ((j, now) # rest) bs =
     buckets_after limit window rest (snd (RateLimit limit window j now bs))"

definition buckets_ok :: "buckets \<Rightarrow> bool" where
  "buckets_ok bs \<longleftrightarrow> distinct (map fst bs) \<and> (\<forall>b \<in> snd ` set bs. 0 \<le> bk_n b)"

lemma map_of_filter_key [simp]:
  "map_of (filter (\<lambda>(j, _). j \<noteq> k) bs) i = (if i = k then None else map_of bs i)"
  by (induction bs) auto

lemma map_of_set_bucket [simp]:
  "map_of (set_bucket k b bs) i = (if i = k then Some b else map_of bs i)"
  by (simp add: set_bucket_def)

lemma distinct_filter_keys: "distinct (map fst bs) \<Longrightarrow> distinct (map fst (filter P bs))"
  by (induction bs) auto

lemma map_of_sweep:
  "distinct (map fst bs) \<Longrightarrow> map_of (filter (\<lambda>(_, c). \<not> bk_reset c < now) bs) k =
     (case map_of bs k of None \<Rightarrow> None | Some b \<Rightarrow> if bk_reset b < now then None else Some b)"
  by (induction bs) (auto split: option.splits dest: map_of_SomeD simp: image_iff)

lemma map_of_replace:
  "map_of (map (\<lambda>(j, c). if j = k then (j, b) else (j, c)) bs) i =
     (if i = k then map_option (\<lambda>_. b) (map_of bs i) else map_of bs i)"
  by (induction bs) auto

lemma buckets_ok_set: "buckets_ok bs \<Longrightarrow> 0 \<le> bk_n b \<Longrightarrow> buckets_ok (set_bucket k b bs)"
  by (auto simp: buckets_ok_def set_bucket_def distinct_filter_keys)

lemma buckets_ok_filter: "buckets_ok bs \<Longrightarrow> buckets_ok (filter P bs)"
  by (auto simp: buckets_ok_def distinct_filter_keys)

lemma keys_replace: "map fst (map (\<lambda>(j, c). if j = k then (j, b) else (j, c)) bs) = map fst bs"
  by (induction bs) auto

lemma buckets_ok_replace:
  assumes "buckets_ok bs" and "0 \<le> bk_n b"
  shows "buckets_ok (map (\<lambda>(j, c). if j = k then (j, b) else (j, c)) bs)"
  using assms unfolding buckets_ok_def keys_replace by (fastforce split: if_splits)

lemma current_bucket_ok:
  assumes "buckets_ok bs"
  shows "buckets_ok (snd (current_bucket window k now bs)) \<and> 0 \<le> bk_n (fst (current_bucket window k now bs))"
proof -
  have "0 \<le> bk_n b" if "map_of bs k = Some b" for b
    using assms map_of_SomeD [OF that] by (force simp: buckets_ok_def)
  then show ?thesis
    using assms by (auto simp: current_bucket_def Let_def buckets_ok_set buckets_ok_filter
        split: option.splits)
qed

lemma RateLimit_ok: "buckets_ok bs \<Longrightarrow> buckets_ok (snd (RateLimit limit window k now bs))"
  using current_bucket_ok [of bs window k now]
  by (auto simp: RateLimit_def Let_def buckets_ok_replace split: prod.splits)

lemma buckets_after_ok: "buckets_ok bs \<Longrightarrow> buckets_ok (buckets_after limit window reqs bs)"
  by (induction reqs arbitrary: bs) (auto simp: RateLimit_ok)

text \<open>A request of another key leaves a live bucket alone; at most it sweeps an expired one.\<close>

lemma RateLimit_other:
  assumes "buckets_ok bs" and "j \<noteq> k"
  shows "map_of (snd (RateLimit limit window j now bs)) k = map_of bs k \<or>
    (\<exists>b. map_of bs k = Some b \<and> bk_reset b < now \<and> map_of (snd (RateLimit limit window j now bs)) k = None)"
proof -
  have sweep: "map_of (filter (\<lambda>(_, c). \<not> bk_reset c < now) (set_bucket j b bs)) k =
      (case map_of bs k of None \<Rightarrow> None | Some b \<Rightarrow> if bk_reset b < now then None else Some b)" for b
    using assms by (subst map_of_sweep) (auto simp: set_bucket_def buckets_ok_def distinct_filter_keys)
  show ?thesis
    using assms(2)
    by (auto simp: RateLimit_def current_bucket_def Let_def map_of_replace sweep split: option.splits)
qed

text \<open>A request of the key: it counts in a live bucket, otherwise it opens a new one.\<close>

lemma RateLimit_live:
  assumes "map_of bs k = Some b" and "\<not> bk_reset b < now"
  shows "fst (RateLimit limit window k now bs) \<longleftrightarrow> bk_n b + 1 \<le> limit"
    and "map_of (snd (RateLimit limit window k now bs)) k = Some (b\<lparr>bk_n := bk_n b + 1\<rparr>)"
  using assms by (simp_all add: RateLimit_def current_bucket_def map_of_replace)

lemma RateLimit_fresh:
  assumes "buckets_ok bs" and "0 \<le> window"
    and "\<And>b. map_of bs k = Some b \<Longrightarrow> bk_reset b < now"
  shows "fst (RateLimit limit window k now bs) \<longleftrightarrow> 1 \<le> limit"
    and "map_of (snd (RateLimit limit window k now bs)) k = Some \<lparr>bk_n = 1, bk_reset = now + window\<rparr>"
proof -
  have sweep: "map_of (filter (\<lambda>(_, c). \<not> bk_reset c < now) (set_bucket k b bs)) k =
      (if bk_reset b < now then None else Some b)" for b
    using assms(1) by (subst map_of_sweep) (auto simp: set_bucket_def buckets_ok_def distinct_filter_keys)
  show "fst (RateLimit limit window k now bs) \<longleftrightarrow> 1 \<le> limit"
    using assms by (auto simp: RateLimit_def current_bucket_def Let_def split: option.splits)
  show "map_of (snd (RateLimit limit window k now bs)) k = Some \<lparr>bk_n = 1, bk_reset = now + window\<rparr>"
    using assms by (auto simp: RateLimit_def current_bucket_def Let_def map_of_replace sweep
        split: option.splits)
qed

lemma admitted_live:
  assumes "buckets_ok bs" and "map_of bs k = Some b" and "\<forall>r \<in> set reqs. snd r \<le> bk_reset b"
  shows "int (admitted limit window k reqs bs) \<le> max 0 (limit - bk_n b)"
  using assms
proof (induction reqs arbitrary: bs b)
  case (Cons r reqs)
  obtain j now where r: "r = (j, now)" by (cases r)
  obtain ok bs' where rl: "RateLimit limit window j now bs = (ok, bs')"
    by (cases "RateLimit limit window j now bs")
  have ok': "buckets_ok bs'" using RateLimit_ok [OF Cons.prems(1)] rl by (metis snd_conv)
  have live: "\<not> bk_reset b < now" using Cons.prems(3) r by auto
  show ?case
  proof (cases "j = k")
    case True
    from RateLimit_live [OF Cons.prems(2) live, of limit window] rl True
    have "ok \<longleftrightarrow> bk_n b + 1 \<le> limit" and "map_of bs' k = Some (b\<lparr>bk_n := bk_n b + 1\<rparr>)" by simp_all
    with Cons.IH [OF ok' this(2)] Cons.prems(3) show ?thesis by (auto simp: r True rl [unfolded True])
  next
    case False
    from RateLimit_other [OF Cons.prems(1) False, of limit window now] rl live Cons.prems(2)
    have "map_of bs' k = Some b" by auto
    with Cons.IH [OF ok' this] Cons.prems(3) show ?thesis by (auto simp: r rl False)
  qed
qed simp

lemma admitted_bound:
  assumes "buckets_ok bs" and "0 \<le> window" and "\<forall>r \<in> set reqs. start \<le> snd r \<and> snd r \<le> start + window"
  shows "int (admitted limit window k reqs bs) \<le> max 0 limit +
    (case map_of bs k of None \<Rightarrow> 0 | Some b \<Rightarrow> max 0 (limit - bk_n b))"
  using assms(1,3)
proof (induction reqs arbitrary: bs)
  case (Cons r reqs)
  obtain j now where r: "r = (j, now)" by (cases r)
  obtain ok bs' where rl: "RateLimit limit window j now bs = (ok, bs')"
    by (cases "RateLimit limit window j now bs")
  have ok': "buckets_ok bs'" using RateLimit_ok [OF Cons.prems(1)] rl by (metis snd_conv)
  have rest: "\<forall>r \<in> set reqs. start \<le> snd r \<and> snd r \<le> start + window" using Cons.prems(2) by simp
  note IH = Cons.IH [OF ok' rest]
  consider (other) "j \<noteq> k" | (live) b where "j = k" "map_of bs k = Some b" "\<not> bk_reset b < now"
    | (fresh) "j = k" "\<And>b. map_of bs k = Some b \<Longrightarrow> bk_reset b < now" by blast
  then show ?case
  proof cases
    case other
    from RateLimit_other [OF Cons.prems(1) other, of limit window now] rl IH
    show ?thesis by (auto simp: r rl other split: option.splits)
  next
    case live
    from RateLimit_live [OF live(2,3), of limit window] rl live(1)
    have "ok \<longleftrightarrow> bk_n b + 1 \<le> limit" and "map_of bs' k = Some (b\<lparr>bk_n := bk_n b + 1\<rparr>)" by simp_all
    with IH show ?thesis by (auto simp: r rl [unfolded live(1)] live(1,2))
  next
    case fresh
    from RateLimit_fresh [OF Cons.prems(1) assms(2), of k now limit, OF fresh(2)] rl fresh(1)
    have k: "ok \<longleftrightarrow> 1 \<le> limit" and m: "map_of bs' k = Some \<lparr>bk_n = 1, bk_reset = now + window\<rparr>" by simp_all
    have "\<forall>q \<in> set reqs. snd q \<le> now + window" using Cons.prems(2) by (auto simp: r)
    with admitted_live [OF ok' m, of reqs limit window] k
    have "int (admitted limit window k (r # reqs) bs) \<le> max 0 limit"
      by (auto simp: r rl [unfolded fresh(1)] fresh(1))
    then show ?thesis by (auto split: option.splits)
  qed
qed (auto split: option.splits)

text \<open>
  The rate limiter bounds bursts: whatever requests came before, in any interval as long
  as the window at most twice the limit of one key's requests pass, and at most the limit
  when the key has no bucket yet; requests of other keys, and the sweep of expired buckets,
  change nothing about it.
\<close>

theorem rate_limit_bound:
  assumes "0 \<le> window" and "0 \<le> limit"
    and "\<forall>r \<in> set reqs. start \<le> snd r \<and> snd r \<le> start + window"
  shows "int (admitted limit window k reqs (buckets_after limit window earlier [])) \<le> 2 * limit \<and>
    (k \<notin> fst ` set earlier \<longrightarrow>
      int (admitted limit window k reqs (buckets_after limit window earlier [])) \<le> limit)"
proof -
  have ok: "buckets_ok (buckets_after limit window earlier [])"
    by (rule buckets_after_ok) (simp add: buckets_ok_def)
  have n: "0 \<le> bk_n b" if "map_of (buckets_after limit window earlier []) k = Some b" for b
    using ok map_of_SomeD [OF that] by (force simp: buckets_ok_def)
  note bound = admitted_bound [OF ok assms(1,3), of limit k]
  have twice: "int (admitted limit window k reqs (buckets_after limit window earlier [])) \<le> 2 * limit"
    using bound n assms(2) by (auto split: option.splits)
  have none: "map_of (buckets_after limit window es bs) k = None"
    if "k \<notin> fst ` set es" "buckets_ok bs" "map_of bs k = None" for es bs
    using that
  proof (induction es arbitrary: bs)
    case (Cons e es)
    obtain j now where e: "e = (j, now)" by (cases e)
    with Cons.prems have "j \<noteq> k" by auto
    from RateLimit_other [OF Cons.prems(2) this, of limit window now] Cons.prems(3)
    have "map_of (snd (RateLimit limit window j now bs)) k = None" by simp
    with Cons show ?case by (simp add: e RateLimit_ok)
  qed simp
  have "int (admitted limit window k reqs (buckets_after limit window earlier [])) \<le> limit"
    if "k \<notin> fst ` set earlier"
    using bound none [of earlier "[]"] that assms(2) by (simp add: buckets_ok_def)
  with twice show ?thesis by blast
qed

theorem rate_limit_bound_witness:
  "int (admitted 2 10 ''a'' [(''a'', 1), (''a'', 2), (''b'', 3), (''a'', 4)] (buckets_after 2 10 [(''b'', 0)] [])) \<le> 2"
  using rate_limit_bound [of 10 2 "[(''a'', 1), (''a'', 2), (''b'', 3), (''a'', 4)]" 0 "''a''" "[(''b'', 0)]"]
  by simp

end
