(* ===== verification/Shortcodes.thy ===== *)
theory Shortcodes
  imports Http "HOL-Library.Product_Lexorder"
begin

text \<open>
  The administrative gate: \<open>internal/ledger/authorization.go\<close>, the shortcode routes of
  \<open>internal/ledger/handler.go\<close> and the operator side in \<open>internal/admin/shortcodes.go\<close>. A
  merchant registers a number and uploads a signed letter; an operator verifies or rejects
  it; only a verified number resolves for incoming money (\<open>ResolveShortcode\<close>).

  The file store is the interface \<open>storage.Store\<close>, here what its \<open>Put\<close> answers; Daraja's
  RegisterURL is what the call answers, \<open>None\<close> standing for a client that is nil, not
  configured or without a webhook address. Serving the letter's bytes is not modelled.
\<close>

definition ShortcodePendingAuthorization :: string where
  "ShortcodePendingAuthorization = ''pending_authorization''"
definition ShortcodeVerified :: string where "ShortcodeVerified = ''verified''"
definition ShortcodeRejected :: string where "ShortcodeRejected = ''rejected''"

lemmas shortcode_statuses = ShortcodePendingAuthorization_def ShortcodeVerified_def
  ShortcodeRejected_def

subsection \<open>Statements\<close>

text \<open>The CHECK constraints of \<open>mpesa_shortcodes\<close> and its partial unique index.\<close>

definition shortcode_checks :: "Shortcode \<Rightarrow> bool" where
  "shortcode_checks r \<longleftrightarrow> sc_kind r \<in> {''till'', ''paybill'', ''pochi''} \<and>
     sc_status r \<in> {''pending_authorization'', ''verified'', ''rejected''} \<and>
     (sc_status r = ''verified'' \<longleftrightarrow> sc_verified_at r \<noteq> None)"

definition claimed_by_other :: "Shortcode \<Rightarrow> Shortcode list \<Rightarrow> bool" where
  "claimed_by_other r rows \<longleftrightarrow> sc_status r = ''verified'' \<and>
     list_ex (\<lambda>q. sc_id q \<noteq> sc_id r \<and> sc_status q = ''verified'' \<and> sc_shortcode q = sc_shortcode r) rows"

definition CreateShortcode ::
    "uuid \<Rightarrow> string \<Rightarrow> string \<Rightarrow> string \<Rightarrow> uuid option \<Rightarrow> bool \<Rightarrow> Shortcode tx" where
  "CreateShortcode oid kind code label item auto = stmt (\<lambda>s.
     let r = \<lparr>sc_id = next_id s, sc_org_id = oid, sc_kind = kind, sc_shortcode = code,
       sc_label = label, sc_default_item_id = item, sc_auto_invoice = auto, sc_verified_at = None,
       sc_status = ''pending_authorization'', sc_letter_path = None, sc_submitted_at = None,
       sc_reviewed_by = None, sc_reviewed_at = None, sc_rejection_reason = None,
       sc_c2b_registered_at = None, sc_created_at = clock s\<rparr> in
     if \<not> own s oid then Inl rls_violation
     else if \<not> shortcode_checks r then Inl check_violation
     else Inr (r, s\<lparr>next_id := Suc (next_id s), mpesa_shortcodes := mpesa_shortcodes s @ [r]\<rparr>))"

text \<open>\<open>UPDATE mpesa_shortcodes SET \<dots> WHERE id = $1 RETURNING *\<close>\<close>

definition update_shortcode :: "uuid \<Rightarrow> (time \<Rightarrow> Shortcode \<Rightarrow> Shortcode) \<Rightarrow> Shortcode tx" where
  "update_shortcode i f = stmt (\<lambda>s.
     let p = (\<lambda>r. own s (sc_org_id r) \<and> sc_id r = i) in
     case find p (mpesa_shortcodes s) of
       None \<Rightarrow> Inl ErrNoRows
     | Some r \<Rightarrow>
         let r' = f (clock s) r in
         if \<not> shortcode_checks r' then Inl check_violation
         else if claimed_by_other r' (mpesa_shortcodes s) then Inl unique_violation
         else Inr (r', s\<lparr>mpesa_shortcodes := update_rows p (f (clock s)) (mpesa_shortcodes s)\<rparr>))"

definition VerifyShortcode :: "uuid \<Rightarrow> string \<Rightarrow> Shortcode tx" where
  "VerifyShortcode i by' = update_shortcode i (\<lambda>now r. r\<lparr>sc_status := ''verified'',
     sc_verified_at := Some now, sc_reviewed_by := Some by', sc_reviewed_at := Some now,
     sc_rejection_reason := None\<rparr>)"

definition RejectShortcode :: "uuid \<Rightarrow> string \<Rightarrow> string \<Rightarrow> Shortcode tx" where
  "RejectShortcode i by' reason = update_shortcode i (\<lambda>now r. r\<lparr>sc_status := ''rejected'',
     sc_verified_at := None, sc_reviewed_by := Some by', sc_reviewed_at := Some now,
     sc_rejection_reason := Some reason\<rparr>)"

definition SetShortcodeAuthorizationLetter :: "uuid \<Rightarrow> string \<Rightarrow> Shortcode tx" where
  "SetShortcodeAuthorizationLetter i path = update_shortcode i (\<lambda>now r.
     r\<lparr>sc_letter_path := Some path, sc_submitted_at := Some now,
       sc_status := (if sc_status r = ''verified'' then sc_status r else ''pending_authorization''),
       sc_rejection_reason := (if sc_status r = ''verified'' then sc_rejection_reason r else None)\<rparr>)"

definition UpdateShortcode ::
    "uuid \<Rightarrow> string option \<Rightarrow> uuid option \<Rightarrow> bool option \<Rightarrow> Shortcode tx" where
  "UpdateShortcode i label item auto = update_shortcode i (\<lambda>now r.
     r\<lparr>sc_label := (case label of Some l \<Rightarrow> l | None \<Rightarrow> sc_label r),
       sc_default_item_id := (case item of Some j \<Rightarrow> Some j | None \<Rightarrow> sc_default_item_id r),
       sc_auto_invoice := (case auto of Some b \<Rightarrow> b | None \<Rightarrow> sc_auto_invoice r)\<rparr>)"

definition MarkShortcodeC2BRegistered :: "uuid \<Rightarrow> unit tx" where
  "MarkShortcodeC2BRegistered i = update (\<lambda>s. s\<lparr>mpesa_shortcodes := update_rows
     (\<lambda>r. own s (sc_org_id r) \<and> sc_id r = i) (\<lambda>r. r\<lparr>sc_c2b_registered_at := Some (clock s)\<rparr>)
     (mpesa_shortcodes s)\<rparr>)"

definition ListShortcodes :: "uuid \<Rightarrow> Shortcode list tx" where
  "ListShortcodes oid = query (\<lambda>s. sort_key sc_created_at
     (filter (\<lambda>r. sees_shortcode s r \<and> sc_org_id r = oid) (mpesa_shortcodes s)))"

definition org_of :: "db \<Rightarrow> Shortcode \<Rightarrow> (Shortcode \<times> string \<times> bytes) option" where
  "org_of s r = map_option (\<lambda>g. (r, org_name g, org_kra_pin_enc g)) (row_by org_id (sc_org_id r) (orgs s))"

text \<open>
  The operator queue: letters in the order they came, rows without a letter last. The first
  stable sort orders by \<open>created_at\<close>, the second by the submission time, NULLS LAST.
\<close>

definition ListShortcodesByStatus :: "string \<Rightarrow> int \<Rightarrow> (Shortcode \<times> string \<times> bytes) list tx" where
  "ListShortcodesByStatus st limit = query (\<lambda>s. take (nat limit) (List.map_filter (org_of s)
     (sort_key (\<lambda>r. (sc_submitted_at r = None, case sc_submitted_at r of Some t \<Rightarrow> t | None \<Rightarrow> 0))
       (sort_key sc_created_at
         (filter (\<lambda>r. sees_shortcode s r \<and> sc_status r = st) (mpesa_shortcodes s))))))"

definition GetShortcodeAdmin :: "uuid \<Rightarrow> (Shortcode \<times> string \<times> bytes) tx" where
  "GetShortcodeAdmin i = query_one (\<lambda>s.
     Option.bind (find (\<lambda>r. sees_shortcode s r \<and> sc_id r = i) (mpesa_shortcodes s)) (org_of s))"

definition FindShortcodesByNumber :: "string \<Rightarrow> Shortcode list tx" where
  "FindShortcodesByNumber code = query (\<lambda>s. sort_key sc_created_at
     (filter (\<lambda>r. sees_shortcode s r \<and> sc_shortcode r = code) (mpesa_shortcodes s)))"

definition CountVerifiedShortcodeElsewhere :: "string \<Rightarrow> uuid \<Rightarrow> int tx" where
  "CountVerifiedShortcodeElsewhere code oid = query (\<lambda>s. int (length
     (filter (\<lambda>r. sees_shortcode s r \<and> sc_shortcode r = code \<and> sc_org_id r \<noteq> oid \<and>
        sc_status r = ''verified'') (mpesa_shortcodes s))))"

subsection \<open>Views\<close>

record ShortcodeView =
  sv_ID :: uuid
  sv_Kind :: string
  sv_Shortcode :: string
  sv_Label :: string
  sv_DefaultItemID :: "uuid option"
  sv_AutoInvoice :: bool
  sv_Status :: string
  sv_Verified :: bool
  sv_VerifiedAt :: "time option"
  sv_LetterUploaded :: bool
  sv_SubmittedAt :: "time option"
  sv_RejectionReason :: "string option"
  sv_C2BRegisteredAt :: "time option"

definition ToShortcode :: "Shortcode \<Rightarrow> ShortcodeView" where
  "ToShortcode r = \<lparr>sv_ID = sc_id r, sv_Kind = sc_kind r, sv_Shortcode = sc_shortcode r,
     sv_Label = sc_label r, sv_DefaultItemID = sc_default_item_id r,
     sv_AutoInvoice = sc_auto_invoice r, sv_Status = sc_status r,
     sv_Verified = (sc_status r = ShortcodeVerified), sv_VerifiedAt = sc_verified_at r,
     sv_LetterUploaded = (sc_letter_path r \<noteq> None), sv_SubmittedAt = sc_submitted_at r,
     sv_RejectionReason = sc_rejection_reason r, sv_C2BRegisteredAt = sc_c2b_registered_at r\<rparr>"

record AdminShortcodeView =
  av_Shortcode :: ShortcodeView
  av_OrgID :: uuid
  av_OrgName :: string
  av_OrgKRAPin :: string
  av_ReviewedBy :: "string option"
  av_ReviewedAt :: "time option"
  av_CreatedAt :: time

definition ToAdminShortcode :: "Keyring \<Rightarrow> Shortcode \<Rightarrow> string \<Rightarrow> bytes \<Rightarrow> AdminShortcodeView" where
  "ToAdminShortcode k r name enc = \<lparr>av_Shortcode = ToShortcode r, av_OrgID = sc_org_id r,
     av_OrgName = name, av_OrgKRAPin = (case DecryptString k enc of Inl _ \<Rightarrow> [] | Inr p \<Rightarrow> p),
     av_ReviewedBy = sc_reviewed_by r, av_ReviewedAt = sc_reviewed_at r,
     av_CreatedAt = sc_created_at r\<rparr>"

subsection \<open>The merchant's side\<close>

definition ledger_fail :: "go_error \<Rightarrow> string \<Rightarrow> 'v response" where
  "ledger_fail e msg =
     (if errors_is e ErrNoRows then Fail 404 ''not_found'' ''Not found''
      else if errors_is e ErrShortcodeClaimed then Fail 409 ''shortcode_claimed''
        ''This number is already verified by another business. If it is yours, contact support.''
      else if errors_is e ErrAlreadyVerified then Fail 409 ''conflict'' ''This shortcode is already verified.''
      else if errors_is e ErrIllegalTransition \<or> errors_is e ErrDuplicate
        then Fail 409 ''conflict'' (err_text e)
      else case err_root e of Invalid _ \<Rightarrow> Fail 422 ''validation'' (err_text e)
        | _ \<Rightarrow> Fail 500 ''internal'' msg)"

lemma ledger_fail_refuses [simp]: "\<not> accepted_response (ledger_fail e msg)"
  by (auto simp: ledger_fail_def split: go_error.splits)

definition en_dash :: string where "en_dash = [CHR 0xE2, CHR 0x80, CHR 0x93]"

record shortcodeInput =
  shi_Kind :: string
  shi_Shortcode :: string
  shi_Label :: string
  shi_DefaultItemID :: "uuid option"
  shi_AutoInvoice :: "bool option"

definition check_shortcode_input :: "shortcodeInput \<Rightarrow> go_error option" where
  "check_shortcode_input inp =
     (if shi_Kind inp = ''pochi'' then Some (Invalid (''Pochi la Biashara is not supported: '' @
        ''Safaricom does not deliver C2B callbacks for it. Register a Till or Paybill.''))
      else if shi_Kind inp \<noteq> ''till'' \<and> shi_Kind inp \<noteq> ''paybill''
        then Some (Invalid ''kind must be till or paybill'')
      else if length (shi_Shortcode inp) < 5 \<or> 12 < length (shi_Shortcode inp) \<or>
          \<not> list_all is_digit (shi_Shortcode inp)
        then Some (Invalid (''shortcode must be 5'' @ en_dash @ ''12 digits''))
      else None)"

definition claimedElsewhere :: "string \<Rightarrow> uuid \<Rightarrow> unit tx" where
  "claimedElsewhere code oid =
     tbind (WithIngest (CountVerifiedShortcodeElsewhere code oid)) (\<lambda>n.
       if 0 < n then raise ErrShortcodeClaimed else ret ())"

definition known_item :: "uuid option \<Rightarrow> unit tx" where
  "known_item item = (case item of None \<Rightarrow> ret ()
     | Some j \<Rightarrow> tbind (attempt (GetItem j)) (\<lambda>r. case r of
         Inl _ \<Rightarrow> raise (Invalid ''default_item_id does not exist'') | Inr _ \<Rightarrow> ret ()))"

definition create_shortcode_tx :: "uuid \<Rightarrow> uuid \<Rightarrow> shortcodeInput \<Rightarrow> Shortcode tx" where
  "create_shortcode_tx oid uid inp =
     tbind (known_item (shi_DefaultItemID inp)) (\<lambda>_.
     tbind (attempt (CreateShortcode oid (shi_Kind inp) (shi_Shortcode inp) (shi_Label inp)
         (shi_DefaultItemID inp) (case shi_AutoInvoice inp of Some b \<Rightarrow> b | None \<Rightarrow> True))) (\<lambda>r.
       case r of
         Inl e \<Rightarrow> raise (if isUniqueViolation e then ErrShortcodeClaimed else e)
       | Inr sc \<Rightarrow>
           tbind (AppendAudit oid ''user'' (Some (uuid_String uid)) ''shortcode.created''
             ''mpesa_shortcode'' (sc_id sc) NoAfter) (\<lambda>_. ret sc)))"

definition createShortcode ::
    "HttpPrincipal \<Rightarrow> shortcodeInput option \<Rightarrow> ShortcodeView response tx" where
  "createShortcode p body = (case body of
     None \<Rightarrow> ret (Fail 400 ''bad_request''
       ''Body must be {kind, shortcode, label?, default_item_id?, auto_invoice?}'')
   | Some raw \<Rightarrow>
       (let inp = raw\<lparr>shi_Shortcode := trim_space (shi_Shortcode raw)\<rparr> in
        case check_shortcode_input inp of
          Some e \<Rightarrow> ret (ledger_fail e [])
        | None \<Rightarrow>
            tbind (attempt (claimedElsewhere (shi_Shortcode inp) (pr_OrgID p))) (\<lambda>c. case c of
              Inl e \<Rightarrow> ret (ledger_fail e ''Could not check the shortcode'')
            | Inr _ \<Rightarrow> answer (WithOrg (pr_OrgID p)
                  (create_shortcode_tx (pr_OrgID p) (pr_UserID p) inp))
                (\<lambda>e. ledger_fail e ''Could not add the shortcode'')
                (\<lambda>sc. JSON 201 (ToShortcode sc)))))"

definition updateShortcode ::
    "HttpPrincipal \<Rightarrow> uuid option \<Rightarrow> shortcodeInput option \<Rightarrow> ShortcodeView response tx" where
  "updateShortcode p pid body = idParam pid (\<lambda>i. case body of
     None \<Rightarrow> ret (Fail 400 ''bad_request'' ''Body must be {label?, default_item_id?, auto_invoice?}'')
   | Some inp \<Rightarrow> answer (WithOrg (pr_OrgID p)
         (tbind (known_item (shi_DefaultItemID inp)) (\<lambda>_.
           UpdateShortcode i (optString (shi_Label inp)) (shi_DefaultItemID inp) (shi_AutoInvoice inp))))
       (\<lambda>e. ledger_fail e ''Could not update the shortcode'') (\<lambda>sc. JSON 200 (ToShortcode sc)))"

definition getShortcode :: "HttpPrincipal \<Rightarrow> uuid option \<Rightarrow> ShortcodeView response tx" where
  "getShortcode p pid = idParam pid (\<lambda>i. answer (WithOrg (pr_OrgID p) (GetShortcode i))
     (\<lambda>e. ledger_fail e ''Could not load the shortcode'') (\<lambda>sc. JSON 200 (ToShortcode sc)))"

definition listShortcodes :: "HttpPrincipal \<Rightarrow> ShortcodeView list response tx" where
  "listShortcodes p = answer (WithOrg (pr_OrgID p) (ListShortcodes (pr_OrgID p)))
     (\<lambda>e. ledger_fail e ''Could not list shortcodes'') (\<lambda>rows. JSON 200 (map ToShortcode rows))"

definition LetterMaxBytes :: nat where "LetterMaxBytes = 10 * 2 ^ 20"

definition letterContentTypes :: "(string \<times> string) list" where
  "letterContentTypes = [(''image/jpeg'', ''.jpg''), (''image/png'', ''.png''),
     (''image/webp'', ''.webp''), (''application/pdf'', ''.pdf'')]"

definition unix_epoch :: time where "unix_epoch = 62135596800 * second"

text \<open>
  \<open>put\<close> is what the file store answers, \<open>sha\<close> the hexadecimal SHA-256, \<open>content\<close> what
  reading the uploaded part yields.
\<close>

definition SubmitAuthorization ::
    "(string \<Rightarrow> bytes \<Rightarrow> go_error option) \<Rightarrow> (bytes \<Rightarrow> string) \<Rightarrow> time \<Rightarrow> uuid \<Rightarrow> uuid \<Rightarrow> uuid \<Rightarrow>
      string \<Rightarrow> go_error + bytes \<Rightarrow> Shortcode tx" where
  "SubmitAuthorization put sha now oid uid i ctype content =
     (case map_of letterContentTypes ctype of
        None \<Rightarrow> raise (Invalid ''letter must be image/jpeg, image/png, image/webp or application/pdf'')
      | Some ext \<Rightarrow> (case map_sum id (take (LetterMaxBytes + 1)) content of
          Inl e \<Rightarrow> raise e
        | Inr body \<Rightarrow>
            if body = [] then raise (Invalid ''letter file is required'')
            else if LetterMaxBytes < length body then raise (Invalid ''letter must be at most 10 MB'')
            else let key = ''authorizations/'' @ uuid_String oid @ ''/'' @ uuid_String i @ ''-'' @
                itoa (now - unix_epoch) @ ext in
              WithOrg oid (
                tbind (GetShortcode i) (\<lambda>_.
                case put key body of
                  Some e \<Rightarrow> raise e
                | None \<Rightarrow> tbind (SetShortcodeAuthorizationLetter i key) (\<lambda>sc.
                    tbind (AppendAudit oid ''user'' (Some (uuid_String uid))
                      ''shortcode.authorization_submitted'' ''mpesa_shortcode'' i (ShaAfter (sha body)))
                      (\<lambda>_. ret sc))))))"

text \<open>What \<open>NextPart\<close> delivers: a part (form name, content type, content) or a failure; then EOF.\<close>

datatype PartEvent = FormPart string string "go_error + bytes" | BodyTooBig | MalformedPart

definition max_bytes_error :: go_error where
  "max_bytes_error = ErrorString ''http: request body too large''"

fun letter_part :: "(string \<Rightarrow> go_error + bytes \<Rightarrow> ShortcodeView response tx) \<Rightarrow> PartEvent list \<Rightarrow>
    ShortcodeView response tx" where
  "letter_part store [] = ret (ledger_fail (Invalid ''letter file is required'') [])"
| "letter_part store (BodyTooBig # rest) = ret (ledger_fail (Invalid ''letter must be at most 10 MB'') [])"
| "letter_part store (MalformedPart # rest) =
     ret (Fail 400 ''bad_request'' ''Malformed multipart body'')"
| "letter_part store (FormPart name ctype content # rest) =
     (if name \<noteq> ''letter'' then letter_part store rest else store ctype content)"

definition submitAuthorization ::
    "(string \<Rightarrow> bytes \<Rightarrow> go_error option) option \<Rightarrow> (bytes \<Rightarrow> string) \<Rightarrow> time \<Rightarrow> HttpPrincipal \<Rightarrow> uuid option \<Rightarrow>
      PartEvent list option \<Rightarrow> ShortcodeView response tx" where
  "submitAuthorization files sha now p pid parts = idParam pid (\<lambda>i.
     case files of
       None \<Rightarrow> ret (Fail 501 ''not_implemented'' ''Uploads are not configured'')
     | Some put \<Rightarrow> (case parts of
         None \<Rightarrow> ret (Fail 400 ''bad_request'' ''Body must be multipart/form-data with a `letter` file'')
       | Some evs \<Rightarrow> letter_part (\<lambda>ctype content.
           answer (SubmitAuthorization put sha now (pr_OrgID p) (pr_UserID p) i ctype content)
             (\<lambda>e. ledger_fail (if err_root e = max_bytes_error
                then Invalid ''letter must be at most 10 MB'' else e) ''Could not store the letter'')
             (\<lambda>sc. JSON 200 (ToShortcode sc))) evs))"

subsection \<open>The operator's side\<close>

definition admin_List :: "Keyring \<Rightarrow> string \<Rightarrow> int \<Rightarrow> AdminShortcodeView list tx" where
  "admin_List k status limit =
     tbind (WithAdmin (ListShortcodesByStatus
       (if status = [] then ShortcodePendingAuthorization else status)
       (if limit \<le> 0 \<or> 500 < limit then 100 else limit)))
     (\<lambda>rows. ret (map (\<lambda>(r, name, enc). ToAdminShortcode k r name enc) rows))"

definition admin_Get :: "Keyring \<Rightarrow> uuid \<Rightarrow> AdminShortcodeView tx" where
  "admin_Get k i = WithAdmin (tbind (GetShortcodeAdmin i)
     (\<lambda>(r, name, enc). ret (ToAdminShortcode k r name enc)))"

definition FindByNumber :: "string \<Rightarrow> Shortcode list tx" where
  "FindByNumber code = WithAdmin (FindShortcodesByNumber code)"

definition verify_tx :: "uuid \<Rightarrow> uuid \<Rightarrow> string \<Rightarrow> string \<Rightarrow> Shortcode tx" where
  "verify_tx oid i by' remark =
     tbind (attempt (VerifyShortcode i by')) (\<lambda>r. case r of
       Inl e \<Rightarrow> raise (if isUniqueViolation e then ErrShortcodeClaimed else e)
     | Inr sc \<Rightarrow> tbind (AppendAudit oid ''admin'' (Some by') ''shortcode.verified'' ''mpesa_shortcode''
         i (NoteAfter remark)) (\<lambda>_. ret sc))"

definition Verify ::
    "Keyring \<Rightarrow> (string \<Rightarrow> go_error option) option \<Rightarrow> uuid \<Rightarrow> string \<Rightarrow> string \<Rightarrow> AdminShortcodeView tx" where
  "Verify k daraja i by' remark =
     tbind (admin_Get k i) (\<lambda>row.
     if sv_Status (av_Shortcode row) = ShortcodeVerified then ret row
     else
       tbind (WithOrg (av_OrgID row) (verify_tx (av_OrgID row) i by' remark)) (\<lambda>out.
       tbind (case daraja of None \<Rightarrow> ret ()
           | Some register \<Rightarrow> (case register (sc_shortcode out) of
               Some _ \<Rightarrow> ret ()
             | None \<Rightarrow> ignore (WithOrg (av_OrgID row) (MarkShortcodeC2BRegistered i)))) (\<lambda>_.
       admin_Get k i)))"

definition Reject :: "Keyring \<Rightarrow> uuid \<Rightarrow> string \<Rightarrow> string \<Rightarrow> AdminShortcodeView tx" where
  "Reject k i by' reason =
     tbind (admin_Get k i) (\<lambda>row.
     if sv_Status (av_Shortcode row) = ShortcodeVerified then raise ErrAlreadyVerified
     else
       tbind (WithOrg (av_OrgID row) (
         tbind (RejectShortcode i by' reason) (\<lambda>_.
         AppendAudit (av_OrgID row) ''admin'' (Some by') ''shortcode.rejected'' ''mpesa_shortcode''
           i (ReasonAfter reason)))) (\<lambda>_.
       admin_Get k i))"

definition failShortcode :: "go_error \<Rightarrow> string \<Rightarrow> 'v response" where
  "failShortcode e msg =
     (if errors_is e ErrNoRows then Fail 404 ''not_found'' ''Not found''
      else if errors_is e ErrShortcodeClaimed then Fail 409 ''shortcode_claimed''
        ''Another organisation already holds this number verified''
      else if errors_is e ErrAlreadyVerified then Fail 409 ''conflict''
        ''This shortcode is already verified; revoke is not supported through the API''
      else Fail 500 ''internal'' msg)"

definition adminActor :: "HttpPrincipal option \<Rightarrow> string" where
  "adminActor p = (case p of Some q \<Rightarrow> uuid_String (pr_UserID q) | None \<Rightarrow> ''admin'')"

definition adminListShortcodes ::
    "Keyring \<Rightarrow> string \<Rightarrow> int \<Rightarrow> AdminShortcodeView list response tx" where
  "adminListShortcodes k status limit = answer (admin_List k status limit)
     (\<lambda>e. failShortcode e ''Could not list shortcodes'') (\<lambda>out. JSON 200 out)"

definition adminVerifyShortcode ::
    "Keyring \<Rightarrow> (string \<Rightarrow> go_error option) option \<Rightarrow> HttpPrincipal option \<Rightarrow> uuid option \<Rightarrow> string option \<Rightarrow>
      AdminShortcodeView response tx" where
  "adminVerifyShortcode k daraja p pid body = idParam pid (\<lambda>i.
     answer (Verify k daraja i (adminActor p) (case body of Some n \<Rightarrow> n | None \<Rightarrow> []))
       (\<lambda>e. failShortcode e ''Could not verify the shortcode'') (\<lambda>out. JSON 200 out))"

definition adminRejectShortcode ::
    "Keyring \<Rightarrow> HttpPrincipal option \<Rightarrow> uuid option \<Rightarrow> string option \<Rightarrow> AdminShortcodeView response tx" where
  "adminRejectShortcode k p pid body = idParam pid (\<lambda>i.
     case body of
       None \<Rightarrow> ret (Fail 422 ''validation'' ''reason must be 3-500 characters'')
     | Some reason \<Rightarrow>
         if length reason < 3 \<or> 500 < length reason
         then ret (Fail 422 ''validation'' ''reason must be 3-500 characters'')
         else answer (Reject k i (adminActor p) reason)
           (\<lambda>e. failShortcode e ''Could not reject the shortcode'') (\<lambda>out. JSON 200 out))"

definition contentTypeForExt :: "string \<Rightarrow> string" where
  "contentTypeForExt ext =
     (if ext = ''.jpg'' \<or> ext = ''.jpeg'' then ''image/jpeg'' else if ext = ''.png'' then ''image/png''
      else if ext = ''.webp'' then ''image/webp'' else if ext = ''.pdf'' then ''application/pdf''
      else ''application/octet-stream'')"

end
