(* ===== verification/Daraja.thy ===== *)
theory Daraja
  imports Ledger Shortcodes
begin

text \<open>
  Safaricom's callbacks: \<open>internal/mpesa/types.go\<close> (payloads, amounts, times) and
  \<open>internal/mpesa/webhook.go\<close> (the callback routes in front of the ledger's ingestion).

  \<open>json.Unmarshal\<close> is split in two. What the text denotes is a value of the type \<open>json\<close>,
  whose literals and composites carry their source text (what a \<open>json.RawMessage\<close> field
  keeps); the parser from text to such a value is the argument \<open>J\<close>, \<open>None\<close> standing for a
  syntax error. Storing a value into a Go struct is translated: members in order, keys
  matched without regard to case, \<open>null\<close> leaving a field alone, unknown keys ignored, and a
  value of the wrong kind an error of the whole call. Bodies are cut at 1 MiB by the
  standard library before they come here; log lines are left out.
\<close>

subsection \<open>JSON into structs\<close>

datatype json =
    JNull
  | JBool bool
  | JNum string
  | JStr string string \<comment> \<open>the literal between its quotes, and the string it denotes\<close>
  | JArr string "json list"
  | JObj string "(string \<times> json) list"

definition json_text :: "json \<Rightarrow> string" where
  "json_text j = (case j of JNull \<Rightarrow> ''null'' | JBool b \<Rightarrow> (if b then ''true'' else ''false'')
   | JNum s \<Rightarrow> s | JStr raw _ \<Rightarrow> [CHR 0x22] @ raw @ [CHR 0x22] | JArr raw _ \<Rightarrow> raw | JObj raw _ \<Rightarrow> raw)"

definition equal_fold :: "string \<Rightarrow> string \<Rightarrow> bool" where
  "equal_fold a b \<longleftrightarrow> to_upper a = to_upper b"

type_synonym 'r fields = "(string \<times> ('r \<Rightarrow> json \<Rightarrow> 'r option)) list"

fun dec_members :: "'r fields \<Rightarrow> (string \<times> json) list \<Rightarrow> 'r \<Rightarrow> 'r option" where
  "dec_members fs [] r = Some r"
| "dec_members fs ((k, j) # ms) r = (case find (\<lambda>(n, _). equal_fold n k) fs of
     None \<Rightarrow> dec_members fs ms r
   | Some (_, put) \<Rightarrow> Option.bind (put r j) (dec_members fs ms))"

definition dec_struct :: "'r fields \<Rightarrow> 'r \<Rightarrow> json \<Rightarrow> 'r option" where
  "dec_struct fs r j = (case j of JNull \<Rightarrow> Some r | JObj _ ms \<Rightarrow> dec_members fs ms r | _ \<Rightarrow> None)"

text \<open>Targets of the kinds \<open>string\<close>, \<open>int\<close> and \<open>json.RawMessage\<close>.\<close>

definition put_string :: "((string \<Rightarrow> string) \<Rightarrow> 'r \<Rightarrow> 'r) \<Rightarrow> 'r \<Rightarrow> json \<Rightarrow> 'r option" where
  "put_string upd r j = (case j of JStr _ v \<Rightarrow> Some (upd (\<lambda>_. v) r) | JNull \<Rightarrow> Some r | _ \<Rightarrow> None)"

definition put_int :: "((int \<Rightarrow> int) \<Rightarrow> 'r \<Rightarrow> 'r) \<Rightarrow> 'r \<Rightarrow> json \<Rightarrow> 'r option" where
  "put_int upd r j = (case j of JNum s \<Rightarrow> map_option (\<lambda>n. upd (\<lambda>_. n) r) (ParseInt s)
   | JNull \<Rightarrow> Some r | _ \<Rightarrow> None)"

definition put_raw :: "((json option \<Rightarrow> json option) \<Rightarrow> 'r \<Rightarrow> 'r) \<Rightarrow> 'r \<Rightarrow> json \<Rightarrow> 'r option" where
  "put_raw upd r j = Some (upd (\<lambda>_. Some j) r)"

subsection \<open>Payloads\<close>

record C2BPayload =
  cb_TransactionType :: string
  cb_TransID :: string
  cb_TransTime :: string
  cb_TransAmount :: string
  cb_BusinessShortCode :: string
  cb_BillRefNumber :: string
  cb_InvoiceNumber :: string
  cb_OrgAccountBalance :: string
  cb_ThirdPartyTransID :: string
  cb_MSISDN :: string
  cb_FirstName :: string
  cb_MiddleName :: string
  cb_LastName :: string
  cb_KYCInfo :: "json option"
  cb_KYCName :: string
  cb_CustomerName :: string

definition no_payload :: C2BPayload where
  "no_payload = \<lparr>cb_TransactionType = [], cb_TransID = [], cb_TransTime = [], cb_TransAmount = [],
     cb_BusinessShortCode = [], cb_BillRefNumber = [], cb_InvoiceNumber = [],
     cb_OrgAccountBalance = [], cb_ThirdPartyTransID = [], cb_MSISDN = [], cb_FirstName = [],
     cb_MiddleName = [], cb_LastName = [], cb_KYCInfo = None, cb_KYCName = [], cb_CustomerName = []\<rparr>"

definition C2BPayload_fields :: "C2BPayload fields" where
  "C2BPayload_fields =
     [(''TransactionType'', put_string cb_TransactionType_update),
      (''TransID'', put_string cb_TransID_update), (''TransTime'', put_string cb_TransTime_update),
      (''TransAmount'', put_string cb_TransAmount_update),
      (''BusinessShortCode'', put_string cb_BusinessShortCode_update),
      (''BillRefNumber'', put_string cb_BillRefNumber_update),
      (''InvoiceNumber'', put_string cb_InvoiceNumber_update),
      (''OrgAccountBalance'', put_string cb_OrgAccountBalance_update),
      (''ThirdPartyTransID'', put_string cb_ThirdPartyTransID_update),
      (''MSISDN'', put_string cb_MSISDN_update), (''FirstName'', put_string cb_FirstName_update),
      (''MiddleName'', put_string cb_MiddleName_update), (''LastName'', put_string cb_LastName_update),
      (''KYCInfo'', put_raw cb_KYCInfo_update), (''KYCName'', put_string cb_KYCName_update),
      (''CustomerName'', put_string cb_CustomerName_update)]"

definition unmarshal_C2B :: "json \<Rightarrow> C2BPayload option" where
  "unmarshal_C2B = dec_struct C2BPayload_fields no_payload"

definition IsReversal :: "C2BPayload \<Rightarrow> bool" where
  "IsReversal p = equal_fold (trim_space (cb_TransactionType p)) ''Reversal''"

text \<open>The trimmed name parts that are not empty, joined by a blank.\<close>

definition name_parts :: "string list \<Rightarrow> string list" where
  "name_parts parts = filter (\<lambda>s. s \<noteq> []) (map trim_space parts)"

definition join_blank :: "string list \<Rightarrow> string" where
  "join_blank parts = concat (case parts of [] \<Rightarrow> [] | p # ps \<Rightarrow> p # map (\<lambda>q. '' '' @ q) ps)"

record kycObject =
  kyc_FirstName :: string
  kyc_LastName :: string
  kyc_MiddleName :: string
  kyc_Name :: string

definition unmarshal_kyc :: "json \<Rightarrow> kycObject option" where
  "unmarshal_kyc = dec_struct
     [(''FirstName'', put_string kyc_FirstName_update), (''LastName'', put_string kyc_LastName_update),
      (''MiddleName'', put_string kyc_MiddleName_update), (''Name'', put_string kyc_Name_update)]
     \<lparr>kyc_FirstName = [], kyc_LastName = [], kyc_MiddleName = [], kyc_Name = []\<rparr>"

definition kyc_name :: "json \<Rightarrow> string" where
  "kyc_name j =
     (let str = (case j of JStr _ v \<Rightarrow> trim_space v | _ \<Rightarrow> []) in
      if str \<noteq> [] then str
      else case unmarshal_kyc j of
        None \<Rightarrow> []
      | Some k \<Rightarrow>
          (let kparts = name_parts [kyc_FirstName k, kyc_MiddleName k, kyc_LastName k] in
           if kparts \<noteq> [] then join_blank kparts else trim_space (kyc_Name k)))"

definition PayerName :: "C2BPayload \<Rightarrow> string" where
  "PayerName p =
     (let parts = name_parts [cb_FirstName p, cb_MiddleName p, cb_LastName p] in
      if parts \<noteq> [] then join_blank parts
      else if trim_space (cb_KYCName p) \<noteq> [] then trim_space (cb_KYCName p)
      else if trim_space (cb_CustomerName p) \<noteq> [] then trim_space (cb_CustomerName p)
      else case cb_KYCInfo p of None \<Rightarrow> [] | Some j \<Rightarrow> kyc_name j)"

subsection \<open>Amounts\<close>

text \<open>
  \<open>big.Rat.SetString\<close>: a fraction of two integers, or a number with an optional radix point
  and exponent. Integers and mantissas may have a base prefix and, between digits,
  underscores. \<open>nat_scan\<close> reads as many characters as belong to the number and returns the
  value, its base, the (negative) number of digits after the point, and the rest.
\<close>

definition scan_digit :: "char \<Rightarrow> int" where
  "scan_digit c = (let n = int (of_char c) in
     if 48 \<le> n \<and> n \<le> 57 then n - 48 else if 97 \<le> n \<and> n \<le> 122 then n - 87
     else if 65 \<le> n \<and> n \<le> 90 then n - 55 else 63)"

fun scan_loop ::
    "int \<Rightarrow> bool \<Rightarrow> char \<Rightarrow> bool \<Rightarrow> int \<Rightarrow> int \<Rightarrow> int option \<Rightarrow> string \<Rightarrow> int \<times> int \<times> int option \<times> bool \<times> string" where
  "scan_loop b frac prev bad v n dp [] = (v, n, dp, bad \<or> prev = CHR ''_'', [])"
| "scan_loop b frac prev bad v n dp (c # cs) =
     (if c = CHR ''.'' \<and> frac then scan_loop b False (CHR ''.'') (bad \<or> prev = CHR ''_'') v n (Some n) cs
      else if c = CHR ''_'' then scan_loop b frac (CHR ''_'') (bad \<or> prev \<noteq> CHR ''0'') v n dp cs
      else if b \<le> scan_digit c then (v, n, dp, bad \<or> prev = CHR ''_'', c # cs)
      else scan_loop b frac (CHR ''0'') bad (v * b + scan_digit c) (n + 1) dp cs)"

text \<open>The base, whether the prefix is the lone octal \<open>0\<close>, the digits counted so far, the rest.\<close>

definition scan_prefix :: "bool \<Rightarrow> string \<Rightarrow> int \<times> bool \<times> char \<times> int \<times> string" where
  "scan_prefix fracOk s = (case s of
     z # cs \<Rightarrow> if z \<noteq> CHR ''0'' then (10, False, CHR ''.'', 0, s)
       else (case cs of
         [] \<Rightarrow> (10, False, CHR ''0'', 1, [])
       | c # ds \<Rightarrow>
           if c \<in> set ''bB'' then (2, False, CHR ''0'', 0, ds)
           else if c \<in> set ''oO'' then (8, False, CHR ''0'', 0, ds)
           else if c \<in> set ''xX'' then (16, False, CHR ''0'', 0, ds)
           else if \<not> fracOk then (8, True, CHR ''0'', 0, cs)
           else (10, False, CHR ''0'', 1, cs))
   | [] \<Rightarrow> (10, False, CHR ''.'', 0, []))"

definition nat_scan :: "bool \<Rightarrow> string \<Rightarrow> (int \<times> int \<times> int \<times> string) option" where
  "nat_scan fracOk s = (case scan_prefix fracOk s of (b, octal, prev, n0, rest) \<Rightarrow>
     (case scan_loop b fracOk prev False 0 n0 None rest of (v, n, dp, bad, rest') \<Rightarrow>
       if bad \<or> (n = 0 \<and> \<not> octal) then None
       else if n = 0 then Some (0, 10, 1, rest')
       else Some (v, b, (case dp of None \<Rightarrow> n | Some d \<Rightarrow> d - n), rest')))"

definition scan_sign :: "string \<Rightarrow> bool \<times> string" where
  "scan_sign s = (case s of [] \<Rightarrow> (False, [])
     | c # cs \<Rightarrow> if c = CHR ''-'' then (True, cs) else if c = CHR ''+'' then (False, cs) else (False, s))"

text \<open>The digits of an exponent with their separators dropped, whether they were misplaced, the rest.\<close>

fun exp_digits :: "char \<Rightarrow> bool \<Rightarrow> string \<Rightarrow> string \<times> bool \<times> string" where
  "exp_digits prev bad [] = ([], bad \<or> prev = CHR ''_'', [])"
| "exp_digits prev bad (c # cs) =
     (if is_digit c then (case exp_digits (CHR ''0'') bad cs of (ds, b, r) \<Rightarrow> (c # ds, b, r))
      else if c = CHR ''_'' then exp_digits (CHR ''_'') (bad \<or> prev \<noteq> CHR ''0'') cs
      else ([], bad \<or> prev = CHR ''_'', c # cs))"

definition scan_exponent :: "string \<Rightarrow> (int \<times> int \<times> string) option" where
  "scan_exponent s = (case s of
     [] \<Rightarrow> Some (0, 10, [])
   | c # cs \<Rightarrow>
       if c \<notin> set ''eEpP'' then Some (0, 10, s)
       else case scan_sign cs of (neg, ds) \<Rightarrow>
         (case exp_digits (CHR ''.'') False ds of (e, bad, rest) \<Rightarrow>
           (case ParseInt ((if neg then ''-'' else []) @ e) of
              None \<Rightarrow> None
            | Some n \<Rightarrow> if bad \<or> e = [] then None
                else Some (n, if c \<in> set ''eE'' then 10 else 2, rest))))"

text \<open>\<open>m * 2^e2 * 5^e5\<close> as numerator and denominator.\<close>

definition scale_rat :: "int \<Rightarrow> int \<Rightarrow> int \<Rightarrow> (int \<times> int) option" where
  "scale_rat m e2 e5 =
     (if 1000000 < \<bar>e5\<bar> \<or> 10000000 < \<bar>e2\<bar> then None
      else Some (m * 5 ^ nat e5 * 2 ^ nat e2, 5 ^ nat (- e5) * 2 ^ nat (- e2)))"

definition rat_fraction :: "string \<Rightarrow> string \<Rightarrow> (int \<times> int) option" where
  "rat_fraction a b = (case scan_sign a of (neg, a') \<Rightarrow>
     (case (nat_scan False a', nat_scan False b) of
        (Some (v, _, _, []), Some (w, _, _, [])) \<Rightarrow>
          if w = 0 then None else Some (if neg then - v else v, w)
      | _ \<Rightarrow> None))"

definition rat_float :: "string \<Rightarrow> (int \<times> int) option" where
  "rat_float s = (case scan_sign s of (neg, s') \<Rightarrow>
     (case nat_scan True s' of None \<Rightarrow> None
      | Some (v, base, fcount, rest) \<Rightarrow>
          (case scan_exponent rest of
             Some (x, ebase, []) \<Rightarrow>
               if v = 0 then Some (0, 1)
               else
                 (let d = (if fcount < 0 then fcount else 0);
                      e5 = (if base = 10 then d else 0) + (if ebase = 10 then x else 0);
                      e2 = d * (if base = 8 then 3 else if base = 16 then 4 else 1) + x
                  in scale_rat (if neg then - v else v) e2 e5)
           | _ \<Rightarrow> None)))"

definition Rat_SetString :: "string \<Rightarrow> (int \<times> int) option" where
  "Rat_SetString s = (if s = [] then None
     else if CHR ''/'' \<in> set s
       then rat_fraction (takeWhile (\<lambda>c. c \<noteq> CHR ''/'') s) (drop 1 (dropWhile (\<lambda>c. c \<noteq> CHR ''/'') s))
     else rat_float s)"

text \<open>\<open>%q\<close>, on text without quotes, backslashes and unprintable bytes.\<close>

definition quoted :: "string \<Rightarrow> string" where
  "quoted s = [CHR 0x22] @ s @ [CHR 0x22]"

definition ParseAmount :: "string \<Rightarrow> go_error + int" where
  "ParseAmount s0 =
     (let s = filter (\<lambda>c. c \<noteq> CHR '','') (trim_space s0) in
      if s = [] then Inl (ErrorString ''mpesa: TransAmount missing'')
      else case Rat_SetString s of
        None \<Rightarrow> Inl (ErrorString (''mpesa: TransAmount '' @ quoted s @ '' is not a number''))
      | Some (num, den) \<Rightarrow>
          if \<not> den dvd num * 100
            then Inl (ErrorString (''mpesa: TransAmount '' @ quoted s @ '' has sub-cent precision''))
          else if \<not> in_int64 (num * 100 div den)
            then Inl (ErrorString (''mpesa: TransAmount '' @ quoted s @ '' out of range''))
          else Inr (num * 100 div den))"

text \<open>\<open>%02d\<close> counts the sign of a negative remainder.\<close>

definition FormatCents :: "int \<Rightarrow> string" where
  "FormatCents cents = itoa (quo cents 100) @ ''.'' @
     (let r = rem cents 100 in if r < 0 then ''-'' @ zero_pad 1 (- r) else zero_pad 2 r)"

subsection \<open>Times\<close>

text \<open>
  \<open>time.ParseInLocation("20060102150405", s, Nairobi)\<close>: the elements of the layout in turn,
  each with its width, its range and the name of the range error; an hour may have one digit
  when none follows. A fraction of a second is accepted although the layout has none.
\<close>

definition trans_layout :: string where "trans_layout = ''20060102150405''"

definition parse_error :: "string \<Rightarrow> string \<Rightarrow> string \<Rightarrow> go_error" where
  "parse_error v elem hold = ErrorString (''parsing time '' @ quoted v @ '' as '' @ quoted trans_layout @
     '': cannot parse '' @ quoted hold @ '' as '' @ quoted elem)"

definition range_error :: "string \<Rightarrow> string \<Rightarrow> go_error" where
  "range_error v msg = ErrorString (''parsing time '' @ quoted v @ '': '' @ msg)"

record time_elem =
  te_std :: string
  te_width :: nat
  te_lo :: int
  te_hi :: int
  te_name :: string
  te_loose :: bool

definition trans_elems :: "time_elem list" where
  "trans_elems =
     [\<lparr>te_std = ''2006'', te_width = 4, te_lo = 0, te_hi = 9999, te_name = [], te_loose = False\<rparr>,
      \<lparr>te_std = ''01'', te_width = 2, te_lo = 1, te_hi = 12, te_name = ''month'', te_loose = False\<rparr>,
      \<lparr>te_std = ''02'', te_width = 2, te_lo = 0, te_hi = 99, te_name = [], te_loose = False\<rparr>,
      \<lparr>te_std = ''15'', te_width = 2, te_lo = 0, te_hi = 23, te_name = ''hour'', te_loose = True\<rparr>,
      \<lparr>te_std = ''04'', te_width = 2, te_lo = 0, te_hi = 59, te_name = ''minute'', te_loose = False\<rparr>,
      \<lparr>te_std = ''05'', te_width = 2, te_lo = 0, te_hi = 59, te_name = ''second'', te_loose = False\<rparr>]"

definition elem_width :: "time_elem \<Rightarrow> string \<Rightarrow> nat option" where
  "elem_width e v =
     (if te_width e \<le> length v \<and> list_all is_digit (take (te_width e) v) then Some (te_width e)
      else if te_loose e \<and> v \<noteq> [] \<and> is_digit (hd v) \<and> (length v = 1 \<or> \<not> is_digit (v ! 1)) then Some 1
      else None)"

fun parse_elems :: "string \<Rightarrow> time_elem list \<Rightarrow> string \<Rightarrow> go_error + (int list \<times> string)" where
  "parse_elems v0 [] v = Inr ([], v)"
| "parse_elems v0 (e # es) v = (case elem_width e v of
     None \<Rightarrow> Inl (parse_error v0 (te_std e) v)
   | Some w \<Rightarrow>
       (let n = decimal (take w v) in
        if n < te_lo e \<or> te_hi e < n then Inl (range_error v0 (te_name e @ '' out of range''))
        else case parse_elems v0 es (drop w v) of
          Inl err \<Rightarrow> Inl err | Inr (ns, rest) \<Rightarrow> Inr (n # ns, rest)))"

definition parse_fraction :: "string \<Rightarrow> int \<times> string" where
  "parse_fraction v =
     (if 2 \<le> length v \<and> hd v \<in> set ''.,'' \<and> is_digit (v ! 1)
      then (let ds = takeWhile is_digit (drop 1 v); d9 = take 9 ds
            in (decimal d9 * 10 ^ (9 - length d9), drop (1 + length ds) v))
      else (0, v))"

definition is_leap :: "int \<Rightarrow> bool" where
  "is_leap y \<longleftrightarrow> y mod 4 = 0 \<and> (y mod 100 \<noteq> 0 \<or> y mod 400 = 0)"

definition days_in :: "int \<Rightarrow> int \<Rightarrow> int" where
  "days_in m y = (if m = 2 then (if is_leap y then 29 else 28) else if m \<in> {4, 6, 9, 11} then 30 else 31)"

text \<open>Days from 1 January of year 1 to the given date.\<close>

definition days_to :: "int \<Rightarrow> int \<Rightarrow> int \<Rightarrow> int" where
  "days_to y m d = 365 * (y - 1) + (y - 1) div 4 - (y - 1) div 100 + (y - 1) div 400
     + sum_list (map (\<lambda>k. days_in k y) [1..m - 1]) + (d - 1)"

definition trans_time :: "int list \<Rightarrow> int \<Rightarrow> time" where
  "trans_time ns nsec = days_to (ns ! 0) (ns ! 1) (ns ! 2) * day + (ns ! 3) * hour
     + (ns ! 4) * minute + (ns ! 5) * second + nsec - nairobi_offset"

definition parse_trans :: "string \<Rightarrow> go_error + time" where
  "parse_trans s = (case parse_elems s trans_elems s of
     Inl e \<Rightarrow> Inl e
   | Inr (ns, v) \<Rightarrow> (case parse_fraction v of (nsec, rest) \<Rightarrow>
       if rest \<noteq> [] then Inl (range_error s (''extra text: '' @ quoted rest))
       else if ns ! 2 < 1 \<or> days_in (ns ! 1) (ns ! 0) < ns ! 2 then Inl (range_error s ''day out of range'')
       else Inr (trans_time ns nsec)))"

definition ParseTransTime :: "string \<Rightarrow> go_error + time" where
  "ParseTransTime s0 = (let s = trim_space s0 in case parse_trans s of
     Inl e \<Rightarrow> Inl (Wrap (''mpesa: TransTime '' @ quoted s @ '': '' @ err_text e) e)
   | Inr t \<Rightarrow> Inr t)"

definition Validate :: "C2BPayload \<Rightarrow> go_error option" where
  "Validate p =
     (if length (trim_space (cb_TransID p)) < 6 then Some (ErrorString ''mpesa: TransID missing'')
      else if trim_space (cb_BusinessShortCode p) = []
        then Some (ErrorString ''mpesa: BusinessShortCode missing'')
      else case ParseAmount (cb_TransAmount p) of Inl e \<Rightarrow> Some e | Inr _ \<Rightarrow>
        (case ParseTransTime (cb_TransTime p) of Inl e \<Rightarrow> Some e | Inr _ \<Rightarrow> None))"

subsection \<open>Request-to-pay callbacks\<close>

record STKItem =
  it_Name :: string
  it_Value :: "json option"

record STKCallback =
  sk_MerchantRequestID :: string
  sk_CheckoutRequestID :: string
  sk_ResultCode :: int
  sk_ResultDesc :: string
  sk_CallbackMetadata :: "STKItem list option"

text \<open>
  The struct is nested three deep (\<open>Body.stkCallback.CallbackMetadata.Item\<close>); only the inner
  fields are kept. A list replaces the list a repeated key decoded before.
\<close>

definition dec_item :: "json \<Rightarrow> STKItem option" where
  "dec_item = dec_struct [(''Name'', put_string it_Name_update), (''Value'', put_raw it_Value_update)]
     \<lparr>it_Name = [], it_Value = None\<rparr>"

definition put_metadata :: "STKCallback \<Rightarrow> json \<Rightarrow> STKCallback option" where
  "put_metadata r j = (case j of
     JNull \<Rightarrow> Some (r\<lparr>sk_CallbackMetadata := None\<rparr>)
   | _ \<Rightarrow> map_option (\<lambda>xs. r\<lparr>sk_CallbackMetadata := Some xs\<rparr>)
       (dec_struct [(''Item'', \<lambda>old k. case k of JNull \<Rightarrow> Some []
            | JArr _ js \<Rightarrow> those (map dec_item js) | _ \<Rightarrow> None)]
          (case sk_CallbackMetadata r of None \<Rightarrow> [] | Some xs \<Rightarrow> xs) j))"

definition unmarshal_STK :: "json \<Rightarrow> STKCallback option" where
  "unmarshal_STK = dec_struct [(''Body'', dec_struct [(''stkCallback'', dec_struct
     [(''MerchantRequestID'', put_string sk_MerchantRequestID_update),
      (''CheckoutRequestID'', put_string sk_CheckoutRequestID_update),
      (''ResultCode'', put_int sk_ResultCode_update), (''ResultDesc'', put_string sk_ResultDesc_update),
      (''CallbackMetadata'', put_metadata)])])]
     \<lparr>sk_MerchantRequestID = [], sk_CheckoutRequestID = [], sk_ResultCode = 0, sk_ResultDesc = [],
      sk_CallbackMetadata = None\<rparr>"

record STKResult =
  sr_MerchantRequestID :: string
  sr_CheckoutRequestID :: string
  sr_ResultCode :: int
  sr_ResultDesc :: string
  sr_Success :: bool
  sr_AmountCents :: int
  sr_ReceiptNo :: string
  sr_MSISDN :: string
  sr_PaidAt :: time

definition trim_quotes :: "string \<Rightarrow> string" where
  "trim_quotes s = rev (dropWhile (\<lambda>c. c = CHR 0x22) (rev (dropWhile (\<lambda>c. c = CHR 0x22) s)))"

fun flatten_items :: "STKItem list \<Rightarrow> STKResult \<Rightarrow> go_error + STKResult" where
  "flatten_items [] r = Inr r"
| "flatten_items (it # its) r =
     (let raw = trim_quotes (case it_Value it of None \<Rightarrow> [] | Some j \<Rightarrow> json_text j) in
      if it_Name it = ''Amount'' then
        (case ParseAmount raw of Inl e \<Rightarrow> Inl e | Inr c \<Rightarrow> flatten_items its (r\<lparr>sr_AmountCents := c\<rparr>))
      else if it_Name it = ''MpesaReceiptNumber'' then flatten_items its (r\<lparr>sr_ReceiptNo := raw\<rparr>)
      else if it_Name it = ''PhoneNumber'' then flatten_items its (r\<lparr>sr_MSISDN := raw\<rparr>)
      else if it_Name it = ''TransactionDate'' then
        (case ParseTransTime raw of Inl _ \<Rightarrow> flatten_items its r
         | Inr t \<Rightarrow> flatten_items its (r\<lparr>sr_PaidAt := t\<rparr>))
      else flatten_items its r)"

definition Flatten :: "STKCallback \<Rightarrow> go_error + STKResult" where
  "Flatten cb =
     (if sk_CheckoutRequestID cb = [] then Inl (ErrorString ''mpesa: CheckoutRequestID missing'')
      else
        (let r = \<lparr>sr_MerchantRequestID = sk_MerchantRequestID cb,
           sr_CheckoutRequestID = sk_CheckoutRequestID cb, sr_ResultCode = sk_ResultCode cb,
           sr_ResultDesc = sk_ResultDesc cb, sr_Success = (sk_ResultCode cb = 0), sr_AmountCents = 0,
           sr_ReceiptNo = [], sr_MSISDN = [], sr_PaidAt = 0\<rparr> in
         case sk_CallbackMetadata cb of None \<Rightarrow> Inr r | Some its \<Rightarrow> flatten_items its r))"

subsection \<open>Reversal callbacks\<close>

record ReversalResult =
  rr_ResultCode :: int
  rr_ResultDesc :: string
  rr_TransactionID :: string
  rr_ReferenceItem :: "json option"

record ReversalPayload =
  rp_OriginalTransactionID :: string
  rp_TransID :: string
  rp_TransactionID :: string
  rp_Reason :: string
  rp_Result :: "ReversalResult option"

text \<open>The pointer \<open>ReferenceData\<close> is folded into its only field: nil and an absent item answer alike.\<close>

definition put_reference :: "ReversalResult \<Rightarrow> json \<Rightarrow> ReversalResult option" where
  "put_reference r j = (case j of JNull \<Rightarrow> Some (r\<lparr>rr_ReferenceItem := None\<rparr>)
   | _ \<Rightarrow> dec_struct [(''ReferenceItem'', put_raw rr_ReferenceItem_update)] r j)"

definition put_result :: "ReversalPayload \<Rightarrow> json \<Rightarrow> ReversalPayload option" where
  "put_result r j = (case j of JNull \<Rightarrow> Some (r\<lparr>rp_Result := None\<rparr>)
   | _ \<Rightarrow> map_option (\<lambda>x. r\<lparr>rp_Result := Some x\<rparr>)
       (dec_struct [(''ResultCode'', put_int rr_ResultCode_update),
          (''ResultDesc'', put_string rr_ResultDesc_update),
          (''TransactionID'', put_string rr_TransactionID_update), (''ReferenceData'', put_reference)]
         (case rp_Result r of Some x \<Rightarrow> x
          | None \<Rightarrow> \<lparr>rr_ResultCode = 0, rr_ResultDesc = [], rr_TransactionID = [], rr_ReferenceItem = None\<rparr>) j))"

definition unmarshal_reversal :: "json \<Rightarrow> ReversalPayload option" where
  "unmarshal_reversal = dec_struct
     [(''OriginalTransactionID'', put_string rp_OriginalTransactionID_update),
      (''TransID'', put_string rp_TransID_update), (''TransactionID'', put_string rp_TransactionID_update),
      (''Reason'', put_string rp_Reason_update), (''Result'', put_result)]
     \<lparr>rp_OriginalTransactionID = [], rp_TransID = [], rp_TransactionID = [], rp_Reason = [],
      rp_Result = None\<rparr>"

definition dec_key_value :: "json \<Rightarrow> (string \<times> string) option" where
  "dec_key_value = dec_struct [(''Key'', put_string apfst), (''Value'', put_string apsnd)] ([], [])"

text \<open>What the reference item names, \<open>None\<close> when the search goes on.\<close>

definition reference_trans_id :: "json \<Rightarrow> string option" where
  "reference_trans_id j = (case dec_key_value j of
     Some (k, v) \<Rightarrow> if v \<noteq> [] then Some v else None
   | None \<Rightarrow> None)"

definition reference_list_id :: "json \<Rightarrow> string option" where
  "reference_list_id j = (case j of
     JArr _ js \<Rightarrow> Option.bind (those (map dec_key_value js)) (\<lambda>kvs.
       map_option snd (find (\<lambda>(k, v). k = ''OriginalTransactionID'' \<or> k = ''TransID'') kvs))
   | _ \<Rightarrow> None)"

definition ExtractOriginalTransID :: "ReversalPayload \<Rightarrow> string" where
  "ExtractOriginalTransID p =
     (if rp_OriginalTransactionID p \<noteq> [] then rp_OriginalTransactionID p
      else if rp_TransID p \<noteq> [] then rp_TransID p
      else
        (let item = Option.bind (rp_Result p) rr_ReferenceItem;
             found = Option.bind item (\<lambda>j. case reference_trans_id j of
               Some v \<Rightarrow> Some v | None \<Rightarrow> reference_list_id j) in
         case found of Some v \<Rightarrow> v
         | None \<Rightarrow>
             if rp_TransactionID p \<noteq> [] then rp_TransactionID p
             else case rp_Result p of Some r \<Rightarrow> rr_TransactionID r | None \<Rightarrow> []))"

definition default_reason :: string where "default_reason = ''M-Pesa Automated Reversal''"

definition reversal_reason :: "ReversalPayload \<Rightarrow> string" where
  "reversal_reason p =
     (let r1 = (if rp_Reason p \<noteq> [] then rp_Reason p
        else case rp_Result p of Some r \<Rightarrow> rr_ResultDesc r | None \<Rightarrow> [])
      in if r1 = [] then default_reason else r1)"

subsection \<open>The callback routes\<close>

record DarajaAck =
  ack_ResultCode :: int
  ack_ResultDesc :: string

definition Accepted :: DarajaAck where
  "Accepted = \<lparr>ack_ResultCode = 0, ack_ResultDesc = ''Accepted''\<rparr>"

definition refuse :: "string \<Rightarrow> DarajaAck response" where
  "refuse msg = JSON 400 \<lparr>ack_ResultCode = 1, ack_ResultDesc = msg\<rparr>"

definition ToC2BInput :: "C2BPayload \<Rightarrow> string \<Rightarrow> C2BInput" where
  "ToC2BInput p raw =
     (let inp = \<lparr>c2b_Kind = ''c2b_confirmation'', c2b_TransID = cb_TransID p,
        c2b_ShortCode = cb_BusinessShortCode p,
        c2b_AmountCents = (case ParseAmount (cb_TransAmount p) of Inl _ \<Rightarrow> 0 | Inr c \<Rightarrow> c),
        c2b_MSISDN = cb_MSISDN p, c2b_PayerName = PayerName p, c2b_BillRef = cb_BillRefNumber p,
        c2b_PaidAt = (case ParseTransTime (cb_TransTime p) of Inl _ \<Rightarrow> 0 | Inr t \<Rightarrow> t),
        c2b_OriginalID = [], c2b_Raw = raw\<rparr>
      in if IsReversal p
         then inp\<lparr>c2b_Kind := ''reversal'', c2b_OriginalID := cb_ThirdPartyTransID p\<rparr> else inp)"

definition stk_input :: "STKResult \<Rightarrow> string \<Rightarrow> STKInput" where
  "stk_input r raw = \<lparr>stki_CheckoutRequestID = sr_CheckoutRequestID r, stki_ResultCode = sr_ResultCode r,
     stki_ResultDesc = sr_ResultDesc r, stki_Success = sr_Success r, stki_AmountCents = sr_AmountCents r,
     stki_ReceiptNo = sr_ReceiptNo r, stki_MSISDN = sr_MSISDN r, stki_PaidAt = sr_PaidAt r, stki_Raw = raw\<rparr>"

text \<open>
  What the routes depend on: the shared secret of the URL, the handler's and the ledger's
  clocks, the keyring, and the parser of JSON text.
\<close>

record Webhooks =
  wh_Token :: string
  wh_now :: time
  wh_ledger_now :: time
  wh_Keys :: Keyring
  wh_J :: "string \<Rightarrow> json option"

definition requireToken :: "Webhooks \<Rightarrow> string \<Rightarrow> 'v response tx \<Rightarrow> 'v response tx" where
  "requireToken h tok next = (if wh_Token h = [] \<or> tok \<noteq> wh_Token h
     then ret (Fail 401 ''unauthorised'' ''bad webhook token'') else next)"

definition validation :: "DarajaAck response tx" where
  "validation = ret (JSON 200 Accepted)"

text \<open>A body that cannot be read is \<open>None\<close>.\<close>

definition confirmation :: "Webhooks \<Rightarrow> string option \<Rightarrow> DarajaAck response tx" where
  "confirmation h body = (case body of None \<Rightarrow> ret (refuse ''unreadable body'')
   | Some raw \<Rightarrow> (case Option.bind (wh_J h raw) unmarshal_C2B of
       None \<Rightarrow> ret (refuse ''invalid JSON'')
     | Some p \<Rightarrow> (case Validate p of
         Some e \<Rightarrow> ret (refuse (err_text e))
       | None \<Rightarrow>
           (let inp = ToC2BInput p raw in
            if c2b_PaidAt inp \<noteq> 0 \<and> 24 * hour < wh_now h - c2b_PaidAt inp then ret (JSON 200 Accepted)
            else tbind (attempt (IngestC2B (wh_Keys h) (wh_ledger_now h) inp)) (\<lambda>_.
              ret (JSON 200 Accepted))))))"

definition stk :: "Webhooks \<Rightarrow> string option \<Rightarrow> DarajaAck response tx" where
  "stk h body = (case body of None \<Rightarrow> ret (refuse ''unreadable body'')
   | Some raw \<Rightarrow> (case Option.bind (wh_J h raw) unmarshal_STK of
       None \<Rightarrow> ret (refuse ''invalid JSON'')
     | Some cb \<Rightarrow> (case Flatten cb of
         Inl e \<Rightarrow> ret (refuse (err_text e))
       | Inr res \<Rightarrow> tbind (attempt (IngestSTK (wh_Keys h) (wh_ledger_now h) (stk_input res raw))) (\<lambda>_.
           ret (JSON 200 Accepted)))))"

definition reversal :: "Webhooks \<Rightarrow> string option \<Rightarrow> DarajaAck response tx" where
  "reversal h body = (case body of None \<Rightarrow> ret (refuse ''unreadable body'')
   | Some raw \<Rightarrow> (case Option.bind (wh_J h raw) unmarshal_reversal of
       None \<Rightarrow> ret (refuse ''invalid JSON'')
     | Some p \<Rightarrow>
         if ExtractOriginalTransID p = [] then ret (refuse ''missing original transaction id'')
         else tbind (attempt (IngestReversal (wh_ledger_now h) (ExtractOriginalTransID p) (reversal_reason p)))
           (\<lambda>_. ret (JSON 200 Accepted))))"

datatype daraja_route =
    C2BValidation string | C2BConfirmation string | STKRoute string | ReversalRoute string
  | ReversalBare

text \<open>The route without a token segment shares the group's \<open>requireToken\<close>.\<close>

definition serve_daraja :: "Webhooks \<Rightarrow> daraja_route \<Rightarrow> string option \<Rightarrow> DarajaAck response tx" where
  "serve_daraja h r body = (case r of
     C2BValidation tok \<Rightarrow> requireToken h tok validation
   | C2BConfirmation tok \<Rightarrow> requireToken h tok (confirmation h body)
   | STKRoute tok \<Rightarrow> requireToken h tok (stk h body)
   | ReversalRoute tok \<Rightarrow> requireToken h tok (reversal h body)
   | ReversalBare \<Rightarrow> requireToken h [] (reversal h body))"

end
