(* ===== verification/Dates.thy ===== *)
theory Dates
  imports Daraja
begin

text \<open>
  Dates in requests: \<open>time.Parse\<close> for the layouts the routes use, and the calendar behind the
  report windows. Africa/Nairobi is the fixed offset of three hours.
\<close>

subsection \<open>Parsing\<close>

text \<open>Elements of a layout: a literal, or a number of a width and range; a loose one may have one digit.\<close>

datatype layout_elem = Lit char | Num nat int int bool

definition num_width :: "nat \<Rightarrow> bool \<Rightarrow> string \<Rightarrow> nat option" where
  "num_width w loose v =
     (if w \<le> length v \<and> list_all is_digit (take w v) then Some w
      else if loose \<and> v \<noteq> [] \<and> is_digit (hd v) then Some 1 else None)"

fun read_layout :: "layout_elem list \<Rightarrow> string \<Rightarrow> (int list \<times> string) option" where
  "read_layout [] v = Some ([], v)"
| "read_layout (Lit c # es) v = (if v \<noteq> [] \<and> hd v = c then read_layout es (tl v) else None)"
| "read_layout (Num w lo hi loose # es) v = (case num_width w loose v of
     None \<Rightarrow> None
   | Some k \<Rightarrow>
       (let n = decimal (take k v) in
        if n < lo \<or> hi < n then None
        else map_option (apfst (\<lambda>ns. n # ns)) (read_layout es (drop k v))))"

definition month_layout :: "layout_elem list" where
  "month_layout = [Num 4 0 9999 False, Lit (CHR ''-''), Num 2 1 12 False]"

definition date_layout :: "layout_elem list" where
  "date_layout = month_layout @ [Lit (CHR ''-''), Num 2 0 99 False]"

definition clock_layout :: "layout_elem list" where
  "clock_layout = date_layout @ [Lit (CHR ''T''), Num 2 0 23 True, Lit (CHR '':''), Num 2 0 59 False,
     Lit (CHR '':''), Num 2 0 59 False]"

definition nairobi_date :: "int \<Rightarrow> int \<Rightarrow> int \<Rightarrow> time" where
  "nairobi_date y m d = days_to y m d * day - nairobi_offset"

text \<open>\<open>time.ParseInLocation("2006-01", v, Nairobi)\<close>\<close>

definition parse_month :: "string \<Rightarrow> (int \<times> int) option" where
  "parse_month v = (case read_layout month_layout v of
     Some ([y, m], []) \<Rightarrow> Some (y, m) | _ \<Rightarrow> None)"

text \<open>\<open>time.ParseInLocation("2006-01-02", v, Nairobi)\<close>\<close>

definition parse_date :: "string \<Rightarrow> time option" where
  "parse_date v = (case read_layout date_layout v of
     Some ([y, m, d], []) \<Rightarrow> if d < 1 \<or> days_in m y < d then None else Some (nairobi_date y m d)
   | _ \<Rightarrow> None)"

text \<open>\<open>Z07:00\<close>: the offset from UTC and the rest of the text.\<close>

definition read_zone :: "string \<Rightarrow> (duration \<times> string) option" where
  "read_zone v =
     (if v \<noteq> [] \<and> hd v = CHR ''Z'' then Some (0, tl v)
      else if 6 \<le> length v \<and> v ! 3 = CHR '':'' \<and> list_all is_digit [v ! 1, v ! 2, v ! 4, v ! 5] \<and>
        decimal [v ! 1, v ! 2] \<le> 24 \<and> decimal [v ! 4, v ! 5] \<le> 60 \<and> hd v \<in> {CHR ''+'', CHR ''-''}
      then (let off = decimal [v ! 1, v ! 2] * hour + decimal [v ! 4, v ! 5] * minute
            in Some (if hd v = CHR ''-'' then - off else off, drop 6 v))
      else None)"

text \<open>\<open>time.Parse(time.RFC3339, v)\<close>\<close>

definition parse_rfc3339 :: "string \<Rightarrow> time option" where
  "parse_rfc3339 v = (case read_layout clock_layout v of
     Some ([y, m, d, hh, mm, ss], rest) \<Rightarrow> (case parse_fraction rest of (nsec, r) \<Rightarrow>
       (case read_zone r of
          Some (off, []) \<Rightarrow> if d < 1 \<or> days_in m y < d then None
            else Some (days_to y m d * day + hh * hour + mm * minute + ss * second + nsec - off)
        | _ \<Rightarrow> None))
   | _ \<Rightarrow> None)"

subsection \<open>Months\<close>

text \<open>\<open>t.AddDate(0, k, 0)\<close> of the first day of a month.\<close>

definition add_months :: "int \<Rightarrow> int \<times> int \<Rightarrow> int \<times> int" where
  "add_months k ym = (case ym of (y, m) \<Rightarrow> (y + (m - 1 + k) div 12, (m - 1 + k) mod 12 + 1))"

definition month_start :: "int \<times> int \<Rightarrow> time" where
  "month_start ym = nairobi_date (fst ym) (snd ym) 1"

end
