(* ===== verification/Reports.thy ===== *)
theory Reports
  imports Dates Http Ledger
begin

text \<open>
  \<open>internal/reports/reports.go\<close>: the summary of the day, the analytics of a period, the VAT
  position and the iTax export. The text of the CSV writer is not modelled: the export is the
  list of its records, and an amount is the pair of a sign and cents that \<open>%.2f\<close> prints.
  Years beyond the range of Go's calendar are not considered.
\<close>

subsection \<open>Fees and periods\<close>

text \<open>\<open>/\<close> of Go cuts toward zero, like \<open>div\<close> on the positive amounts that get here.\<close>

definition DarajaMerchantFeeCents :: "int \<Rightarrow> int" where
  "DarajaMerchantFeeCents a = (if a \<le> 20000 then 0
     else let fee = quo (wrap64 (a * 55)) 10000 in if fee > 20000 then 20000 else fee)"

definition day_window :: "time \<Rightarrow> time \<times> time" where
  "day_window now = (nairobi_midnight now, nairobi_midnight now + day)"

definition months_window :: "int \<Rightarrow> int \<times> int \<Rightarrow> time \<times> time" where
  "months_window k ym = (month_start ym, month_start (add_months k ym))"

text \<open>\<open>strings.Split(period, "-Q")\<close> when it has two parts.\<close>

fun split_quarter :: "string \<Rightarrow> (string \<times> string) option" where
  "split_quarter [] = None"
| "split_quarter (c # cs) = (if c = CHR ''-'' \<and> cs \<noteq> [] \<and> hd cs = CHR ''Q'' then Some ([], tl cs)
     else map_option (apfst (\<lambda>a. c # a)) (split_quarter cs))"

definition quarter_param :: "string \<Rightarrow> (int \<times> int) option" where
  "quarter_param p = (case split_quarter p of None \<Rightarrow> None
   | Some (a, b) \<Rightarrow> if split_quarter b \<noteq> None then None
       else (case (ParseInt a, ParseInt b) of
         (Some y, Some q) \<Rightarrow> if 1 \<le> q \<and> q \<le> 4 then Some (y, q) else None | _ \<Rightarrow> None))"

text \<open>
  A named period, a quarter, a month or a year; anything else, and a period whose bounds come
  out as the zero time, is the current day.
\<close>

definition period_window :: "time \<Rightarrow> string \<Rightarrow> (time \<times> time) option" where
  "period_window now p =
     (case civil (nairobi_day now) of (y, m, d) \<Rightarrow>
      if p = ''month'' then Some (months_window 1 (y, m))
      else if p = ''quarter'' then Some (months_window 3 (y, (m - 1) div 3 * 3 + 1))
      else if p = ''year'' then Some (months_window 12 (y, 1))
      else if split_quarter p \<noteq> None
      then map_option (\<lambda>(y, q). months_window 3 (y, (q - 1) * 3 + 1)) (quarter_param p)
      else if length p = 7 \<and> p ! 4 = CHR ''-'' then map_option (months_window 1) (parse_month p)
      else if length p = 4 then map_option (\<lambda>y. months_window 12 (y, 1)) (ParseInt p)
      else Some (day_window now))"

definition ParseSummaryWindow :: "time \<Rightarrow> string \<Rightarrow> time \<times> time" where
  "ParseSummaryWindow now period = (case period_window now (trim_space period) of
     None \<Rightarrow> day_window now
   | Some (from', to') \<Rightarrow> if from' = 0 \<or> to' = 0 then day_window now else (from', to'))"

definition period_error :: go_error where
  "period_error = ErrorString ''reports: period must be YYYY-MM''"

definition ParsePeriod :: "string \<Rightarrow> go_error + (time \<times> time)" where
  "ParsePeriod p = (case parse_month p of None \<Rightarrow> Inl period_error | Some ym \<Rightarrow> Inr (months_window 1 ym))"

text \<open>\<open>t.In(Nairobi).Format("2006-01-02")\<close>\<close>

definition format_date :: "time \<Rightarrow> string" where
  "format_date t = (case civil (nairobi_day t) of (y, m, d) \<Rightarrow> zero_pad 4 y @ ''-'' @ two m @ ''-'' @ two d)"

subsection \<open>Statements\<close>

text \<open>A sum of \<open>bigint\<close> is \<open>numeric\<close>; its cast back fails outside 64 bits.\<close>

definition bigint_range :: go_error where "bigint_range = PgError ''22003''"

definition sum_bigint :: "(db \<Rightarrow> int) \<Rightarrow> int tx" where
  "sum_bigint f = stmt (\<lambda>s. if in_int64 (f s) then Inr (f s, s) else Inl bigint_range)"

definition TodayTotals :: "uuid \<Rightarrow> (int \<times> int) tx" where
  "TodayTotals oid =
     (let rows = (\<lambda>s. filter (\<lambda>r. sees_payment s r \<and> pay_org_id r = oid \<and> pay_status r \<noteq> ''reversed'' \<and>
        nairobi_midnight (clock s) \<le> pay_paid_at r) (payments s)) in
      tbind (sum_bigint (\<lambda>s. sum_list (map pay_amount_cents (rows s)))) (\<lambda>amount.
      tbind (query (\<lambda>s. int (length (rows s)))) (\<lambda>n. ret (n, amount))))"

text \<open>\<open>GROUP BY\<close>: each key once, with its number of rows.\<close>

definition group_count :: "'k list \<Rightarrow> ('k \<times> int) list" where
  "group_count ks = map (\<lambda>k. (k, int (count_list ks k))) (remdups ks)"

definition CountInvoicesByState :: "uuid \<Rightarrow> (State \<times> int) list tx" where
  "CountInvoicesByState oid = query (\<lambda>s. group_count (map inv_state
     (filter (\<lambda>r. sees_invoice s r \<and> inv_org_id r = oid) (invoices s))))"

definition CountPaymentsByStatus :: "uuid \<Rightarrow> (string \<times> int) list tx" where
  "CountPaymentsByStatus oid = query (\<lambda>s. group_count (map pay_status
     (filter (\<lambda>r. sees_payment s r \<and> pay_org_id r = oid) (payments s))))"

definition AnalyticsPayments :: "uuid \<Rightarrow> time \<Rightarrow> time \<Rightarrow> Payment list tx" where
  "AnalyticsPayments oid from' to' = query (\<lambda>s. filter (\<lambda>r. sees_payment s r \<and> pay_org_id r = oid \<and>
     pay_status r \<noteq> ''reversed'' \<and> from' \<le> pay_paid_at r \<and> pay_paid_at r < to') (payments s))"

text \<open>\<open>CASE WHEN kind = 'INVOICE' THEN x ELSE -x END\<close>\<close>

definition signed_by_kind :: "(Invoice \<Rightarrow> int) \<Rightarrow> Invoice \<Rightarrow> int" where
  "signed_by_kind f i = (if inv_kind i = ''INVOICE'' then f i else - f i)"

definition transaction_date :: "Invoice \<Rightarrow> time" where
  "transaction_date i = (case inv_acked_at i of Some t \<Rightarrow> t | None \<Rightarrow> inv_created_at i)"

definition AnalyticsVATLiability :: "uuid \<Rightarrow> time \<Rightarrow> time \<Rightarrow> int tx" where
  "AnalyticsVATLiability oid from' to' = sum_bigint (\<lambda>s. sum_list (map (signed_by_kind inv_tax_cents)
     (filter (\<lambda>i. sees_invoice s i \<and> inv_org_id i = oid \<and>
        inv_state i \<in> {StateAcked, StateSubmitted, StateQueued} \<and> inv_superseded_by i = None \<and>
        from' \<le> transaction_date i \<and> transaction_date i < to') (invoices s))))"

definition acked_within :: "db \<Rightarrow> uuid \<Rightarrow> time \<Rightarrow> time \<Rightarrow> Invoice list" where
  "acked_within s oid from' to' = filter (\<lambda>i. sees_invoice s i \<and> inv_org_id i = oid \<and> inv_state i = StateAcked \<and>
     (case inv_acked_at i of None \<Rightarrow> False | Some t \<Rightarrow> from' \<le> t \<and> t < to')) (invoices s)"

record VATPositionRow =
  vp_SalesCents :: int
  vp_OutputVatCents :: int
  vp_Invoices :: int
  vp_CreditNotes :: int

definition VATPosition_row :: "uuid \<Rightarrow> time \<Rightarrow> time \<Rightarrow> VATPositionRow tx" where
  "VATPosition_row oid from' to' =
     tbind (sum_bigint (\<lambda>s. sum_list (map (signed_by_kind inv_total_cents) (acked_within s oid from' to')))) (\<lambda>sales.
     tbind (sum_bigint (\<lambda>s. sum_list (map (signed_by_kind inv_tax_cents) (acked_within s oid from' to')))) (\<lambda>vat.
     tbind (query (\<lambda>s. acked_within s oid from' to')) (\<lambda>rows.
     ret \<lparr>vp_SalesCents = sales, vp_OutputVatCents = vat,
       vp_Invoices = int (length (filter (\<lambda>i. inv_kind i = ''INVOICE'') rows)),
       vp_CreditNotes = int (length (filter (\<lambda>i. inv_kind i = ''CREDIT_NOTE'') rows))\<rparr>)))"

definition ListItaxReportRows :: "uuid \<Rightarrow> time \<Rightarrow> time \<Rightarrow> (Invoice \<times> SaleItem) list tx" where
  "ListItaxReportRows oid from' to' = query (\<lambda>s.
     concat (map (\<lambda>i. concat (map (\<lambda>sa. map (Pair i) (sort_key si_position
         (filter (\<lambda>l. sees_sale_item s l \<and> si_sale_id l = sale_id sa) (sale_items s))))
         (filter (\<lambda>sa. sees_sale s sa \<and> sale_id sa = inv_sale_id i) (sales s))))
       (sort_key (\<lambda>i. transaction_date i) (sort_key inv_id
         (filter (\<lambda>i. sees_invoice s i \<and> inv_org_id i = oid \<and> inv_state i \<in> {StateAcked, StateSubmitted} \<and>
            inv_superseded_by i = None \<and> from' \<le> transaction_date i \<and> transaction_date i < to') (invoices s))))))"

subsection \<open>Reports\<close>

record TodayView =
  td_Date :: string
  td_ReceivedCents :: int
  td_PaymentsCount :: int
  td_InvoicesAcked :: int
  td_InvoicesPending :: int
  td_AttentionCount :: int

text \<open>The three counters of the invoice states, and the payments that need attention.\<close>

definition tally :: "(State \<times> int) list \<Rightarrow> int \<times> int \<times> int" where
  "tally rows = foldl (\<lambda>(acked, pending, att) (st, n).
     if st = StateAcked then (wrap64 (acked + n), pending, att)
     else if st = StateNeedsReview \<or> st = StateFailedTerminal then (acked, pending, wrap64 (att + n))
     else (acked, wrap64 (pending + n), att)) (0, 0, 0) rows"

definition tally_payments :: "int \<Rightarrow> (string \<times> int) list \<Rightarrow> int" where
  "tally_payments att rows = foldl (\<lambda>a (st, n).
     if st = ''unmatched'' \<or> st = ''partial'' then wrap64 (a + n) else a) att rows"

definition Today :: "time \<Rightarrow> uuid \<Rightarrow> TodayView tx" where
  "Today now oid = WithOrg oid (
     tbind (TodayTotals oid) (\<lambda>(n, amount).
     tbind (CountInvoicesByState oid) (\<lambda>states.
     tbind (CountPaymentsByStatus oid) (\<lambda>ps.
     case tally states of (acked, pending, att) \<Rightarrow>
     ret \<lparr>td_Date = format_date now, td_ReceivedCents = amount, td_PaymentsCount = n,
       td_InvoicesAcked = acked, td_InvoicesPending = pending, td_AttentionCount = tally_payments att ps\<rparr>))))"

record AnalyticsSummary =
  an_Period :: string
  an_GrossSalesCents :: int
  an_NetSalesCents :: int
  an_DarajaFeesCents :: int
  an_VATLiabilityCents :: int
  an_PaymentsCount :: int
  an_InvoicesAckedCount :: int
  an_InvoicesPendingCount :: int
  an_AttentionCount :: int

definition gross_and_fees :: "Payment list \<Rightarrow> int \<times> int \<times> int" where
  "gross_and_fees ps = foldl (\<lambda>(gross, fees, n) p. (wrap64 (gross + pay_amount_cents p),
     wrap64 (fees + DarajaMerchantFeeCents (pay_amount_cents p)), wrap64 (n + 1))) (0, 0, 0) ps"

definition AnalyticsSummary_of :: "time \<Rightarrow> uuid \<Rightarrow> string \<Rightarrow> AnalyticsSummary tx" where
  "AnalyticsSummary_of now oid period =
     (case ParseSummaryWindow now period of (from', to') \<Rightarrow> WithOrg oid (
     tbind (AnalyticsPayments oid from' to') (\<lambda>pmts.
     tbind (AnalyticsVATLiability oid from' to') (\<lambda>vat.
     tbind (CountInvoicesByState oid) (\<lambda>states.
     tbind (CountPaymentsByStatus oid) (\<lambda>ps.
     case gross_and_fees pmts of (gross, fees, n) \<Rightarrow> case tally states of (acked, pending, att) \<Rightarrow>
     ret \<lparr>an_Period = period, an_GrossSalesCents = gross, an_NetSalesCents = wrap64 (gross - fees),
       an_DarajaFeesCents = fees, an_VATLiabilityCents = vat, an_PaymentsCount = n, an_InvoicesAckedCount = acked,
       an_InvoicesPendingCount = pending, an_AttentionCount = tally_payments att ps\<rparr>))))))"

record VAT =
  vat_Period :: string
  vat_ByCategory :: "(TaxCategory \<times> int \<times> int \<times> int) list" \<comment> \<open>category, taxable, tax, count\<close>
  vat_InvoicesCount :: int
  vat_CreditNotesCount :: int
  vat_OutputVATCents :: int

definition VATPosition :: "uuid \<Rightarrow> string \<Rightarrow> VAT tx" where
  "VATPosition oid period = (case ParsePeriod period of Inl e \<Rightarrow> raise e
   | Inr (from', to') \<Rightarrow> WithOrg oid (
       tbind (VATPosition_row oid from' to') (\<lambda>row.
       ret \<lparr>vat_Period = period,
         vat_ByCategory = (let n = wrap64 (vp_Invoices row + vp_CreditNotes row) in
           if 0 < n then [(TaxStandard, wrap64 (vp_SalesCents row - vp_OutputVatCents row), vp_OutputVatCents row, n)] else []),
         vat_InvoicesCount = vp_Invoices row, vat_CreditNotesCount = vp_CreditNotes row,
         vat_OutputVATCents = vp_OutputVatCents row\<rparr>)))"

definition formatTaxCategory :: "string \<Rightarrow> string" where
  "formatTaxCategory c = (if c = ''B'' then ''16%'' else if c = ''E'' then ''8%'' else if c = ''C'' then ''0%''
     else if c = ''A'' then ''Exempt'' else if c = ''D'' then ''Non-VAT'' else c)"

record itax_record =
  ir_Date :: string
  ir_InvoiceNo :: string
  ir_BuyerPIN :: string
  ir_Total :: "int \<times> int" \<comment> \<open>sign, cents\<close>
  ir_Taxable :: "int \<times> int"
  ir_VAT :: "int \<times> int"
  ir_ClassCode :: string
  ir_TaxCategory :: string

definition itax_record_of :: "Keyring \<Rightarrow> Invoice \<times> SaleItem \<Rightarrow> itax_record" where
  "itax_record_of k r = (case r of (i, l) \<Rightarrow>
     let sign = (if inv_kind i = ''CREDIT_NOTE'' then - 1 else 1) in
     \<lparr>ir_Date = format_date (transaction_date i),
      ir_InvoiceNo = (case inv_kra_invoice_no i of Some n \<Rightarrow> n | None \<Rightarrow> inv_receipt_code i),
      ir_BuyerPIN = (if inv_buyer_pin_enc i = [] then []
        else case DecryptString k (inv_buyer_pin_enc i) of Inl _ \<Rightarrow> [] | Inr pin \<Rightarrow> pin),
      ir_Total = (sign, si_line_total_cents l),
      ir_Taxable = (sign, si_line_total_cents l - si_line_tax_cents l),
      ir_VAT = (sign, si_line_tax_cents l), ir_ClassCode = si_class_code l,
      ir_TaxCategory = formatTaxCategory (si_tax_category l)\<rparr>)"

definition ExportItaxCSV :: "Keyring \<Rightarrow> uuid \<Rightarrow> string \<Rightarrow> itax_record list tx" where
  "ExportItaxCSV k oid period = (case ParsePeriod period of Inl e \<Rightarrow> raise e
   | Inr (from', to') \<Rightarrow> WithOrg oid (
       tbind (ListItaxReportRows oid from' to') (\<lambda>rows. ret (map (itax_record_of k) rows))))"

subsection \<open>Routes\<close>

definition report_today :: "time \<Rightarrow> HttpPrincipal \<Rightarrow> TodayView response tx" where
  "report_today now p = answer (Today now (pr_OrgID p))
     (\<lambda>_. Fail 500 ''internal'' ''Could not compute today's summary'') (JSON 200)"

definition analyticsSummary :: "time \<Rightarrow> HttpPrincipal \<Rightarrow> string \<Rightarrow> AnalyticsSummary response tx" where
  "analyticsSummary now p period0 = (let period = trim_space period0 in
     answer (AnalyticsSummary_of now (pr_OrgID p) (if period = [] then ''today'' else period))
       (\<lambda>_. Fail 500 ''internal'' ''Could not compute analytics summary'') (JSON 200))"

definition this_month :: "time \<Rightarrow> string" where
  "this_month now = format_month (now + nairobi_offset)"

definition report_failed :: "string \<Rightarrow> string \<Rightarrow> go_error \<Rightarrow> 'v response" where
  "report_failed period msg e = (case ParsePeriod period of
     Inl perr \<Rightarrow> Fail 400 ''bad_request'' (err_text perr) | Inr _ \<Rightarrow> Fail 500 ''internal'' msg)"

text \<open>
  When the query of the export fails, the header record has been flushed and with it the status
  200: the text of the error follows the header.
\<close>

definition exportItax :: "Keyring \<Rightarrow> time \<Rightarrow> HttpPrincipal \<Rightarrow> string \<Rightarrow> itax_record list response tx" where
  "exportItax k now p month0 = (let month = (if month0 = [] then this_month now else month0) in
     answer (ExportItaxCSV k (pr_OrgID p) month)
       (\<lambda>e. case ParsePeriod month of Inl perr \<Rightarrow> Fail 400 ''bad_request'' (err_text perr) | Inr _ \<Rightarrow> JSON 200 [])
       (JSON 200))"

definition report_vat :: "time \<Rightarrow> HttpPrincipal \<Rightarrow> string \<Rightarrow> VAT response tx" where
  "report_vat now p period0 = (let period = (if period0 = [] then this_month now else period0) in
     answer (VATPosition (pr_OrgID p) period)
       (report_failed period ''Could not compute the VAT position'') (JSON 200))"

end
