(* ===== verification/Identity.thy ===== *)
theory Identity
  imports Http "HOL-Library.Product_Lexorder" "HOL-Library.List_Lexorder" "HOL-Library.Char_ord"
begin

text \<open>
  \<open>internal/org\<close>: phone-code login and sessions, organisations and their eTIMS settings,
  memberships and invitations, with their statements of \<open>db/queries/orgs.sql\<close>.
  The tables \<open>orgs\<close>, \<open>users\<close>, \<open>memberships\<close>, \<open>sessions\<close> and \<open>otp_codes\<close> have no
  row-level security; \<open>org_invites\<close> is visible to its organisation and, for reading and
  updating, under the accountant scope.

  Given from outside: the value drawn by \<open>rand.Int\<close>, the parsed client address, the SMS
  sender, the PIN checker, \<open>RegisterDevice\<close> of the fiscal provider, and the string fields of
  the JSON document it returns. Names are ordered bytewise (the C collation). E-mail addresses
  are compared by folding ASCII letters and the two other runes that fold to one. Foreign keys
  are not modelled.
\<close>

subsection \<open>Constants and errors\<close>

definition RoleOwner :: string where "RoleOwner = ''owner''"
definition RoleStaff :: string where "RoleStaff = ''staff''"
definition RoleAccountant :: string where "RoleAccountant = ''accountant''"
definition RoleAdmin :: string where "RoleAdmin = ''admin''"

definition SessionTTL :: duration where "SessionTTL = 30 * 24 * hour"
definition OTPTTL :: duration where "OTPTTL = 5 * minute"
definition OTPMaxPerHour :: int where "OTPMaxPerHour = 5"
definition OTPMaxAttempts :: int where "OTPMaxAttempts = 5"

lemmas role_defs = RoleOwner_def RoleStaff_def RoleAccountant_def RoleAdmin_def

definition ErrBadMSISDN :: go_error where
  "ErrBadMSISDN = ErrorString ''org: phone number is not a valid Kenyan MSISDN''"
definition ErrBadPIN :: go_error where
  "ErrBadPIN = ErrorString ''org: KRA PIN must be A or P, nine digits and a letter''"
definition ErrBadName :: go_error where
  "ErrBadName = ErrorString (''org: name must be 2'' @ [CHR 0xE2, CHR 0x80, CHR 0x93] @ ''80 characters'')"
definition ErrOTPRateLimit :: go_error where
  "ErrOTPRateLimit = ErrorString ''org: too many codes requested for this number''"
definition ErrOTPInvalid :: go_error where
  "ErrOTPInvalid = ErrorString ''org: code is wrong or expired''"
definition ErrUnauthorised :: go_error where
  "ErrUnauthorised = ErrorString ''org: not authenticated''"
definition ErrForbidden :: go_error where
  "ErrForbidden = ErrorString ''org: not a member of that organisation''"
definition org_ErrNotFound :: go_error where
  "org_ErrNotFound = ErrorString ''org: not found''"
definition ErrPINTaken :: go_error where
  "ErrPINTaken = ErrorString ''org: an organisation with this KRA PIN already exists''"
definition org_ErrPINUnknown :: go_error where
  "org_ErrPINUnknown = ErrorString ''org: KRA does not know this PIN''"
definition ErrInvalidLocale :: go_error where
  "ErrInvalidLocale = ErrorString ''org: locale must be en or sw''"
definition ErrEtimsBadBranch :: go_error where
  "ErrEtimsBadBranch = ErrorString ''org: kra_bhf_id must be two digits, e.g. 00''"
definition ErrEtimsSerialRequired :: go_error where
  "ErrEtimsSerialRequired = ErrorString ''org: kra_device_serial is required''"
definition ErrNoFiscalProvider :: go_error where
  "ErrNoFiscalProvider = ErrorString ''org: no fiscal provider configured for this deployment''"

lemmas org_errors = ErrBadMSISDN_def ErrBadPIN_def ErrBadName_def ErrOTPRateLimit_def ErrOTPInvalid_def
  ErrUnauthorised_def ErrForbidden_def org_ErrNotFound_def ErrPINTaken_def org_ErrPINUnknown_def
  ErrInvalidLocale_def ErrEtimsBadBranch_def ErrEtimsSerialRequired_def ErrNoFiscalProvider_def

subsection \<open>The service\<close>

record OrgFiscalProfile =
  ofp_OrgID :: string
  ofp_Name :: string
  ofp_KRAPIN :: string
  ofp_VATRegistered :: bool
  ofp_BranchID :: string
  ofp_DeviceSerial :: string

record DeviceRef =
  dr_DeviceID :: string
  dr_BranchID :: string
  dr_Raw :: string

record OrgService =
  os_Keys :: Keyring
  os_SessionSecret :: bytes
  os_FiscalAdapter :: string
  os_DevLogOTP :: bool
  os_SendOTP :: "(string \<Rightarrow> string \<Rightarrow> string \<Rightarrow> go_error option) option"
  os_CheckPIN :: "string \<Rightarrow> go_error option"
  os_RegisterDevice :: "(OrgFiscalProfile \<Rightarrow> go_error + DeviceRef) option"
  os_json_string :: "string \<Rightarrow> string \<Rightarrow> string" \<comment> \<open>document, field\<close>

definition validLocale :: "string \<Rightarrow> bool" where
  "validLocale l \<longleftrightarrow> l = [] \<or> l = ''en'' \<or> l = ''sw''"

definition hashCode :: "OrgService \<Rightarrow> bytes \<Rightarrow> string \<Rightarrow> bytes" where
  "hashCode svc mh code = hmac (os_Keys svc) (os_SessionSecret svc) (mh @ '':'' @ code)"

definition hashToken :: "OrgService \<Rightarrow> string \<Rightarrow> bytes" where
  "hashToken svc token = hmac (os_Keys svc) (os_SessionSecret svc) token"

text \<open>\<open>fmt.Sprintf("%0*d", n, v)\<close> of what \<open>rand.Int\<close> delivered\<close>

definition randomDigits :: "nat \<Rightarrow> go_error + nat \<Rightarrow> go_error + string" where
  "randomDigits n v = map_sum id (\<lambda>x. zero_pad n (int x)) v"

definition base64url :: string where
  "base64url = ''ABCDEFGHIJKLMNOPQRSTUVWXYZabcdefghijklmnopqrstuvwxyz0123456789-_''"

definition b64 :: "nat \<Rightarrow> char" where "b64 n = base64url ! (n mod 64)"

text \<open>\<open>base64.RawURLEncoding.EncodeToString\<close>\<close>

fun RawURLEncoding :: "nat list \<Rightarrow> string" where
  "RawURLEncoding [] = []"
| "RawURLEncoding [a] = [b64 (a div 4), b64 (a mod 4 * 16)]"
| "RawURLEncoding [a, b] = [b64 (a div 4), b64 (a mod 4 * 16 + b div 16), b64 (b mod 16 * 4)]"
| "RawURLEncoding (a # b # c # r) = b64 (a div 4) # b64 (a mod 4 * 16 + b div 16) #
     b64 (b mod 16 * 4 + c div 64) # b64 (c mod 64) # RawURLEncoding r"

definition randomToken :: "nat \<Rightarrow> string tx" where
  "randomToken n = tbind (rand_read n) (\<lambda>r. of_result (map_sum id RawURLEncoding r))"

definition truncate_bytes :: "string \<Rightarrow> nat \<Rightarrow> string" where
  "truncate_bytes s n = (if length s \<le> n then s else take n s)"

subsection \<open>Statements\<close>

definition CountRecentOTPs :: "bytes \<Rightarrow> int tx" where
  "CountRecentOTPs h = query (\<lambda>s. int (length (filter (\<lambda>r. otp_msisdn_hash r = h \<and>
     clock s - hour < otp_created_at r) (otp_codes s))))"

definition CreateOTP :: "bytes \<Rightarrow> bytes \<Rightarrow> time \<Rightarrow> OtpCode tx" where
  "CreateOTP h ch expires = stmt (\<lambda>s.
     let r = \<lparr>otp_id = next_id s, otp_msisdn_hash = h, otp_code_hash = ch, otp_expires_at = expires,
       otp_attempts = 0, otp_consumed_at = None, otp_created_at = clock s\<rparr> in
     Inr (r, s\<lparr>next_id := Suc (next_id s), otp_codes := otp_codes s @ [r]\<rparr>))"

definition live_otp :: "db \<Rightarrow> bytes \<Rightarrow> OtpCode \<Rightarrow> bool" where
  "live_otp s h r \<longleftrightarrow> otp_msisdn_hash r = h \<and> otp_consumed_at r = None \<and> clock s < otp_expires_at r"

definition LatestOTP :: "bytes \<Rightarrow> OtpCode tx" where
  "LatestOTP h = query_one (\<lambda>s. latest otp_created_at (filter (live_otp s h) (otp_codes s)))"

definition BumpOTPAttempts :: "uuid \<Rightarrow> unit tx" where
  "BumpOTPAttempts i = update (\<lambda>s. s\<lparr>otp_codes := update_rows (\<lambda>r. otp_id r = i)
     (\<lambda>r. r\<lparr>otp_attempts := otp_attempts r + 1\<rparr>) (otp_codes s)\<rparr>)"

definition ConsumeOTP :: "uuid \<Rightarrow> unit tx" where
  "ConsumeOTP i = update (\<lambda>s. s\<lparr>otp_codes := update_rows (\<lambda>r. otp_id r = i)
     (\<lambda>r. r\<lparr>otp_consumed_at := Some (clock s)\<rparr>) (otp_codes s)\<rparr>)"

text \<open>An existing user keeps the number and the locale; a non-empty name replaces the old one.\<close>

definition CreateUser :: "bytes \<Rightarrow> bytes \<Rightarrow> string \<Rightarrow> string \<Rightarrow> User tx" where
  "CreateUser enc h name loc = stmt (\<lambda>s.
     if loc \<notin> {''en'', ''sw''} then Inl check_violation
     else case row_by user_msisdn_hash h (users s) of
       Some u \<Rightarrow> (let u' = u\<lparr>user_name := (if name \<noteq> [] then name else user_name u)\<rparr> in
         Inr (u', s\<lparr>users := update_rows (\<lambda>r. user_msisdn_hash r = h) (\<lambda>_. u') (users s)\<rparr>))
     | None \<Rightarrow> (let u = \<lparr>user_id = next_id s, user_msisdn_enc = enc, user_msisdn_hash = h, user_name = name,
           user_locale = loc, user_email = None, user_created_at = clock s\<rparr> in
         Inr (u, s\<lparr>next_id := Suc (next_id s), users := users s @ [u]\<rparr>)))"

definition GetUser :: "uuid \<Rightarrow> User tx" where
  "GetUser i = query_one (\<lambda>s. row_by user_id i (users s))"

definition GetUserByMSISDNHash :: "bytes \<Rightarrow> User tx" where
  "GetUserByMSISDNHash h = query_one (\<lambda>s. row_by user_msisdn_hash h (users s))"

definition CreateSession :: "uuid \<Rightarrow> bytes \<Rightarrow> string \<Rightarrow> time \<Rightarrow> string \<Rightarrow> string option \<Rightarrow> SessionRow tx" where
  "CreateSession uid th csrf expires ua ip = stmt (\<lambda>s.
     let r = \<lparr>ses_id = next_id s, ses_user_id = uid, ses_token_hash = th, ses_csrf_token = csrf,
       ses_expires_at = expires, ses_revoked_at = None, ses_user_agent = ua, ses_ip = ip\<rparr> in
     if th \<in> ses_token_hash ` set (sessions s) then Inl unique_violation
     else Inr (r, s\<lparr>next_id := Suc (next_id s), sessions := sessions s @ [r]\<rparr>))"

definition GetSessionByTokenHash :: "bytes \<Rightarrow> (SessionRow \<times> User) tx" where
  "GetSessionByTokenHash th = query_one (\<lambda>s.
     case find (\<lambda>r. ses_token_hash r = th \<and> ses_revoked_at r = None \<and> clock s < ses_expires_at r) (sessions s) of
       None \<Rightarrow> None
     | Some r \<Rightarrow> map_option (\<lambda>u. (r, u)) (row_by user_id (ses_user_id r) (users s)))"

definition RevokeSession :: "uuid \<Rightarrow> unit tx" where
  "RevokeSession i = update (\<lambda>s. s\<lparr>sessions := update_rows (\<lambda>r. ses_id r = i)
     (\<lambda>r. r\<lparr>ses_revoked_at := Some (clock s)\<rparr>) (sessions s)\<rparr>)"

definition membership_roles :: "string list" where
  "membership_roles = [''owner'', ''staff'', ''accountant'', ''admin'']"

definition CreateMembership :: "uuid \<Rightarrow> uuid \<Rightarrow> string \<Rightarrow> bool \<Rightarrow> unit tx" where
  "CreateMembership oid uid role dflt = stmt (\<lambda>s.
     let same = (\<lambda>r. mem_org_id r = oid \<and> mem_user_id r = uid) in
     if role \<notin> set membership_roles then Inl check_violation
     else if list_ex same (memberships s)
     then Inr ((), s\<lparr>memberships := update_rows same (\<lambda>r. r\<lparr>mem_role := role\<rparr>) (memberships s)\<rparr>)
     else Inr ((), s\<lparr>next_id := Suc (next_id s), memberships := memberships s @
       [\<lparr>mem_id = next_id s, mem_org_id = oid, mem_user_id = uid, mem_role = role, mem_is_default = dflt,
         mem_created_at = clock s\<rparr>]\<rparr>))"

definition DeleteMembership :: "uuid \<Rightarrow> uuid \<Rightarrow> unit tx" where
  "DeleteMembership oid uid = update (\<lambda>s. s\<lparr>memberships :=
     filter (\<lambda>r. \<not> (mem_org_id r = oid \<and> mem_user_id r = uid)) (memberships s)\<rparr>)"

definition joined_orgs :: "db \<Rightarrow> uuid \<Rightarrow> (Membership \<times> Org) list" where
  "joined_orgs s uid = concat (map (\<lambda>m. map (Pair m) (filter (\<lambda>r. org_id r = mem_org_id m) (orgs s)))
     (filter (\<lambda>m. mem_user_id m = uid) (memberships s)))"

definition ListMembershipsForUser :: "uuid \<Rightarrow> (Membership \<times> Org) list tx" where
  "ListMembershipsForUser uid = query (\<lambda>s.
     sort_key (\<lambda>(m, r). (\<not> mem_is_default m, org_name r)) (joined_orgs s uid))"

definition ListMembersForOrg :: "uuid \<Rightarrow> (Membership \<times> User) list tx" where
  "ListMembersForOrg oid = query (\<lambda>s. sort_key (\<lambda>(m, u). mem_created_at m)
     (concat (map (\<lambda>m. map (Pair m) (filter (\<lambda>u. user_id u = mem_user_id m) (users s)))
       (filter (\<lambda>m. mem_org_id m = oid) (memberships s)))))"

definition GetOrgByPINHash :: "bytes \<Rightarrow> Org tx" where
  "GetOrgByPINHash h = query_one (\<lambda>s. row_by org_kra_pin_hash h (orgs s))"

definition insert_org :: "string \<Rightarrow> bytes \<Rightarrow> bytes \<Rightarrow> bool \<Rightarrow> string \<Rightarrow> Org tx" where
  "insert_org name enc h vat loc = stmt (\<lambda>s.
     let r = \<lparr>org_id = next_id s, org_name = name, org_kra_pin_enc = enc, org_kra_pin_hash = h,
       org_vat_registered = vat, org_fiscal_profile = ''{}'', org_locale = loc,
       org_etims_status = ''unconfigured'', org_pin_verified_at = None, org_kra_bhf_id = None,
       org_kra_device_serial = None, org_kra_cmc_key_enc = [], org_etims_failed_reason = None,
       org_etims_initialized_at = None, org_daraja_status = ''pending_upload'', org_created_at = clock s\<rparr> in
     if loc \<notin> {''en'', ''sw''} then Inl check_violation
     else if h \<noteq> [] \<and> h \<in> org_kra_pin_hash ` set (orgs s) then Inl unique_violation
     else Inr (r, s\<lparr>next_id := Suc (next_id s), orgs := orgs s @ [r]\<rparr>))"

definition update_org :: "uuid \<Rightarrow> (time \<Rightarrow> Org \<Rightarrow> Org) \<Rightarrow> unit tx" where
  "update_org i f = update (\<lambda>s. s\<lparr>orgs := update_rows (\<lambda>r. org_id r = i) (f (clock s)) (orgs s)\<rparr>)"

definition set_pin_verified :: "uuid \<Rightarrow> unit tx" where
  "set_pin_verified i = update_org i (\<lambda>t r. r\<lparr>org_pin_verified_at := Some t\<rparr>)"

definition UpdateOrgFiscalProfile :: "uuid \<Rightarrow> string \<Rightarrow> unit tx" where
  "UpdateOrgFiscalProfile i prof = update_org i (\<lambda>t r. r\<lparr>org_fiscal_profile := prof\<rparr>)"

definition set_org_name :: "string \<Rightarrow> uuid \<Rightarrow> unit tx" where
  "set_org_name name i = update_org i (\<lambda>t r. r\<lparr>org_name := name\<rparr>)"

definition SetEtimsConfigured :: "uuid \<Rightarrow> string \<Rightarrow> string \<Rightarrow> bytes \<Rightarrow> string \<Rightarrow> Org tx" where
  "SetEtimsConfigured i bhf serial cmc prof = tbind (update_org i (\<lambda>t r. r\<lparr>org_etims_status := ''initialized'',
     org_kra_bhf_id := Some bhf, org_kra_device_serial := Some serial, org_kra_cmc_key_enc := cmc,
     org_fiscal_profile := prof, org_etims_failed_reason := None, org_etims_initialized_at := Some t\<rparr>))
     (\<lambda>_. GetOrg i)"

definition SetEtimsFailed :: "uuid \<Rightarrow> string \<Rightarrow> Org tx" where
  "SetEtimsFailed i reason = tbind (update_org i (\<lambda>t r. r\<lparr>org_etims_status := ''failed'',
     org_etims_failed_reason := Some reason\<rparr>)) (\<lambda>_. GetOrg i)"

subsection \<open>Invitations: statements\<close>

definition sees_invite :: "db \<Rightarrow> OrgInvite \<Rightarrow> bool" where
  "sees_invite s r \<longleftrightarrow> own s (oi_org_id r) \<or> scope s = ScopeAccountant"

definition invite_roles :: "string list" where
  "invite_roles = [''accountant'', ''staff'', ''admin'']"

definition CreateInvite ::
    "uuid \<Rightarrow> uuid \<Rightarrow> string \<Rightarrow> string option \<Rightarrow> bytes \<Rightarrow> string option \<Rightarrow> string \<Rightarrow> OrgInvite tx" where
  "CreateInvite oid by role phone h email st = stmt (\<lambda>s.
     let r = \<lparr>oi_id = next_id s, oi_org_id = oid, oi_invited_by = by, oi_role = role, oi_phone = phone,
       oi_phone_hash = h, oi_email = email, oi_status = st, oi_created_at = clock s, oi_updated_at = clock s\<rparr> in
     if \<not> own s oid then Inl rls_violation
     else if role \<notin> set invite_roles \<or> st \<notin> {''pending'', ''accepted'', ''rejected'', ''revoked''}
     then Inl check_violation
     else Inr (r, s\<lparr>next_id := Suc (next_id s), org_invites := org_invites s @ [r]\<rparr>))"

definition ListInvitesForOrg :: "uuid \<Rightarrow> OrgInvite list tx" where
  "ListInvitesForOrg oid = query (\<lambda>s. sort_key (\<lambda>r. - oi_created_at r)
     (filter (\<lambda>r. sees_invite s r \<and> oi_org_id r = oid \<and> oi_status r = ''pending'') (org_invites s)))"

definition revoke_invite :: "uuid \<Rightarrow> uuid \<Rightarrow> unit tx" where
  "revoke_invite i oid = update (\<lambda>s. s\<lparr>org_invites := update_rows
     (\<lambda>r. sees_invite s r \<and> oi_id r = i \<and> oi_org_id r = oid)
     (\<lambda>r. r\<lparr>oi_status := ''revoked'', oi_updated_at := clock s\<rparr>) (org_invites s)\<rparr>)"

text \<open>\<open>AcceptInvite\<close> and \<open>RejectInvite\<close> of the generated queries\<close>

definition close_invite :: "string \<Rightarrow> uuid \<Rightarrow> OrgInvite tx" where
  "close_invite st i = stmt (\<lambda>s.
     let p = (\<lambda>r. sees_invite s r \<and> oi_id r = i \<and> oi_status r = ''pending'');
         f = (\<lambda>r. r\<lparr>oi_status := st, oi_updated_at := clock s\<rparr>) in
     case find p (org_invites s) of
       None \<Rightarrow> Inl ErrNoRows
     | Some r \<Rightarrow> Inr (f r, s\<lparr>org_invites := update_rows p f (org_invites s)\<rparr>))"

definition GetInviteByID :: "uuid \<Rightarrow> (OrgInvite \<times> Org) tx" where
  "GetInviteByID i = query_one (\<lambda>s. case find (\<lambda>r. sees_invite s r \<and> oi_id r = i) (org_invites s) of
     None \<Rightarrow> None
   | Some r \<Rightarrow> map_option (\<lambda>q. (r, q)) (row_by org_id (oi_org_id r) (orgs s)))"

definition ascii_lower :: "char \<Rightarrow> char" where
  "ascii_lower c = (case map_of (zip upper_chars lower_chars) c of None \<Rightarrow> c | Some d \<Rightarrow> d)"

text \<open>The rune U+212A folds to k, U+017F to s.\<close>

fun fold_runes :: "string \<Rightarrow> string" where
  "fold_runes [] = []"
| "fold_runes (c # cs) =
     (if c = CHR 0xE2 \<and> take 2 cs = [CHR 0x84, CHR 0xAA] then CHR ''k'' # fold_runes (drop 2 cs)
      else if c = CHR 0xC5 \<and> take 1 cs = [CHR 0xBF] then CHR ''s'' # fold_runes (drop 1 cs)
      else ascii_lower c # fold_runes cs)"

definition EqualFold :: "string \<Rightarrow> string \<Rightarrow> bool" where
  "EqualFold a b \<longleftrightarrow> fold_runes a = fold_runes b"

definition ListPendingInvitesForPhoneOrEmail :: "bytes \<Rightarrow> string \<Rightarrow> (OrgInvite \<times> Org) list tx" where
  "ListPendingInvitesForPhoneOrEmail h email = query (\<lambda>s. sort_key (\<lambda>(r, q). - oi_created_at r)
     (concat (map (\<lambda>r. map (Pair r) (filter (\<lambda>q. org_id q = oi_org_id r) (orgs s)))
       (filter (\<lambda>r. sees_invite s r \<and> oi_status r = ''pending'' \<and>
         (oi_phone_hash r = h \<and> h \<noteq> [] \<or>
          (case oi_email r of None \<Rightarrow> False | Some e \<Rightarrow> email \<noteq> [] \<and> map ascii_lower e = map ascii_lower email)))
         (org_invites s)))))"

end
