(* ===== verification/Accounts.thy ===== *)
theory Accounts
  imports Identity Ledger
begin

text \<open>
  The use cases of \<open>internal/org/service.go\<close> and \<open>etims.go\<close> and the routes of
  \<open>handler.go\<close>: login by phone code, sessions, the caller of a request, organisations,
  invitations and members. A route receives the caller the middleware put on the context.
  Cookies are not modelled: the token travels in the response and in the request.
\<close>

subsection \<open>Views\<close>

record MembershipView =
  mv_OrgID :: uuid
  mv_Name :: string
  mv_Role :: string
  mv_IsDefault :: bool

definition toMemberships :: "(Membership \<times> Org) list \<Rightarrow> MembershipView list" where
  "toMemberships rows = map (\<lambda>(m, r). \<lparr>mv_OrgID = mem_org_id m, mv_Name = org_name r,
     mv_Role = mem_role m, mv_IsDefault = mem_is_default m\<rparr>) rows"

record Session =
  se_UserID :: uuid
  se_CSRFToken :: string
  se_Token :: string
  se_ExpiresAt :: time
  se_MsisdnMasked :: string
  se_Orgs :: "MembershipView list"

record OrgView =
  ov_ID :: uuid
  ov_Name :: string
  ov_KRAPin :: string
  ov_KRAPinMasked :: string
  ov_KRAPinVerifiedAt :: "time option"
  ov_VATRegistered :: bool
  ov_Locale :: string
  ov_FiscalAdapter :: string
  ov_Role :: string
  ov_CreatedAt :: time

definition toOrg :: "Org \<Rightarrow> string \<Rightarrow> string \<Rightarrow> string \<Rightarrow> OrgView" where
  "toOrg r pin adapter role = \<lparr>ov_ID = org_id r, ov_Name = org_name r, ov_KRAPin = pin,
     ov_KRAPinMasked = (if pin \<noteq> [] then MaskPIN pin else []), ov_KRAPinVerifiedAt = org_pin_verified_at r,
     ov_VATRegistered = org_vat_registered r, ov_Locale = org_locale r, ov_FiscalAdapter = adapter,
     ov_Role = role, ov_CreatedAt = org_created_at r\<rparr>"

subsection \<open>Login\<close>

definition request_otp_tx :: "OrgService \<Rightarrow> time \<Rightarrow> bytes \<Rightarrow> string \<Rightarrow> unit tx" where
  "request_otp_tx svc now h code =
     tbind (CountRecentOTPs h) (\<lambda>n.
     if OTPMaxPerHour \<le> n then raise ErrOTPRateLimit
     else tbind (CreateOTP h (hashCode svc h code) (now + OTPTTL)) (\<lambda>_. ret ()))"

text \<open>\<open>draw\<close> is what \<open>rand.Int\<close> delivers for the six digits.\<close>

definition RequestOTP :: "OrgService \<Rightarrow> time \<Rightarrow> go_error + nat \<Rightarrow> string \<Rightarrow> string \<Rightarrow> duration tx" where
  "RequestOTP svc now draw msisdn loc = (case NormaliseMSISDN msisdn of
     Inl _ \<Rightarrow> raise ErrBadMSISDN
   | Inr norm \<Rightarrow>
       if \<not> validLocale loc then raise ErrInvalidLocale
       else
         tbind (of_result (randomDigits 6 draw)) (\<lambda>code.
         tbind (Unscoped (request_otp_tx svc now (Hash (os_Keys svc) norm) code)) (\<lambda>_.
         case os_SendOTP svc of
           None \<Rightarrow> ret OTPTTL
         | Some send \<Rightarrow> (case send norm code loc of
             None \<Rightarrow> ret OTPTTL
           | Some e \<Rightarrow> if os_DevLogOTP svc then ret OTPTTL else raise e))))"

definition verify_otp_tx ::
    "OrgService \<Rightarrow> time \<Rightarrow> string \<Rightarrow> bytes \<Rightarrow> bytes \<Rightarrow> string \<Rightarrow> string \<Rightarrow> string \<Rightarrow> string \<Rightarrow> string option \<Rightarrow> Session tx" where
  "verify_otp_tx svc now norm h enc token csrf code ua addr =
     tbind (attempt (LatestOTP h)) (\<lambda>r. case r of
       Inl e \<Rightarrow> if errors_is e ErrNoRows then raise ErrOTPInvalid else raise e
     | Inr otp \<Rightarrow>
         if OTPMaxAttempts \<le> otp_attempts otp then raise ErrOTPInvalid
         else if otp_code_hash otp \<noteq> hashCode svc h code
         then tbind (ignore (BumpOTPAttempts (otp_id otp))) (\<lambda>_. raise ErrOTPInvalid)
         else
           tbind (ConsumeOTP (otp_id otp)) (\<lambda>_.
           tbind (CreateUser enc h [] ''en'') (\<lambda>u.
           tbind (CreateSession (user_id u) (hashToken svc token) csrf (now + SessionTTL) (truncate_bytes ua 200) addr) (\<lambda>_.
           tbind (ListMembershipsForUser (user_id u)) (\<lambda>ms.
           ret \<lparr>se_UserID = user_id u, se_CSRFToken = csrf, se_Token = [], se_ExpiresAt = now + SessionTTL,
             se_MsisdnMasked = MaskMSISDN norm, se_Orgs = toMemberships ms\<rparr>)))))"

definition VerifyOTP ::
    "OrgService \<Rightarrow> time \<Rightarrow> string \<Rightarrow> string \<Rightarrow> string \<Rightarrow> string option \<Rightarrow> (Session \<times> string) tx" where
  "VerifyOTP svc now msisdn code ua addr = (case NormaliseMSISDN msisdn of
     Inl _ \<Rightarrow> raise ErrBadMSISDN
   | Inr norm \<Rightarrow>
       if length (trim_space code) \<noteq> 6 then raise ErrOTPInvalid
       else
         tbind (EncryptString (os_Keys svc) norm) (\<lambda>enc.
         tbind (randomToken 32) (\<lambda>token.
         tbind (randomToken 24) (\<lambda>csrf.
         tbind (Unscoped (verify_otp_tx svc now norm (Hash (os_Keys svc) norm) enc token csrf
           (trim_space code) ua addr)) (\<lambda>sess.
         ret (sess, token))))))"

subsection \<open>The caller\<close>

record Principal =
  pp_UserID :: uuid
  pp_SessionID :: uuid
  pp_OrgID :: uuid
  pp_Role :: string
  pp_CSRF :: string
  pp_Locale :: string
  pp_Memberships :: "MembershipView list"

text \<open>Without a requested organisation: the last default membership, else the first one.\<close>

definition default_org :: "MembershipView list \<Rightarrow> Principal \<Rightarrow> Principal" where
  "default_org ms p = foldl (\<lambda>q m. if mv_IsDefault m \<or> pp_OrgID q = nil_uuid
     then q\<lparr>pp_OrgID := mv_OrgID m, pp_Role := mv_Role m\<rparr> else q) p ms"

text \<open>The requested organisation: none, one that does not parse, or an identifier.\<close>

definition select_org :: "uuid option option \<Rightarrow> Principal \<Rightarrow> Principal tx" where
  "select_org orgHeader p = (case orgHeader of
     None \<Rightarrow> ret (default_org (pp_Memberships p) p)
   | Some None \<Rightarrow> raise ErrForbidden
   | Some (Some want) \<Rightarrow> (case find (\<lambda>m. mv_OrgID m = want) (pp_Memberships p) of
       None \<Rightarrow> raise ErrForbidden
     | Some m \<Rightarrow> ret (p\<lparr>pp_OrgID := mv_OrgID m, pp_Role := mv_Role m\<rparr>)))"

definition caller :: "SessionRow \<Rightarrow> User \<Rightarrow> (Membership \<times> Org) list \<Rightarrow> Principal" where
  "caller row u ms = \<lparr>pp_UserID = ses_user_id row, pp_SessionID = ses_id row, pp_OrgID = nil_uuid, pp_Role = [],
     pp_CSRF = ses_csrf_token row, pp_Locale = user_locale u, pp_Memberships = toMemberships ms\<rparr>"

definition principal_tx :: "OrgService \<Rightarrow> string \<Rightarrow> uuid option option \<Rightarrow> Principal tx" where
  "principal_tx svc token orgHeader =
     tbind (attempt (GetSessionByTokenHash (hashToken svc token))) (\<lambda>r. case r of
       Inl e \<Rightarrow> if errors_is e ErrNoRows then raise ErrUnauthorised else raise e
     | Inr (row, u) \<Rightarrow> tbind (ListMembershipsForUser (ses_user_id row)) (\<lambda>ms. select_org orgHeader (caller row u ms)))"

definition Principal_of :: "OrgService \<Rightarrow> string \<Rightarrow> uuid option option \<Rightarrow> Principal tx" where
  "Principal_of svc token orgHeader =
     (if token = [] then raise ErrUnauthorised else Unscoped (principal_tx svc token orgHeader))"

definition Logout :: "uuid \<Rightarrow> unit tx" where
  "Logout sid = Unscoped (RevokeSession sid)"

subsection \<open>Organisations\<close>

record CreateOrgInput =
  coi_Name :: string
  coi_KRAPin :: string
  coi_VATRegistered :: bool
  coi_Locale :: string
  coi_Role :: string
  coi_Profile :: string

definition is_accountant :: "CreateOrgInput \<Rightarrow> bool" where
  "is_accountant inp \<longleftrightarrow> coi_Role inp = RoleAccountant \<or> coi_Profile inp = ''accountant''"

text \<open>The PIN of the new organisation, its encryption and hash, and whether KRA knows it.\<close>

definition org_pin :: "OrgService \<Rightarrow> CreateOrgInput \<Rightarrow> (string \<times> bytes \<times> bytes \<times> bool) tx" where
  "org_pin svc inp =
     (let pin = NormalisePIN (coi_KRAPin inp) in
      if is_accountant inp then
        (if coi_KRAPin inp \<noteq> [] \<and> PINRe pin
         then tbind (attempt (EncryptString (os_Keys svc) pin)) (\<lambda>r.
           ret (pin, case r of Inl _ \<Rightarrow> [] | Inr enc \<Rightarrow> enc, Hash (os_Keys svc) pin, False))
         else ret ([], [], [], False))
      else if \<not> PINRe pin then raise ErrBadPIN
      else (let checked = (\<lambda>verified. tbind (EncryptString (os_Keys svc) pin) (\<lambda>enc.
                ret (pin, enc, Hash (os_Keys svc) pin, verified))) in
        case os_CheckPIN svc pin of
          None \<Rightarrow> checked True
        | Some e \<Rightarrow> if errors_is e org_ErrPINUnknown \<or> errors_is e ErrBadPIN then raise e else checked False))"

definition accountant_profile :: string where
  "accountant_profile = ''{'' @ [CHR 0x22] @ ''profile'' @ [CHR 0x22] @ '':'' @ [CHR 0x22] @ ''accountant'' @
     [CHR 0x22] @ '','' @ [CHR 0x22] @ ''accountant'' @ [CHR 0x22] @ '':true}''"

definition create_org_tx ::
    "time \<Rightarrow> uuid \<Rightarrow> CreateOrgInput \<Rightarrow> string \<Rightarrow> bytes \<Rightarrow> bytes \<Rightarrow> bool \<Rightarrow> Org tx" where
  "create_org_tx now uid inp name enc h verified =
     tbind (if h = [] then ret False
       else tbind (attempt (GetOrgByPINHash h)) (\<lambda>r. ret (case r of Inl _ \<Rightarrow> False | Inr _ \<Rightarrow> True))) (\<lambda>taken.
     if taken then raise ErrPINTaken
     else
       tbind (insert_org name enc h (coi_VATRegistered inp)
         (if coi_Locale inp = [] then ''en'' else coi_Locale inp)) (\<lambda>r.
       tbind (if verified then set_pin_verified (org_id r) else ret ()) (\<lambda>_.
       tbind (if is_accountant inp then UpdateOrgFiscalProfile (org_id r) accountant_profile else ret ()) (\<lambda>_.
       tbind (ListMembershipsForUser uid) (\<lambda>existing.
       tbind (CreateMembership (org_id r) uid (if is_accountant inp then RoleAccountant else RoleOwner)
         (existing = [])) (\<lambda>_.
       ret ((if is_accountant inp then (\<lambda>q. q\<lparr>org_fiscal_profile := accountant_profile\<rparr>) else id)
         ((if verified then (\<lambda>q. q\<lparr>org_pin_verified_at := Some now\<rparr>) else id) r))))))))"

definition CreateOrg :: "OrgService \<Rightarrow> time \<Rightarrow> uuid \<Rightarrow> CreateOrgInput \<Rightarrow> OrgView tx" where
  "CreateOrg svc now uid inp =
     (let name = trim_space (coi_Name inp) in
      if length name < 2 \<or> 80 < length name then raise ErrBadName
      else if \<not> validLocale (coi_Locale inp) then raise ErrInvalidLocale
      else
        tbind (org_pin svc inp) (\<lambda>(pin, enc, h, verified).
        tbind (Unscoped (create_org_tx now uid inp name enc h verified)) (\<lambda>out.
        tbind (ignore (WithOrg (org_id out) (AppendAudit (org_id out) ''user'' (Some (uuid_String uid))
          ''org.created'' ''org'' (org_id out) NoAfter))) (\<lambda>_.
        ret (toOrg out pin (os_FiscalAdapter svc) (if is_accountant inp then RoleAccountant else RoleOwner))))))"

definition GetOrgView :: "OrgService \<Rightarrow> uuid \<Rightarrow> OrgView tx" where
  "GetOrgView svc i = tbind (Unscoped (GetOrg i)) (\<lambda>r.
     ret (toOrg r (case DecryptString (os_Keys svc) (org_kra_pin_enc r) of Inl _ \<Rightarrow> [] | Inr pin \<Rightarrow> pin)
       (os_FiscalAdapter svc) []))"

definition ListMemberships :: "uuid \<Rightarrow> MembershipView list tx" where
  "ListMemberships uid = Unscoped (tbind (ListMembershipsForUser uid) (\<lambda>rows. ret (toMemberships rows)))"

subsection \<open>eTIMS settings\<close>

record EtimsSettings =
  es_Status :: string
  es_BhfID :: "string option"
  es_DeviceSerial :: "string option"
  es_FailedReason :: "string option"
  es_InitializedAt :: "time option"

definition no_settings :: EtimsSettings where
  "no_settings = \<lparr>es_Status = [], es_BhfID = None, es_DeviceSerial = None, es_FailedReason = None,
     es_InitializedAt = None\<rparr>"

definition toEtimsSettings :: "Org \<Rightarrow> EtimsSettings" where
  "toEtimsSettings r = \<lparr>es_Status = org_etims_status r, es_BhfID = org_kra_bhf_id r,
     es_DeviceSerial = org_kra_device_serial r, es_FailedReason = org_etims_failed_reason r,
     es_InitializedAt = org_etims_initialized_at r\<rparr>"

definition GetEtimsSettings :: "uuid \<Rightarrow> EtimsSettings tx" where
  "GetEtimsSettings oid = tbind (WithOrg oid (GetOrg oid)) (\<lambda>r. ret (toEtimsSettings r))"

definition bhfIDRe :: "string \<Rightarrow> bool" where
  "bhfIDRe b \<longleftrightarrow> length b = 2 \<and> list_all is_digit b"

text \<open>The message of a validation error, else the text of the error.\<close>

definition reason_of :: "go_error \<Rightarrow> string" where
  "reason_of e = (case err_root e of
     ValidationError c m f \<Rightarrow> if m \<noteq> [] then m else err_text e
   | _ \<Rightarrow> err_text e)"

definition truncateReason :: "string \<Rightarrow> string" where
  "truncateReason s = truncate_bytes s 500"

definition decodeCmcKey :: "OrgService \<Rightarrow> string \<Rightarrow> string" where
  "decodeCmcKey svc raw = (if raw = [] then [] else os_json_string svc raw ''cmc_key'')"

definition decodeTaxpayerName :: "OrgService \<Rightarrow> string \<Rightarrow> string" where
  "decodeTaxpayerName svc raw = (if raw = [] then [] else trim_space (os_json_string svc raw ''taxpayer_name''))"

definition etims_configured_tx ::
    "uuid \<Rightarrow> string \<Rightarrow> string \<Rightarrow> bytes \<Rightarrow> string \<Rightarrow> string \<Rightarrow> Org tx" where
  "etims_configured_tx oid bhf serial cmc raw legalName =
     tbind (SetEtimsConfigured oid bhf serial cmc raw) (\<lambda>r.
     tbind (if legalName \<noteq> [] \<and> legalName \<noteq> org_name r
       then tbind (attempt (set_org_name legalName oid)) (\<lambda>e.
         ret (case e of Inl _ \<Rightarrow> r | Inr _ \<Rightarrow> r\<lparr>org_name := legalName\<rparr>))
       else ret r) (\<lambda>r'.
     tbind (AppendAudit oid ''user'' (Some (uuid_String oid)) ''org.etims_configured'' ''org'' oid NoAfter)
       (\<lambda>_. ret r')))"

definition register_device ::
    "OrgService \<Rightarrow> (OrgFiscalProfile \<Rightarrow> go_error + DeviceRef) \<Rightarrow> uuid \<Rightarrow> string \<Rightarrow> string \<Rightarrow>
      (EtimsSettings \<times> go_error option) tx" where
  "register_device svc RegisterDevice oid bhf serial =
     tbind (WithOrg oid (GetOrg oid)) (\<lambda>r.
     case DecryptString (os_Keys svc) (org_kra_pin_enc r) of
       Inl e \<Rightarrow> raise (Wrap (''org: could not read the org's KRA PIN: '' @ err_text e) e)
     | Inr pin \<Rightarrow> (case RegisterDevice \<lparr>ofp_OrgID = uuid_String oid, ofp_Name = org_name r, ofp_KRAPIN = pin,
           ofp_VATRegistered = org_vat_registered r, ofp_BranchID = bhf, ofp_DeviceSerial = serial\<rparr> of
         Inl rErr \<Rightarrow>
           tbind (attempt (WithOrg oid (SetEtimsFailed oid (truncateReason (reason_of rErr))))) (\<lambda>f.
           ret (case f of Inl _ \<Rightarrow> no_settings | Inr r' \<Rightarrow> toEtimsSettings r', Some rErr))
       | Inr ref \<Rightarrow>
           tbind (if decodeCmcKey svc (dr_Raw ref) = [] then ret []
             else EncryptString (os_Keys svc) (decodeCmcKey svc (dr_Raw ref))) (\<lambda>cmc.
           tbind (WithOrg oid (etims_configured_tx oid bhf serial cmc (dr_Raw ref)
             (decodeTaxpayerName svc (dr_Raw ref)))) (\<lambda>r'.
           ret (toEtimsSettings r', None)))))"

definition ConfigureEtims :: "OrgService \<Rightarrow> uuid \<Rightarrow> string \<Rightarrow> string \<Rightarrow> (EtimsSettings \<times> go_error option) tx" where
  "ConfigureEtims svc oid bhfID deviceSerial = (case os_RegisterDevice svc of
     None \<Rightarrow> raise ErrNoFiscalProvider
   | Some RegisterDevice \<Rightarrow>
       (let bhf = (if trim_space bhfID = [] then ''00'' else trim_space bhfID);
            serial = trim_space deviceSerial in
        if \<not> bhfIDRe bhf then raise ErrEtimsBadBranch
        else if serial = [] then raise ErrEtimsSerialRequired
        else register_device svc RegisterDevice oid bhf serial))"

subsection \<open>Invitations and members\<close>

record InviteInput =
  iv_Phone :: string
  iv_Email :: string
  iv_Role :: string

record Invite =
  inv_ID :: uuid
  inv_OrgID :: uuid
  inv_Role :: string
  inv_Phone :: string
  inv_Email :: string
  inv_Status :: string
  inv_CreatedAt :: time

definition toInvite :: "OrgInvite \<Rightarrow> Invite" where
  "toInvite r = \<lparr>inv_ID = oi_id r, inv_OrgID = oi_org_id r, inv_Role = oi_role r,
     inv_Phone = (case oi_phone r of None \<Rightarrow> [] | Some p \<Rightarrow> p),
     inv_Email = (case oi_email r of None \<Rightarrow> [] | Some p \<Rightarrow> p), inv_Status = oi_status r,
     inv_CreatedAt = oi_created_at r\<rparr>"

text \<open>An invitation to a number of a known user: not oneself and not a member.\<close>

definition check_invitee :: "uuid \<Rightarrow> uuid \<Rightarrow> bytes \<Rightarrow> unit tx" where
  "check_invitee oid inviter h =
     tbind (attempt (GetUserByMSISDNHash h)) (\<lambda>r. case r of
       Inl _ \<Rightarrow> ret ()
     | Inr u \<Rightarrow>
         if user_id u = inviter then raise (ErrorString ''you cannot invite yourself to this business'')
         else tbind (attempt (ListMembersForOrg oid)) (\<lambda>ms. case ms of
           Inl _ \<Rightarrow> ret ()
         | Inr rows \<Rightarrow> if list_ex (\<lambda>(m, _). mem_user_id m = user_id u) rows
             then raise (ErrorString ''user is already a member of this business'') else ret ()))"

definition invite_tx ::
    "uuid \<Rightarrow> uuid \<Rightarrow> string \<Rightarrow> string option \<Rightarrow> bytes \<Rightarrow> string \<Rightarrow> Invite tx" where
  "invite_tx oid inviter role phone h email =
     tbind (if phone = None then ret () else check_invitee oid inviter h) (\<lambda>_.
     tbind (CreateInvite oid inviter role phone h (optString email) ''pending'') (\<lambda>r. ret (toInvite r)))"

definition InviteMember :: "OrgService \<Rightarrow> uuid \<Rightarrow> uuid \<Rightarrow> InviteInput \<Rightarrow> Invite tx" where
  "InviteMember svc oid inviter inp =
     (let role = (if iv_Role inp = [] then RoleAccountant else iv_Role inp) in
      if role \<notin> {RoleAccountant, RoleStaff, RoleAdmin} then raise (ErrorString ''org: invalid role'')
      else if iv_Phone inp = [] \<and> iv_Email inp = [] then raise (ErrorString ''org: phone or email required'')
      else if iv_Phone inp = [] then WithOrg oid (invite_tx oid inviter role None [] (iv_Email inp))
      else case NormaliseMSISDN (iv_Phone inp) of
        Inl _ \<Rightarrow> raise ErrBadMSISDN
      | Inr p \<Rightarrow> WithOrg oid (invite_tx oid inviter role (Some p) (Hash (os_Keys svc) p) (iv_Email inp)))"

definition ListInvites :: "uuid \<Rightarrow> Invite list tx" where
  "ListInvites oid = WithOrg oid (tbind (ListInvitesForOrg oid) (\<lambda>rows. ret (map toInvite rows)))"

definition drop_provisioned :: "uuid \<Rightarrow> uuid \<Rightarrow> OrgInvite \<Rightarrow> unit tx" where
  "drop_provisioned oid iid r = (if oi_id r = iid \<and> oi_phone_hash r \<noteq> []
     then tbind (attempt (GetUserByMSISDNHash (oi_phone_hash r))) (\<lambda>u. case u of
       Inl _ \<Rightarrow> ret () | Inr u \<Rightarrow> ignore (DeleteMembership oid (user_id u)))
     else ret ())"

definition RevokeInvite :: "uuid \<Rightarrow> uuid \<Rightarrow> unit tx" where
  "RevokeInvite oid iid = Unscoped (
     tbind (attempt (ListInvitesForOrg oid)) (\<lambda>r.
     tbind (case r of Inl _ \<Rightarrow> ret () | Inr rows \<Rightarrow> for_each (drop_provisioned oid iid) rows) (\<lambda>_.
     revoke_invite iid oid)))"

record Member =
  mb_ID :: uuid
  mb_UserID :: uuid
  mb_Role :: string
  mb_Name :: string
  mb_PhoneMasked :: string
  mb_IsDefault :: bool
  mb_CreatedAt :: time

definition toMember :: "Keyring \<Rightarrow> Membership \<times> User \<Rightarrow> Member" where
  "toMember k = (\<lambda>(m, u). \<lparr>mb_ID = mem_id m, mb_UserID = mem_user_id m, mb_Role = mem_role m,
     mb_Name = user_name u,
     mb_PhoneMasked = (if user_msisdn_enc u = [] then []
       else case DecryptString k (user_msisdn_enc u) of Inl _ \<Rightarrow> [] | Inr c \<Rightarrow> MaskMSISDN c),
     mb_IsDefault = mem_is_default m, mb_CreatedAt = mem_created_at m\<rparr>)"

definition ListMembers :: "OrgService \<Rightarrow> uuid \<Rightarrow> Member list tx" where
  "ListMembers svc oid = Unscoped (tbind (ListMembersForOrg oid) (\<lambda>rows. ret (map (toMember (os_Keys svc)) rows)))"

definition RemoveMember :: "uuid \<Rightarrow> uuid \<Rightarrow> unit tx" where
  "RemoveMember oid uid = Unscoped (DeleteMembership oid uid)"

record AccountantInvite =
  ai_ID :: uuid
  ai_OrgID :: uuid
  ai_OrgName :: string
  ai_KRAPin :: string
  ai_Role :: string
  ai_CreatedAt :: time

definition toAccountantInvite :: "Keyring \<Rightarrow> OrgInvite \<times> Org \<Rightarrow> AccountantInvite" where
  "toAccountantInvite k = (\<lambda>(r, q). \<lparr>ai_ID = oi_id r, ai_OrgID = oi_org_id r, ai_OrgName = org_name q,
     ai_KRAPin = (if org_kra_pin_enc q = [] then []
       else case DecryptString k (org_kra_pin_enc q) of Inl _ \<Rightarrow> [] | Inr pin \<Rightarrow> pin),
     ai_Role = oi_role r, ai_CreatedAt = oi_created_at r\<rparr>)"

definition ListPendingInvitesForUser :: "OrgService \<Rightarrow> uuid \<Rightarrow> AccountantInvite list tx" where
  "ListPendingInvitesForUser svc uid = WithAccountant (
     tbind (GetUser uid) (\<lambda>u.
     tbind (ListPendingInvitesForPhoneOrEmail (user_msisdn_hash u)
       (case user_email u of None \<Rightarrow> [] | Some e \<Rightarrow> e)) (\<lambda>rows.
     ret (map (toAccountantInvite (os_Keys svc)) rows))))"

definition addressed :: "OrgInvite \<Rightarrow> User \<Rightarrow> bool" where
  "addressed r u \<longleftrightarrow> oi_phone_hash r \<noteq> [] \<and> oi_phone_hash r = user_msisdn_hash u \<or>
     (case (oi_email r, user_email u) of (Some a, Some b) \<Rightarrow> EqualFold a b | _ \<Rightarrow> False)"

text \<open>The common part of accepting and rejecting: the pending invitation of this user.\<close>

definition pending_invite :: "uuid \<Rightarrow> uuid \<Rightarrow> OrgInvite tx" where
  "pending_invite uid iid =
     tbind (GetUser uid) (\<lambda>u.
     tbind (attempt (GetInviteByID iid)) (\<lambda>r. case r of
       Inl _ \<Rightarrow> raise org_ErrNotFound
     | Inr (i, _) \<Rightarrow>
         if oi_status i \<noteq> ''pending'' then raise (ErrorString ''invitation is no longer pending'')
         else if \<not> addressed i u then raise ErrForbidden
         else ret i))"

definition AcceptInvite :: "uuid \<Rightarrow> uuid \<Rightarrow> unit tx" where
  "AcceptInvite uid iid = WithAccountant (
     tbind (pending_invite uid iid) (\<lambda>i.
     tbind (close_invite ''accepted'' iid) (\<lambda>_.
     tbind (attempt (ListMembershipsForUser uid)) (\<lambda>ms.
     CreateMembership (oi_org_id i) uid (oi_role i) (case ms of Inl _ \<Rightarrow> True | Inr rows \<Rightarrow> rows = [])))))"

definition RejectInvite :: "uuid \<Rightarrow> uuid \<Rightarrow> unit tx" where
  "RejectInvite uid iid = WithAccountant (
     tbind (pending_invite uid iid) (\<lambda>_.
     tbind (close_invite ''rejected'' iid) (\<lambda>_. ret ())))"

end
