(* ===== verification/AccountRoutes.thy ===== *)
theory AccountRoutes
  imports Accounts
begin

text \<open>
  The routes of \<open>internal/org/handler.go\<close>: the middleware that turns a request into a
  caller, and every handler with the gates it is mounted behind.
\<close>

subsection \<open>Authentication\<close>

record Request =
  rq_Method :: string
  rq_Authorization :: string
  rq_Cookie :: "string option"
  rq_OrgHeader :: string
  rq_org_id :: string
  rq_orgId :: string
  rq_CSRF :: string

definition bearer_token :: "Request \<Rightarrow> string" where
  "bearer_token rq = (if prefix ''Bearer '' (rq_Authorization rq) then drop 7 (rq_Authorization rq)
     else case rq_Cookie rq of None \<Rightarrow> [] | Some c \<Rightarrow> c)"

text \<open>The header and the two query parameters must agree where they are given.\<close>

definition agree_org :: "string \<Rightarrow> string option \<Rightarrow> string option" where
  "agree_org given req = (case req of None \<Rightarrow> None
     | Some r \<Rightarrow> if given = [] then Some r else if r \<noteq> [] \<and> r \<noteq> given then None else Some given)"

definition requested_org :: "Request \<Rightarrow> string option" where
  "requested_org rq = agree_org (rq_orgId rq) (agree_org (rq_org_id rq) (Some (rq_OrgHeader rq)))"

definition mutating :: "Request \<Rightarrow> bool" where
  "mutating rq \<longleftrightarrow> rq_Method rq \<notin> {''GET'', ''HEAD'', ''OPTIONS''}"

definition http_principal :: "Principal \<Rightarrow> HttpPrincipal" where
  "http_principal p = \<lparr>pr_UserID = pp_UserID p, pr_OrgID = pp_OrgID p, pr_Role = pp_Role p,
     pr_SessionID = pp_SessionID p, pr_CSRF = pp_CSRF p, pr_Locale = pp_Locale p\<rparr>"

definition not_a_member :: "'v response" where
  "not_a_member = Fail 403 ''forbidden'' ''You are not a member of that organisation''"

text \<open>\<open>parse\<close> is \<open>uuid.Parse\<close>.\<close>

definition Authenticate ::
    "OrgService \<Rightarrow> (string \<Rightarrow> uuid option) \<Rightarrow> Request \<Rightarrow> (HttpPrincipal \<Rightarrow> 'v response tx) \<Rightarrow> 'v response tx" where
  "Authenticate svc parse rq handler = (case requested_org rq of
     None \<Rightarrow> ret not_a_member
   | Some orgReq \<Rightarrow>
       tbind (attempt (Principal_of svc (bearer_token rq) (if orgReq = [] then None else Some (parse orgReq)))) (\<lambda>r.
       case r of
         Inl e \<Rightarrow> ret (if errors_is e ErrUnauthorised then Fail 401 ''unauthenticated'' ''Sign in to continue''
           else if errors_is e ErrForbidden then not_a_member
           else Fail 500 ''internal'' ''Could not load your session'')
       | Inr p \<Rightarrow>
           if mutating rq \<and> rq_CSRF rq \<noteq> pp_CSRF p
           then ret (Fail 403 ''forbidden'' ''Missing or invalid CSRF token'')
           else handler (http_principal p)))"

subsection \<open>Login\<close>

definition requestOTP ::
    "OrgService \<Rightarrow> time \<Rightarrow> go_error + nat \<Rightarrow> (string \<times> string) option \<Rightarrow> int response tx" where
  "requestOTP svc now draw body = (case body of
     None \<Rightarrow> ret (Fail 400 ''bad_request'' ''Body must be {msisdn, locale?}'')
   | Some (msisdn, loc) \<Rightarrow> answer (RequestOTP svc now draw msisdn loc)
       (\<lambda>e. if errors_is e ErrBadMSISDN \<or> errors_is e ErrInvalidLocale then Fail 422 ''validation'' (err_text e)
         else if errors_is e ErrOTPRateLimit
         then Fail 429 ''rate_limited'' ''Too many codes requested; try again in an hour''
         else Fail 500 ''internal'' ''Could not send the code'')
       (\<lambda>ttl. JSON 202 (ttl div second)))"

definition verifyOTP ::
    "OrgService \<Rightarrow> time \<Rightarrow> string \<Rightarrow> string option \<Rightarrow> (string \<times> string) option \<Rightarrow> Session response tx" where
  "verifyOTP svc now ua addr body = (case body of
     None \<Rightarrow> ret (Fail 400 ''bad_request'' ''Body must be {msisdn, code}'')
   | Some (msisdn, code) \<Rightarrow> answer (VerifyOTP svc now msisdn code ua addr)
       (\<lambda>e. if errors_is e ErrBadMSISDN then Fail 422 ''validation'' (err_text e)
         else if errors_is e ErrOTPInvalid
         then Fail 401 ''unauthenticated'' ''That code is wrong or has expired''
         else Fail 500 ''internal'' ''Could not sign you in'')
       (\<lambda>(sess, token). JSON 200 (sess\<lparr>se_Token := token\<rparr>)))"

definition csrf_route :: "OrgService \<Rightarrow> HttpPrincipal option \<Rightarrow> Request \<Rightarrow> string response tx" where
  "csrf_route svc p rq =
     (if (case p of None \<Rightarrow> False | Some q \<Rightarrow> pr_CSRF q \<noteq> []) then ret (JSON 200 (pr_CSRF (the p)))
      else if bearer_token rq = [] then ret (JSON 200 [])
      else answer (Principal_of svc (bearer_token rq) None) (\<lambda>_. JSON 200 []) (\<lambda>q. JSON 200 (pp_CSRF q)))"

definition logout :: "HttpPrincipal \<Rightarrow> unit response tx" where
  "logout p = answer (Logout (pr_SessionID p)) (\<lambda>_. Fail 500 ''internal'' ''Could not log out'')
     (\<lambda>_. NoContent 204)"

subsection \<open>Organisations\<close>

definition listOrgs :: "HttpPrincipal \<Rightarrow> MembershipView list response tx" where
  "listOrgs p = answer (ListMemberships (pr_UserID p))
     (\<lambda>_. Fail 500 ''internal'' ''Could not list organisations'') (\<lambda>ms. JSON 200 ms)"

definition createOrg :: "OrgService \<Rightarrow> time \<Rightarrow> HttpPrincipal \<Rightarrow> CreateOrgInput option \<Rightarrow> OrgView response tx" where
  "createOrg svc now p body = (case body of
     None \<Rightarrow> ret (Fail 400 ''bad_request'' ''Body must be {name, kra_pin, vat_registered?, locale?}'')
   | Some inp \<Rightarrow> answer (CreateOrg svc now (pr_UserID p) inp)
       (\<lambda>e. if errors_is e ErrBadPIN \<or> errors_is e ErrBadName \<or> errors_is e ErrInvalidLocale
         then Fail 422 ''validation'' (err_text e)
         else if errors_is e org_ErrPINUnknown
         then Fail 422 ''pin_unknown'' ''KRA does not recognise this PIN. Check it on iTax and try again''
         else if errors_is e ErrPINTaken
         then Fail 409 ''conflict'' ''A business with this KRA PIN is already registered''
         else Fail 500 ''internal'' ''Could not create the organisation'')
       (\<lambda>r. JSON 201 r))"

definition currentOrg :: "OrgService \<Rightarrow> HttpPrincipal \<Rightarrow> OrgView response tx" where
  "currentOrg svc p = RequireOrg (Some p) (answer (GetOrgView svc (pr_OrgID p))
     (\<lambda>e. if errors_is e ErrNoRows then Fail 404 ''not_found'' ''Organisation not found''
       else Fail 500 ''internal'' ''Could not load the organisation'') (\<lambda>r. JSON 200 r))"

definition getEtims :: "HttpPrincipal \<Rightarrow> EtimsSettings response tx" where
  "getEtims p = RequireOrg (Some p) (answer (GetEtimsSettings (pr_OrgID p))
     (\<lambda>_. Fail 500 ''internal'' ''Could not load the tax settings'') (\<lambda>r. JSON 200 r))"

definition etims_failed :: "EtimsSettings \<Rightarrow> go_error \<Rightarrow> (string option \<times> EtimsSettings) response" where
  "etims_failed out e =
     (if errors_is e ErrEtimsBadBranch \<or> errors_is e ErrEtimsSerialRequired then Fail 422 ''validation'' (err_text e)
      else if errors_is e ErrNoFiscalProvider
      then Fail 501 ''not_implemented'' ''This deployment has no direct KRA connection configured''
      else if Classify (Some e) = ClassRetryable
      then Fail 503 ''unavailable'' ''KRA could not be reached; try again shortly''
      else JSON 422 (Some (reason_of e), out))"

text \<open>
  After success the composition root activates the invoices that were held back
  (\<open>cmd/api\<close> sets \<open>OnEtimsConfigured\<close>); its error is only logged.
\<close>

definition configureEtims ::
    "OrgService \<Rightarrow> HttpPrincipal \<Rightarrow> (string \<times> string) option \<Rightarrow> (string option \<times> EtimsSettings) response tx" where
  "configureEtims svc p body = RequireOrg (Some p) (RequireRole [RoleOwner, RoleAdmin] (Some p) (case body of
     None \<Rightarrow> ret (Fail 400 ''bad_request'' ''Body must be {kra_bhf_id?, kra_device_serial}'')
   | Some (bhf, serial) \<Rightarrow>
       tbind (attempt (ConfigureEtims svc (pr_OrgID p) bhf serial)) (\<lambda>r. case r of
         Inl e \<Rightarrow> ret (etims_failed no_settings e)
       | Inr (out, Some e) \<Rightarrow> ret (etims_failed out e)
       | Inr (out, None) \<Rightarrow> tbind (ignore (ActivateTaxPending (pr_OrgID p))) (\<lambda>_. ret (JSON 200 (None, out))))))"

subsection \<open>Members and invitations\<close>

definition owners_only :: "HttpPrincipal \<Rightarrow> 'v response tx \<Rightarrow> 'v response tx" where
  "owners_only p handler = RequireOrg (Some p) (RequireRole [RoleOwner, RoleAdmin] (Some p) handler)"

definition listMembers :: "OrgService \<Rightarrow> HttpPrincipal \<Rightarrow> Member list response tx" where
  "listMembers svc p = RequireOrg (Some p) (answer (ListMembers svc (pr_OrgID p))
     (\<lambda>_. Fail 500 ''internal'' ''Could not load organisation members'') (\<lambda>ms. JSON 200 ms))"

definition createInvite :: "OrgService \<Rightarrow> HttpPrincipal \<Rightarrow> InviteInput option \<Rightarrow> Invite response tx" where
  "createInvite svc p body = owners_only p (case body of
     None \<Rightarrow> ret (Fail 400 ''bad_request'' ''Invalid invite body'')
   | Some inp \<Rightarrow> answer (InviteMember svc (pr_OrgID p) (pr_UserID p) inp)
       (\<lambda>e. Fail 400 ''bad_request'' (if errors_is e ErrBadMSISDN then ''Invalid Kenyan phone number'' else err_text e))
       (\<lambda>r. JSON 201 r))"

definition listInvites :: "HttpPrincipal \<Rightarrow> Invite list response tx" where
  "listInvites p = owners_only p (answer (ListInvites (pr_OrgID p))
     (\<lambda>_. Fail 500 ''internal'' ''Could not load invites'') (\<lambda>rs. JSON 200 rs))"

definition revokeInvite :: "HttpPrincipal \<Rightarrow> uuid option \<Rightarrow> bool response tx" where
  "revokeInvite p pid = owners_only p (case pid of
     None \<Rightarrow> ret (Fail 404 ''not_found'' ''Invalid invite id'')
   | Some i \<Rightarrow> answer (RevokeInvite (pr_OrgID p) i)
       (\<lambda>_. Fail 500 ''internal'' ''Could not revoke invite'') (\<lambda>_. JSON 200 True))"

definition removeMember :: "HttpPrincipal \<Rightarrow> uuid option \<Rightarrow> bool response tx" where
  "removeMember p uid = owners_only p (case uid of
     None \<Rightarrow> ret (Fail 404 ''not_found'' ''Invalid user id'')
   | Some u \<Rightarrow> if u = pr_UserID p
       then ret (Fail 400 ''bad_request'' ''You cannot remove yourself from the business'')
       else answer (RemoveMember (pr_OrgID p) u)
         (\<lambda>_. Fail 500 ''internal'' ''Could not remove member'') (\<lambda>_. JSON 200 True))"

definition listAccountantInvites :: "OrgService \<Rightarrow> HttpPrincipal \<Rightarrow> AccountantInvite list response tx" where
  "listAccountantInvites svc p = answer (ListPendingInvitesForUser svc (pr_UserID p))
     (\<lambda>_. Fail 500 ''internal'' ''Could not load invitations'') (\<lambda>rs. JSON 200 rs)"

definition invite_fail :: "go_error \<Rightarrow> 'v response" where
  "invite_fail e = (if errors_is e org_ErrNotFound then Fail 404 ''not_found'' ''Invitation not found''
     else if errors_is e ErrForbidden then Fail 403 ''forbidden'' ''You are not the recipient of this invitation''
     else Fail 400 ''bad_request'' (err_text e))"

definition acceptAccountantInvite :: "HttpPrincipal \<Rightarrow> uuid option \<Rightarrow> bool response tx" where
  "acceptAccountantInvite p pid = (case pid of
     None \<Rightarrow> ret (Fail 400 ''bad_request'' ''Invalid invite id'')
   | Some i \<Rightarrow> answer (AcceptInvite (pr_UserID p) i) invite_fail (\<lambda>_. JSON 200 True))"

definition rejectAccountantInvite :: "HttpPrincipal \<Rightarrow> uuid option \<Rightarrow> bool response tx" where
  "rejectAccountantInvite p pid = (case pid of
     None \<Rightarrow> ret (Fail 400 ''bad_request'' ''Invalid invite id'')
   | Some i \<Rightarrow> answer (RejectInvite (pr_UserID p) i) invite_fail (\<lambda>_. JSON 200 True))"

end
