(* ===== verification/Accountants.thy ===== *)
theory Accountants
  imports Reports AccountRoutes
begin

text \<open>
  The clients of an accountant (\<open>internal/org/service.go\<close>, \<open>ListAccountantClients\<close>, and its
  route): for every membership of the caller the takings and the VAT of the running month and
  the health of the fiscal submissions, read under the scope of that organisation.
\<close>

record AccountantClient =
  ac_OrgID :: uuid
  ac_Name :: string
  ac_KRAPin :: string
  ac_CurrentMonthGross :: int
  ac_EstimatedVAT :: int
  ac_EtimsSyncHealth :: string
  ac_Role :: string

definition sync_health :: "(State \<times> int) list \<Rightarrow> string" where
  "sync_health states =
     (let count = (\<lambda>xs. foldl (\<lambda>n (st, k). if st \<in> set xs then wrap64 (n + k) else n) 0 states) in
      if 0 < count [StateNeedsReview, StateFailedTerminal] then ''action_required''
      else if 0 < count [StateDraft, StateTaxPending, StateQueued, StateSubmitted, StateFailedRetryable]
      then ''pending_sync'' else ''healthy'')"

text \<open>An error of the inner queries only leaves its figure at zero.\<close>

definition or_default :: "'a \<Rightarrow> 'a tx \<Rightarrow> 'a tx" where
  "or_default d m = tbind (attempt m) (\<lambda>r. case r of Inl _ \<Rightarrow> ret d | Inr x \<Rightarrow> ret x)"

definition masked_pin :: "Keyring \<Rightarrow> Org \<Rightarrow> string" where
  "masked_pin k r = (if org_kra_pin_enc r = [] then []
     else case DecryptString k (org_kra_pin_enc r) of Inl _ \<Rightarrow> [] | Inr pin \<Rightarrow> MaskPIN pin)"

definition client_tx :: "Keyring \<Rightarrow> time \<times> time \<Rightarrow> MembershipView \<Rightarrow> AccountantClient tx" where
  "client_tx k w m =
     tbind (GetOrg (mv_OrgID m)) (\<lambda>r.
     tbind (or_default [] (AnalyticsPayments (mv_OrgID m) (fst w) (snd w))) (\<lambda>pmts.
     tbind (or_default 0 (AnalyticsVATLiability (mv_OrgID m) (fst w) (snd w))) (\<lambda>vat.
     tbind (if org_etims_status r \<noteq> ''initialized'' then ret ''unconfigured''
       else tbind (or_default [] (CountInvoicesByState (mv_OrgID m))) (\<lambda>states. ret (sync_health states))) (\<lambda>health.
     ret \<lparr>ac_OrgID = mv_OrgID m, ac_Name = mv_Name m, ac_KRAPin = masked_pin k r,
       ac_CurrentMonthGross = foldl (\<lambda>n p. wrap64 (n + pay_amount_cents p)) 0 pmts, ac_EstimatedVAT = vat,
       ac_EtimsSyncHealth = health, ac_Role = mv_Role m\<rparr>))))"

fun list_clients :: "Keyring \<Rightarrow> time \<times> time \<Rightarrow> MembershipView list \<Rightarrow> AccountantClient list tx" where
  "list_clients k w [] = ret []"
| "list_clients k w (m # ms) = tbind (WithOrg (mv_OrgID m) (client_tx k w m)) (\<lambda>c.
     tbind (list_clients k w ms) (\<lambda>cs. ret (c # cs)))"

definition current_month :: "time \<Rightarrow> time \<times> time" where
  "current_month now = (case civil (nairobi_day now) of (y, m, d) \<Rightarrow> months_window 1 (y, m))"

definition ListAccountantClients :: "OrgService \<Rightarrow> time \<Rightarrow> uuid \<Rightarrow> AccountantClient list tx" where
  "ListAccountantClients svc now uid =
     tbind (Unscoped (tbind (ListMembershipsForUser uid) (\<lambda>rows. ret (toMemberships rows)))) (\<lambda>ms.
     list_clients (os_Keys svc) (current_month now) ms)"

definition listAccountantClients :: "OrgService \<Rightarrow> time \<Rightarrow> HttpPrincipal \<Rightarrow> AccountantClient list response tx" where
  "listAccountantClients svc now p = answer (ListAccountantClients svc now (pr_UserID p))
     (\<lambda>_. Fail 500 ''internal'' ''Could not load client organisations'') (\<lambda>cs. JSON 200 cs)"

text \<open>
  The list has one entry per membership of the caller, in order; each entry's takings are the
  sum of the organisation's own payments of the month that are not reversed.
\<close>

lemma or_default_query [simp]: "\<not> aborted s \<Longrightarrow> or_default d (query q) s = (Inr (q s), s)"
  by (simp add: or_default_def query_apply attempt_def tbind_def)

lemma client_tx_Inr:
  assumes "WithOrg (mv_OrgID m) (client_tx k w m) s = (Inr c, s')"
  shows "ac_OrgID c = mv_OrgID m \<and> ac_Role c = mv_Role m \<and>
    ac_CurrentMonthGross c = foldl (\<lambda>n p. wrap64 (n + pay_amount_cents p)) 0
      (filter (\<lambda>p. pay_org_id p = mv_OrgID m \<and> pay_status p \<noteq> ''reversed'' \<and> fst w \<le> pay_paid_at p \<and>
         pay_paid_at p < snd w) (payments s))"
proof -
  let ?s = "s\<lparr>scope := ScopeOrg (mv_OrgID m), aborted := False\<rparr>"
  from assms obtain s1 where run: "client_tx k w m ?s = (Inr c, s1)"
    by (auto simp: scope_defs scoped_Inr_iff)
  from run show ?thesis
    by (auto simp: client_tx_def tbind_Inr_iff GetOrg_def AnalyticsPayments_def query_one_Inr_iff sees_payment_def own_def
      intro!: foldl_cong filter_cong)
qed

lemma list_clients_of:
  "list_clients k w ms s = (Inr cs, s') \<Longrightarrow> map ac_OrgID cs = map mv_OrgID ms \<and> map ac_Role cs = map mv_Role ms"
proof (induction ms arbitrary: s s' cs)
  case (Cons m ms)
  then obtain c s1 cs' where c: "WithOrg (mv_OrgID m) (client_tx k w m) s = (Inr c, s1)"
      and cs: "list_clients k w ms s1 = (Inr cs', s')" "cs = c # cs'"
    by (auto simp: tbind_Inr_iff)
  from Cons.IH [OF cs(1)] client_tx_Inr [OF c] cs(2) show ?case by simp
qed simp

end
