(* ===== verification/Submitter.thy ===== *)
theory Submitter
  imports Crypto StoreInvariants
begin

text \<open>
  \<open>internal/fiscal/submitter.go\<close> and \<open>watchdog.go\<close>. One call of \<open>Submit\<close> is a claim
  transaction, a call of the provider outside any transaction, and a transaction that
  records the outcome; the three are separate definitions, so that what happens between
  them (a crash, another worker, the watchdog) can be stated. The world of \<open>Submit\<close> is the
  store and the adapter's state. The reader of \<open>orgs.fiscal_profile\<close> (JSON) is an argument
  that gives the branch id; \<open>now\<close> is what \<open>Now\<close> and \<open>time.Now\<close> return.
\<close>

subsection \<open>Classifying a lookup error\<close>

definition lower_char :: "char \<Rightarrow> char" where
  "lower_char c = (case map_of (zip upper_chars lower_chars) c of None \<Rightarrow> c | Some d \<Rightarrow> d)"

text \<open>\<open>strings.ToLower\<close>: ASCII, and the two other runes whose lower case is an ASCII letter.\<close>

fun to_lower :: "string \<Rightarrow> string" where
  "to_lower [] = []"
| "to_lower (c # cs) =
     (if c = CHR 0xC4 \<and> take 1 cs = [CHR 0xB0] then CHR ''i'' # to_lower (drop 1 cs)
      else if c = CHR 0xE2 \<and> take 2 cs = [CHR 0x84, CHR 0xAA] then CHR ''k'' # to_lower (drop 2 cs)
      else lower_char c # to_lower cs)"

definition says_not_found :: "string \<Rightarrow> string \<Rightarrow> bool" where
  "says_not_found code msg \<longleftrightarrow> to_lower code = ''not_found'' \<or> to_lower code = ''invoice_not_found'' \<or>
     sublist ''not found'' (to_lower msg)"

definition isNotFound :: "go_error option \<Rightarrow> bool" where
  "isNotFound err = (case err of None \<Rightarrow> False
     | Some e \<Rightarrow> errors_is e ErrNotFound \<or> (case err_root e of
         ValidationError code msg field \<Rightarrow> says_not_found code msg
       | TransientError code msg \<Rightarrow> says_not_found code msg
       | _ \<Rightarrow> False))"

subsection \<open>The adapter document\<close>

definition qty_text :: "int \<Rightarrow> string" where
  "qty_text q = (if q < 0 then ''-'' else []) @ digits 10 (\<bar>q\<bar> div 1000) @ ''.'' @
     zero_pad 3 (\<bar>q\<bar> mod 1000)"

definition line_of :: "SaleItem \<Rightarrow> Line" where
  "line_of it = \<lparr>ItemCode = si_class_code it, Description = si_description it,
     Qty = qty_text (si_qty it), Unit = si_unit it, UnitPriceCents = si_unit_price_cents it,
     LineTaxCategory = si_tax_category it, LineTotalCents = si_line_total_cents it,
     LineTaxCents = si_line_tax_cents it\<rparr>"

definition buildDocument :: "Keyring \<Rightarrow> (string \<Rightarrow> string) \<Rightarrow> Invoice \<Rightarrow> FiscalInvoice tx" where
  "buildDocument k branch_of iv =
     tbind (attempt (GetOrg (inv_org_id iv))) (\<lambda>r. case r of
       Inl e \<Rightarrow> raise (Wrap (''fiscal: org: '' @ err_text e) e)
     | Inr oo \<Rightarrow> (case DecryptString k (org_kra_pin_enc oo) of
         Inl e \<Rightarrow> raise (Wrap (''fiscal: seller pin: '' @ err_text e) e)
       | Inr sellerPIN \<Rightarrow>
         let branch = (if org_fiscal_profile oo = [] then [] else branch_of (org_fiscal_profile oo));
             buyerPIN = (if inv_buyer_pin_enc iv = [] then []
               else case DecryptString k (inv_buyer_pin_enc iv) of Inl _ \<Rightarrow> [] | Inr p \<Rightarrow> p) in
         tbind (ListSaleItems (inv_sale_id iv)) (\<lambda>rows.
         ret \<lparr>doc_ID = uuid_String (inv_id iv), doc_OrgID = uuid_String (inv_org_id iv),
           doc_SellerPIN = sellerPIN, doc_SellerName = org_name oo,
           doc_BranchID = (if branch = [] then ''00'' else branch), doc_BuyerPIN = buyerPIN,
           doc_BuyerName = inv_buyer_name iv, doc_IssuedAt = inv_issued_at iv,
           doc_Lines = map line_of rows, doc_SubtotalCents = inv_subtotal_cents iv,
           doc_TaxCents = inv_tax_cents iv, doc_TotalCents = inv_total_cents iv,
           doc_PaymentMethod = ''MOBILE_MONEY'', doc_DeviceProfile = org_fiscal_profile oo\<rparr>)))"

subsection \<open>Claim\<close>

record Result =
  r_InvoiceID :: uuid
  r_Attempt :: int
  r_State :: State
  r_RetryIn :: duration
  r_Skipped :: bool
  r_Err :: "go_error option"

definition new_Result :: "uuid \<Rightarrow> Result" where
  "new_Result i = \<lparr>r_InvoiceID = i, r_Attempt = 0, r_State = UnknownState [], r_RetryIn = 0,
     r_Skipped = False, r_Err = None\<rparr>"

text \<open>The variables the claim transaction leaves behind.\<close>

record Claim =
  cl_res :: Result
  cl_doc :: FiscalInvoice
  cl_kind :: string
  cl_parentKRANo :: string
  cl_isRetry :: bool

definition no_claim :: "Result \<Rightarrow> Claim" where
  "no_claim res = \<lparr>cl_res = res, cl_doc = no_doc, cl_kind = [], cl_parentKRANo = [], cl_isRetry = False\<rparr>"

text \<open>An exhausted FAILED_RETRYABLE invoice goes to NEEDS_REVIEW; \<open>Skipped\<close> stays false.\<close>

definition give_up :: "uuid \<Rightarrow> Invoice \<Rightarrow> Result \<Rightarrow> Claim tx" where
  "give_up iid iv res =
     tbind (attempt (SetInvoiceState iid StateFailedTerminal None None (inv_last_error iv)
       StateFailedRetryable)) (\<lambda>r. case r of
       Inl e \<Rightarrow> if errors_is e ErrNoRows then ret (no_claim (res\<lparr>r_Skipped := True\<rparr>)) else raise e
     | Inr _ \<Rightarrow>
       tbind (SetInvoiceState iid StateNeedsReview None None (inv_last_error iv) StateFailedTerminal)
         (\<lambda>_. ret (no_claim (res\<lparr>r_State := StateNeedsReview\<rparr>))))"

definition parent_no :: "Invoice \<Rightarrow> string tx" where
  "parent_no iv = (if inv_kind iv \<noteq> ''CREDIT_NOTE'' then ret []
     else case inv_parent_id iv of None \<Rightarrow> ret []
     | Some p \<Rightarrow> tbind (GetInvoice p) (\<lambda>parent.
         ret (case inv_kra_invoice_no parent of None \<Rightarrow> [] | Some no \<Rightarrow> no)))"

definition take_claim ::
    "Keyring \<Rightarrow> (string \<Rightarrow> string) \<Rightarrow> Invoice \<Rightarrow> Result \<Rightarrow> Claim tx" where
  "take_claim k branch_of iv res =
     tbind (of_result (Transition (inv_state iv) StateSubmitted)) (\<lambda>nxt.
     let att = inv_attempt iv + 1 in
     tbind (attempt (SetInvoiceState (inv_id iv) nxt (Some att) None None (inv_state iv))) (\<lambda>r. case r of
       Inl e \<Rightarrow> if errors_is e ErrNoRows then ret (no_claim (res\<lparr>r_Skipped := True\<rparr>)) else raise e
     | Inr _ \<Rightarrow>
       tbind (buildDocument k branch_of iv) (\<lambda>doc.
       tbind (parent_no iv) (\<lambda>pno.
       ret \<lparr>cl_res = res\<lparr>r_Attempt := att, r_State := nxt\<rparr>, cl_doc = doc, cl_kind = inv_kind iv,
         cl_parentKRANo = pno, cl_isRetry = (0 < inv_attempt iv)\<rparr>))))"

definition waits :: "time \<Rightarrow> Invoice \<Rightarrow> duration" where
  "waits now iv = (case inv_next_attempt_at iv of None \<Rightarrow> 0 | Some t \<Rightarrow> t - now)"

definition exhausted :: "Invoice \<Rightarrow> bool" where
  "exhausted iv \<longleftrightarrow> Next (Resolve (inv_attempt iv) (Some (ErrorString
     (case inv_last_error iv of None \<Rightarrow> [] | Some e \<Rightarrow> e)))) = StateFailedTerminal"

definition claim_tx ::
    "Keyring \<Rightarrow> (string \<Rightarrow> string) \<Rightarrow> time \<Rightarrow> uuid \<Rightarrow> Claim tx" where
  "claim_tx k branch_of now iid =
     (let res = new_Result iid in
      tbind (GetInvoice iid) (\<lambda>iv.
      let state = inv_state iv in
      if state \<noteq> StateQueued \<and> state \<noteq> StateFailedRetryable
      then ret (no_claim (res\<lparr>r_Skipped := True, r_State := state\<rparr>))
      else if state = StateQueued \<and> 0 < waits now iv
      then ret (no_claim (res\<lparr>r_Skipped := True, r_State := StateQueued, r_RetryIn := waits now iv\<rparr>))
      else if state = StateFailedRetryable \<and> exhausted iv then give_up iid iv res
      else take_claim k branch_of iv res))"

definition submit_claim ::
    "Keyring \<Rightarrow> (string \<Rightarrow> string) \<Rightarrow> time \<Rightarrow> uuid \<Rightarrow> uuid \<Rightarrow> Claim tx" where
  "submit_claim k branch_of now oid iid = WithOrg oid (claim_tx k branch_of now iid)"

subsection \<open>Call\<close>

text \<open>The answer of the lookup before a retry: recovered, a failure of its own, or neither.\<close>

definition lookup_first :: "'p Provider \<Rightarrow> Claim \<Rightarrow> 'p \<Rightarrow> (Ack option \<times> go_error option) \<times> 'p" where
  "lookup_first P cl p =
     (if cl_isRetry cl then
        (case LookupInvoice P (doc_ID (cl_doc cl)) p of ((ack, err), p') \<Rightarrow>
          if err = None \<and> KRAInvoiceNo ack \<noteq> [] then ((Some ack, None), p')
          else if (case err of None \<Rightarrow> False | Some e \<Rightarrow> errors_is e ErrLookupNotSupported) \<or>
            isNotFound err then ((None, None), p')
          else ((None, err), p'))
      else ((None, None), p))"

definition credit_note_of :: "Claim \<Rightarrow> CreditNote" where
  "credit_note_of cl = (let doc = cl_doc cl in
     \<lparr>cn_ID = doc_ID doc, cn_OrgID = doc_OrgID doc, cn_OriginalKRANo = cl_parentKRANo cl,
      cn_OriginalInvoice = doc, cn_Reason = ''Cancellation / Return'', cn_ReasonCode = ''01'',
      cn_Lines = doc_Lines doc,
      cn_TotalCents = (if 0 < doc_TotalCents doc then wrap64 (- doc_TotalCents doc)
        else doc_TotalCents doc),
      cn_DeviceProfile = doc_DeviceProfile doc\<rparr>)"

definition submit_call :: "'p Provider \<Rightarrow> Claim \<Rightarrow> 'p \<Rightarrow> ack_result \<times> 'p" where
  "submit_call P cl p =
     (case lookup_first P cl p of
        ((Some ack, _), p') \<Rightarrow> ((ack, None), p')
      | ((None, Some e), p') \<Rightarrow> ((no_ack, Some e), p')
      | ((None, None), p') \<Rightarrow>
          if cl_kind cl = ''CREDIT_NOTE'' then SubmitCreditNote P (credit_note_of cl) p'
          else SubmitInvoice P (cl_doc cl) p')"

subsection \<open>Persist\<close>

definition audit_doc :: "FiscalInvoice \<Rightarrow> FiscalInvoice" where
  "audit_doc doc = doc\<lparr>
     doc_SellerPIN := if doc_SellerPIN doc \<noteq> [] then MaskPIN (doc_SellerPIN doc) else doc_SellerPIN doc,
     doc_BuyerPIN := if doc_BuyerPIN doc \<noteq> [] then MaskPIN (doc_BuyerPIN doc) else doc_BuyerPIN doc\<rparr>"

definition persist_ack :: "time \<Rightarrow> uuid \<Rightarrow> uuid \<Rightarrow> string \<Rightarrow> Ack \<Rightarrow> Result \<Rightarrow> Result tx" where
  "persist_ack now oid iid kind ack res =
     (let ackedAt = (if ReceivedAt ack = 0 then now else ReceivedAt ack) in
      tbind (AckInvoice iid (KRAInvoiceNo ack) (Signature ack) (QRPayload ack) ackedAt) (\<lambda>_.
      tbind (ignore (BumpUsage oid (format_month ackedAt) 1 0 0)) (\<lambda>_.
      tbind (EnqueueTx (SendReceiptArgs oid iid
        (if kind = ''CREDIT_NOTE'' then ''credit_note'' else ''receipt_acked''))) (\<lambda>_.
      tbind (AppendAudit oid ''system'' None ''invoice.acked'' ''invoice'' iid (RawAfter (Raw ack))) (\<lambda>_.
      ret (res\<lparr>r_State := StateAcked\<rparr>))))))"

definition persist_retry :: "time \<Rightarrow> uuid \<Rightarrow> duration \<Rightarrow> string option \<Rightarrow> Result \<Rightarrow> Result tx" where
  "persist_retry now iid retryIn errStr res =
     tbind (SetInvoiceState iid StateFailedRetryable None None errStr StateSubmitted) (\<lambda>_.
     tbind (SetInvoiceState iid StateQueued None (Some (now + retryIn)) errStr StateFailedRetryable) (\<lambda>_.
     ret (res\<lparr>r_State := StateQueued\<rparr>)))"

definition persist_review :: "uuid \<Rightarrow> uuid \<Rightarrow> string option \<Rightarrow> go_error option \<Rightarrow> Result \<Rightarrow> Result tx" where
  "persist_review oid iid errStr subErr res =
     tbind (SetInvoiceState iid StateFailedTerminal None None errStr StateSubmitted) (\<lambda>_.
     tbind (SetInvoiceState iid StateNeedsReview None None errStr StateFailedTerminal) (\<lambda>_.
     (case subErr of None \<Rightarrow> raise (Panic ''nil pointer dereference: subErr'')
      | Some e \<Rightarrow>
        tbind (AppendAudit oid ''system'' None ''invoice.needs_review'' ''invoice'' iid
          (ErrorAfter (err_text e))) (\<lambda>_.
        ret (res\<lparr>r_State := StateNeedsReview\<rparr>)))))"

definition persist_tx ::
    "string \<Rightarrow> time \<Rightarrow> uuid \<Rightarrow> uuid \<Rightarrow> Claim \<Rightarrow> ack_result \<Rightarrow> Result tx" where
  "persist_tx adapter now oid iid cl answer = (case answer of (ack, subErr) \<Rightarrow>
     let outcome = Resolve (r_Attempt (cl_res cl)) subErr;
         res = (cl_res cl)\<lparr>r_Err := subErr, r_RetryIn := RetryIn outcome\<rparr>;
         errStr = map_option err_text subErr in
     tbind (CreateFiscalSubmission oid iid (r_Attempt res) adapter (audit_doc (cl_doc cl)) (Raw ack)
       errStr (Classify subErr)) (\<lambda>_.
     if Next outcome = StateAcked then persist_ack now oid iid (cl_kind cl) ack res
     else if Next outcome = StateQueued then persist_retry now iid (RetryIn outcome) errStr res
     else persist_review oid iid errStr subErr res))"

definition submit_persist ::
    "string \<Rightarrow> time \<Rightarrow> uuid \<Rightarrow> uuid \<Rightarrow> Claim \<Rightarrow> ack_result \<Rightarrow> Result tx" where
  "submit_persist adapter now oid iid cl answer =
     WithOrg oid (persist_tx adapter now oid iid cl answer)"

subsection \<open>One attempt\<close>

definition Submit ::
    "Keyring \<Rightarrow> (string \<Rightarrow> string) \<Rightarrow> 'p Provider \<Rightarrow> time \<Rightarrow> uuid \<Rightarrow> uuid \<Rightarrow> db \<times> 'p
      \<Rightarrow> (go_error + Result) \<times> db \<times> 'p" where
  "Submit k branch_of P now oid iid w = (case w of (s, p) \<Rightarrow>
     (case submit_claim k branch_of now oid iid s of
        (Inl e, s1) \<Rightarrow> (Inl e, s1, p)
      | (Inr cl, s1) \<Rightarrow>
          if r_Skipped (cl_res cl) then (Inr (cl_res cl), s1, p)
          else (case submit_call P cl p of (answer, p1) \<Rightarrow>
            (case submit_persist (provider_Name P) now oid iid cl answer s1 of
               (r, s2) \<Rightarrow> (r, s2, p1)))))"

definition Retry :: "uuid \<Rightarrow> uuid \<Rightarrow> string \<Rightarrow> unit tx" where
  "Retry oid iid actor = WithOrg oid (
     tbind (attempt (ResetInvoiceForRetry iid)) (\<lambda>r. case r of
       Inl e \<Rightarrow> raise (if errors_is e ErrNoRows
         then Wrap (err_text ErrIllegalTransition @ '': invoice is not awaiting review'') ErrIllegalTransition
         else e)
     | Inr iv \<Rightarrow>
       tbind (EnqueueTx (SubmitInvoiceArgs oid (inv_id iv))) (\<lambda>_.
       AppendAudit oid ''user'' (Some actor) ''invoice.retry'' ''invoice'' (inv_id iv) NoAfter)))"

text \<open>What \<open>Worker.Work\<close> answers River with.\<close>

datatype WorkResult = WorkDone | WorkSnooze duration | WorkError go_error

definition Work ::
    "Keyring \<Rightarrow> (string \<Rightarrow> string) \<Rightarrow> 'p Provider \<Rightarrow> time \<Rightarrow> uuid \<Rightarrow> uuid \<Rightarrow> db \<times> 'p
      \<Rightarrow> WorkResult \<times> db \<times> 'p" where
  "Work k branch_of P now oid iid w = (case Submit k branch_of P now oid iid w of
     (Inl e, w') \<Rightarrow> (WorkError e, w')
   | (Inr res, w') \<Rightarrow>
       (if r_Skipped res \<and> 0 < r_RetryIn res then WorkSnooze (r_RetryIn res)
        else if r_Skipped res then WorkDone
        else if r_State res = StateQueued then WorkSnooze (r_RetryIn res)
        else if r_State res = StateNeedsReview then WorkSnooze 0
        else WorkDone, w'))"

definition Timeout :: duration where "Timeout = 90 * second"

subsection \<open>Watchdog\<close>

definition rescue_reason :: string where
  "rescue_reason = ''rescued from stale SUBMITTED state by watchdog''"

definition rescue_tx :: "Invoice \<Rightarrow> unit tx" where
  "rescue_tx iv = (let att = inv_attempt iv + 1; iid = inv_id iv; oid = inv_org_id iv in
     tbind (attempt (SetInvoiceState iid StateFailedRetryable (Some att) None (Some rescue_reason)
       StateSubmitted)) (\<lambda>r. case r of
       Inl e \<Rightarrow> if errors_is e ErrNoRows then ret () else raise e
     | Inr _ \<Rightarrow>
       tbind (EnqueueTx (SubmitInvoiceArgs oid iid)) (\<lambda>_.
       AppendAudit oid ''system'' None ''invoice.rescued'' ''invoice'' iid
         (RescueAfter rescue_reason att))))"

definition RescueStaleInvoices :: "unit tx" where
  "RescueStaleInvoices =
     tbind (WithAdmin ListStaleSubmittedInvoices) (\<lambda>stale.
     for_each (\<lambda>iv. ignore (WithOrg (inv_org_id iv) (rescue_tx iv))) stale)"

subsection \<open>Frames\<close>

context write_frame
begin

lemma keeps_buildDocument: "keeps S R (buildDocument k b iv)"
  unfolding buildDocument_def Let_def by (intro keeps_all)

lemma keeps_take_claim:
  assumes "inv_state iv \<noteq> StateAcked"
  shows "keeps S R (take_claim k b iv res)"
  unfolding take_claim_def parent_no_def Let_def
  by (intro keeps_all keeps_buildDocument k_SetInvoiceState assms)

lemma keeps_give_up: "keeps S R (give_up iid iv res)"
  unfolding give_up_def by (intro keeps_all k_SetInvoiceState) simp_all

lemma keeps_claim_tx: "keeps S R (claim_tx k b now iid)"
  unfolding claim_tx_def Let_def
  by (intro keeps_tbind keeps_reads keeps_if keeps_ret keeps_give_up keeps_take_claim) auto

lemma keeps_submit_claim: "ScopeOrg oid \<in> S \<Longrightarrow> keeps S' R (submit_claim k b now oid iid)"
  unfolding submit_claim_def scope_defs by (intro keeps_scope keeps_claim_tx)

lemma keeps_persist_tx: "keeps S R (persist_tx adapter now oid iid cl answer)"
  unfolding persist_tx_def persist_ack_def persist_retry_def persist_review_def Let_def
  by (intro keeps_all k_SetInvoiceState) simp_all

lemma keeps_submit_persist:
  "ScopeOrg oid \<in> S \<Longrightarrow> keeps S' R (submit_persist adapter now oid iid cl answer)"
  unfolding submit_persist_def scope_defs by (intro keeps_scope keeps_persist_tx)

lemma keeps_Submit:
  assumes "ScopeOrg oid \<in> S" and "Submit k b P now oid iid (s, p) = (r, s', p')"
  shows "scope s' = scope s \<and> clock s' = clock s \<and> R (tbl s) (tbl s')"
proof -
  obtain rc s1 where c: "submit_claim k b now oid iid s = (rc, s1)"
    by (cases "submit_claim k b now oid iid s")
  note k1 = keepsD [OF keeps_submit_claim [OF assms(1), of UNIV] UNIV_I c]
  show ?thesis
  proof (cases "\<exists>cl. rc = Inr cl \<and> \<not> r_Skipped (cl_res cl)")
    case False
    then show ?thesis using assms(2) c k1 by (auto simp: Submit_def split: sum.splits if_splits)
  next
    case True
    then obtain cl where cl: "rc = Inr cl" "\<not> r_Skipped (cl_res cl)" by blast
    obtain answer p1 where call: "submit_call P cl p = (answer, p1)" by (cases "submit_call P cl p")
    have "submit_persist (provider_Name P) now oid iid cl answer s1 = (r, s')"
      using assms(2) c cl call by (auto simp: Submit_def split: prod.splits)
    from keepsD [OF keeps_submit_persist [OF assms(1), of UNIV] UNIV_I this] k1
    show ?thesis by (metis R_trans)
  qed
qed

lemma keeps_Retry: "ScopeOrg oid \<in> S \<Longrightarrow> keeps S' R (Retry oid iid actor)"
  unfolding Retry_def scope_defs by (intro keeps_all keeps_scope)

lemma keeps_rescue_tx: "keeps S R (rescue_tx iv)"
  unfolding rescue_tx_def Let_def by (intro keeps_all k_SetInvoiceState) simp_all

lemma keeps_RescueStaleInvoices: "S = UNIV \<Longrightarrow> keeps S' R RescueStaleInvoices"
  unfolding RescueStaleInvoices_def scope_defs
  by (intro keeps_all keeps_scope keeps_rescue_tx) simp_all

end

end
