(* ===== verification/Search.thy ===== *)
theory Search
  imports Prelude
begin

text \<open>
  The text search of the list routes: Postgres's \<open>column ILIKE '%' || q || '%'\<close>, where \<open>q\<close> is
  the text the merchant typed. Its characters \<open>%\<close>, \<open>_\<close> and backslash keep their meaning in a
  pattern. Upper and lower case are those of ASCII, as with the C collation.
\<close>

definition fold_char :: "char \<Rightarrow> char" where
  "fold_char c = (case map_of (zip upper_chars lower_chars) c of None \<Rightarrow> c | Some d \<Rightarrow> d)"

text \<open>The text after the first byte of a character: without that character's continuation bytes.\<close>

definition next_rune :: "string \<Rightarrow> string" where
  "next_rune s = dropWhile (\<lambda>c. 128 \<le> (of_char c :: nat) \<and> (of_char c :: nat) < 192) s"

lemma length_next_rune: "length (next_rune s) \<le> length s"
  by (simp add: next_rune_def length_dropWhile_le)

function like :: "string \<Rightarrow> string \<Rightarrow> bool" where
  "like [] s \<longleftrightarrow> s = []"
| "like (p # ps) s \<longleftrightarrow>
     (if p = CHR ''%'' then like ps s \<or> (case s of [] \<Rightarrow> False | c # cs \<Rightarrow> like (p # ps) cs)
      else case s of [] \<Rightarrow> False
      | c # cs \<Rightarrow>
          if p = CHR ''_'' then like ps (next_rune cs)
          else if p = CHR 0x5C then (case ps of [] \<Rightarrow> False | q # qs \<Rightarrow> c = q \<and> like qs cs)
          else c = p \<and> like ps cs)"
  by pat_completeness auto
termination
  by (relation "measure (\<lambda>(p, s). length p + length s)") (auto simp: less_Suc_eq_le length_next_rune le_SucI)

definition ilike :: "string \<Rightarrow> string \<Rightarrow> bool" where
  "ilike q s \<longleftrightarrow> like (map fold_char (''%'' @ q @ ''%'')) (map fold_char s)"

definition plain_char :: "char \<Rightarrow> bool" where
  "plain_char c \<longleftrightarrow> c \<notin> {CHR ''%'', CHR ''_'', CHR 0x5C}"

lemma like_percent: "like (CHR ''%'' # ps) s \<longleftrightarrow> like ps s \<or> (case s of [] \<Rightarrow> False | c # cs \<Rightarrow> like (CHR ''%'' # ps) cs)"
  by (subst like.simps) simp

lemma like_char: "plain_char p \<Longrightarrow> like (p # ps) s \<longleftrightarrow> (case s of [] \<Rightarrow> False | c # cs \<Rightarrow> c = p \<and> like ps cs)"
  by (subst like.simps) (simp add: plain_char_def split: list.splits)

declare like.simps(2) [simp del]

lemma like_rest: "like ''%'' s"
  by (induction s) (simp_all add: like_percent)

lemma like_plain: "list_all plain_char q \<Longrightarrow> like (q @ ''%'') s \<longleftrightarrow> prefix q s"
  by (induction q arbitrary: s) (auto simp: like_rest like_char split: list.splits)

lemma like_substring:
  assumes "list_all plain_char q"
  shows "like (''%'' @ q @ ''%'') s \<longleftrightarrow> sublist q s"
proof (induction s)
  case Nil
  show ?case using like_plain [OF assms, of "[]"] by (simp add: like_percent)
next
  case (Cons c s)
  then show ?case using like_plain [OF assms, of "c # s"] by (simp add: like_percent sublist_Cons_right)
qed

lemma fold_char_facts: "list_all (\<lambda>c. plain_char (fold_char c) \<and> fold_char (fold_char c) = fold_char c)
    (upper_chars @ lower_chars @ digit_chars)" "fold_char (CHR ''%'') = CHR ''%''"
  by code_simp+

lemma fold_plain: "plain_char (fold_char c) \<longleftrightarrow> plain_char c"
proof (cases "map_of (zip upper_chars lower_chars) c")
  case None
  then show ?thesis by (simp add: fold_char_def)
next
  case (Some d)
  then have "c \<in> set upper_chars" by (auto dest: map_of_SomeD set_zip_leftD)
  then show ?thesis using fold_char_facts(1) by (auto simp: list_all_iff plain_char_def upper_chars_def)
qed

text \<open>
  Searching finds exactly the rows that contain the typed text, ignoring the case of ASCII
  letters, as long as the text has no percent sign, underscore or backslash.
\<close>

theorem search_is_substring:
  assumes "list_all plain_char q"
  shows "ilike q s \<longleftrightarrow> sublist (map fold_char q) (map fold_char s)"
proof -
  have "list_all plain_char (map fold_char q)" using assms by (simp add: list_all_iff fold_plain)
  from like_substring [OF this] show ?thesis by (simp add: ilike_def fold_char_facts(2))
qed

theorem search_is_substring_witness:
  "ilike ''maji'' ''Duka la Maji'' \<and> \<not> ilike ''50'' ''Duka'' \<and> ilike ''_'' ''Duka''"
proof -
  have "ilike ''maji'' ''Duka la Maji'' \<longleftrightarrow> sublist (map fold_char ''maji'') (map fold_char ''Duka la Maji'')"
    by (rule search_is_substring) code_simp
  moreover have "ilike ''50'' ''Duka'' \<longleftrightarrow> sublist (map fold_char ''50'') (map fold_char ''Duka'')"
    by (rule search_is_substring) code_simp
  moreover have "map fold_char ''Duka la Maji'' = ''duka la '' @ map fold_char ''maji'' @ []" by code_simp
  moreover have "\<not> sublist (map fold_char ''50'') (map fold_char ''Duka'')" by code_simp
  moreover have "ilike ''_'' ''Duka''" by code_simp
  ultimately show ?thesis by (metis sublist_appendI)
qed

end
