(* ===== verification/SalesApi.thy ===== *)
theory SalesApi
  imports Shortcodes Ledger Submitter Search
begin

text \<open>
  The merchant's routes of \<open>internal/ledger/handler.go\<close> on items, sales, payments and
  invoices, with the views of \<open>internal/ledger/views.go\<close> they answer with: recording a sale
  from lines, converting a payment nobody matched, settling an open sale, editing items,
  re-queueing, re-issuing, cancelling and re-sending an invoice, and the attention list.

  \<open>resolver\<close> is the KRA gateway's PIN check (\<open>None\<close>: not wired), as in \<open>Ledger\<close>; \<open>numeric\<close>
  is what Postgres and pgx read from the text of a decimal, in thousandths. Where the code
  runs a SELECT without ORDER BY and takes one row, the model takes the oldest.
\<close>

subsection \<open>Views\<close>

record InvoiceView =
  vw_ID :: uuid
  vw_Kind :: string
  vw_ParentInvoiceID :: "uuid option"
  vw_SupersededByID :: "uuid option"
  vw_SaleID :: uuid
  vw_PaymentID :: "uuid option"
  vw_State :: State
  vw_Attempt :: int
  vw_ReceiptCode :: string
  vw_ReceiptURL :: string
  vw_KRAInvoiceNo :: "string option"
  vw_BuyerName :: "string option"
  vw_BuyerPinMasked :: string
  vw_TotalCents :: int
  vw_TaxCents :: int
  vw_LastError :: "string option"
  vw_CreatedAt :: time
  vw_SubmittedAt :: "time option"
  vw_AckedAt :: "time option"

definition toInvoice :: "Keyring \<Rightarrow> string \<Rightarrow> Invoice \<Rightarrow> InvoiceView" where
  "toInvoice k base i = \<lparr>vw_ID = inv_id i, vw_Kind = inv_kind i, vw_ParentInvoiceID = inv_parent_id i,
     vw_SupersededByID = inv_superseded_by i, vw_SaleID = inv_sale_id i,
     vw_PaymentID = inv_payment_id i, vw_State = inv_state i, vw_Attempt = inv_attempt i,
     vw_ReceiptCode = inv_receipt_code i, vw_ReceiptURL = base @ ''/r/'' @ inv_receipt_code i,
     vw_KRAInvoiceNo = inv_kra_invoice_no i, vw_BuyerName = optString (inv_buyer_name i),
     vw_BuyerPinMasked = (if inv_buyer_pin_enc i = [] then []
       else case DecryptString k (inv_buyer_pin_enc i) of Inl _ \<Rightarrow> [] | Inr p \<Rightarrow> MaskPIN p),
     vw_TotalCents = inv_total_cents i, vw_TaxCents = inv_tax_cents i,
     vw_LastError = inv_last_error i, vw_CreatedAt = inv_created_at i,
     vw_SubmittedAt = inv_submitted_at i, vw_AckedAt = inv_acked_at i\<rparr>"

record PaymentView =
  pv_ID :: uuid
  pv_ShortcodeID :: uuid
  pv_TransID :: string
  pv_AmountCents :: int
  pv_PayerMsisdnMasked :: string
  pv_PayerName :: string
  pv_BillRef :: string
  pv_PaidAt :: time
  pv_Status :: string
  pv_MatchRule :: "string option"
  pv_SaleID :: "uuid option"
  pv_InvoiceID :: "uuid option"

definition toPayment :: "Keyring \<Rightarrow> Payment \<Rightarrow> uuid option \<Rightarrow> PaymentView" where
  "toPayment k p iid = \<lparr>pv_ID = pay_id p, pv_ShortcodeID = pay_shortcode_id p,
     pv_TransID = pay_trans_id p, pv_AmountCents = pay_amount_cents p,
     pv_PayerMsisdnMasked = (if pay_msisdn_enc p = [] then []
       else case DecryptString k (pay_msisdn_enc p) of Inl _ \<Rightarrow> [] | Inr m \<Rightarrow> MaskMSISDN m),
     pv_PayerName = pay_payer_name p, pv_BillRef = pay_bill_ref p, pv_PaidAt = pay_paid_at p,
     pv_Status = pay_status p, pv_MatchRule = pay_match_rule p, pv_SaleID = pay_sale_id p,
     pv_InvoiceID = iid\<rparr>"

record SaleView =
  slv_ID :: uuid
  slv_Ref :: string
  slv_Kind :: string
  slv_Status :: string
  slv_CustomerID :: "uuid option"
  slv_BuyerName :: string
  slv_SubtotalCents :: int
  slv_TaxCents :: int
  slv_TotalCents :: int
  slv_InvoiceID :: "uuid option"
  slv_ClientRef :: "string option"
  slv_PaidAt :: "time option"
  slv_CreatedAt :: time
  slv_Lines :: "SaleItem list"

definition toSale :: "Sale \<Rightarrow> SaleItem list \<Rightarrow> SaleView" where
  "toSale r rows = \<lparr>slv_ID = sale_id r, slv_Ref = sale_ref r, slv_Kind = sale_kind r,
     slv_Status = sale_status r, slv_CustomerID = sale_customer_id r,
     slv_BuyerName = sale_buyer_name r, slv_SubtotalCents = sale_subtotal_cents r,
     slv_TaxCents = sale_tax_cents r, slv_TotalCents = sale_total_cents r, slv_InvoiceID = None,
     slv_ClientRef = sale_client_ref r, slv_PaidAt = sale_paid_at r,
     slv_CreatedAt = sale_created_at r, slv_Lines = rows\<rparr>"

subsection \<open>Statements\<close>

definition invoiceIDForSale :: "uuid option \<Rightarrow> uuid option tx" where
  "invoiceIDForSale sid = (case sid of None \<Rightarrow> ret None
     | Some i \<Rightarrow> tbind (attempt (query_one (\<lambda>s. latest inv_created_at
         (filter (\<lambda>r. sees_invoice s r \<and> inv_sale_id r = i \<and> inv_kind r = ''INVOICE'') (invoices s)))))
       (\<lambda>r. ret (case r of Inl _ \<Rightarrow> None | Inr iv \<Rightarrow> Some (inv_id iv))))"

definition customer_with_pin :: "uuid \<Rightarrow> bytes \<Rightarrow> uuid tx" where
  "customer_with_pin oid h = query_one (\<lambda>s. map_option cust_id (find (\<lambda>c. own s (cust_org_id c) \<and>
     cust_org_id c = oid \<and> h \<noteq> [] \<and> cust_kra_pin_hash c = h) (customers s)))"

definition customer_with_msisdn :: "uuid \<Rightarrow> bytes \<Rightarrow> uuid tx" where
  "customer_with_msisdn oid h = query_one (\<lambda>s. map_option cust_id (find (\<lambda>c. own s (cust_org_id c) \<and>
     cust_org_id c = oid \<and> h \<noteq> [] \<and> cust_msisdn_hash c = h) (customers s)))"

definition name_customer :: "string \<Rightarrow> uuid \<Rightarrow> unit tx" where
  "name_customer name i = update (\<lambda>s. s\<lparr>customers := update_rows
     (\<lambda>c. own s (cust_org_id c) \<and> cust_id c = i \<and> cust_name c = [])
     (\<lambda>c. c\<lparr>cust_name := name\<rparr>) (customers s)\<rparr>)"

definition set_customer_msisdn :: "bytes \<Rightarrow> bytes \<Rightarrow> uuid \<Rightarrow> unit tx" where
  "set_customer_msisdn enc h i = update (\<lambda>s. s\<lparr>customers := update_rows
     (\<lambda>c. own s (cust_org_id c) \<and> cust_id c = i)
     (\<lambda>c. c\<lparr>cust_msisdn_enc := enc, cust_msisdn_hash := h\<rparr>) (customers s)\<rparr>)"

definition pin_taken :: "db \<Rightarrow> uuid \<Rightarrow> bytes \<Rightarrow> uuid \<Rightarrow> bool" where
  "pin_taken s oid h i \<longleftrightarrow> h \<noteq> [] \<and>
     list_ex (\<lambda>d. cust_id d \<noteq> i \<and> cust_org_id d = oid \<and> cust_kra_pin_hash d = h) (customers s)"

definition overwrite_customer_pin :: "bytes \<Rightarrow> bytes \<Rightarrow> uuid \<Rightarrow> unit tx" where
  "overwrite_customer_pin enc h i = stmt (\<lambda>s.
     let p = (\<lambda>c. own s (cust_org_id c) \<and> cust_id c = i) in
     if list_ex (\<lambda>c. p c \<and> pin_taken s (cust_org_id c) h i) (customers s) then Inl unique_violation
     else Inr ((), s\<lparr>customers := update_rows p
       (\<lambda>c. c\<lparr>cust_kra_pin_enc := enc, cust_kra_pin_hash := h\<rparr>) (customers s)\<rparr>))"

definition insert_customer ::
    "uuid \<Rightarrow> string \<Rightarrow> bytes \<times> bytes \<Rightarrow> bytes \<times> bytes \<Rightarrow> uuid tx" where
  "insert_customer oid name m p = stmt (\<lambda>s.
     if \<not> own s oid then Inl rls_violation
     else if pin_taken s oid (snd p) (next_id s) then Inl unique_violation
     else Inr (next_id s, s\<lparr>next_id := Suc (next_id s), customers := customers s @
       [\<lparr>cust_id = next_id s, cust_org_id = oid, cust_name = name, cust_msisdn_enc = fst m,
         cust_msisdn_hash = snd m, cust_kra_pin_enc = fst p, cust_kra_pin_hash = snd p,
         cust_created_at = clock s\<rparr>]\<rparr>))"

definition CreateItem :: "uuid \<Rightarrow> Item \<Rightarrow> Item tx" where
  "CreateItem oid it = stmt (\<lambda>s.
     let r = it\<lparr>item_id := next_id s, item_org_id := oid, item_is_active := True\<rparr> in
     if \<not> own s oid then Inl rls_violation
     else if \<not> numeric_ok (item_stock_qty r) then Inl numeric_overflow
     else if \<not> tax_category_valid (item_tax_category r) \<or> item_price_cents r < 0 then Inl check_violation
     else Inr (r, s\<lparr>next_id := Suc (next_id s), items := items s @ [r]\<rparr>))"

definition UpdateItem :: "uuid \<Rightarrow> (Item \<Rightarrow> Item) \<Rightarrow> Item tx" where
  "UpdateItem i f = stmt (\<lambda>s.
     let p = (\<lambda>r. own s (item_org_id r) \<and> item_id r = i) in
     case find p (items s) of
       None \<Rightarrow> Inl ErrNoRows
     | Some r \<Rightarrow>
         if \<not> numeric_ok (item_stock_qty (f r)) then Inl numeric_overflow
         else if \<not> tax_category_valid (item_tax_category (f r)) \<or> item_price_cents (f r) < 0
         then Inl check_violation
         else Inr (f r, s\<lparr>items := update_rows p f (items s)\<rparr>))"

definition set_payment_msisdn :: "bytes \<Rightarrow> bytes \<Rightarrow> uuid \<Rightarrow> unit tx" where
  "set_payment_msisdn enc h i = update (\<lambda>s. s\<lparr>payments := update_rows
     (\<lambda>r. own s (pay_org_id r) \<and> pay_id r = i)
     (\<lambda>r. r\<lparr>pay_msisdn_enc := enc, pay_msisdn_hash := h\<rparr>) (payments s)\<rparr>)"

definition delete_notifications :: "uuid \<Rightarrow> uuid \<Rightarrow> string \<Rightarrow> unit tx" where
  "delete_notifications oid iid template = update (\<lambda>s. s\<lparr>notifications :=
     filter (\<lambda>n. \<not> (own s (nt_org_id n) \<and> nt_org_id n = oid \<and> nt_invoice_id n = Some iid \<and>
       nt_template n = template)) (notifications s)\<rparr>)"

text \<open>The database's collation order of the names is left out.\<close>

definition ListItems :: "uuid \<Rightarrow> Item list tx" where
  "ListItems oid = query (\<lambda>s. filter (\<lambda>r. own s (item_org_id r) \<and> item_org_id r = oid \<and>
     item_is_active r) (items s))"

text \<open>Newest first, \<open>LIMIT\<close> and \<open>OFFSET\<close>; Postgres refuses a negative offset.\<close>

definition page_of :: "int \<Rightarrow> int \<Rightarrow> ('r \<Rightarrow> time) \<Rightarrow> 'r list \<Rightarrow> 'r list" where
  "page_of limit offset t rows = take (nat limit) (drop (nat offset) (sort_key (\<lambda>r. - t r) rows))"

definition negative_offset :: go_error where "negative_offset = PgError ''2201X''"

definition paged :: "int \<Rightarrow> int \<Rightarrow> ('r \<Rightarrow> time) \<Rightarrow> (db \<Rightarrow> 'r list) \<Rightarrow> 'r list tx" where
  "paged limit offset t q = (if offset < 0 then stmt (\<lambda>s. Inl negative_offset)
     else query (\<lambda>s. page_of limit offset t (q s)))"

definition ListSales :: "uuid \<Rightarrow> int \<Rightarrow> int \<Rightarrow> string option \<Rightarrow> Sale list tx" where
  "ListSales oid limit offset st = paged limit offset sale_created_at (\<lambda>s.
     filter (\<lambda>r. sees_sale s r \<and> sale_org_id r = oid \<and>
        (case st of None \<Rightarrow> True | Some x \<Rightarrow> sale_status r = x)) (sales s))"

text \<open>The search text and the hash of the number it may be; an empty hash is SQL's NULL.\<close>

definition payment_found :: "string option \<Rightarrow> bytes \<Rightarrow> Payment \<Rightarrow> bool" where
  "payment_found q h r = (case q of None \<Rightarrow> True
   | Some t \<Rightarrow> ilike t (pay_trans_id r) \<or> ilike t (pay_payer_name r) \<or> ilike t (pay_bill_ref r) \<or>
       h \<noteq> [] \<and> pay_msisdn_hash r = h)"

definition ListPayments :: "uuid \<Rightarrow> int \<Rightarrow> int \<Rightarrow> string option \<Rightarrow> string option \<Rightarrow> bytes \<Rightarrow> Payment list tx" where
  "ListPayments oid limit offset st q h = paged limit offset pay_paid_at (\<lambda>s.
     filter (\<lambda>r. sees_payment s r \<and> pay_org_id r = oid \<and>
        (case st of None \<Rightarrow> True | Some x \<Rightarrow> pay_status r = x) \<and> payment_found q h r) (payments s))"

record invoice_search =
  is_State :: "State option"
  is_Kind :: "string option"
  is_From :: "time option"
  is_To :: "time option"
  is_Query :: "string option"
  is_PhoneHash :: bytes

definition in_state :: "State \<Rightarrow> invoice_search" where
  "in_state st = \<lparr>is_State = Some st, is_Kind = None, is_From = None, is_To = None, is_Query = None, is_PhoneHash = []\<rparr>"

text \<open>The sub-selects look at the rows the policies of their tables show.\<close>

definition payment_of :: "db \<Rightarrow> Invoice \<Rightarrow> (Payment \<Rightarrow> bool) \<Rightarrow> bool" where
  "payment_of s r p \<longleftrightarrow> list_ex (\<lambda>y. sees_payment s y \<and> inv_payment_id r = Some (pay_id y) \<and> p y) (payments s)"

definition invoice_text :: "db \<Rightarrow> string \<Rightarrow> bytes \<Rightarrow> Invoice \<Rightarrow> bool" where
  "invoice_text s t h r \<longleftrightarrow> t = [] \<or>
     ilike t (inv_receipt_code r) \<or>
     (case inv_kra_invoice_no r of None \<Rightarrow> False | Some n \<Rightarrow> ilike t n) \<or>
     ilike t (inv_buyer_name r) \<or>
     h \<noteq> [] \<and> (inv_buyer_pin_hash r = h \<or> payment_of s r (\<lambda>y. pay_msisdn_hash y = h)) \<or>
     list_ex (\<lambda>l. sees_sale_item s l \<and> si_sale_id l = inv_sale_id r \<and> ilike t (si_description l)) (sale_items s) \<or>
     payment_of s r (\<lambda>y. ilike t (pay_trans_id y) \<or> ilike t (pay_payer_name y)) \<or>
     list_ex (\<lambda>sa. sees_sale s sa \<and> sale_id sa = inv_sale_id r \<and>
       list_ex (\<lambda>c. own s (cust_org_id c) \<and> sale_customer_id sa = Some (cust_id c) \<and> ilike t (cust_name c))
         (customers s)) (sales s)"

definition invoice_found :: "db \<Rightarrow> invoice_search \<Rightarrow> Invoice \<Rightarrow> bool" where
  "invoice_found s f r \<longleftrightarrow>
     (case is_State f of None \<Rightarrow> True | Some x \<Rightarrow> inv_state r = x) \<and>
     (case is_Kind f of None \<Rightarrow> True | Some x \<Rightarrow> inv_kind r = x) \<and>
     (case is_From f of None \<Rightarrow> True | Some t \<Rightarrow> t \<le> inv_created_at r) \<and>
     (case is_To f of None \<Rightarrow> True | Some t \<Rightarrow> inv_created_at r < t) \<and>
     (case is_Query f of None \<Rightarrow> True | Some t \<Rightarrow> invoice_text s t (is_PhoneHash f) r)"

definition ListInvoices :: "uuid \<Rightarrow> int \<Rightarrow> int \<Rightarrow> invoice_search \<Rightarrow> Invoice list tx" where
  "ListInvoices oid limit offset f = paged limit offset inv_created_at (\<lambda>s.
     filter (\<lambda>r. sees_invoice s r \<and> inv_org_id r = oid \<and> invoice_found s f r) (invoices s))"

subsection \<open>Lines of a sale\<close>

record saleLineInput =
  sli_ItemID :: "uuid option"
  sli_Description :: string
  sli_EtimsClassCode :: string
  sli_Qty :: string
  sli_UnitPriceCents :: int
  sli_TaxCategory :: string

record sale_line = saleLineInput +
  ln_item :: "Item option"
  ln_cat :: TaxCategory
  ln_qty :: int
  ln_total :: int
  ln_tax :: int
  ln_position :: int

definition sale_line_error :: "nat \<Rightarrow> string \<Rightarrow> go_error" where
  "sale_line_error n what = Invalid (''lines['' @ itoa (int n) @ ''].'' @ what)"

text \<open>The item's values stand in for what the line leaves out.\<close>

definition with_item :: "Item \<Rightarrow> saleLineInput \<Rightarrow> saleLineInput" where
  "with_item it l = l\<lparr>
     sli_Description := (if sli_Description l = [] then item_name it else sli_Description l),
     sli_TaxCategory := (if sli_TaxCategory l = [] then item_tax_category it else sli_TaxCategory l),
     sli_UnitPriceCents := (if sli_UnitPriceCents l = 0 then item_price_cents it else sli_UnitPriceCents l),
     sli_EtimsClassCode := (if sli_EtimsClassCode l = [] then item_class_code it else sli_EtimsClassCode l)\<rparr>"

definition check_line :: "nat \<Rightarrow> Item option \<Rightarrow> saleLineInput \<Rightarrow> go_error + sale_line" where
  "check_line n it l =
     (if sli_Description l = [] then Inl (sale_line_error n ''description is required'')
      else if sli_EtimsClassCode l = [] then
        Inl (sale_line_error n ''etims_class_code is required when item_id is not given'')
      else case ParseTaxCategory (sli_TaxCategory l) of
        Inl _ \<Rightarrow> Inl (sale_line_error n ''tax_category must be one of A, B, C, D, E'')
      | Inr cat \<Rightarrow> (case ParseInt (if sli_Qty l = [] then ''1'' else sli_Qty l) of
          None \<Rightarrow> Inl (sale_line_error n ''qty must be a positive whole number'')
        | Some q \<Rightarrow>
            if q \<le> 0 then Inl (sale_line_error n ''qty must be a positive whole number'')
            else if sli_UnitPriceCents l \<le> 0 then Inl (sale_line_error n ''unit_price_cents must be > 0'')
            else let tot = wrap64 (q * sli_UnitPriceCents l) in
              Inr (saleLineInput.extend (l\<lparr>sli_Qty := (if sli_Qty l = [] then ''1'' else sli_Qty l)\<rparr>)
                (sale_line.fields it cat q tot (LineTax tot (RateBP cat)) (int n)))))"

definition read_line :: "nat \<Rightarrow> saleLineInput \<Rightarrow> sale_line tx" where
  "read_line n l = (case sli_ItemID l of
     None \<Rightarrow> of_result (check_line n None l)
   | Some i \<Rightarrow> tbind (attempt (GetItem i)) (\<lambda>r. case r of
       Inl _ \<Rightarrow> raise (sale_line_error n ''item_id does not exist'')
     | Inr it \<Rightarrow> of_result (check_line n (Some it) (with_item it l))))"

fun read_lines :: "nat \<Rightarrow> saleLineInput list \<Rightarrow> sale_line list tx" where
  "read_lines n [] = ret []"
| "read_lines n (l # ls) = tbind (read_line n l) (\<lambda>x. tbind (read_lines (Suc n) ls) (\<lambda>xs. ret (x # xs)))"

text \<open>\<open>subtotal += ln.total - ln.tax; tax += ln.tax\<close>\<close>

fun line_sums :: "sale_line list \<Rightarrow> int \<Rightarrow> int \<Rightarrow> int \<times> int" where
  "line_sums [] subtotal tax = (subtotal, tax)"
| "line_sums (l # ls) subtotal tax =
     line_sums ls (wrap64 (subtotal + wrap64 (ln_total l - ln_tax l))) (wrap64 (tax + ln_tax l))"

definition line_params :: "uuid \<Rightarrow> uuid \<Rightarrow> sale_line \<Rightarrow> CreateSaleItemParams" where
  "line_params oid sid l = \<lparr>ci_OrgID = oid, ci_SaleID = sid, ci_ItemID = sli_ItemID l,
     ci_Description = sli_Description l, ci_EtimsClassCode = sli_EtimsClassCode l,
     ci_Unit = (case ln_item l of None \<Rightarrow> ''PCS'' | Some it \<Rightarrow> item_unit it),
     ci_Qty = 1000 * ln_qty l, ci_UnitPriceCents = sli_UnitPriceCents l,
     ci_TaxCategory = ln_cat l, ci_TaxRateBp = RateBP (ln_cat l), ci_LineTotalCents = ln_total l,
     ci_LineTaxCents = ln_tax l, ci_Position = ln_position l\<rparr>"

fun create_lines :: "uuid \<Rightarrow> uuid \<Rightarrow> sale_line list \<Rightarrow> SaleItem list tx" where
  "create_lines oid sid [] = ret []"
| "create_lines oid sid (l # ls) = tbind (CreateSaleItem (line_params oid sid l)) (\<lambda>r.
     tbind (create_lines oid sid ls) (\<lambda>rs. ret (r # rs)))"

subsection \<open>The buyer\<close>

definition taxpayer_name :: "(string \<Rightarrow> go_error + string) option \<Rightarrow> string \<Rightarrow> string \<Rightarrow> string" where
  "taxpayer_name resolver pin name = (case resolver of None \<Rightarrow> name
     | Some CheckPIN \<Rightarrow> (case CheckPIN pin of Inl _ \<Rightarrow> name | Inr n \<Rightarrow> if n \<noteq> [] then n else name))"

definition pin_keys ::
    "Keyring \<Rightarrow> (string \<Rightarrow> go_error + string) option \<Rightarrow> string \<Rightarrow> string \<Rightarrow> string \<Rightarrow> (string \<times> bytes \<times> bytes) tx" where
  "pin_keys k resolver complaint pin name =
     (if pin = [] then ret (name, [], [])
      else if \<not> PINRe pin then raise (Invalid complaint)
      else tbind (EncryptString k pin) (\<lambda>enc. ret (taxpayer_name resolver pin name, enc, Hash k pin)))"

definition known_customer :: "uuid tx \<Rightarrow> (uuid \<Rightarrow> unit tx) \<Rightarrow> uuid option tx" where
  "known_customer q touch = tbind (attempt q) (\<lambda>r. case r of Inl _ \<Rightarrow> ret None
     | Inr c \<Rightarrow> tbind (touch c) (\<lambda>_. ret (Some c)))"

definition or_else :: "uuid option \<Rightarrow> uuid option tx \<Rightarrow> uuid option tx" where
  "or_else found m = (case found of Some c \<Rightarrow> ret (Some c) | None \<Rightarrow> m)"

definition do_if :: "bool \<Rightarrow> unit tx \<Rightarrow> unit tx" where
  "do_if b m = (if b then m else ret ())"

definition new_customer ::
    "uuid \<Rightarrow> string \<Rightarrow> bytes \<times> bytes \<Rightarrow> bytes \<times> bytes \<Rightarrow> uuid option tx" where
  "new_customer oid name m p = tbind (attempt (insert_customer oid name m p)) (\<lambda>r.
     ret (case r of Inl _ \<Rightarrow> None | Inr c \<Rightarrow> Some c))"

text \<open>\<open>createSaleFromLines\<close>: the customer of a payment that is being converted.\<close>

definition payer_customer ::
    "uuid \<Rightarrow> string \<Rightarrow> bytes \<times> bytes \<Rightarrow> bytes \<times> bytes \<Rightarrow> uuid option tx" where
  "payer_customer oid name m p =
     tbind (if snd p = [] then ret None
       else known_customer (customer_with_pin oid (snd p))
         (\<lambda>c. do_if (name \<noteq> []) (ignore (name_customer name c)))) (\<lambda>by_pin.
     tbind (or_else by_pin (if snd m = [] then ret None
       else known_customer (customer_with_msisdn oid (snd m))
         (\<lambda>c. do_if (name \<noteq> []) (ignore (name_customer name c))))) (\<lambda>found.
     or_else found (if snd p = [] \<and> snd m = [] then ret None else new_customer oid name m p)))"

text \<open>\<open>createSale\<close>: the customer of a new sale, completed with what the request says.\<close>

definition buyer_customer ::
    "uuid \<Rightarrow> string \<Rightarrow> bytes \<times> bytes \<Rightarrow> bytes \<times> bytes \<Rightarrow> uuid option tx" where
  "buyer_customer oid name m p =
     tbind (if snd p = [] then ret None
       else known_customer (customer_with_pin oid (snd p))
         (\<lambda>c. tbind (do_if (name \<noteq> []) (ignore (name_customer name c))) (\<lambda>_.
            do_if (fst m \<noteq> []) (ignore (set_customer_msisdn (fst m) (snd m) c))))) (\<lambda>by_pin.
     tbind (or_else by_pin (if snd m = [] then ret None
       else known_customer (customer_with_msisdn oid (snd m))
         (\<lambda>c. tbind (do_if (name \<noteq> []) (ignore (name_customer name c))) (\<lambda>_.
            do_if (fst p \<noteq> []) (ignore (overwrite_customer_pin (fst p) (snd p) c)))))) (\<lambda>found.
     or_else found (new_customer oid name m p)))"

subsection \<open>Recording a sale\<close>

record sale_source =
  ss_BuyerPIN :: string
  ss_BuyerName :: string
  ss_PayerName :: string
  ss_Msisdn :: "bytes \<times> bytes" \<comment> \<open>encrypted, hash\<close>

definition createSaleFromLines ::
    "Keyring \<Rightarrow> (string \<Rightarrow> go_error + string) option \<Rightarrow> uuid \<Rightarrow> uuid \<Rightarrow> saleLineInput list \<Rightarrow> time \<Rightarrow>
      sale_source \<Rightarrow> Sale tx" where
  "createSaleFromLines k resolver oid uid linesInput paidAt src =
     (let given = trim_space (ss_BuyerName src) in
      tbind (pin_keys k resolver ''buyer_pin must be a valid KRA PIN''
          (to_upper (trim_space (ss_BuyerPIN src)))
          (if given = [] then ss_PayerName src else given)) (\<lambda>(name, pin).
      tbind (payer_customer oid name (ss_Msisdn src) pin) (\<lambda>customerID.
      tbind (read_lines 0 linesInput) (\<lambda>lines.
      tbind (NextSaleRef oid) (\<lambda>ref.
      tbind (CreateSale
        \<lparr>cs_OrgID = oid, cs_Ref = ref, cs_Kind = ''cash'', cs_Status = ''paid'',
         cs_CustomerID = customerID, cs_SubtotalCents = fst (line_sums lines 0 0),
         cs_TaxCents = snd (line_sums lines 0 0),
         cs_TotalCents = wrap64 (fst (line_sums lines 0 0) + snd (line_sums lines 0 0)),
         cs_ClientRef = None, cs_CreatedBy = Some uid, cs_PaidAt = Some paidAt,
         cs_BuyerName = name\<rparr>) (\<lambda>sale.
      tbind (create_lines oid (sale_id sale) lines) (\<lambda>_. ret sale)))))))"

record saleInput =
  sin_Kind :: string
  sin_Lines :: "saleLineInput list"
  sin_BuyerMSISDN :: string
  sin_BuyerPIN :: string
  sin_BuyerName :: string
  sin_CustomerMSISDN :: string
  sin_CustomerName :: string
  sin_ClientRef :: "string option"
  sin_Paid :: bool

definition sale_is_paid :: "saleInput \<Rightarrow> bool" where
  "sale_is_paid inp \<longleftrightarrow> sin_Kind inp \<noteq> ''open'' \<and> (sin_Paid inp \<or> sin_Kind inp = ''cash'')"

definition msisdn_keys :: "Keyring \<Rightarrow> string \<Rightarrow> (bytes \<times> bytes) tx" where
  "msisdn_keys k msisdn = (if msisdn = [] then ret ([], [])
     else case NormaliseMSISDN msisdn of
       Inl _ \<Rightarrow> raise (Invalid ''buyer_msisdn is not a valid Kenyan number'')
     | Inr norm \<Rightarrow> tbind (EncryptString k norm) (\<lambda>enc. ret (enc, Hash k norm)))"

text \<open>The buyer of a new sale: the name on the sale and the customer row, when anything is known.\<close>

definition sale_customer ::
    "Keyring \<Rightarrow> (string \<Rightarrow> go_error + string) option \<Rightarrow> uuid \<Rightarrow> saleInput \<Rightarrow> (string \<times> uuid option) tx" where
  "sale_customer k resolver oid inp =
     (let msisdn = (if sin_BuyerMSISDN inp = [] then sin_CustomerMSISDN inp else sin_BuyerMSISDN inp);
          name = (if sin_BuyerName inp = [] then sin_CustomerName inp else sin_BuyerName inp);
          pin = to_upper (trim_space (sin_BuyerPIN inp)) in
      if msisdn = [] \<and> pin = [] \<and> name = [] then ret (name, None)
      else
        tbind (msisdn_keys k msisdn) (\<lambda>m.
        tbind (pin_keys k resolver ''buyer_pin must be a valid KRA PIN (A or P, 9 digits and a letter)''
          pin name) (\<lambda>(name', p).
        tbind (buyer_customer oid name' m p) (\<lambda>c. ret (name', c)))))"

definition create_sale_tx ::
    "Keyring \<Rightarrow> (string \<Rightarrow> go_error + string) option \<Rightarrow> time \<Rightarrow> uuid \<Rightarrow> uuid \<Rightarrow> saleInput \<Rightarrow> SaleView tx" where
  "create_sale_tx k resolver now oid uid inp =
     tbind (sale_customer k resolver oid inp) (\<lambda>(name, customerID).
     tbind (read_lines 0 (sin_Lines inp)) (\<lambda>lines.
     tbind (NextSaleRef oid) (\<lambda>ref.
     let paid = sale_is_paid inp; word = (if paid then ''cash'' else ''open'') in
     tbind (CreateSale
       \<lparr>cs_OrgID = oid, cs_Ref = ref, cs_Kind = word, cs_Status = (if paid then ''paid'' else ''open''),
        cs_CustomerID = customerID, cs_SubtotalCents = fst (line_sums lines 0 0),
        cs_TaxCents = snd (line_sums lines 0 0),
        cs_TotalCents = wrap64 (fst (line_sums lines 0 0) + snd (line_sums lines 0 0)),
        cs_ClientRef = sin_ClientRef inp, cs_CreatedBy = Some uid,
        cs_PaidAt = (if paid then Some now else None), cs_BuyerName = name\<rparr>) (\<lambda>sale.
     tbind (create_lines oid (sale_id sale) lines) (\<lambda>rows.
     tbind (if paid then
         tbind (CreateInvoiceForSale now oid (sale_id sale) None now) (\<lambda>iv. ret (Some (inv_id iv)))
       else ret None) (\<lambda>iid.
     tbind (AppendAudit oid ''user'' (Some (uuid_String uid)) ''sale.created'' ''sale'' (sale_id sale) NoAfter) (\<lambda>_.
     ret ((toSale sale rows)\<lparr>slv_InvoiceID := iid\<rparr>))))))))"

definition quoted :: "string \<Rightarrow> string" where "quoted w = CHR 0x27 # w @ [CHR 0x27]"

definition createSale ::
    "Keyring \<Rightarrow> (string \<Rightarrow> go_error + string) option \<Rightarrow> time \<Rightarrow> HttpPrincipal \<Rightarrow> saleInput option \<Rightarrow>
      SaleView response tx" where
  "createSale k resolver now p body = (case body of
     None \<Rightarrow> ret (Fail 400 ''bad_request''
       ''Body must match {kind, lines[], buyer_msisdn?, buyer_pin?, buyer_name?, client_ref?}'')
   | Some inp \<Rightarrow>
       if sin_Kind inp \<noteq> [] \<and> sin_Kind inp \<noteq> ''open'' \<and> sin_Kind inp \<noteq> ''cash''
       then ret (ledger_fail (Invalid (''kind must be '' @ quoted ''open'' @ '' or '' @ quoted ''cash'')) [])
       else if sin_Lines inp = [] \<or> 50 < length (sin_Lines inp)
       then ret (ledger_fail (Invalid (''lines must contain 1'' @ en_dash @ ''50 entries'')) [])
       else answer (WithOrg (pr_OrgID p) (create_sale_tx k resolver now (pr_OrgID p) (pr_UserID p) inp))
         (\<lambda>e. ledger_fail e ''Could not create the sale'') (\<lambda>v. JSON 201 v))"

definition getSale :: "HttpPrincipal \<Rightarrow> uuid option \<Rightarrow> SaleView response tx" where
  "getSale p pid = idParam pid (\<lambda>i. answer (WithOrg (pr_OrgID p) (
     tbind (GetSale i) (\<lambda>sa.
     tbind (ListSaleItems i) (\<lambda>rows.
     tbind (invoiceIDForSale (Some (sale_id sa))) (\<lambda>iid.
     ret ((toSale sa rows)\<lparr>slv_InvoiceID := iid\<rparr>))))))
     (\<lambda>e. ledger_fail e ''Could not load the sale'') (\<lambda>v. JSON 200 v))"

definition getPayment :: "Keyring \<Rightarrow> HttpPrincipal \<Rightarrow> uuid option \<Rightarrow> PaymentView response tx" where
  "getPayment k p pid = idParam pid (\<lambda>i. answer (WithOrg (pr_OrgID p) (
     tbind (GetPayment i) (\<lambda>r.
     tbind (invoiceIDForSale (pay_sale_id r)) (\<lambda>iid. ret (toPayment k r iid)))))
     (\<lambda>e. ledger_fail e ''Payment not found'') (\<lambda>v. JSON 200 v))"

subsection \<open>Converting a payment, settling a sale\<close>

record convertInput =
  cvi_ItemID :: "uuid option"
  cvi_SaleID :: "uuid option"
  cvi_Lines :: "saleLineInput list"
  cvi_BuyerPIN :: string
  cvi_BuyerName :: string

definition convert_to_open_sale :: "Payment \<Rightarrow> uuid \<Rightarrow> uuid tx" where
  "convert_to_open_sale p sid =
     tbind (attempt (GetSale sid)) (\<lambda>r. case r of
       Inl _ \<Rightarrow> raise (Invalid ''sale_id must be an open sale'')
     | Inr sa \<Rightarrow> if sale_status sa \<noteq> ''open'' then raise (Invalid ''sale_id must be an open sale'')
         else tbind (MarkSalePaid (sale_id sa) (pay_paid_at p)) (\<lambda>_. ret (sale_id sa)))"

definition convert_to_cash_sale :: "Payment \<Rightarrow> uuid option \<Rightarrow> uuid tx" where
  "convert_to_cash_sale p item =
     tbind (GetShortcode (pay_shortcode_id p)) (\<lambda>sc.
     case (case item of Some i \<Rightarrow> Some i | None \<Rightarrow> sc_default_item_id sc) of
       None \<Rightarrow> raise (Invalid ''item_id is required: this shortcode has no default item'')
     | Some i \<Rightarrow>
         tbind (createCashSale
           \<lparr>rs_ID = sc_id sc, rs_OrgID = sc_org_id sc, rs_Shortcode = sc_shortcode sc,
            rs_DefaultItemID = Some i, rs_AutoInvoice = True, rs_Status = sc_status sc\<rparr>
           \<lparr>c2b_Kind = [], c2b_TransID = pay_trans_id p, c2b_ShortCode = [],
            c2b_AmountCents = pay_amount_cents p, c2b_MSISDN = [], c2b_PayerName = pay_payer_name p,
            c2b_BillRef = pay_bill_ref p, c2b_PaidAt = pay_paid_at p, c2b_OriginalID = [], c2b_Raw = []\<rparr>
           (pay_msisdn_hash p) (pay_msisdn_enc p)) (\<lambda>sale. ret (sale_id sale)))"

definition convert_target ::
    "Keyring \<Rightarrow> (string \<Rightarrow> go_error + string) option \<Rightarrow> uuid \<Rightarrow> uuid \<Rightarrow> convertInput \<Rightarrow> Payment \<Rightarrow>
      (uuid \<times> string) tx" where
  "convert_target k resolver oid uid inp p =
     (case cvi_SaleID inp of
        Some sid \<Rightarrow> tbind (convert_to_open_sale p sid) (\<lambda>i. ret (i, StatusMatched))
      | None \<Rightarrow>
          if cvi_Lines inp \<noteq> [] then
            tbind (createSaleFromLines k resolver oid uid (cvi_Lines inp) (pay_paid_at p)
              \<lparr>ss_BuyerPIN = cvi_BuyerPIN inp, ss_BuyerName = cvi_BuyerName inp,
               ss_PayerName = pay_payer_name p, ss_Msisdn = (pay_msisdn_enc p, pay_msisdn_hash p)\<rparr>)
              (\<lambda>sale. ret (sale_id sale, StatusMatched))
          else tbind (convert_to_cash_sale p (cvi_ItemID inp)) (\<lambda>i. ret (i, StatusCashSale)))"

definition convert_tx ::
    "Keyring \<Rightarrow> (string \<Rightarrow> go_error + string) option \<Rightarrow> time \<Rightarrow> uuid \<Rightarrow> uuid \<Rightarrow> uuid \<Rightarrow> convertInput \<Rightarrow> Invoice tx" where
  "convert_tx k resolver now oid uid i inp =
     tbind (GetPayment i) (\<lambda>p.
     if pay_status p \<noteq> StatusUnmatched \<and> pay_status p \<noteq> StatusPartial
     then raise (Wrap (err_text ErrDuplicate @ '': payment is already '' @ pay_status p) ErrDuplicate)
     else
       tbind (convert_target k resolver oid uid inp p) (\<lambda>(sid, status).
       tbind (AttachPaymentToSale (pay_id p) (Some sid) status (Some RuleManual)) (\<lambda>_.
       tbind (CreateInvoiceForSale now oid sid (Some (pay_id p)) (pay_paid_at p)) (\<lambda>iv.
       tbind (AppendAudit oid ''user'' (Some (uuid_String uid)) ''payment.converted'' ''payment''
         (pay_id p) NoAfter) (\<lambda>_. ret iv)))))"

text \<open>An empty body is the empty request; \<open>None\<close> is a body that does not decode.\<close>

definition convertPayment ::
    "Keyring \<Rightarrow> (string \<Rightarrow> go_error + string) option \<Rightarrow> string \<Rightarrow> time \<Rightarrow> HttpPrincipal \<Rightarrow> uuid option \<Rightarrow>
      convertInput option \<Rightarrow> InvoiceView response tx" where
  "convertPayment k resolver base now p pid body = idParam pid (\<lambda>i. case body of
     None \<Rightarrow> ret (Fail 400 ''bad_request'' ''Body must be {item_id?}, {sale_id?}, or {lines?}'')
   | Some inp \<Rightarrow> answer (WithOrg (pr_OrgID p)
         (convert_tx k resolver now (pr_OrgID p) (pr_UserID p) i inp))
       (\<lambda>e. ledger_fail e ''Could not convert the payment'') (\<lambda>iv. JSON 201 (toInvoice k base iv)))"

definition settle_tx :: "time \<Rightarrow> uuid \<Rightarrow> uuid \<Rightarrow> uuid \<Rightarrow> Invoice tx" where
  "settle_tx now oid uid i =
     tbind (GetSale i) (\<lambda>sa.
     if sale_status sa \<noteq> ''open''
     then raise (Wrap (err_text ErrDuplicate @ '': sale is already '' @ sale_status sa) ErrDuplicate)
     else
       tbind (ListPaymentsForSale (sale_id sa)) (\<lambda>ps.
       tbind (MarkSalePaid (sale_id sa) now) (\<lambda>_.
       tbind (for_each (\<lambda>p. do_if (pay_status p = StatusPartial)
           (ignore (UpdatePaymentStatus (pay_id p) StatusMatched))) ps) (\<lambda>_.
       tbind (CreateInvoiceForSale now oid (sale_id sa)
           (if ps = [] then None else Some (pay_id (last ps))) now) (\<lambda>iv.
       tbind (AppendAudit oid ''user'' (Some (uuid_String uid)) ''sale.settled'' ''sale'' (sale_id sa) NoAfter)
         (\<lambda>_. ret iv))))))"

text \<open>The body's \<open>cash_cents\<close> is decoded and not used.\<close>

definition settleSale ::
    "Keyring \<Rightarrow> string \<Rightarrow> time \<Rightarrow> HttpPrincipal \<Rightarrow> uuid option \<Rightarrow> int option \<Rightarrow> InvoiceView response tx" where
  "settleSale k base now p pid cash = idParam pid (\<lambda>i.
     answer (WithOrg (pr_OrgID p) (settle_tx now (pr_OrgID p) (pr_UserID p) i))
       (\<lambda>e. ledger_fail e ''Could not settle the sale'') (\<lambda>iv. JSON 200 (toInvoice k base iv)))"

subsection \<open>Items\<close>

record itemInput =
  iin_Name :: "string option"
  iin_EtimsClassCode :: "string option"
  iin_TaxCategory :: "string option"
  iin_Unit :: "string option"
  iin_PriceCents :: "int option"
  iin_IsActive :: "bool option"
  iin_TrackStock :: "bool option"
  iin_StockQty :: "string option"

definition validate_item :: "itemInput \<Rightarrow> bool \<Rightarrow> go_error option" where
  "validate_item inp creating =
     (if creating \<and> (iin_Name inp = None \<or> iin_EtimsClassCode inp = None \<or> iin_TaxCategory inp = None)
      then Some (Invalid ''name, etims_class_code and tax_category are required'')
      else if (case iin_Name inp of Some n \<Rightarrow> trim_space n = [] \<or> 120 < length n | None \<Rightarrow> False)
      then Some (Invalid (''name must be 1'' @ en_dash @ ''120 characters''))
      else if (case iin_TaxCategory inp of Some c \<Rightarrow> isl (ParseTaxCategory c) | None \<Rightarrow> False)
      then Some (Invalid ''tax_category must be one of A, B, C, D, E'')
      else if (case iin_PriceCents inp of Some c \<Rightarrow> c < 0 | None \<Rightarrow> False)
      then Some (Invalid (''price_cents must be '' @ [CHR 0xE2, CHR 0x89, CHR 0xA5] @ '' 0''))
      else None)"

definition numeric_syntax :: go_error where "numeric_syntax = PgError ''22P02''"

definition createItem ::
    "(string \<Rightarrow> int option) \<Rightarrow> HttpPrincipal \<Rightarrow> itemInput option \<Rightarrow> Item response tx" where
  "createItem numeric p body = (case body of
     None \<Rightarrow> ret (Fail 400 ''bad_request''
       ''Body must be {name, etims_class_code, tax_category, unit?, price_cents?}'')
   | Some inp \<Rightarrow> (case validate_item inp True of
       Some e \<Rightarrow> ret (ledger_fail e [])
     | None \<Rightarrow>
         answer (WithOrg (pr_OrgID p) (
           case numeric (case iin_StockQty inp of Some q \<Rightarrow> if q = [] then ''0'' else q | None \<Rightarrow> ''0'') of
             None \<Rightarrow> stmt (\<lambda>_. Inl numeric_syntax)
           | Some q \<Rightarrow> CreateItem (pr_OrgID p)
               \<lparr>item_id = 0, item_org_id = pr_OrgID p,
                item_name = trim_space (the (iin_Name inp)),
                item_class_code = the (iin_EtimsClassCode inp),
                item_tax_category = the (iin_TaxCategory inp),
                item_unit = (case iin_Unit inp of Some u \<Rightarrow> if u = [] then ''PCS'' else u | None \<Rightarrow> ''PCS''),
                item_price_cents = (case iin_PriceCents inp of Some c \<Rightarrow> c | None \<Rightarrow> 0),
                item_is_active = True, item_track_stock = (iin_TrackStock inp = Some True),
                item_stock_qty = q\<rparr>))
           (\<lambda>e. ledger_fail e ''Could not create the item'') (\<lambda>it. JSON 201 it)))"

definition coalesce :: "'a option \<Rightarrow> 'a \<Rightarrow> 'a" where
  "coalesce x d = (case x of Some v \<Rightarrow> v | None \<Rightarrow> d)"

definition edit_item :: "(string \<Rightarrow> int option) \<Rightarrow> itemInput \<Rightarrow> Item \<Rightarrow> Item" where
  "edit_item numeric inp r = r\<lparr>item_name := coalesce (iin_Name inp) (item_name r),
     item_class_code := coalesce (iin_EtimsClassCode inp) (item_class_code r),
     item_tax_category := coalesce (iin_TaxCategory inp) (item_tax_category r),
     item_unit := coalesce (iin_Unit inp) (item_unit r),
     item_price_cents := coalesce (iin_PriceCents inp) (item_price_cents r),
     item_is_active := coalesce (iin_IsActive inp) (item_is_active r),
     item_track_stock := coalesce (iin_TrackStock inp) (item_track_stock r),
     item_stock_qty := coalesce (Option.bind (iin_StockQty inp) numeric) (item_stock_qty r)\<rparr>"

definition updateItem ::
    "(string \<Rightarrow> int option) \<Rightarrow> HttpPrincipal \<Rightarrow> uuid option \<Rightarrow> itemInput option \<Rightarrow> Item response tx" where
  "updateItem numeric p pid body = idParam pid (\<lambda>i. case body of
     None \<Rightarrow> ret (Fail 400 ''bad_request'' ''Body must be a partial item'')
   | Some inp \<Rightarrow> (case validate_item inp False of
       Some e \<Rightarrow> ret (ledger_fail e [])
     | None \<Rightarrow> answer (WithOrg (pr_OrgID p) (UpdateItem i (edit_item numeric inp)))
         (\<lambda>e. ledger_fail e ''Could not update the item'') (\<lambda>it. JSON 200 it)))"

definition listItems :: "HttpPrincipal \<Rightarrow> Item list response tx" where
  "listItems p = answer (WithOrg (pr_OrgID p) (ListItems (pr_OrgID p)))
     (\<lambda>e. ledger_fail e ''Could not list items'') (\<lambda>rows. JSON 200 rows)"

definition listSales :: "HttpPrincipal \<Rightarrow> string \<Rightarrow> string \<Rightarrow> string \<Rightarrow> SaleView list response tx" where
  "listSales p status limit offset =
     answer (WithOrg (pr_OrgID p) (ListSales (pr_OrgID p) (fst (page limit offset))
         (snd (page limit offset)) (optString status)))
       (\<lambda>e. ledger_fail e ''Could not list sales'') (\<lambda>rows. JSON 200 (map (\<lambda>r. toSale r []) rows))"

subsection \<open>Invoices\<close>

definition retryInvoice ::
    "Keyring \<Rightarrow> string \<Rightarrow> HttpPrincipal \<Rightarrow> uuid option \<Rightarrow> InvoiceView response tx" where
  "retryInvoice k base p pid = idParam pid (\<lambda>i.
     tbind (attempt (Retry (pr_OrgID p) i (uuid_String (pr_UserID p)))) (\<lambda>r. case r of
       Inl e \<Rightarrow> ret (ledger_fail e ''Could not re-queue the invoice'')
     | Inr _ \<Rightarrow> answer (WithOrg (pr_OrgID p) (GetInvoice i))
         (\<lambda>e. ledger_fail e ''Could not load the invoice'') (\<lambda>iv. JSON 202 (toInvoice k base iv))))"

definition reissueInvoice ::
    "Keyring \<Rightarrow> string \<Rightarrow> time \<Rightarrow> HttpPrincipal \<Rightarrow> uuid option \<Rightarrow> (string \<times> string) option \<Rightarrow>
      InvoiceView response tx" where
  "reissueInvoice k base now p pid body = idParam pid (\<lambda>i. case body of
     None \<Rightarrow> ret (Fail 400 ''bad_request'' ''Body must match {buyer_pin, buyer_name?}'')
   | Some (pin, name) \<Rightarrow>
       if pin = [] then ret (Fail 422 ''validation'' ''buyer_pin is required'')
       else answer (ReissueInvoice k now (pr_OrgID p) i
           \<lparr>ri_BuyerPIN = pin, ri_BuyerName = name, ri_ActorType = ''user'',
            ri_ActorID = Some (uuid_String (pr_UserID p))\<rparr>)
         (\<lambda>e. if errors_is e ErrInvalidPIN then Fail 422 ''validation''
              ''buyer_pin must be a valid KRA PIN (A or P, 9 digits and a letter)''
            else Fail 400 ''invalid_operation'' (err_text e))
         (\<lambda>iv. JSON 200 (toInvoice k base iv)))"

definition createCreditNote ::
    "Keyring \<Rightarrow> string \<Rightarrow> time \<Rightarrow> HttpPrincipal \<Rightarrow> uuid option \<Rightarrow> string \<Rightarrow> InvoiceView response tx" where
  "createCreditNote k base now p pid reason = idParam pid (\<lambda>i.
     answer (CreateCreditNoteForInvoice now (pr_OrgID p) i reason ''user'' (Some (uuid_String (pr_UserID p))))
       (\<lambda>e. if errors_is e ErrCreditNoteExists then Fail 409 ''credit_note_exists'' (err_text e)
          else ledger_fail e ''Could not create credit note'')
       (\<lambda>iv. JSON 201 (toInvoice k base iv)))"

definition resend_tx :: "Keyring \<Rightarrow> uuid \<Rightarrow> uuid \<Rightarrow> string option \<Rightarrow> unit tx" where
  "resend_tx k oid i msisdn =
     tbind (GetInvoice i) (\<lambda>first.
     tbind (active_invoice first) (\<lambda>iv.
     tbind (case msisdn of None \<Rightarrow> ret ()
       | Some m \<Rightarrow> (case NormaliseMSISDN m of Inl _ \<Rightarrow> ret ()
           | Inr norm \<Rightarrow> tbind (attempt (EncryptString k norm)) (\<lambda>e.
               case inv_payment_id iv of None \<Rightarrow> ret ()
               | Some pid \<Rightarrow> ignore (set_payment_msisdn (case e of Inl _ \<Rightarrow> [] | Inr enc \<Rightarrow> enc) (Hash k norm) pid)))) (\<lambda>_.
     tbind (ignore (delete_notifications oid (inv_id iv) ''receipt_acked'')) (\<lambda>_.
     EnqueueTx (SendReceiptArgs oid (inv_id iv) ''receipt_acked'')))))"

definition resendInvoice ::
    "Keyring \<Rightarrow> HttpPrincipal \<Rightarrow> uuid option \<Rightarrow> string option \<Rightarrow> string response tx" where
  "resendInvoice k p pid msisdn = idParam pid (\<lambda>i.
     answer (WithOrg (pr_OrgID p) (resend_tx k (pr_OrgID p) i msisdn))
       (\<lambda>e. Fail 500 ''internal'' ''Could not resend receipt'') (\<lambda>_. JSON 202 ''queued''))"

record AttentionView =
  att_FailedInvoices :: "InvoiceView list"
  att_UnmatchedPayments :: "PaymentView list"
  att_UnverifiedShortcodes :: "ShortcodeView list"
  att_PendingLong :: "InvoiceView list"
  att_ActionableCount :: int

fun gather :: "('k \<Rightarrow> 'r list tx) \<Rightarrow> 'k list \<Rightarrow> 'r list tx" where
  "gather q [] = ret []"
| "gather q (x # xs) = tbind (q x) (\<lambda>rows. tbind (gather q xs) (\<lambda>rest. ret (rows @ rest)))"

definition attention ::
    "Keyring \<Rightarrow> string \<Rightarrow> duration \<Rightarrow> time \<Rightarrow> HttpPrincipal \<Rightarrow> AttentionView response tx" where
  "attention k base pendingAfter now p =
     (let oid = pr_OrgID p;
          cutoff = now - (if pendingAfter = 0 then 10 * minute else pendingAfter) in
      answer (WithOrg oid (
        tbind (gather (\<lambda>st. ListInvoices oid 100 0 (in_state st)) [StateNeedsReview, StateFailedTerminal]) (\<lambda>failed.
        tbind (gather (\<lambda>st. ListPayments oid 100 0 (Some st) None []) [StatusUnmatched, StatusPartial]) (\<lambda>unmatched.
        tbind (ListShortcodes oid) (\<lambda>scs.
        tbind (gather (\<lambda>st. ListInvoices oid 100 0 (in_state st))
          [StateQueued, StateSubmitted, StateFailedRetryable]) (\<lambda>pending.
        let unverified = filter (\<lambda>r. sc_status r \<noteq> ShortcodeVerified) scs in
        ret \<lparr>att_FailedInvoices = map (toInvoice k base) failed,
          att_UnmatchedPayments = map (\<lambda>r. toPayment k r None) unmatched,
          att_UnverifiedShortcodes = map ToShortcode unverified,
          att_PendingLong = map (toInvoice k base) (filter (\<lambda>i. inv_created_at i < cutoff) pending),
          att_ActionableCount = int (length failed + length unmatched + length unverified)\<rparr>))))))
        (\<lambda>e. ledger_fail e ''Could not build the attention list'') (\<lambda>v. JSON 200 v))"

end
