(* ===== verification/LedgerViews.thy ===== *)
theory LedgerViews
  imports SalesApi Dates
begin

text \<open>
  The remaining read routes of \<open>internal/ledger/handler.go\<close>: the lists of payments and invoices
  with their search parameters, and one invoice with its lines, seller and submissions.
\<close>

definition state_strings :: "(string \<times> State) list" where
  "state_strings = [(''DRAFT'', StateDraft), (''TAX_PENDING'', StateTaxPending), (''QUEUED'', StateQueued),
     (''SUBMITTED'', StateSubmitted), (''ACKED'', StateAcked), (''FAILED_RETRYABLE'', StateFailedRetryable),
     (''FAILED_TERMINAL'', StateFailedTerminal), (''NEEDS_REVIEW'', StateNeedsReview)]"

definition state_of_string :: "string \<Rightarrow> State" where
  "state_of_string v = (case map_of state_strings v of Some st \<Rightarrow> st | None \<Rightarrow> UnknownState v)"

text \<open>The search text of a request, and the hash of the number when it is one.\<close>

definition search_text :: "Keyring \<Rightarrow> string \<Rightarrow> string option \<times> bytes" where
  "search_text k raw = (let q = trim_space raw in
     if q = [] then (None, [])
     else (Some q, case NormaliseMSISDN q of Inl _ \<Rightarrow> [] | Inr norm \<Rightarrow> if norm \<noteq> [] then Hash k norm else []))"

fun with_invoices :: "Keyring \<Rightarrow> Payment list \<Rightarrow> PaymentView list tx" where
  "with_invoices k [] = ret []"
| "with_invoices k (p # ps) = tbind (invoiceIDForSale (pay_sale_id p)) (\<lambda>iid.
     tbind (with_invoices k ps) (\<lambda>rest. ret (toPayment k p iid # rest)))"

definition listPayments ::
    "Keyring \<Rightarrow> HttpPrincipal \<Rightarrow> string \<Rightarrow> string \<Rightarrow> string \<Rightarrow> string \<Rightarrow> (PaymentView list \<times> int \<times> int) response tx" where
  "listPayments k p status q0 limit0 offset0 =
     (case page limit0 offset0 of (limit, offset) \<Rightarrow>
      case search_text k q0 of (q, h) \<Rightarrow>
      answer (WithOrg (pr_OrgID p) (
          tbind (ListPayments (pr_OrgID p) limit offset (optString status) q h) (with_invoices k)))
        (\<lambda>e. ledger_fail e ''Could not list payments'') (\<lambda>rows. JSON 200 (rows, limit, offset)))"

text \<open>The bounds of a period: a time, or a day; the end of a day is the next midnight.\<close>

definition from_param :: "string \<Rightarrow> time option" where
  "from_param raw = (let v = trim_space raw in
     if v = [] then None else case parse_rfc3339 v of Some t \<Rightarrow> Some t | None \<Rightarrow> parse_date v)"

definition to_param :: "string \<Rightarrow> time option" where
  "to_param raw = (let v = trim_space raw in
     if v = [] then None else case parse_rfc3339 v of Some t \<Rightarrow> Some t
     | None \<Rightarrow> map_option (\<lambda>t. t + day) (parse_date v))"

record invoice_params =
  ip_q :: string
  ip_kind :: string
  ip_state :: string
  ip_from :: string
  ip_to :: string
  ip_limit :: string
  ip_offset :: string

definition invoice_filter :: "Keyring \<Rightarrow> invoice_params \<Rightarrow> invoice_search" where
  "invoice_filter k a = \<lparr>is_State = map_option state_of_string (optString (ip_state a)),
     is_Kind = optString (ip_kind a), is_From = from_param (ip_from a), is_To = to_param (ip_to a),
     is_Query = fst (search_text k (ip_q a)), is_PhoneHash = snd (search_text k (ip_q a))\<rparr>"

definition listInvoices ::
    "Keyring \<Rightarrow> string \<Rightarrow> HttpPrincipal \<Rightarrow> invoice_params \<Rightarrow> (InvoiceView list \<times> int \<times> int) response tx" where
  "listInvoices k base p a =
     (case page (ip_limit a) (ip_offset a) of (limit, offset) \<Rightarrow>
      answer (WithOrg (pr_OrgID p) (ListInvoices (pr_OrgID p) limit offset (invoice_filter k a)))
        (\<lambda>e. ledger_fail e ''Could not list invoices'')
        (\<lambda>rows. JSON 200 (map (toInvoice k base) rows, limit, offset)))"

subsection \<open>One invoice\<close>

record SaleLineView =
  lv_ItemID :: "uuid option"
  lv_Description :: string
  lv_Qty :: int
  lv_UnitPriceCents :: int
  lv_TaxCategory :: string
  lv_LineTotalCents :: int
  lv_LineTaxCents :: int

definition toLines :: "SaleItem list \<Rightarrow> SaleLineView list" where
  "toLines rows = map (\<lambda>it. \<lparr>lv_ItemID = si_item_id it, lv_Description = si_description it, lv_Qty = si_qty it,
     lv_UnitPriceCents = si_unit_price_cents it, lv_TaxCategory = si_tax_category it,
     lv_LineTotalCents = si_line_total_cents it, lv_LineTaxCents = si_line_tax_cents it\<rparr>) rows"

text \<open>The times of a submission are left out, as in the table.\<close>

record SubmissionView =
  suv_Attempt :: int
  suv_Adapter :: string
  suv_Classification :: Class
  suv_Error :: "string option"

definition toSubmissions :: "FiscalSubmission list \<Rightarrow> SubmissionView list" where
  "toSubmissions rows = map (\<lambda>r. \<lparr>suv_Attempt = fs_attempt r, suv_Adapter = fs_adapter r,
     suv_Classification = fs_classification r, suv_Error = fs_error r\<rparr>) rows"

record SellerView =
  sel_Name :: string
  sel_KRAPin :: string

record InvoiceDetailView =
  id_Invoice :: InvoiceView
  id_Lines :: "SaleLineView list"
  id_Seller :: SellerView
  id_KRAQRPayload :: "string option"
  id_Submissions :: "SubmissionView list"

definition ListFiscalSubmissions :: "uuid \<Rightarrow> FiscalSubmission list tx" where
  "ListFiscalSubmissions i = query (\<lambda>s. sort_key fs_attempt
     (filter (\<lambda>r. (own s (fs_org_id r) \<or> scope s = ScopeAdmin) \<and> fs_invoice_id r = i) (fiscal_submissions s)))"

definition invoice_detail_tx :: "Keyring \<Rightarrow> string \<Rightarrow> uuid \<Rightarrow> uuid \<Rightarrow> InvoiceDetailView tx" where
  "invoice_detail_tx k base oid i =
     tbind (GetInvoice i) (\<lambda>iv.
     tbind (ListSaleItems (inv_sale_id iv)) (\<lambda>ls.
     tbind (ListFiscalSubmissions i) (\<lambda>subs.
     tbind (GetOrg oid) (\<lambda>g.
     ret \<lparr>id_Invoice = toInvoice k base iv, id_Lines = toLines ls,
       id_Seller = \<lparr>sel_Name = org_name g,
         sel_KRAPin = (case DecryptString k (org_kra_pin_enc g) of Inl _ \<Rightarrow> [] | Inr pin \<Rightarrow> pin)\<rparr>,
       id_KRAQRPayload = inv_kra_qr_payload iv, id_Submissions = toSubmissions subs\<rparr>))))"

definition getInvoice ::
    "Keyring \<Rightarrow> string \<Rightarrow> HttpPrincipal \<Rightarrow> uuid option \<Rightarrow> InvoiceDetailView response tx" where
  "getInvoice k base p pid = idParam pid (\<lambda>i.
     answer (WithOrg (pr_OrgID p) (invoice_detail_tx k base (pr_OrgID p) i))
       (\<lambda>e. ledger_fail e ''Could not load the invoice'') (JSON 200))"

end
