(* ===== verification/Receipts.thy ===== *)
theory Receipts
  imports Ledger Http
begin

text \<open>
  \<open>internal/publicapi/receipt.go\<close>: the public page of a receipt and the claim of a receipt by a
  buyer. A receipt is read under the scope of its code, which shows the invoice of that code and
  its successors. \<open>resolver\<close> is the PIN check of the KRA gateway (\<open>None\<close>: not wired).
\<close>

definition receipt_ErrNotFound :: go_error where
  "receipt_ErrNotFound = ErrorString ''publicapi: receipt not found''"

text \<open>Two errors of \<open>kra/gateway\<close> the claim route tells apart.\<close>

definition ErrPINInvalid :: go_error where
  "ErrPINInvalid = ErrorString ''kra: pin must match format A/P + 9 digits + letter''"
definition ErrPINNotFound :: go_error where
  "ErrPINNotFound = ErrorString ''kra: pin not found in KRA registry''"

record ReceiptLine =
  rl_ItemID :: "uuid option"
  rl_Description :: string
  rl_Qty :: int
  rl_UnitPriceCents :: int
  rl_TaxCategory :: string
  rl_LineTotalCents :: int
  rl_LineTaxCents :: int

record VATRow =
  vr_Category :: string
  vr_TaxableCents :: int
  vr_TaxCents :: int

record Receipt =
  rc_ReceiptCode :: string
  rc_State :: string
  rc_Kind :: string
  rc_SellerName :: string
  rc_SellerPin :: string
  rc_KRAInvoiceNo :: "string option"
  rc_KRAQRPayload :: "string option"
  rc_BuyerPinMasked :: string
  rc_BuyerName :: string
  rc_PayerName :: string
  rc_Lines :: "ReceiptLine list"
  rc_VATByCategory :: "VATRow list"
  rc_SubtotalCents :: int
  rc_TaxCents :: int
  rc_TotalCents :: int
  rc_IssuedAt :: time
  rc_CreditNoteOf :: "uuid option"

definition receipt_state :: "State \<Rightarrow> string" where
  "receipt_state st = (if st = StateAcked then ''verified''
     else if st = StateNeedsReview \<or> st = StateFailedTerminal then ''cancelled'' else ''pending'')"

definition receipt_line :: "SaleItem \<Rightarrow> ReceiptLine" where
  "receipt_line it = \<lparr>rl_ItemID = si_item_id it, rl_Description = si_description it, rl_Qty = si_qty it,
     rl_UnitPriceCents = si_unit_price_cents it, rl_TaxCategory = si_tax_category it,
     rl_LineTotalCents = si_line_total_cents it, rl_LineTaxCents = si_line_tax_cents it\<rparr>"

text \<open>The row of a line's category, which is added at the end when it is the first of its category.\<close>

definition vat_add :: "SaleItem \<Rightarrow> VATRow \<Rightarrow> VATRow" where
  "vat_add it r = r\<lparr>vr_TaxableCents := wrap64 (vr_TaxableCents r + wrap64 (si_line_total_cents it - si_line_tax_cents it)),
     vr_TaxCents := wrap64 (vr_TaxCents r + si_line_tax_cents it)\<rparr>"

fun add_line :: "SaleItem \<Rightarrow> VATRow list \<Rightarrow> VATRow list" where
  "add_line it [] = [vat_add it \<lparr>vr_Category = si_tax_category it, vr_TaxableCents = 0, vr_TaxCents = 0\<rparr>]"
| "add_line it (r # rs) = (if vr_Category r = si_tax_category it then vat_add it r # rs else r # add_line it rs)"

definition vat_by_category :: "SaleItem list \<Rightarrow> VATRow list" where
  "vat_by_category ls = foldl (\<lambda>rows it. add_line it rows) [] ls"

definition build :: "Keyring \<Rightarrow> ReceiptRow \<Rightarrow> SaleItem list \<Rightarrow> Receipt" where
  "build k row ls = (let iv = rr_Invoice row in
     \<lparr>rc_ReceiptCode = inv_receipt_code iv, rc_State = receipt_state (inv_state iv), rc_Kind = inv_kind iv,
      rc_SellerName = rr_OrgName row,
      rc_SellerPin = (case DecryptString k (rr_OrgPinEnc row) of Inl _ \<Rightarrow> [] | Inr pin \<Rightarrow> pin),
      rc_KRAInvoiceNo = inv_kra_invoice_no iv, rc_KRAQRPayload = inv_kra_qr_payload iv,
      rc_BuyerPinMasked = (if inv_buyer_pin_enc iv = [] then []
        else case DecryptString k (inv_buyer_pin_enc iv) of Inl _ \<Rightarrow> [] | Inr pin \<Rightarrow> MaskPIN pin),
      rc_BuyerName = inv_buyer_name iv, rc_PayerName = rr_PayerName row,
      rc_Lines = map receipt_line ls, rc_VATByCategory = vat_by_category ls,
      rc_SubtotalCents = inv_subtotal_cents iv, rc_TaxCents = inv_tax_cents iv,
      rc_TotalCents = inv_total_cents iv, rc_IssuedAt = inv_issued_at iv, rc_CreditNoteOf = inv_parent_id iv\<rparr>)"

definition lookup_tx :: "Keyring \<Rightarrow> string \<Rightarrow> Receipt tx" where
  "lookup_tx k code =
     tbind (attempt (GetInvoiceByReceiptCode code)) (\<lambda>r. case r of
       Inl e \<Rightarrow> raise (if errors_is e ErrNoRows then receipt_ErrNotFound else e)
     | Inr row \<Rightarrow> tbind (ListSaleItems (inv_sale_id (rr_Invoice row))) (\<lambda>ls. ret (build k row ls)))"

definition Lookup :: "Keyring \<Rightarrow> string \<Rightarrow> Receipt tx" where
  "Lookup k rawCode = (case NormaliseReceiptCode rawCode of
     Inl _ \<Rightarrow> raise receipt_ErrNotFound
   | Inr code \<Rightarrow> WithReceipt code (lookup_tx k code))"

definition Claim :: "Keyring \<Rightarrow> (string \<Rightarrow> go_error + string) option \<Rightarrow> time \<Rightarrow> string \<Rightarrow> string \<Rightarrow> string \<Rightarrow> Receipt tx" where
  "Claim k resolver now rawCode buyerPIN buyerName = (case NormaliseReceiptCode rawCode of
     Inl _ \<Rightarrow> raise receipt_ErrNotFound
   | Inr code \<Rightarrow> tbind (ClaimReceiptByCode k resolver now code buyerPIN buyerName) (\<lambda>_. Lookup k code))"

subsection \<open>Routes\<close>

definition receipt_get :: "Keyring \<Rightarrow> string \<Rightarrow> Receipt response tx" where
  "receipt_get k code = answer (Lookup k code)
     (\<lambda>e. if errors_is e receipt_ErrNotFound then Fail 404 ''not_found'' ''No receipt with that code''
       else Fail 500 ''internal'' ''Could not load the receipt'') (JSON 200)"

definition receipt_claim ::
    "Keyring \<Rightarrow> (string \<Rightarrow> go_error + string) option \<Rightarrow> time \<Rightarrow> string \<Rightarrow> (string \<times> string) option \<Rightarrow> Receipt response tx" where
  "receipt_claim k resolver now code body = (case body of
     None \<Rightarrow> ret (Fail 400 ''bad_request'' ''Body must match {buyer_pin, buyer_name?}'')
   | Some (pin, name) \<Rightarrow>
       if pin = [] then ret (Fail 422 ''validation'' ''buyer_pin is required'')
       else answer (Claim k resolver now code pin name)
         (\<lambda>e. if errors_is e receipt_ErrNotFound \<or> errors_is e ErrInvalidReceiptCode
           then Fail 404 ''not_found'' ''No receipt with that code''
           else if errors_is e ErrInvalidPIN \<or> errors_is e ErrPINInvalid
           then Fail 422 ''validation'' ''buyer_pin must be a valid KRA PIN (A or P, 9 digits and a letter)''
           else if errors_is e ErrPINNotFound
           then Fail 422 ''validation'' ''buyer_pin was not found in KRA registry''
           else Fail 500 ''internal'' ''Could not claim receipt with your PIN'') (JSON 200))"

end
