(* ===== verification/Notify.thy ===== *)
theory Notify
  imports Http Ledger
begin

text \<open>
  \<open>internal/notify\<close>: the texts of the messages (\<open>templates.go\<close>), the sending of receipts
  with its record in \<open>notifications\<close> (\<open>service.go\<close>: \<open>SendReceipt\<close>, the job worker, login
  codes, the delivery report of the gateway), and the small helpers of \<open>at.go\<close>.

  The gateway behind \<open>Sender\<close> is an argument: what \<open>SendSMS\<close> answers for a number and a
  text. \<open>time.Now\<close>, which dates the usage counter, is an argument. A delivery report arrives
  as the two form fields the handler reads, or \<open>None\<close> when the form does not parse.
\<close>

subsection \<open>Texts\<close>

definition TemplateReceiptPending :: string where "TemplateReceiptPending = ''receipt_pending''"
definition TemplateReceiptAcked :: string where "TemplateReceiptAcked = ''receipt_acked''"
definition TemplateReceiptUpdated :: string where "TemplateReceiptUpdated = ''receipt_updated''"
definition TemplateCreditNote :: string where "TemplateCreditNote = ''credit_note''"
definition TemplateOTP :: string where "TemplateOTP = ''otp''"

lemmas template_defs = TemplateReceiptPending_def TemplateReceiptAcked_def TemplateReceiptUpdated_def
  TemplateCreditNote_def TemplateOTP_def

record Vars =
  v_Merchant :: string
  v_AmountKES :: string
  v_KRAInvoice :: string
  v_ReceiptURL :: string
  v_Code :: string

definition Render :: "string \<Rightarrow> string \<Rightarrow> Vars \<Rightarrow> go_error + string" where
  "Render template locale v =
     (let sw = (locale = ''sw'') in
      if template = TemplateReceiptPending then Inr (
        if sw then ''Umelipa KES '' @ v_AmountKES v @ '' kwa '' @ v_Merchant v @
          ''. Risiti ya KRA inatayarishwa: '' @ v_ReceiptURL v
        else ''You paid KES '' @ v_AmountKES v @ '' to '' @ v_Merchant v @
          ''. Your KRA receipt is being prepared: '' @ v_ReceiptURL v)
      else if template = TemplateReceiptAcked then Inr (
        if sw then ''Risiti ya KRA '' @ v_KRAInvoice v @ '' kutoka '' @ v_Merchant v @ '', KES '' @
          v_AmountKES v @ ''. Thibitisha na uhifadhi: '' @ v_ReceiptURL v
        else ''KRA receipt '' @ v_KRAInvoice v @ '' from '' @ v_Merchant v @ '', KES '' @
          v_AmountKES v @ ''. Verify and save: '' @ v_ReceiptURL v)
      else if template = TemplateReceiptUpdated then Inr (
        if sw then ''Risiti yako ya CiftPay kutoka '' @ v_Merchant v @
          '' imesasishwa na KRA PIN yako. Tazama hapa: '' @ v_ReceiptURL v
        else ''Your CiftPay receipt from '' @ v_Merchant v @
          '' has been updated with your KRA PIN. View here: '' @ v_ReceiptURL v)
      else if template = TemplateCreditNote then Inr (
        if sw then ''Malipo yako ya KES '' @ v_AmountKES v @ '' kwa '' @ v_Merchant v @
          '' yamerudishwa. Credit note ya KRA '' @ v_KRAInvoice v @ '': '' @ v_ReceiptURL v
        else ''Your KES '' @ v_AmountKES v @ '' payment to '' @ v_Merchant v @
          '' was reversed. KRA credit note '' @ v_KRAInvoice v @ '': '' @ v_ReceiptURL v)
      else if template = TemplateOTP then Inr (
        if sw then ''Nambari yako ya CiftPay ni '' @ v_Code v @
          ''. Inaisha baada ya dakika 5. Usimpe mtu yeyote.''
        else ''Your CiftPay code is '' @ v_Code v @
          ''. It expires in 5 minutes. Do not share it.'')
      else Inl (ErrorString (''notify: unknown template '' @ [CHR 0x22] @ template @ [CHR 0x22])))"

text \<open>A comma before every third character from the right, but not in front.\<close>

fun group_thousands :: "bool \<Rightarrow> string \<Rightarrow> string" where
  "group_thousands first [] = []"
| "group_thousands first (c # cs) =
     (if \<not> first \<and> length (c # cs) mod 3 = 0 then [CHR '',''] else []) @ c # group_thousands False cs"

definition FormatKES :: "int \<Rightarrow> string" where
  "FormatKES cents0 =
     (let neg = cents0 < 0;
          cents = (if neg then wrap64 (- cents0) else cents0);
          whole = quo cents 100; frac = rem cents 100;
          out = group_thousands True (itoa whole) @
            (if frac \<noteq> 0 then ''.'' @ (if frac < 0 then ''-'' @ zero_pad 1 (- frac) else zero_pad 2 frac) else [])
      in if neg then ''-'' @ out else out)"

definition E164 :: "string \<Rightarrow> string" where
  "E164 msisdn = (if take 1 msisdn = ''+'' then msisdn else ''+'' @ msisdn)"

subsection \<open>Statements\<close>

text \<open>
  Row-level security of \<open>notifications\<close>: the tenant's policy and the administrator's are for
  all commands; the policy of the ingest scope is for UPDATE only. A statement that looks for
  rows, an UPDATE with a WHERE clause too, needs a policy that lets it read them.
\<close>

definition reads_notification :: "db \<Rightarrow> Notification \<Rightarrow> bool" where
  "reads_notification s n \<longleftrightarrow> own s (nt_org_id n) \<or> scope s = ScopeAdmin"

definition writes_notification :: "db \<Rightarrow> Notification \<Rightarrow> bool" where
  "writes_notification s n \<longleftrightarrow> reads_notification s n \<and>
     (own s (nt_org_id n) \<or> scope s = ScopeIngest \<or> scope s = ScopeAdmin)"

definition notification_checks :: "Notification \<Rightarrow> bool" where
  "notification_checks n \<longleftrightarrow> nt_channel n \<in> {''sms'', ''whatsapp''} \<and>
     nt_status n \<in> {''queued'', ''sent'', ''delivered'', ''failed''}"

definition insert_notification :: "(time \<Rightarrow> uuid \<Rightarrow> Notification) \<Rightarrow> Notification tx" where
  "insert_notification row = stmt (\<lambda>s.
     let n = row (clock s) (next_id s) in
     if \<not> (own s (nt_org_id n) \<or> scope s = ScopeAdmin) then Inl rls_violation
     else if \<not> notification_checks n then Inl check_violation
     else Inr (n, s\<lparr>next_id := Suc (next_id s), notifications := notifications s @ [n]\<rparr>))"

definition CreateNotification ::
    "uuid \<Rightarrow> uuid option \<Rightarrow> string \<Rightarrow> bytes \<Rightarrow> bytes \<Rightarrow> string \<Rightarrow> string \<Rightarrow> string \<Rightarrow> Notification tx" where
  "CreateNotification oid iid channel enc h template locale body = insert_notification (\<lambda>now i.
     \<lparr>nt_id = i, nt_org_id = oid, nt_invoice_id = iid, nt_channel = channel, nt_to_msisdn_enc = enc,
      nt_to_msisdn_hash = h, nt_template = template, nt_locale = locale, nt_body = body,
      nt_message_id = None, nt_status = ''queued'', nt_cost_cents = 0, nt_sent_at = None,
      nt_delivered_at = None, nt_created_at = now\<rparr>)"

definition update_notification :: "(Notification \<Rightarrow> bool) \<Rightarrow> (time \<Rightarrow> Notification \<Rightarrow> Notification) \<Rightarrow> unit tx" where
  "update_notification p f = update (\<lambda>s. s\<lparr>notifications := update_rows
     (\<lambda>n. writes_notification s n \<and> p n) (f (clock s)) (notifications s)\<rparr>)"

definition MarkNotificationSent :: "uuid \<Rightarrow> string option \<Rightarrow> int \<Rightarrow> unit tx" where
  "MarkNotificationSent i mid cost = update_notification (\<lambda>n. nt_id n = i)
     (\<lambda>now n. n\<lparr>nt_status := ''sent'', nt_message_id := mid, nt_cost_cents := cost, nt_sent_at := Some now\<rparr>)"

definition MarkNotificationFailed :: "uuid \<Rightarrow> unit tx" where
  "MarkNotificationFailed i = update_notification (\<lambda>n. nt_id n = i) (\<lambda>now n. n\<lparr>nt_status := ''failed''\<rparr>)"

definition MarkNotificationDelivered :: "string \<Rightarrow> unit tx" where
  "MarkNotificationDelivered mid = update_notification (\<lambda>n. nt_message_id n = Some mid)
     (\<lambda>now n. n\<lparr>nt_status := ''delivered'', nt_delivered_at := Some now\<rparr>)"

definition ListNotificationsForInvoice :: "uuid \<Rightarrow> Notification list tx" where
  "ListNotificationsForInvoice iid = query (\<lambda>s. sort_key nt_created_at
     (filter (\<lambda>n. reads_notification s n \<and> nt_invoice_id n = Some iid) (notifications s)))"

subsection \<open>The service\<close>

datatype send_error = SendFailed go_error | PermanentError string

record SendResult =
  snd_MessageID :: string
  snd_CostCents :: int

record NotifyService =
  ns_Keys :: Keyring
  ns_SendSMS :: "string \<Rightarrow> string \<Rightarrow> send_error + SendResult"
  ns_PublicBaseURL :: string

definition notify_New ::
    "Keyring \<Rightarrow> (string \<Rightarrow> string \<Rightarrow> send_error + SendResult) \<Rightarrow> string \<Rightarrow> NotifyService" where
  "notify_New k send url = \<lparr>ns_Keys = k, ns_SendSMS = send,
     ns_PublicBaseURL = rev (dropWhile (\<lambda>c. c = CHR ''/'') (rev url))\<rparr>"

definition ReceiptURL :: "NotifyService \<Rightarrow> string \<Rightarrow> string" where
  "ReceiptURL svc code = ns_PublicBaseURL svc @ ''/r/'' @ code"

definition ErrNoRecipient :: go_error where
  "ErrNoRecipient = ErrorString ''notify: invoice has no recipient''"
definition ErrSkipped :: go_error where "ErrSkipped = ErrorString ''notify: skipped''"

definition stillPending :: "State \<Rightarrow> bool" where
  "stillPending st \<longleftrightarrow> st \<noteq> StateAcked \<and> st \<noteq> StateFailedTerminal"

text \<open>The number the payment came from, when the payment is found and has one.\<close>

definition payer_number :: "Invoice \<Rightarrow> (bytes \<times> bytes) option tx" where
  "payer_number iv = (case inv_payment_id iv of None \<Rightarrow> ret None
     | Some pid \<Rightarrow> tbind (attempt (GetPayment pid)) (\<lambda>r. ret (case r of
         Inr p \<Rightarrow> if pay_msisdn_enc p \<noteq> [] then Some (pay_msisdn_enc p, pay_msisdn_hash p) else None
       | Inl _ \<Rightarrow> None)))"

definition recipient :: "Invoice \<Rightarrow> (bytes \<times> bytes) tx" where
  "recipient iv = tbind (payer_number iv) (\<lambda>x. case x of Some eh \<Rightarrow> ret eh
     | None \<Rightarrow> tbind (GetSale (inv_sale_id iv)) (\<lambda>sale.
         case sale_customer_id sale of None \<Rightarrow> raise ErrNoRecipient
         | Some cid \<Rightarrow> tbind (attempt (FindCustomerByID cid)) (\<lambda>r. case r of
             Inr c \<Rightarrow> if cust_msisdn_enc c \<noteq> [] then ret (cust_msisdn_enc c, cust_msisdn_hash c)
               else raise ErrNoRecipient
           | Inl _ \<Rightarrow> raise ErrNoRecipient)))"

definition receipt_vars :: "NotifyService \<Rightarrow> Org \<Rightarrow> Invoice \<Rightarrow> Vars" where
  "receipt_vars svc org iv = \<lparr>v_Merchant = org_name org, v_AmountKES = FormatKES (abs64 (inv_total_cents iv)),
     v_KRAInvoice = (case inv_kra_invoice_no iv of None \<Rightarrow> [] | Some no \<Rightarrow> no),
     v_ReceiptURL = ReceiptURL svc (inv_receipt_code iv), v_Code = []\<rparr>"

definition compose_receipt ::
    "NotifyService \<Rightarrow> uuid \<Rightarrow> uuid \<Rightarrow> string \<Rightarrow> Invoice \<Rightarrow> Org \<Rightarrow> (Notification \<times> string \<times> string) tx" where
  "compose_receipt svc oid iid template iv org =
     tbind (recipient iv) (\<lambda>(enc, h).
     tbind (case DecryptString (ns_Keys svc) enc of
         Inl e \<Rightarrow> raise (Wrap (''notify: decrypt recipient: '' @ err_text e) e) | Inr to' \<Rightarrow> ret to') (\<lambda>to'.
     tbind (of_result (Render template (org_locale org) (receipt_vars svc org iv))) (\<lambda>body.
     tbind (CreateNotification oid (Some iid) ''sms'' enc h template (org_locale org) body) (\<lambda>n.
     ret (n, to', body)))))"

text \<open>The first transaction: an earlier message (\<open>Inl\<close>), or the new row, its number and text.\<close>

definition prepare_receipt ::
    "NotifyService \<Rightarrow> uuid \<Rightarrow> uuid \<Rightarrow> string \<Rightarrow> (Notification + Notification \<times> string \<times> string) tx" where
  "prepare_receipt svc oid iid template =
     tbind (ListNotificationsForInvoice iid) (\<lambda>prior.
     case find (\<lambda>p. nt_template p = template \<and> nt_status p \<noteq> ''failed'') prior of
       Some p \<Rightarrow> ret (Inl p)
     | None \<Rightarrow>
         tbind (GetInvoice iid) (\<lambda>iv.
         if template = TemplateReceiptPending \<and> \<not> stillPending (inv_state iv) then raise ErrSkipped
         else tbind (GetOrg (inv_org_id iv)) (\<lambda>org.
           tbind (compose_receipt svc oid iid template iv org) (\<lambda>x. ret (Inr x)))))"

definition record_sent :: "time \<Rightarrow> uuid \<Rightarrow> uuid \<Rightarrow> send_error + SendResult \<Rightarrow> unit tx" where
  "record_sent now oid i res = (case res of
     Inl _ \<Rightarrow> MarkNotificationFailed i
   | Inr r \<Rightarrow> tbind (MarkNotificationSent i (Some (snd_MessageID r)) (snd_CostCents r)) (\<lambda>_.
       BumpUsage oid (format_month now) 0 1 0))"

datatype receipt_outcome = Existing Notification | Delivered Notification | Undelivered Notification send_error

definition SendReceipt :: "NotifyService \<Rightarrow> time \<Rightarrow> uuid \<Rightarrow> uuid \<Rightarrow> string \<Rightarrow> receipt_outcome tx" where
  "SendReceipt svc now oid iid template =
     tbind (WithOrg oid (prepare_receipt svc oid iid template)) (\<lambda>x. case x of
       Inl n \<Rightarrow> ret (Existing n)
     | Inr (n, to', body) \<Rightarrow>
         (let res = ns_SendSMS svc (E164 to') body in
          tbind (WithOrg oid (record_sent now oid (nt_id n) res)) (\<lambda>_.
          ret (case res of Inl e \<Rightarrow> Undelivered n e | Inr _ \<Rightarrow> Delivered n))))"

text \<open>What River does next: finish, cancel, or try again.\<close>

datatype job_result = JobDone | JobCancel | JobRetry

definition Work :: "NotifyService \<Rightarrow> time \<Rightarrow> uuid \<Rightarrow> uuid \<Rightarrow> string \<Rightarrow> job_result tx" where
  "Work svc now oid iid template = tbind (attempt (SendReceipt svc now oid iid template)) (\<lambda>r. ret (case r of
     Inl e \<Rightarrow> if errors_is e ErrSkipped then JobDone else if errors_is e ErrNoRecipient then JobCancel else JobRetry
   | Inr (Undelivered _ (PermanentError _)) \<Rightarrow> JobCancel
   | Inr (Undelivered _ (SendFailed _)) \<Rightarrow> JobRetry
   | Inr _ \<Rightarrow> JobDone))"

definition SendOTP :: "NotifyService \<Rightarrow> string \<Rightarrow> string \<Rightarrow> string \<Rightarrow> send_error option" where
  "SendOTP svc msisdn code locale =
     (case Render TemplateOTP locale \<lparr>v_Merchant = [], v_AmountKES = [], v_KRAInvoice = [],
        v_ReceiptURL = [], v_Code = code\<rparr> of
        Inl e \<Rightarrow> Some (SendFailed e)
      | Inr body \<Rightarrow> (case ns_SendSMS svc (E164 msisdn) body of Inl e \<Rightarrow> Some e | Inr _ \<Rightarrow> None))"

subsection \<open>Delivery reports\<close>

definition delivery :: "(string \<times> string) option \<Rightarrow> unit response tx" where
  "delivery form = (case form of
     None \<Rightarrow> ret (Fail 400 ''bad_request'' ''form body expected'')
   | Some (i, status) \<Rightarrow>
       if i = [] then ret (Fail 400 ''bad_request'' ''id is required'')
       else if to_upper status = ''SUCCESS'' \<or> to_upper status = ''DELIVERED''
       then tbind (ignore (WithIngest (MarkNotificationDelivered i))) (\<lambda>_. ret (NoContent 200))
       else ret (NoContent 200))"

end
