(* ===== verification/Billing.thy ===== *)
theory Billing
  imports Http Queries
begin

text \<open>
  \<open>internal/billing/billing.go\<close>: the plan catalogue, the subscription of an organisation and
  its entitlement for the current month. \<open>s.Now()\<close> is an argument; its month is taken in UTC.
  Counters and caps are \<open>int32\<close>, prices \<open>int64\<close>, and their arithmetic wraps around.
\<close>

definition PlanHustler :: string where "PlanHustler = ''hustler''"

definition foreign_key_violation :: go_error where "foreign_key_violation = PgError ''23503''"

subsection \<open>Statements\<close>

definition sees_subscription :: "db \<Rightarrow> Subscription \<Rightarrow> bool" where
  "sees_subscription s r \<longleftrightarrow> own s (sub_org_id r) \<or> scope s = ScopeAdmin"

definition ListPlans :: "Plan list tx" where
  "ListPlans = query (\<lambda>s. sort_key plan_price_cents (plans s))"

definition GetSubscription :: "uuid \<Rightarrow> (Subscription \<times> Plan) tx" where
  "GetSubscription oid = query_one (\<lambda>s.
     Option.bind (find (\<lambda>r. sees_subscription s r \<and> sub_org_id r = oid) (subscriptions s)) (\<lambda>r.
       map_option (\<lambda>p. (r, p)) (row_by plan_code (sub_plan_code r) (plans s))))"

text \<open>
  \<open>INSERT \<dots> ON CONFLICT (org_id) DO UPDATE\<close>: the new row \<open>r\<close>, or the change \<open>f\<close> of the row
  the organisation has. The organisation and the plan must exist.
\<close>

definition upsert_subscription :: "Subscription \<Rightarrow> (Subscription \<Rightarrow> Subscription) \<Rightarrow> Subscription tx" where
  "upsert_subscription r f = stmt (\<lambda>s.
     if \<not> sees_subscription s r then Inl rls_violation
     else if sub_status r \<notin> {''trial'', ''active'', ''past_due'', ''cancelled''} then Inl check_violation
     else if sub_plan_code r \<notin> plan_code ` set (plans s) \<or> sub_org_id r \<notin> org_id ` set (orgs s)
     then Inl foreign_key_violation
     else case row_by sub_org_id (sub_org_id r) (subscriptions s) of
       None \<Rightarrow> Inr (r, s\<lparr>subscriptions := subscriptions s @ [r]\<rparr>)
     | Some q \<Rightarrow> Inr (f q, s\<lparr>subscriptions :=
         update_rows (\<lambda>x. sub_org_id x = sub_org_id r) f (subscriptions s)\<rparr>))"

definition UpsertSubscription ::
    "uuid \<Rightarrow> string \<Rightarrow> string \<Rightarrow> time \<Rightarrow> time option \<Rightarrow> Subscription tx" where
  "UpsertSubscription oid plan st from' until' = upsert_subscription
     \<lparr>sub_org_id = oid, sub_plan_code = plan, sub_status = st, sub_period_start = from', sub_period_end = until'\<rparr>
     (\<lambda>q. q\<lparr>sub_plan_code := plan, sub_status := st, sub_period_start := from', sub_period_end := until'\<rparr>)"

definition GetUsage :: "uuid \<Rightarrow> string \<Rightarrow> UsageCounter tx" where
  "GetUsage oid period = query_one (\<lambda>s.
     find (\<lambda>u. own s (uc_org_id u) \<and> uc_org_id u = oid \<and> uc_period u = period) (usage_counters s))"

subsection \<open>The service\<close>

definition Plans :: "Plan list tx" where "Plans = Unscoped ListPlans"

definition EnsureSubscription :: "time \<Rightarrow> uuid \<Rightarrow> unit tx" where
  "EnsureSubscription now oid = WithOrg oid (tbind (attempt (GetSubscription oid)) (\<lambda>r. case r of
     Inr _ \<Rightarrow> ret ()
   | Inl e \<Rightarrow> if \<not> errors_is e ErrNoRows then raise e
       else tbind (UpsertSubscription oid PlanHustler ''active'' now None) (\<lambda>_. ret ())))"

record Entitlement =
  en_PlanCode :: string
  en_PlanName :: string
  en_Status :: string
  en_Period :: string
  en_InvoicesAcked :: int
  en_InvoiceCap :: "int option"
  en_OverInvoices :: int
  en_OverageCents :: int
  en_SMSSent :: int

definition plan_part :: "string \<Rightarrow> (Subscription \<times> Plan) option \<Rightarrow> Entitlement" where
  "plan_part period sub =
     (let out = \<lparr>en_PlanCode = PlanHustler, en_PlanName = ''Hustler'', en_Status = ''active'',
        en_Period = period, en_InvoicesAcked = 0, en_InvoiceCap = None, en_OverInvoices = 0,
        en_OverageCents = 0, en_SMSSent = 0\<rparr> in
      case sub of None \<Rightarrow> out
      | Some (r, p) \<Rightarrow> out\<lparr>en_PlanCode := sub_plan_code r, en_PlanName := plan_name p,
          en_Status := sub_status r, en_InvoiceCap := plan_invoice_cap p,
          en_OverageCents := (if plan_invoice_cap p = None then 0 else plan_overage_cents p)\<rparr>)"

definition usage_part :: "int \<Rightarrow> int \<Rightarrow> Entitlement \<Rightarrow> Entitlement" where
  "usage_part acked sms e =
     (let e1 = e\<lparr>en_InvoicesAcked := acked, en_SMSSent := sms\<rparr> in
      case en_InvoiceCap e of
        Some cap \<Rightarrow>
          if cap < acked
          then (let over = wrap32 (acked - cap) in
            e1\<lparr>en_OverInvoices := over, en_OverageCents := wrap64 (en_OverageCents e * over)\<rparr>)
          else e1\<lparr>en_OverageCents := 0\<rparr>
      | None \<Rightarrow> e1\<lparr>en_OverageCents := 0\<rparr>)"

definition no_rows_to_none :: "'a tx \<Rightarrow> 'a option tx" where
  "no_rows_to_none m = tbind (attempt m) (\<lambda>r. case r of
     Inr x \<Rightarrow> ret (Some x) | Inl e \<Rightarrow> if errors_is e ErrNoRows then ret None else raise e)"

definition get_entitlement :: "time \<Rightarrow> uuid \<Rightarrow> Entitlement tx" where
  "get_entitlement now oid = WithOrg oid (
     tbind (no_rows_to_none (GetSubscription oid)) (\<lambda>sub.
     tbind (no_rows_to_none (GetUsage oid (format_month now))) (\<lambda>u.
     ret (usage_part (case u of None \<Rightarrow> 0 | Some x \<Rightarrow> uc_invoices_acked x)
       (case u of None \<Rightarrow> 0 | Some x \<Rightarrow> uc_sms_sent x) (plan_part (format_month now) sub)))))"

end
