(* ===== verification/Operators.thy ===== *)
theory Operators
  imports Daraja Notify Billing "HOL-Library.List_Lexorder" "HOL-Library.Char_ord"
begin

text \<open>
  \<open>internal/admin/admin.go\<close>, the back office: organisations with their onboarding status and
  tier, the dead letters of the fiscal queue (requeue, forced acknowledgement), the webhook
  events with their replay, messages to a merchant, and Daraja's address list. Every service
  operation runs in the administrator's scope.

  Two of its queries name columns that no migration creates (\<open>feature_flags.description\<close>;
  \<open>last_error\<close>, \<open>attempts\<close>, \<open>status\<close> and \<open>created_at\<close> of \<open>webhook_events\<close>); Postgres
  refuses them with SQLSTATE 42703. The column \<open>orgs.status\<close> keeps its default \<open>active\<close>, which
  no statement changes. Text is ordered bytewise; a query without ORDER BY takes the rows as
  they were inserted. The text of a JSON decoding error is not modelled. The address list is
  generic in the networks \<open>net.ParseCIDR\<close> produces.
\<close>

subsection \<open>Organisations\<close>

record OrgRow =
  or_ID :: uuid
  or_Name :: string
  or_Status :: string
  or_DarajaStatus :: string
  or_VATRegistered :: bool
  or_KRAInitialized :: bool
  or_Tier :: string
  or_CreatedAt :: time

definition org_row :: "db \<Rightarrow> Org \<Rightarrow> OrgRow" where
  "org_row s g = \<lparr>or_ID = org_id g, or_Name = org_name g, or_Status = ''active'',
     or_DarajaStatus = org_daraja_status g, or_VATRegistered = org_vat_registered g,
     or_KRAInitialized = (org_pin_verified_at g \<noteq> None),
     or_Tier = (case find (\<lambda>r. sees_subscription s r \<and> sub_org_id r = org_id g) (subscriptions s) of
       None \<Rightarrow> ''hustler'' | Some r \<Rightarrow> sub_plan_code r),
     or_CreatedAt = org_created_at g\<rparr>"

definition Orgs :: "int \<Rightarrow> OrgRow list tx" where
  "Orgs limit = WithAdmin (query (\<lambda>s. take (nat limit) (map (org_row s)
     (sort_key (\<lambda>g. - org_created_at g) (orgs s)))))"

definition daraja_statuses :: "string list" where
  "daraja_statuses = [''pending_upload'', ''ready_for_safaricom'', ''sent_to_safaricom'', ''live'']"

definition tiers :: "string list" where
  "tiers = [''hustler'', ''duka'', ''biashara'', ''accountant'']"

definition set_daraja_status :: "uuid \<Rightarrow> string \<Rightarrow> nat tx" where
  "set_daraja_status i st = stmt (\<lambda>s. let p = (\<lambda>g. org_id g = i) in
     if st \<notin> set daraja_statuses \<and> list_ex p (orgs s) then Inl check_violation
     else Inr (length (filter p (orgs s)),
       s\<lparr>orgs := update_rows p (\<lambda>g. g\<lparr>org_daraja_status := st\<rparr>) (orgs s)\<rparr>))"

definition set_tier :: "uuid \<Rightarrow> string \<Rightarrow> unit tx" where
  "set_tier i tier = (\<lambda>s. tbind (upsert_subscription
     \<lparr>sub_org_id = i, sub_plan_code = tier, sub_status = ''active'', sub_period_start = clock s,
      sub_period_end = None\<rparr> (\<lambda>q. q\<lparr>sub_plan_code := tier\<rparr>)) (\<lambda>_. ret ()) s)"

definition UpdateOrg :: "uuid \<Rightarrow> string \<Rightarrow> string \<Rightarrow> OrgRow tx" where
  "UpdateOrg i darajaStatus tier =
     (if darajaStatus \<noteq> [] \<and> darajaStatus \<notin> set daraja_statuses
      then raise (ErrorString (''invalid daraja_status '' @ quoted darajaStatus))
      else if tier \<noteq> [] \<and> tier \<notin> set tiers
      then raise (ErrorString (''invalid tier '' @ quoted tier))
      else
        tbind (WithAdmin (
          tbind (if darajaStatus = [] then ret ()
            else tbind (set_daraja_status i darajaStatus) (\<lambda>n.
              if n = 0 then raise (ErrorString ''org not found'') else ret ())) (\<lambda>_.
          if tier = [] then ret () else set_tier i tier))) (\<lambda>_.
        WithAdmin (query_one (\<lambda>s. map_option (org_row s) (row_by org_id i (orgs s))))))"

record SafaricomExportRow =
  se_OrgID :: uuid
  se_OrgName :: string
  se_DarajaStatus :: string
  se_ShortcodeID :: uuid
  se_ShortcodeText :: string
  se_ShortcodeKind :: string
  se_LetterURL :: string

definition export_row :: "Org \<Rightarrow> Shortcode \<Rightarrow> SafaricomExportRow" where
  "export_row g r = \<lparr>se_OrgID = org_id g, se_OrgName = org_name g, se_DarajaStatus = org_daraja_status g,
     se_ShortcodeID = sc_id r, se_ShortcodeText = sc_shortcode r, se_ShortcodeKind = sc_kind r,
     se_LetterURL = ''/admin/shortcodes/'' @ uuid_String (sc_id r) @ ''/authorization''\<rparr>"

definition BatchSafaricomExport :: "SafaricomExportRow list tx" where
  "BatchSafaricomExport = WithAdmin (query (\<lambda>s. concat (map (\<lambda>g. map (export_row g)
     (filter (\<lambda>r. sees_shortcode s r \<and> sc_org_id r = org_id g \<and> sc_letter_path r \<noteq> None) (mpesa_shortcodes s)))
     (sort_key org_name (filter (\<lambda>g. org_daraja_status g = ''ready_for_safaricom'') (orgs s))))))"

subsection \<open>The fiscal dead letters\<close>

record DLQInvoiceRow =
  dl_Invoice :: Invoice
  dl_OrgName :: string
  dl_Submission :: "FiscalSubmission option"

definition sees_submission :: "db \<Rightarrow> FiscalSubmission \<Rightarrow> bool" where
  "sees_submission s r \<longleftrightarrow> own s (fs_org_id r) \<or> scope s = ScopeAdmin"

definition dlq_row :: "db \<Rightarrow> Invoice \<Rightarrow> DLQInvoiceRow option" where
  "dlq_row s i = map_option (\<lambda>g. \<lparr>dl_Invoice = i, dl_OrgName = org_name g,
     dl_Submission = latest fs_attempt
       (filter (\<lambda>r. sees_submission s r \<and> fs_invoice_id r = inv_id i) (fiscal_submissions s))\<rparr>)
     (row_by org_id (inv_org_id i) (orgs s))"

definition DLQInvoices :: "int \<Rightarrow> DLQInvoiceRow list tx" where
  "DLQInvoices limit = WithAdmin (query (\<lambda>s. take (nat limit) (List.map_filter (dlq_row s)
     (sort_key (\<lambda>i. - inv_updated_at i) (filter (\<lambda>i. sees_invoice s i \<and>
        inv_state i \<in> {StateFailedTerminal, StateNeedsReview}) (invoices s))))))"

text \<open>\<open>Exec\<close> with a check of \<open>RowsAffected\<close>.\<close>

definition affected_or :: "string \<Rightarrow> Invoice tx \<Rightarrow> unit tx" where
  "affected_or msg m = tbind (attempt m) (\<lambda>r. case r of
     Inr _ \<Rightarrow> ret () | Inl e \<Rightarrow> raise (if e = ErrNoRows then ErrorString msg else e))"

definition RequeueInvoice :: "uuid \<Rightarrow> unit tx" where
  "RequeueInvoice i = WithAdmin (affected_or ''invoice not found or not in retryable state''
     (update_invoice (\<lambda>r. inv_id r = i \<and>
         inv_state r \<in> {StateFailedTerminal, StateNeedsReview, StateFailedRetryable})
       (\<lambda>now r. r\<lparr>inv_state := StateQueued, inv_next_attempt_at := Some now\<rparr>)))"

definition ForceAcked :: "uuid \<Rightarrow> string \<Rightarrow> string \<Rightarrow> unit tx" where
  "ForceAcked i rcptNo rcptSign = WithAdmin (affected_or ''invoice not found''
     (update_invoice (\<lambda>r. inv_id r = i)
       (\<lambda>now r. r\<lparr>inv_state := StateAcked, inv_kra_invoice_no := Some rcptNo,
          inv_kra_signature := Some rcptSign,
          inv_acked_at := (case inv_acked_at r of Some t \<Rightarrow> Some t | None \<Rightarrow> Some now)\<rparr>)))"

subsection \<open>Webhook events\<close>

text \<open>\<open>payload->>'TransID'\<close>, given the parser of the stored text.\<close>

definition payload_trans_id :: "(string \<Rightarrow> json option) \<Rightarrow> WebhookEvent \<Rightarrow> string option" where
  "payload_trans_id J e = (case J (we_payload e) of
     Some (JObj _ ms) \<Rightarrow> (case map_of (rev ms) ''TransID'' of
       Some (JStr _ v) \<Rightarrow> Some v | Some JNull \<Rightarrow> None | Some j \<Rightarrow> Some (json_text j) | None \<Rightarrow> None)
   | _ \<Rightarrow> None)"

definition admin_Webhooks :: "(string \<Rightarrow> json option) \<Rightarrow> string \<Rightarrow> int \<Rightarrow> WebhookEvent list tx" where
  "admin_Webhooks J transID limit = WithAdmin (query (\<lambda>s. take (nat limit)
     (sort_key (\<lambda>e. - we_received_at e) (filter (\<lambda>e. transID = [] \<or> we_external_id e = transID \<or>
        payload_trans_id J e = Some transID) (webhook_events s)))))"

datatype replay_result = ReplayC2B C2BResult | ReplayOK

text \<open>The ingestion the kind of the event asks for, or the reason there is none.\<close>

definition replay_ingest :: "Webhooks \<Rightarrow> WebhookEvent \<Rightarrow> go_error + replay_result tx" where
  "replay_ingest h ev =
     (let raw = we_payload ev in
      if we_kind ev = ''c2b_confirmation'' then
        (case Option.bind (wh_J h raw) unmarshal_C2B of
           None \<Rightarrow> Inl (ErrorString ''unmarshal c2b payload'')
         | Some p \<Rightarrow> Inr (tbind (IngestC2B (wh_Keys h) (wh_ledger_now h) (ToC2BInput p raw))
             (\<lambda>res. ret (ReplayC2B res))))
      else if we_kind ev = ''stk_callback'' then
        (case Option.bind (wh_J h raw) unmarshal_STK of
           None \<Rightarrow> Inl (ErrorString ''unmarshal stk payload'')
         | Some cb \<Rightarrow> (case Flatten cb of
             Inl e \<Rightarrow> Inl (Wrap (''flatten stk callback: '' @ err_text e) e)
           | Inr res \<Rightarrow> Inr (tbind (IngestSTK (wh_Keys h) (wh_ledger_now h) (stk_input res raw))
               (\<lambda>_. ret ReplayOK))))
      else if we_kind ev = ''reversal'' then
        (case Option.bind (wh_J h raw) unmarshal_reversal of
           None \<Rightarrow> Inl (ErrorString ''unmarshal reversal payload'')
         | Some p \<Rightarrow>
             if ExtractOriginalTransID p = [] then Inl (ErrorString ''missing original transaction id'')
             else Inr (tbind (IngestReversal (wh_ledger_now h) (ExtractOriginalTransID p)
                 (if rp_Reason p = [] then default_reason else rp_Reason p)) (\<lambda>_. ret ReplayOK)))
      else Inl (ErrorString (''unsupported replay kind '' @ quoted (we_kind ev))))"

definition ReplayWebhook :: "Webhooks option \<Rightarrow> uuid \<Rightarrow> replay_result tx" where
  "ReplayWebhook ingest i = (case ingest of
     None \<Rightarrow> raise (ErrorString ''ingest service not available'')
   | Some h \<Rightarrow>
       tbind (WithAdmin (query_one (\<lambda>s. row_by we_id i (webhook_events s)))) (\<lambda>ev.
       if we_payload ev = [] then raise (ErrorString ''webhook event has no payload'')
       else case replay_ingest h ev of
         Inl e \<Rightarrow> raise e
       | Inr m \<Rightarrow>
           tbind (attempt m) (\<lambda>r.
           tbind (ignore (WithAdmin (MarkWebhookProcessed i (case r of Inl e \<Rightarrow> Some (err_text e) | Inr _ \<Rightarrow> None)))) (\<lambda>_.
           of_result r))))"

definition undefined_column :: go_error where "undefined_column = PgError ''42703''"

definition DeadWebhooks :: "int \<Rightarrow> unit list tx" where
  "DeadWebhooks limit = WithAdmin (stmt (\<lambda>s. Inl undefined_column))"

definition Flags :: "unit list tx" where
  "Flags = WithAdmin (stmt (\<lambda>s. Inl undefined_column))"

subsection \<open>Messages to a merchant\<close>

definition owner_number :: "uuid \<Rightarrow> bytes tx" where
  "owner_number oid = query_one (\<lambda>s. Option.bind
     (find (\<lambda>m. mem_org_id m = oid \<and> mem_role m = ''owner'' \<and> mem_user_id m \<in> user_id ` set (users s)) (memberships s))
     (\<lambda>m. map_option user_msisdn_enc (row_by user_id (mem_user_id m) (users s))))"

definition broadcast_row :: "uuid \<Rightarrow> string \<Rightarrow> string \<Rightarrow> time \<Rightarrow> uuid \<Rightarrow> Notification" where
  "broadcast_row oid channel msg now i = \<lparr>nt_id = i, nt_org_id = oid, nt_invoice_id = None,
     nt_channel = channel, nt_to_msisdn_enc = [], nt_to_msisdn_hash = [], nt_template = ''admin_broadcast'',
     nt_locale = ''en'', nt_body = msg, nt_message_id = None, nt_status = ''sent'', nt_cost_cents = 0,
     nt_sent_at = Some now, nt_delivered_at = None, nt_created_at = now\<rparr>"

definition send_error_text :: "send_error \<Rightarrow> string" where
  "send_error_text e = (case e of SendFailed x \<Rightarrow> err_text x | PermanentError m \<Rightarrow> ''notify: '' @ m)"

definition NotifyMerchant ::
    "Keyring \<Rightarrow> (string \<Rightarrow> string \<Rightarrow> send_error + SendResult) option \<Rightarrow> uuid \<Rightarrow> string \<Rightarrow> string \<Rightarrow> unit tx" where
  "NotifyMerchant k sender oid message channel0 =
     (let channel = (if channel0 = [] then ''sms'' else channel0) in
      if channel \<noteq> ''sms'' \<and> channel \<noteq> ''email'' then raise (ErrorString (''unsupported channel '' @ quoted channel))
      else if trim_space message = [] then raise (ErrorString ''message cannot be empty'')
      else
        tbind (attempt (WithAdmin (owner_number oid))) (\<lambda>r. case r of
          Inl e \<Rightarrow> raise (Wrap (''lookup org owner: '' @ err_text e) e)
        | Inr enc \<Rightarrow>
            (let phone = (if enc = [] then [] else case DecryptString k enc of Inl _ \<Rightarrow> [] | Inr p \<Rightarrow> p);
                 failure = (case sender of None \<Rightarrow> None
                   | Some send \<Rightarrow> if channel = ''sms'' \<and> phone \<noteq> []
                       then (case send (E164 phone) message of Inl e \<Rightarrow> Some e | Inr _ \<Rightarrow> None) else None)
             in case failure of
               Some e \<Rightarrow> raise (ErrorString (''send sms: '' @ send_error_text e))
             | None \<Rightarrow> ignore (WithAdmin (insert_notification (broadcast_row oid channel message))))))"

subsection \<open>Daraja's address list\<close>

record 'n DynamicAllowlist =
  al_cidrs :: "string list"
  al_nets :: "'n list"

text \<open>The cleaned entries with their networks, or the entry that does not parse.\<close>

fun parse_cidrs :: "(string \<Rightarrow> 'n option) \<Rightarrow> string list \<Rightarrow> string + (string \<times> 'n) list" where
  "parse_cidrs P [] = Inr []"
| "parse_cidrs P (c0 # cs) =
     (let c = trim_space c0 in
      if c = [] then parse_cidrs P cs
      else case P (if CHR ''/'' \<in> set c then c else c @ ''/32'') of
        None \<Rightarrow> Inl c
      | Some n \<Rightarrow> (case parse_cidrs P cs of Inl b \<Rightarrow> Inl b | Inr r \<Rightarrow> Inr ((c, n) # r)))"

definition allowlist_Set ::
    "(string \<Rightarrow> 'n option) \<Rightarrow> string list \<Rightarrow> 'n DynamicAllowlist \<Rightarrow> string option \<times> 'n DynamicAllowlist" where
  "allowlist_Set P cidrs al = (case parse_cidrs P cidrs of
     Inl bad \<Rightarrow> (Some bad, al)
   | Inr r \<Rightarrow> (None, \<lparr>al_cidrs = map fst r, al_nets = map snd r\<rparr>))"

definition NewDynamicAllowlist :: "(string \<Rightarrow> 'n option) \<Rightarrow> string list \<Rightarrow> 'n DynamicAllowlist" where
  "NewDynamicAllowlist P cidrs = snd (allowlist_Set P cidrs \<lparr>al_cidrs = [], al_nets = []\<rparr>)"

definition IsEmpty :: "'n DynamicAllowlist \<Rightarrow> bool" where
  "IsEmpty al \<longleftrightarrow> al_nets al = []"

text \<open>An address that does not parse is \<open>None\<close>.\<close>

definition Allows :: "('n \<Rightarrow> 'ip \<Rightarrow> bool) \<Rightarrow> 'n DynamicAllowlist \<Rightarrow> 'ip option \<Rightarrow> bool" where
  "Allows contains al ip = (if al_nets al = [] then True
     else case ip of None \<Rightarrow> False | Some a \<Rightarrow> list_ex (\<lambda>n. contains n a) (al_nets al))"

definition allowlist_Middleware ::
    "('n \<Rightarrow> 'ip \<Rightarrow> bool) \<Rightarrow> 'n DynamicAllowlist \<Rightarrow> 'ip option \<Rightarrow> 'v response tx \<Rightarrow> 'v response tx" where
  "allowlist_Middleware contains al ip next =
     (if IsEmpty al \<or> Allows contains al ip then next
      else ret (Fail 403 ''forbidden'' ''Source address not allowed''))"

text \<open>The first hop of \<open>X-Forwarded-For\<close>, else the host of the peer address as \<open>net\<close> split it.\<close>

definition ClientIP :: "string \<Rightarrow> string \<Rightarrow> string" where
  "ClientIP xff host = (if xff \<noteq> [] then trim_space (takeWhile (\<lambda>c. c \<noteq> CHR '','') xff) else host)"

definition dec_strings :: "json \<Rightarrow> string list option" where
  "dec_strings j = (case j of JNull \<Rightarrow> Some []
   | JArr _ js \<Rightarrow> those (map (\<lambda>x. case x of JStr _ v \<Rightarrow> Some v | JNull \<Rightarrow> Some [] | _ \<Rightarrow> None) js)
   | _ \<Rightarrow> None)"

definition dec_cidrs :: "json \<Rightarrow> string list option" where
  "dec_cidrs j = (case dec_strings j of Some cs \<Rightarrow> Some cs
   | None \<Rightarrow> map_option (\<lambda>(cidrs, ips). if cidrs \<noteq> [] then cidrs else ips)
       (dec_struct [(''cidrs'', \<lambda>r k. map_option (\<lambda>x. apfst (\<lambda>_. x) r) (dec_strings k)),
          (''ips'', \<lambda>r k. map_option (\<lambda>x. apsnd (\<lambda>_. x) r) (dec_strings k))] ([], []) j))"

definition updateDarajaIPs ::
    "(string \<Rightarrow> 'n option) \<Rightarrow> json option \<Rightarrow> 'n DynamicAllowlist \<Rightarrow> string list response \<times> 'n DynamicAllowlist" where
  "updateDarajaIPs P body al = (case Option.bind body dec_cidrs of
     None \<Rightarrow> (Fail 400 ''invalid_json'' (''Body must be a JSON array of CIDRs or {'' @ quoted ''cidrs'' @ '': [...]}''), al)
   | Some cidrs \<Rightarrow> (case allowlist_Set P cidrs al of
       (Some c, al') \<Rightarrow> (Fail 400 ''invalid_cidr'' (''Invalid CIDR format '' @ quoted c), al')
     | (None, al') \<Rightarrow> (JSON 200 (al_cidrs al'), al')))"

subsection \<open>Routes\<close>

definition limitParam :: "string \<Rightarrow> int" where
  "limitParam q = (case ParseInt q of None \<Rightarrow> 100 | Some n \<Rightarrow> if n \<le> 0 \<or> 500 < n then 100 else n)"

record AdminHandler =
  ah_S :: bool \<comment> \<open>whether the service is configured\<close>
  ah_Keys :: Keyring
  ah_Sender :: "(string \<Rightarrow> string \<Rightarrow> send_error + SendResult) option"
  ah_Ingest :: "Webhooks option"
  ah_J :: "string \<Rightarrow> json option"

definition with_service :: "AdminHandler \<Rightarrow> 'v response tx \<Rightarrow> 'v response tx" where
  "with_service h m = (if ah_S h then m else ret (Fail 503 ''unavailable'' ''Admin service not configured''))"

definition path_id :: "string \<Rightarrow> uuid option \<Rightarrow> (uuid \<Rightarrow> 'v response tx) \<Rightarrow> 'v response tx" where
  "path_id what i m = (case i of None \<Rightarrow> ret (Fail 400 ''bad_request'' (''Invalid '' @ what @ '' ID'')) | Some x \<Rightarrow> m x)"

definition json_body :: "'b option \<Rightarrow> ('b \<Rightarrow> 'v response tx) \<Rightarrow> 'v response tx" where
  "json_body b m = (case b of None \<Rightarrow> ret (Fail 400 ''bad_request'' ''Invalid JSON body'') | Some x \<Rightarrow> m x)"

definition internal_error :: "string \<Rightarrow> go_error \<Rightarrow> 'v response" where
  "internal_error msg e = Fail 500 ''internal'' msg"

definition admin_orgs :: "AdminHandler \<Rightarrow> string \<Rightarrow> OrgRow list response tx" where
  "admin_orgs h limit = with_service h (answer (Orgs (limitParam limit))
     (internal_error ''Could not list organisations'') (JSON 200))"

definition updateOrg ::
    "AdminHandler \<Rightarrow> uuid option \<Rightarrow> (string \<times> string) option \<Rightarrow> OrgRow response tx" where
  "updateOrg h pid body = with_service h (path_id ''org'' pid (\<lambda>i. json_body body (\<lambda>(st, tier).
     answer (UpdateOrg i st tier) (\<lambda>e. Fail 400 ''bad_request'' (err_text e)) (JSON 200))))"

definition batchSafaricomExport :: "AdminHandler \<Rightarrow> SafaricomExportRow list response tx" where
  "batchSafaricomExport h = with_service h (answer BatchSafaricomExport
     (internal_error ''Could not export batch'') (JSON 200))"

definition notifyMerchant ::
    "AdminHandler \<Rightarrow> uuid option \<Rightarrow> (string \<times> string) option \<Rightarrow> string response tx" where
  "notifyMerchant h pid body = with_service h (path_id ''org'' pid (\<lambda>i. json_body body (\<lambda>(msg, channel).
     if trim_space msg = [] then ret (Fail 400 ''bad_request'' ''Message cannot be empty'')
     else answer (NotifyMerchant (ah_Keys h) (ah_Sender h) i msg channel)
       (\<lambda>e. Fail 500 ''internal'' (err_text e)) (\<lambda>_. JSON 200 ''sent''))))"

definition dlqInvoices :: "AdminHandler \<Rightarrow> string \<Rightarrow> DLQInvoiceRow list response tx" where
  "dlqInvoices h limit = with_service h (answer (DLQInvoices (limitParam limit))
     (internal_error ''Could not list DLQ invoices'') (JSON 200))"

definition requeueInvoice :: "AdminHandler \<Rightarrow> uuid option \<Rightarrow> (string \<times> uuid) response tx" where
  "requeueInvoice h pid = with_service h (path_id ''invoice'' pid (\<lambda>i.
     answer (RequeueInvoice i) (\<lambda>e. Fail 500 ''internal'' (err_text e)) (\<lambda>_. JSON 200 (''requeued'', i))))"

definition forceAcked ::
    "AdminHandler \<Rightarrow> uuid option \<Rightarrow> (string \<times> string) option \<Rightarrow> (uuid \<times> string \<times> string) response tx" where
  "forceAcked h pid body = with_service h (path_id ''invoice'' pid (\<lambda>i. json_body body (\<lambda>(no, sig).
     if trim_space no = [] \<or> trim_space sig = []
     then ret (Fail 400 ''bad_request'' ''Both kra_receipt_no and kra_receipt_sign are required'')
     else answer (ForceAcked i no sig) (\<lambda>e. Fail 500 ''internal'' (err_text e)) (\<lambda>_. JSON 200 (i, no, sig)))))"

definition admin_webhooks :: "AdminHandler \<Rightarrow> string \<Rightarrow> string \<Rightarrow> WebhookEvent list response tx" where
  "admin_webhooks h transID limit = with_service h (answer (admin_Webhooks (ah_J h) transID (limitParam limit))
     (internal_error ''Could not list webhooks'') (JSON 200))"

definition replayWebhook :: "AdminHandler \<Rightarrow> uuid option \<Rightarrow> replay_result response tx" where
  "replayWebhook h pid = with_service h (path_id ''webhook event'' pid (\<lambda>i.
     answer (ReplayWebhook (ah_Ingest h) i) (\<lambda>e. Fail 500 ''internal'' (err_text e)) (JSON 200)))"

definition dead :: "AdminHandler \<Rightarrow> string \<Rightarrow> unit list response tx" where
  "dead h limit = with_service h (answer (DeadWebhooks (limitParam limit))
     (internal_error ''Could not list webhook events'') (JSON 200))"

definition admin_flags :: "AdminHandler \<Rightarrow> unit list response tx" where
  "admin_flags h = with_service h (answer Flags (internal_error ''Could not list flags'') (JSON 200))"

end
