(* ===== verification/Reconcile.thy ===== *)
theory Reconcile
  imports Daraja LedgerProps
begin

text \<open>
  The two periodic jobs that catch payments the first delivery missed:
  \<open>internal/mpesa/reconcile.go\<close> finishes stored events that were not processed, and
  \<open>internal/mpesa/pull_worker.go\<close> asks Daraja for the last day's transactions of every
  verified number and ingests them.

  Every event the program stores comes from M-Pesa (\<open>provider = 'mpesa'\<close>), so the provider
  column is not modelled. Daraja's answer to the pull query is a function of the number and
  the window, and \<open>json.Marshal\<close> of a payload, which is only stored, is an argument.
\<close>

subsection \<open>The sweep over stored events\<close>

definition ListUnprocessedWebhookEvents :: "int \<Rightarrow> WebhookEvent list tx" where
  "ListUnprocessedWebhookEvents limit = query (\<lambda>s. take (nat limit) (sort_key we_received_at
     (filter (\<lambda>e. we_processed_at e = None \<and> we_received_at e < clock s - 2 * minute) (webhook_events s))))"

record Stats =
  st_Seen :: int
  st_Processed :: int
  st_Skipped :: int
  st_Failed :: int

definition no_stats :: Stats where
  "no_stats = \<lparr>st_Seen = 0, st_Processed = 0, st_Skipped = 0, st_Failed = 0\<rparr>"

record Reconciler =
  rc_Batch :: int
  rc_Keys :: Keyring
  rc_now :: time
  rc_J :: "string \<Rightarrow> json option"

definition NewReconciler :: "Keyring \<Rightarrow> time \<Rightarrow> (string \<Rightarrow> json option) \<Rightarrow> Reconciler" where
  "NewReconciler k now J = \<lparr>rc_Batch = 200, rc_Keys = k, rc_now = now, rc_J = J\<rparr>"

definition markError :: "WebhookEvent \<Rightarrow> string \<Rightarrow> unit tx" where
  "markError ev msg = ignore (WithIngest (MarkWebhookProcessed (we_id ev) (Some msg)))"

text \<open>The payload of an event, when it still parses and validates.\<close>

definition stored_payload :: "Reconciler \<Rightarrow> WebhookEvent \<Rightarrow> C2BPayload option" where
  "stored_payload r ev = (case Option.bind (rc_J r (we_payload ev)) unmarshal_C2B of
     None \<Rightarrow> None | Some p \<Rightarrow> if Validate p = None then Some p else None)"

definition reconcile_event :: "Reconciler \<Rightarrow> WebhookEvent \<Rightarrow> Stats \<Rightarrow> Stats tx" where
  "reconcile_event r ev st0 =
     (let st = st0\<lparr>st_Seen := st_Seen st0 + 1\<rparr>;
          failed = st\<lparr>st_Failed := st_Failed st + 1\<rparr> in
      if we_kind ev \<noteq> ''c2b_confirmation'' \<and> we_kind ev \<noteq> ''reversal''
      then ret (st\<lparr>st_Skipped := st_Skipped st + 1\<rparr>)
      else case stored_payload r ev of
        None \<Rightarrow> tbind (markError ev ''payload no longer parses'') (\<lambda>_. ret failed)
      | Some p \<Rightarrow>
          (let inp = ToC2BInput p (we_payload ev) in
           tbind (attempt (WithIngest (ResolveForC2B inp))) (\<lambda>x. case x of
             Inl e \<Rightarrow>
               if errors_is e ErrNoRows
               then tbind (markError ev (''no verified shortcode '' @ cb_BusinessShortCode p)) (\<lambda>_. ret failed)
               else raise e
           | Inr sc \<Rightarrow>
               tbind (attempt (ProcessStoredC2B (rc_Keys r) (rc_now r) (we_id ev) sc inp)) (\<lambda>y. case y of
                 Inl _ \<Rightarrow> ret failed
               | Inr _ \<Rightarrow> ret (st\<lparr>st_Processed := st_Processed st + 1\<rparr>)))))"

fun reconcile_events :: "Reconciler \<Rightarrow> WebhookEvent list \<Rightarrow> Stats \<Rightarrow> Stats tx" where
  "reconcile_events r [] st = ret st"
| "reconcile_events r (ev # evs) st = tbind (reconcile_event r ev st) (reconcile_events r evs)"

definition Run :: "Reconciler \<Rightarrow> Stats tx" where
  "Run r = tbind (Unscoped (ListUnprocessedWebhookEvents (rc_Batch r))) (\<lambda>events.
     reconcile_events r events no_stats)"

subsection \<open>Daraja's pull interface\<close>

record PullTransaction =
  pt_TransactionType :: string
  pt_TransID :: string
  pt_TransTime :: string
  pt_TransAmount :: string
  pt_BusinessShortCode :: string
  pt_BillRefNumber :: string
  pt_InvoiceNumber :: string
  pt_OrgAccountBalance :: string
  pt_ThirdPartyTransID :: string
  pt_MSISDN :: string
  pt_FirstName :: string
  pt_MiddleName :: string
  pt_LastName :: string

definition pulled_payload :: "PullTransaction \<Rightarrow> C2BPayload" where
  "pulled_payload pt = no_payload\<lparr>cb_TransactionType := pt_TransactionType pt, cb_TransID := pt_TransID pt,
     cb_TransTime := pt_TransTime pt, cb_TransAmount := pt_TransAmount pt,
     cb_BusinessShortCode := pt_BusinessShortCode pt, cb_BillRefNumber := pt_BillRefNumber pt,
     cb_InvoiceNumber := pt_InvoiceNumber pt, cb_OrgAccountBalance := pt_OrgAccountBalance pt,
     cb_ThirdPartyTransID := pt_ThirdPartyTransID pt, cb_MSISDN := pt_MSISDN pt,
     cb_FirstName := pt_FirstName pt, cb_MiddleName := pt_MiddleName pt, cb_LastName := pt_LastName pt\<rparr>"

text \<open>\<open>t.In(Nairobi).Format("2006-01-02 15:04:05")\<close>\<close>

definition format_local :: "time \<Rightarrow> string" where
  "format_local t = (case civil (nairobi_day t) of (y, m, d) \<Rightarrow>
     (let r = t - nairobi_midnight t in
      zero_pad 4 y @ ''-'' @ two m @ ''-'' @ two d @ '' '' @ two (r div hour) @ '':'' @
      two (r mod hour div minute) @ '':'' @ two (r mod minute div second)))"

record PullWorker =
  pw_pull :: "(string \<Rightarrow> string \<Rightarrow> string \<Rightarrow> go_error + PullTransaction list) option"
  pw_Keys :: Keyring
  pw_now :: time
  pw_marshal :: "C2BPayload \<Rightarrow> string"

definition payment_known :: "string \<Rightarrow> bool tx" where
  "payment_known tid = Unscoped (tbind (attempt (GetPaymentByTransID tid)) (\<lambda>r. case r of
     Inr _ \<Rightarrow> ret True | Inl e \<Rightarrow> if errors_is e ErrNoRows then ret False else raise e))"

text \<open>The counters \<open>totalPulled\<close>, \<open>totalIngested\<close>, \<open>totalSkipped\<close>.\<close>

type_synonym pull_counts = "int \<times> int \<times> int"

definition pull_one :: "PullWorker \<Rightarrow> PullTransaction \<Rightarrow> pull_counts \<Rightarrow> pull_counts tx" where
  "pull_one w pt counts = (case counts of (pulled, ingested, skipped) \<Rightarrow>
     if pt_TransID pt = [] then ret (pulled + 1, ingested, skipped)
     else tbind (attempt (payment_known (pt_TransID pt))) (\<lambda>known. case known of
       Inl _ \<Rightarrow> ret (pulled + 1, ingested, skipped)
     | Inr True \<Rightarrow> ret (pulled + 1, ingested, skipped + 1)
     | Inr False \<Rightarrow>
         (let p = pulled_payload pt in
          tbind (attempt (IngestC2B (pw_Keys w) (pw_now w) (ToC2BInput p (pw_marshal w p)))) (\<lambda>res. case res of
            Inl _ \<Rightarrow> ret (pulled + 1, ingested, skipped)
          | Inr _ \<Rightarrow> ret (pulled + 1, ingested + 1, skipped)))))"

fun pull_all :: "PullWorker \<Rightarrow> PullTransaction list \<Rightarrow> pull_counts \<Rightarrow> pull_counts tx" where
  "pull_all w [] c = ret c"
| "pull_all w (pt # pts) c = tbind (pull_one w pt c) (pull_all w pts)"

fun pull_shortcodes ::
    "PullWorker \<Rightarrow> (string \<Rightarrow> go_error + PullTransaction list) \<Rightarrow> Shortcode list \<Rightarrow> pull_counts \<Rightarrow> pull_counts tx" where
  "pull_shortcodes w pull [] c = ret c"
| "pull_shortcodes w pull (sc # scs) c = (case pull (sc_shortcode sc) of
     Inl _ \<Rightarrow> pull_shortcodes w pull scs c
   | Inr txs \<Rightarrow> tbind (pull_all w txs c) (pull_shortcodes w pull scs))"

definition PullWork :: "PullWorker \<Rightarrow> pull_counts tx" where
  "PullWork w = (case pw_pull w of None \<Rightarrow> ret (0, 0, 0)
   | Some pull \<Rightarrow>
       tbind (attempt (WithAdmin (ListShortcodesByStatus ''verified'' 1000))) (\<lambda>r. case r of
         Inl e \<Rightarrow> raise (Wrap (''pull_transactions: list verified shortcodes: '' @ err_text e) e)
       | Inr rows \<Rightarrow> pull_shortcodes w
           (\<lambda>code. pull code (format_local (pw_now w - 24 * hour)) (format_local (pw_now w)))
           (map fst rows) (0, 0, 0)))"

end
