(* ===== verification/Api.thy ===== *)
theory Api
  imports Accountants LedgerViews Receipts Operators Billing Reconcile
begin

text \<open>
  The API server, put together as \<open>cmd/api/main.go\<close> does: the routes of every component behind
  the gates they are mounted with. A route is a value that carries what the standard library has
  read from the request (path identifiers, the query, the decoded body); the answer keeps its
  status and error, the bodies are those of the handlers. The server's own state is the
  allowlist of callback addresses and one set of buckets per rate limiter. \<open>Recover\<close> turns a
  panic into a 500. The letter download and the health check are not modelled.
\<close>

subsection \<open>The server\<close>

record ('n, 'ip) Server =
  sv_Now :: time
  sv_Keys :: Keyring
  sv_Resolver :: "(string \<Rightarrow> go_error + string) option"
  sv_PublicBaseURL :: string
  sv_PendingLongAfter :: duration
  sv_Org :: OrgService
  sv_Admin :: AdminHandler
  sv_Webhooks :: Webhooks
  sv_Files :: "(string \<Rightarrow> bytes \<Rightarrow> go_error option) option"
  sv_Sha :: "bytes \<Rightarrow> string"
  sv_RegisterC2B :: "(string \<Rightarrow> go_error option) option"
  sv_Numeric :: "string \<Rightarrow> int option"
  sv_ParseUUID :: "string \<Rightarrow> uuid option"
  sv_ParseCIDR :: "string \<Rightarrow> 'n option"
  sv_ParseIP :: "string \<Rightarrow> 'ip option"
  sv_Contains :: "'n \<Rightarrow> 'ip \<Rightarrow> bool"

datatype limiter = WebhookLimiter | DeliveryLimiter | ReceiptLimiter | ClaimLimiter
  | OTPRequestLimiter | OTPVerifyLimiter

record 'n api_state =
  st_db :: db
  st_allowlist :: "'n DynamicAllowlist"
  st_limits :: "limiter \<Rightarrow> buckets"

record ApiRequest =
  aq_Request :: Request
  aq_XFF :: string
  aq_Host :: string

definition client_ip :: "ApiRequest \<Rightarrow> string" where
  "client_ip aq = ClientIP (aq_XFF aq) (aq_Host aq)"

type_synonym 'n handler = "'n api_state \<Rightarrow> unit response \<times> 'n api_state"

definition plain :: "'v response tx \<Rightarrow> unit response tx" where
  "plain m = tbind m (\<lambda>r. ret (map_response (\<lambda>_. ()) r))"

definition Recover :: "unit response tx \<Rightarrow> 'n handler" where
  "Recover m st = (case m (st_db st) of
     (Inr r, s) \<Rightarrow> (r, st\<lparr>st_db := s\<rparr>)
   | (Inl _, s) \<Rightarrow> (Fail 500 ''internal'' ''Something went wrong on our side'', st\<lparr>st_db := s\<rparr>))"

text \<open>The limit, the window and the key prefix of each limiter.\<close>

definition limiter_config :: "limiter \<Rightarrow> int \<times> duration \<times> string" where
  "limiter_config l = (case l of
     WebhookLimiter \<Rightarrow> (600, minute, ''webhook:'') | DeliveryLimiter \<Rightarrow> (600, minute, ''at:'')
   | ReceiptLimiter \<Rightarrow> (120, minute, ''receipt:'') | ClaimLimiter \<Rightarrow> (20, hour, ''receipt_claim:'')
   | OTPRequestLimiter \<Rightarrow> (20, hour, ''otp:'') | OTPVerifyLimiter \<Rightarrow> (30, hour, ''otp:''))"

definition limited :: "limiter \<Rightarrow> time \<Rightarrow> string \<Rightarrow> 'n handler \<Rightarrow> 'n handler" where
  "limited l now ip h st = (case limiter_config l of (limit, window, key) \<Rightarrow>
     case RateLimit limit window (key @ ip) now (st_limits st l) of (ok, bs) \<Rightarrow>
       (let st' = st\<lparr>st_limits := (st_limits st)(l := bs)\<rparr> in
        if ok then h st' else (Fail 429 ''rate_limited'' ''Too many requests, slow down'', st')))"

subsection \<open>Routes without a session\<close>

datatype public_route =
    POST_daraja daraja_route "string option"
  | POST_delivery "(string \<times> string) option"
  | GET_receipt string
  | POST_receipt_claim string "(string \<times> string) option"
  | GET_csrf
  | POST_otp_request "go_error + nat" "(string \<times> string) option" \<comment> \<open>the random draw, the body\<close>
  | POST_otp_verify string "string option" "(string \<times> string) option" \<comment> \<open>user agent, address, body\<close>
  | GET_plans

definition plans_route :: "unit response tx" where
  "plans_route = plain (answer Plans (\<lambda>_. Fail 500 ''internal'' ''Could not list plans'') (\<lambda>ps. JSON 200 ps))"

definition serve_public :: "('n, 'ip) Server \<Rightarrow> ApiRequest \<Rightarrow> public_route \<Rightarrow> 'n handler" where
  "serve_public sv aq r = (let ip = client_ip aq; now = sv_Now sv in case r of
     POST_daraja d body \<Rightarrow> (\<lambda>st. if IsEmpty (st_allowlist st) \<or> Allows (sv_Contains sv) (st_allowlist st) (sv_ParseIP sv ip)
       then limited WebhookLimiter now ip (Recover (plain (serve_daraja (sv_Webhooks sv) d body))) st
       else (Fail 403 ''forbidden'' ''Source address not allowed'', st))
   | POST_delivery form \<Rightarrow> limited DeliveryLimiter now ip (Recover (plain (delivery form)))
   | GET_receipt code \<Rightarrow> limited ReceiptLimiter now ip (Recover (plain (receipt_get (sv_Keys sv) code)))
   | POST_receipt_claim code body \<Rightarrow> limited ClaimLimiter now ip
       (Recover (plain (receipt_claim (sv_Keys sv) (sv_Resolver sv) now code body)))
   | GET_csrf \<Rightarrow> Recover (plain (csrf_route (sv_Org sv) None (aq_Request aq)))
   | POST_otp_request draw body \<Rightarrow> limited OTPRequestLimiter now ip (Recover (plain (requestOTP (sv_Org sv) now draw body)))
   | POST_otp_verify ua addr body \<Rightarrow> limited OTPVerifyLimiter now ip
       (Recover (plain (verifyOTP (sv_Org sv) now ua addr body)))
   | GET_plans \<Rightarrow> Recover plans_route)"

subsection \<open>Account routes\<close>

datatype account_route =
    POST_logout
  | GET_orgs
  | POST_orgs "CreateOrgInput option"
  | GET_current_org
  | GET_etims
  | POST_etims "(string \<times> string) option"
  | GET_members
  | POST_invites "InviteInput option"
  | GET_invites
  | DELETE_invite "uuid option"
  | DELETE_member "uuid option"
  | GET_accountant_invites
  | POST_accept_invite "uuid option"
  | POST_reject_invite "uuid option"
  | GET_accountant_clients

definition serve_account :: "('n, 'ip) Server \<Rightarrow> HttpPrincipal \<Rightarrow> account_route \<Rightarrow> unit response tx" where
  "serve_account sv p r = (let svc = sv_Org sv in case r of
     POST_logout \<Rightarrow> plain (logout p)
   | GET_orgs \<Rightarrow> plain (listOrgs p)
   | POST_orgs body \<Rightarrow> plain (createOrg svc (sv_Now sv) p body)
   | GET_current_org \<Rightarrow> plain (currentOrg svc p)
   | GET_etims \<Rightarrow> plain (getEtims p)
   | POST_etims body \<Rightarrow> plain (configureEtims svc p body)
   | GET_members \<Rightarrow> plain (listMembers svc p)
   | POST_invites body \<Rightarrow> plain (createInvite svc p body)
   | GET_invites \<Rightarrow> plain (listInvites p)
   | DELETE_invite i \<Rightarrow> plain (revokeInvite p i)
   | DELETE_member i \<Rightarrow> plain (removeMember p i)
   | GET_accountant_invites \<Rightarrow> plain (listAccountantInvites svc p)
   | POST_accept_invite i \<Rightarrow> plain (acceptAccountantInvite p i)
   | POST_reject_invite i \<Rightarrow> plain (rejectAccountantInvite p i)
   | GET_accountant_clients \<Rightarrow> plain (listAccountantClients svc (sv_Now sv) p))"

definition account_method :: "account_route \<Rightarrow> string" where
  "account_method r = (case r of
     POST_logout \<Rightarrow> ''POST'' | POST_orgs _ \<Rightarrow> ''POST'' | POST_etims _ \<Rightarrow> ''POST'' | POST_invites _ \<Rightarrow> ''POST''
   | POST_accept_invite _ \<Rightarrow> ''POST'' | POST_reject_invite _ \<Rightarrow> ''POST''
   | DELETE_invite _ \<Rightarrow> ''DELETE'' | DELETE_member _ \<Rightarrow> ''DELETE'' | _ \<Rightarrow> ''GET'')"

subsection \<open>Ledger, report and operator routes\<close>

datatype read_route =
    GET_shortcodes
  | GET_shortcode "uuid option"
  | GET_payments string string string string \<comment> \<open>status, q, limit, offset\<close>
  | GET_payment "uuid option"
  | GET_items
  | GET_sales string string string
  | GET_sale "uuid option"
  | GET_invoices invoice_params
  | GET_invoice "uuid option"
  | GET_attention
  | GET_today
  | GET_vat string
  | GET_itax string
  | GET_summary string
  | GET_entitlement

definition entitlement_route :: "time \<Rightarrow> HttpPrincipal \<Rightarrow> Entitlement response tx" where
  "entitlement_route now p = answer (get_entitlement now (pr_OrgID p))
     (\<lambda>_. Fail 500 ''internal'' ''Could not load the plan'') (\<lambda>e. JSON 200 e)"

definition serve_read :: "('n, 'ip) Server \<Rightarrow> HttpPrincipal \<Rightarrow> read_route \<Rightarrow> unit response tx" where
  "serve_read sv p r = (let k = sv_Keys sv; base = sv_PublicBaseURL sv; now = sv_Now sv in case r of
     GET_shortcodes \<Rightarrow> plain (listShortcodes p)
   | GET_shortcode i \<Rightarrow> plain (getShortcode p i)
   | GET_payments status q limit offset \<Rightarrow> plain (listPayments k p status q limit offset)
   | GET_payment i \<Rightarrow> plain (getPayment k p i)
   | GET_items \<Rightarrow> plain (listItems p)
   | GET_sales status limit offset \<Rightarrow> plain (listSales p status limit offset)
   | GET_sale i \<Rightarrow> plain (getSale p i)
   | GET_invoices a \<Rightarrow> plain (listInvoices k base p a)
   | GET_invoice i \<Rightarrow> plain (getInvoice k base p i)
   | GET_attention \<Rightarrow> plain (attention k base (sv_PendingLongAfter sv) now p)
   | GET_today \<Rightarrow> plain (report_today now p)
   | GET_vat period \<Rightarrow> plain (report_vat now p period)
   | GET_itax month \<Rightarrow> plain (exportItax k now p month)
   | GET_summary period \<Rightarrow> plain (analyticsSummary now p period)
   | GET_entitlement \<Rightarrow> plain (entitlement_route now p))"

datatype write_route =
    POST_shortcodes "shortcodeInput option"
  | PATCH_shortcode "uuid option" "shortcodeInput option"
  | POST_authorization "uuid option" "PartEvent list option"
  | POST_convert "uuid option" "convertInput option"
  | POST_items "itemInput option"
  | PATCH_item "uuid option" "itemInput option"
  | POST_sales "saleInput option"
  | POST_settle "uuid option" "int option"
  | POST_retry "uuid option"
  | POST_reissue "uuid option" "(string \<times> string) option"
  | POST_resend "uuid option" "string option"
  | POST_credit_note "uuid option" string

definition serve_write :: "('n, 'ip) Server \<Rightarrow> HttpPrincipal \<Rightarrow> write_route \<Rightarrow> unit response tx" where
  "serve_write sv p r = (let k = sv_Keys sv; base = sv_PublicBaseURL sv; now = sv_Now sv in case r of
     POST_shortcodes body \<Rightarrow> plain (createShortcode p body)
   | PATCH_shortcode i body \<Rightarrow> plain (updateShortcode p i body)
   | POST_authorization i parts \<Rightarrow> plain (submitAuthorization (sv_Files sv) (sv_Sha sv) now p i parts)
   | POST_convert i body \<Rightarrow> plain (convertPayment k (sv_Resolver sv) base now p i body)
   | POST_items body \<Rightarrow> plain (createItem (sv_Numeric sv) p body)
   | PATCH_item i body \<Rightarrow> plain (updateItem (sv_Numeric sv) p i body)
   | POST_sales body \<Rightarrow> plain (createSale k (sv_Resolver sv) now p body)
   | POST_settle i cash \<Rightarrow> plain (settleSale k base now p i cash)
   | POST_retry i \<Rightarrow> plain (retryInvoice k base p i)
   | POST_reissue i body \<Rightarrow> plain (reissueInvoice k base now p i body)
   | POST_resend i msisdn \<Rightarrow> plain (resendInvoice k p i msisdn)
   | POST_credit_note i reason \<Rightarrow> plain (createCreditNote k base now p i reason))"

definition write_method :: "write_route \<Rightarrow> string" where
  "write_method r = (case r of PATCH_shortcode _ _ \<Rightarrow> ''PATCH'' | PATCH_item _ _ \<Rightarrow> ''PATCH'' | _ \<Rightarrow> ''POST'')"

datatype admin_route =
    GET_admin_orgs string
  | PATCH_admin_org "uuid option" "(string \<times> string) option"
  | POST_safaricom_export
  | POST_admin_notify "uuid option" "(string \<times> string) option"
  | GET_dlq string
  | POST_requeue "uuid option"
  | POST_force_acked "uuid option" "(string \<times> string) option"
  | GET_webhooks string string
  | POST_replay "uuid option"
  | GET_dead string
  | GET_flags
  | GET_admin_shortcodes string int
  | PATCH_verify "uuid option" "string option"
  | PATCH_reject "uuid option" "string option"

definition serve_admin :: "('n, 'ip) Server \<Rightarrow> HttpPrincipal \<Rightarrow> admin_route \<Rightarrow> unit response tx" where
  "serve_admin sv p r = (let h = sv_Admin sv; k = sv_Keys sv in case r of
     GET_admin_orgs limit \<Rightarrow> plain (admin_orgs h limit)
   | PATCH_admin_org i body \<Rightarrow> plain (updateOrg h i body)
   | POST_safaricom_export \<Rightarrow> plain (batchSafaricomExport h)
   | POST_admin_notify i body \<Rightarrow> plain (notifyMerchant h i body)
   | GET_dlq limit \<Rightarrow> plain (dlqInvoices h limit)
   | POST_requeue i \<Rightarrow> plain (requeueInvoice h i)
   | POST_force_acked i body \<Rightarrow> plain (forceAcked h i body)
   | GET_webhooks q limit \<Rightarrow> plain (admin_webhooks h q limit)
   | POST_replay i \<Rightarrow> plain (replayWebhook h i)
   | GET_dead limit \<Rightarrow> plain (dead h limit)
   | GET_flags \<Rightarrow> plain (admin_flags h)
   | GET_admin_shortcodes status limit \<Rightarrow> plain (adminListShortcodes k status limit)
   | PATCH_verify i remark \<Rightarrow> plain (adminVerifyShortcode k (sv_RegisterC2B sv) (Some p) i remark)
   | PATCH_reject i reason \<Rightarrow> plain (adminRejectShortcode k (Some p) i reason))"

definition admin_method :: "admin_route \<Rightarrow> string" where
  "admin_method r = (case r of
     PATCH_admin_org _ _ \<Rightarrow> ''PATCH'' | PATCH_verify _ _ \<Rightarrow> ''PATCH'' | PATCH_reject _ _ \<Rightarrow> ''PATCH''
   | POST_safaricom_export \<Rightarrow> ''POST'' | POST_admin_notify _ _ \<Rightarrow> ''POST'' | POST_requeue _ \<Rightarrow> ''POST''
   | POST_force_acked _ _ \<Rightarrow> ''POST'' | POST_replay _ \<Rightarrow> ''POST'' | _ \<Rightarrow> ''GET'')"

subsection \<open>The router\<close>

datatype api_route =
    Public public_route
  | Account account_route
  | Reads read_route
  | Writes write_route
  | Admin admin_route
  | GET_daraja_ips
  | POST_daraja_ips "json option"

definition route_method :: "api_route \<Rightarrow> string" where
  "route_method r = (case r of Public _ \<Rightarrow> ''POST'' | Account a \<Rightarrow> account_method a | Reads _ \<Rightarrow> ''GET''
   | Writes w \<Rightarrow> write_method w | Admin a \<Rightarrow> admin_method a | GET_daraja_ips \<Rightarrow> ''GET'' | POST_daraja_ips _ \<Rightarrow> ''POST'')"

text \<open>The group behind \<open>Authenticate\<close>; the router has matched the request's method.\<close>

definition authenticated ::
    "('n, 'ip) Server \<Rightarrow> ApiRequest \<Rightarrow> string \<Rightarrow> (HttpPrincipal \<Rightarrow> unit response tx) \<Rightarrow> unit response tx" where
  "authenticated sv aq meth h =
     Authenticate (sv_Org sv) (sv_ParseUUID sv) ((aq_Request aq)\<lparr>rq_Method := meth\<rparr>) h"

definition operator_only :: "HttpPrincipal \<Rightarrow> unit response tx \<Rightarrow> unit response tx" where
  "operator_only p h = RequireRole [RoleAdmin] (Some p) h"

definition in_tx :: "('n, 'ip) Server \<Rightarrow> ApiRequest \<Rightarrow> api_route \<Rightarrow> unit response tx" where
  "in_tx sv aq r = authenticated sv aq (route_method r) (\<lambda>p. case r of
     Account a \<Rightarrow> serve_account sv p a
   | Reads q \<Rightarrow> RequireOrg (Some p) (serve_read sv p q)
   | Writes w \<Rightarrow> RequireOrg (Some p) (accountants_read_only (Some p) (serve_write sv p w))
   | Admin a \<Rightarrow> operator_only p (serve_admin sv p a)
   | _ \<Rightarrow> operator_only p (ret (JSON 200 ())))"

definition serve :: "('n, 'ip) Server \<Rightarrow> ApiRequest \<Rightarrow> api_route \<Rightarrow> 'n handler" where
  "serve sv aq r st = (case r of
     Public q \<Rightarrow> serve_public sv aq q st
   | POST_daraja_ips body \<Rightarrow> (case Recover (in_tx sv aq r) st of (gate, st') \<Rightarrow>
       if \<not> accepted_response gate then (gate, st')
       else case updateDarajaIPs (sv_ParseCIDR sv) body (st_allowlist st') of
         (resp, al) \<Rightarrow> (map_response (\<lambda>_. ()) resp, st'\<lparr>st_allowlist := al\<rparr>))
   | _ \<Rightarrow> Recover (in_tx sv aq r) st)"

end
