(* ===== verification/ReadRoutes.thy ===== *)
theory ReadRoutes
  imports Api
begin

text \<open>
  Routes that only read. The gates, the answers and every reading statement keep any relation on
  the tables; on equality this says that a route without a writing statement leaves every table
  as it was, and a gate that refuses a request changes nothing.
\<close>

context table_frame
begin

lemma t_answer: "keeps S R m \<Longrightarrow> keeps S R (answer m bad good)"
  unfolding answer_def by (intro keeps_intros)

lemma t_plain: "keeps S R m \<Longrightarrow> keeps S R (plain m)"
  unfolding plain_def by (intro keeps_intros)

lemma t_gates:
  "keeps S R m \<Longrightarrow> keeps S R (RequireOrg q m)" "keeps S R m \<Longrightarrow> keeps S R (RequireRole roles q m)"
  "keeps S R m \<Longrightarrow> keeps S R (accountants_read_only q m)" "keeps S R m \<Longrightarrow> keeps S R (owners_only p m)"
  "keeps S R m \<Longrightarrow> keeps S R (with_service h m)" "keeps S R m \<Longrightarrow> keeps S R (requireToken wh tok m)"
  unfolding RequireOrg_def RequireRole_def accountants_read_only_def owners_only_def with_service_def requireToken_def
  by (simp_all add: keeps_ret split: option.splits)

lemma t_params:
  "(\<And>x. keeps S R (f x)) \<Longrightarrow> keeps S R (idParam i f)" "(\<And>x. keeps S R (f x)) \<Longrightarrow> keeps S R (path_id what i f)"
  "(\<And>x. keeps S R (g x)) \<Longrightarrow> keeps S R (json_body b g)"
  unfolding idParam_def path_id_def json_body_def by (simp_all add: keeps_ret split: option.splits)

lemma t_or_default: "keeps S R m \<Longrightarrow> keeps S R (or_default d m)"
  unfolding or_default_def by (intro keeps_intros)

lemma t_sum_bigint: "keeps S R (sum_bigint f)"
  unfolding sum_bigint_def by (rule keeps_stmt) (auto simp: R_refl split: if_splits)

lemma t_paged: "keeps S R (paged limit offset t q)"
  unfolding paged_def by (intro keeps_if keeps_query keeps_stmt) simp_all

lemma t_refused: "keeps S R (stmt (\<lambda>s. Inl e))"
  by (rule keeps_stmt) simp

lemma t_gather: "(\<And>x. keeps S R (q x)) \<Longrightarrow> keeps S R (gather q xs)"
  by (induction xs) (auto intro!: keeps_intros)

lemma t_scoped: "keeps UNIV R m \<Longrightarrow> keeps S R (scoped sc m)"
  by (rule keeps_scoped) (erule keeps_mono, simp)

lemma t_scopes:
  "keeps UNIV R m \<Longrightarrow> keeps S R (WithOrg oid m)" "keeps UNIV R m \<Longrightarrow> keeps S R (WithIngest m)"
  "keeps UNIV R m \<Longrightarrow> keeps S R (WithReceipt code m)" "keeps UNIV R m \<Longrightarrow> keeps S R (WithAdmin m)"
  "keeps UNIV R m \<Longrightarrow> keeps S R (Unscoped m)" "keeps UNIV R m \<Longrightarrow> keeps S R (WithAccountant m)"
  unfolding scope_defs WithAccountant_def by (intro t_scoped, assumption)+

lemma t_queries:
  "keeps S R ListPlans" "keeps S R (GetSubscription i)" "keeps S R (GetUsage i period)"
  "keeps S R (CountRecentOTPs h)" "keeps S R (LatestOTP h)" "keeps S R (GetUser i)"
  "keeps S R (GetUserByMSISDNHash h)" "keeps S R (GetSessionByTokenHash h)"
  "keeps S R (ListMembershipsForUser i)" "keeps S R (ListMembersForOrg i)" "keeps S R (GetOrgByPINHash h)"
  "keeps S R (ListInvitesForOrg i)" "keeps S R (GetInviteByID i)"
  "keeps S R (ListPendingInvitesForPhoneOrEmail h email)" "keeps S R (ListFiscalSubmissions i)"
  "keeps S R (ListNotificationsForInvoice i)" "keeps S R (owner_number i)"
  "keeps S R (ListUnprocessedWebhookEvents n)" "keeps S R (CountInvoicesByState i)"
  "keeps S R (CountPaymentsByStatus i)" "keeps S R (AnalyticsPayments i a b)"
  "keeps S R (AnalyticsVATLiability i a b)" "keeps S R (ListItaxReportRows i a b)"
  unfolding ListPlans_def GetSubscription_def GetUsage_def CountRecentOTPs_def LatestOTP_def GetUser_def
    GetUserByMSISDNHash_def GetSessionByTokenHash_def ListMembershipsForUser_def ListMembersForOrg_def
    GetOrgByPINHash_def ListInvitesForOrg_def GetInviteByID_def ListPendingInvitesForPhoneOrEmail_def
    ListFiscalSubmissions_def ListNotificationsForInvoice_def owner_number_def ListUnprocessedWebhookEvents_def
    CountInvoicesByState_def CountPaymentsByStatus_def AnalyticsPayments_def AnalyticsVATLiability_def
    ListItaxReportRows_def
  by (intro keeps_query keeps_query_one t_sum_bigint)+

lemma t_ledger_queries:
  "keeps S R (GetOrg i)" "keeps S R (GetShortcode i)" "keeps S R (GetItem i)" "keeps S R (FindCustomerByID i)"
  "keeps S R (GetSale i)" "keeps S R (ListSaleItems i)" "keeps S R (GetPayment i)" "keeps S R (ListPaymentsForSale i)"
  "keeps S R (GetInvoice i)" "keeps S R (GetInvoiceByPayment i)" "keeps S R (GetInvoiceBySale i)"
  "keeps S R (GetInvoiceByReceiptCode code)" "keeps S R (ListItems i)" "keeps S R (ListSales i limit offset st)"
  "keeps S R (ListPayments i limit offset st q h)" "keeps S R (ListInvoices i limit offset f)"
  "keeps S R (ListShortcodes i)" "keeps S R (ListShortcodesByStatus status n)" "keeps S R (GetShortcodeAdmin i)"
  "keeps S R (GetPaymentByTransID tid)" "keeps S R (ResolveShortcode code)"
  unfolding GetOrg_def GetShortcode_def GetItem_def FindCustomerByID_def GetSale_def ListSaleItems_def GetPayment_def
    ListPaymentsForSale_def GetInvoice_def GetInvoiceByPayment_def GetInvoiceBySale_def GetInvoiceByReceiptCode_def
    ListItems_def ListSales_def ListPayments_def ListInvoices_def ListShortcodes_def ListShortcodesByStatus_def
    GetShortcodeAdmin_def GetPaymentByTransID_def ResolveShortcode_def
  by (intro keeps_query keeps_query_one t_paged)+

lemmas t_intros = keeps_intros t_answer t_plain t_gates t_params t_or_default t_sum_bigint t_paged t_refused t_gather
  t_scopes t_queries t_ledger_queries

lemma t_invoiceIDForSale: "keeps S R (invoiceIDForSale i)"
  unfolding invoiceIDForSale_def by (intro t_intros)

lemma t_with_invoices: "keeps S R (with_invoices k ps)"
proof (induction ps)
  case (Cons p ps)
  show ?case unfolding with_invoices.simps by (intro t_intros t_invoiceIDForSale Cons)
qed (unfold with_invoices.simps, rule keeps_ret)

lemma t_read_routes:
  "keeps S R (listShortcodes p)" "keeps S R (getShortcode p i)" "keeps S R (listPayments k p a b c d)"
  "keeps S R (getPayment k p i)" "keeps S R (listItems p)" "keeps S R (listSales p a b c)" "keeps S R (getSale p i)"
  "keeps S R (listInvoices k base p params)" "keeps S R (getInvoice k base p i)" "keeps S R (attention k base dur now p)"
  unfolding listShortcodes_def getShortcode_def listPayments_def getPayment_def listItems_def listSales_def getSale_def
    listInvoices_def getInvoice_def attention_def invoice_detail_tx_def Let_def
  by (intro t_intros t_invoiceIDForSale t_with_invoices)+

lemma t_report_routes:
  "keeps S R (report_today now p)" "keeps S R (report_vat now p period)" "keeps S R (exportItax k now p month)"
  "keeps S R (analyticsSummary now p period)" "keeps S R (entitlement_route now p)"
  unfolding report_today_def report_vat_def exportItax_def analyticsSummary_def entitlement_route_def Today_def
    VATPosition_def ExportItaxCSV_def AnalyticsSummary_of_def get_entitlement_def TodayTotals_def VATPosition_row_def
    plan_part_def usage_part_def no_rows_to_none_def Let_def
  by (intro t_intros)+

lemma t_serve_read: "keeps S R (serve_read sv p r)"
  unfolding serve_read_def Let_def by (cases r; simp; intro t_plain t_read_routes t_report_routes)

lemma t_select_org: "keeps S R (select_org h p)"
  unfolding select_org_def by (intro t_intros)

lemma t_Principal_of: "keeps S R (Principal_of svc token h)"
  unfolding Principal_of_def principal_tx_def by (intro t_intros t_select_org)

lemma t_Authenticate:
  "(\<And>p. keeps S R (h p)) \<Longrightarrow> keeps S R (Authenticate svc parse rq h)"
  unfolding Authenticate_def by (intro t_intros t_Principal_of)

lemma t_list_clients: "keeps S R (list_clients k w ms)"
proof (induction ms)
  case (Cons m ms)
  show ?case unfolding list_clients.simps client_tx_def by (intro t_intros Cons)
qed (unfold list_clients.simps, rule keeps_ret)

lemma t_account_reads:
  "keeps S R (listOrgs p)" "keeps S R (currentOrg svc p)" "keeps S R (getEtims p)" "keeps S R (listMembers svc p)"
  "keeps S R (listInvites p)" "keeps S R (listAccountantInvites svc p)" "keeps S R (listAccountantClients svc now p)"
  "keeps S R (csrf_route svc q rq)"
  unfolding listOrgs_def currentOrg_def getEtims_def listMembers_def listInvites_def listAccountantInvites_def
    listAccountantClients_def csrf_route_def ListMemberships_def GetOrgView_def GetEtimsSettings_def ListMembers_def
    ListInvites_def ListPendingInvitesForUser_def ListAccountantClients_def Let_def
  by (intro t_intros t_list_clients t_Principal_of)+

lemma t_public_reads: "keeps S R (receipt_get k code)" "keeps S R plans_route"
  unfolding receipt_get_def Lookup_def lookup_tx_def plans_route_def Plans_def by (intro t_intros)+

lemma t_admin_reads:
  "keeps S R (admin_orgs h limit)" "keeps S R (batchSafaricomExport h)" "keeps S R (dlqInvoices h limit)"
  "keeps S R (admin_webhooks h q limit)" "keeps S R (dead h limit)" "keeps S R (admin_flags h)"
  "keeps S R (adminListShortcodes k status n)"
  unfolding admin_orgs_def batchSafaricomExport_def dlqInvoices_def admin_webhooks_def dead_def admin_flags_def
    adminListShortcodes_def Orgs_def BatchSafaricomExport_def DLQInvoices_def admin_Webhooks_def DeadWebhooks_def
    Flags_def admin_List_def Let_def
  by (intro t_intros)+

end

interpretation same: table_frame "(=)"
  by unfold_locales auto

end
