(* ===== verification/Samples.thy ===== *)
theory Samples
  imports Ledger
begin

text \<open>A small shop, for evaluating the operations: one organisation with eTIMS configured,
  one item, one verified till, and one open sale.\<close>

definition shop_org :: Org where
  "shop_org = \<lparr>org_id = 1, org_name = ''Duka'', org_kra_pin_enc = [], org_kra_pin_hash = [],
     org_vat_registered = True, org_fiscal_profile = [], org_locale = ''en'',
     org_etims_status = ''initialized'', org_pin_verified_at = None, org_kra_bhf_id = None,
     org_kra_device_serial = None, org_kra_cmc_key_enc = [], org_etims_failed_reason = None,
     org_etims_initialized_at = None, org_daraja_status = ''pending_upload'', org_created_at = 0\<rparr>"

definition shop_item :: Item where
  "shop_item = \<lparr>item_id = 2, item_org_id = 1, item_name = ''Sale'', item_class_code = ''99000000'',
     item_tax_category = ''B'', item_unit = ''PCS'', item_price_cents = 0, item_is_active = True,
     item_track_stock = True, item_stock_qty = 5000\<rparr>"

definition shop_till :: Shortcode where
  "shop_till = \<lparr>sc_id = 3, sc_org_id = 1, sc_kind = ''till'', sc_shortcode = ''174379'',
     sc_label = [], sc_default_item_id = Some 2, sc_auto_invoice = True, sc_verified_at = Some 1,
     sc_status = ''verified'', sc_letter_path = None, sc_submitted_at = None, sc_reviewed_by = None,
     sc_reviewed_at = None, sc_rejection_reason = None, sc_c2b_registered_at = None,
     sc_created_at = 0\<rparr>"

definition shop_db :: db where
  "shop_db = empty_db\<lparr>orgs := [shop_org], items := [shop_item], mpesa_shortcodes := [shop_till],
     next_id := 10\<rparr>"

definition shop_payment :: C2BInput where
  "shop_payment = \<lparr>c2b_Kind = ''c2b_confirmation'', c2b_TransID = ''TX1'', c2b_ShortCode = ''174379'',
     c2b_AmountCents = 11600, c2b_MSISDN = ''0712345678'', c2b_PayerName = ''Asha'',
     c2b_BillRef = [], c2b_PaidAt = 63871200000 * second, c2b_OriginalID = [], c2b_Raw = []\<rparr>"

definition cash_payment :: C2BInput where
  "cash_payment = shop_payment\<lparr>c2b_MSISDN := []\<rparr>"

lemma shop_ingest:
  "fst (IngestC2B plain_keyring 0 cash_payment shop_db) =
     Inr \<lparr>res_OrgID = 1, res_PaymentID = 13, res_SaleID = Some 11, res_InvoiceID = Some 14,
       res_Status = ''cash_sale'', res_Rule = ''auto_invoice'', res_Duplicate = False\<rparr> \<and>
   length (invoices (snd (IngestC2B plain_keyring 0 cash_payment shop_db))) = 1 \<and>
   length (payments (snd (IngestC2B plain_keyring 0 cash_payment shop_db))) = 1"
  by code_simp

lemma wf_shop: "wf (tbl shop_db)"
  by (simp add: wf_defs keyed_def shop_db_def empty_db_def)

end
