(* ===== verification/IngestProps.thy ===== *)
theory IngestProps
  imports LedgerProps Samples
begin

text \<open>
  Ingest: a delivery is applied once, only a verified shortcode lets money in, and what a
  payment creates (payment, sale, invoice, jobs) has the right amounts and states.
\<close>

subsection \<open>Once\<close>

definition seen :: "db \<Rightarrow> string \<Rightarrow> bool" where
  "seen s tid \<longleftrightarrow> (''mpesa:'' @ tid) \<in> we_external_id ` set (webhook_events s)"

definition duplicate_result :: C2BResult where
  "duplicate_result = no_result\<lparr>res_Duplicate := True\<rparr>"

lemma seen_history:
  assumes "history (tbl s) (tbl s')" and "seen s x"
  shows "seen s' x"
proof -
  have "prefix (map event_core (webhook_events s)) (map event_core (webhook_events s'))"
    using assms(1) by (simp add: history_def grows_def)
  then have "set (map event_core (webhook_events s)) \<subseteq> set (map event_core (webhook_events s'))"
    by (rule set_mono_prefix)
  with assms(2) show ?thesis
    by (force simp: seen_def event_core_def)
qed

lemma store_duplicate:
  assumes "c2b_Kind inp \<in> set webhook_kinds" and "seen s (c2b_TransID inp)" and "\<not> aborted s"
  shows "store_and_resolve inp s = (Inl ErrDuplicate, s)"
  using assms by (simp add: store_and_resolve_def InsertWebhookEvent_def stmt_def attempt_def
    tbind_def seen_def errors_is_def)

lemma ingest_duplicate:
  assumes "c2b_Kind inp \<in> set webhook_kinds" and "seen s (c2b_TransID inp)"
  shows "IngestC2B k now inp s = (Inr duplicate_result, s)"
proof -
  let ?s = "s\<lparr>scope := ScopeIngest, aborted := False\<rparr>"
  have "store_and_resolve inp ?s = (Inl ErrDuplicate, ?s)"
    using assms by (intro store_duplicate) (simp_all add: seen_def)
  then have "WithIngest (store_and_resolve inp) s = (Inl ErrDuplicate, s)"
    by (simp add: scope_defs scoped_def rollback_def)
  then show ?thesis
    by (simp add: IngestC2B_def attempt_def tbind_def errors_is_def duplicate_result_def)
qed

lemma store_fresh:
  assumes "c2b_Kind inp \<in> set webhook_kinds" and "\<not> seen s (c2b_TransID inp)" and "\<not> aborted s"
  obtains s' sc where "store_and_resolve inp s = (Inr (next_id s, sc), s')" and "seen s' (c2b_TransID inp)"
    and "\<not> aborted s'" and "sc = (case ResolveForC2B inp s' of (Inl _, _) \<Rightarrow> None | (Inr r, _) \<Rightarrow> Some r)"
    and "scope s' = scope s"
    and "tbl s' = (tbl s)\<lparr>webhook_events := webhook_events s', next_id := Suc (next_id s)\<rparr>"
proof -
  let ?e = "\<lparr>we_id = next_id s, we_kind = c2b_Kind inp, we_external_id = ''mpesa:'' @ c2b_TransID inp,
    we_payload = c2b_Raw inp, we_received_at = clock s, we_processed_at = None, we_error = None\<rparr>"
  let ?s = "s\<lparr>next_id := Suc (next_id s), webhook_events := webhook_events s @ [?e]\<rparr>"
  have ins: "InsertWebhookEvent (c2b_Kind inp) (''mpesa:'' @ c2b_TransID inp) (c2b_Raw inp) s =
      (Inr (next_id s), ?s)"
    using assms by (simp add: InsertWebhookEvent_def stmt_def seen_def)
  let ?q = "find (\<lambda>r. sees_shortcode ?s r \<and> sc_shortcode r = c2b_ShortCode inp \<and>
    sc_status r = ''verified'' \<and> sc_org_id r \<in> org_id ` set (orgs ?s)) (mpesa_shortcodes ?s)"
  have res: "ResolveForC2B inp ?s = (case ?q of None \<Rightarrow> (Inl ErrNoRows, ?s) | Some r \<Rightarrow> (Inr (resolve_row r), ?s))"
    using assms(3)
    by (auto simp: ResolveForC2B_def ResolveShortcode_def query_one_apply split: option.splits)
  show thesis
  proof (cases ?q)
    case (Some r)
    have "store_and_resolve inp s = (Inr (next_id s, Some (resolve_row r)), ?s)"
      using ins res Some by (simp add: store_and_resolve_def)
    then show thesis using assms(3) res Some
      by (intro that [of _ ?s]) (auto simp: seen_def tbl_def)
  next
    case None
    let ?u = "?s\<lparr>webhook_events := update_rows (\<lambda>e. we_id e = next_id s)
      (\<lambda>e. e\<lparr>we_processed_at := Some (clock s),
         we_error := Some (''no verified shortcode '' @ c2b_ShortCode inp)\<rparr>) (webhook_events ?s)\<rparr>"
    have same: "ResolveForC2B inp ?u = (Inl ErrNoRows, ?u)"
      using None assms(3)
      by (simp add: ResolveForC2B_def ResolveShortcode_def query_one_apply sees_shortcode_def own_def)
    have "store_and_resolve inp s = (Inr (next_id s, None), ?u)"
      using ins res None assms(3)
      by (simp add: store_and_resolve_def MarkWebhookProcessed_def update_apply errors_is_def)
    then show thesis using assms(3) same
      by (intro that [of _ ?u]) (auto simp: seen_def tbl_def)
  qed
qed

lemma ingest_fresh:
  assumes "c2b_Kind inp \<in> set webhook_kinds" and "\<not> seen s (c2b_TransID inp)"
  obtains s1 sc where "seen s1 (c2b_TransID inp)"
    and "tbl s1 = (tbl s)\<lparr>webhook_events := webhook_events s1, next_id := Suc (next_id s)\<rparr>"
    and "scope s1 = scope s" and "aborted s1 = aborted s"
    and "sc = (case WithIngest (ResolveForC2B inp) s1 of (Inl _, _) \<Rightarrow> None | (Inr r, _) \<Rightarrow> Some r)"
    and "IngestC2B k now inp s = (case sc of None \<Rightarrow> (Inl ErrUnknownShortcode, s1)
      | Some r \<Rightarrow> ProcessStoredC2B k now (next_id s) r inp s1)"
proof -
  let ?s = "s\<lparr>scope := ScopeIngest, aborted := False\<rparr>"
  have ns: "\<not> seen ?s (c2b_TransID inp)" using assms(2) by (simp add: seen_def)
  have na: "\<not> aborted ?s" by simp
  obtain u sc where st: "store_and_resolve inp ?s = (Inr (next_id ?s, sc), u)"
      and u1: "seen u (c2b_TransID inp)" and u2: "\<not> aborted u"
      and sc: "sc = (case ResolveForC2B inp u of (Inl _, _) \<Rightarrow> None | (Inr r, _) \<Rightarrow> Some r)"
      and u3: "scope u = scope ?s"
      and t: "tbl u = (tbl ?s)\<lparr>webhook_events := webhook_events u, next_id := Suc (next_id ?s)\<rparr>"
    by (rule store_fresh [OF assms(1) ns na])
  note u = u1 u2 u3
  let ?s1 = "u\<lparr>scope := scope s, aborted := aborted s\<rparr>"
  have same: "?s1\<lparr>scope := ScopeIngest, aborted := False\<rparr> = u"
    using u(2,3) by (cases u) simp
  have w: "WithIngest (store_and_resolve inp) s = (Inr (next_id s, sc), ?s1)"
    using st u(2) by (simp add: scope_defs scoped_def)
  have "snd (ResolveForC2B inp u) = u"
    by (simp add: ResolveForC2B_def ResolveShortcode_def query_one_apply split: option.splits)
  then have r: "sc = (case WithIngest (ResolveForC2B inp) ?s1 of (Inl _, _) \<Rightarrow> None | (Inr r, _) \<Rightarrow> Some r)"
    using u(2) unfolding sc scope_defs scoped_def same by (auto split: prod.splits sum.splits)
  show thesis
    using that [of ?s1 sc] u(1) t w r
    by (auto simp: seen_def IngestC2B_def attempt_def tbind_def split: option.splits)
qed

lemma ingest_stored:
  assumes "c2b_Kind inp \<in> set webhook_kinds"
  shows "seen (snd (IngestC2B k now inp s)) (c2b_TransID inp)"
proof (cases "seen s (c2b_TransID inp)")
  case True
  with ingest_duplicate [OF assms] show ?thesis by simp
next
  case False
  from assms False obtain s1 sc where s1: "seen s1 (c2b_TransID inp)"
    and run: "IngestC2B k now inp s = (case sc of None \<Rightarrow> (Inl ErrUnknownShortcode, s1)
      | Some r \<Rightarrow> ProcessStoredC2B k now (next_id s) r inp s1)"
    by (rule ingest_fresh)
  have "history (tbl s1) (tbl (snd (ProcessStoredC2B k now (next_id s) r inp s1)))" for r
    by (rule keeps_tables) (rule history.keeps_ProcessStoredC2B; simp)
  with s1 run show ?thesis by (auto split: option.splits intro: seen_history)
qed

text \<open>
  C5. An M-Pesa confirmation is applied once. Whatever a delivery does, afterwards its
  transaction id is on record, and any later delivery of that id, by either endpoint and
  with whatever content, is answered as a duplicate and changes nothing at all.
\<close>

theorem c2b_idempotent:
  assumes "c2b_Kind inp \<in> set webhook_kinds" and "c2b_Kind inp' \<in> set webhook_kinds"
    and "c2b_TransID inp' = c2b_TransID inp"
  shows "seen (snd (IngestC2B k now inp s)) (c2b_TransID inp) \<and>
    IngestC2B k' now' inp' (snd (IngestC2B k now inp s)) =
      (Inr duplicate_result, snd (IngestC2B k now inp s))"
proof -
  note stored = ingest_stored [OF assms(1), of k now s]
  then have "seen (snd (IngestC2B k now inp s)) (c2b_TransID inp')" using assms(3) by simp
  from ingest_duplicate [OF assms(2) this] stored show ?thesis by simp
qed

lemma cash_kind: "c2b_Kind cash_payment \<in> set webhook_kinds"
  by code_simp

theorem c2b_idempotent_witness:
  "\<exists>s1. (\<exists>res. IngestC2B plain_keyring 0 cash_payment shop_db = (Inr res, s1) \<and> \<not> res_Duplicate res) \<and>
     IngestC2B plain_keyring 99 cash_payment s1 = (Inr duplicate_result, s1)"
proof -
  obtain r s1 where run: "IngestC2B plain_keyring 0 cash_payment shop_db = (r, s1)"
    by (cases "IngestC2B plain_keyring 0 cash_payment shop_db")
  have "\<exists>res. r = Inr res \<and> \<not> res_Duplicate res"
    using shop_ingest run by auto
  moreover have "IngestC2B plain_keyring 99 cash_payment s1 = (Inr duplicate_result, s1)"
    using c2b_idempotent [OF cash_kind cash_kind refl, of plain_keyring 0 shop_db plain_keyring 99] run
    by simp
  ultimately show ?thesis using run by blast
qed

subsection \<open>The administrative gate\<close>

definition verified_owner :: "db \<Rightarrow> string \<Rightarrow> Shortcode \<Rightarrow> bool" where
  "verified_owner s code r \<longleftrightarrow> r \<in> set (mpesa_shortcodes s) \<and> sc_shortcode r = code \<and>
     sc_status r = ''verified'' \<and> sc_org_id r \<in> org_id ` set (orgs s)"

lemma resolve_ingest:
  assumes "WithIngest (ResolveForC2B inp) s = (x, s')"
  shows "case x of Inl _ \<Rightarrow> (\<forall>r. \<not> verified_owner s (c2b_ShortCode inp) r)
     | Inr row \<Rightarrow> \<exists>r. verified_owner s (c2b_ShortCode inp) r \<and> row = resolve_row r"
proof -
  let ?p = "\<lambda>r. sc_shortcode r = c2b_ShortCode inp \<and> sc_status r = ''verified'' \<and>
    sc_org_id r \<in> org_id ` set (orgs s)"
  have x: "x = (case find ?p (mpesa_shortcodes s) of None \<Rightarrow> Inl ErrNoRows | Some r \<Rightarrow> Inr (resolve_row r))"
    using assms by (auto simp: scope_defs scoped_def ResolveForC2B_def ResolveShortcode_def
      query_one_apply sees_shortcode_def split: option.splits)
  show ?thesis
  proof (cases "find ?p (mpesa_shortcodes s)")
    case None
    then have "x = Inl ErrNoRows" using x by simp
    with None show ?thesis by (auto simp: find_None_iff verified_owner_def)
  next
    case (Some r)
    then have "verified_owner s (c2b_ShortCode inp) r"
      unfolding find_Some_iff verified_owner_def by auto
    with x Some show ?thesis by auto
  qed
qed

lemma gate_refuses:
  assumes "c2b_Kind inp \<in> set webhook_kinds" and "\<not> seen s (c2b_TransID inp)"
    and "\<forall>r. \<not> verified_owner s (c2b_ShortCode inp) r"
  shows "\<exists>s'. IngestC2B k now inp s = (Inl ErrUnknownShortcode, s') \<and>
    tbl s' = (tbl s)\<lparr>webhook_events := webhook_events s', next_id := Suc (next_id s)\<rparr>"
proof -
  from assms(1,2) obtain s1 sc where
      t: "tbl s1 = (tbl s)\<lparr>webhook_events := webhook_events s1, next_id := Suc (next_id s)\<rparr>"
    and sc: "sc = (case WithIngest (ResolveForC2B inp) s1 of (Inl _, _) \<Rightarrow> None | (Inr r, _) \<Rightarrow> Some r)"
    and run: "IngestC2B k now inp s = (case sc of None \<Rightarrow> (Inl ErrUnknownShortcode, s1)
      | Some r \<Rightarrow> ProcessStoredC2B k now (next_id s) r inp s1)"
    by (rule ingest_fresh)
  have "mpesa_shortcodes s1 = mpesa_shortcodes s" and "orgs s1 = orgs s"
    using arg_cong [OF t, of mpesa_shortcodes] arg_cong [OF t, of orgs] by simp_all
  then have none: "\<forall>r. \<not> verified_owner s1 (c2b_ShortCode inp) r"
    using assms(3) by (simp add: verified_owner_def)
  have "sc = None"
    using resolve_ingest [of inp s1] none unfolding sc
    by (cases "WithIngest (ResolveForC2B inp) s1"; cases "fst (WithIngest (ResolveForC2B inp) s1)") auto
  with run t show ?thesis by auto
qed

lemma isolated_payments:
  assumes "isolated oid t u" and "p \<in> set (payments u)" and "pay_org_id p \<noteq> oid"
  shows "p \<in> set (payments t)"
proof -
  have "p \<in> set (others pay_org_id oid (payments u))" using assms(2,3) by (simp add: others_def)
  then have "p \<in> set (others pay_org_id oid (payments t))"
    using assms(1) by (simp add: isolated_def)
  then show ?thesis by (simp add: others_def)
qed

lemma gate_owner:
  assumes "c2b_Kind inp \<in> set webhook_kinds" and "p \<in> set (payments (snd (IngestC2B k now inp s)))"
  shows "p \<in> set (payments s) \<or>
    (\<exists>r. verified_owner s (c2b_ShortCode inp) r \<and> pay_org_id p = sc_org_id r)"
proof (cases "seen s (c2b_TransID inp)")
  case True
  with assms ingest_duplicate show ?thesis by simp
next
  case False
  from assms(1) False obtain s1 sc where
      t: "tbl s1 = (tbl s)\<lparr>webhook_events := webhook_events s1, next_id := Suc (next_id s)\<rparr>"
    and sc: "sc = (case WithIngest (ResolveForC2B inp) s1 of (Inl _, _) \<Rightarrow> None | (Inr r, _) \<Rightarrow> Some r)"
    and run: "IngestC2B k now inp s = (case sc of None \<Rightarrow> (Inl ErrUnknownShortcode, s1)
      | Some r \<Rightarrow> ProcessStoredC2B k now (next_id s) r inp s1)"
    by (rule ingest_fresh)
  have same: "mpesa_shortcodes s1 = mpesa_shortcodes s" "orgs s1 = orgs s" "payments s1 = payments s"
    using arg_cong [OF t, of mpesa_shortcodes] arg_cong [OF t, of orgs] arg_cong [OF t, of payments]
    by simp_all
  show ?thesis
  proof (cases sc)
    case None
    with run assms(2) same show ?thesis by simp
  next
    case (Some row)
    then obtain r where own: "verified_owner s1 (c2b_ShortCode inp) r" and row: "row = resolve_row r"
      using resolve_ingest [of inp s1] unfolding sc
      by (cases "WithIngest (ResolveForC2B inp) s1"; cases "fst (WithIngest (ResolveForC2B inp) s1)") auto
    have iso: "isolated (rs_OrgID row) (tbl s1) (tbl (snd (ProcessStoredC2B k now (next_id s) row inp s1)))"
      by (rule keeps_tables) (rule isolated.keeps_ProcessStoredC2B; simp)
    have "pay_org_id p = rs_OrgID row \<or> p \<in> set (payments s)"
      using isolated_payments [OF iso, of p] assms(2) run Some same by auto
    with own row same show ?thesis by (auto simp: resolve_row_def verified_owner_def)
  qed
qed

text \<open>
  C6. The administrative gate: a confirmation for a number that no organisation holds as a
  verified shortcode is refused with \<open>ErrUnknownShortcode\<close>, and nothing is recorded but the
  event itself; and a payment that a delivery adds belongs to an organisation that holds the
  number as a verified shortcode.
\<close>

theorem c2b_gate:
  assumes "c2b_Kind inp \<in> set webhook_kinds"
  shows "((\<forall>r. \<not> verified_owner s (c2b_ShortCode inp) r) \<and> \<not> seen s (c2b_TransID inp) \<longrightarrow>
      (\<exists>s'. IngestC2B k now inp s = (Inl ErrUnknownShortcode, s') \<and>
        tbl s' = (tbl s)\<lparr>webhook_events := webhook_events s', next_id := Suc (next_id s)\<rparr>)) \<and>
    (\<forall>p \<in> set (payments (snd (IngestC2B k now inp s))). p \<in> set (payments s) \<or>
      (\<exists>r. verified_owner s (c2b_ShortCode inp) r \<and> pay_org_id p = sc_org_id r))"
  using gate_refuses [OF assms] gate_owner [OF assms] by blast

definition closed_db :: db where
  "closed_db = shop_db\<lparr>mpesa_shortcodes := [shop_till\<lparr>sc_status := ''pending_authorization'',
     sc_verified_at := None\<rparr>]\<rparr>"

theorem c2b_gate_witness:
  "\<exists>s'. IngestC2B plain_keyring 0 cash_payment closed_db = (Inl ErrUnknownShortcode, s') \<and>
     payments s' = [] \<and> invoices s' = [] \<and> jobs s' = []"
proof -
  have "\<forall>r. \<not> verified_owner closed_db (c2b_ShortCode cash_payment) r"
    by (simp add: verified_owner_def closed_db_def shop_db_def)
  moreover have "\<not> seen closed_db (c2b_TransID cash_payment)"
    by (simp add: seen_def closed_db_def shop_db_def empty_db_def)
  ultimately obtain s' where run: "IngestC2B plain_keyring 0 cash_payment closed_db =
      (Inl ErrUnknownShortcode, s')"
    and t: "tbl s' = (tbl closed_db)\<lparr>webhook_events := webhook_events s', next_id := Suc (next_id closed_db)\<rparr>"
    using c2b_gate [OF cash_kind, of closed_db plain_keyring 0] by blast
  have "payments s' = payments closed_db" "invoices s' = invoices closed_db" "jobs s' = jobs closed_db"
    using arg_cong [OF t, of payments] arg_cong [OF t, of invoices] arg_cong [OF t, of jobs] by simp_all
  with run show ?thesis by (auto simp: closed_db_def shop_db_def empty_db_def)
qed

end
