(* ===== verification/InvoiceProps.thy ===== *)
theory InvoiceProps
  imports IngestProps
begin

text \<open>
  What creating an invoice does: the numbers it copies, the state it starts in, the jobs it
  enqueues, and what a receipt-code collision does to the transaction.
\<close>

subsection \<open>Receipt codes\<close>

lemma NewReceiptCodeTx_apply:
  "NewReceiptCodeTx s = (NewReceiptCode (case entropy s (reads s) of Inl e \<Rightarrow> Inl e
     | Inr f \<Rightarrow> Inr (map (\<lambda>i. f i mod 256) [0..<ReceiptCodeLen])), s\<lparr>reads := Suc (reads s)\<rparr>)"
  by (simp add: NewReceiptCodeTx_def tbind_def rand_read_apply)

lemma NewReceiptCodeTx_Inr:
  "NewReceiptCodeTx s = (Inr code, s') \<Longrightarrow> valid_receipt_code code \<and> s' = s\<lparr>reads := Suc (reads s)\<rparr>"
proof -
  assume "NewReceiptCodeTx s = (Inr code, s')"
  moreover have "NewReceiptCode (Inl e) \<noteq> Inr code" for e by (simp add: NewReceiptCode_def)
  ultimately show ?thesis
    by (cases "entropy s (reads s)") (auto simp: NewReceiptCodeTx_apply dest!: new_receipt_code_valid [rotated])
qed

lemma create_with_code_unfold:
  "create_with_code p = tbind NewReceiptCodeTx (\<lambda>code.
     tbind (attempt (CreateInvoice (p code))) (\<lambda>r. case r of Inr iv \<Rightarrow> ret iv
       | Inl e \<Rightarrow> if \<not> isUniqueViolation e then raise e else create_loop (Suc 3) p))"
proof -
  have "(5::nat) = Suc (Suc 3)" by simp
  then show ?thesis unfolding create_with_code_def by (simp only: create_loop.simps(2)) simp
qed

lemma CreateInvoice_aborted: "aborted s \<Longrightarrow> CreateInvoice p s = (Inl in_failed_tx, s)"
  by (simp add: CreateInvoice_def stmt_def)

lemma not_unique_25P02 [simp]: "\<not> isUniqueViolation in_failed_tx"
  by (simp add: isUniqueViolation_def in_failed_tx_def)

lemma create_loop_aborted:
  assumes "aborted s"
  shows "\<exists>e m. create_loop (Suc n) p s = (Inl e, s\<lparr>reads := m\<rparr>) \<and>
    (e = in_failed_tx \<or> fst (NewReceiptCodeTx s) = Inl e)"
proof (cases "NewReceiptCodeTx s")
  case (Pair r s1)
  then have s1: "s1 = s\<lparr>reads := Suc (reads s)\<rparr>" by (simp add: NewReceiptCodeTx_apply)
  show ?thesis
  proof (cases r)
    case (Inl e)
    with Pair s1 show ?thesis by auto
  next
    case (Inr code)
    have "CreateInvoice (p code) s1 = (Inl in_failed_tx, s1)"
      using assms s1 by (simp add: CreateInvoice_aborted)
    then have "attempt (CreateInvoice (p code)) s1 = (Inr (Inl in_failed_tx), s1)"
      by (simp add: in_failed_tx_def)
    with Pair Inr s1 show ?thesis by auto
  qed
qed

text \<open>A successful creation: one new row, with a fresh valid code, and nothing else.\<close>

lemma create_with_code_Inr:
  assumes "create_with_code p s = (Inr iv, s')" and "\<not> aborted s"
  obtains code where "valid_receipt_code code" and "code \<notin> inv_receipt_code ` set (invoices s) \<or>
      iv_ReceiptCode (p code) \<noteq> code"
    and "iv = new_invoice (next_id s) (clock s) (p code)" and "own s (iv_OrgID (p code))"
    and "state_valid (iv_State (p code))"
    and "s' = s\<lparr>next_id := Suc (next_id s), invoices := invoices s @ [iv], reads := Suc (reads s)\<rparr>"
proof -
  from assms(1) obtain code s1 where c: "NewReceiptCodeTx s = (Inr code, s1)"
    and rest: "tbind (attempt (CreateInvoice (p code))) (\<lambda>r. case r of Inr iv \<Rightarrow> ret iv
      | Inl e \<Rightarrow> if \<not> isUniqueViolation e then raise e else create_loop (Suc 3) p) s1 = (Inr iv, s')"
    unfolding create_with_code_unfold tbind_Inr_iff [of NewReceiptCodeTx] by blast
  from NewReceiptCodeTx_Inr [OF c] have v: "valid_receipt_code code"
    and s1: "s1 = s\<lparr>reads := Suc (reads s)\<rparr>" by auto
  obtain r2 s2 where ci: "CreateInvoice (p code) s1 = (r2, s2)" by (cases "CreateInvoice (p code) s1")
  show thesis
  proof (cases r2)
    case (Inr j)
    with ci rest have "iv = j" "s' = s2" by (simp_all add: tbind_def attempt_def)
    with ci Inr s1 show thesis
      by (intro that [OF v])
        (auto simp: CreateInvoice_def stmt_Inr_iff Let_def own_def split: if_splits)
  next
    case (Inl e)
    then have "aborted s2"
      using ci assms(2) s1
      by (auto simp: CreateInvoice_def stmt_def Let_def pg_errors split: if_splits)
    then have "\<exists>e m. create_loop (Suc 3) p s2 = (Inl e, s2\<lparr>reads := m\<rparr>)"
      using create_loop_aborted [of s2 3 p] by blast
    moreover have "\<not> is_panic e"
      using ci Inl assms(2) s1
      by (auto simp: CreateInvoice_def stmt_def Let_def pg_errors split: if_splits)
    ultimately have False using rest ci Inl
      by (auto simp: tbind_def attempt_def split: if_splits)
    then show thesis ..
  qed
qed

text \<open>
  A receipt-code collision is fatal: when the first code drawn is already taken, the
  insert aborts the transaction, so the remaining attempts of the retry loop cannot succeed;
  the operation fails with SQLSTATE 25P02 (or with the random source's own error) and the
  enclosing transaction leaves the store as it was.
\<close>

theorem receipt_code_collision:
  assumes "NewReceiptCodeTx (s\<lparr>scope := ScopeOrg oid, aborted := False\<rparr>) = (Inr code, s1)"
    and "iv_ReceiptCode (p code) \<in> inv_receipt_code ` set (invoices s)"
    and "iv_OrgID (p code) = oid" and "iv_Kind (p code) \<in> {''INVOICE'', ''CREDIT_NOTE''}"
    and "state_valid (iv_State (p code))"
  shows "\<exists>e s'. WithOrg oid (create_with_code p) s = (Inl e, s') \<and> tbl s' = tbl s \<and>
    (e = in_failed_tx \<or> fst (NewReceiptCodeTx s1) = Inl e)"
proof -
  let ?s = "s\<lparr>scope := ScopeOrg oid, aborted := False\<rparr>"
  have s1: "s1 = ?s\<lparr>reads := Suc (reads s)\<rparr>" using NewReceiptCodeTx_Inr [OF assms(1)] by simp
  let ?s2 = "s1\<lparr>aborted := True\<rparr>"
  have ci: "CreateInvoice (p code) s1 = (Inl unique_violation, ?s2)"
    using assms(2-5) unfolding s1 by (auto simp: CreateInvoice_def stmt_def own_def pg_errors)
  obtain e m where loop: "create_loop (Suc 3) p ?s2 = (Inl e, ?s2\<lparr>reads := m\<rparr>)"
    and e: "e = in_failed_tx \<or> fst (NewReceiptCodeTx ?s2) = Inl e"
    using create_loop_aborted [of ?s2 3 p] by auto
  have "create_with_code p ?s = create_loop (Suc 3) p ?s2"
    using assms(1) ci unfolding create_with_code_unfold
    by (simp add: attempt_def tbind_def isUniqueViolation_def pg_errors)
  with loop have "create_with_code p ?s = (Inl e, ?s2\<lparr>reads := m\<rparr>)" by simp
  then have "WithOrg oid (create_with_code p) s = (Inl e, s\<lparr>reads := m\<rparr>)"
    by (simp add: scope_defs scoped_def rollback_def s1)
  moreover have "fst (NewReceiptCodeTx ?s2) = fst (NewReceiptCodeTx s1)"
    by (simp add: NewReceiptCodeTx_apply)
  ultimately show ?thesis using e by auto
qed

definition taken_db :: db where
  "taken_db = shop_db\<lparr>invoices := [new_invoice 5 0 \<lparr>iv_OrgID = 1, iv_SaleID = 4, iv_PaymentID = None,
     iv_Kind = ''INVOICE'', iv_ParentInvoiceID = None, iv_State = StateQueued, iv_BuyerPinEnc = [],
     iv_BuyerPinHash = [], iv_BuyerName = [], iv_ReceiptCode = ''012345'', iv_SubtotalCents = 100,
     iv_TaxCents = 16, iv_TotalCents = 116, iv_IssuedAt = 0\<rparr>]\<rparr>"

definition colliding :: "string \<Rightarrow> CreateInvoiceParams" where
  "colliding code = \<lparr>iv_OrgID = 1, iv_SaleID = 4, iv_PaymentID = None,
     iv_Kind = ''INVOICE'', iv_ParentInvoiceID = None, iv_State = StateQueued, iv_BuyerPinEnc = [],
     iv_BuyerPinHash = [], iv_BuyerName = [], iv_ReceiptCode = code, iv_SubtotalCents = 200,
     iv_TaxCents = 32, iv_TotalCents = 232, iv_IssuedAt = 0\<rparr>"

theorem receipt_code_collision_witness:
  "\<exists>s'. WithOrg 1 (create_with_code colliding) taken_db = (Inl in_failed_tx, s') \<and> tbl s' = tbl taken_db"
proof -
  let ?s = "taken_db\<lparr>scope := ScopeOrg 1, aborted := False\<rparr>"
  have code: "fst (NewReceiptCodeTx ?s) = Inr ''012345''" by code_simp
  then obtain s1 where draw: "NewReceiptCodeTx ?s = (Inr ''012345'', s1)"
    by (cases "NewReceiptCodeTx ?s") simp
  have s1: "s1 = ?s\<lparr>reads := 1\<rparr>"
    using NewReceiptCodeTx_Inr [OF draw] by (simp add: taken_db_def shop_db_def empty_db_def)
  have "fst (NewReceiptCodeTx (?s\<lparr>reads := 1\<rparr>)) = Inr ''789ABC''" by code_simp
  then have again: "\<And>e. fst (NewReceiptCodeTx s1) \<noteq> Inl e" by (simp add: s1)
  have "\<exists>e s'. WithOrg 1 (create_with_code colliding) taken_db = (Inl e, s') \<and>
      tbl s' = tbl taken_db \<and> (e = in_failed_tx \<or> fst (NewReceiptCodeTx s1) = Inl e)"
    by (rule receipt_code_collision [OF draw])
      (simp_all add: colliding_def taken_db_def new_invoice_def state_valid_iff)
  with again show ?thesis by auto
qed

subsection \<open>The invoice of a sale\<close>

text \<open>The relation that only the stock of items may change.\<close>

definition only_items :: "tables \<Rightarrow> tables \<Rightarrow> bool" where
  "only_items t u \<longleftrightarrow> (\<exists>x. u = t\<lparr>items := x\<rparr>)"

interpretation only_items: table_frame only_items
proof
  show "only_items t t" for t unfolding only_items_def by (rule exI [of _ "items t"]) simp
qed (auto simp: only_items_def)

lemma decrement_stock_items: "keeps S only_items (decrement_stock sid)"
proof -
  have "keeps S only_items (DecrementItemStock i qty)" for i qty
    unfolding DecrementItemStock_def Let_def
    by (rule only_items.keeps_stmt) (auto simp: only_items_def tbl_def split: if_splits)
  then show ?thesis
    unfolding decrement_stock_def ListSaleItems_def by (intro only_items.keeps_intros)
qed

lemma readonly_sale_buyer: "readonly (sale_buyer sa)"
  unfolding sale_buyer_def FindCustomerByID_def
  by (intro readonly_tbind; (simp add: readonly_basic split: option.splits prod.splits)?)
    (auto intro!: readonly_intros)

definition audit_of :: "uuid \<Rightarrow> string \<Rightarrow> string option \<Rightarrow> string \<Rightarrow> string \<Rightarrow> uuid \<Rightarrow> AuditAfter \<Rightarrow> time \<Rightarrow> Audit" where
  "audit_of oid at' ai action entity eid after t = \<lparr>au_org_id = oid, au_actor_type = at',
     au_actor_id = ai, au_action = action, au_entity = entity, au_entity_id = eid, au_after = after,
     au_at = t\<rparr>"

lemma AppendAudit_Inr:
  "AppendAudit oid at' ai action entity eid after s = (Inr x, s') \<longleftrightarrow>
    \<not> aborted s \<and> own s oid \<and> at' \<in> {''user'', ''system'', ''admin''} \<and>
    s' = s\<lparr>audit_log := audit_log s @ [audit_of oid at' ai action entity eid after (clock s)]\<rparr>"
  by (auto simp: AppendAudit_def stmt_Inr_iff audit_of_def split: if_splits)

lemma EnqueueTx_Inr:
  "EnqueueTx a s = (Inr x, s') \<longleftrightarrow> \<not> aborted s \<and> s' = s\<lparr>jobs := jobs s @ [(a, None)]\<rparr>"
  by (auto simp: EnqueueTx_def update_apply)

lemma EnqueueAfterTx_Inr:
  "EnqueueAfterTx a t d s = (Inr x, s') \<longleftrightarrow> \<not> aborted s \<and> s' = s\<lparr>jobs := jobs s @ [(a, Some (t + d))]\<rparr>"
  by (auto simp: EnqueueAfterTx_def update_apply)

lemma GetSale_own:
  "GetSale i s = (Inr sa, s') \<Longrightarrow> scope s = ScopeOrg oid \<Longrightarrow>
    \<not> aborted s \<and> s' = s \<and> sa \<in> set (sales s) \<and> sale_id sa = i \<and> sale_org_id sa = oid"
  by (auto simp: GetSale_def query_one_Inr_iff sees_sale_def own_def find_Some_iff)

lemma GetOrg_Inr:
  "GetOrg i s = (Inr oo, s') \<longleftrightarrow> \<not> aborted s \<and> s' = s \<and> row_by org_id i (orgs s) = Some oo"
  by (auto simp: GetOrg_def query_one_Inr_iff)

definition submit_job :: "uuid \<Rightarrow> Invoice \<Rightarrow> JobRequest" where
  "submit_job oid iv = (SubmitInvoiceArgs oid (inv_id iv), None)"

definition pending_sms :: "uuid \<Rightarrow> Invoice \<Rightarrow> time \<Rightarrow> JobRequest" where
  "pending_sms oid iv now =
     (SendReceiptArgs oid (inv_id iv) ''receipt_pending'', Some (now + PendingReceiptDelay))"

lemma initial_state_cases: "initial_state oo = StateQueued \<or> initial_state oo = StateTaxPending"
  by (simp add: initial_state_def)

lemma initial_state_queued:
  "initial_state oo = StateQueued \<longleftrightarrow> org_etims_status oo = ''initialized''"
  by (simp add: initial_state_def)

lemma invoice_for_sale:
  assumes run: "CreateInvoiceForSale now oid sid pid issued s = (Inr iv, s')"
    and sc: "scope s = ScopeOrg oid"
  obtains sa oo where "sa \<in> set (sales s)" "sale_id sa = sid" "sale_org_id sa = oid"
    "row_by org_id oid (orgs s) = Some oo" "\<not> aborted s'" "scope s' = scope s"
    "inv_id iv = next_id s" "inv_kind iv = ''INVOICE''" "inv_state iv = initial_state oo"
    "amounts iv = (sale_subtotal_cents sa, sale_tax_cents sa, sale_total_cents sa)"
    "inv_org_id iv = oid" "inv_sale_id iv = sid" "inv_payment_id iv = pid" "inv_issued_at iv = issued"
    "valid_receipt_code (inv_receipt_code iv)"
    "invoices s' = invoices s @ [iv]"
    "jobs s' = jobs s @ (if initial_state oo = StateQueued
       then [submit_job oid iv, pending_sms oid iv now] else [])"
    "payments s' = payments s" "sales s' = sales s" "sale_items s' = sale_items s"
    "next_id s' = Suc (next_id s)"
proof -
  from run obtain sa s0 where gs: "GetSale sid s = (Inr sa, s0)" by (auto simp: CreateInvoiceForSale_def tbind_Inr_iff)
  note sa = GetSale_own [OF gs sc]
  from run gs sa obtain oo where oo: "row_by org_id oid (orgs s) = Some oo"
    by (auto simp: CreateInvoiceForSale_def tbind_Inr_iff GetOrg_Inr)
  have go: "GetOrg oid s = (Inr oo, s)" using oo sa by (simp add: GetOrg_Inr)
  let ?p = "\<lambda>buyerName enc h code. \<lparr>iv_OrgID = oid, iv_SaleID = sid, iv_PaymentID = pid,
    iv_Kind = ''INVOICE'', iv_ParentInvoiceID = None, iv_State = initial_state oo, iv_BuyerPinEnc = enc,
    iv_BuyerPinHash = h, iv_BuyerName = buyerName, iv_ReceiptCode = code,
    iv_SubtotalCents = sale_subtotal_cents sa, iv_TaxCents = sale_tax_cents sa,
    iv_TotalCents = sale_total_cents sa, iv_IssuedAt = issued\<rparr>"
  from run gs go sa obtain name enc h s1 s2 s3 s4 u where
      b: "sale_buyer sa s = (Inr (name, enc, h), s1)"
    and c: "create_with_code (?p name enc h) s1 = (Inr iv, s2)"
    and d: "decrement_stock sid s2 = (Inr (), s3)"
    and e: "(if initial_state oo = StateQueued then
         tbind (EnqueueTx (SubmitInvoiceArgs oid (inv_id iv))) (\<lambda>_.
         EnqueueAfterTx (SendReceiptArgs oid (inv_id iv) ''receipt_pending'') now PendingReceiptDelay)
       else ret ()) s3 = (Inr u, s4)"
    and f: "AppendAudit oid ''system'' None
       (if initial_state oo = StateTaxPending then ''invoice.tax_pending'' else ''invoice.created'')
       ''invoice'' (inv_id iv) NoAfter s4 = (Inr (), s')"
    by (auto simp: CreateInvoiceForSale_def Let_def tbind_Inr_iff)
  from readonlyD [OF readonly_sale_buyer b] obtain n where s1: "s1 = s\<lparr>reads := n\<rparr>" by blast
  from c obtain code where code: "valid_receipt_code code"
      and iv: "iv = new_invoice (next_id s1) (clock s1) (?p name enc h code)"
      and s2: "s2 = s1\<lparr>next_id := Suc (next_id s1), invoices := invoices s1 @ [iv], reads := Suc (reads s1)\<rparr>"
    by (rule create_with_code_Inr) (use sa s1 in auto)
  have "scope s3 = scope s2 \<and> clock s3 = clock s2 \<and> only_items (tbl s2) (tbl s3)"
    using keepsD [OF decrement_stock_items [of UNIV] _ d] by simp
  then obtain xs where sc3: "scope s3 = scope s2" and t3: "tbl s3 = (tbl s2)\<lparr>items := xs\<rparr>"
    by (auto simp: only_items_def)
  have s3: "invoices s3 = invoices s2" "jobs s3 = jobs s2" "payments s3 = payments s2"
    "sales s3 = sales s2" "sale_items s3 = sale_items s2" "next_id s3 = next_id s2"
    using arg_cong [OF t3, of invoices] arg_cong [OF t3, of jobs] arg_cong [OF t3, of payments]
      arg_cong [OF t3, of sales] arg_cong [OF t3, of sale_items] arg_cong [OF t3, of next_id] by simp_all
  have s4: "s4 = s3\<lparr>jobs := jobs s3 @ (if initial_state oo = StateQueued
       then [submit_job oid iv, pending_sms oid iv now] else [])\<rparr>"
    using e by (auto simp: tbind_Inr_iff EnqueueTx_Inr EnqueueAfterTx_Inr submit_job_def pending_sms_def
      split: if_splits)
  obtain log where s': "\<not> aborted s4" "s' = s4\<lparr>audit_log := log\<rparr>"
    using f unfolding AppendAudit_Inr by blast
  have ivs: "inv_id iv = next_id s" "inv_kind iv = ''INVOICE''" "inv_state iv = initial_state oo"
    "amounts iv = (sale_subtotal_cents sa, sale_tax_cents sa, sale_total_cents sa)"
    "inv_org_id iv = oid" "inv_sale_id iv = sid" "inv_payment_id iv = pid" "inv_issued_at iv = issued"
    "valid_receipt_code (inv_receipt_code iv)"
    unfolding iv s1 using code by (simp_all add: new_invoice_def amounts_def)
  have f2: "invoices s2 = invoices s @ [iv]" "jobs s2 = jobs s" "payments s2 = payments s"
    "sales s2 = sales s" "sale_items s2 = sale_items s" "next_id s2 = Suc (next_id s)"
    "scope s2 = scope s"
    unfolding s2 s1 by simp_all
  have f4: "invoices s' = invoices s3" "payments s' = payments s3" "sales s' = sales s3"
    "sale_items s' = sale_items s3" "next_id s' = next_id s3" "scope s' = scope s3" "\<not> aborted s'"
    "jobs s' = jobs s3 @ (if initial_state oo = StateQueued
       then [submit_job oid iv, pending_sms oid iv now] else [])"
    using s'(1) unfolding s'(2) s4 by simp_all
  show thesis
    by (rule that [of sa oo]) (use sa oo sc3 in \<open>simp_all only: ivs f2 f4 s3 not_False_eq_True\<close>)
qed

text \<open>
  C9. The invoice of a sale copies the sale's amounts, belongs to its organisation and
  carries a valid receipt code; it is the only invoice added, payments and sales stay as
  they are. Once the organisation has configured eTIMS it starts QUEUED, with exactly one
  submission job and the delayed reminder; before that it starts TAX_PENDING and no job is
  enqueued.
\<close>

theorem invoice_of_sale:
  assumes "CreateInvoiceForSale now oid sid pid issued s = (Inr iv, s')" and "scope s = ScopeOrg oid"
  shows "\<exists>sa oo. sa \<in> set (sales s) \<and> sale_id sa = sid \<and> sale_org_id sa = oid \<and>
    row_by org_id oid (orgs s) = Some oo \<and>
    amounts iv = (sale_subtotal_cents sa, sale_tax_cents sa, sale_total_cents sa) \<and>
    inv_org_id iv = oid \<and> inv_sale_id iv = sid \<and> inv_payment_id iv = pid \<and>
    valid_receipt_code (inv_receipt_code iv) \<and>
    invoices s' = invoices s @ [iv] \<and> payments s' = payments s \<and> sales s' = sales s \<and>
    (if org_etims_status oo = ''initialized''
     then inv_state iv = StateQueued \<and>
       jobs s' = jobs s @ [(SubmitInvoiceArgs oid (inv_id iv), None),
         (SendReceiptArgs oid (inv_id iv) ''receipt_pending'', Some (now + 5 * minute))]
     else inv_state iv = StateTaxPending \<and> jobs s' = jobs s)"
  using assms
proof (rule invoice_for_sale)
  fix sa oo
  assume facts: "sa \<in> set (sales s)" "sale_id sa = sid" "sale_org_id sa = oid"
    "row_by org_id oid (orgs s) = Some oo" "inv_state iv = initial_state oo"
    "amounts iv = (sale_subtotal_cents sa, sale_tax_cents sa, sale_total_cents sa)"
    "inv_org_id iv = oid" "inv_sale_id iv = sid" "inv_payment_id iv = pid"
    "valid_receipt_code (inv_receipt_code iv)" "invoices s' = invoices s @ [iv]"
    "jobs s' = jobs s @ (if initial_state oo = StateQueued
       then [submit_job oid iv, pending_sms oid iv now] else [])"
    "payments s' = payments s" "sales s' = sales s"
  show ?thesis
    by (rule exI [of _ sa], rule exI [of _ oo])
      (use facts in \<open>simp add: initial_state_def submit_job_def pending_sms_def PendingReceiptDelay_def\<close>)
qed

definition sold_db :: db where
  "sold_db = shop_db\<lparr>scope := ScopeOrg 1, sales := [\<lparr>sale_id = 4, sale_org_id = 1, sale_ref = ''S-1'',
     sale_kind = ''open'', sale_status = ''paid'', sale_customer_id = None,
     sale_subtotal_cents = 10000, sale_tax_cents = 1600, sale_total_cents = 11600,
     sale_client_ref = None, sale_created_by = None, sale_paid_at = None, sale_buyer_name = ''Asha'',
     sale_created_at = 0\<rparr>]\<rparr>"

theorem invoice_of_sale_witness:
  "\<exists>iv s'. CreateInvoiceForSale 7 1 4 None 0 sold_db = (Inr iv, s') \<and>
     amounts iv = (10000, 1600, 11600) \<and> inv_state iv = StateQueued \<and> length (jobs s') = 2"
proof -
  have "map_sum id inv_id (fst (CreateInvoiceForSale 7 1 4 None 0 sold_db)) = Inr 10"
    by code_simp
  then obtain iv s' where run: "CreateInvoiceForSale 7 1 4 None 0 sold_db = (Inr iv, s')"
    by (cases "CreateInvoiceForSale 7 1 4 None 0 sold_db"; cases "fst (CreateInvoiceForSale 7 1 4 None 0 sold_db)")
      auto
  have "scope sold_db = ScopeOrg 1" by (simp add: sold_db_def)
  from invoice_of_sale [OF run this] run show ?thesis
    by (auto simp: sold_db_def shop_db_def empty_db_def shop_org_def)
qed

end
