(* ===== verification/PaymentProps.thy ===== *)
theory PaymentProps
  imports InvoiceProps
begin

text \<open>What applying a confirmed payment records: the payment, the sale it settles, the invoice.\<close>

subsection \<open>Cash sales\<close>

text \<open>The relation that only customers may be added.\<close>

definition only_customers :: "tables \<Rightarrow> tables \<Rightarrow> bool" where
  "only_customers t u \<longleftrightarrow> (\<exists>xs n. u = t\<lparr>customers := xs, next_id := n\<rparr> \<and> next_id t \<le> n)"

interpretation only_customers: table_frame only_customers
proof
  show "only_customers t t" for t
    unfolding only_customers_def by (rule exI [of _ "customers t"], rule exI [of _ "next_id t"]) simp
  show "only_customers t v" if tu: "only_customers t u" and uv: "only_customers u v" for t u v
  proof -
    from tu obtain xs n where u: "u = t\<lparr>customers := xs, next_id := n\<rparr>" "next_id t \<le> n"
      by (auto simp: only_customers_def)
    from uv obtain ys m where v: "v = u\<lparr>customers := ys, next_id := m\<rparr>" "next_id u \<le> m"
      by (auto simp: only_customers_def)
    show ?thesis unfolding only_customers_def
      by (rule exI [of _ ys], rule exI [of _ m]) (use u v in simp)
  qed
qed

lemma find_or_add_customer_effect: "keeps S only_customers (find_or_add_customer oid name enc h)"
proof -
  have up: "keeps S only_customers (UpsertCustomerByMSISDN oid name enc h)"
    unfolding UpsertCustomerByMSISDN_def Let_def
    by (rule only_customers.keeps_stmt)
      (auto simp: only_customers_def tbl_def split: if_splits)
  show ?thesis
    unfolding find_or_add_customer_def FindCustomerByMSISDNHash_def
    by (intro only_customers.keeps_intros up)
qed

lemma CreateSale_Inr:
  "CreateSale p s = (Inr r, s') \<Longrightarrow> \<not> aborted s \<and> sale_id r = next_id s \<and> sale_org_id r = cs_OrgID p \<and>
    sale_status r = cs_Status p \<and> sale_subtotal_cents r = cs_SubtotalCents p \<and>
    sale_tax_cents r = cs_TaxCents p \<and> sale_total_cents r = cs_TotalCents p \<and>
    s' = s\<lparr>next_id := Suc (next_id s), sales := sales s @ [r]\<rparr>"
  by (auto simp: CreateSale_def stmt_Inr_iff Let_def split: if_splits)

lemma CreateSaleItem_Inr:
  "CreateSaleItem p s = (Inr r, s') \<Longrightarrow> \<not> aborted s \<and> si_sale_id r = ci_SaleID p \<and> si_org_id r = ci_OrgID p \<and>
    si_line_total_cents r = ci_LineTotalCents p \<and> si_line_tax_cents r = ci_LineTaxCents p \<and>
    s' = s\<lparr>next_id := Suc (next_id s), sale_items := sale_items s @ [r]\<rparr>"
  by (auto simp: CreateSaleItem_def stmt_Inr_iff Let_def split: if_splits)

definition cash_tax :: "C2BInput \<Rightarrow> Item \<Rightarrow> int" where
  "cash_tax inp item = LineTax (c2b_AmountCents inp) (RateBP (item_tax_category item))"

lemma createCashSale_Inr:
  assumes run: "createCashSale sc inp h enc s = (Inr sale, s')"
    and sc: "scope s = ScopeOrg (rs_OrgID sc)" and na: "\<not> aborted s"
  obtains item line where "item \<in> set (items s)" "rs_DefaultItemID sc = Some (item_id item)"
    "tax_category_valid (item_tax_category item)"
    "sales s' = sales s @ [sale]" "sale_items s' = sale_items s @ [line]"
    "sale_total_cents sale = c2b_AmountCents inp" "sale_tax_cents sale = cash_tax inp item"
    "sale_subtotal_cents sale = wrap64 (c2b_AmountCents inp - cash_tax inp item)"
    "sale_status sale = ''paid''" "sale_org_id sale = rs_OrgID sc"
    "si_sale_id line = sale_id sale" "si_line_total_cents line = c2b_AmountCents inp"
    "si_line_tax_cents line = cash_tax inp item"
    "invoices s' = invoices s" "payments s' = payments s" "jobs s' = jobs s" "scope s' = scope s"
    "orgs s' = orgs s" "\<not> aborted s'" "next_id s \<le> sale_id sale" "sale_id sale < next_id s'"
proof -
  from run obtain did where did: "rs_DefaultItemID sc = Some did"
    by (cases "rs_DefaultItemID sc") (simp_all add: createCashSale_def)
  have gi: "GetItem did s = (case find (\<lambda>r. own s (item_org_id r) \<and> item_id r = did) (items s) of
      None \<Rightarrow> (Inl ErrNoRows, s) | Some x \<Rightarrow> (Inr x, s))"
    using na by (simp add: GetItem_def query_one_apply)
  from run did gi obtain item where it: "GetItem did s = (Inr item, s)" "item \<in> set (items s)"
      "item_id item = did"
    by (cases "find (\<lambda>r. own s (item_org_id r) \<and> item_id r = did) (items s)")
      (auto simp: createCashSale_def attempt_def tbind_def find_Some_iff)
  let ?cat = "item_tax_category item"
  have cat: "tax_category_valid ?cat"
    using run did it(1) by (auto simp: createCashSale_def attempt_def tbind_def ParseTaxCategory_def
      split: if_splits)
  then have pc: "ParseTaxCategory ?cat = Inr ?cat" by (simp add: ParseTaxCategory_def)
  from run did it(1) pc obtain c s1 ref s2 s3 line where
      f: "find_or_add_customer (rs_OrgID sc) (c2b_PayerName inp) enc h s = (Inr c, s1)"
    and r: "NextSaleRef (rs_OrgID sc) s1 = (Inr ref, s2)"
    and cs: "CreateSale \<lparr>cs_OrgID = rs_OrgID sc, cs_Ref = ref, cs_Kind = ''cash'', cs_Status = ''paid'',
        cs_CustomerID = c, cs_SubtotalCents = wrap64 (c2b_AmountCents inp - cash_tax inp item),
        cs_TaxCents = cash_tax inp item, cs_TotalCents = c2b_AmountCents inp, cs_ClientRef = None,
        cs_CreatedBy = None, cs_PaidAt = Some (c2b_PaidAt inp), cs_BuyerName = c2b_PayerName inp\<rparr> s2 =
        (Inr sale, s3)"
    and ci: "CreateSaleItem \<lparr>ci_OrgID = rs_OrgID sc, ci_SaleID = sale_id sale,
        ci_ItemID = Some (item_id item), ci_Description = item_name item,
        ci_EtimsClassCode = item_class_code item, ci_Unit = item_unit item, ci_Qty = 1000,
        ci_UnitPriceCents = c2b_AmountCents inp, ci_TaxCategory = ?cat, ci_TaxRateBp = RateBP ?cat,
        ci_LineTotalCents = c2b_AmountCents inp, ci_LineTaxCents = cash_tax inp item,
        ci_Position = 0\<rparr> s3 = (Inr line, s')"
    unfolding createCashSale_def cash_tax_def by (auto simp: Let_def attempt_def tbind_Inr_iff)
  have s2: "s2 = s1" "\<not> aborted s1" using r by (auto simp: NextSaleRef_def query_Inr_iff)
  from keepsD [OF find_or_add_customer_effect [of UNIV] UNIV_I f]
  obtain xs n where s1: "scope s1 = scope s" "tbl s1 = (tbl s)\<lparr>customers := xs, next_id := n\<rparr>"
      "next_id s \<le> n" by (auto simp: only_customers_def)
  have f1: "sales s1 = sales s" "sale_items s1 = sale_items s" "invoices s1 = invoices s"
    "payments s1 = payments s" "jobs s1 = jobs s" "next_id s1 = n" "orgs s1 = orgs s"
    using arg_cong [OF s1(2), of sales] arg_cong [OF s1(2), of sale_items]
      arg_cong [OF s1(2), of invoices] arg_cong [OF s1(2), of payments] arg_cong [OF s1(2), of jobs]
      arg_cong [OF s1(2), of next_id] arg_cong [OF s1(2), of orgs] by simp_all
  note c1 = CreateSale_Inr [OF cs, unfolded s2(1)] and c2 = CreateSaleItem_Inr [OF ci]
  have s': "s' = s1\<lparr>next_id := Suc (Suc n), sales := sales s @ [sale], sale_items := sale_items s @ [line]\<rparr>"
    using c1 c2 f1 by simp
  show thesis
    by (rule that [of item line])
      (use c1 c2 s1(1,3) s2 f1 it cat did in \<open>simp_all add: s'\<close>)
qed


subsection \<open>The target of a payment\<close>

text \<open>The cash sale a payment makes: one paid sale with one line, at the amount paid.\<close>

definition cash_sale_of :: "ResolveShortcodeRow \<Rightarrow> C2BInput \<Rightarrow> db \<Rightarrow> db \<Rightarrow> Sale \<Rightarrow> bool" where
  "cash_sale_of sc inp s s' sale \<longleftrightarrow> (\<exists>item line. item \<in> set (items s) \<and>
     rs_DefaultItemID sc = Some (item_id item) \<and>
     sales s' = sales s @ [sale] \<and> sale_items s' = sale_items s @ [line] \<and>
     sale_status sale = ''paid'' \<and> sale_org_id sale = rs_OrgID sc \<and>
     sale_total_cents sale = c2b_AmountCents inp \<and> sale_tax_cents sale = cash_tax inp item \<and>
     sale_subtotal_cents sale = wrap64 (c2b_AmountCents inp - cash_tax inp item) \<and>
     si_sale_id line = sale_id sale \<and> si_line_total_cents line = c2b_AmountCents inp \<and>
     si_line_tax_cents line = cash_tax inp item)"

lemma settle_target_frame:
  assumes run: "settle_target sc inp d h enc s = (Inr sid, s')"
    and sc: "scope s = ScopeOrg (rs_OrgID sc)" and na: "\<not> aborted s"
  shows "invoices s' = invoices s" "payments s' = payments s" "jobs s' = jobs s" "orgs s' = orgs s"
    "scope s' = scope s" "\<not> aborted s'" "next_id s \<le> next_id s'"
    "if d_CreateCashSale d
     then \<exists>sale. cash_sale_of sc inp s s' sale \<and> sid = Some (sale_id sale) \<and> next_id s \<le> sale_id sale
     else sid = d_SaleID d"
proof -
  have "invoices s' = invoices s \<and> payments s' = payments s \<and> jobs s' = jobs s \<and> orgs s' = orgs s \<and>
    scope s' = scope s \<and> \<not> aborted s' \<and> next_id s \<le> next_id s' \<and> (if d_CreateCashSale d
     then \<exists>sale. cash_sale_of sc inp s s' sale \<and> sid = Some (sale_id sale) \<and> next_id s \<le> sale_id sale
     else sid = d_SaleID d)"
  proof (cases "d_CreateCashSale d")
    case True
    with run obtain sale where c: "createCashSale sc inp h enc s = (Inr sale, s')"
      and sid: "sid = Some (sale_id sale)" by (auto simp: settle_target_def tbind_Inr_iff)
    from c sc na show ?thesis
      by (rule createCashSale_Inr) (use True sid in \<open>auto simp: cash_sale_of_def\<close>)
  next
    case False
    with run na show ?thesis
      by (auto simp: settle_target_def tbind_Inr_iff MarkSalePaid_def update_apply
        split: option.splits if_splits)
  qed
  then show "invoices s' = invoices s" "payments s' = payments s" "jobs s' = jobs s" "orgs s' = orgs s"
    "scope s' = scope s" "\<not> aborted s'" "next_id s \<le> next_id s'"
    "if d_CreateCashSale d
     then \<exists>sale. cash_sale_of sc inp s s' sale \<and> sid = Some (sale_id sale) \<and> next_id s \<le> sale_id sale
     else sid = d_SaleID d" by blast+
qed

subsection \<open>Recording a payment\<close>

lemma CreatePayment_Inr:
  "CreatePayment p s = (Inr r, s') \<Longrightarrow> \<not> aborted s \<and> 0 < cp_AmountCents p \<and>
    payment_checks (cp_Status p) (cp_MatchRule p) \<and>
    cp_TransID p \<notin> pay_trans_id ` set (payments s) \<and> pay_id r = next_id s \<and>
    pay_org_id r = cp_OrgID p \<and> pay_trans_id r = cp_TransID p \<and> pay_amount_cents r = cp_AmountCents p \<and>
    pay_status r = cp_Status p \<and> pay_sale_id r = cp_SaleID p \<and> pay_match_rule r = cp_MatchRule p \<and>
    s' = s\<lparr>next_id := Suc (next_id s), payments := payments s @ [r]\<rparr>"
  by (auto simp: CreatePayment_def stmt_Inr_iff Let_def split: if_splits)

lemma attempt_Inr_Inr: "attempt m s = (Inr (Inr x), s') \<longleftrightarrow> m s = (Inr x, s')"
  by (auto simp: attempt_def split: prod.splits sum.splits if_splits)

lemma readonly_payer_keys: "readonly (payer_keys k msisdn)"
  unfolding payer_keys_def
  by (auto intro!: readonly_intros readonly_EncryptString split: sum.splits)

text \<open>The relation that only request-to-pay rows may change.\<close>

definition only_stk :: "tables \<Rightarrow> tables \<Rightarrow> bool" where
  "only_stk t u \<longleftrightarrow> (\<exists>x. u = t\<lparr>stk_requests := x\<rparr>)"

interpretation only_stk: table_frame only_stk
proof
  show "only_stk t t" for t unfolding only_stk_def by (rule exI [of _ "stk_requests t"]) simp
qed (auto simp: only_stk_def)

lemma mark_stk_effect:
  "keeps S only_stk (case r of None \<Rightarrow> ret () | Some i \<Rightarrow> ignore (UpdateSTKRequestResult i st c desc))"
proof -
  have "keeps S only_stk (UpdateSTKRequestResult i st c desc)" for i
    unfolding UpdateSTKRequestResult_def Let_def
    by (rule only_stk.keeps_stmt) (auto simp: only_stk_def tbl_def split: if_splits)
  then show ?thesis by (intro only_stk.keeps_intros)
qed

definition decision_of :: "Keyring \<Rightarrow> ResolveShortcodeRow \<Rightarrow> C2BInput \<Rightarrow> db \<Rightarrow> Decision" where
  "decision_of k sc inp s = Match
     \<lparr>in_AmountCents = c2b_AmountCents inp, in_BillRef = c2b_BillRef inp,
      in_MSISDNHash = (case NormaliseMSISDN (c2b_MSISDN inp) of Inl _ \<Rightarrow> [] | Inr m \<Rightarrow> Hash k m),
      in_PaidAt = c2b_PaidAt inp\<rparr>
     \<lparr>sr_AutoInvoice = rs_AutoInvoice sc, sr_DefaultItemID = rs_DefaultItemID sc\<rparr>
     (lookups (rs_OrgID sc) s)"

lemma payer_keys_Inr:
  assumes "payer_keys k m s = (Inr (h, enc), s')"
  shows "h = (case NormaliseMSISDN m of Inl _ \<Rightarrow> [] | Inr x \<Rightarrow> Hash k x)"
proof (cases "NormaliseMSISDN m")
  case (Inr x)
  with assms show ?thesis
    by (cases "attempt (EncryptString k x) s"; cases "fst (attempt (EncryptString k x) s)")
      (auto simp: payer_keys_def)
qed (use assms in \<open>simp add: payer_keys_def\<close>)

lemma ask_query: "ask (query_one q) f s = (if aborted s then None else map_option f (q s))"
  by (auto simp: ask_def query_one_apply split: option.splits)

lemma sees_reads [simp]: "own (s\<lparr>reads := n\<rparr>) = own s" "sees_sale (s\<lparr>reads := n\<rparr>) = sees_sale s"
  "sees_stk (s\<lparr>reads := n\<rparr>) = sees_stk s"
  by (simp_all add: fun_eq_iff own_def sees_sale_def sees_stk_def cong: Scope.case_cong)

lemma lookups_reads: "lookups oid (s\<lparr>reads := n\<rparr>) = lookups oid s"
  unfolding lookups_def GetOpenSaleByRef_def FindPendingSTKRequest_def
    FindRecentOpenSaleByCustomer_def FindRecentOpenSaleByAmount_def ask_query
  by (simp cong: if_cong)

text \<open>The steps of \<open>applyPayment\<close>, with the decision it takes.\<close>

lemma applyPayment_steps:
  assumes run: "applyPayment k now sc inp eid res s = (Inr out, s')"
    and sc: "scope s = ScopeOrg (rs_OrgID sc)" and na: "\<not> aborted s"
  defines "d \<equiv> decision_of k sc inp s"
  obtains n h enc sid s1 p s2 s3 res1 where
    "settle_target sc inp d h enc (s\<lparr>reads := n\<rparr>) = (Inr sid, s1)"
    "0 < c2b_AmountCents inp" "c2b_TransID inp \<notin> pay_trans_id ` set (payments s)"
    "payment_checks (d_Status d) (if d_Rule d \<noteq> [] then Some (d_Rule d) else None)"
    "pay_id p = next_id s1" "pay_org_id p = rs_OrgID sc" "pay_trans_id p = c2b_TransID inp"
    "pay_amount_cents p = c2b_AmountCents inp" "pay_status p = d_Status d" "pay_sale_id p = sid"
    "s2 = s1\<lparr>next_id := Suc (next_id s1), payments := payments s1 @ [p]\<rparr>"
    "scope s3 = scope s2" "only_stk (tbl s2) (tbl s3)"
    "res1 = res\<lparr>res_Status := d_Status d, res_Rule := d_Rule d, res_SaleID := sid,
       res_PaymentID := pay_id p\<rparr>"
    "(case sid of None \<Rightarrow> ret res1 | Some x \<Rightarrow> if d_Status d = StatusPartial then ret res1
       else tbind (CreateInvoiceForSale now (rs_OrgID sc) x (Some (pay_id p)) (c2b_PaidAt inp))
         (\<lambda>iv. ret (res1\<lparr>res_InvoiceID := Some (inv_id iv)\<rparr>))) s3 = (Inr out, s')"
proof -
  from run obtain h enc s0 where pk: "payer_keys k (c2b_MSISDN inp) s = (Inr (h, enc), s0)"
    by (auto simp: applyPayment_def tbind_Inr_iff)
  from readonlyD [OF readonly_payer_keys pk] obtain n where s0: "s0 = s\<lparr>reads := n\<rparr>" by blast
  have dec: "decide sc inp h s0 = (Inr d, s0)"
    unfolding decide_def d_def decision_of_def s0 lookups_reads payer_keys_Inr [OF pk] by simp
  from run pk dec obtain sid s1 where tgt: "settle_target sc inp d h enc s0 = (Inr sid, s1)"
    by (auto simp: applyPayment_def tbind_Inr_iff)
  let ?cp = "\<lparr>cp_OrgID = rs_OrgID sc, cp_ShortcodeID = rs_ID sc, cp_WebhookEventID = Some eid,
        cp_TransID = c2b_TransID inp, cp_AmountCents = c2b_AmountCents inp, cp_MsisdnEnc = enc,
        cp_MsisdnHash = h, cp_PayerName = c2b_PayerName inp, cp_BillRef = c2b_BillRef inp,
        cp_PaidAt = c2b_PaidAt inp, cp_Status = d_Status d, cp_SaleID = sid,
        cp_MatchRule = (if d_Rule d \<noteq> [] then Some (d_Rule d) else None)\<rparr>"
  from run pk dec tgt obtain p s2 where cp: "CreatePayment ?cp s1 = (Inr p, s2)"
    by (auto simp: applyPayment_def attempt_case_Inr)
  let ?res = "res\<lparr>res_Status := d_Status d, res_Rule := d_Rule d, res_SaleID := sid,
       res_PaymentID := pay_id p\<rparr>"
  from run pk dec tgt cp obtain s3 where
      stk: "(case d_STKRequestID d of None \<Rightarrow> ret ()
       | Some i \<Rightarrow> ignore (UpdateSTKRequestResult i ''success'' None
           (Some (''matched to '' @ c2b_TransID inp)))) s2 = (Inr (), s3)"
    and rest: "(case sid of None \<Rightarrow> ret ?res | Some x \<Rightarrow> if d_Status d = StatusPartial then ret ?res
       else tbind (CreateInvoiceForSale now (rs_OrgID sc) x (Some (pay_id p)) (c2b_PaidAt inp))
         (\<lambda>iv. ret (?res\<lparr>res_InvoiceID := Some (inv_id iv)\<rparr>))) s3 = (Inr out, s')"
    by (auto simp: applyPayment_def tbind_Inr_iff [of "case d_STKRequestID d of None \<Rightarrow> ret () | Some i \<Rightarrow> F i" for F] Let_def)
  have "scope s1 = scope s0 \<and> payments s1 = payments s0"
    using settle_target_frame(2,5) [OF tgt] sc na s0 by simp
  with keepsD [OF mark_stk_effect [of UNIV] UNIV_I stk] CreatePayment_Inr [OF cp] s0
  show thesis
    by (intro that [of h enc n sid s1 p s2 s3 ?res, OF tgt [unfolded s0] _ _ _ _ _ _ _ _ _ _ _ _ refl rest]) simp_all
qed

lemma cash_decision_status: "d_CreateCashSale (Match inp sc lk) \<Longrightarrow> d_Status (Match inp sc lk) = StatusCashSale"
  by (cases rule: decision_cases [of inp lk sc]) auto

definition settled :: "C2BResult \<Rightarrow> bool" where
  "settled out \<longleftrightarrow> res_SaleID out \<noteq> None \<and> res_Status out \<noteq> StatusPartial"

text \<open>The invoice a payment raised, with its jobs.\<close>

definition raised :: "C2BResult \<Rightarrow> time \<Rightarrow> uuid \<Rightarrow> db \<Rightarrow> db \<Rightarrow> Invoice \<Rightarrow> bool" where
  "raised out now oid s s' iv \<longleftrightarrow> res_InvoiceID out = Some (inv_id iv) \<and>
     invoices s' = invoices s @ [iv] \<and> inv_org_id iv = oid \<and> inv_kind iv = ''INVOICE'' \<and>
     inv_payment_id iv = Some (res_PaymentID out) \<and> res_SaleID out = Some (inv_sale_id iv) \<and>
     (\<exists>sa \<in> set (sales s'). sale_id sa = inv_sale_id iv \<and> sale_org_id sa = oid \<and>
       amounts iv = (sale_subtotal_cents sa, sale_tax_cents sa, sale_total_cents sa)) \<and>
     (inv_state iv = StateQueued \<and> jobs s' = jobs s @ [submit_job oid iv, pending_sms oid iv now] \<or>
      inv_state iv = StateTaxPending \<and> jobs s' = jobs s)"

lemma applyPayment_booked:
  assumes run: "applyPayment k now sc inp eid (no_result\<lparr>res_OrgID := rs_OrgID sc\<rparr>) s = (Inr out, s')"
    and sc: "scope s = ScopeOrg (rs_OrgID sc)" and na: "\<not> aborted s"
  defines "d \<equiv> decision_of k sc inp s"
  obtains p where "payments s' = payments s @ [p]" "pay_org_id p = rs_OrgID sc"
    "pay_trans_id p = c2b_TransID inp" "c2b_TransID inp \<notin> pay_trans_id ` set (payments s)"
    "pay_amount_cents p = c2b_AmountCents inp" "0 < c2b_AmountCents inp"
    "res_PaymentID out = pay_id p" "res_Status out = d_Status d" "pay_status p = d_Status d"
    "pay_sale_id p = res_SaleID out" "res_Rule out = d_Rule d"
    "if d_CreateCashSale d
     then \<exists>sale. cash_sale_of sc inp s s' sale \<and> res_SaleID out = Some (sale_id sale) \<and> next_id s \<le> sale_id sale
     else res_SaleID out = d_SaleID d"
    "if settled out then \<exists>iv. raised out now (rs_OrgID sc) s s' iv
     else res_InvoiceID out = None \<and> invoices s' = invoices s \<and> jobs s' = jobs s"
proof -
  let ?oid = "rs_OrgID sc"
  obtain n h enc sid s1 p s2 s3 res1 where
      tgt: "settle_target sc inp d h enc (s\<lparr>reads := n\<rparr>) = (Inr sid, s1)"
    and p: "0 < c2b_AmountCents inp" "c2b_TransID inp \<notin> pay_trans_id ` set (payments s)"
      "pay_org_id p = ?oid" "pay_trans_id p = c2b_TransID inp"
      "pay_amount_cents p = c2b_AmountCents inp" "pay_status p = d_Status d" "pay_sale_id p = sid"
    and s2: "s2 = s1\<lparr>next_id := Suc (next_id s1), payments := payments s1 @ [p]\<rparr>"
    and s3: "scope s3 = scope s2" "only_stk (tbl s2) (tbl s3)"
    and res1: "res1 = no_result\<lparr>res_OrgID := ?oid, res_Status := d_Status d, res_Rule := d_Rule d,
       res_SaleID := sid, res_PaymentID := pay_id p\<rparr>"
    and rest: "(case sid of None \<Rightarrow> ret res1 | Some x \<Rightarrow> if d_Status d = StatusPartial then ret res1
       else tbind (CreateInvoiceForSale now ?oid x (Some (pay_id p)) (c2b_PaidAt inp))
         (\<lambda>iv. ret (res1\<lparr>res_InvoiceID := Some (inv_id iv)\<rparr>))) s3 = (Inr out, s')"
    using run sc na unfolding d_def by (rule applyPayment_steps) simp
  have st: "scope (s\<lparr>reads := n\<rparr>) = ScopeOrg ?oid" "\<not> aborted (s\<lparr>reads := n\<rparr>)" using sc na by simp_all
  note t = settle_target_frame [OF tgt st, simplified]
  from s3(2) obtain x where x: "tbl s3 = (tbl s2)\<lparr>stk_requests := x\<rparr>" by (auto simp: only_stk_def)
  have f3: "invoices s3 = invoices s" "payments s3 = payments s @ [p]" "jobs s3 = jobs s"
      "sales s3 = sales s1" "sale_items s3 = sale_items s1" "scope s3 = ScopeOrg ?oid"
    using arg_cong [OF x, of invoices] arg_cong [OF x, of payments] arg_cong [OF x, of jobs]
      arg_cong [OF x, of sales] arg_cong [OF x, of sale_items] t sc s2 s3(1) by simp_all
  have cash: "if d_CreateCashSale d
     then \<exists>sale. cash_sale_of sc inp s s3 sale \<and> sid = Some (sale_id sale) \<and> next_id s \<le> sale_id sale
     else sid = d_SaleID d"
    using t(8) f3 by (simp add: cash_sale_of_def cong: if_cong)
  show thesis
  proof (cases "settled res1")
    case False
    then have "out = res1" "s' = s3"
      using rest by (auto simp: res1 settled_def split: option.splits if_splits)
    with p f3 cash False show thesis by (intro that [of p]) (simp_all add: res1 no_result_def)
  next
    case True
    then obtain y where y: "sid = Some y" "d_Status d \<noteq> StatusPartial" by (auto simp: res1 settled_def)
    with rest obtain iv where ci: "CreateInvoiceForSale now ?oid y (Some (pay_id p)) (c2b_PaidAt inp) s3 = (Inr iv, s')"
      and out: "out = res1\<lparr>res_InvoiceID := Some (inv_id iv)\<rparr>" by (auto simp: tbind_Inr_iff)
    from ci f3(6) show thesis
    proof (rule invoice_for_sale)
      fix sa oo
      assume iv: "sa \<in> set (sales s3)" "sale_id sa = y" "sale_org_id sa = ?oid"
        "inv_kind iv = ''INVOICE''" "inv_state iv = initial_state oo"
        "amounts iv = (sale_subtotal_cents sa, sale_tax_cents sa, sale_total_cents sa)"
        "inv_org_id iv = ?oid" "inv_sale_id iv = y" "inv_payment_id iv = Some (pay_id p)"
        "invoices s' = invoices s3 @ [iv]"
        "jobs s' = jobs s3 @ (if initial_state oo = StateQueued
           then [submit_job ?oid iv, pending_sms ?oid iv now] else [])"
        "payments s' = payments s3" "sales s' = sales s3" "sale_items s' = sale_items s3"
      have "raised out now ?oid s s' iv"
        unfolding raised_def using iv f3 y initial_state_cases [of oo] by (auto simp: out res1)
      moreover have "if d_CreateCashSale d
         then \<exists>sale. cash_sale_of sc inp s s' sale \<and> sid = Some (sale_id sale) \<and> next_id s \<le> sale_id sale
         else sid = d_SaleID d"
        using cash iv by (simp add: cash_sale_of_def cong: if_cong)
      ultimately show thesis using p f3 iv True by (intro that [of p]) (auto simp: out res1 settled_def)
    qed
  qed
qed

text \<open>
  C7. What a confirmed payment books, when the transaction of \<open>ProcessStoredC2B\<close> succeeds:
  exactly one payment, for the amount received, under a transaction id not seen before,
  with the status and the sale the matcher decided on. When the payment settles a sale
  exactly one invoice is raised, for that sale, linked to the payment, with the sale's
  amounts, and with its submission job exactly when it is QUEUED; when it does not (no sale,
  or less than the sale's total) no invoice and no job appear.
\<close>

theorem payment_booked:
  assumes "applyPayment k now sc inp eid (no_result\<lparr>res_OrgID := rs_OrgID sc\<rparr>) s = (Inr out, s')"
    and "scope s = ScopeOrg (rs_OrgID sc)" and "\<not> aborted s"
  shows "\<exists>p. payments s' = payments s @ [p] \<and> pay_id p = res_PaymentID out \<and>
    pay_org_id p = rs_OrgID sc \<and> pay_trans_id p = c2b_TransID inp \<and>
    c2b_TransID inp \<notin> pay_trans_id ` set (payments s) \<and>
    pay_amount_cents p = c2b_AmountCents inp \<and> 0 < c2b_AmountCents inp \<and>
    pay_status p = d_Status (decision_of k sc inp s) \<and> pay_sale_id p = res_SaleID out \<and>
    (\<not> d_CreateCashSale (decision_of k sc inp s) \<longrightarrow>
      res_SaleID out = d_SaleID (decision_of k sc inp s)) \<and>
    (if settled out then \<exists>iv. raised out now (rs_OrgID sc) s s' iv
     else res_InvoiceID out = None \<and> invoices s' = invoices s \<and> jobs s' = jobs s)"
  using assms by (rule applyPayment_booked) (auto split: if_splits)

definition till_db :: db where
  "till_db = shop_db\<lparr>scope := ScopeOrg 1\<rparr>"

lemma till_scope: "scope till_db = ScopeOrg (rs_OrgID (resolve_row shop_till))" "\<not> aborted till_db"
  by (simp_all add: till_db_def shop_db_def empty_db_def resolve_row_def shop_till_def)

lemma till_cash: "d_CreateCashSale (decision_of plain_keyring (resolve_row shop_till) cash_payment till_db)"
  by code_simp

lemma till_run:
  obtains out s' where "applyPayment plain_keyring 0 (resolve_row shop_till) cash_payment 9
      (no_result\<lparr>res_OrgID := rs_OrgID (resolve_row shop_till)\<rparr>) till_db = (Inr out, s')"
    and "res_InvoiceID out = Some 13"
proof -
  let ?r = "applyPayment plain_keyring 0 (resolve_row shop_till) cash_payment 9
      (no_result\<lparr>res_OrgID := rs_OrgID (resolve_row shop_till)\<rparr>) till_db"
  have "map_sum id res_InvoiceID (fst ?r) = Inr (Some 13)" by code_simp
  then show thesis using that by (cases ?r; cases "fst ?r") auto
qed

theorem payment_booked_witness:
  "\<exists>out s'. applyPayment plain_keyring 0 (resolve_row shop_till) cash_payment 9
      (no_result\<lparr>res_OrgID := rs_OrgID (resolve_row shop_till)\<rparr>) till_db = (Inr out, s') \<and>
     (\<exists>p iv. payments s' = [p] \<and> pay_trans_id p = ''TX1'' \<and> invoices s' = [iv] \<and>
        inv_payment_id iv = Some (pay_id p))"
proof (rule till_run)
  fix out s'
  assume run: "applyPayment plain_keyring 0 (resolve_row shop_till) cash_payment 9
      (no_result\<lparr>res_OrgID := rs_OrgID (resolve_row shop_till)\<rparr>) till_db = (Inr out, s')"
    and i: "res_InvoiceID out = Some 13"
  have e: "payments till_db = []" "invoices till_db = []"
    by (simp_all add: till_db_def shop_db_def empty_db_def)
  have t: "c2b_TransID cash_payment = ''TX1''" by (simp add: cash_payment_def shop_payment_def)
  from payment_booked [OF run till_scope] i e t obtain p iv where
    "payments s' = [p]" "pay_trans_id p = ''TX1''" "pay_id p = res_PaymentID out"
    "raised out 0 (rs_OrgID (resolve_row shop_till)) till_db s' iv"
    by (auto split: if_splits)
  with run e show ?thesis unfolding raised_def by auto
qed

text \<open>
  C8. A payment that nothing matches becomes a complete cash sale when the till says so: one
  paid sale and one line at the amount received, and an invoice for it whose total is the
  amount received, whose tax is the VAT contained in it at the default item's rate, and
  whose subtotal is the rest, to the cent.
\<close>

theorem cash_sale_booked:
  assumes run: "applyPayment k now sc inp eid (no_result\<lparr>res_OrgID := rs_OrgID sc\<rparr>) s = (Inr out, s')"
    and sc: "scope s = ScopeOrg (rs_OrgID sc)" "\<not> aborted s" and w: "wf (tbl s)"
    and cash: "d_CreateCashSale (decision_of k sc inp s)" and range: "in_int64 (c2b_AmountCents inp)"
  shows "\<exists>item sale line iv. item \<in> set (items s) \<and> rs_DefaultItemID sc = Some (item_id item) \<and>
    sales s' = sales s @ [sale] \<and> sale_items s' = sale_items s @ [line] \<and>
    invoices s' = invoices s @ [iv] \<and> sale_status sale = ''paid'' \<and>
    si_sale_id line = sale_id sale \<and> inv_sale_id iv = sale_id sale \<and>
    si_line_total_cents line = c2b_AmountCents inp \<and>
    si_line_tax_cents line = LineTax (c2b_AmountCents inp) (RateBP (item_tax_category item)) \<and>
    amounts iv = (c2b_AmountCents inp - si_line_tax_cents line, si_line_tax_cents line, c2b_AmountCents inp)"
  using run sc
proof (rule applyPayment_booked)
  fix p
  assume pos: "0 < c2b_AmountCents inp" and st: "res_Status out = d_Status (decision_of k sc inp s)"
    and c: "if d_CreateCashSale (decision_of k sc inp s)
     then \<exists>sale. cash_sale_of sc inp s s' sale \<and> res_SaleID out = Some (sale_id sale) \<and> next_id s \<le> sale_id sale
     else res_SaleID out = d_SaleID (decision_of k sc inp s)"
    and r: "if settled out then \<exists>iv. raised out now (rs_OrgID sc) s s' iv
     else res_InvoiceID out = None \<and> invoices s' = invoices s \<and> jobs s' = jobs s"
  from c cash obtain sale where sale: "cash_sale_of sc inp s s' sale" "res_SaleID out = Some (sale_id sale)"
    and fresh: "next_id s \<le> sale_id sale" by auto
  have "d_Status (decision_of k sc inp s) = StatusCashSale"
    using cash unfolding decision_of_def by (rule cash_decision_status)
  with st sale(2) have "settled out" by (simp add: settled_def)
  with r obtain iv where iv: "raised out now (rs_OrgID sc) s s' iv" by auto
  from sale(1) obtain item line where parts: "item \<in> set (items s)"
      "rs_DefaultItemID sc = Some (item_id item)" "sales s' = sales s @ [sale]"
      "sale_items s' = sale_items s @ [line]" "sale_status sale = ''paid''"
      "sale_total_cents sale = c2b_AmountCents inp" "sale_tax_cents sale = cash_tax inp item"
      "sale_subtotal_cents sale = wrap64 (c2b_AmountCents inp - cash_tax inp item)"
      "si_sale_id line = sale_id sale" "si_line_total_cents line = c2b_AmountCents inp"
      "si_line_tax_cents line = cash_tax inp item"
    by (auto simp: cash_sale_of_def)
  have sid: "inv_sale_id iv = sale_id sale" using iv sale(2) by (simp add: raised_def)
  obtain sa where sa: "sa \<in> set (sales s')" "sale_id sa = sale_id sale"
      "amounts iv = (sale_subtotal_cents sa, sale_tax_cents sa, sale_total_cents sa)"
    using iv sid by (auto simp: raised_def)
  have "sale_id x < next_id s" if "x \<in> set (sales s)" for x
    using w that by (auto simp: wf_defs keyed_def)
  then have "sa = sale" using sa(1,2) parts(3) fresh by fastforce
  moreover have "wrap64 (c2b_AmountCents inp - cash_tax inp item) = c2b_AmountCents inp - cash_tax inp item"
    using LineTax_bounds [of "c2b_AmountCents inp" "RateBP (item_tax_category item)"] pos range RateBP_nonneg
    by (simp add: cash_tax_def in_int64_def)
  moreover have "invoices s' = invoices s @ [iv]" using iv by (simp add: raised_def)
  ultimately show ?thesis using parts sa(3) sid
    by (intro exI [of _ item] exI [of _ sale] exI [of _ line] exI [of _ iv])
      (simp add: cash_tax_def)
qed

theorem cash_sale_booked_witness:
  "\<exists>out s' iv. applyPayment plain_keyring 0 (resolve_row shop_till) cash_payment 9
      (no_result\<lparr>res_OrgID := rs_OrgID (resolve_row shop_till)\<rparr>) till_db = (Inr out, s') \<and>
     invoices s' = [iv] \<and> amounts iv = (10000, 1600, 11600)"
proof (rule till_run)
  fix out s'
  assume run: "applyPayment plain_keyring 0 (resolve_row shop_till) cash_payment 9
      (no_result\<lparr>res_OrgID := rs_OrgID (resolve_row shop_till)\<rparr>) till_db = (Inr out, s')"
  have e: "invoices till_db = []" "items till_db = [shop_item]"
    by (simp_all add: till_db_def shop_db_def empty_db_def)
  have w: "wf (tbl till_db)" using wf_shop by (simp add: till_db_def)
  have a: "c2b_AmountCents cash_payment = 11600" "in_int64 (c2b_AmountCents cash_payment)"
    by (simp_all add: cash_payment_def shop_payment_def in_int64_def)
  have t: "LineTax 11600 (RateBP (item_tax_category shop_item)) = 1600" by code_simp
  from cash_sale_booked [OF run till_scope w till_cash a(2)] e a(1) t run show ?thesis by auto
qed

subsection \<open>A rule the schema does not know\<close>

text \<open>The relation that only webhook events may change.\<close>

definition only_events :: "tables \<Rightarrow> tables \<Rightarrow> bool" where
  "only_events t u \<longleftrightarrow> (\<exists>x. u = t\<lparr>webhook_events := x\<rparr>)"

interpretation only_events: table_frame only_events
proof
  show "only_events t t" for t unfolding only_events_def by (rule exI [of _ "webhook_events t"]) simp
qed (auto simp: only_events_def)

lemma mark_event_effect:
  "keeps S only_events (ignore (WithIngest (case r of Inl e \<Rightarrow> set_webhook_error i (err_text e)
     | Inr _ \<Rightarrow> MarkWebhookProcessed i None)))"
proof -
  have "keeps T only_events (set_webhook_error i msg)" for T msg
    unfolding set_webhook_error_def by (rule only_events.keeps_update) (auto simp: only_events_def tbl_def)
  moreover have "keeps T only_events (MarkWebhookProcessed i msg)" for T msg
    unfolding MarkWebhookProcessed_def by (rule only_events.keeps_update) (auto simp: only_events_def tbl_def)
  ultimately show ?thesis
    unfolding scope_defs by (intro only_events.keeps_intros only_events.keeps_scoped)
qed

text \<open>When the transaction for the payment fails, only the webhook event is touched.\<close>

lemma ProcessStoredC2B_failed:
  assumes kind: "c2b_Kind inp \<noteq> ''reversal''"
    and fails: "\<And>out s1. applyPayment k now sc inp i (no_result\<lparr>res_OrgID := rs_OrgID sc\<rparr>)
      (s\<lparr>scope := ScopeOrg (rs_OrgID sc), aborted := False\<rparr>) \<noteq> (Inr out, s1)"
  shows "only_events (tbl s) (tbl (snd (ProcessStoredC2B k now i sc inp s)))"
proof -
  let ?m = "WithOrg (rs_OrgID sc) (applyPayment k now sc inp i (no_result\<lparr>res_OrgID := rs_OrgID sc\<rparr>))"
  obtain r s1 where m: "?m s = (r, s1)" by (cases "?m s")
  with fails obtain e where r: "r = Inl e"
    by (cases r) (auto simp: scope_defs scoped_Inr_iff)
  have t: "tbl s1 = tbl s"
    using arg_cong [OF scoped_Inl [OF m [unfolded r scope_defs]], of tbl] by simp
  show ?thesis
  proof (cases "is_panic e")
    case True
    then have "snd (ProcessStoredC2B k now i sc inp s) = s1"
      using m r kind by (simp add: ProcessStoredC2B_def Let_def attempt_def tbind_def)
    with t show ?thesis by (simp add: only_events.R_refl)
  next
    case False
    let ?r = "if errors_is e ErrDuplicate then Inr (no_result\<lparr>res_OrgID := rs_OrgID sc, res_Duplicate := True\<rparr>) else Inl e"
    let ?n = "ignore (WithIngest (case ?r of Inl e \<Rightarrow> set_webhook_error i (err_text e)
      | Inr _ \<Rightarrow> MarkWebhookProcessed i None))"
    have "snd (ProcessStoredC2B k now i sc inp s) = snd (tbind ?n (\<lambda>_. of_result ?r) s1)"
      using m r kind False by (simp add: ProcessStoredC2B_def Let_def)
    also have "\<dots> = snd (?n s1)"
      by (cases "?n s1"; cases "fst (?n s1)") (simp_all add: tbind_def)
    finally show ?thesis
      using keeps_tables [OF mark_event_effect [of UNIV i ?r], of s1] t by simp
  qed
qed

text \<open>
  The counter window never settles a payment: \<open>payments.match_rule\<close> has a CHECK that does
  not list \<open>counter_window\<close>, so when the matcher finds the open sale of the payer or of the
  amount, the insert of the payment is refused, the transaction rolls back, and the payment,
  the sale's settlement and its invoice are all lost; only the webhook event keeps the error.
\<close>

theorem counter_window_rejected:
  assumes "c2b_Kind inp \<noteq> ''reversal''"
    and "d_Rule (decision_of k sc inp (s\<lparr>scope := ScopeOrg (rs_OrgID sc), aborted := False\<rparr>)) = RuleCounterWindow"
  shows "\<exists>x. tbl (snd (ProcessStoredC2B k now i sc inp s)) = (tbl s)\<lparr>webhook_events := x\<rparr>"
proof -
  let ?s = "s\<lparr>scope := ScopeOrg (rs_OrgID sc), aborted := False\<rparr>"
  have "applyPayment k now sc inp i (no_result\<lparr>res_OrgID := rs_OrgID sc\<rparr>) ?s \<noteq> (Inr out, s1)" for out s1
  proof
    assume run: "applyPayment k now sc inp i (no_result\<lparr>res_OrgID := rs_OrgID sc\<rparr>) ?s = (Inr out, s1)"
    have "scope ?s = ScopeOrg (rs_OrgID sc)" "\<not> aborted ?s" by simp_all
    with run show False
      by (rule applyPayment_steps)
        (use assms(2) in \<open>simp add: payment_checks_def match_rules_def rule_defs\<close>)
  qed
  from ProcessStoredC2B_failed [OF assms(1) this] show ?thesis by (simp add: only_events_def)
qed

definition counter_db :: db where
  "counter_db = shop_db\<lparr>sales := [\<lparr>sale_id = 4, sale_org_id = 1, sale_ref = ''S-1'',
     sale_kind = ''open'', sale_status = ''open'', sale_customer_id = None,
     sale_subtotal_cents = 10000, sale_tax_cents = 1600, sale_total_cents = 11600,
     sale_client_ref = None, sale_created_by = None, sale_paid_at = None, sale_buyer_name = [],
     sale_created_at = 63871200000 * second\<rparr>]\<rparr>"

theorem counter_window_rejected_witness:
  "fst (ProcessStoredC2B plain_keyring 0 9 (resolve_row shop_till) cash_payment counter_db) = Inl check_violation \<and>
   (\<exists>x. tbl (snd (ProcessStoredC2B plain_keyring 0 9 (resolve_row shop_till) cash_payment counter_db)) =
      (tbl counter_db)\<lparr>webhook_events := x\<rparr>)"
proof -
  have "c2b_Kind cash_payment \<noteq> ''reversal''" by (simp add: cash_payment_def shop_payment_def)
  moreover have "d_Rule (decision_of plain_keyring (resolve_row shop_till) cash_payment
      (counter_db\<lparr>scope := ScopeOrg (rs_OrgID (resolve_row shop_till)), aborted := False\<rparr>)) = RuleCounterWindow"
    by code_simp
  moreover have "fst (ProcessStoredC2B plain_keyring 0 9 (resolve_row shop_till) cash_payment counter_db) =
      Inl check_violation" by code_simp
  ultimately show ?thesis using counter_window_rejected [of cash_payment plain_keyring] by blast
qed

text \<open>Outside a tenant's scope row-level security shows no payment.\<close>

lemma hidden_payment:
  assumes "scope s = ScopeIngest \<or> scope s = ScopeNone" and "\<not> aborted s"
  shows "GetPaymentByTransID tid s = (Inl ErrNoRows, s)"
proof -
  have "\<not> sees_payment s p" for p
    using assms(1) by (auto simp: sees_payment_def own_def receipt_sees_def)
  then have "find (\<lambda>r. sees_payment s r \<and> pay_trans_id r = tid) (payments s) = None"
    by (simp add: find_None_iff)
  with assms(2) show ?thesis by (simp add: GetPaymentByTransID_def query_one_apply)
qed

lemma reversal_lookup_fails:
  "IngestReversal now tid reason s =
     (Inl (Wrap (''ledger: reversal payment not found ('' @ tid @ ''): '' @ err_text ErrNoRows) ErrNoRows), s)"
proof -
  have "WithIngest (GetPaymentByTransID tid) s = (Inl ErrNoRows, s)"
    by (simp add: scope_defs scoped_fail hidden_payment)
  then show ?thesis by (simp add: IngestReversal_def)
qed

text \<open>
  A reversal notice is never matched to its payment: \<open>IngestReversal\<close> looks the payment
  up in the ingest scope, in which row-level security shows no payment, so whatever the
  store holds it answers "payment not found" and issues no credit note.
\<close>

theorem reversal_never_found:
  "IngestReversal now tid reason s =
     (Inl (Wrap (''ledger: reversal payment not found ('' @ tid @ ''): '' @ err_text ErrNoRows) ErrNoRows), s)"
by (rule reversal_lookup_fails)

end
