(* ===== verification/ReissueProps.thy ===== *)
theory ReissueProps
  imports PaymentProps
begin

text \<open>
  Re-issue and credit notes: which invoice is corrected, the exact reversal of an
  acknowledged original, the links between the documents, the jobs, and what a second
  request for a credit note is answered with.
\<close>

subsection \<open>Steps\<close>

lemma GetInvoice_own:
  assumes "GetInvoice i s = (Inr r, s')" and "scope s = ScopeOrg oid"
  shows "\<not> aborted s \<and> s' = s \<and> r \<in> set (invoices s) \<and> inv_id r = i \<and> inv_org_id r = oid"
  using assms by (auto simp: GetInvoice_def query_one_Inr_iff sees_invoice_def own_def receipt_sees_def
    find_Some_iff)

text \<open>The end of the chain: an invoice of the organisation with no successor it can read.\<close>

definition chain_end :: "db \<Rightarrow> uuid \<Rightarrow> Invoice \<Rightarrow> bool" where
  "chain_end s oid i \<longleftrightarrow> i \<in> set (invoices s) \<and> inv_org_id i = oid \<and>
     (\<forall>j. inv_superseded_by i = Some j \<longrightarrow>
       (\<forall>r \<in> set (invoices s). inv_id r = j \<longrightarrow> inv_org_id r \<noteq> oid))"

lemma active_from_Inr:
  assumes "active_from n i s = (Inr j, s')" and "scope s = ScopeOrg oid" and "\<not> aborted s"
    and "i \<in> set (invoices s)" and "inv_org_id i = oid"
  shows "s' = s \<and> chain_end s oid j"
  using assms
proof (induction n arbitrary: i)
  case (Suc n)
  show ?case
  proof (cases "inv_superseded_by i")
    case None
    with Suc.prems show ?thesis by (simp add: chain_end_def)
  next
    case (Some m)
    obtain r s1 where g: "GetInvoice m s = (r, s1)" by (cases "GetInvoice m s")
    have q: "GetInvoice m s = (case find (\<lambda>r. sees_invoice s r \<and> inv_id r = m) (invoices s) of
        None \<Rightarrow> (Inl ErrNoRows, s) | Some x \<Rightarrow> (Inr x, s))"
      using Suc.prems(3) by (simp add: GetInvoice_def query_one_apply)
    show ?thesis
    proof (cases "find (\<lambda>r. sees_invoice s r \<and> inv_id r = m) (invoices s)")
      case None
      with q Some Suc.prems have "j = i" "s' = s" by (simp_all add: attempt_def tbind_def)
      moreover have "inv_org_id r \<noteq> oid" if "r \<in> set (invoices s)" "inv_id r = m" for r
        using None that Suc.prems(2) by (auto simp: find_None_iff sees_invoice_def own_def)
      ultimately show ?thesis using Suc.prems Some by (auto simp: chain_end_def)
    next
      case (Some x)
      with q have gx: "GetInvoice m s = (Inr x, s)" by simp
      with Suc.prems \<open>inv_superseded_by i = Some m\<close> have "active_from n x s = (Inr j, s')" by simp
      moreover have "x \<in> set (invoices s) \<and> inv_org_id x = oid"
        using GetInvoice_own [OF gx Suc.prems(2)] by simp
      ultimately show ?thesis using Suc.IH Suc.prems(2,3) by blast
    qed
  qed
qed simp

definition superseding :: "uuid \<Rightarrow> time \<Rightarrow> Invoice \<Rightarrow> Invoice" where
  "superseding j now r = r\<lparr>inv_superseded_by := Some j, inv_superseded_at := Some now, inv_updated_at := now\<rparr>"

lemma exec_update_invoice:
  assumes "exec (update_invoice p f) s = (Inr u, s')"
  shows "\<not> aborted s \<and> s' = updated_db p f s"
proof (cases "aborted s")
  case True
  with assms show ?thesis by (simp add: exec_def update_invoice_def stmt_def attempt_def tbind_def in_failed_tx_def)
next
  case False
  obtain r s1 where u: "update_invoice p f s = (r, s1)" by (cases "update_invoice p f s")
  show ?thesis
  proof (cases r)
    case (Inr x)
    with u assms update_invoice_Inr [of p f s x s1] show ?thesis by (simp add: exec_def)
  next
    case (Inl e)
    have "e = ErrNoRows" using assms u Inl by (auto simp: exec_def attempt_def tbind_def split: if_splits)
    then have none: "\<forall>i \<in> set (invoices s). \<not> (writes_invoice s i \<and> p i)" and "s1 = s"
      using u Inl False by (auto simp: update_invoice_def stmt_def Let_def pg_errors find_None_iff
        split: if_splits option.splits)
    moreover have "update_rows (\<lambda>i. writes_invoice s i \<and> p i) g (invoices s) = invoices s" for g
      using none by (auto simp: update_rows_def intro!: map_idI)
    ultimately have "updated_db p f s = s" by (simp add: updated_db_def)
    with assms u Inl \<open>e = ErrNoRows\<close> \<open>s1 = s\<close> False show ?thesis
      by (simp add: exec_def)
  qed
qed

lemma SupersedeInvoice_Inr:
  assumes "SupersedeInvoice i j s = (Inr u, s')" and "scope s = ScopeOrg oid"
  shows "\<not> aborted s \<and> s' = s\<lparr>invoices := map (\<lambda>r. if inv_org_id r = oid \<and> inv_id r = i
    then superseding j (clock s) r else r) (invoices s)\<rparr>"
  using exec_update_invoice [OF assms(1) [unfolded SupersedeInvoice_def]] assms(2)
  by (auto simp: updated_db_def update_rows_def writes_invoice_def own_def stamped_def superseding_def)

text \<open>The relation that only what sales and customers say of the buyer may change.\<close>

definition only_buyers :: "tables \<Rightarrow> tables \<Rightarrow> bool" where
  "only_buyers t u \<longleftrightarrow> (\<exists>x y. u = t\<lparr>sales := x, customers := y\<rparr>)"

interpretation only_buyers: table_frame only_buyers
proof
  show "only_buyers t t" for t
    unfolding only_buyers_def by (rule exI [of _ "sales t"], rule exI [of _ "customers t"]) simp
qed (fastforce simp: only_buyers_def)

lemma update_sale_buyer_effect: "keeps S only_buyers (update_sale_buyer orig name enc h)"
proof -
  have "keeps S only_buyers (set_sale_buyer_name a b)" for a b
    unfolding set_sale_buyer_name_def
    by (rule only_buyers.keeps_update) (force simp: only_buyers_def tbl_def)
  moreover have "keeps S only_buyers (set_customer_pin a b c d)" for a b c d
    unfolding set_customer_pin_def Let_def
    by (rule only_buyers.keeps_stmt) (force simp: only_buyers_def tbl_def split: if_splits)
  ultimately show ?thesis
    unfolding update_sale_buyer_def GetSale_def by (intro only_buyers.keeps_intros)
qed

lemma readonly_buyer_keys: "readonly (buyer_keys k pin)"
  unfolding buyer_keys_def by (intro readonly_intros readonly_EncryptString)

lemma create_with_code_row:
  assumes "create_with_code p s = (Inr iv, s')" and "\<not> aborted s"
  shows "\<exists>code. valid_receipt_code code \<and> iv = new_invoice (next_id s) (clock s) (p code) \<and>
    s' = s\<lparr>next_id := Suc (next_id s), invoices := invoices s @ [iv], reads := Suc (reads s)\<rparr>"
  using assms by (rule create_with_code_Inr) blast

text \<open>A credit note that cancels an invoice, cent for cent, in \<open>int64\<close> arithmetic.\<close>

definition cancels :: "Invoice \<Rightarrow> Invoice \<Rightarrow> bool" where
  "cancels cn orig \<longleftrightarrow> inv_kind cn = ''CREDIT_NOTE'' \<and> inv_parent_id cn = Some (inv_id orig) \<and>
     inv_sale_id cn = inv_sale_id orig \<and> inv_org_id cn = inv_org_id orig \<and>
     wrap64 (inv_subtotal_cents cn + inv_subtotal_cents orig) = 0 \<and>
     wrap64 (inv_tax_cents cn + inv_tax_cents orig) = 0 \<and>
     wrap64 (inv_total_cents cn + inv_total_cents orig) = 0"

lemma wrap64_0 [simp]: "wrap64 0 = 0"
  by (simp add: in_int64_def)

definition opt_list :: "'a option \<Rightarrow> 'a list" where
  "opt_list x = (case x of None \<Rightarrow> [] | Some y \<Rightarrow> [y])"

lemma opt_list_simps [simp]: "opt_list None = []" "opt_list (Some x) = [x]"
  by (simp_all add: opt_list_def)

lemma reissue_note_Inr:
  assumes run: "reissue_note oid st now orig s = (Inr cn, s')" and na: "\<not> aborted s"
    and own: "inv_org_id orig = oid"
  shows "\<exists>m. s' = s\<lparr>next_id := next_id s + length (opt_list cn), invoices := invoices s @ opt_list cn,
      jobs := jobs s @ (if st = StateQueued then map (submit_job oid) (opt_list cn) else []), reads := m\<rparr>"
    and "inv_state orig \<noteq> StateAcked \<Longrightarrow> cn = None"
    and "inv_state orig = StateAcked \<Longrightarrow> \<exists>c. cn = Some c \<and> cancels c orig \<and> inv_id c = next_id s \<and>
      inv_state c = st \<and> inv_superseded_by c = None"
proof -
  have "(\<exists>m. s' = s\<lparr>next_id := next_id s + length (opt_list cn), invoices := invoices s @ opt_list cn,
      jobs := jobs s @ (if st = StateQueued then map (submit_job oid) (opt_list cn) else []), reads := m\<rparr>) \<and>
    (if inv_state orig = StateAcked then \<exists>c. cn = Some c \<and> cancels c orig \<and> inv_id c = next_id s \<and>
      inv_state c = st \<and> inv_superseded_by c = None else cn = None)"
  proof (cases "inv_state orig = StateAcked")
    case False
    with run show ?thesis by (auto simp: reissue_note_def intro!: exI [of _ "reads s"])
  next
    case True
    with run obtain c s1 where c: "create_with_code (reversing_note oid st now orig) s = (Inr c, s1)"
      and e: "(if st = StateQueued then EnqueueTx (SubmitInvoiceArgs oid (inv_id c)) else ret ()) s1 = (Inr (), s')"
      and cn: "cn = Some c"
      by (auto simp: reissue_note_def tbind_Inr_iff)
    from create_with_code_row [OF c na] obtain code where
        cv: "c = new_invoice (next_id s) (clock s) (reversing_note oid st now orig code)"
      and s1: "s1 = s\<lparr>next_id := Suc (next_id s), invoices := invoices s @ [c], reads := Suc (reads s)\<rparr>"
      by blast
    have "cancels c orig \<and> inv_id c = next_id s \<and> inv_state c = st \<and> inv_superseded_by c = None"
      using own unfolding cv cancels_def by (simp add: new_invoice_def reversing_note_def)
    moreover have "s' = s\<lparr>next_id := Suc (next_id s), invoices := invoices s @ [c],
        jobs := jobs s @ (if st = StateQueued then [submit_job oid c] else []), reads := Suc (reads s)\<rparr>"
      using e by (auto simp: s1 EnqueueTx_Inr submit_job_def split: if_splits)
    ultimately show ?thesis using True cn by auto
  qed
  then show "\<exists>m. s' = s\<lparr>next_id := next_id s + length (opt_list cn), invoices := invoices s @ opt_list cn,
      jobs := jobs s @ (if st = StateQueued then map (submit_job oid) (opt_list cn) else []), reads := m\<rparr>"
    and "inv_state orig \<noteq> StateAcked \<Longrightarrow> cn = None"
    and "inv_state orig = StateAcked \<Longrightarrow> \<exists>c. cn = Some c \<and> cancels c orig \<and> inv_id c = next_id s \<and>
      inv_state c = st \<and> inv_superseded_by c = None"
    by (auto split: if_splits)
qed

text \<open>The rows after a re-issue: the corrected documents point to the new one.\<close>

definition relinked :: "uuid \<Rightarrow> time \<Rightarrow> uuid list \<Rightarrow> Invoice list \<Rightarrow> Invoice list" where
  "relinked j now ids rows = map (\<lambda>r. if inv_id r \<in> set ids then superseding j now r else r) rows"

definition reissue_effect ::
    "Keyring \<Rightarrow> ReissueInput \<Rightarrow> Org \<Rightarrow> uuid \<Rightarrow> db \<Rightarrow> Invoice \<Rightarrow> Invoice list \<Rightarrow> Invoice \<Rightarrow> db \<Rightarrow> bool" where
  "reissue_effect k ri oo oid s orig notes new s' \<longleftrightarrow>
     inv_kind orig = ''INVOICE'' \<and> inv_kind new = ''INVOICE'' \<and> amounts new = amounts orig \<and>
     inv_id new = next_id s + length notes \<and> (\<forall>c \<in> set notes. inv_id c = next_id s) \<and>
     inv_org_id new = oid \<and> inv_sale_id new = inv_sale_id orig \<and>
     inv_payment_id new = inv_payment_id orig \<and>
     inv_buyer_name new = (if ri_BuyerName ri = [] then inv_buyer_name orig else ri_BuyerName ri) \<and>
     inv_buyer_pin_hash new = Hash k (NormalisePIN (ri_BuyerPIN ri)) \<and>
     inv_state new = initial_state oo \<and> inv_superseded_by new = None \<and>
     (if inv_state orig = StateAcked then \<exists>cn. notes = [cn] \<and> cancels cn orig \<and> inv_state cn = initial_state oo
      else notes = []) \<and>
     inv_parent_id new = Some (inv_id (last (orig # notes))) \<and>
     invoices s' = relinked (inv_id new) (clock s) (map inv_id (orig # notes)) (invoices s @ notes) @ [new] \<and>
     jobs s' = jobs s @ (if initial_state oo = StateQueued then map (submit_job oid) (notes @ [new]) else []) @
       [(SendReceiptArgs oid (inv_id new) ''receipt_updated'', None)] \<and>
     payments s' = payments s"

lemma buyer_keys_Inr:
  "buyer_keys k pin s = (Inr (enc, h), s') \<Longrightarrow> h = Hash k pin \<and> (\<exists>n. s' = s\<lparr>reads := n\<rparr>)"
  using readonlyD [OF readonly_buyer_keys, of k pin s "Inr (enc, h)" s']
  by (auto simp: buyer_keys_def Hash_def tbind_Inr_iff split: if_splits)

lemma ignore_EnqueueTx:
  "ignore (EnqueueTx a) s = (Inr u, s') \<Longrightarrow> \<not> aborted s' \<Longrightarrow> s' = s\<lparr>jobs := jobs s @ [(a, None)]\<rparr>"
  by (cases "aborted s") (auto simp: ignore_def attempt_def EnqueueTx_def update_apply tbind_def in_failed_tx_def)

definition reissued ::
    "uuid \<Rightarrow> State \<Rightarrow> time \<Rightarrow> Invoice \<Rightarrow> Invoice option \<Rightarrow> string \<Rightarrow> bytes \<Rightarrow> bytes \<Rightarrow> string \<Rightarrow> CreateInvoiceParams" where
  "reissued oid st now orig cn buyerName enc h code =
     \<lparr>iv_OrgID = oid, iv_SaleID = inv_sale_id orig, iv_PaymentID = inv_payment_id orig,
        iv_Kind = ''INVOICE'',
        iv_ParentInvoiceID = Some (case cn of None \<Rightarrow> inv_id orig | Some c \<Rightarrow> inv_id c),
        iv_State = st, iv_BuyerPinEnc = enc, iv_BuyerPinHash = h, iv_BuyerName = buyerName,
        iv_ReceiptCode = code, iv_SubtotalCents = inv_subtotal_cents orig,
        iv_TaxCents = inv_tax_cents orig, iv_TotalCents = inv_total_cents orig,
        iv_IssuedAt = now\<rparr>"

lemma reissue_tx_steps:
  assumes run: "reissue_tx k now oid iid pin ri s = (Inr newInv, s')" and sc: "scope s = ScopeOrg oid"
  obtains orig oo enc h n cn s2 s3 s4 s5 s6 s7 s8 where
    "chain_end s oid orig" "inv_kind orig = ''INVOICE''" "row_by org_id oid (orgs s) = Some oo"
    "\<not> aborted s" "h = Hash k pin"
    "reissue_note oid (initial_state oo) now orig (s\<lparr>reads := n\<rparr>) = (Inr cn, s2)"
    "create_with_code (reissued oid (initial_state oo) now orig cn
       (if ri_BuyerName ri = [] then inv_buyer_name orig else ri_BuyerName ri) enc h) s2 = (Inr newInv, s3)"
    "SupersedeInvoice (inv_id orig) (inv_id newInv) s3 = (Inr (), s4)"
    "(case cn of None \<Rightarrow> ret () | Some c \<Rightarrow> SupersedeInvoice (inv_id c) (inv_id newInv)) s4 = (Inr (), s5)"
    "update_sale_buyer orig (if ri_BuyerName ri = [] then inv_buyer_name orig else ri_BuyerName ri) enc h s5 = (Inr (), s6)"
    "(if initial_state oo = StateQueued then EnqueueTx (SubmitInvoiceArgs oid (inv_id newInv)) else ret ()) s6 = (Inr (), s7)"
    "ignore (EnqueueTx (SendReceiptArgs oid (inv_id newInv) ''receipt_updated'')) s7 = (Inr (), s8)"
    "AppendAudit oid (if ri_ActorType ri = [] then ''system'' else ri_ActorType ri)
       (ri_ActorID ri) ''invoice.reissued'' ''invoice'' (inv_id newInv) NoAfter s8 = (Inr (), s')"
proof -
  from run obtain first s0 where g: "GetInvoice iid s = (Inr first, s0)"
    by (auto simp: reissue_tx_def tbind_Inr_iff)
  note first = GetInvoice_own [OF g sc]
  from run g first obtain orig s1 where a: "active_from (Suc (length (invoices s))) first s = (Inr orig, s1)"
    by (auto simp: reissue_tx_def tbind_Inr_iff active_invoice_def)
  have na: "\<not> aborted s" using first by simp
  from active_from_Inr [OF a sc na] first have e: "s1 = s" "chain_end s oid orig" by auto
  then have act: "active_invoice first s = (Inr orig, s)" using a by (simp add: active_invoice_def)
  have kind: "inv_kind orig = ''INVOICE''"
    using run g first act by (auto simp: reissue_tx_def split: if_splits)
  with run g first act obtain oo where oo: "row_by org_id oid (orgs s) = Some oo"
    by (auto simp: reissue_tx_def tbind_Inr_iff GetOrg_Inr)
  have go: "GetOrg oid s = (Inr oo, s)" using oo na by (simp add: GetOrg_Inr)
  from run g first act kind go obtain enc h s1 where bk: "buyer_keys k pin s = (Inr (enc, h), s1)"
    by (auto simp: reissue_tx_def tbind_Inr_iff)
  from buyer_keys_Inr [OF bk] obtain n where h: "h = Hash k pin" and s1: "s1 = s\<lparr>reads := n\<rparr>" by blast
  have bk': "buyer_keys k pin s = (Inr (enc, h), s\<lparr>reads := n\<rparr>)" using bk s1 by simp
  show thesis
    using run g first act kind go bk' that [OF e(2) kind oo na h, of n]
    unfolding reissue_tx_def reissued_def
    by (simp add: Let_def del: ret_apply) (simp add: tbind_Inr_iff, blast)
qed

text \<open>Both links at once: the original and, when there is one, the reversing note.\<close>

lemma superseded_rows:
  assumes w: "wf (tbl s)" and orig: "orig \<in> set (invoices s)" "inv_org_id orig = oid"
    and rows: "invoices s3 = (invoices s @ notes) @ [new]" and sc: "scope s3 = ScopeOrg oid"
    and nts: "notes = opt_list cn" "\<And>c. cn = Some c \<Longrightarrow> inv_id c = next_id s \<and> inv_org_id c = oid"
    and new: "inv_id new = next_id s + length notes"
    and s4: "SupersedeInvoice (inv_id orig) (inv_id new) s3 = (Inr (), s4)"
    and s5: "(case cn of None \<Rightarrow> ret () | Some c \<Rightarrow> SupersedeInvoice (inv_id c) (inv_id new)) s4 = (Inr (), s5)"
  shows "s5 = s3\<lparr>invoices :=
    relinked (inv_id new) (clock s3) (map inv_id (orig # notes)) (invoices s @ notes) @ [new]\<rparr>"
proof -
  let ?f = "\<lambda>i r. if inv_org_id r = oid \<and> inv_id r = i then superseding (inv_id new) (clock s3) r else r"
  have e4: "s4 = s3\<lparr>invoices := map (?f (inv_id orig)) (invoices s3)\<rparr>"
    using SupersedeInvoice_Inr [OF s4 sc] by blast
  have org: "inv_org_id r = oid" if "r \<in> set (invoices s)" "inv_id r = inv_id orig" for r
    using wf_same_id [OF w that(1) orig(1) that(2)] orig(2) by simp
  have lt: "inv_id orig < next_id s" using wf_fresh_id [OF w orig(1)] .
  have ne: "inv_id r \<noteq> next_id s" if "r \<in> set (invoices s)" for r
    using wf_fresh_id [OF w that] by simp
  show ?thesis
  proof (cases cn)
    case None
    then have "s5 = s4" using s5 by simp
    moreover have "map (?f (inv_id orig)) (invoices s3) =
        relinked (inv_id new) (clock s3) [inv_id orig] (invoices s) @ [new]"
      using rows nts None new lt org by (auto simp: relinked_def)
    ultimately show ?thesis using e4 nts None by simp
  next
    case (Some c)
    note c = nts(2) [OF Some]
    have "scope s4 = ScopeOrg oid" using e4 sc by simp
    from SupersedeInvoice_Inr [OF _ this, of "inv_id c" "inv_id new"] s5 Some
    have "s5 = s4\<lparr>invoices := map (?f (inv_id c)) (invoices s4)\<rparr>" using e4 by simp
    moreover have "map (?f (inv_id c)) (invoices s4) =
        relinked (inv_id new) (clock s3) [inv_id orig, inv_id c] (invoices s @ [c]) @ [new]"
      using rows nts(1) Some new lt org c ne by (auto simp: relinked_def e4 superseding_def)
    ultimately show ?thesis using e4 nts(1) Some by simp
  qed
qed

lemma reissue_tx_effect:
  assumes run: "reissue_tx k now oid iid (NormalisePIN (ri_BuyerPIN ri)) ri s = (Inr newInv, s')"
    and sc: "scope s = ScopeOrg oid" and w: "wf (tbl s)"
  shows "\<exists>orig oo notes. chain_end s oid orig \<and> row_by org_id oid (orgs s) = Some oo \<and>
    reissue_effect k ri oo oid s orig notes newInv s'"
  using run sc
proof (rule reissue_tx_steps)
  fix orig :: Invoice and oo :: Org and enc h n and cn :: "Invoice option" and s2 s3 s4 s5 s6 s7 s8
  let ?st = "initial_state oo" and ?name = "if ri_BuyerName ri = [] then inv_buyer_name orig else ri_BuyerName ri"
  let ?notes = "opt_list cn"
  assume ce: "chain_end s oid orig" and kind: "inv_kind orig = ''INVOICE''"
    and oo: "row_by org_id oid (orgs s) = Some oo" and na: "\<not> aborted s"
    and h: "h = Hash k (NormalisePIN (ri_BuyerPIN ri))"
    and nt: "reissue_note oid ?st now orig (s\<lparr>reads := n\<rparr>) = (Inr cn, s2)"
    and new: "create_with_code (reissued oid ?st now orig cn ?name enc h) s2 = (Inr newInv, s3)"
    and s4: "SupersedeInvoice (inv_id orig) (inv_id newInv) s3 = (Inr (), s4)"
    and s5: "(case cn of None \<Rightarrow> ret () | Some c \<Rightarrow> SupersedeInvoice (inv_id c) (inv_id newInv)) s4 = (Inr (), s5)"
    and s6: "update_sale_buyer orig ?name enc h s5 = (Inr (), s6)"
    and s7: "(if ?st = StateQueued then EnqueueTx (SubmitInvoiceArgs oid (inv_id newInv)) else ret ()) s6 = (Inr (), s7)"
    and s8: "ignore (EnqueueTx (SendReceiptArgs oid (inv_id newInv) ''receipt_updated'')) s7 = (Inr (), s8)"
    and au: "AppendAudit oid (if ri_ActorType ri = [] then ''system'' else ri_ActorType ri)
       (ri_ActorID ri) ''invoice.reissued'' ''invoice'' (inv_id newInv) NoAfter s8 = (Inr (), s')"
  have orig: "orig \<in> set (invoices s)" "inv_org_id orig = oid" using ce by (auto simp: chain_end_def)
  have na0: "\<not> aborted (s\<lparr>reads := n\<rparr>)" using na by simp
  note rn = reissue_note_Inr [OF nt na0 orig(2), simplified]
  from rn(1) obtain m where s2: "s2 = s\<lparr>next_id := next_id s + length ?notes, invoices := invoices s @ ?notes,
      jobs := jobs s @ (if ?st = StateQueued then map (submit_job oid) ?notes else []), reads := m\<rparr>" by auto
  have na2: "\<not> aborted s2" using s2 na by simp
  from create_with_code_row [OF new na2] obtain code where
      nv: "newInv = new_invoice (next_id s2) (clock s2) (reissued oid ?st now orig cn ?name enc h code)"
    and s3: "s3 = s2\<lparr>next_id := Suc (next_id s2), invoices := invoices s2 @ [newInv], reads := Suc (reads s2)\<rparr>"
    by blast
  have cnid: "inv_id c = next_id s \<and> inv_org_id c = oid" if "cn = Some c" for c
    using rn(2,3) that orig(2) by (cases "inv_state orig = StateAcked") (auto simp: cancels_def)
  have nid: "inv_id newInv = next_id s + length ?notes" using nv s2 by (simp add: new_invoice_def)
  have r3: "invoices s3 = (invoices s @ ?notes) @ [newInv]" and c3: "clock s3 = clock s"
    and sc3: "scope s3 = ScopeOrg oid" using s3 s2 sc by simp_all
  have e5: "s5 = s3\<lparr>invoices :=
      relinked (inv_id newInv) (clock s) (map inv_id (orig # ?notes)) (invoices s @ ?notes) @ [newInv]\<rparr>"
    using superseded_rows [OF w orig r3 sc3 refl cnid nid s4 s5] c3 by simp
  from keepsD [OF update_sale_buyer_effect [of UNIV] UNIV_I s6]
  obtain x y where t6: "tbl s6 = (tbl s5)\<lparr>sales := x, customers := y\<rparr>" by (auto simp: only_buyers_def)
  have f6: "invoices s6 = invoices s5" "jobs s6 = jobs s5" "payments s6 = payments s5"
    using arg_cong [OF t6, of invoices] arg_cong [OF t6, of jobs] arg_cong [OF t6, of payments] by simp_all
  have f7: "invoices s7 = invoices s6" "payments s7 = payments s6"
      "jobs s7 = jobs s6 @ (if ?st = StateQueued then [submit_job oid newInv] else [])"
    using s7 by (auto simp: EnqueueTx_Inr submit_job_def split: if_splits)
  have s': "\<not> aborted s8" "invoices s' = invoices s8" "jobs s' = jobs s8" "payments s' = payments s8"
    using au by (auto simp: AppendAudit_Inr)
  have f8: "s8 = s7\<lparr>jobs := jobs s7 @ [(SendReceiptArgs oid (inv_id newInv) ''receipt_updated'', None)]\<rparr>"
    using ignore_EnqueueTx [OF s8 s'(1)] .
  have nts: "if inv_state orig = StateAcked then \<exists>c. ?notes = [c] \<and> cancels c orig \<and> inv_state c = ?st
      else ?notes = []" using rn(2,3) by auto
  have "reissue_effect k ri oo oid s orig ?notes newInv s'"
    unfolding reissue_effect_def
  proof (intro conjI)
    show "\<forall>c \<in> set ?notes. inv_id c = next_id s" using cnid by (cases cn) auto
    show "inv_id newInv = next_id s + length ?notes" by (rule nid)
    show "inv_parent_id newInv = Some (inv_id (last (orig # ?notes)))"
      by (cases cn) (simp_all add: nv new_invoice_def reissued_def)
  qed (use kind h nts s' f6 f7 f8 e5 s3 s2 in
      \<open>auto simp: nv new_invoice_def reissued_def amounts_def\<close>)
  with ce oo show ?thesis by blast
qed

lemma ReissueInvoice_Inr:
  assumes w: "wf (tbl s)" and run: "ReissueInvoice k now oid iid ri s = (Inr new, s')"
  shows "\<exists>orig oo notes. chain_end s oid orig \<and> row_by org_id oid (orgs s) = Some oo \<and>
      reissue_effect k ri oo oid s orig notes new s'"
proof -
  let ?s = "s\<lparr>scope := ScopeOrg oid, aborted := False\<rparr>"
  from run obtain s1 where tx: "reissue_tx k now oid iid (NormalisePIN (ri_BuyerPIN ri)) ri ?s = (Inr new, s1)"
    and s': "s' = s1\<lparr>scope := scope s, aborted := aborted s\<rparr>"
    by (auto simp: ReissueInvoice_def Let_def scope_defs scoped_Inr_iff split: if_splits)
  have "scope ?s = ScopeOrg oid" "wf (tbl ?s)" using w by simp_all
  from reissue_tx_effect [OF tx this] s' show ?thesis
    by (auto simp: chain_end_def reissue_effect_def)
qed

text \<open>
  C14. Correcting an invoice. A PIN of the wrong form is refused and nothing changes. When a
  re-issue succeeds, the document it corrects is the end of the chain (an INVOICE of the
  organisation without a readable successor); an ACKED original is first cancelled by a
  credit note with exactly negated amounts, any other original is not; the new invoice has
  the original's amounts, sale and payment and the new buyer's name and PIN; the original
  and the note point to it, every other invoice is unchanged; submissions are enqueued for
  the note and the new invoice exactly when eTIMS is configured, and the buyer's receipt is
  sent again.
\<close>

theorem reissue_correct:
  assumes "wf (tbl s)"
  shows "(NormalisePIN (ri_BuyerPIN ri) \<noteq> [] \<and> \<not> PINRe (NormalisePIN (ri_BuyerPIN ri)) \<longrightarrow>
      ReissueInvoice k now oid iid ri s = (Inl ErrInvalidPIN, s)) \<and>
    (\<forall>new s'. ReissueInvoice k now oid iid ri s = (Inr new, s') \<longrightarrow>
      (\<exists>orig oo notes. chain_end s oid orig \<and> row_by org_id oid (orgs s) = Some oo \<and>
        reissue_effect k ri oo oid s orig notes new s'))"
  using ReissueInvoice_Inr [OF assms] by (auto simp: ReissueInvoice_def Let_def)

definition acked_invoice :: Invoice where
  "acked_invoice = (new_invoice 5 0 \<lparr>iv_OrgID = 1, iv_SaleID = 4, iv_PaymentID = None,
     iv_Kind = ''INVOICE'', iv_ParentInvoiceID = None, iv_State = StateAcked, iv_BuyerPinEnc = [],
     iv_BuyerPinHash = [], iv_BuyerName = ''Asha'', iv_ReceiptCode = ''ABCDEF'', iv_SubtotalCents = 10000,
     iv_TaxCents = 1600, iv_TotalCents = 11600, iv_IssuedAt = 0\<rparr>)\<lparr>inv_kra_invoice_no := Some ''KRA-1''\<rparr>"

definition acked_db :: db where
  "acked_db = sold_db\<lparr>scope := ScopeNone, invoices := [acked_invoice]\<rparr>"

definition new_buyer :: ReissueInput where
  "new_buyer = \<lparr>ri_BuyerPIN = ''P051234567X'', ri_BuyerName = ''Juma'', ri_ActorType = [], ri_ActorID = None\<rparr>"

lemma wf_acked: "wf (tbl acked_db)"
  by (simp add: wf_defs keyed_def acked_db_def sold_db_def shop_db_def empty_db_def acked_invoice_def
    new_invoice_def state_valid_iff)

theorem reissue_correct_witness:
  "\<exists>new s'. ReissueInvoice plain_keyring 9 1 5 new_buyer acked_db = (Inr new, s') \<and>
     amounts new = (10000, 1600, 11600) \<and> map inv_kind (invoices s') = [''INVOICE'', ''CREDIT_NOTE'', ''INVOICE''] \<and>
     map inv_superseded_by (invoices s') = [Some (inv_id new), Some (inv_id new), None]"
proof -
  let ?r = "ReissueInvoice plain_keyring 9 1 5 new_buyer acked_db"
  have "map_sum id inv_kind (fst ?r) = Inr ''INVOICE''" by code_simp
  then obtain new s' where run: "?r = (Inr new, s')" by (cases ?r; cases "fst ?r") auto
  have iv: "invoices acked_db = [acked_invoice]" by (simp add: acked_db_def)
  obtain orig oo ns where ce: "chain_end acked_db 1 orig"
      and eff: "reissue_effect plain_keyring new_buyer oo 1 acked_db orig ns new s'"
    using reissue_correct [OF wf_acked] run by blast
  have orig: "orig = acked_invoice" using ce iv by (simp add: chain_end_def)
  then have st: "inv_state orig = StateAcked" by (simp add: acked_invoice_def new_invoice_def)
  then obtain cn where cn: "ns = [cn]" "cancels cn orig" using eff by (auto simp: reissue_effect_def)
  show ?thesis
    using run eff cn unfolding reissue_effect_def orig iv
    by (auto simp: relinked_def superseding_def cancels_def acked_invoice_def new_invoice_def amounts_def)
qed

subsection \<open>Credit notes on request\<close>

lemma no_existing_note_Inr:
  "no_existing_note orig s = (Inr u, s') \<Longrightarrow> scope s = ScopeOrg oid \<Longrightarrow>
    s' = s \<and> (\<forall>r \<in> set (invoices s). inv_org_id r = oid \<longrightarrow> inv_kind r = ''CREDIT_NOTE'' \<longrightarrow>
      inv_parent_id r \<noteq> Some (inv_id orig))"
  by (auto simp: no_existing_note_def FindCreditNoteForParent_def query_one_apply attempt_def tbind_def
    sees_invoice_def own_def find_None_iff in_failed_tx_def errors_is_def
    split: if_splits option.splits)

lemma cancelling_note_cancels:
  assumes "0 \<le> inv_subtotal_cents orig" "0 \<le> inv_tax_cents orig" "0 \<le> inv_total_cents orig"
    and "inv_org_id orig = oid"
  shows "cancels (new_invoice i t (cancelling_note oid st now orig code)) orig"
  using assms by (simp add: cancels_def new_invoice_def cancelling_note_def abs64_def)

definition reversed_payment :: "uuid option \<Rightarrow> uuid \<Rightarrow> time \<Rightarrow> Payment \<Rightarrow> Payment" where
  "reversed_payment pid oid now r = (if pid = Some (pay_id r) \<and> pay_org_id r = oid
     then r\<lparr>pay_status := ''reversed'', pay_reversed_at := Some now\<rparr> else r)"

lemma mark_reversed_Inr:
  assumes "(case pid of None \<Rightarrow> ret () | Some p \<Rightarrow> ignore (MarkPaymentReversed p)) s = (Inr u, s')"
    and "scope s = ScopeOrg oid" and "\<not> aborted s"
  shows "s' = s\<lparr>payments := map (reversed_payment pid oid (clock s)) (payments s)\<rparr>"
proof (cases pid)
  case None
  have "map (reversed_payment None oid (clock s)) (payments s) = payments s"
    by (simp add: reversed_payment_def map_idI)
  with assms None show ?thesis by simp
next
  case (Some p)
  with assms show ?thesis
    by (auto simp: MarkPaymentReversed_def update_apply ignore_def attempt_def tbind_def update_rows_def
      reversed_payment_def own_def)
qed

definition credit_effect ::
    "Org \<Rightarrow> uuid \<Rightarrow> db \<Rightarrow> Invoice \<Rightarrow> Invoice \<Rightarrow> db \<Rightarrow> bool" where
  "credit_effect oo oid s orig cn s' \<longleftrightarrow>
     inv_kind orig = ''INVOICE'' \<and> inv_superseded_by orig = None \<and>
     (\<forall>r \<in> set (invoices s). inv_org_id r = oid \<longrightarrow> inv_kind r = ''CREDIT_NOTE'' \<longrightarrow>
       inv_parent_id r \<noteq> Some (inv_id orig)) \<and>
     inv_kind cn = ''CREDIT_NOTE'' \<and> inv_parent_id cn = Some (inv_id orig) \<and>
     inv_state cn = initial_state oo \<and> inv_id cn = next_id s \<and> inv_superseded_by cn = None \<and>
     (0 \<le> inv_subtotal_cents orig \<and> 0 \<le> inv_tax_cents orig \<and> 0 \<le> inv_total_cents orig \<longrightarrow> cancels cn orig) \<and>
     invoices s' = relinked (inv_id cn) (clock s) [inv_id orig] (invoices s) @ [cn] \<and>
     payments s' = map (reversed_payment (inv_payment_id orig) oid (clock s)) (payments s) \<and>
     jobs s' = jobs s @ (if initial_state oo = StateQueued then [submit_job oid cn] else []) @
       [(SendReceiptArgs oid (inv_id cn) ''credit_note'', None)]"

lemma credit_note_tx_effect:
  assumes run: "credit_note_tx now oid iid reason at' ai s = (Inr cn, s')"
    and sc: "scope s = ScopeOrg oid" and w: "wf (tbl s)"
  shows "\<exists>orig oo. orig \<in> set (invoices s) \<and> inv_id orig = iid \<and> inv_org_id orig = oid \<and>
    row_by org_id oid (orgs s) = Some oo \<and> credit_effect oo oid s orig cn s'"
proof -
  from run obtain orig s0 where g: "GetInvoice iid s = (Inr orig, s0)"
    by (auto simp: credit_note_tx_def tbind_Inr_iff)
  note orig = GetInvoice_own [OF g sc]
  have kind: "inv_kind orig = ''INVOICE''" "inv_superseded_by orig = None"
    using run g orig by (auto simp: credit_note_tx_def split: if_splits)
  from run g orig kind obtain s1 where ne: "no_existing_note orig s = (Inr (), s1)"
    by (auto simp: credit_note_tx_def tbind_Inr_iff)
  note none = no_existing_note_Inr [OF ne sc]
  from run g orig kind ne none obtain oo where oo: "row_by org_id oid (orgs s) = Some oo"
    by (auto simp: credit_note_tx_def tbind_Inr_iff GetOrg_Inr)
  have go: "GetOrg oid s = (Inr oo, s)" using oo orig by (simp add: GetOrg_Inr)
  let ?st = "initial_state oo"
  from run g orig kind ne none go obtain s2 s3 s4 s5 s6 s7 where
      c: "create_with_code (cancelling_note oid ?st now orig) s = (Inr cn, s2)"
    and s3: "SupersedeInvoice (inv_id orig) (inv_id cn) s2 = (Inr (), s3)"
    and s4: "(case inv_payment_id orig of None \<Rightarrow> ret () | Some p \<Rightarrow> ignore (MarkPaymentReversed p)) s3 = (Inr (), s4)"
    and au: "AppendAudit oid (if at' = [] then ''user'' else at') ai ''invoice.credit_noted'' ''invoice'' (inv_id cn)
       (CreditAfter (if reason = [] then ''Merchant Cancellation / Return'' else reason) (inv_id orig)) s4 = (Inr (), s5)"
    and s6: "(if ?st = StateQueued then EnqueueTx (SubmitInvoiceArgs oid (inv_id cn)) else ret ()) s5 = (Inr (), s6)"
    and s7: "ignore (EnqueueTx (SendReceiptArgs oid (inv_id cn) ''credit_note'')) s6 = (Inr (), s')"
    unfolding credit_note_tx_def by (auto simp: Let_def tbind_Inr_iff)
  have na: "\<not> aborted s" using orig by simp
  from create_with_code_row [OF c na] obtain code where
      cv: "cn = new_invoice (next_id s) (clock s) (cancelling_note oid ?st now orig code)"
    and e2: "s2 = s\<lparr>next_id := Suc (next_id s), invoices := invoices s @ [cn], reads := Suc (reads s)\<rparr>" by blast
  have "scope s2 = ScopeOrg oid" using e2 sc by simp
  from SupersedeInvoice_Inr [OF s3 this] have e3: "s3 = s2\<lparr>invoices := map (\<lambda>r. if inv_org_id r = oid \<and>
      inv_id r = inv_id orig then superseding (inv_id cn) (clock s2) r else r) (invoices s2)\<rparr>" by blast
  have "scope s3 = ScopeOrg oid" "\<not> aborted s3" using e3 e2 sc na by simp_all
  from mark_reversed_Inr [OF s4 this]
  have e4: "s4 = s3\<lparr>payments := map (reversed_payment (inv_payment_id orig) oid (clock s3)) (payments s3)\<rparr>" .
  have e5: "\<not> aborted s5" "invoices s5 = invoices s4" "jobs s5 = jobs s4" "payments s5 = payments s4"
    using au by (auto simp: AppendAudit_Inr)
  have e6: "\<not> aborted s6" "invoices s6 = invoices s5" "payments s6 = payments s5"
      "jobs s6 = jobs s5 @ (if ?st = StateQueued then [submit_job oid cn] else [])"
    using s6 e5(1) by (auto simp: EnqueueTx_Inr submit_job_def split: if_splits)
  have "\<not> aborted s'" using s7 e6(1) by (auto simp: ignore_def attempt_def EnqueueTx_def update_apply tbind_def)
  from ignore_EnqueueTx [OF s7 this]
  have e7: "s' = s6\<lparr>jobs := jobs s6 @ [(SendReceiptArgs oid (inv_id cn) ''credit_note'', None)]\<rparr>" .
  have cid: "inv_id cn = next_id s" using cv by (simp add: new_invoice_def)
  have mem: "orig \<in> set (invoices s)" using orig by simp
  have rows: "map (\<lambda>r. if inv_org_id r = oid \<and> inv_id r = inv_id orig
      then superseding (inv_id cn) (clock s2) r else r) (invoices s2) =
      relinked (inv_id cn) (clock s) [inv_id orig] (invoices s) @ [cn]"
    using wf_same_id [OF w _ mem] wf_fresh_id [OF w mem] orig cid by (auto simp: relinked_def e2)
  have canc: "0 \<le> inv_subtotal_cents orig \<and> 0 \<le> inv_tax_cents orig \<and> 0 \<le> inv_total_cents orig \<longrightarrow>
      cancels cn orig"
    using cancelling_note_cancels [of orig oid] orig unfolding cv by blast
  have "credit_effect oo oid s orig cn s'"
    unfolding credit_effect_def
    using kind none canc rows e7 e6 e5 e4 e3 e2
    by (simp add: cv) (simp add: new_invoice_def cancelling_note_def)
  with orig oo show ?thesis by blast
qed

text \<open>A credit note that was issued leaves its invoice superseded.\<close>

lemma credit_effect_superseded:
  assumes eff: "credit_effect oo oid s orig cn s'" and orig: "orig \<in> set (invoices s)" "inv_org_id orig = oid"
    and w: "wf (tbl s)"
  shows "find (\<lambda>r. inv_org_id r = oid \<and> inv_id r = inv_id orig) (invoices s') =
    Some (superseding (inv_id cn) (clock s) orig)"
proof -
  have rows: "invoices s' = relinked (inv_id cn) (clock s) [inv_id orig] (invoices s) @ [cn]"
    using eff by (simp add: credit_effect_def)
  have "find (\<lambda>r. inv_org_id r = oid \<and> inv_id r = inv_id orig) (relinked (inv_id cn) (clock s) [inv_id orig] xs @ ys) =
      Some (superseding (inv_id cn) (clock s) orig)"
    if "orig \<in> set xs" "set xs \<subseteq> set (invoices s)" for xs ys
    using that
  proof (induction xs)
    case (Cons x xs)
    have "x = orig" if "inv_id x = inv_id orig" using wf_same_id [OF w _ orig(1) that] Cons.prems by simp
    with Cons orig(2) show ?case by (auto simp: relinked_def superseding_def)
  qed simp
  with rows orig(1) show ?thesis by simp
qed

lemma CreateCreditNote_Inr:
  assumes run: "CreateCreditNoteForInvoice now oid iid reason at' ai s = (Inr cn, s')" and w: "wf (tbl s)"
  shows "\<exists>orig oo. orig \<in> set (invoices s) \<and> inv_id orig = iid \<and> inv_org_id orig = oid \<and>
      row_by org_id oid (orgs s) = Some oo \<and> credit_effect oo oid s orig cn s'"
proof -
  let ?s = "s\<lparr>scope := ScopeOrg oid, aborted := False\<rparr>"
  from run obtain s1 where tx: "credit_note_tx now oid iid reason at' ai ?s = (Inr cn, s1)"
    and s': "s' = s1\<lparr>scope := scope s, aborted := aborted s\<rparr>"
    by (auto simp: CreateCreditNoteForInvoice_def scope_defs scoped_Inr_iff)
  have "scope ?s = ScopeOrg oid" "wf (tbl ?s)" using w by simp_all
  from credit_note_tx_effect [OF tx this] s' obtain orig oo where
      orig: "orig \<in> set (invoices s)" "inv_id orig = iid" "inv_org_id orig = oid"
    and oo: "row_by org_id oid (orgs s) = Some oo" and eff: "credit_effect oo oid s orig cn s'"
    by (auto simp: credit_effect_def)
  then show ?thesis by blast
qed



end
