(* ===== verification/MockProvider.thy ===== *)
theory MockProvider
  imports Provider Formats
begin

text \<open>
  \<open>internal/fiscal/mock/mock.go\<close>: the adapter used in development and tests, and the model
  of the provider contract. Its state is the struct's fields; the context's error and the
  clock are part of it, since every call reads them. SHA-256 and the JSON text of an
  acknowledgement are arguments.
\<close>

datatype FailMode = FailNone | FailRetryable | FailTerminal

definition ParseFailMode :: "string \<Rightarrow> go_error + FailMode" where
  "ParseFailMode s =
     (if s = ''none'' then Inr FailNone else if s = ''retryable'' then Inr FailRetryable
      else if s = ''terminal'' then Inr FailTerminal else if s = [] then Inr FailNone
      else Inl (ErrorString (''mock: unknown fail mode '' @ s)))"

record MockState =
  acks :: "string \<rightharpoonup> Ack"
  failMode :: FailMode
  FailTimes :: int
  failures :: "string \<Rightarrow> int"
  mock_now :: time
  Calls :: int
  LookupErr :: "go_error option"
  ctx_err :: "go_error option"

record MockEnv =
  shortHash :: "string \<Rightarrow> string"
  ack_json :: "Ack \<Rightarrow> int \<Rightarrow> string"

definition line_error :: "nat \<Rightarrow> string \<Rightarrow> string \<Rightarrow> string \<Rightarrow> go_error" where
  "line_error i code field msg = ValidationError code msg
     (''lines['' @ digits 10 (int i) @ ''].'' @ field)"

fun check_lines :: "nat \<Rightarrow> Line list \<Rightarrow> int \<Rightarrow> go_error + int" where
  "check_lines i [] tot = Inr tot"
| "check_lines i (l # ls) tot =
     (if ItemCode l = [] then
        Inl (line_error i ''invalid_item_code'' ''item_code'' ''item classification code is required'')
      else if \<not> tax_category_valid (LineTaxCategory l) then
        Inl (line_error i ''invalid_tax_category'' ''tax_category'' ''unknown tax category'')
      else if LineTotalCents l \<le> 0 then
        Inl (line_error i ''line_total_not_positive'' ''line_total_cents'' ''line total must be positive'')
      else check_lines (Suc i) ls (wrap64 (tot + LineTotalCents l)))"

definition validateInvoice :: "FiscalInvoice \<Rightarrow> go_error option" where
  "validateInvoice d =
     (if doc_ID d = [] then
        Some (ValidationError ''invoice_id_missing'' ''invoice id is required'' ''id'')
      else if \<not> PINRe (doc_SellerPIN d) then
        Some (ValidationError ''seller_pin_invalid'' ''seller KRA PIN is malformed'' ''seller_pin'')
      else if doc_BuyerPIN d \<noteq> [] \<and> \<not> PINRe (doc_BuyerPIN d) then
        Some (ValidationError ''buyer_pin_invalid'' ''buyer KRA PIN is malformed'' ''buyer_pin'')
      else if doc_Lines d = [] then
        Some (ValidationError ''no_lines'' ''invoice needs at least one line'' ''lines'')
      else (case check_lines 0 (doc_Lines d) 0 of
          Inl e \<Rightarrow> Some e
        | Inr tot \<Rightarrow> if tot \<noteq> doc_TotalCents d then
            Some (ValidationError ''total_mismatch'' (''lines sum to '' @ itoa tot @
              '', invoice says '' @ itoa (doc_TotalCents d)) ''total_cents'')
          else None))"

definition fails_now :: "MockState \<Rightarrow> string \<Rightarrow> bool" where
  "fails_now p i \<longleftrightarrow> failMode p \<noteq> FailNone \<and> (FailTimes p = 0 \<or> failures p i < FailTimes p)"

definition mock_ack :: "MockEnv \<Rightarrow> MockState \<Rightarrow> string \<Rightarrow> string \<Rightarrow> int \<Rightarrow> Ack" where
  "mock_ack env p i pre tot =
     (let h = shortHash env i; no = pre @ to_upper (take 10 h);
          ack = \<lparr>KRAInvoiceNo = no, Signature = to_upper (take 16 (drop 10 h)),
            QRPayload = ''https://itax.kra.go.ke/KRA-Portal/invoiceChk.htm?actionCode=loadPage&invoiceNo='' @ no,
            ReceivedAt = mock_now p, Raw = []\<rparr>
      in ack\<lparr>Raw := ack_json env ack tot\<rparr>)"

definition mock_submit ::
    "MockEnv \<Rightarrow> string \<Rightarrow> string \<Rightarrow> int \<Rightarrow> MockState \<Rightarrow> ack_result \<times> MockState" where
  "mock_submit env i pre tot p =
     (case ctx_err p of Some e \<Rightarrow> ((no_ack, Some e), p)
      | None \<Rightarrow>
        let p1 = p\<lparr>Calls := Calls p + 1\<rparr> in
        (case acks p1 i of Some ack \<Rightarrow> ((ack, None), p1)
         | None \<Rightarrow>
           if fails_now p1 i then
             ((no_ack, Some (if failMode p1 = FailTerminal
                then ValidationError ''invalid_item_code'' ''injected terminal failure'' ''lines[0].item_code''
                else TransientError ''upstream_5xx'' ''injected retryable failure'')),
              p1\<lparr>failures := (failures p1)(i := failures p1 i + 1)\<rparr>)
           else let ack = mock_ack env p1 i pre tot in ((ack, None), p1\<lparr>acks := (acks p1)(i \<mapsto> ack)\<rparr>)))"

definition mock_SubmitInvoice ::
    "MockEnv \<Rightarrow> FiscalInvoice \<Rightarrow> MockState \<Rightarrow> ack_result \<times> MockState" where
  "mock_SubmitInvoice env d p = (case validateInvoice d of
     Some e \<Rightarrow> ((no_ack, Some e), p)
   | None \<Rightarrow> mock_submit env (doc_ID d) ''KRACU0100000001/'' (doc_TotalCents d) p)"

definition mock_SubmitCreditNote ::
    "MockEnv \<Rightarrow> CreditNote \<Rightarrow> MockState \<Rightarrow> ack_result \<times> MockState" where
  "mock_SubmitCreditNote env c p =
     (if cn_OriginalKRANo c = [] then ((no_ack, Some (ValidationError ''original_invoice_missing''
        ''credit note needs the original KRA invoice number'' ''original_kra_no'')), p)
      else if 0 \<le> cn_TotalCents c then ((no_ack, Some (ValidationError ''credit_note_not_negative''
        ''credit note total must be negative'' ''total_cents'')), p)
      else mock_submit env (cn_ID c) ''KRACU0100000001/CN'' (cn_TotalCents c) p)"

definition mock_LookupInvoice :: "string \<Rightarrow> MockState \<Rightarrow> ack_result \<times> MockState" where
  "mock_LookupInvoice i p =
     (case ctx_err p of Some e \<Rightarrow> ((no_ack, Some e), p)
      | None \<Rightarrow> (case LookupErr p of Some e \<Rightarrow> ((no_ack, Some e), p)
         | None \<Rightarrow> (case acks p i of Some ack \<Rightarrow> ((ack, None), p)
            | None \<Rightarrow> ((no_ack, Some ErrNotFound), p))))"

definition mock_provider :: "MockEnv \<Rightarrow> MockState Provider" where
  "mock_provider env = \<lparr>provider_Name = ''mock'', SubmitInvoice = mock_SubmitInvoice env,
     SubmitCreditNote = mock_SubmitCreditNote env, LookupInvoice = mock_LookupInvoice\<rparr>"

definition mock_New :: "FailMode \<Rightarrow> time \<Rightarrow> MockState" where
  "mock_New m t = \<lparr>acks = Map.empty, failMode = m, FailTimes = 0, failures = (\<lambda>_. 0), mock_now = t,
     Calls = 0, LookupErr = None, ctx_err = None\<rparr>"

subsection \<open>The mock honours the contract\<close>

definition mock_inv :: "MockState \<Rightarrow> bool" where
  "mock_inv p \<longleftrightarrow> (\<forall>i a. acks p i = Some a \<longrightarrow> KRAInvoiceNo a \<noteq> [])"

lemma mock_submit_ok:
  "mock_submit env i pre tot p = ((a, None), p') \<Longrightarrow> acks p' i = Some a"
  by (auto simp: mock_submit_def Let_def split: option.splits if_splits)

lemma mock_submit_stable:
  "mock_submit env i pre tot p = (r, p') \<Longrightarrow> acks p j = Some a \<Longrightarrow> acks p' j = Some a"
  by (auto simp: mock_submit_def Let_def split: option.splits if_splits)

lemma mock_submit_inv:
  assumes "mock_inv p" and "pre \<noteq> []"
  shows "mock_inv (snd (mock_submit env i pre tot p))"
  using assms
  by (auto simp: mock_inv_def mock_submit_def mock_ack_def Let_def split: option.splits if_splits)

interpretation mock: fiscal_provider "mock_provider env" acks mock_inv for env
proof
  fix p p' :: MockState and d a r i c
  show "SubmitInvoice (mock_provider env) d p = ((a, None), p') \<Longrightarrow> acks p' (doc_ID d) = Some a"
    by (auto simp: mock_provider_def mock_SubmitInvoice_def split: option.splits dest: mock_submit_ok)
  show "SubmitCreditNote (mock_provider env) c p = ((a, None), p') \<Longrightarrow> acks p' (cn_ID c) = Some a"
    by (auto simp: mock_provider_def mock_SubmitCreditNote_def split: if_splits dest: mock_submit_ok)
  show "SubmitInvoice (mock_provider env) d p = (r, p') \<Longrightarrow> acks p i = Some a \<Longrightarrow> acks p' i = Some a"
    by (auto simp: mock_provider_def mock_SubmitInvoice_def split: option.splits
      dest: mock_submit_stable)
  show "SubmitCreditNote (mock_provider env) c p = (r, p') \<Longrightarrow> acks p i = Some a \<Longrightarrow> acks p' i = Some a"
    by (auto simp: mock_provider_def mock_SubmitCreditNote_def split: if_splits
      dest: mock_submit_stable)
  show "LookupInvoice (mock_provider env) i p = (r, p') \<Longrightarrow> p' = p"
    by (auto simp: mock_provider_def mock_LookupInvoice_def split: option.splits)
  show "LookupInvoice (mock_provider env) i p = ((a, None), p') \<Longrightarrow> acks p i = Some a"
    by (auto simp: mock_provider_def mock_LookupInvoice_def split: option.splits)
  show "mock_inv p \<Longrightarrow> mock_inv (snd (SubmitInvoice (mock_provider env) d p))"
    by (auto simp: mock_provider_def mock_SubmitInvoice_def mock_submit_inv split: option.splits)
  show "mock_inv p \<Longrightarrow> mock_inv (snd (SubmitCreditNote (mock_provider env) c p))"
    by (auto simp: mock_provider_def mock_SubmitCreditNote_def mock_submit_inv)
  show "mock_inv p \<Longrightarrow> acks p i = Some a \<Longrightarrow> KRAInvoiceNo a \<noteq> []"
    by (simp add: mock_inv_def)
qed

text \<open>What the mock accepts.\<close>

lemma check_lines_Inr:
  assumes "check_lines i ls tot = Inr n"
  shows "(\<forall>l \<in> set ls. ItemCode l \<noteq> [] \<and> tax_category_valid (LineTaxCategory l) \<and> 0 < LineTotalCents l) \<and>
    wrap64 n = wrap64 (tot + sum_list (map LineTotalCents ls))"
  using assms
proof (induction ls arbitrary: i tot)
  case (Cons l ls)
  then have ok: "ItemCode l \<noteq> []" "tax_category_valid (LineTaxCategory l)" "0 < LineTotalCents l"
    and rest: "check_lines (Suc i) ls (wrap64 (tot + LineTotalCents l)) = Inr n"
    by (auto split: if_splits)
  from Cons.IH [OF rest] ok show ?case by (simp add: add.assoc)
qed simp

text \<open>
  The mock fiscal backend is idempotent: in any sequence of submissions, credit notes
  and lookups, a second accepted submission of a document id returns the first
  acknowledgement, and so does a lookup, which changes nothing.
\<close>

theorem mock_idempotent:
  assumes "mock_inv p"
    and "SubmitInvoice (mock_provider env) d p = ((a, None), p1)"
    and "fiscal_provider.calls (mock_provider env) p1 p2"
    and "doc_ID d' = doc_ID d"
  shows "(SubmitInvoice (mock_provider env) d' p2 = ((a', None), p3) \<longrightarrow> a' = a) \<and>
    (LookupInvoice (mock_provider env) (doc_ID d) p2 = ((a'', None), p4) \<longrightarrow> a'' = a \<and> p4 = p2)"
  using mock.one_ack_per_document [OF assms(1-3) _ assms(4)] mock.lookup_recovers [OF assms(1-3)]
  by blast

definition sample_env :: MockEnv where
  "sample_env = \<lparr>shortHash = (\<lambda>i. replicate 64 (CHR ''a'')), ack_json = (\<lambda>a tot. itoa tot)\<rparr>"

definition sample_doc :: FiscalInvoice where
  "sample_doc = no_doc\<lparr>doc_ID := ''d1'', doc_SellerPIN := ''P000000001B'', doc_TotalCents := 11600,
     doc_Lines := [\<lparr>ItemCode = ''99000000'', Description = ''Sale'', Qty = ''1.000'', Unit = ''PCS'',
       UnitPriceCents = 11600, LineTaxCategory = ''B'', LineTotalCents = 11600,
       LineTaxCents = 1600\<rparr>]\<rparr>"

lemma sample_doc_valid: "validateInvoice sample_doc = None"
  by code_simp

lemma sample_submit:
  "SubmitInvoice (mock_provider sample_env) sample_doc (mock_New FailNone 5) =
     ((mock_ack sample_env (mock_New FailNone 5) ''d1'' ''KRACU0100000001/'' 11600, None),
      (mock_New FailNone 5)\<lparr>Calls := 1,
        acks := [''d1'' \<mapsto> mock_ack sample_env (mock_New FailNone 5) ''d1'' ''KRACU0100000001/'' 11600]\<rparr>)"
  by (simp add: mock_provider_def mock_SubmitInvoice_def sample_doc_valid mock_submit_def fails_now_def
    mock_New_def mock_ack_def Let_def) (simp add: sample_doc_def no_doc_def)

theorem mock_idempotent_witness:
  "\<exists>a p1 p2. SubmitInvoice (mock_provider sample_env) sample_doc (mock_New FailNone 5) = ((a, None), p1) \<and>
     SubmitInvoice (mock_provider sample_env) sample_doc p1 = ((a, None), p2) \<and> Calls p2 = 2"
proof -
  obtain a p1 where sub: "SubmitInvoice (mock_provider sample_env) sample_doc (mock_New FailNone 5) =
      ((a, None), p1)" and known: "acks p1 ''d1'' = Some a" and p1: "ctx_err p1 = None" "Calls p1 = 1"
    using sample_submit by (simp add: mock_New_def)
  have i: "doc_ID sample_doc = ''d1''" by (simp add: sample_doc_def)
  obtain a2 p2 where again: "SubmitInvoice (mock_provider sample_env) sample_doc p1 = ((a2, None), p2)"
      and calls: "Calls p2 = 2"
    using known p1
    by (simp add: mock_provider_def mock_SubmitInvoice_def sample_doc_valid mock_submit_def i Let_def)
  have "mock_inv (mock_New FailNone 5)" by (simp add: mock_inv_def mock_New_def)
  note mock_idempotent [OF this sub mock.calls_refl refl]
  then have "a2 = a" using again by blast
  with sub again calls show ?thesis by blast
qed

end
