(* ===== verification/SubmitProps.thy ===== *)
theory SubmitProps
  imports ReissueProps MockProvider Submitter
begin

text \<open>
  One submission attempt: who may claim an invoice, what an attempt records, that a lost
  answer is recovered, and what the watchdog does.
\<close>

subsection \<open>Changing one invoice\<close>

definition set_row :: "uuid \<Rightarrow> (Invoice \<Rightarrow> Invoice) \<Rightarrow> Invoice list \<Rightarrow> Invoice list" where
  "set_row i f rows = map (\<lambda>r. if inv_id r = i then f r else r) rows"

lemma set_row_comp:
  "(\<And>r. inv_id (f r) = inv_id r) \<Longrightarrow> set_row i g (set_row i f rows) = set_row i (\<lambda>r. g (f r)) rows"
  by (simp add: set_row_def)

lemma set_row_cong:
  "(\<And>r. r \<in> set rows \<Longrightarrow> inv_id r = i \<Longrightarrow> f r = g r) \<Longrightarrow> set_row i f rows = set_row i g rows"
  by (simp add: set_row_def)

lemma set_row_id: "(\<And>r. r \<in> set rows \<Longrightarrow> inv_id r \<noteq> i) \<Longrightarrow> set_row i f rows = rows"
  by (auto simp: set_row_def intro!: map_idI)

text \<open>The one row of the organisation with an identifier.\<close>

definition holds :: "db \<Rightarrow> uuid \<Rightarrow> uuid \<Rightarrow> Invoice \<Rightarrow> bool" where
  "holds s oid i r \<longleftrightarrow> wf (tbl s) \<and> scope s = ScopeOrg oid \<and> r \<in> set (invoices s) \<and>
     inv_id r = i \<and> inv_org_id r = oid"

lemma holds_unique: "holds s oid i r \<Longrightarrow> q \<in> set (invoices s) \<Longrightarrow> inv_id q = i \<Longrightarrow> q = r"
  using wf_same_id unfolding holds_def by metis

lemma sees_org: "scope s = ScopeOrg oid \<Longrightarrow> sees_invoice s r \<longleftrightarrow> inv_org_id r = oid"
  by (auto simp: sees_invoice_def own_def receipt_sees_def)

lemma writes_org: "scope s = ScopeOrg oid \<Longrightarrow> writes_invoice s r \<longleftrightarrow> inv_org_id r = oid"
  by (auto simp: writes_invoice_def own_def)

lemma find_unique:
  assumes "r \<in> set xs" and "p r" and "\<And>q. q \<in> set xs \<Longrightarrow> p q \<Longrightarrow> q = r"
  shows "find p xs = Some r"
proof (cases "find p xs")
  case None
  with assms(1,2) show ?thesis by (auto simp: find_None_iff)
next
  case (Some q)
  then have "q \<in> set xs" "p q" by (auto simp: find_Some_iff)
  with assms(3) Some show ?thesis by simp
qed

lemma GetInvoice_holds:
  assumes h: "holds s oid i r" and na: "\<not> aborted s"
  shows "GetInvoice i s = (Inr r, s)"
proof -
  have "find (\<lambda>r. sees_invoice s r \<and> inv_id r = i) (invoices s) = Some r"
  proof (rule find_unique)
    show "r \<in> set (invoices s)" using h by (simp add: holds_def)
    show "sees_invoice s r \<and> inv_id r = i" using h sees_org by (simp add: holds_def)
    show "q = r" if "q \<in> set (invoices s)" "sees_invoice s q \<and> inv_id q = i" for q
      using holds_unique [OF h that(1)] that(2) by blast
  qed
  with na show ?thesis by (simp add: GetInvoice_def query_one_apply)
qed

lemma update_invoice_holds:
  assumes h: "holds s oid i r" and na: "\<not> aborted s" and p: "\<And>q. p q \<Longrightarrow> inv_id q = i" "p r"
    and keep: "inv_state r = StateAcked \<Longrightarrow> amounts (f (clock s) r) = amounts r"
    and valid: "state_valid (inv_state (f (clock s) r))"
  shows "update_invoice p f s = (Inr (stamped f (clock s) r),
    s\<lparr>invoices := set_row i (stamped f (clock s)) (invoices s)\<rparr>)"
proof -
  have sc: "scope s = ScopeOrg oid" and r: "r \<in> set (invoices s)" "inv_id r = i" "inv_org_id r = oid"
    using h by (auto simp: holds_def)
  have one: "q = r" if "q \<in> set (invoices s)" "writes_invoice s q \<and> p q" for q
    using holds_unique [OF h that(1)] p(1) that(2) by blast
  have w: "writes_invoice s r \<and> p r" using writes_org [OF sc] r p by simp
  have f: "find (\<lambda>i. writes_invoice s i \<and> p i) (invoices s) = Some r"
    using r(1) w one by (rule find_unique)
  have rows: "update_rows (\<lambda>i. writes_invoice s i \<and> p i) g (invoices s) = set_row i g (invoices s)" for g
    unfolding update_rows_def set_row_def
  proof (rule map_cong [OF refl])
    fix q
    assume q: "q \<in> set (invoices s)"
    have "(writes_invoice s q \<and> p q) = (inv_id q = i)"
      using one [OF q] holds_unique [OF h q] w r(2) by blast
    then show "(if writes_invoice s q \<and> p q then g q else q) = (if inv_id q = i then g q else q)" by simp
  qed
  have a: "amounts ((f (clock s) r)\<lparr>inv_updated_at := clock s\<rparr>) = amounts (f (clock s) r)"
    by (simp add: amounts_def)
  have ok1: "\<not> list_ex (\<lambda>i. (writes_invoice s i \<and> p i) \<and> inv_state i = StateAcked \<and>
      amounts ((f (clock s) i)\<lparr>inv_updated_at := clock s\<rparr>) \<noteq> amounts i) (invoices s)"
    using one keep a unfolding list_ex_iff by metis
  have ok2: "\<not> list_ex (\<lambda>i. (writes_invoice s i \<and> p i) \<and>
      \<not> state_valid (inv_state ((f (clock s) i)\<lparr>inv_updated_at := clock s\<rparr>))) (invoices s)"
    using one valid unfolding list_ex_iff by simp metis
  have st: "(\<lambda>i. (f (clock s) i)\<lparr>inv_updated_at := clock s\<rparr>) = stamped f (clock s)"
    by (rule ext) (simp add: stamped_def)
  show ?thesis
    using na f rows ok1 ok2 unfolding update_invoice_def stmt_def Let_def st
    by (simp add: stamped_def)
qed

definition to_state :: "State \<Rightarrow> int option \<Rightarrow> time option \<Rightarrow> string option \<Rightarrow> time \<Rightarrow> Invoice \<Rightarrow> Invoice" where
  "to_state st att nx err now r = r\<lparr>inv_state := st,
     inv_attempt := (case att of None \<Rightarrow> inv_attempt r | Some n \<Rightarrow> n),
     inv_next_attempt_at := nx, inv_last_error := err,
     inv_submitted_at := (if st = StateSubmitted then Some now else inv_submitted_at r),
     inv_updated_at := now\<rparr>"

lemma to_state_simps [simp]:
  "inv_id (to_state st att nx err now r) = inv_id r" "inv_org_id (to_state st att nx err now r) = inv_org_id r"
  "inv_state (to_state st att nx err now r) = st" "inv_next_attempt_at (to_state st att nx err now r) = nx"
  "inv_last_error (to_state st att nx err now r) = err"
  "inv_attempt (to_state st att nx err now r) = (case att of None \<Rightarrow> inv_attempt r | Some n \<Rightarrow> n)"
  "amounts (to_state st att nx err now r) = amounts r"
  "inv_kra_invoice_no (to_state st att nx err now r) = inv_kra_invoice_no r"
  "inv_updated_at (to_state st att nx err now r) = now" "inv_kind (to_state st att nx err now r) = inv_kind r"
  "inv_receipt_code (to_state st att nx err now r) = inv_receipt_code r"
  by (simp_all add: to_state_def amounts_def)

lemma SetInvoiceState_holds:
  assumes "holds s oid i r" and "\<not> aborted s" and "inv_state r = old" and "state_valid st"
  shows "SetInvoiceState i st att nx err old s = (Inr (to_state st att nx err (clock s) r),
    s\<lparr>invoices := set_row i (to_state st att nx err (clock s)) (invoices s)\<rparr>)"
proof -
  let ?f = "\<lambda>now r. r\<lparr>inv_state := st, inv_attempt := (case att of None \<Rightarrow> inv_attempt r | Some n \<Rightarrow> n),
          inv_next_attempt_at := nx, inv_last_error := err,
          inv_submitted_at := (if st = StateSubmitted then Some now else inv_submitted_at r)\<rparr>"
  have eq: "stamped ?f (clock s) = to_state st att nx err (clock s)"
    by (rule ext) (simp add: stamped_def to_state_def)
  have "SetInvoiceState i st att nx err old s = (Inr (stamped ?f (clock s) r),
      s\<lparr>invoices := set_row i (stamped ?f (clock s)) (invoices s)\<rparr>)"
    unfolding SetInvoiceState_def
    by (rule update_invoice_holds [OF assms(1,2)]) (use assms in \<open>auto simp: amounts_def holds_def\<close>)
  then show ?thesis unfolding eq .
qed

text \<open>After the change the row is still the one row.\<close>

lemma set_row_wf:
  assumes "wf (tbl s)" and "\<And>r. inv_id (f r) = inv_id r" and "\<And>r. inv_receipt_code (f r) = inv_receipt_code r"
    and "\<And>r. inv_kind (f r) = inv_kind r" and "\<And>r. state_valid (inv_state (f r))"
  shows "wf (tbl (s\<lparr>invoices := set_row i f (invoices s)\<rparr>))"
proof -
  have "keyed inv_id inv_receipt_code (next_id s) (set_row i f (invoices s))"
    using assms(1-3) keyed_update_rows [of inv_id inv_receipt_code "next_id s" "invoices s" f "\<lambda>r. inv_id r = i"]
    by (simp add: wf_defs set_row_def update_rows_def)
  then show ?thesis using assms by (auto simp: wf_defs set_row_def)
qed

lemma holds_to_state:
  assumes "holds s oid i r" and "state_valid st"
  shows "holds (s\<lparr>invoices := set_row i (to_state st att nx err now) (invoices s)\<rparr>) oid i
    (to_state st att nx err now r)"
  using assms set_row_wf [of s "to_state st att nx err now" i]
  by (force simp: holds_def set_row_def)

subsection \<open>Claiming\<close>

definition due :: "time \<Rightarrow> Invoice \<Rightarrow> bool" where
  "due now iv \<longleftrightarrow> inv_state iv = StateQueued \<and> waits now iv \<le> 0 \<or>
     inv_state iv = StateFailedRetryable \<and> \<not> exhausted iv"

definition refused :: "time \<Rightarrow> Invoice \<Rightarrow> bool" where
  "refused now iv \<longleftrightarrow> inv_state iv \<noteq> StateQueued \<and> inv_state iv \<noteq> StateFailedRetryable \<or>
     inv_state iv = StateQueued \<and> 0 < waits now iv"

lemma claim_refused:
  assumes "holds s oid iid iv" and "\<not> aborted s" and "refused now iv"
  shows "\<exists>cl. claim_tx k b now iid s = (Inr cl, s) \<and> r_Skipped (cl_res cl) \<and> r_State (cl_res cl) = inv_state iv"
  using GetInvoice_holds [OF assms(1,2)] assms(3)
  by (auto simp: claim_tx_def Let_def refused_def no_claim_def)

lemma buildDocument_Inr:
  assumes "buildDocument k b iv s = (Inr doc, s')"
  shows "s' = s \<and> doc_ID doc = uuid_String (inv_id iv) \<and> doc_TotalCents doc = inv_total_cents iv \<and>
    doc_TaxCents doc = inv_tax_cents iv \<and> doc_SubtotalCents doc = inv_subtotal_cents iv"
proof -
  from assms obtain oo where go: "GetOrg (inv_org_id iv) s = (Inr oo, s)"
    unfolding buildDocument_def attempt_case_Inr by (auto simp: GetOrg_Inr)
  with assms obtain pin where "DecryptString k (org_kra_pin_enc oo) = Inr pin"
    by (cases "DecryptString k (org_kra_pin_enc oo)") (auto simp: buildDocument_def)
  with assms go show ?thesis
    by (auto simp: buildDocument_def Let_def tbind_Inr_iff ListSaleItems_def query_Inr_iff)
qed

lemma parent_no_same: "parent_no iv s = (r, s') \<Longrightarrow> s' = s"
  by (auto simp: parent_no_def GetInvoice_def query_one_apply tbind_def split: if_splits option.splits)

definition submitted :: "time \<Rightarrow> Invoice \<Rightarrow> Invoice" where
  "submitted now r = to_state StateSubmitted (Some (inv_attempt r + 1)) None None now r"

lemma submitted_simps [simp]:
  "inv_id (submitted now r) = inv_id r" "inv_state (submitted now r) = StateSubmitted"
  "inv_attempt (submitted now r) = inv_attempt r + 1" "inv_org_id (submitted now r) = inv_org_id r"
  "inv_kind (submitted now r) = inv_kind r"
  by (simp_all add: submitted_def)

lemma claim_taken:
  assumes h: "holds s oid iid iv" and na: "\<not> aborted s" and due: "due now iv"
    and run: "claim_tx k b now iid s = (Inr cl, s')"
  shows "s' = s\<lparr>invoices := set_row iid (submitted (clock s)) (invoices s)\<rparr> \<and>
    cl_res cl = (new_Result iid)\<lparr>r_Attempt := inv_attempt iv + 1, r_State := StateSubmitted\<rparr> \<and>
    cl_kind cl = inv_kind iv \<and> cl_isRetry cl = (0 < inv_attempt iv) \<and>
    doc_ID (cl_doc cl) = uuid_String iid \<and> doc_TotalCents (cl_doc cl) = inv_total_cents iv"
proof -
  have id: "inv_id iv = iid" using h by (simp add: holds_def)
  have tk: "claim_tx k b now iid s = take_claim k b iv (new_Result iid) s"
    using GetInvoice_holds [OF h na] due by (auto simp: claim_tx_def Let_def due_def)
  have tr: "Transition (inv_state iv) StateSubmitted = Inr StateSubmitted"
    using due by (auto simp: due_def Transition_Inr)
  let ?u = "s\<lparr>invoices := set_row iid (to_state StateSubmitted (Some (inv_attempt iv + 1)) None None (clock s)) (invoices s)\<rparr>"
  have set: "SetInvoiceState iid StateSubmitted (Some (inv_attempt iv + 1)) None None (inv_state iv) s =
      (Inr (to_state StateSubmitted (Some (inv_attempt iv + 1)) None None (clock s) iv), ?u)"
    by (rule SetInvoiceState_holds [OF h na refl]) (simp add: state_valid_iff)
  from run obtain doc s1 pno where doc: "buildDocument k b iv ?u = (Inr doc, s1)"
    and pno: "parent_no iv s1 = (Inr pno, s')"
    and cl: "cl = \<lparr>cl_res = (new_Result iid)\<lparr>r_Attempt := inv_attempt iv + 1, r_State := StateSubmitted\<rparr>,
        cl_doc = doc, cl_kind = inv_kind iv, cl_parentKRANo = pno, cl_isRetry = (0 < inv_attempt iv)\<rparr>"
    using tr set unfolding tk take_claim_def id
    by (auto simp: Let_def tbind_Inr_iff [of "buildDocument k b iv"] tbind_Inr_iff [of "parent_no iv"])
  have "set_row iid (to_state StateSubmitted (Some (inv_attempt iv + 1)) None None (clock s)) (invoices s) =
      set_row iid (submitted (clock s)) (invoices s)"
    by (rule set_row_cong) (use holds_unique [OF h] in \<open>auto simp: submitted_def\<close>)
  with buildDocument_Inr [OF doc] parent_no_same [OF pno] cl id show ?thesis by simp
qed

subsection \<open>Recording the answer\<close>

text \<open>The abstract effect of one attempt on the invoice that is submitted.\<close>

definition acked_row :: "time \<Rightarrow> time \<Rightarrow> Ack \<Rightarrow> Invoice \<Rightarrow> Invoice" where
  "acked_row now clk ack r = r\<lparr>inv_state := StateAcked, inv_kra_invoice_no := Some (KRAInvoiceNo ack),
     inv_kra_signature := Some (Signature ack), inv_kra_qr_payload := Some (QRPayload ack),
     inv_acked_at := Some (if ReceivedAt ack = 0 then now else ReceivedAt ack), inv_last_error := None,
     inv_next_attempt_at := None, inv_updated_at := clk\<rparr>"

definition answered_row :: "time \<Rightarrow> time \<Rightarrow> int \<Rightarrow> ack_result \<Rightarrow> Invoice \<Rightarrow> Invoice" where
  "answered_row now clk att answer r = (case answer of (ack, err) \<Rightarrow>
     let o1 = Resolve att err in
     if Next o1 = StateAcked then acked_row now clk ack r
     else if Next o1 = StateQueued
       then to_state StateQueued None (Some (now + RetryIn o1)) (map_option err_text err) clk r
     else to_state StateNeedsReview None None (map_option err_text err) clk r)"

definition attempt_row :: "time \<Rightarrow> time \<Rightarrow> ack_result \<Rightarrow> Invoice \<Rightarrow> Invoice" where
  "attempt_row now clk answer iv =
     answered_row now clk (inv_attempt iv + 1) answer (submitted clk iv)"

lemma to_state_twice:
  "st \<noteq> StateSubmitted \<Longrightarrow> to_state st' None nx' err' now (to_state st None nx err now r) = to_state st' None nx' err' now r"
  by (simp add: to_state_def)

lemma AckInvoice_holds:
  assumes "holds s oid i r" and "\<not> aborted s"
  shows "AckInvoice i no sig qr at' s = (Inr (stamped (\<lambda>now r. r\<lparr>inv_state := StateAcked,
        inv_kra_invoice_no := Some no, inv_kra_signature := Some sig,
        inv_kra_qr_payload := Some qr, inv_acked_at := Some at', inv_last_error := None,
        inv_next_attempt_at := None\<rparr>) (clock s) r),
    s\<lparr>invoices := set_row i (stamped (\<lambda>now r. r\<lparr>inv_state := StateAcked,
        inv_kra_invoice_no := Some no, inv_kra_signature := Some sig,
        inv_kra_qr_payload := Some qr, inv_acked_at := Some at', inv_last_error := None,
        inv_next_attempt_at := None\<rparr>) (clock s)) (invoices s)\<rparr>)"
  unfolding AckInvoice_def
  by (rule update_invoice_holds [OF assms]) (use assms in \<open>auto simp: holds_def amounts_def state_valid_iff\<close>)

text \<open>The relation that only usage counters may change.\<close>

definition only_usage :: "tables \<Rightarrow> tables \<Rightarrow> bool" where
  "only_usage t u \<longleftrightarrow> (\<exists>x. u = t\<lparr>usage_counters := x\<rparr>)"

interpretation only_usage: table_frame only_usage
proof
  show "only_usage t t" for t unfolding only_usage_def by (rule exI [of _ "usage_counters t"]) simp
qed (auto simp: only_usage_def)

lemma BumpUsage_effect: "keeps S only_usage (ignore (BumpUsage oid period a b c))"
proof -
  have "keeps S only_usage (BumpUsage oid period a b c)"
    unfolding BumpUsage_def Let_def
    by (rule only_usage.keeps_stmt) (auto simp: only_usage_def tbl_def split: if_splits)
  then show ?thesis by (intro only_usage.keeps_intros)
qed

definition receipt_job :: "uuid \<Rightarrow> uuid \<Rightarrow> string \<Rightarrow> JobRequest" where
  "receipt_job oid iid kind =
     (SendReceiptArgs oid iid (if kind = ''CREDIT_NOTE'' then ''credit_note'' else ''receipt_acked''), None)"

lemma persist_ack_Inr:
  assumes run: "persist_ack now oid iid kind ack res s = (Inr out, s')"
    and h: "holds s oid iid r" and na: "\<not> aborted s"
  shows "out = res\<lparr>r_State := StateAcked\<rparr> \<and>
    invoices s' = set_row iid (acked_row now (clock s) ack) (invoices s) \<and>
    fiscal_submissions s' = fiscal_submissions s \<and> jobs s' = jobs s @ [receipt_job oid iid kind]"
proof -
  let ?at = "if ReceivedAt ack = 0 then now else ReceivedAt ack"
  let ?s1 = "s\<lparr>invoices := set_row iid (acked_row now (clock s) ack) (invoices s)\<rparr>"
  have eq: "stamped (\<lambda>now r. r\<lparr>inv_state := StateAcked,
        inv_kra_invoice_no := Some (KRAInvoiceNo ack), inv_kra_signature := Some (Signature ack),
        inv_kra_qr_payload := Some (QRPayload ack), inv_acked_at := Some ?at, inv_last_error := None,
        inv_next_attempt_at := None\<rparr>) (clock s) = acked_row now (clock s) ack"
    by (rule ext) (simp add: stamped_def acked_row_def)
  have a: "AckInvoice iid (KRAInvoiceNo ack) (Signature ack) (QRPayload ack) ?at s =
      (Inr (acked_row now (clock s) ack r), ?s1)"
    using AckInvoice_holds [OF h na, of "KRAInvoiceNo ack" "Signature ack" "QRPayload ack" ?at]
    unfolding eq .
  from run a obtain s2 s3 where
      u: "ignore (BumpUsage oid (format_month ?at) 1 0 0) ?s1 = (Inr (), s2)"
    and e: "EnqueueTx (SendReceiptArgs oid iid (if kind = ''CREDIT_NOTE'' then ''credit_note'' else ''receipt_acked'')) s2 = (Inr (), s3)"
    and au: "AppendAudit oid ''system'' None ''invoice.acked'' ''invoice'' iid (RawAfter (Raw ack)) s3 = (Inr (), s')"
    and out: "out = res\<lparr>r_State := StateAcked\<rparr>"
    by (auto simp: persist_ack_def Let_def tbind_Inr_iff)
  from keepsD [OF BumpUsage_effect [of UNIV] UNIV_I u] obtain x where
    t: "tbl s2 = (tbl ?s1)\<lparr>usage_counters := x\<rparr>" by (auto simp: only_usage_def)
  show ?thesis
    using out e au arg_cong [OF t, of invoices] arg_cong [OF t, of fiscal_submissions] arg_cong [OF t, of jobs]
    by (auto simp: EnqueueTx_Inr AppendAudit_Inr receipt_job_def)
qed

lemma persist_retry_Inr:
  assumes run: "persist_retry now iid d errStr res s = (Inr out, s')"
    and h: "holds s oid iid r" and na: "\<not> aborted s" and st: "inv_state r = StateSubmitted"
  shows "out = res\<lparr>r_State := StateQueued\<rparr> \<and>
    s' = s\<lparr>invoices := set_row iid (to_state StateQueued None (Some (now + d)) errStr (clock s)) (invoices s)\<rparr>"
proof -
  let ?f = "to_state StateFailedRetryable None None errStr (clock s)"
  let ?g = "to_state StateQueued None (Some (now + d)) errStr (clock s)"
  let ?s1 = "s\<lparr>invoices := set_row iid ?f (invoices s)\<rparr>"
  have v: "state_valid StateFailedRetryable" "state_valid StateQueued" by (simp_all add: state_valid_iff)
  note one = SetInvoiceState_holds [OF h na st v(1), of None None errStr]
  have na1: "\<not> aborted ?s1" and st1: "inv_state (?f r) = StateFailedRetryable" using na by simp_all
  note two = SetInvoiceState_holds [OF holds_to_state [OF h v(1)] na1 st1 v(2), of None "Some (now + d)" errStr]
  have "set_row iid ?g (set_row iid ?f (invoices s)) = set_row iid ?g (invoices s)"
    by (subst set_row_comp) (simp_all add: to_state_twice)
  with run one two show ?thesis by (simp add: persist_retry_def)
qed

lemma persist_review_Inr:
  assumes run: "persist_review oid iid errStr subErr res s = (Inr out, s')"
    and h: "holds s oid iid r" and na: "\<not> aborted s" and st: "inv_state r = StateSubmitted"
  shows "out = res\<lparr>r_State := StateNeedsReview\<rparr> \<and>
    invoices s' = set_row iid (to_state StateNeedsReview None None errStr (clock s)) (invoices s) \<and>
    fiscal_submissions s' = fiscal_submissions s \<and> jobs s' = jobs s"
proof -
  let ?f = "to_state StateFailedTerminal None None errStr (clock s)"
  let ?g = "to_state StateNeedsReview None None errStr (clock s)"
  let ?s1 = "s\<lparr>invoices := set_row iid ?f (invoices s)\<rparr>"
  have v: "state_valid StateFailedTerminal" "state_valid StateNeedsReview" by (simp_all add: state_valid_iff)
  note one = SetInvoiceState_holds [OF h na st v(1), of None None errStr]
  have na1: "\<not> aborted ?s1" and st1: "inv_state (?f r) = StateFailedTerminal" using na by simp_all
  note two = SetInvoiceState_holds [OF holds_to_state [OF h v(1)] na1 st1 v(2), of None None errStr]
  have "set_row iid ?g (set_row iid ?f (invoices s)) = set_row iid ?g (invoices s)"
    by (subst set_row_comp) (simp_all add: to_state_twice)
  with run one two show ?thesis
    by (auto simp: persist_review_def AppendAudit_Inr tbind_Inr_iff [of "AppendAudit a b c d e f g" for a b c d e f g]
      split: option.splits)
qed

lemma CreateFiscalSubmission_Inr:
  "CreateFiscalSubmission oid iid att ad req resp err cls s = (Inr r, s') \<Longrightarrow>
    \<not> aborted s \<and> s' = s\<lparr>next_id := Suc (next_id s), fiscal_submissions := fiscal_submissions s @ [r]\<rparr> \<and>
    fs_org_id r = oid \<and> fs_invoice_id r = iid \<and> fs_attempt r = att \<and> fs_request r = req \<and>
    fs_error r = err \<and> fs_classification r = cls"
  by (auto simp: CreateFiscalSubmission_def stmt_Inr_iff Let_def split: if_splits)

definition logged :: "uuid \<Rightarrow> int \<Rightarrow> FiscalInvoice \<Rightarrow> go_error option \<Rightarrow> FiscalSubmission \<Rightarrow> bool" where
  "logged iid att doc err sub \<longleftrightarrow> fs_invoice_id sub = iid \<and> fs_attempt sub = att \<and>
     fs_request sub = audit_doc doc \<and> fs_error sub = map_option err_text err \<and>
     fs_classification sub = Classify err"

lemma persist_tx_Inr:
  assumes run: "persist_tx adapter now oid iid cl (ack, err) s = (Inr out, s')"
    and h: "holds s oid iid r" and na: "\<not> aborted s" and st: "inv_state r = StateSubmitted"
  shows "invoices s' = set_row iid (answered_row now (clock s) (r_Attempt (cl_res cl)) (ack, err)) (invoices s)"
    and "r_State out = inv_state (answered_row now (clock s) (r_Attempt (cl_res cl)) (ack, err) r)"
    and "r_Attempt out = r_Attempt (cl_res cl)"
    and "jobs s' = jobs s @ (if err = None then [receipt_job oid iid (cl_kind cl)] else [])"
    and "\<exists>sub. fiscal_submissions s' = fiscal_submissions s @ [sub] \<and>
      logged iid (r_Attempt (cl_res cl)) (cl_doc cl) err sub"
proof -
  let ?att = "r_Attempt (cl_res cl)"
  let ?res = "(cl_res cl)\<lparr>r_Err := err, r_RetryIn := RetryIn (Resolve ?att err)\<rparr>"
  let ?es = "map_option err_text err"
  from run obtain sub s1 where
      f: "CreateFiscalSubmission oid iid ?att adapter (audit_doc (cl_doc cl)) (Raw ack) ?es (Classify err) s = (Inr sub, s1)"
    and k: "(if Next (Resolve ?att err) = StateAcked then persist_ack now oid iid (cl_kind cl) ack ?res
     else if Next (Resolve ?att err) = StateQueued then persist_retry now iid (RetryIn (Resolve ?att err)) ?es ?res
     else persist_review oid iid ?es err ?res) s1 = (Inr out, s')"
    by (auto simp: persist_tx_def Let_def tbind_Inr_iff)
  note fs = CreateFiscalSubmission_Inr [OF f]
  have h1: "holds s1 oid iid r" using h fs by (auto simp: holds_def wf_defs elim: keyed_mono)
  have s1: "\<not> aborted s1" "invoices s1 = invoices s" "jobs s1 = jobs s" "clock s1 = clock s"
    "fiscal_submissions s1 = fiscal_submissions s @ [sub]" using fs na by auto
  have l: "logged iid ?att (cl_doc cl) err sub" using fs by (simp add: logged_def)
  have acks: "Next (Resolve ?att err) = StateAcked \<longleftrightarrow> err = None"
    by (cases err) (simp_all add: Resolve_Some)
  have "invoices s' = set_row iid (answered_row now (clock s) ?att (ack, err)) (invoices s) \<and>
    r_State out = inv_state (answered_row now (clock s) ?att (ack, err) r) \<and> r_Attempt out = ?att \<and>
    jobs s' = jobs s @ (if err = None then [receipt_job oid iid (cl_kind cl)] else []) \<and>
    fiscal_submissions s' = fiscal_submissions s @ [sub]"
  proof (cases "Next (Resolve ?att err) = StateAcked")
    case True
    have row: "answered_row now (clock s) ?att (ack, err) = acked_row now (clock s) ack"
      by (rule ext) (use True in \<open>simp add: answered_row_def\<close>)
    have "persist_ack now oid iid (cl_kind cl) ack ?res s1 = (Inr out, s')" using k True by simp
    from persist_ack_Inr [OF this h1 s1(1)] acks True s1 row show ?thesis by (simp add: acked_row_def)
  next
    case na': False
    show ?thesis
    proof (cases "Next (Resolve ?att err) = StateQueued")
      case True
      have row: "answered_row now (clock s) ?att (ack, err) =
          to_state StateQueued None (Some (now + RetryIn (Resolve ?att err))) ?es (clock s)"
        by (rule ext) (use True in \<open>simp add: answered_row_def\<close>)
      have "persist_retry now iid (RetryIn (Resolve ?att err)) ?es ?res s1 = (Inr out, s')"
        using k True by simp
      from persist_retry_Inr [OF this h1 s1(1) st] acks na' s1 row show ?thesis by simp
    next
      case False
      have row: "answered_row now (clock s) ?att (ack, err) = to_state StateNeedsReview None None ?es (clock s)"
        by (rule ext) (use na' False in \<open>simp add: answered_row_def Let_def\<close>)
      have "persist_review oid iid ?es err ?res s1 = (Inr out, s')" using k na' False by simp
      from persist_review_Inr [OF this h1 s1(1) st] acks na' s1 row show ?thesis by simp
    qed
  qed
  with l show "invoices s' = set_row iid (answered_row now (clock s) ?att (ack, err)) (invoices s)"
    and "r_State out = inv_state (answered_row now (clock s) ?att (ack, err) r)"
    and "r_Attempt out = ?att"
    and "jobs s' = jobs s @ (if err = None then [receipt_job oid iid (cl_kind cl)] else [])"
    and "\<exists>sub. fiscal_submissions s' = fiscal_submissions s @ [sub] \<and>
      logged iid ?att (cl_doc cl) err sub" by blast+
qed

subsection \<open>One attempt\<close>

lemma set_row_twice:
  assumes "\<And>r. r \<in> set rows \<Longrightarrow> inv_id r = i \<Longrightarrow> r = iv" and "inv_id iv = i" and "\<And>r. inv_id (f r) = inv_id r"
  shows "set_row i g (set_row i f rows) = set_row i (\<lambda>_. g (f iv)) rows"
  using assms by (auto simp: set_row_def)

lemma holds_submitted:
  assumes "holds s oid i iv"
  shows "holds (s\<lparr>invoices := set_row i (submitted now) (invoices s)\<rparr>) oid i (submitted now iv)"
proof -
  have "wf (tbl s)" using assms by (simp add: holds_def)
  then have "wf (tbl (s\<lparr>invoices := set_row i (submitted now) (invoices s)\<rparr>))"
    by (rule set_row_wf) (simp_all add: submitted_def state_valid_iff)
  moreover have "submitted now iv \<in> set (set_row i (submitted now) (invoices s))" "inv_org_id (submitted now iv) = inv_org_id iv"
    using assms by (auto simp: holds_def set_row_def submitted_def)
  ultimately show ?thesis using assms by (simp add: holds_def)
qed

text \<open>The document, kind and retry flag a claim carries.\<close>

definition claim_of :: "Invoice \<Rightarrow> Claim \<Rightarrow> bool" where
  "claim_of iv cl \<longleftrightarrow> cl_kind cl = inv_kind iv \<and> cl_isRetry cl = (0 < inv_attempt iv) \<and>
     doc_ID (cl_doc cl) = uuid_String (inv_id iv) \<and> doc_TotalCents (cl_doc cl) = inv_total_cents iv"

lemma submit_effect:
  assumes w: "wf (tbl s)" and iv: "iv \<in> set (invoices s)" "inv_id iv = iid" "inv_org_id iv = oid"
    and due: "due now iv" and run: "Submit k b P now oid iid (s, p) = (Inr res, s', p')"
  shows "\<exists>cl answer sub. claim_of iv cl \<and> submit_call P cl p = (answer, p') \<and>
    invoices s' = set_row iid (\<lambda>_. attempt_row now (clock s) answer iv) (invoices s) \<and>
    fiscal_submissions s' = fiscal_submissions s @ [sub] \<and>
    logged iid (inv_attempt iv + 1) (cl_doc cl) (snd answer) sub \<and>
    jobs s' = jobs s @ (if snd answer = None then [receipt_job oid iid (inv_kind iv)] else []) \<and>
    r_State res = inv_state (attempt_row now (clock s) answer iv) \<and> r_Attempt res = inv_attempt iv + 1"
proof -
  let ?s0 = "s\<lparr>scope := ScopeOrg oid, aborted := False\<rparr>"
  have h: "holds ?s0 oid iid iv" and na: "\<not> aborted ?s0" using w iv by (simp_all add: holds_def)
  from run obtain cl s1 where c: "submit_claim k b now oid iid s = (Inr cl, s1)"
    by (auto simp: Submit_def split: prod.splits sum.splits)
  then obtain u where u: "claim_tx k b now iid ?s0 = (Inr cl, u)"
    and s1: "s1 = u\<lparr>scope := scope s, aborted := aborted s\<rparr>"
    by (auto simp: submit_claim_def scope_defs scoped_Inr_iff)
  let ?u = "?s0\<lparr>invoices := set_row iid (submitted (clock s)) (invoices s)\<rparr>"
  note ct = claim_taken [OF h na due u, simplified]
  have ue: "u = ?u" and cl: "claim_of iv cl"
    and res: "cl_res cl = (new_Result iid)\<lparr>r_Attempt := inv_attempt iv + 1, r_State := StateSubmitted\<rparr>"
    using ct iv(2) by (simp_all add: claim_of_def)
  obtain ack err p1 where call: "submit_call P cl p = ((ack, err), p1)"
    by (cases "submit_call P cl p") auto
  have "\<not> r_Skipped (cl_res cl)" using res by (simp add: new_Result_def)
  with run c call have "submit_persist (provider_Name P) now oid iid cl (ack, err) s1 = (Inr res, s')" and p': "p1 = p'"
    by (auto simp: Submit_def split: prod.splits)
  moreover have same: "s1\<lparr>scope := ScopeOrg oid, aborted := False\<rparr> = u"
    unfolding s1 ue by (cases s) simp
  ultimately obtain v where v: "persist_tx (provider_Name P) now oid iid cl (ack, err) u = (Inr res, v)"
    and s': "s' = v\<lparr>scope := scope s1, aborted := aborted s1\<rparr>"
    unfolding submit_persist_def scope_defs scoped_Inr_iff same by blast
  have h1: "holds ?u oid iid (submitted (clock s) iv)"
    using holds_submitted [OF h, of "clock s"] by simp
  note pt = persist_tx_Inr [OF v [unfolded ue] h1, simplified]
  have row: "answered_row now (clock s) (r_Attempt (cl_res cl)) (ack, err) (submitted (clock s) iv) =
      attempt_row now (clock s) (ack, err) iv"
    by (simp add: attempt_row_def res)
  have "set_row iid (answered_row now (clock s) (r_Attempt (cl_res cl)) (ack, err))
      (set_row iid (submitted (clock s)) (invoices s)) =
      set_row iid (\<lambda>_. attempt_row now (clock s) (ack, err) iv) (invoices s)"
    using set_row_twice [of "invoices s" iid iv] wf_same_id [OF w _ iv(1)] iv(2) row by simp
  moreover obtain sub where "fiscal_submissions v = fiscal_submissions s @ [sub]"
      "logged iid (inv_attempt iv + 1) (cl_doc cl) err sub"
    using pt(5) res by auto
  ultimately show ?thesis
    using cl call p' pt(1-4) row res s' by (intro exI [of _ cl] exI [of _ "(ack, err)"] exI [of _ sub])
      (simp add: claim_of_def)
qed

text \<open>
  C10. One submission attempt refines one abstract step on the invoice. For a due invoice the
  claim, the provider call and the recording of the answer together have exactly this
  effect: the provider is called once with a document that carries the invoice's id and
  total; the invoice's attempt counter goes up by one and it becomes ACKED with the
  answer's KRA number, signature and QR code, or QUEUED again with the scheduled delay, or
  NEEDS_REVIEW, as the retry policy says; no other invoice changes; exactly one submission
  record is added, with the taxpayer PINs masked; and a receipt is sent exactly when the
  invoice was acknowledged.
\<close>

theorem submit_refines_attempt:
  assumes w: "wf (tbl s)" and iv: "iv \<in> set (invoices s)" "inv_id iv = iid" "inv_org_id iv = oid"
    and due: "due now iv" and run: "Submit k b P now oid iid (s, p) = (Inr res, s', p')"
  shows "\<exists>cl answer sub. claim_of iv cl \<and> submit_call P cl p = (answer, p') \<and>
    invoices s' = set_row iid (\<lambda>_. attempt_row now (clock s) answer iv) (invoices s) \<and>
    fiscal_submissions s' = fiscal_submissions s @ [sub] \<and>
    logged iid (inv_attempt iv + 1) (cl_doc cl) (snd answer) sub \<and>
    jobs s' = jobs s @ (if snd answer = None then [receipt_job oid iid (inv_kind iv)] else []) \<and>
    r_State res = inv_state (attempt_row now (clock s) answer iv) \<and> r_Attempt res = inv_attempt iv + 1"
  using assms by (rule submit_effect)

subsection \<open>A shop with a queued invoice\<close>

definition pin_blob :: bytes where
  "pin_blob = version_byte @ replicate 12 (CHR 0x00) @ replicate 48 (CHR 0x00) @
     replicate 12 (CHR 0x00) @ ''P000000001B'' @ replicate 16 (CHR 0x00)"

definition queued_invoice :: Invoice where
  "queued_invoice = acked_invoice\<lparr>inv_state := StateQueued, inv_kra_invoice_no := None\<rparr>"

definition queued_db :: db where
  "queued_db = acked_db\<lparr>orgs := [shop_org\<lparr>org_kra_pin_enc := pin_blob\<rparr>], invoices := [queued_invoice],
     sale_items := [\<lparr>si_id = 6, si_org_id = 1, si_sale_id = 4, si_item_id = Some 2,
       si_description = ''Sale'', si_class_code = ''99000000'', si_unit = ''PCS'', si_qty = 1000,
       si_unit_price_cents = 11600, si_tax_category = ''B'', si_tax_rate_bp = 1600,
       si_line_total_cents = 11600, si_line_tax_cents = 1600, si_position = 0\<rparr>]\<rparr>"

lemma queued_facts:
  "wf (tbl queued_db)" "queued_invoice \<in> set (invoices queued_db)" "inv_id queued_invoice = 5"
  "inv_org_id queued_invoice = 1" "due 0 queued_invoice"
  by (simp_all add: wf_defs keyed_def queued_db_def acked_db_def sold_db_def shop_db_def empty_db_def
    queued_invoice_def acked_invoice_def new_invoice_def state_valid_iff due_def waits_def)

lemma submit_Inr:
  assumes "map_sum id r_State (fst (Submit k b P now oid iid (s, p))) = Inr st"
  obtains res s' p' where "Submit k b P now oid iid (s, p) = (Inr res, s', p')" and "r_State res = st"
  using assms by (cases "Submit k b P now oid iid (s, p)"; cases "fst (Submit k b P now oid iid (s, p))") auto

theorem submit_refines_attempt_witness:
  "\<exists>res s' p'. Submit plain_keyring id (mock_provider sample_env) 0 1 5 (queued_db, mock_New FailNone 5) =
       (Inr res, s', p') \<and> map inv_state (invoices s') = [StateAcked] \<and> map inv_attempt (invoices s') = [1] \<and>
     map fs_attempt (fiscal_submissions s') = [1] \<and> length (jobs s') = 1"
proof -
  have "map_sum id r_State (fst (Submit plain_keyring id (mock_provider sample_env) 0 1 5
      (queued_db, mock_New FailNone 5))) = Inr StateAcked" by code_simp
  then obtain res s' p' where run: "Submit plain_keyring id (mock_provider sample_env) 0 1 5
      (queued_db, mock_New FailNone 5) = (Inr res, s', p')" and st: "r_State res = StateAcked"
    by (rule submit_Inr)
  have db: "invoices queued_db = [queued_invoice]" "inv_attempt queued_invoice = 0"
      "fiscal_submissions queued_db = []" "jobs queued_db = []"
    by (simp_all add: queued_db_def queued_invoice_def acked_invoice_def acked_db_def sold_db_def
      shop_db_def empty_db_def new_invoice_def)
  from submit_refines_attempt [OF queued_facts run] obtain answer sub where
    inv: "invoices s' = set_row 5 (\<lambda>_. attempt_row 0 (clock queued_db) answer queued_invoice) [queued_invoice]"
    and sub: "fiscal_submissions s' = [sub]" "fs_attempt sub = 1"
    and jobs: "jobs s' = (if snd answer = None then [receipt_job 1 5 (inv_kind queued_invoice)] else [])"
    and rs: "r_State res = inv_state (attempt_row 0 (clock queued_db) answer queued_invoice)"
    using db by (auto simp: logged_def)
  have "snd answer = None"
    using rs st by (cases answer; cases "snd answer") (auto simp: attempt_row_def answered_row_def Let_def Resolve_Some
      split: if_splits)
  then have "attempt_row 0 (clock queued_db) answer queued_invoice =
      acked_row 0 (clock queued_db) (fst answer) (submitted (clock queued_db) queued_invoice)"
    by (cases answer) (simp add: attempt_row_def answered_row_def)
  with inv sub jobs run \<open>snd answer = None\<close> queued_facts(3) db(2) show ?thesis
    by (auto simp: set_row_def acked_row_def)
qed

subsection \<open>No two workers submit the same invoice\<close>

lemma submit_refused:
  assumes "wf (tbl s)" and "iv \<in> set (invoices s)" "inv_id iv = iid" "inv_org_id iv = oid"
    and "refused now iv"
  shows "\<exists>res. Submit k b P now oid iid (s, p) = (Inr res, s, p) \<and> r_Skipped res \<and> r_State res = inv_state iv"
proof -
  let ?s0 = "s\<lparr>scope := ScopeOrg oid, aborted := False\<rparr>"
  have "holds ?s0 oid iid iv" "\<not> aborted ?s0" using assms by (simp_all add: holds_def)
  from claim_refused [OF this assms(5)] obtain cl where
      c: "claim_tx k b now iid ?s0 = (Inr cl, ?s0)" and r: "r_Skipped (cl_res cl)" "r_State (cl_res cl) = inv_state iv"
    by blast
  have "submit_claim k b now oid iid s = (Inr cl, s)"
    unfolding submit_claim_def scope_defs using scoped_step [of "claim_tx k b now iid", OF c] by simp
  with r show ?thesis by (auto simp: Submit_def)
qed

lemma claim_effect:
  assumes w: "wf (tbl s)" and iv: "iv \<in> set (invoices s)" "inv_id iv = iid" "inv_org_id iv = oid"
    and due: "due now iv" and run: "submit_claim k b now oid iid s = (Inr cl, s1)"
  shows "claim_of iv cl \<and> s1 = s\<lparr>invoices := set_row iid (submitted (clock s)) (invoices s)\<rparr> \<and>
    \<not> r_Skipped (cl_res cl)"
proof -
  let ?s0 = "s\<lparr>scope := ScopeOrg oid, aborted := False\<rparr>"
  have h: "holds ?s0 oid iid iv" and na: "\<not> aborted ?s0" using w iv by (simp_all add: holds_def)
  from run obtain u where u: "claim_tx k b now iid ?s0 = (Inr cl, u)"
    and s1: "s1 = u\<lparr>scope := scope s, aborted := aborted s\<rparr>"
    by (auto simp: submit_claim_def scope_defs scoped_Inr_iff)
  from claim_taken [OF h na due u] iv(2) have c: "claim_of iv cl"
      "u = ?s0\<lparr>invoices := set_row iid (submitted (clock s)) (invoices s)\<rparr>" "\<not> r_Skipped (cl_res cl)"
    by (simp_all add: claim_of_def new_Result_def)
  have "s1 = s\<lparr>invoices := set_row iid (submitted (clock s)) (invoices s)\<rparr>"
    unfolding s1 c(2) by (cases s) simp
  with c show ?thesis by simp
qed



subsection \<open>The watchdog\<close>

definition rescued :: "time \<Rightarrow> Invoice \<Rightarrow> Invoice" where
  "rescued clk r = to_state StateFailedRetryable (Some (inv_attempt r + 1)) None (Some rescue_reason) clk r"

lemma rescued_simps [simp]: "inv_id (rescued clk r) = inv_id r" "inv_org_id (rescued clk r) = inv_org_id r"
  "inv_state (rescued clk r) = StateFailedRetryable" "inv_attempt (rescued clk r) = inv_attempt r + 1"
  "inv_kind (rescued clk r) = inv_kind r" "inv_receipt_code (rescued clk r) = inv_receipt_code r"
  by (simp_all add: rescued_def)

definition rescue_job :: "Invoice \<Rightarrow> JobRequest" where
  "rescue_job r = (SubmitInvoiceArgs (inv_org_id r) (inv_id r), None)"

lemma rescue_one:
  assumes w: "wf (tbl s)" and iv: "iv \<in> set (invoices s)" and st: "inv_state iv = StateSubmitted"
  obtains log where "ignore (WithOrg (inv_org_id iv) (rescue_tx iv)) s =
    (Inr (), s\<lparr>invoices := set_row (inv_id iv) (rescued (clock s)) (invoices s),
      jobs := jobs s @ [rescue_job iv], audit_log := log\<rparr>)"
proof -
  let ?oid = "inv_org_id iv" and ?i = "inv_id iv"
  let ?s0 = "s\<lparr>scope := ScopeOrg ?oid, aborted := False\<rparr>"
  let ?f = "to_state StateFailedRetryable (Some (inv_attempt iv + 1)) None (Some rescue_reason) (clock s)"
  have h: "holds ?s0 ?oid ?i iv" and na: "\<not> aborted ?s0" using w iv by (simp_all add: holds_def)
  have set: "SetInvoiceState ?i StateFailedRetryable (Some (inv_attempt iv + 1)) None (Some rescue_reason)
      StateSubmitted ?s0 = (Inr (?f iv), ?s0\<lparr>invoices := set_row ?i ?f (invoices s)\<rparr>)"
    using SetInvoiceState_holds [OF h na st, of StateFailedRetryable "Some (inv_attempt iv + 1)" None "Some rescue_reason"]
    by (simp add: state_valid_iff)
  have row: "set_row ?i ?f (invoices s) = set_row ?i (rescued (clock s)) (invoices s)"
    by (rule set_row_cong) (use wf_same_id [OF w _ iv] in \<open>auto simp: rescued_def\<close>)
  let ?log = "audit_log s @ [audit_of ?oid ''system'' None ''invoice.rescued'' ''invoice'' ?i
    (RescueAfter rescue_reason (inv_attempt iv + 1)) (clock s)]"
  let ?u = "?s0\<lparr>invoices := set_row ?i (rescued (clock s)) (invoices s),
      jobs := jobs s @ [rescue_job iv], audit_log := ?log\<rparr>"
  have "rescue_tx iv ?s0 = (Inr (), ?u)"
    using set unfolding row
    by (simp add: rescue_tx_def Let_def tbind_def EnqueueTx_def update_apply AppendAudit_def stmt_def own_def
      rescue_job_def audit_of_def)
  then have "WithOrg ?oid (rescue_tx iv) s = (Inr (), ?u\<lparr>scope := scope s, aborted := aborted s\<rparr>)"
    by (simp add: scope_defs scoped_def)
  moreover have "?u\<lparr>scope := scope s, aborted := aborted s\<rparr> =
      s\<lparr>invoices := set_row ?i (rescued (clock s)) (invoices s), jobs := jobs s @ [rescue_job iv], audit_log := ?log\<rparr>"
    by (cases s) simp
  ultimately show thesis by (intro that [of ?log]) (simp add: ignore_def)
qed

definition rescue_rows :: "time \<Rightarrow> uuid set \<Rightarrow> Invoice list \<Rightarrow> Invoice list" where
  "rescue_rows clk ids rows = map (\<lambda>r. if inv_id r \<in> ids then rescued clk r else r) rows"

lemma rescue_all:
  assumes "wf (tbl s)" and "set xs \<subseteq> set (invoices s)" and "distinct (map inv_id xs)"
    and "\<forall>iv \<in> set xs. inv_state iv = StateSubmitted"
  shows "\<exists>log. for_each (\<lambda>iv. ignore (WithOrg (inv_org_id iv) (rescue_tx iv))) xs s =
    (Inr (), s\<lparr>invoices := rescue_rows (clock s) (inv_id ` set xs) (invoices s),
      jobs := jobs s @ map rescue_job xs, audit_log := log\<rparr>)"
  using assms
proof (induction xs arbitrary: s)
  case Nil
  have "rescue_rows (clock s) {} (invoices s) = invoices s" by (simp add: rescue_rows_def)
  then show ?case by (intro exI [of _ "audit_log s"]) simp
next
  case (Cons iv xs)
  have iv: "iv \<in> set (invoices s)" "inv_state iv = StateSubmitted" using Cons.prems by auto
  from Cons.prems(1) iv obtain log where one: "ignore (WithOrg (inv_org_id iv) (rescue_tx iv)) s =
    (Inr (), s\<lparr>invoices := set_row (inv_id iv) (rescued (clock s)) (invoices s),
      jobs := jobs s @ [rescue_job iv], audit_log := log\<rparr>)" by (rule rescue_one)
  let ?s1 = "s\<lparr>invoices := set_row (inv_id iv) (rescued (clock s)) (invoices s),
      jobs := jobs s @ [rescue_job iv], audit_log := log\<rparr>"
  have "wf (tbl (s\<lparr>invoices := set_row (inv_id iv) (rescued (clock s)) (invoices s)\<rparr>))"
    using Cons.prems(1) by (rule set_row_wf) (simp_all add: state_valid_iff)
  then have w1: "wf (tbl ?s1)" by (simp add: wf_defs)
  have sub: "set xs \<subseteq> set (invoices ?s1)"
  proof
    fix x
    assume "x \<in> set xs"
    then have "x \<in> set (invoices s)" "inv_id x \<in> inv_id ` set xs" using Cons.prems(2) by auto
    moreover from this(2) have "inv_id x \<noteq> inv_id iv" using Cons.prems(3) by auto
    ultimately have "x \<in> set (set_row (inv_id iv) (rescued (clock s)) (invoices s))"
      unfolding set_row_def by (force simp: image_iff)
    then show "x \<in> set (invoices ?s1)" by simp
  qed
  from Cons.IH [OF w1 sub] Cons.prems(3,4) obtain log' where
    rest: "for_each (\<lambda>iv. ignore (WithOrg (inv_org_id iv) (rescue_tx iv))) xs ?s1 =
    (Inr (), ?s1\<lparr>invoices := rescue_rows (clock s) (inv_id ` set xs) (invoices ?s1),
      jobs := jobs ?s1 @ map rescue_job xs, audit_log := log'\<rparr>)" by auto
  have "rescue_rows (clock s) (inv_id ` set xs) (set_row (inv_id iv) (rescued (clock s)) (invoices s)) =
      rescue_rows (clock s) (inv_id ` set (iv # xs)) (invoices s)"
    using Cons.prems(3) by (auto simp: rescue_rows_def set_row_def)
  with one rest show ?case by (intro exI [of _ log']) simp
qed

definition stale :: "db \<Rightarrow> Invoice \<Rightarrow> bool" where
  "stale s r \<longleftrightarrow> inv_state r = StateSubmitted \<and> inv_updated_at r < clock s - 15 * minute"

lemma rescue_effect:
  assumes w: "wf (tbl s)"
  obtains log js where "RescueStaleInvoices s = (Inr (),
      s\<lparr>invoices := map (\<lambda>r. if stale s r then rescued (clock s) r else r) (invoices s),
        jobs := jobs s @ map rescue_job js, audit_log := log\<rparr>)"
    and "set js = {r \<in> set (invoices s). stale s r}" and "distinct js"
proof -
  let ?js = "sort_key inv_updated_at (filter (stale s) (invoices s))"
  let ?s0 = "s\<lparr>scope := ScopeAdmin, aborted := False\<rparr>"
  have "ListStaleSubmittedInvoices ?s0 = (Inr ?js, ?s0)"
    by (simp add: ListStaleSubmittedInvoices_def query_apply sees_invoice_def stale_def [abs_def])
  then have l: "WithAdmin ListStaleSubmittedInvoices s = (Inr ?js, s)"
    by (simp add: scope_defs scoped_def)
  have d: "distinct (map inv_id (invoices s))" using w by (simp add: wf_defs keyed_def)
  have dj: "distinct (map inv_id ?js)"
  proof -
    have "distinct (invoices s)" "inj_on inv_id (set (invoices s))" using d by (auto simp: distinct_map)
    then show ?thesis by (auto simp: distinct_map intro: inj_on_subset)
  qed
  have sub: "set ?js \<subseteq> set (invoices s)" and st: "\<forall>iv \<in> set ?js. inv_state iv = StateSubmitted"
    by (auto simp: stale_def)
  from rescue_all [OF w sub dj st] obtain log where
    r: "for_each (\<lambda>iv. ignore (WithOrg (inv_org_id iv) (rescue_tx iv))) ?js s =
    (Inr (), s\<lparr>invoices := rescue_rows (clock s) (inv_id ` set ?js) (invoices s),
      jobs := jobs s @ map rescue_job ?js, audit_log := log\<rparr>)" by blast
  have "inv_id r \<in> inv_id ` set ?js \<longleftrightarrow> stale s r" if "r \<in> set (invoices s)" for r
    using wf_same_id [OF w that] that by auto
  then have "rescue_rows (clock s) (inv_id ` set ?js) (invoices s) =
      map (\<lambda>r. if stale s r then rescued (clock s) r else r) (invoices s)"
    unfolding rescue_rows_def by (intro map_cong) auto
  with l r dj show thesis
    by (intro that [of log ?js]) (auto simp: RescueStaleInvoices_def tbind_def distinct_map)
qed


definition stuck_db :: db where
  "stuck_db = sold_db\<lparr>scope := ScopeNone, clock := 3600 * second,
     invoices := [acked_invoice\<lparr>inv_state := StateSubmitted, inv_attempt := 1, inv_kra_invoice_no := None\<rparr>]\<rparr>"

lemma wf_stuck: "wf (tbl stuck_db)"
  by (simp add: wf_defs keyed_def stuck_db_def sold_db_def shop_db_def empty_db_def acked_invoice_def
    new_invoice_def state_valid_iff)


subsection \<open>A lost answer\<close>


definition released_invoice :: Invoice where
  "released_invoice = queued_invoice\<lparr>inv_state := StateFailedRetryable, inv_attempt := 2\<rparr>"

definition released_db :: db where
  "released_db = queued_db\<lparr>invoices := [released_invoice]\<rparr>"

lemma released_facts:
  "wf (tbl released_db)" "released_invoice \<in> set (invoices released_db)" "inv_id released_invoice = 5"
  "inv_org_id released_invoice = 1" "due 0 released_invoice" "0 < inv_attempt released_invoice"
  by (simp_all add: wf_defs keyed_def released_db_def released_invoice_def queued_db_def acked_db_def sold_db_def
    shop_db_def empty_db_def queued_invoice_def acked_invoice_def new_invoice_def state_valid_iff due_def
    exhausted_def Resolve_Some MaxAttempts_def)

definition old_ack :: Ack where
  "old_ack = \<lparr>KRAInvoiceNo = ''KRA-9'', Signature = ''SIG'', QRPayload = ''Q'', ReceivedAt = 3, Raw = []\<rparr>"

definition known_state :: MockState where
  "known_state = (mock_New FailNone 5)\<lparr>acks := [uuid_String 5 \<mapsto> old_ack]\<rparr>"


text \<open>
  C36. Given up without saying so: an invoice that is FAILED_RETRYABLE with its attempts used
  up goes to NEEDS_REVIEW, but the claim is not marked as skipped, so the attempt goes on
  and calls the provider with an empty document.
\<close>

theorem exhausted_submits_empty_document:
  assumes w: "wf (tbl s)" and iv: "iv \<in> set (invoices s)" "inv_id iv = iid" "inv_org_id iv = oid"
    and st: "inv_state iv = StateFailedRetryable" "exhausted iv"
  shows "\<exists>cl s1. submit_claim k b now oid iid s = (Inr cl, s1) \<and> cl_doc cl = no_doc \<and>
    \<not> r_Skipped (cl_res cl) \<and>
    invoices s1 = set_row iid (\<lambda>_. to_state StateNeedsReview None None (inv_last_error iv) (clock s) iv) (invoices s) \<and>
    snd (snd (Submit k b P now oid iid (s, p))) = snd (SubmitInvoice P no_doc p)"
proof -
  let ?s0 = "s\<lparr>scope := ScopeOrg oid, aborted := False\<rparr>"
  let ?f = "to_state StateFailedTerminal None None (inv_last_error iv) (clock s)"
  let ?g = "to_state StateNeedsReview None None (inv_last_error iv) (clock s)"
  let ?s1 = "?s0\<lparr>invoices := set_row iid ?f (invoices s)\<rparr>"
  let ?cl = "no_claim ((new_Result iid)\<lparr>r_State := StateNeedsReview\<rparr>)"
  have h: "holds ?s0 oid iid iv" and na: "\<not> aborted ?s0" using w iv by (simp_all add: holds_def)
  have v: "state_valid StateFailedTerminal" "state_valid StateNeedsReview" by (simp_all add: state_valid_iff)
  note one = SetInvoiceState_holds [OF h na st(1) v(1), of None None "inv_last_error iv"]
  have h1: "holds ?s1 oid iid (?f iv)" using holds_to_state [OF h v(1)] by simp
  have na1: "\<not> aborted ?s1" and st1: "inv_state (?f iv) = StateFailedTerminal" by simp_all
  note two = SetInvoiceState_holds [OF h1 na1 st1 v(2), of None None "inv_last_error iv"]
  have rows: "set_row iid ?g (set_row iid ?f (invoices s)) = set_row iid (\<lambda>_. ?g iv) (invoices s)"
    using wf_same_id [OF w _ iv(1)] iv(2)
    by (subst set_row_comp) (auto simp: to_state_twice intro!: set_row_cong)
  let ?s2 = "?s1\<lparr>invoices := set_row iid (\<lambda>_. ?g iv) (invoices s)\<rparr>"
  have "claim_tx k b now iid ?s0 = (Inr ?cl, ?s2)"
    using GetInvoice_holds [OF h na] st one two rows
    by (simp add: claim_tx_def Let_def give_up_def)
  then have c: "submit_claim k b now oid iid s = (Inr ?cl, ?s2\<lparr>scope := scope s, aborted := aborted s\<rparr>)"
    by (simp add: submit_claim_def scope_defs scoped_def)
  have "submit_call P ?cl p = SubmitInvoice P no_doc p"
    by (simp add: submit_call_def lookup_first_def no_claim_def)
  then have "snd (snd (Submit k b P now oid iid (s, p))) = snd (SubmitInvoice P no_doc p)"
    using c by (simp add: Submit_def no_claim_def new_Result_def split: prod.splits)
  with c show ?thesis by (auto simp: no_claim_def new_Result_def)
qed

definition spent_invoice :: Invoice where
  "spent_invoice = released_invoice\<lparr>inv_attempt := 6\<rparr>"

definition spent_db :: db where
  "spent_db = queued_db\<lparr>invoices := [spent_invoice]\<rparr>"

theorem exhausted_submits_empty_document_witness:
  "\<exists>cl s1. submit_claim plain_keyring id 0 1 5 spent_db = (Inr cl, s1) \<and> cl_doc cl = no_doc \<and>
     \<not> r_Skipped (cl_res cl) \<and> map inv_state (invoices s1) = [StateNeedsReview]"
proof -
  have "wf (tbl spent_db)" "spent_invoice \<in> set (invoices spent_db)" "inv_id spent_invoice = 5"
    "inv_org_id spent_invoice = 1" "inv_state spent_invoice = StateFailedRetryable" "exhausted spent_invoice"
    by (simp_all add: wf_defs keyed_def spent_db_def spent_invoice_def released_invoice_def queued_db_def acked_db_def
      sold_db_def shop_db_def empty_db_def queued_invoice_def acked_invoice_def new_invoice_def state_valid_iff
      exhausted_def Resolve_Some MaxAttempts_def)
  from exhausted_submits_empty_document [OF this, of plain_keyring id 0] show ?thesis
    by (fastforce simp: set_row_def spent_db_def spent_invoice_def released_invoice_def queued_invoice_def
      acked_invoice_def new_invoice_def)
qed

end
