(* ===== verification/GateProps.thy ===== *)
theory GateProps
  imports Shortcodes SubmitProps InvoiceProps
begin

text \<open>
  What the administrative gate guarantees. The locale \<open>gate_frame\<close> adds the statements on
  \<open>mpesa_shortcodes\<close> to the writes a relation must keep; it is interpreted on the ledger's
  three relations (so the gate's operations keep history, isolation and well-formedness)
  and on the gate's own invariant: ids are unique, every row satisfies the schema's checks
  and a number has at most one verified owner.
\<close>

subsection \<open>Operations along a relation\<close>

locale gate_frame = write_frame +
  assumes k_CreateShortcode: "keeps S R (CreateShortcode oid kind code label item auto)"
    and k_update_shortcode:
      "(\<And>now r. sc_id (f now r) = sc_id r \<and> sc_org_id (f now r) = sc_org_id r \<and>
          sc_shortcode (f now r) = sc_shortcode r) \<Longrightarrow> keeps S R (update_shortcode i f)"
    and k_MarkC2BRegistered: "keeps S R (MarkShortcodeC2BRegistered i)"
begin

lemma keeps_shortcode_reads:
  "keeps S' R (ListShortcodes oid)" "keeps S' R (ListShortcodesByStatus st limit)"
  "keeps S' R (GetShortcodeAdmin i)" "keeps S' R (FindShortcodesByNumber code)"
  "keeps S' R (CountVerifiedShortcodeElsewhere code oid)"
  unfolding ListShortcodes_def ListShortcodesByStatus_def GetShortcodeAdmin_def
    FindShortcodesByNumber_def CountVerifiedShortcodeElsewhere_def
  by (simp_all add: keeps_query keeps_query_one)

lemma keeps_shortcode_writes:
  "keeps S R (VerifyShortcode i by')" "keeps S R (RejectShortcode i by' reason)"
  "keeps S R (SetShortcodeAuthorizationLetter i path)" "keeps S R (UpdateShortcode i label item auto)"
  unfolding VerifyShortcode_def RejectShortcode_def SetShortcodeAuthorizationLetter_def
    UpdateShortcode_def
  by (intro k_update_shortcode; simp)+

lemmas keeps_gate = keeps_all keeps_shortcode_reads keeps_shortcode_writes k_CreateShortcode
  k_MarkC2BRegistered

lemma keeps_answer: "keeps S' R m \<Longrightarrow> keeps S' R (answer m bad good)"
  unfolding answer_def by (intro keeps_intros)

lemma keeps_idParam: "(\<And>i. keeps S' R (h i)) \<Longrightarrow> keeps S' R (idParam pid h)"
  unfolding idParam_def by (intro keeps_intros)

lemma keeps_known_item: "keeps S R (known_item item)"
  unfolding known_item_def by (intro keeps_gate)

lemma keeps_createShortcode:
  assumes "ScopeOrg (pr_OrgID p) \<in> S" and "ScopeIngest \<in> S"
  shows "keeps S' R (createShortcode p body)"
  unfolding createShortcode_def create_shortcode_tx_def claimedElsewhere_def scope_defs Let_def
  by (intro keeps_gate keeps_answer keeps_scope assms keeps_known_item)

lemma keeps_updateShortcode:
  "ScopeOrg (pr_OrgID p) \<in> S \<Longrightarrow> keeps S' R (updateShortcode p pid body)"
  unfolding updateShortcode_def scope_defs
  by (intro keeps_idParam keeps_gate keeps_answer keeps_scope keeps_known_item)

lemma keeps_SubmitAuthorization:
  "ScopeOrg oid \<in> S \<Longrightarrow> keeps S' R (SubmitAuthorization put sha now oid uid i ctype content)"
  unfolding SubmitAuthorization_def scope_defs Let_def
  by (intro keeps_gate keeps_scope)

lemma keeps_letter_part: "(\<And>c b. keeps S' R (store c b)) \<Longrightarrow> keeps S' R (letter_part store evs)"
  by (induction store evs rule: letter_part.induct) (simp_all add: keeps_ret)

lemma keeps_submitAuthorization:
  "ScopeOrg (pr_OrgID p) \<in> S \<Longrightarrow> keeps S' R (submitAuthorization files sha now p pid parts)"
  unfolding submitAuthorization_def
  by (intro keeps_idParam keeps_intros keeps_letter_part keeps_answer keeps_SubmitAuthorization)

lemma keeps_admin_Get: "ScopeAdmin \<in> S \<Longrightarrow> keeps S' R (admin_Get k i)"
  unfolding admin_Get_def scope_defs by (intro keeps_scope keeps_gate)

lemma keeps_verify_tx: "ScopeOrg oid \<in> S \<Longrightarrow> keeps S' R (WithOrg oid (verify_tx oid i by' remark))"
  unfolding verify_tx_def scope_defs by (intro keeps_gate keeps_scope)

lemma keeps_Verify:
  assumes "ScopeAdmin \<in> S" and "\<And>oid. ScopeOrg oid \<in> S"
  shows "keeps S' R (Verify k daraja i by' remark)"
  unfolding Verify_def
  by (intro keeps_intros keeps_verify_tx assms keeps_admin_Get) (simp add: scope_defs assms keeps_scope k_MarkC2BRegistered)

lemma keeps_Reject:
  assumes "ScopeAdmin \<in> S" and "\<And>oid. ScopeOrg oid \<in> S"
  shows "keeps S' R (Reject k i by' reason)"
  unfolding Reject_def scope_defs
  by (intro keeps_gate keeps_scope assms keeps_admin_Get)

end

subsection \<open>The ledger's relations\<close>

lemmas shortcode_defs = CreateShortcode_def update_shortcode_def MarkShortcodeC2BRegistered_def Let_def

interpretation history: gate_frame history UNIV
  by (intro gate_frame.intro history.write_frame_axioms gate_frame_axioms.intro; unfold shortcode_defs;
    rule history_stmt history_update;
    force simp: history_other split: if_splits option.splits)

interpretation wf: gate_frame keeps_wf UNIV
  by (intro gate_frame.intro wf.write_frame_axioms gate_frame_axioms.intro; unfold shortcode_defs;
    rule wf_stmt wf_update;
    force simp: wf_other split: if_splits option.splits)

interpretation isolated: gate_frame "isolated oid" "tenant_scopes oid" for oid
  by (intro gate_frame.intro isolated.write_frame_axioms gate_frame_axioms.intro; unfold shortcode_defs;
    rule isolated_stmt isolated_update;
    force simp: isolated_def split: if_splits option.splits
      intro!: others_single others_update_rows dest: own_tenant)

subsection \<open>One verified owner per number\<close>

definition gate :: "tables \<Rightarrow> bool" where
  "gate t \<longleftrightarrow> keyed sc_id sc_id (next_id t) (mpesa_shortcodes t) \<and>
     (\<forall>r \<in> set (mpesa_shortcodes t). shortcode_checks r) \<and>
     (\<forall>q \<in> set (mpesa_shortcodes t). \<forall>r \<in> set (mpesa_shortcodes t).
        sc_status q = ''verified'' \<longrightarrow> sc_status r = ''verified'' \<longrightarrow>
        sc_shortcode q = sc_shortcode r \<longrightarrow> q = r)"

definition keeps_gate_rel :: "tables \<Rightarrow> tables \<Rightarrow> bool" where
  "keeps_gate_rel t u \<longleftrightarrow> (gate t \<longrightarrow> gate u)"

lemma gate_table_frame: "table_frame keeps_gate_rel"
  by unfold_locales (auto simp: keeps_gate_rel_def)

lemmas gate_stmt = table_frame.keeps_stmt [OF gate_table_frame]
lemmas gate_update = table_frame.keeps_update [OF gate_table_frame]

lemma gate_other:
  "mpesa_shortcodes u = mpesa_shortcodes t \<Longrightarrow> next_id t \<le> next_id u \<Longrightarrow> keeps_gate_rel t u"
  by (auto simp: keeps_gate_rel_def gate_def elim: keyed_mono)

lemma gate_update_invoice: "keeps S keeps_gate_rel (update_invoice p f)"
  by (rule keeps_update_invoice) (simp_all add: gate_other)

lemma gate_row:
  assumes "gate t" and "q \<in> set (mpesa_shortcodes t)" and "r \<in> set (mpesa_shortcodes t)"
    and "sc_id q = sc_id r"
  shows "q = r"
  using assms unfolding gate_def keyed_def by (metis inj_onD distinct_map)

lemma gate_update_rows:
  assumes g: "gate (tbl s)" and r: "find (\<lambda>r. own s (sc_org_id r) \<and> sc_id r = i) (mpesa_shortcodes s) = Some r"
    and same: "\<And>r. sc_id (f r) = sc_id r \<and> sc_shortcode (f r) = sc_shortcode r"
    and ok: "shortcode_checks (f r)" "\<not> claimed_by_other (f r) (mpesa_shortcodes s)"
  shows "gate (tbl (s\<lparr>mpesa_shortcodes :=
    update_rows (\<lambda>r. own s (sc_org_id r) \<and> sc_id r = i) f (mpesa_shortcodes s)\<rparr>))"
proof -
  let ?p = "\<lambda>r. own s (sc_org_id r) \<and> sc_id r = i"
  let ?rows = "update_rows ?p f (mpesa_shortcodes s)"
  from r have r': "r \<in> set (mpesa_shortcodes s)" "?p r" by (auto simp: find_Some_iff)
  have only: "q = r" if "q \<in> set (mpesa_shortcodes s)" "?p q" for q
    using gate_row [OF g, of q r] that r' by simp
  have mem: "q = f r \<or> q \<in> set (mpesa_shortcodes s) \<and> q \<noteq> r \<and> sc_id q \<noteq> sc_id r" if q: "q \<in> set ?rows" for q
  proof -
    obtain x where x: "x \<in> set (mpesa_shortcodes s)" "q = (if ?p x then f x else x)"
      using q unfolding set_update_rows by blast
    show ?thesis
    proof (cases "?p x")
      case True
      with x only show ?thesis by metis
    next
      case False
      then have "x \<noteq> r" using r' by blast
      moreover have "sc_id x \<noteq> sc_id r" using \<open>x \<noteq> r\<close> gate_row [OF g] x(1) r'(1) by (metis tbl_sel(4))
      ultimately show ?thesis using x False by (metis (full_types))
    qed
  qed
  have keyed: "keyed sc_id sc_id (next_id s) ?rows"
    using g same by (auto simp: gate_def intro!: keyed_update_rows)
  have checks: "\<forall>q \<in> set ?rows. shortcode_checks q"
    using mem g ok(1) by (fastforce simp: gate_def)
  have one: "q = q'" if "q \<in> set ?rows" "q' \<in> set ?rows" "sc_status q = ''verified''"
      "sc_status q' = ''verified''" "sc_shortcode q = sc_shortcode q'" for q q'
  proof -
    have new: False if "x \<in> set (mpesa_shortcodes s)" "sc_id x \<noteq> sc_id r" "sc_status x = ''verified''"
        "sc_status (f r) = ''verified''" "sc_shortcode x = sc_shortcode (f r)" for x
      using ok(2) that same [of r] by (auto simp: claimed_by_other_def list_ex_iff)
    have old: "x = y" if "x \<in> set (mpesa_shortcodes s)" "y \<in> set (mpesa_shortcodes s)"
        "sc_status x = ''verified''" "sc_status y = ''verified''" "sc_shortcode x = sc_shortcode y" for x y
      using g that by (auto simp: gate_def)
    show ?thesis
      using mem [OF that(1)] mem [OF that(2)] that(3-5) new [of q] new [of q'] old [of q q'] by metis
  qed
  show ?thesis using keyed checks one by (simp add: gate_def)
qed

lemma gate_harmless:
  assumes "gate (tbl s)"
    and "\<And>r. sc_id (f r) = sc_id r \<and> sc_kind (f r) = sc_kind r \<and> sc_status (f r) = sc_status r \<and>
      sc_shortcode (f r) = sc_shortcode r \<and> sc_verified_at (f r) = sc_verified_at r"
  shows "gate (tbl (s\<lparr>mpesa_shortcodes := update_rows p f (mpesa_shortcodes s)\<rparr>))"
proof -
  have one: "\<forall>q \<in> set (mpesa_shortcodes s). \<forall>r \<in> set (mpesa_shortcodes s). sc_status q = ''verified'' \<longrightarrow>
      sc_status r = ''verified'' \<longrightarrow> sc_shortcode q = sc_shortcode r \<longrightarrow> q = r"
    using assms(1) by (simp add: gate_def)
  have same: "sc_status (if p r then f r else r) = sc_status r"
    "sc_shortcode (if p r then f r else r) = sc_shortcode r" for r using assms(2) by simp_all
  have "keyed sc_id sc_id (next_id s) (update_rows p f (mpesa_shortcodes s))"
    using assms by (auto simp: gate_def intro!: keyed_update_rows)
  moreover have "\<forall>r \<in> set (update_rows p f (mpesa_shortcodes s)). shortcode_checks r"
    using assms by (auto simp: gate_def shortcode_checks_def update_rows_def)
  moreover have "q = r" if q: "q \<in> set (update_rows p f (mpesa_shortcodes s))"
      "r \<in> set (update_rows p f (mpesa_shortcodes s))" "sc_status q = ''verified''"
      "sc_status r = ''verified''" "sc_shortcode q = sc_shortcode r" for q r
  proof -
    obtain x y where "x \<in> set (mpesa_shortcodes s)" "y \<in> set (mpesa_shortcodes s)"
        "q = (if p x then f x else x)" "r = (if p y then f y else y)"
      using q(1,2) unfolding set_update_rows by blast
    moreover from this q(3-5) one same have "x = y" by metis
    ultimately show ?thesis by simp
  qed
  ultimately show ?thesis unfolding gate_def by simp
qed

interpretation gate: write_frame keeps_gate_rel UNIV
proof (intro write_frame.intro gate_table_frame write_frame_axioms.intro, goal_cases)
  case (17 old i new att nxt err)
  show ?case unfolding SetInvoiceState_def by (rule gate_update_invoice)
next
  case (18 i no sig qr at)
  show ?case unfolding AckInvoice_def by (rule gate_update_invoice)
next
  case (19 i)
  show ?case unfolding ResetInvoiceForRetry_def by (rule gate_update_invoice)
qed (unfold write_defs Let_def,
  (rule gate_stmt gate_update, auto split: if_splits intro!: gate_other)+)

interpretation gate: global_frame keeps_gate_rel UNIV
  by (intro global_frame.intro store_frame.intro gate.write_frame_axioms store_frame_axioms.intro
      global_frame_axioms.intro refl)
    (simp add: SupersedeInvoice_def gate.keeps_exec gate_update_invoice)

interpretation gate: gate_frame keeps_gate_rel UNIV
proof (intro gate_frame.intro gate.write_frame_axioms gate_frame_axioms.intro, goal_cases)
  case (1 oid kind code label item auto)
  show ?case unfolding CreateShortcode_def Let_def
    by (rule gate_stmt) (auto simp: keeps_gate_rel_def gate_def keyed_def less_Suc_eq split: if_splits)
next
  case (2 f i)
  show ?case unfolding update_shortcode_def Let_def
    by (rule gate_stmt) (auto simp: keeps_gate_rel_def 2 split: if_splits option.splits
      intro!: gate_update_rows)
next
  case (3 i)
  show ?case unfolding MarkShortcodeC2BRegistered_def
    by (rule gate_update) (simp add: keeps_gate_rel_def gate_harmless)
qed

subsection \<open>Verdicts\<close>

definition holder :: "db \<Rightarrow> uuid \<Rightarrow> Shortcode \<Rightarrow> Org \<Rightarrow> bool" where
  "holder s i r g \<longleftrightarrow> r \<in> set (mpesa_shortcodes s) \<and> sc_id r = i \<and>
     row_by org_id (sc_org_id r) (orgs s) = Some g"

definition verdict :: "uuid \<Rightarrow> (Shortcode \<Rightarrow> Shortcode) \<Rightarrow> db \<Rightarrow> db" where
  "verdict i f s = s\<lparr>mpesa_shortcodes := update_rows (\<lambda>r. sc_id r = i) f (mpesa_shortcodes s)\<rparr>"

lemma shortcode_by_id:
  assumes "gate (tbl s)" and "r \<in> set (mpesa_shortcodes s)" and "P r"
  shows "find (\<lambda>q. P q \<and> sc_id q = sc_id r) (mpesa_shortcodes s) = Some r"
proof (rule find_unique)
  show "q = r" if "q \<in> set (mpesa_shortcodes s)" "P q \<and> sc_id q = sc_id r" for q
    using gate_row [OF assms(1), of q r] assms(2) that by simp
qed (use assms in simp_all)

lemma admin_Get_holder:
  assumes "gate (tbl s)" and "holder s i r g"
  shows "admin_Get k i s = (Inr (ToAdminShortcode k r (org_name g) (org_kra_pin_enc g)), s)"
proof -
  have "find (\<lambda>q. sees_shortcode (s\<lparr>scope := ScopeAdmin, aborted := False\<rparr>) q \<and> sc_id q = i)
      (mpesa_shortcodes s) = Some r"
    using shortcode_by_id [OF assms(1), of r "\<lambda>_. True"] assms(2)
    by (simp add: holder_def sees_shortcode_def)
  with assms(2) show ?thesis
    by (simp add: admin_Get_def scope_defs scoped_def GetShortcodeAdmin_def query_one_apply org_of_def
        holder_def tbind_def)
qed

lemma own_update_shortcode:
  assumes "gate (tbl s)" and "r \<in> set (mpesa_shortcodes s)" and "sc_id r = i" and "\<not> aborted s"
    and "scope s = ScopeOrg (sc_org_id r)"
  shows "update_shortcode i f s =
    (if \<not> shortcode_checks (f (clock s) r) then (Inl check_violation, s\<lparr>aborted := True\<rparr>)
     else if claimed_by_other (f (clock s) r) (mpesa_shortcodes s) then (Inl unique_violation, s\<lparr>aborted := True\<rparr>)
     else (Inr (f (clock s) r), verdict i (f (clock s)) s))"
proof -
  have "find (\<lambda>q. own s (sc_org_id q) \<and> sc_id q = i) (mpesa_shortcodes s) = Some r"
    using shortcode_by_id [OF assms(1,2), of "\<lambda>q. own s (sc_org_id q)"] assms(3,5) by (simp add: own_def)
  moreover have "update_rows (\<lambda>q. own s (sc_org_id q) \<and> sc_id q = i) f' (mpesa_shortcodes s) =
      update_rows (\<lambda>q. sc_id q = i) f' (mpesa_shortcodes s)" for f'
    unfolding update_rows_def
  proof (rule map_cong [OF refl])
    show "(if own s (sc_org_id q) \<and> sc_id q = i then f' q else q) = (if sc_id q = i then f' q else q)"
      if "q \<in> set (mpesa_shortcodes s)" for q
      using gate_row [OF assms(1), of q r] assms(2,3,5) that by (auto simp: own_def)
  qed
  ultimately show ?thesis
    using assms(4) by (simp add: update_shortcode_def stmt_def verdict_def pg_errors Let_def)
qed

definition verified_row :: "string \<Rightarrow> time \<Rightarrow> Shortcode \<Rightarrow> Shortcode" where
  "verified_row by' now r = r\<lparr>sc_status := ''verified'', sc_verified_at := Some now,
     sc_reviewed_by := Some by', sc_reviewed_at := Some now, sc_rejection_reason := None\<rparr>"

lemma verify_tx_run:
  assumes "gate (tbl s)" and "holder s i r g"
  shows "WithOrg (sc_org_id r) (verify_tx (sc_org_id r) i by' remark) s =
    (if claimed_by_other (verified_row by' (clock s) r) (mpesa_shortcodes s)
     then (Inl ErrShortcodeClaimed, s)
     else (Inr (verified_row by' (clock s) r), (verdict i (verified_row by' (clock s)) s)\<lparr>audit_log :=
       audit_log s @ [audit_of (sc_org_id r) ''admin'' (Some by') ''shortcode.verified''
         ''mpesa_shortcode'' i (NoteAfter remark) (clock s)]\<rparr>))"
proof -
  let ?s = "s\<lparr>scope := ScopeOrg (sc_org_id r), aborted := False\<rparr>"
  have g: "gate (tbl ?s)" and h: "r \<in> set (mpesa_shortcodes s)" "sc_id r = i"
    using assms by (auto simp: holder_def)
  then have "shortcode_checks r" using assms(1) by (simp add: gate_def)
  then have checks: "shortcode_checks (verified_row by' (clock s) r)"
    by (simp add: shortcode_checks_def verified_row_def)
  have f: "VerifyShortcode i by' = update_shortcode i (verified_row by')"
    unfolding VerifyShortcode_def verified_row_def by (rule refl)
  note run = own_update_shortcode [OF g, of r i "verified_row by'", folded f, simplified, OF h]
  show ?thesis
  proof (cases "claimed_by_other (verified_row by' (clock s) r) (mpesa_shortcodes s)")
    case True
    with run checks show ?thesis
      by (simp add: verify_tx_def scope_defs scoped_def tbind_def attempt_def rollback_def
          isUniqueViolation_def pg_errors is_panic_def)
  next
    case False
    with run checks show ?thesis
      by (cases s) (simp add: verify_tx_def scope_defs scoped_def tbind_def AppendAudit_def stmt_def
          own_def verdict_def audit_of_def attempt_def)
  qed
qed

definition registered_row :: "bool \<Rightarrow> time \<Rightarrow> Shortcode \<Rightarrow> Shortcode" where
  "registered_row b now r = (if b then r\<lparr>sc_c2b_registered_at := Some now\<rparr> else r)"

lemma registered_row_eq:
  "registered_row True now = (\<lambda>r. r\<lparr>sc_c2b_registered_at := Some now\<rparr>)"
  "registered_row False now = (\<lambda>r. r)"
  by (simp_all add: registered_row_def fun_eq_iff)

lemma verdict_holder:
  assumes "holder s i r g" and "\<And>r. sc_id (f r) = sc_id r \<and> sc_org_id (f r) = sc_org_id r"
  shows "holder ((verdict i f s)\<lparr>audit_log := l\<rparr>) i (f r) g"
  using assms by (auto simp: holder_def verdict_def set_update_rows)

lemma verdict_twice:
  assumes "\<And>r. sc_id (f r) = sc_id r"
  shows "verdict i h ((verdict i f s)\<lparr>audit_log := l\<rparr>) = (verdict i (h \<circ> f) s)\<lparr>audit_log := l\<rparr>"
  using assms by (simp add: verdict_def update_rows_def)

lemma mark_registered:
  assumes "gate (tbl s)" and "holder s i r g"
  shows "ignore (WithOrg (sc_org_id r) (MarkShortcodeC2BRegistered i)) s =
    (Inr (), verdict i (registered_row True (clock s)) s)"
proof -
  have "update_rows (\<lambda>q. own (s\<lparr>scope := ScopeOrg (sc_org_id r), aborted := False\<rparr>) (sc_org_id q) \<and> sc_id q = i)
      f (mpesa_shortcodes s) = update_rows (\<lambda>q. sc_id q = i) f (mpesa_shortcodes s)" for f
    unfolding update_rows_def
  proof (rule map_cong [OF refl])
    show "(if own (s\<lparr>scope := ScopeOrg (sc_org_id r), aborted := False\<rparr>) (sc_org_id q) \<and> sc_id q = i
        then f q else q) = (if sc_id q = i then f q else q)" if "q \<in> set (mpesa_shortcodes s)" for q
      using gate_row [OF assms(1), of q r] assms(2) that by (auto simp: own_def holder_def)
  qed
  then show ?thesis
    by (cases s) (simp add: ignore_def scope_defs scoped_def MarkShortcodeC2BRegistered_def update_apply
        verdict_def registered_row_eq tbind_def attempt_def)
qed

lemma Verify_run:
  assumes g: "gate (tbl s)" and h: "holder s i r og" and "sc_status r \<noteq> ''verified''"
    and free: "\<not> claimed_by_other (verified_row by' (clock s) r) (mpesa_shortcodes s)"
  obtains b l where "Verify k daraja i by' remark s =
    (Inr (ToAdminShortcode k (registered_row b (clock s) (verified_row by' (clock s) r)) (org_name og) (org_kra_pin_enc og)),
     (verdict i (registered_row b (clock s) \<circ> verified_row by' (clock s)) s)\<lparr>audit_log := l\<rparr>)"
proof -
  let ?f = "verified_row by' (clock s)"
  define l where "l = audit_log s @ [audit_of (sc_org_id r) ''admin'' (Some by') ''shortcode.verified''
    ''mpesa_shortcode'' i (NoteAfter remark) (clock s)]"
  define s1 where "s1 = (verdict i ?f s)\<lparr>audit_log := l\<rparr>"
  have tx: "WithOrg (sc_org_id r) (verify_tx (sc_org_id r) i by' remark) s = (Inr (?f r), s1)"
    using verify_tx_run [OF g h] free by (simp add: s1_def l_def)
  have org: "sc_org_id (?f r) = sc_org_id r" by (simp add: verified_row_def)
  have h1: "holder s1 i (?f r) og"
    unfolding s1_def by (rule verdict_holder [OF h]) (simp add: verified_row_def)
  have g1: "gate (tbl s1)"
    using keeps_tables [OF gate.keeps_verify_tx [of "sc_org_id r" UNIV i by' remark], of s] g tx
    by (simp add: keeps_gate_rel_def)
  define b where "b \<longleftrightarrow> (case daraja of None \<Rightarrow> False | Some reg \<Rightarrow> reg (sc_shortcode r) = None)"
  define s2 where "s2 = verdict i (registered_row b (clock s)) s1"
  have ck: "clock s1 = clock s" by (simp add: s1_def verdict_def)
  have idrow: "verdict i (registered_row False t) s1 = s1" for t
    by (simp add: verdict_def registered_row_eq update_rows_id)
  have mark: "(case daraja of None \<Rightarrow> ret () | Some register \<Rightarrow> (case register (sc_shortcode (?f r)) of
      Some _ \<Rightarrow> ret () | None \<Rightarrow> ignore (WithOrg (sc_org_id r) (MarkShortcodeC2BRegistered i)))) s1 = (Inr (), s2)"
    using mark_registered [OF g1 h1] idrow
    by (auto simp: s2_def b_def ck org verified_row_def split: option.splits)
  have h2: "holder s2 i (registered_row b (clock s) (?f r)) og"
    using verdict_holder [OF h1, of "registered_row b (clock s)" "audit_log s1"]
    by (simp add: s2_def registered_row_def verdict_def)
  have g2: "gate (tbl s2)"
    unfolding s2_def verdict_def by (rule gate_harmless [OF g1]) (simp add: registered_row_def)
  have "sv_Status (av_Shortcode (ToAdminShortcode k r (org_name og) (org_kra_pin_enc og))) \<noteq> ShortcodeVerified"
    "av_OrgID (ToAdminShortcode k r (org_name og) (org_kra_pin_enc og)) = sc_org_id r"
    using assms(3) by (simp_all add: ToAdminShortcode_def ToShortcode_def ShortcodeVerified_def)
  then have "Verify k daraja i by' remark s = admin_Get k i s2"
    unfolding Verify_def using admin_Get_holder [OF g h, of k] tx mark by (simp cong: option.case_cong)
  moreover have "s2 = (verdict i (registered_row b (clock s) \<circ> ?f) s)\<lparr>audit_log := l\<rparr>"
    unfolding s2_def s1_def by (rule verdict_twice) (simp add: verified_row_def)
  ultimately show thesis using that admin_Get_holder [OF g2 h2, of k] by metis
qed

lemma resolve_verified:
  assumes "gate (tbl s)" and "holder s i r g" and "sc_status r = ''verified''"
  shows "WithIngest (ResolveShortcode (sc_shortcode r)) s = (Inr (resolve_row r), s)"
proof -
  let ?s = "s\<lparr>scope := ScopeIngest, aborted := False\<rparr>"
  have known: "sc_org_id r \<in> org_id ` set (orgs s)" and r: "r \<in> set (mpesa_shortcodes s)"
    using assms(2) row_by_Some [of org_id "sc_org_id r" "orgs s" g]
    by (auto simp: holder_def intro: rev_image_eqI)
  have "find (\<lambda>q. sees_shortcode ?s q \<and> sc_shortcode q = sc_shortcode r \<and> sc_status q = ''verified'' \<and>
      sc_org_id q \<in> org_id ` set (orgs s)) (mpesa_shortcodes s) = Some r"
  proof (rule find_unique [OF r])
    show "sees_shortcode ?s r \<and> sc_shortcode r = sc_shortcode r \<and> sc_status r = ''verified'' \<and>
        sc_org_id r \<in> org_id ` set (orgs s)" using assms(3) known by (simp add: sees_shortcode_def)
    show "q = r" if "q \<in> set (mpesa_shortcodes s)" "sees_shortcode ?s q \<and> sc_shortcode q = sc_shortcode r \<and>
        sc_status q = ''verified'' \<and> sc_org_id q \<in> org_id ` set (orgs s)" for q
      using assms(1,3) r that unfolding gate_def by (metis tbl_sel(4))
  qed
  then show ?thesis
    by (simp add: scope_defs scoped_def ResolveShortcode_def query_one_apply)
qed

lemma verify_opens:
  assumes "gate (tbl s)" and "holder s i r g" and free: "sc_status r \<noteq> ''verified''"
    "\<not> claimed_by_other (verified_row by' (clock s) r) (mpesa_shortcodes s)"
  shows "\<exists>v s' r'. Verify k daraja i by' remark s = (Inr v, s') \<and> sv_Verified (av_Shortcode v) \<and>
    gate (tbl s') \<and> holder s' i r' g \<and> sc_org_id r' = sc_org_id r \<and>
    sc_status r' = ''verified'' \<and> sc_verified_at r' = Some (clock s) \<and>
    (\<forall>q. sc_id q \<noteq> i \<longrightarrow> (q \<in> set (mpesa_shortcodes s') \<longleftrightarrow> q \<in> set (mpesa_shortcodes s))) \<and>
    WithIngest (ResolveShortcode (sc_shortcode r)) s' = (Inr (resolve_row r'), s')"
proof -
  obtain b l where run: "Verify k daraja i by' remark s =
    (Inr (ToAdminShortcode k (registered_row b (clock s) (verified_row by' (clock s) r)) (org_name g) (org_kra_pin_enc g)),
     (verdict i (registered_row b (clock s) \<circ> verified_row by' (clock s)) s)\<lparr>audit_log := l\<rparr>)"
    using Verify_run [OF assms(1,2) free] .
  define f where "f = registered_row b (clock s) \<circ> verified_row by' (clock s)"
  define s' where "s' = (verdict i f s)\<lparr>audit_log := l\<rparr>"
  have run': "Verify k daraja i by' remark s =
    (Inr (ToAdminShortcode k (f r) (org_name g) (org_kra_pin_enc g)), s')"
    using run by (simp add: f_def s'_def)
  have f: "sc_id (f x) = sc_id x" "sc_org_id (f x) = sc_org_id x" "sc_shortcode (f x) = sc_shortcode x"
    "sc_status (f x) = ''verified''" "sc_verified_at (f x) = Some (clock s)" for x
    by (simp_all add: f_def registered_row_def verified_row_def)
  have h: "holder s' i (f r) g" unfolding s'_def by (rule verdict_holder [OF assms(2)]) (intro conjI f)
  have g: "gate (tbl s')"
    using keeps_tables [OF gate.keeps_Verify [of UNIV k daraja i by' remark], of s] assms(1) run'
    by (simp add: keeps_gate_rel_def)
  have others: "\<forall>q. sc_id q \<noteq> i \<longrightarrow> (q \<in> set (mpesa_shortcodes s') \<longleftrightarrow> q \<in> set (mpesa_shortcodes s))"
    using f by (auto simp: s'_def verdict_def set_update_rows image_iff)
  have seen: "sv_Verified (av_Shortcode (ToAdminShortcode k (f r) (org_name g) (org_kra_pin_enc g)))"
    using f by (simp add: ToAdminShortcode_def ToShortcode_def ShortcodeVerified_def)
  have found: "WithIngest (ResolveShortcode (sc_shortcode r)) s' = (Inr (resolve_row (f r)), s')"
    using resolve_verified [OF g h f(4)] unfolding f(3) .
  show ?thesis using run' seen g h f others found by blast
qed


definition pending_till :: Shortcode where
  "pending_till = shop_till\<lparr>sc_status := ''pending_authorization'', sc_verified_at := None\<rparr>"

definition pending_db :: db where
  "pending_db = shop_db\<lparr>mpesa_shortcodes := [pending_till]\<rparr>"

lemma gate_pending: "gate (tbl pending_db)" "holder pending_db 3 pending_till shop_org"
  by (simp_all add: gate_def keyed_def shortcode_checks_def holder_def pending_db_def pending_till_def
      shop_db_def empty_db_def shop_till_def shop_org_def row_by_def)


end
