(* ===== verification/SalesProps.thy ===== *)
theory SalesProps
  imports SalesApi GateProps PaymentProps
begin

text \<open>
  What the merchant's routes guarantee. \<open>sales_frame\<close> adds the remaining statements of the
  routes to \<open>gate_frame\<close> and shows once that every route moves the tables along the
  relation; it is interpreted on history, isolation, well-formedness and the gate. Then:
  the amounts of a recorded sale are the sums of its lines, and converting a payment or
  settling a sale issues exactly one invoice and cannot be repeated.
\<close>

locale sales_frame = gate_frame +
  assumes k_name_customer: "keeps S R (name_customer name i)"
    and k_set_customer_msisdn: "keeps S R (set_customer_msisdn enc h i)"
    and k_overwrite_customer_pin: "keeps S R (overwrite_customer_pin enc h i)"
    and k_insert_customer: "keeps S R (insert_customer oid name m p)"
    and k_CreateItem: "keeps S R (CreateItem oid it)"
    and k_UpdateItem: "(\<And>r. item_id (f r) = item_id r \<and> item_org_id (f r) = item_org_id r) \<Longrightarrow>
      keeps S R (UpdateItem i f)"
    and k_set_payment_msisdn: "keeps S R (set_payment_msisdn enc h i)"
    and k_delete_notifications: "keeps S R (delete_notifications oid i tmpl)"
begin

lemma keeps_paged: "keeps S' R (paged limit offset t q)"
  unfolding paged_def by (intro keeps_if keeps_query keeps_stmt) simp_all

lemma keeps_sales_reads:
  "keeps S' R (customer_with_pin oid h)" "keeps S' R (customer_with_msisdn oid h)"
  "keeps S' R (ListItems oid)" "keeps S' R (ListSales oid limit offset st)"
  "keeps S' R (ListPayments oid limit offset st q h)" "keeps S' R (ListInvoices oid limit offset f)"
  unfolding customer_with_pin_def customer_with_msisdn_def ListItems_def ListSales_def
    ListPayments_def ListInvoices_def
  by (simp_all add: keeps_query keeps_query_one keeps_paged)

lemmas keeps_sales = keeps_gate keeps_sales_reads k_name_customer k_set_customer_msisdn
  k_overwrite_customer_pin k_insert_customer k_CreateItem k_set_payment_msisdn k_delete_notifications

lemma keeps_invoiceIDForSale: "keeps S' R (invoiceIDForSale sid)"
  unfolding invoiceIDForSale_def by (intro keeps_intros)

lemma keeps_EncryptString: "keeps S' R (EncryptString k x)"
  by (intro readonly_keeps [OF readonly_EncryptString] R_refl)

lemma keeps_read_lines: "keeps S R (read_lines n ls)"
proof (induction ls arbitrary: n)
  case Nil
  show ?case unfolding read_lines.simps by (rule keeps_ret)
next
  case (Cons l ls)
  show ?case unfolding read_lines.simps read_line_def by (intro keeps_all Cons)
qed

lemma keeps_create_lines: "keeps S R (create_lines oid sid ls)"
proof (induction ls)
  case Nil
  show ?case unfolding create_lines.simps by (rule keeps_ret)
next
  case (Cons l ls)
  show ?case unfolding create_lines.simps by (intro keeps_all Cons)
qed

lemma keeps_pin_keys: "keeps S R (pin_keys k resolver msg pin name)"
  unfolding pin_keys_def by (intro keeps_intros keeps_EncryptString)

lemma keeps_customers:
  "keeps S R (payer_customer oid name m p)" "keeps S R (buyer_customer oid name m p)"
  unfolding payer_customer_def buyer_customer_def known_customer_def or_else_def do_if_def
    new_customer_def
  by (intro keeps_sales)+

lemma keeps_createSaleFromLines: "keeps S R (createSaleFromLines k resolver oid uid ls paid src)"
  unfolding createSaleFromLines_def Let_def
  by (intro keeps_sales keeps_pin_keys keeps_customers keeps_read_lines keeps_create_lines)

lemma keeps_create_sale_tx: "keeps S R (create_sale_tx k resolver now oid uid inp)"
  unfolding create_sale_tx_def sale_customer_def msisdn_keys_def Let_def
  by (intro keeps_sales keeps_pin_keys keeps_customers keeps_read_lines keeps_create_lines
      keeps_EncryptString keeps_CreateInvoiceForSale)

lemma keeps_createSale:
  "ScopeOrg (pr_OrgID p) \<in> S \<Longrightarrow> keeps S' R (createSale k resolver now p body)"
  unfolding createSale_def scope_defs
  by (intro keeps_intros keeps_answer keeps_scope keeps_create_sale_tx)

lemma keeps_convertPayment:
  "ScopeOrg (pr_OrgID p) \<in> S \<Longrightarrow> keeps S' R (convertPayment k resolver base now p pid body)"
  unfolding convertPayment_def convert_tx_def convert_target_def convert_to_open_sale_def
    convert_to_cash_sale_def scope_defs
  by (intro keeps_idParam keeps_sales keeps_answer keeps_scope keeps_createCashSale
      keeps_createSaleFromLines keeps_CreateInvoiceForSale)

lemma keeps_settleSale:
  "ScopeOrg (pr_OrgID p) \<in> S \<Longrightarrow> keeps S' R (settleSale k base now p pid cash)"
  unfolding settleSale_def settle_tx_def do_if_def scope_defs
  by (intro keeps_idParam keeps_sales keeps_answer keeps_scope keeps_CreateInvoiceForSale)

lemma keeps_createItem: "ScopeOrg (pr_OrgID p) \<in> S \<Longrightarrow> keeps S' R (createItem numeric p body)"
  unfolding createItem_def scope_defs
  by (intro keeps_sales keeps_answer keeps_scope keeps_stmt) simp_all

lemma keeps_updateItem: "ScopeOrg (pr_OrgID p) \<in> S \<Longrightarrow> keeps S' R (updateItem numeric p pid body)"
  unfolding updateItem_def scope_defs
  by (intro keeps_idParam keeps_sales keeps_answer keeps_scope k_UpdateItem) (simp_all add: edit_item_def)

lemma keeps_resendInvoice: "ScopeOrg (pr_OrgID p) \<in> S \<Longrightarrow> keeps S' R (resendInvoice k p pid msisdn)"
  unfolding resendInvoice_def resend_tx_def scope_defs
  by (intro keeps_idParam keeps_sales keeps_answer keeps_scope keeps_active_invoice keeps_EncryptString)

lemma keeps_gather: "(\<And>x. keeps S R (q x)) \<Longrightarrow> keeps S R (gather q xs)"
proof (induction xs)
  case Nil
  show ?case unfolding gather.simps by (rule keeps_ret)
next
  case (Cons x xs)
  show ?case unfolding gather.simps by (intro keeps_intros Cons)
qed

lemma keeps_read_routes:
  assumes "ScopeOrg (pr_OrgID p) \<in> S"
  shows "keeps S' R (getSale p pid)" "keeps S' R (getPayment k p pid)" "keeps S' R (listItems p)"
    "keeps S' R (listSales p st limit offset)" "keeps S' R (attention k base pa now p)"
  unfolding getSale_def getPayment_def listItems_def listSales_def attention_def scope_defs Let_def
  by (intro keeps_idParam keeps_sales keeps_answer keeps_scope assms keeps_invoiceIDForSale keeps_gather)+

end

lemmas sales_write_defs = name_customer_def set_customer_msisdn_def overwrite_customer_pin_def
  insert_customer_def CreateItem_def UpdateItem_def set_payment_msisdn_def delete_notifications_def
  Let_def

interpretation history: sales_frame history UNIV
  by (intro sales_frame.intro history.gate_frame_axioms sales_frame_axioms.intro; unfold sales_write_defs;
    rule history_stmt history_update;
    force simp: history_other payment_core_def intro!: history_other grows_update_rows
      split: if_splits option.splits)

interpretation wf: sales_frame keeps_wf UNIV
proof (intro sales_frame.intro wf.gate_frame_axioms sales_frame_axioms.intro, goal_cases)
  case (7 enc h i)
  show ?case unfolding set_payment_msisdn_def
    by (rule wf_update) (auto simp: payment_checks_def intro!: wf_payment_rows)
qed (unfold sales_write_defs, (rule wf_stmt wf_update,
    force simp: wf_other split: if_splits option.splits)+)

interpretation gate: sales_frame keeps_gate_rel UNIV
  by (intro sales_frame.intro gate.gate_frame_axioms sales_frame_axioms.intro; unfold sales_write_defs;
    rule gate_stmt gate_update;
    force simp: gate_other split: if_splits option.splits)

lemma others_filter: "(\<And>r. \<not> p r \<Longrightarrow> org r = oid) \<Longrightarrow> others org oid (filter p rows) = others org oid rows"
  by (induction rows) (auto simp: others_def)

interpretation isolated: sales_frame "isolated oid" "tenant_scopes oid" for oid
  by (intro sales_frame.intro isolated.gate_frame_axioms sales_frame_axioms.intro; unfold sales_write_defs;
    rule isolated_stmt isolated_update;
    force simp: isolated_def split: if_splits option.splits
      intro!: others_single others_update_rows others_filter dest: own_tenant)

subsection \<open>The amounts of a sale\<close>

definition line_ok :: "sale_line \<Rightarrow> bool" where
  "line_ok l \<longleftrightarrow> 0 < ln_qty l \<and> 0 < sli_UnitPriceCents l \<and> tax_category_valid (ln_cat l) \<and>
     ln_total l = wrap64 (ln_qty l * sli_UnitPriceCents l) \<and>
     ln_tax l = LineTax (ln_total l) (RateBP (ln_cat l))"

definition records_line :: "uuid \<Rightarrow> uuid \<Rightarrow> sale_line \<Rightarrow> SaleItem \<Rightarrow> bool" where
  "records_line oid sid l r \<longleftrightarrow> si_org_id r = oid \<and> si_sale_id r = sid \<and> si_qty r = 1000 * ln_qty l \<and>
     si_unit_price_cents r = sli_UnitPriceCents l \<and> si_tax_category r = ln_cat l \<and>
     si_line_total_cents r = ln_total l \<and> si_line_tax_cents r = ln_tax l \<and> si_position r = ln_position l"

lemma check_line_Inr: "check_line n it l = Inr x \<Longrightarrow> line_ok x"
  by (auto simp: check_line_def line_ok_def saleLineInput.defs sale_line.defs Let_def ParseTaxCategory_def
      split: if_splits sum.splits option.splits)

lemma read_line_Inr:
  assumes "read_line n l s = (Inr x, s')"
  shows "s' = s \<and> line_ok x"
proof (cases "sli_ItemID l")
  case None
  with assms show ?thesis by (auto simp: read_line_def dest: check_line_Inr)
next
  case (Some i)
  with assms show ?thesis
    unfolding read_line_def GetItem_def
    by (auto simp: attempt_case_Inr query_one_Inr_iff dest: check_line_Inr)
qed

lemma read_lines_Inr:
  "read_lines n ls s = (Inr xs, s') \<Longrightarrow> s' = s \<and> length xs = length ls \<and> list_all line_ok xs"
proof (induction ls arbitrary: n xs s)
  case (Cons l ls)
  then obtain x s1 ys where l: "read_line n l s = (Inr x, s1)"
      and r: "read_lines (Suc n) ls s1 = (Inr ys, s')" and xs: "xs = x # ys"
    by (auto simp: tbind_Inr_iff)
  from read_line_Inr [OF l] Cons.IH [OF r] xs show ?case by simp
qed simp

lemma line_sums_eq:
  assumes "in_int64 a" and "in_int64 b"
  shows "line_sums ls a b = (wrap64 (a + sum_list (map (\<lambda>l. ln_total l - ln_tax l) ls)),
    wrap64 (b + sum_list (map ln_tax ls)))"
  using assms
proof (induction ls arbitrary: a b)
  case (Cons l ls)
  show ?case by (simp add: Cons.IH add.assoc)
qed simp

lemma line_sums_total:
  "wrap64 (fst (line_sums ls 0 0) + snd (line_sums ls 0 0)) = wrap64 (sum_list (map ln_total ls))"
  by (simp add: line_sums_eq in_int64_def sum_list_subtractf)

lemma create_lines_Inr:
  "create_lines oid sid ls s = (Inr rows, s') \<Longrightarrow> list_all2 (records_line oid sid) ls rows \<and>
    (\<not> aborted s \<longrightarrow> \<not> aborted s') \<and>
    s' = s\<lparr>next_id := next_id s + length ls, sale_items := sale_items s @ rows\<rparr>"
proof (induction ls arbitrary: rows s)
  case (Cons l ls)
  then obtain r s1 rs where r: "CreateSaleItem (line_params oid sid l) s = (Inr r, s1)"
      and rs: "create_lines oid sid ls s1 = (Inr rs, s')" and rows: "rows = r # rs"
    by (auto simp: tbind_Inr_iff)
  from r have "records_line oid sid l r"
    "s1 = s\<lparr>next_id := Suc (next_id s), sale_items := sale_items s @ [r]\<rparr>" "\<not> aborted s"
    by (auto simp: CreateSaleItem_def stmt_Inr_iff Let_def line_params_def records_line_def split: if_splits)
  with Cons.IH [OF rs] rows show ?case by simp
qed simp

lemma customers_frame:
  "keeps S only_customers (name_customer name i)" "keeps S only_customers (set_customer_msisdn enc h i)"
  "keeps S only_customers (overwrite_customer_pin enc h i)"
  "keeps S only_customers (insert_customer oid name m p)"
  unfolding name_customer_def set_customer_msisdn_def overwrite_customer_pin_def insert_customer_def Let_def
  by (rule only_customers.keeps_stmt only_customers.keeps_update,
      auto simp: only_customers_def tbl_def split: if_splits)+

lemma buyer_frame:
  "keeps S only_customers (payer_customer oid name m p)"
  "keeps S only_customers (buyer_customer oid name m p)"
  "keeps S only_customers (pin_keys k resolver msg pin name)"
  "keeps S only_customers (msisdn_keys k msisdn)"
  unfolding payer_customer_def buyer_customer_def known_customer_def or_else_def do_if_def
    new_customer_def customer_with_pin_def customer_with_msisdn_def pin_keys_def msisdn_keys_def
  by (intro only_customers.keeps_intros customers_frame only_customers.R_refl
      readonly_keeps [OF readonly_EncryptString])+

lemma sale_customer_frame: "keeps S only_customers (sale_customer k resolver oid inp)"
  unfolding sale_customer_def Let_def
  by (intro only_customers.keeps_intros buyer_frame)

definition sale_amounts :: "Sale \<Rightarrow> int \<times> int \<times> int" where
  "sale_amounts r = (sale_subtotal_cents r, sale_tax_cents r, sale_total_cents r)"

definition invoiced :: "saleInput \<Rightarrow> Sale \<Rightarrow> uuid option \<Rightarrow> db \<Rightarrow> db \<Rightarrow> bool" where
  "invoiced inp sale iid s s' \<longleftrightarrow>
     (if sale_is_paid inp
      then \<exists>iv. invoices s' = invoices s @ [iv] \<and> iid = Some (inv_id iv) \<and>
        amounts iv = sale_amounts sale \<and> inv_sale_id iv = sale_id sale \<and> inv_payment_id iv = None
      else invoices s' = invoices s \<and> jobs s' = jobs s \<and> iid = None)"

lemma fresh_sale:
  assumes "wf (tbl s)" and "next_id s \<le> sale_id sale" and "sa \<in> set (sales s @ [sale])"
    and "sale_id sa = sale_id sale"
  shows "sa = sale"
  using assms by (auto simp: wf_defs keyed_def)

lemma create_sale_steps:
  assumes run: "create_sale_tx k resolver now oid uid inp s = (Inr v, s')"
    and sc: "scope s = ScopeOrg oid" and wf: "wf (tbl s)"
  shows "\<exists>sale lines rows. list_all line_ok lines \<and> length lines = length (sin_Lines inp) \<and>
    sales s' = sales s @ [sale] \<and> sale_org_id sale = oid \<and>
    sale_status sale = (if sale_is_paid inp then ''paid'' else ''open'') \<and>
    sale_subtotal_cents sale = fst (line_sums lines 0 0) \<and> sale_tax_cents sale = snd (line_sums lines 0 0) \<and>
    sale_total_cents sale = wrap64 (fst (line_sums lines 0 0) + snd (line_sums lines 0 0)) \<and>
    sale_items s' = sale_items s @ rows \<and> list_all2 (records_line oid (sale_id sale)) lines rows \<and>
    payments s' = payments s \<and> slv_ID v = sale_id sale \<and> invoiced inp sale (slv_InvoiceID v) s s'"
proof -
  from run obtain name c s1 lines s2 ref sale s3 rows s4 iid s5 s6 u where
      cust: "sale_customer k resolver oid inp s = (Inr (name, c), s1)"
    and lines: "read_lines 0 (sin_Lines inp) s1 = (Inr lines, s2)"
    and ref: "NextSaleRef oid s2 = (Inr ref, s6)"
    and sale: "CreateSale \<lparr>cs_OrgID = oid, cs_Ref = ref,
        cs_Kind = (if sale_is_paid inp then ''cash'' else ''open''),
        cs_Status = (if sale_is_paid inp then ''paid'' else ''open''), cs_CustomerID = c,
        cs_SubtotalCents = fst (line_sums lines 0 0), cs_TaxCents = snd (line_sums lines 0 0),
        cs_TotalCents = wrap64 (fst (line_sums lines 0 0) + snd (line_sums lines 0 0)),
        cs_ClientRef = sin_ClientRef inp, cs_CreatedBy = Some uid,
        cs_PaidAt = (if sale_is_paid inp then Some now else None), cs_BuyerName = name\<rparr> s6 = (Inr sale, s3)"
    and rows: "create_lines oid (sale_id sale) lines s3 = (Inr rows, s4)"
    and iv: "(if sale_is_paid inp then tbind (CreateInvoiceForSale now oid (sale_id sale) None now)
         (\<lambda>iv. ret (Some (inv_id iv))) else ret None) s4 = (Inr iid, s5)"
    and au: "AppendAudit oid ''user'' (Some (uuid_String uid)) ''sale.created'' ''sale'' (sale_id sale) NoAfter s5 = (Inr u, s')"
    and v: "v = (toSale sale rows)\<lparr>slv_InvoiceID := iid\<rparr>"
    unfolding create_sale_tx_def Let_def by (auto simp: tbind_Inr_iff)
  have "scope s1 = scope s \<and> clock s1 = clock s \<and> only_customers (tbl s) (tbl s1)"
    using keepsD [OF sale_customer_frame [of UNIV] _ cust] by simp
  then obtain xs n where sc1: "scope s1 = scope s" and t1: "tbl s1 = (tbl s)\<lparr>customers := xs, next_id := n\<rparr>"
    and n: "next_id s \<le> n" by (auto simp: only_customers_def)
  have f1: "sales s1 = sales s" "sale_items s1 = sale_items s" "payments s1 = payments s"
    "invoices s1 = invoices s" "jobs s1 = jobs s" "next_id s1 = n"
    using arg_cong [OF t1, of sales] arg_cong [OF t1, of sale_items] arg_cong [OF t1, of payments]
      arg_cong [OF t1, of invoices] arg_cong [OF t1, of jobs] arg_cong [OF t1, of next_id] by simp_all
  from read_lines_Inr [OF lines] have l: "s2 = s1" "length lines = length (sin_Lines inp)" "list_all line_ok lines"
    by simp_all
  from ref have s6: "s6 = s2" by (simp add: NextSaleRef_def query_Inr_iff)
  from CreateSale_Inr [OF sale] have sl: "sale_id sale = n" "sale_org_id sale = oid"
    "sale_status sale = (if sale_is_paid inp then ''paid'' else ''open'')"
    "sale_subtotal_cents sale = fst (line_sums lines 0 0)" "sale_tax_cents sale = snd (line_sums lines 0 0)"
    "sale_total_cents sale = wrap64 (fst (line_sums lines 0 0) + snd (line_sums lines 0 0))"
    "s3 = s1\<lparr>next_id := Suc n, sales := sales s @ [sale]\<rparr>"
    using l(1) s6 f1 by simp_all
  from create_lines_Inr [OF rows] have r: "list_all2 (records_line oid (sale_id sale)) lines rows"
    "s4 = s3\<lparr>next_id := Suc n + length lines, sale_items := sale_items s @ rows\<rparr>"
    using sl(7) f1 by simp_all
  have f4: "sales s4 = sales s @ [sale]" "sale_items s4 = sale_items s @ rows" "payments s4 = payments s"
    "invoices s4 = invoices s" "jobs s4 = jobs s" "scope s4 = ScopeOrg oid"
    using r(2) sl(7) f1 sc1 sc by simp_all
  obtain l5 where s5: "s' = s5\<lparr>audit_log := l5\<rparr>" using au unfolding AppendAudit_Inr by blast
  have fresh: "sa = sale" if "sa \<in> set (sales s4)" "sale_id sa = sale_id sale" for sa
    using fresh_sale [OF wf, of sale sa] that n sl(1) f4(1) by simp
  have s5': "sales s5 = sales s4 \<and> sale_items s5 = sale_items s4 \<and> payments s5 = payments s4 \<and>
      invoiced inp sale iid s s5"
  proof (cases "sale_is_paid inp")
    case True
    with iv obtain i where i: "CreateInvoiceForSale now oid (sale_id sale) None now s4 = (Inr i, s5)" "iid = Some (inv_id i)"
      by (auto simp: tbind_Inr_iff)
    from i(1) f4(6) show ?thesis
      by (rule invoice_for_sale) (use True i(2) fresh f4 in \<open>auto simp: invoiced_def sale_amounts_def\<close>)
  next
    case False
    with iv f4 show ?thesis by (simp add: invoiced_def)
  qed
  then have "invoiced inp sale (slv_InvoiceID v) s s'" by (simp add: invoiced_def s5 v)
  moreover have "slv_ID v = sale_id sale" by (simp add: v toSale_def)
  moreover have "sales s' = sales s @ [sale]" "sale_items s' = sale_items s @ rows" "payments s' = payments s"
    using s5 s5' f4 by simp_all
  ultimately show ?thesis using l(2,3) r(1) sl(2-6) by blast
qed

text \<open>Without overflow the sums are exact and the tax lies between nothing and the total.\<close>

lemma line_sums_exact:
  assumes "list_all line_ok ls" and "\<forall>l \<in> set ls. in_int64 (ln_qty l * sli_UnitPriceCents l)"
    and "in_int64 (sum_list (map (\<lambda>l. ln_qty l * sli_UnitPriceCents l) ls))"
  shows "wrap64 (fst (line_sums ls 0 0) + snd (line_sums ls 0 0)) =
      sum_list (map (\<lambda>l. ln_qty l * sli_UnitPriceCents l) ls)"
    and "0 \<le> snd (line_sums ls 0 0)"
    and "snd (line_sums ls 0 0) \<le> sum_list (map (\<lambda>l. ln_qty l * sli_UnitPriceCents l) ls)"
    and "fst (line_sums ls 0 0) = sum_list (map (\<lambda>l. ln_qty l * sli_UnitPriceCents l) ls) - snd (line_sums ls 0 0)"
proof -
  have tot: "ln_total l = ln_qty l * sli_UnitPriceCents l" if "l \<in> set ls" for l
    using assms(1,2) that by (simp add: list_all_iff line_ok_def)
  have tax: "0 \<le> ln_tax l \<and> ln_tax l \<le> ln_total l" if "l \<in> set ls" for l
  proof -
    have "0 < ln_qty l * sli_UnitPriceCents l" "ln_tax l = LineTax (ln_total l) (RateBP (ln_cat l))"
      using assms(1) that by (simp_all add: list_all_iff line_ok_def)
    then show ?thesis
      using LineTax_bounds [of "ln_total l" "RateBP (ln_cat l)"] tot [OF that] assms(2) that RateBP_nonneg
      by simp
  qed
  let ?t = "sum_list (map (\<lambda>l. ln_qty l * sli_UnitPriceCents l) ls)"
  have t: "sum_list (map ln_total ls) = ?t" using tot by (simp cong: map_cong)
  have x: "0 \<le> sum_list (map ln_tax ls)" "sum_list (map ln_tax ls) \<le> ?t"
    using tax sum_list_nonneg [of "map ln_tax ls"] sum_list_mono [of ls ln_tax ln_total] t by auto
  have s: "snd (line_sums ls 0 0) = sum_list (map ln_tax ls)"
    "fst (line_sums ls 0 0) = ?t - sum_list (map ln_tax ls)"
    using x assms(3) t by (simp_all add: line_sums_eq in_int64_def sum_list_subtractf)
  show "wrap64 (fst (line_sums ls 0 0) + snd (line_sums ls 0 0)) = ?t"
    using line_sums_total [of ls] t assms(3) by simp
  show "0 \<le> snd (line_sums ls 0 0)" "snd (line_sums ls 0 0) \<le> ?t"
    "fst (line_sums ls 0 0) = ?t - snd (line_sums ls 0 0)"
    using s x by simp_all
qed


definition shop_owner :: HttpPrincipal where
  "shop_owner = \<lparr>pr_UserID = 8, pr_OrgID = 1, pr_Role = ''owner'', pr_SessionID = 9, pr_CSRF = [], pr_Locale = ''en''\<rparr>"

definition shop_sale :: saleInput where
  "shop_sale = \<lparr>sin_Kind = ''cash'', sin_Lines = [\<lparr>sli_ItemID = Some 2, sli_Description = [],
     sli_EtimsClassCode = [], sli_Qty = ''2'', sli_UnitPriceCents = 5800, sli_TaxCategory = []\<rparr>],
     sin_BuyerMSISDN = [], sin_BuyerPIN = [], sin_BuyerName = [], sin_CustomerMSISDN = [],
     sin_CustomerName = [], sin_ClientRef = None, sin_Paid = False\<rparr>"

lemma shop_sale_created:
  "map_sum id http_status (fst (createSale plain_keyring None 7 shop_owner (Some shop_sale) shop_db)) = Inr 201"
  by code_simp


subsection \<open>Settling and converting\<close>

definition sale_paid :: "uuid \<Rightarrow> time \<Rightarrow> Sale list \<Rightarrow> Sale list" where
  "sale_paid i t rows = update_rows (\<lambda>r. sale_id r = i) (\<lambda>r. r\<lparr>sale_status := ''paid'', sale_paid_at := Some t\<rparr>) rows"

lemma wf_unique_sale:
  "wf (tbl s) \<Longrightarrow> q \<in> set (sales s) \<Longrightarrow> r \<in> set (sales s) \<Longrightarrow> sale_id q = sale_id r \<Longrightarrow> q = r"
  by (rule inj_onD [of sale_id "set (sales s)"]) (simp_all add: wf_defs keyed_def distinct_map)

lemma wf_unique_payment:
  "wf (tbl s) \<Longrightarrow> q \<in> set (payments s) \<Longrightarrow> r \<in> set (payments s) \<Longrightarrow> pay_id q = pay_id r \<Longrightarrow> q = r"
  by (rule inj_onD [of pay_id "set (payments s)"]) (simp_all add: wf_defs keyed_def distinct_map)

lemma MarkSalePaid_open:
  assumes "wf (tbl s)" and "scope s = ScopeOrg oid" and "\<not> aborted s" and "sa \<in> set (sales s)"
    and "sale_org_id sa = oid" and "sale_status sa = ''open''"
  shows "MarkSalePaid (sale_id sa) t s = (Inr (), s\<lparr>sales := sale_paid (sale_id sa) t (sales s)\<rparr>)"
proof -
  have "update_rows (\<lambda>r. own s (sale_org_id r) \<and> sale_id r = sale_id sa \<and> sale_status r = ''open'') f (sales s) =
      update_rows (\<lambda>r. sale_id r = sale_id sa) f (sales s)" for f
    unfolding update_rows_def
  proof (rule map_cong [OF refl])
    show "(if own s (sale_org_id r) \<and> sale_id r = sale_id sa \<and> sale_status r = ''open'' then f r else r) =
        (if sale_id r = sale_id sa then f r else r)" if "r \<in> set (sales s)" for r
      using wf_unique_sale [OF assms(1) that assms(4)] assms(2,5,6) by (auto simp: own_def)
  qed
  with assms(3) show ?thesis by (simp add: MarkSalePaid_def update_apply sale_paid_def)
qed

lemma update_rows_union:
  "(\<And>r. B (f r) = B r) \<Longrightarrow> (\<And>r. f (f r) = f r) \<Longrightarrow>
    update_rows B f (update_rows A f rows) = update_rows (\<lambda>r. A r \<or> B r) f rows"
  by (induction rows) auto

lemma mark_partials:
  "\<not> aborted s \<Longrightarrow> for_each (\<lambda>p. do_if (P p) (ignore (UpdatePaymentStatus (pay_id p) StatusMatched))) ps s =
     (Inr (), s\<lparr>payments := update_rows (\<lambda>r. own s (pay_org_id r) \<and> pay_id r \<in> pay_id ` {p \<in> set ps. P p})
        (\<lambda>r. r\<lparr>pay_status := StatusMatched\<rparr>) (payments s)\<rparr>)"
proof (induction ps arbitrary: s)
  case Nil
  show ?case by (simp add: update_rows_id)
next
  case (Cons p ps)
  let ?s = "s\<lparr>payments := update_rows (\<lambda>r. own s (pay_org_id r) \<and> pay_id r = pay_id p)
    (\<lambda>r. r\<lparr>pay_status := StatusMatched\<rparr>) (payments s)\<rparr>"
  show ?case
  proof (cases "P p")
    case True
    have "UpdatePaymentStatus (pay_id p) StatusMatched s = (Inr (), ?s)"
      using Cons.prems by (simp add: UpdatePaymentStatus_def stmt_def Let_def payment_statuses_def StatusMatched_def)
    then have one: "do_if (P p) (ignore (UpdatePaymentStatus (pay_id p) StatusMatched)) s = (Inr (), ?s)"
      using True by (simp add: do_if_def ignore_def)
    have "own ?s = own s" by (simp add: own_def fun_eq_iff)
    moreover have both: "(\<lambda>r. own s (pay_org_id r) \<and> pay_id r \<in> pay_id ` {q \<in> set (p # ps). P q}) =
        (\<lambda>r. own s (pay_org_id r) \<and> pay_id r = pay_id p \<or>
          own s (pay_org_id r) \<and> pay_id r \<in> pay_id ` {q \<in> set ps. P q})"
      using True by (auto simp: fun_eq_iff)
    ultimately show ?thesis
      unfolding both using Cons.IH [of ?s] Cons.prems one by (simp add: update_rows_union)
  next
    case False
    then have "do_if (P p) (ignore (UpdatePaymentStatus (pay_id p) StatusMatched)) s = (Inr (), s)"
      by (simp add: do_if_def)
    moreover have "{q \<in> set (p # ps). P q} = {q \<in> set ps. P q}" using False by auto
    ultimately show ?thesis using Cons.IH [OF Cons.prems] by simp
  qed
qed

definition partials_matched :: "uuid \<Rightarrow> uuid \<Rightarrow> Payment list \<Rightarrow> Payment list" where
  "partials_matched oid sid rows = update_rows
     (\<lambda>r. pay_org_id r = oid \<and> pay_sale_id r = Some sid \<and> pay_status r = StatusPartial)
     (\<lambda>r. r\<lparr>pay_status := StatusMatched\<rparr>) rows"

lemma sale_paid_mem:
  assumes "r \<in> set (sale_paid i t rows)"
  shows "\<exists>q \<in> set rows. sale_id q = sale_id r \<and> sale_amounts r = sale_amounts q"
proof -
  obtain q where "q \<in> set rows" "r = (if sale_id q = i then q\<lparr>sale_status := ''paid'', sale_paid_at := Some t\<rparr> else q)"
    using assms unfolding sale_paid_def set_update_rows by blast
  then show ?thesis by (intro bexI [of _ q]) (simp_all add: sale_amounts_def)
qed

lemma settle_steps:
  assumes run: "settle_tx now oid uid i s = (Inr iv, s')" and sc: "scope s = ScopeOrg oid"
    and wf: "wf (tbl s)"
  obtains sa where "sa \<in> set (sales s)" "sale_id sa = i" "sale_org_id sa = oid" "sale_status sa = ''open''"
    "sales s' = sale_paid i now (sales s)" "payments s' = partials_matched oid i (payments s)"
    "invoices s' = invoices s @ [iv]" "amounts iv = sale_amounts sa" "inv_sale_id iv = i"
    "sale_items s' = sale_items s"
proof -
  from run obtain sa s0 where gs: "GetSale i s = (Inr sa, s0)"
    by (auto simp: settle_tx_def tbind_Inr_iff)
  note sa = GetSale_own [OF gs sc]
  from run gs sa have op: "sale_status sa = ''open''" by (auto simp: settle_tx_def split: if_splits)
  define ps where "ps = sort_key pay_paid_at
    (filter (\<lambda>r. sees_payment s r \<and> pay_sale_id r = Some i) (payments s))"
  define s1 where "s1 = s\<lparr>sales := sale_paid i now (sales s)\<rparr>"
  define s2 where "s2 = s1\<lparr>payments := update_rows (\<lambda>r. own s1 (pay_org_id r) \<and>
    pay_id r \<in> pay_id ` {p \<in> set ps. pay_status p = StatusPartial}) (\<lambda>r. r\<lparr>pay_status := StatusMatched\<rparr>) (payments s1)\<rparr>"
  have pays: "ListPaymentsForSale i s = (Inr ps, s)"
    using sa by (simp add: ListPaymentsForSale_def query_apply ps_def)
  have paid: "MarkSalePaid i now s = (Inr (), s1)"
    using MarkSalePaid_open [OF wf sc, of sa now] sa op by (simp add: s1_def)
  have marks: "for_each (\<lambda>p. do_if (pay_status p = StatusPartial)
      (ignore (UpdatePaymentStatus (pay_id p) StatusMatched))) ps s1 = (Inr (), s2)"
    using mark_partials [of s1 "\<lambda>p. pay_status p = StatusPartial" ps] sa by (simp add: s1_def s2_def)
  from run gs sa op pays paid marks obtain pid s3 u where
      civ: "CreateInvoiceForSale now oid i pid now s2 = (Inr iv, s3)"
    and au: "AppendAudit oid ''user'' (Some (uuid_String uid)) ''sale.settled'' ''sale'' i NoAfter s3 = (Inr u, s')"
    by (auto simp: settle_tx_def tbind_Inr_iff)
  obtain l where s': "s' = s3\<lparr>audit_log := l\<rparr>" using au unfolding AppendAudit_Inr by blast
  have sees: "sees_payment s r \<longleftrightarrow> pay_org_id r = oid" for r
    using sc by (auto simp: sees_payment_def own_def receipt_sees_def)
  have psm: "p \<in> set ps \<longleftrightarrow> p \<in> set (payments s) \<and> pay_org_id p = oid \<and> pay_sale_id p = Some i" for p
    by (simp add: ps_def sees)
  have eq: "(own s1 (pay_org_id r) \<and> pay_id r \<in> pay_id ` {p \<in> set ps. pay_status p = StatusPartial}) =
      (pay_org_id r = oid \<and> pay_sale_id r = Some i \<and> pay_status r = StatusPartial)"
    if r: "r \<in> set (payments s)" for r
  proof
    assume "own s1 (pay_org_id r) \<and> pay_id r \<in> pay_id ` {p \<in> set ps. pay_status p = StatusPartial}"
    then obtain p where p: "p \<in> set ps" "pay_status p = StatusPartial" "pay_id r = pay_id p" by blast
    with psm wf_unique_payment [OF wf r, of p] have "r = p" by blast
    with p psm show "pay_org_id r = oid \<and> pay_sale_id r = Some i \<and> pay_status r = StatusPartial" by blast
  next
    assume "pay_org_id r = oid \<and> pay_sale_id r = Some i \<and> pay_status r = StatusPartial"
    with psm [of r] r sc show "own s1 (pay_org_id r) \<and> pay_id r \<in> pay_id ` {p \<in> set ps. pay_status p = StatusPartial}"
      by (simp add: own_def s1_def)
  qed
  have matched: "payments s2 = partials_matched oid i (payments s)"
    unfolding partials_matched_def s2_def update_rows_def using eq by (simp add: s1_def)
  have sc2: "scope s2 = ScopeOrg oid" and sal: "sales s2 = sale_paid i now (sales s)"
    "sale_items s2 = sale_items s" "invoices s2 = invoices s"
    using sc by (simp_all add: s2_def s1_def)
  from civ sc2 show thesis
  proof (rule invoice_for_sale)
    fix sb
    assume sb: "sb \<in> set (sales s2)" "sale_id sb = i" and iv: "inv_sale_id iv = i"
      "amounts iv = (sale_subtotal_cents sb, sale_tax_cents sb, sale_total_cents sb)"
      "invoices s3 = invoices s2 @ [iv]" "payments s3 = payments s2" "sales s3 = sales s2"
      "sale_items s3 = sale_items s2"
    obtain q where "q \<in> set (sales s)" "sale_id q = i" "sale_amounts sb = sale_amounts q"
      using sale_paid_mem [of sb i now "sales s"] sb sal(1) by metis
    moreover from this have "q = sa" using wf_unique_sale [OF wf, of q sa] sa by metis
    ultimately have "amounts iv = sale_amounts sa" using iv(2) by (simp add: sale_amounts_def)
    with that [of sa] sa op sal matched iv show thesis by (simp add: s')
  qed
qed

lemma GetSale_unique:
  assumes "wf (tbl s)" and "\<not> aborted s" and "scope s = ScopeOrg (sale_org_id r)" and "r \<in> set (sales s)"
  shows "GetSale (sale_id r) s = (Inr r, s)"
proof -
  have "find (\<lambda>q. sees_sale s q \<and> sale_id q = sale_id r) (sales s) = Some r"
  proof (cases "find (\<lambda>q. sees_sale s q \<and> sale_id q = sale_id r) (sales s)")
    case None
    with assms(3,4) show ?thesis by (auto simp: find_None_iff sees_sale_def own_def)
  next
    case (Some q)
    then have "q \<in> set (sales s)" "sale_id q = sale_id r" by (auto simp: find_Some_iff)
    with wf_unique_sale [OF assms(1) _ assms(4)] Some show ?thesis by metis
  qed
  with assms(2) show ?thesis by (simp add: GetSale_def query_one_apply)
qed

lemma ledger_fail_duplicate: "ledger_fail (Wrap m ErrDuplicate) msg = Fail 409 ''conflict'' m"
  by (simp add: ledger_fail_def errors_is_def)

lemma settle_refused:
  assumes "wf (tbl s)" and "r \<in> set (sales s)" and "sale_id r = i" and "sale_org_id r = pr_OrgID p"
    and "sale_status r \<noteq> ''open''"
  shows "\<exists>s'. settleSale k base now p (Some i) cash s =
      (Inr (Fail 409 ''conflict'' (err_text ErrDuplicate @ '': sale is already '' @ sale_status r)), s') \<and>
      tbl s' = tbl s"
proof -
  let ?e = "Wrap (err_text ErrDuplicate @ '': sale is already '' @ sale_status r) ErrDuplicate"
  let ?s = "s\<lparr>scope := ScopeOrg (pr_OrgID p), aborted := False\<rparr>"
  have "GetSale i ?s = (Inr r, ?s)"
    using GetSale_unique [of ?s r] assms by simp
  then have "settle_tx now (pr_OrgID p) (pr_UserID p) i ?s = (Inl ?e, ?s)"
    using assms(5) by (simp add: settle_tx_def)
  then have "WithOrg (pr_OrgID p) (settle_tx now (pr_OrgID p) (pr_UserID p) i) s = (Inl ?e, s\<lparr>reads := reads ?s\<rparr>)"
    unfolding scope_defs by (rule scoped_fail)
  then have "settleSale k base now p (Some i) cash s = (Inr (ledger_fail ?e ''Could not settle the sale''), s\<lparr>reads := reads ?s\<rparr>)"
    by (simp add: settleSale_def idParam_def)
  moreover have "ledger_fail ?e ''Could not settle the sale'' =
      (Fail 409 ''conflict'' (err_text ErrDuplicate @ '': sale is already '' @ sale_status r) :: InvoiceView response)"
    by (rule ledger_fail_duplicate)
  ultimately show ?thesis by simp
qed

text \<open>
  C27. Settling a sale by hand: when \<open>POST /sales/{id}/settle\<close> answers 200, the sale was
  open and of the caller's organisation; it is paid now, its partial payments count as matched,
  and exactly one invoice with the sale's amounts is issued, whatever cash the request named and
  whatever the payments sum up to. Settling it once more is refused with a conflict and changes
  nothing.
\<close>

theorem settled_once:
  assumes "settleSale k base now p (Some i) cash s = (Inr (JSON 200 v), s')" and "wf (tbl s)"
  shows "(\<exists>sa iv. sa \<in> set (sales s) \<and> sale_id sa = i \<and> sale_org_id sa = pr_OrgID p \<and> sale_status sa = ''open'' \<and>
      sales s' = sale_paid i now (sales s) \<and> payments s' = partials_matched (pr_OrgID p) i (payments s) \<and>
      invoices s' = invoices s @ [iv] \<and> amounts iv = sale_amounts sa \<and> inv_sale_id iv = i \<and>
      v = toInvoice k base iv) \<and>
    (\<exists>s''. settleSale k base' now' p (Some i) cash' s' =
        (Inr (Fail 409 ''conflict'' (err_text ErrDuplicate @ '': sale is already paid'')), s'') \<and> tbl s'' = tbl s')"
proof -
  let ?s = "s\<lparr>scope := ScopeOrg (pr_OrgID p), aborted := False\<rparr>"
  from assms(1) obtain iv where "WithOrg (pr_OrgID p) (settle_tx now (pr_OrgID p) (pr_UserID p) i) s = (Inr iv, s')"
      and v: "v = toInvoice k base iv"
    unfolding settleSale_def idParam_def by (auto elim!: answer_good)
  then obtain s1 where run: "settle_tx now (pr_OrgID p) (pr_UserID p) i ?s = (Inr iv, s1)"
      and s': "s' = s1\<lparr>scope := scope s, aborted := aborted s\<rparr>"
    by (auto simp: scope_defs scoped_Inr_iff)
  have wf': "wf (tbl s')"
    using keepsD [OF wf.keeps_settleSale [of p UNIV] _ assms(1)] assms(2) by (simp add: keeps_wf_def)
  from run show ?thesis
  proof (rule settle_steps)
    fix sa
    assume a: "sa \<in> set (sales ?s)" "sale_id sa = i" "sale_org_id sa = pr_OrgID p" "sale_status sa = ''open''"
      "sales s1 = sale_paid i now (sales ?s)" "payments s1 = partials_matched (pr_OrgID p) i (payments ?s)"
      "invoices s1 = invoices ?s @ [iv]" "amounts iv = sale_amounts sa" "inv_sale_id iv = i"
    let ?r = "sa\<lparr>sale_status := ''paid'', sale_paid_at := Some now\<rparr>"
    have "?r \<in> set (sales s')" using a(1,2,5) by (auto simp: s' sale_paid_def set_update_rows)
    from settle_refused [OF wf' this, of i p] a(2,3)
    have "\<exists>s''. settleSale k base' now' p (Some i) cash' s' =
        (Inr (Fail 409 ''conflict'' (err_text ErrDuplicate @ '': sale is already paid'')), s'') \<and> tbl s'' = tbl s'"
      by simp
    with a v show ?thesis by (auto simp: s')
  qed (use assms(2) in simp_all)
qed

definition tab_db :: db where
  "tab_db = shop_db\<lparr>sales := [\<lparr>sale_id = 4, sale_org_id = 1, sale_ref = ''S-1'',
     sale_kind = ''counter'', sale_status = ''open'', sale_customer_id = None,
     sale_subtotal_cents = 10000, sale_tax_cents = 1600, sale_total_cents = 11600,
     sale_client_ref = None, sale_created_by = None, sale_paid_at = None, sale_buyer_name = ''Asha'',
     sale_created_at = 0\<rparr>]\<rparr>"

lemma wf_tab: "wf (tbl tab_db)"
  by (simp add: wf_defs keyed_def tab_db_def shop_db_def empty_db_def)

lemma tab_settled: "map_sum id http_status (fst (settleSale plain_keyring [] 7 shop_owner (Some 4) None tab_db)) = Inr 200"
  by code_simp

lemma answer_status:
  assumes "map_sum id http_status (fst (answer m bad good s)) = Inr n" and "\<And>e. http_status (bad e) \<noteq> n"
  obtains x s' where "answer m bad good s = (Inr (good x), s')"
proof -
  obtain r s1 where r: "m s = (r, s1)" by (cases "m s")
  show thesis
  proof (cases r)
    case (Inl e)
    with r assms show thesis by (cases "is_panic e") (simp_all add: answer_def attempt_def)
  qed (use r in \<open>auto intro: that\<close>)
qed

lemma answer_ledger:
  assumes "map_sum id http_status (fst (answer m (\<lambda>e. ledger_fail e msg) good s)) = Inr n" and "n < 400"
  shows "\<exists>x s'. answer m (\<lambda>e. ledger_fail e msg) good s = (Inr (good x), s')"
proof (rule answer_status [OF assms(1)])
  show "http_status (ledger_fail e msg) \<noteq> n" for e :: go_error
    using assms(2) by (simp add: ledger_fail_def http_status_def split: go_error.splits)
qed blast

theorem settled_once_witness:
  "\<exists>v s' iv. settleSale plain_keyring [] 7 shop_owner (Some 4) None tab_db = (Inr (JSON 200 v), s') \<and>
     invoices s' = [iv] \<and> amounts iv = (10000, 1600, 11600) \<and>
     (\<exists>m s''. settleSale plain_keyring [] 8 shop_owner (Some 4) None s' = (Inr (Fail 409 ''conflict'' m), s'') \<and>
       tbl s'' = tbl s')"
proof -
  obtain v s' where run: "settleSale plain_keyring [] 7 shop_owner (Some 4) None tab_db = (Inr (JSON 200 v), s')"
    using answer_ledger [OF tab_settled [unfolded settleSale_def idParam_def option.case]]
    unfolding settleSale_def idParam_def option.case by auto
  have "invoices tab_db = []" "\<forall>sa \<in> set (sales tab_db). sale_amounts sa = (10000, 1600, 11600)"
    by (simp_all add: tab_db_def shop_db_def empty_db_def sale_amounts_def)
  with settled_once [OF run wf_tab, of "[]" 8 None] run show ?thesis by fastforce
qed

subsection \<open>Converting a payment\<close>

text \<open>Finding the sale of a payment touches neither payments nor invoices.\<close>

definition same_documents :: "tables \<Rightarrow> tables \<Rightarrow> bool" where
  "same_documents t u \<longleftrightarrow> payments u = payments t \<and> invoices u = invoices t"

interpretation same_documents: table_frame same_documents
  by unfold_locales (simp_all add: same_documents_def)

lemma same_documents_writes:
  "keeps S same_documents (CreateSale csp)" "keeps S same_documents (CreateSaleItem cip)"
  "keeps S same_documents (MarkSalePaid i t)" "keeps S same_documents (UpsertCustomerByMSISDN oid name enc h)"
  unfolding CreateSale_def CreateSaleItem_def MarkSalePaid_def UpsertCustomerByMSISDN_def Let_def
  by (rule same_documents.keeps_stmt same_documents.keeps_update,
      auto simp: same_documents_def tbl_def split: if_splits option.splits)+

lemma same_documents_reads:
  "keeps S same_documents (GetSale i)" "keeps S same_documents (GetShortcode i)"
  "keeps S same_documents (GetItem i)" "keeps S same_documents (NextSaleRef i)"
  "keeps S same_documents (FindCustomerByMSISDNHash i h)"
  unfolding GetSale_def GetShortcode_def GetItem_def NextSaleRef_def FindCustomerByMSISDNHash_def
  by (simp_all add: same_documents.keeps_query same_documents.keeps_query_one)

lemma only_customers_same_documents:
  assumes "keeps S only_customers m"
  shows "keeps S same_documents m"
proof -
  have "same_documents t u" if "only_customers t u" for t u
    using that by (auto simp: only_customers_def same_documents_def)
  with assms show ?thesis unfolding keeps_def by blast
qed

lemma same_documents_read_lines: "keeps S same_documents (read_lines n ls)"
proof (induction ls arbitrary: n)
  case Nil
  show ?case unfolding read_lines.simps by (rule same_documents.keeps_ret)
next
  case (Cons l ls)
  show ?case unfolding read_lines.simps read_line_def
    by (intro same_documents.keeps_intros same_documents_reads Cons)
qed

lemma same_documents_create_lines: "keeps S same_documents (create_lines oid sid ls)"
proof (induction ls)
  case Nil
  show ?case unfolding create_lines.simps by (rule same_documents.keeps_ret)
next
  case (Cons l ls)
  show ?case unfolding create_lines.simps
    by (intro same_documents.keeps_intros same_documents_writes Cons)
qed

lemma same_documents_target: "keeps S same_documents (convert_target k resolver oid uid inp p)"
  unfolding convert_target_def convert_to_open_sale_def convert_to_cash_sale_def createSaleFromLines_def
    createCashSale_def find_or_add_customer_def Let_def
  by (intro same_documents.keeps_intros same_documents_reads same_documents_writes
      same_documents_read_lines same_documents_create_lines only_customers_same_documents buyer_frame)

lemma AttachPaymentToSale_Inr:
  assumes "AttachPaymentToSale i sid st rule s = (Inr u, s')"
  shows "s' = s\<lparr>payments := update_rows (\<lambda>r. own s (pay_org_id r) \<and> pay_id r = i)
       (\<lambda>r. r\<lparr>pay_sale_id := sid, pay_status := st, pay_match_rule := rule\<rparr>) (payments s)\<rparr>"
  using assms by (auto simp: AttachPaymentToSale_def stmt_Inr_iff Let_def split: if_splits)

definition attached :: "uuid \<Rightarrow> uuid \<Rightarrow> string \<Rightarrow> Payment list \<Rightarrow> Payment list" where
  "attached i sid st rows = update_rows (\<lambda>r. pay_id r = i)
     (\<lambda>r. r\<lparr>pay_sale_id := Some sid, pay_status := st, pay_match_rule := Some RuleManual\<rparr>) rows"

lemma convert_steps:
  assumes run: "convert_tx k resolver now oid uid i inp s = (Inr iv, s')" and sc: "scope s = ScopeOrg oid"
    and wf: "wf (tbl s)"
  obtains p sa st where "p \<in> set (payments s)" "pay_id p = i" "pay_org_id p = oid"
    "pay_status p \<in> {StatusUnmatched, StatusPartial}" "st \<in> {StatusMatched, StatusCashSale}"
    "payments s' = attached i (sale_id sa) st (payments s)" "invoices s' = invoices s @ [iv]"
    "sa \<in> set (sales s')" "sale_org_id sa = oid" "amounts iv = sale_amounts sa"
    "inv_sale_id iv = sale_id sa" "inv_payment_id iv = Some i"
proof -
  from run obtain p s0 where gp: "GetPayment i s = (Inr p, s0)"
    by (auto simp: convert_tx_def tbind_Inr_iff)
  then have p: "\<not> aborted s" "s0 = s" "p \<in> set (payments s)" "pay_id p = i" "pay_org_id p = oid"
    using sc by (auto simp: GetPayment_def query_one_Inr_iff find_Some_iff sees_payment_def own_def receipt_sees_def)
  from run gp p have st0: "pay_status p \<in> {StatusUnmatched, StatusPartial}"
    by (auto simp: convert_tx_def split: if_splits)
  from run gp p st0 obtain sid st s1 s2 s3 u u' where
      tg: "convert_target k resolver oid uid inp p s = (Inr (sid, st), s1)"
    and at: "AttachPaymentToSale i (Some sid) st (Some RuleManual) s1 = (Inr u, s2)"
    and civ: "CreateInvoiceForSale now oid sid (Some i) (pay_paid_at p) s2 = (Inr iv, s3)"
    and au: "AppendAudit oid ''user'' (Some (uuid_String uid)) ''payment.converted'' ''payment'' i NoAfter s3 = (Inr u', s')"
    by (auto simp: convert_tx_def tbind_Inr_iff)
  have sc1: "scope s1 = ScopeOrg oid" and docs: "payments s1 = payments s" "invoices s1 = invoices s"
    using keepsD [OF same_documents_target [of UNIV] _ tg] sc by (simp_all add: same_documents_def)
  have st: "st \<in> {StatusMatched, StatusCashSale}"
    using tg by (auto simp: convert_target_def tbind_Inr_iff split: option.splits if_splits)
  note s2 = AttachPaymentToSale_Inr [OF at]
  have "update_rows (\<lambda>r. own s1 (pay_org_id r) \<and> pay_id r = i) f (payments s) =
      update_rows (\<lambda>r. pay_id r = i) f (payments s)" for f
    unfolding update_rows_def
  proof (rule map_cong [OF refl])
    show "(if own s1 (pay_org_id r) \<and> pay_id r = i then f r else r) = (if pay_id r = i then f r else r)"
      if "r \<in> set (payments s)" for r
      using wf_unique_payment [OF wf that p(3)] p(4,5) sc1 by (auto simp: own_def)
  qed
  then have pays: "payments s2 = attached i sid st (payments s)" by (simp add: s2 docs attached_def)
  obtain l where s': "s' = s3\<lparr>audit_log := l\<rparr>" using au unfolding AppendAudit_Inr by blast
  have "scope s2 = ScopeOrg oid" "invoices s2 = invoices s" by (simp_all add: s2 sc1 docs)
  with civ show thesis
  proof (elim invoice_for_sale)
    fix sa
    assume iv: "sa \<in> set (sales s2)" "sale_id sa = sid" "sale_org_id sa = oid" "inv_sale_id iv = sid"
      "amounts iv = (sale_subtotal_cents sa, sale_tax_cents sa, sale_total_cents sa)"
      "invoices s3 = invoices s2 @ [iv]" "payments s3 = payments s2" "sales s3 = sales s2"
      "inv_payment_id iv = Some i"
    with p st0 st pays \<open>invoices s2 = invoices s\<close> show thesis
      by (intro that [of p st sa]) (simp_all add: s' sale_amounts_def)
  qed
qed

lemma GetPayment_unique:
  assumes "wf (tbl s)" and "\<not> aborted s" and "scope s = ScopeOrg (pay_org_id r)" and "r \<in> set (payments s)"
  shows "GetPayment (pay_id r) s = (Inr r, s)"
proof -
  have "find (\<lambda>q. sees_payment s q \<and> pay_id q = pay_id r) (payments s) = Some r"
  proof (cases "find (\<lambda>q. sees_payment s q \<and> pay_id q = pay_id r) (payments s)")
    case None
    with assms(3,4) show ?thesis by (auto simp: find_None_iff sees_payment_def own_def)
  next
    case (Some q)
    then have "q \<in> set (payments s)" "pay_id q = pay_id r" by (auto simp: find_Some_iff)
    with wf_unique_payment [OF assms(1) _ assms(4)] Some show ?thesis by metis
  qed
  with assms(2) show ?thesis by (simp add: GetPayment_def query_one_apply)
qed

lemma convert_refused:
  assumes "wf (tbl s)" and "r \<in> set (payments s)" and "pay_id r = i" and "pay_org_id r = pr_OrgID p"
    and "pay_status r \<noteq> StatusUnmatched" and "pay_status r \<noteq> StatusPartial"
  shows "\<exists>s'. convertPayment k resolver base now p (Some i) (Some inp) s =
      (Inr (Fail 409 ''conflict'' (err_text ErrDuplicate @ '': payment is already '' @ pay_status r)), s') \<and>
      tbl s' = tbl s"
proof -
  let ?e = "Wrap (err_text ErrDuplicate @ '': payment is already '' @ pay_status r) ErrDuplicate"
  let ?s = "s\<lparr>scope := ScopeOrg (pr_OrgID p), aborted := False\<rparr>"
  have "GetPayment i ?s = (Inr r, ?s)"
    using GetPayment_unique [of ?s r] assms by simp
  then have "convert_tx k resolver now (pr_OrgID p) (pr_UserID p) i inp ?s = (Inl ?e, ?s)"
    using assms(5,6) by (simp add: convert_tx_def)
  then have "WithOrg (pr_OrgID p) (convert_tx k resolver now (pr_OrgID p) (pr_UserID p) i inp) s =
      (Inl ?e, s\<lparr>reads := reads ?s\<rparr>)"
    unfolding scope_defs by (rule scoped_fail)
  then have "convertPayment k resolver base now p (Some i) (Some inp) s =
      (Inr (ledger_fail ?e ''Could not convert the payment''), s\<lparr>reads := reads ?s\<rparr>)"
    by (simp add: convertPayment_def idParam_def)
  moreover have "ledger_fail ?e ''Could not convert the payment'' =
      (Fail 409 ''conflict'' (err_text ErrDuplicate @ '': payment is already '' @ pay_status r) :: InvoiceView response)"
    by (rule ledger_fail_duplicate)
  ultimately show ?thesis by simp
qed

text \<open>
  Converting a payment by hand: when \<open>POST /payments/{id}/convert\<close> answers 201, the
  payment was unmatched or partial and of the caller's organisation; it is attached now to a
  sale of that organisation under the rule \<open>manual\<close>, no other payment changes, and
  exactly one invoice is issued, for this payment and with the amounts of that sale. Converting
  it once more, into whatever, is refused with a conflict and changes nothing.
\<close>

theorem converted_once:
  assumes "convertPayment k resolver base now p (Some i) (Some inp) s = (Inr (JSON 201 v), s')" and "wf (tbl s)"
  shows "(\<exists>r sa st iv. r \<in> set (payments s) \<and> pay_id r = i \<and> pay_org_id r = pr_OrgID p \<and>
      pay_status r \<in> {StatusUnmatched, StatusPartial} \<and> st \<in> {StatusMatched, StatusCashSale} \<and>
      payments s' = attached i (sale_id sa) st (payments s) \<and> invoices s' = invoices s @ [iv] \<and>
      sa \<in> set (sales s') \<and> sale_org_id sa = pr_OrgID p \<and> amounts iv = sale_amounts sa \<and>
      inv_sale_id iv = sale_id sa \<and> inv_payment_id iv = Some i \<and> v = toInvoice k base iv) \<and>
    (\<exists>m s''. convertPayment k resolver base' now' p (Some i) (Some inp') s' = (Inr (Fail 409 ''conflict'' m), s'') \<and>
      tbl s'' = tbl s')"
proof -
  let ?s = "s\<lparr>scope := ScopeOrg (pr_OrgID p), aborted := False\<rparr>"
  from assms(1) obtain iv where "WithOrg (pr_OrgID p) (convert_tx k resolver now (pr_OrgID p) (pr_UserID p) i inp) s = (Inr iv, s')"
      and v: "v = toInvoice k base iv"
    unfolding convertPayment_def idParam_def by (auto elim!: answer_good)
  then obtain s1 where run: "convert_tx k resolver now (pr_OrgID p) (pr_UserID p) i inp ?s = (Inr iv, s1)"
      and s': "s' = s1\<lparr>scope := scope s, aborted := aborted s\<rparr>"
    by (auto simp: scope_defs scoped_Inr_iff)
  have wf': "wf (tbl s')"
    using keepsD [OF wf.keeps_convertPayment [of p UNIV] _ assms(1)] assms(2) by (simp add: keeps_wf_def)
  from run show ?thesis
  proof (rule convert_steps)
    fix r sa st
    assume a: "r \<in> set (payments ?s)" "pay_id r = i" "pay_org_id r = pr_OrgID p"
      "pay_status r \<in> {StatusUnmatched, StatusPartial}" "st \<in> {StatusMatched, StatusCashSale}"
      "payments s1 = attached i (sale_id sa) st (payments ?s)" "invoices s1 = invoices ?s @ [iv]"
      "sa \<in> set (sales s1)" "sale_org_id sa = pr_OrgID p" "amounts iv = sale_amounts sa"
      "inv_sale_id iv = sale_id sa" "inv_payment_id iv = Some i"
    let ?r = "r\<lparr>pay_sale_id := Some (sale_id sa), pay_status := st, pay_match_rule := Some RuleManual\<rparr>"
    have "?r \<in> set (payments s')" using a(1,2,6) by (auto simp: s' attached_def set_update_rows)
    moreover have "pay_status ?r \<noteq> StatusUnmatched" "pay_status ?r \<noteq> StatusPartial"
      using a(5) by (auto simp: StatusMatched_def StatusCashSale_def StatusUnmatched_def StatusPartial_def)
    ultimately have "\<exists>m s''. convertPayment k resolver base' now' p (Some i) (Some inp') s' =
        (Inr (Fail 409 ''conflict'' m), s'') \<and> tbl s'' = tbl s'"
      using convert_refused [OF wf', of ?r i p] a(2,3) by fastforce
    moreover have "\<exists>r sa st iv. r \<in> set (payments s) \<and> pay_id r = i \<and> pay_org_id r = pr_OrgID p \<and>
      pay_status r \<in> {StatusUnmatched, StatusPartial} \<and> st \<in> {StatusMatched, StatusCashSale} \<and>
      payments s' = attached i (sale_id sa) st (payments s) \<and> invoices s' = invoices s @ [iv] \<and>
      sa \<in> set (sales s') \<and> sale_org_id sa = pr_OrgID p \<and> amounts iv = sale_amounts sa \<and>
      inv_sale_id iv = sale_id sa \<and> inv_payment_id iv = Some i \<and> v = toInvoice k base iv"
      by (rule exI [of _ r], rule exI [of _ sa], rule exI [of _ st], rule exI [of _ iv]) (use a v in \<open>simp add: s'\<close>)
    ultimately show ?thesis by (rule conjI [rotated])
  qed (use assms(2) in simp_all)
qed

definition loose_db :: db where
  "loose_db = tab_db\<lparr>payments := [\<lparr>pay_id = 5, pay_org_id = 1, pay_shortcode_id = 3, pay_webhook_event_id = None, pay_trans_id = ''TX9'',
     pay_amount_cents = 11600, pay_msisdn_enc = [], pay_msisdn_hash = [], pay_payer_name = ''Asha'',
     pay_bill_ref = [], pay_paid_at = 1, pay_status = StatusUnmatched, pay_sale_id = None,
     pay_match_rule = None, pay_reversed_at = None\<rparr>]\<rparr>"

definition into_tab :: convertInput where
  "into_tab = \<lparr>cvi_ItemID = None, cvi_SaleID = Some 4, cvi_Lines = [], cvi_BuyerPIN = [], cvi_BuyerName = []\<rparr>"

lemma wf_loose: "wf (tbl loose_db)"
  by (simp add: wf_defs keyed_def loose_db_def tab_db_def shop_db_def empty_db_def payment_checks_def
      payment_statuses_def StatusUnmatched_def)

lemma loose_converted:
  "map_sum id http_status (fst (convertPayment plain_keyring None [] 7 shop_owner (Some 5) (Some into_tab) loose_db)) = Inr 201"
  by code_simp

theorem converted_once_witness:
  "\<exists>v s' iv. convertPayment plain_keyring None [] 7 shop_owner (Some 5) (Some into_tab) loose_db = (Inr (JSON 201 v), s') \<and>
     invoices s' = [iv] \<and> inv_payment_id iv = Some 5 \<and>
     (\<exists>m s''. convertPayment plain_keyring None [] 8 shop_owner (Some 5) (Some into_tab) s' =
        (Inr (Fail 409 ''conflict'' m), s'') \<and> tbl s'' = tbl s')"
proof -
  obtain v s' where run: "convertPayment plain_keyring None [] 7 shop_owner (Some 5) (Some into_tab) loose_db = (Inr (JSON 201 v), s')"
    using answer_ledger [OF loose_converted [unfolded convertPayment_def idParam_def option.case]]
    unfolding convertPayment_def idParam_def option.case by auto
  have "invoices loose_db = []" by (simp add: loose_db_def tab_db_def shop_db_def empty_db_def)
  with converted_once [OF run wf_loose, of "[]" 8 into_tab] run show ?thesis by fastforce
qed

end
