(* ===== verification/System.thy ===== *)
theory System
  imports LedgerProps Submitter Samples MockProvider
begin

text \<open>
  The running system: webhook deliveries, merchant and buyer requests, the fiscal worker and
  the watchdog interleave, each transaction being atomic. A step is one operation of the
  ledger, one whole submission attempt, or one of the three parts of an attempt (so that a
  worker may be interrupted between claiming an invoice, calling the provider and recording
  the answer, and other steps may come in between), or the passing of time.
\<close>

inductive step ::
    "Keyring \<Rightarrow> (string \<Rightarrow> string) \<Rightarrow> 'p Provider \<Rightarrow> db \<times> 'p \<Rightarrow> db \<times> 'p \<Rightarrow> bool"
  for k :: Keyring and b :: "string \<Rightarrow> string" and P :: "'p Provider" where
  step_c2b: "IngestC2B k now inp s = (r, s') \<Longrightarrow> step k b P (s, p) (s', p)"
| step_stk: "IngestSTK k now stk s = (ru, s') \<Longrightarrow> step k b P (s, p) (s', p)"
| step_stored: "ProcessStoredC2B k now i sc inp s = (r, s') \<Longrightarrow> step k b P (s, p) (s', p)"
| step_activate: "ActivateTaxPending oid s = (rn, s') \<Longrightarrow> step k b P (s, p) (s', p)"
| step_reissue: "ReissueInvoice k now oid iid ri s = (rv, s') \<Longrightarrow> step k b P (s, p) (s', p)"
| step_claim_receipt: "ClaimReceiptByCode k resolver now code pin name s = (rv, s') \<Longrightarrow>
    step k b P (s, p) (s', p)"
| step_credit_note: "CreateCreditNoteForInvoice now oid iid reason at' ai s = (rv, s') \<Longrightarrow>
    step k b P (s, p) (s', p)"
| step_reversal: "IngestReversal now t reason s = (ru, s') \<Longrightarrow> step k b P (s, p) (s', p)"
| step_submit: "Submit k b P now oid iid (s, p) = (rr, s', p') \<Longrightarrow> step k b P (s, p) (s', p')"
| step_claim: "submit_claim k b now oid iid s = (rc, s') \<Longrightarrow> step k b P (s, p) (s', p)"
| step_call: "submit_call P cl p = (answer, p') \<Longrightarrow> step k b P (s, p) (s, p')"
| step_persist: "submit_persist adapter now oid iid cl answer s = (rr, s') \<Longrightarrow>
    step k b P (s, p) (s', p)"
| step_retry: "Retry oid iid actor s = (ru, s') \<Longrightarrow> step k b P (s, p) (s', p)"
| step_rescue: "RescueStaleInvoices s = (ru, s') \<Longrightarrow> step k b P (s, p) (s', p)"
| step_time: "clock s \<le> t \<Longrightarrow> step k b P (s, p) (s\<lparr>clock := t\<rparr>, p)"

inductive_cases stepE: "step k b P w w'"

context op_frame
begin

lemma frame_step:
  assumes "step k b P w w'"
  shows "R (tbl (fst w)) (tbl (fst w'))"
  using assms
proof (cases rule: step.cases)
  case (step_submit now oid iid s p rr s' p')
  then show ?thesis using keeps_Submit [OF any_scope] by fastforce
next
  case (step_c2b now inp s r s' p)
  then show ?thesis using keepsD [OF keeps_IngestC2B [of UNIV] UNIV_I] by fastforce
next
  case (step_stk now stk s ru s' p)
  then show ?thesis using keepsD [OF keeps_IngestSTK [of UNIV] UNIV_I] by fastforce
next
  case (step_stored now i sc inp s r s' p)
  then show ?thesis
    using keepsD [OF keeps_ProcessStoredC2B [OF any_scope any_scope, of UNIV] UNIV_I] by fastforce
next
  case (step_activate oid s rn s' p)
  then show ?thesis using keepsD [OF keeps_ActivateTaxPending [OF any_scope, of UNIV] UNIV_I] by fastforce
next
  case (step_reissue now oid iid ri s rv s' p)
  then show ?thesis using keepsD [OF keeps_op_reissue [of UNIV] UNIV_I] by fastforce
next
  case (step_claim_receipt resolver now code pin name s rv s' p)
  then show ?thesis using keepsD [OF keeps_ClaimReceipt [of UNIV] UNIV_I] by fastforce
next
  case (step_credit_note now oid iid reason at' ai s rv s' p)
  then show ?thesis using keepsD [OF keeps_op_credit_note [of UNIV] UNIV_I] by fastforce
next
  case (step_reversal now t reason s ru s' p)
  then show ?thesis using keepsD [OF keeps_IngestReversal [of UNIV] UNIV_I] by fastforce
next
  case (step_claim now oid iid s rc s' p)
  then show ?thesis using keepsD [OF keeps_submit_claim [OF any_scope, of UNIV] UNIV_I] by fastforce
next
  case (step_persist adapter now oid iid cl answer s rr s' p)
  then show ?thesis using keepsD [OF keeps_submit_persist [OF any_scope, of UNIV] UNIV_I] by fastforce
next
  case (step_retry oid iid actor s ru s' p)
  then show ?thesis using keepsD [OF keeps_Retry [OF any_scope, of UNIV] UNIV_I] by fastforce
next
  case (step_rescue s ru s' p)
  then show ?thesis
    using keepsD [OF keeps_RescueStaleInvoices [OF all_scopes, of UNIV] UNIV_I] by fastforce
qed (simp_all add: R_refl)

lemma frame_run:
  assumes "(step k b P)\<^sup>*\<^sup>* w w'"
  shows "R (tbl (fst w)) (tbl (fst w'))"
  using assms by (induction rule: rtranclp_induct) (auto intro: R_refl R_trans dest: frame_step)

end

text \<open>
  The ledger is append-only: whatever operations run, in whatever order and however a
  submission attempt is interrupted, every invoice, payment, sale, sale line, submission
  record, audit entry and job request that was there before is still there, in the same
  order, with its identity, organisation, kind, parent, receipt code and amounts unchanged,
  and an invoice KRA has acknowledged stays acknowledged.
\<close>

theorem ledger_append_only:
  assumes "(step k b P)\<^sup>*\<^sup>* (s, p) (s', p')"
  shows "history (tbl s) (tbl s')"
  using history.frame_run [OF assms] by simp

theorem ledger_append_only_witness:
  "\<exists>s'. (step plain_keyring id (mock_provider sample_env))\<^sup>*\<^sup>*
       (shop_db, mock_New FailNone 5) (s', mock_New FailNone 5) \<and>
     length (invoices s') = 1 \<and> length (payments s') = 1 \<and> history (tbl shop_db) (tbl s')"
proof -
  obtain r s' where run: "IngestC2B plain_keyring 0 cash_payment shop_db = (r, s')"
    by (cases "IngestC2B plain_keyring 0 cash_payment shop_db")
  have "step plain_keyring id (mock_provider sample_env)
      (shop_db, mock_New FailNone 5) (s', mock_New FailNone 5)"
    using run by (rule step_c2b)
  then have steps: "(step plain_keyring id (mock_provider sample_env))\<^sup>*\<^sup>*
      (shop_db, mock_New FailNone 5) (s', mock_New FailNone 5)" by blast
  have "s' = snd (IngestC2B plain_keyring 0 cash_payment shop_db)" using run by simp
  then have "length (invoices s') = 1 \<and> length (payments s') = 1"
    using shop_ingest by simp
  with steps ledger_append_only [OF steps] show ?thesis by blast
qed

text \<open>
  Keys stay keys: from a well-formed store every reachable store is well-formed. No two
  invoices share an identifier or a receipt code, no two payments an M-Pesa transaction id,
  no two sales of an organisation a reference, no two webhook events an external id; every
  payment has a positive amount and a status and matching rule the schema allows, and every
  invoice a state of the life cycle.
\<close>

theorem store_well_formed:
  assumes "wf (tbl s)" and "(step k b P)\<^sup>*\<^sup>* (s, p) (s', p')"
  shows "wf (tbl s')"
  using wf.frame_run [OF assms(2)] assms(1) by (simp add: keeps_wf_def)

theorem store_well_formed_witness:
  "\<exists>s'. (step plain_keyring id (mock_provider sample_env))\<^sup>*\<^sup>*
       (shop_db, mock_New FailNone 5) (s', mock_New FailNone 5) \<and>
     length (invoices s') = 1 \<and> wf (tbl s')"
proof -
  obtain r s' where run: "IngestC2B plain_keyring 0 cash_payment shop_db = (r, s')"
    by (cases "IngestC2B plain_keyring 0 cash_payment shop_db")
  have steps: "(step plain_keyring id (mock_provider sample_env))\<^sup>*\<^sup>*
      (shop_db, mock_New FailNone 5) (s', mock_New FailNone 5)"
    using step_c2b [OF run] by (rule r_into_rtranclp)
  have "s' = snd (IngestC2B plain_keyring 0 cash_payment shop_db)" using run by simp
  then have "length (invoices s') = 1" using shop_ingest by simp
  with steps store_well_formed [OF wf_shop steps] show ?thesis by blast
qed

text \<open>
  C3. Tenants do not touch each other: whether it succeeds or fails, an operation performed
  for one organisation leaves every invoice, payment, sale, sale line, item, customer,
  request-to-pay, shortcode, submission record, usage counter and audit entry of every other
  organisation as it was.
\<close>

theorem tenant_isolation:
  "isolated oid (tbl s) (tbl (snd (ActivateTaxPending oid s))) \<and>
   isolated oid (tbl s) (tbl (snd (ReissueInvoice k now oid iid ri s))) \<and>
   isolated oid (tbl s) (tbl (snd (CreateCreditNoteForInvoice now oid iid reason at' ai s))) \<and>
   isolated oid (tbl s) (tbl (snd (Retry oid iid actor s))) \<and>
   isolated oid (tbl s) (tbl (fst (snd (Submit k b P now oid iid (s, p))))) \<and>
   isolated (rs_OrgID sc) (tbl s) (tbl (snd (ProcessStoredC2B k now i sc inp s)))"
proof -
  show ?thesis
    by (intro conjI; (rule keeps_tables, intro isolated.keeps_ActivateTaxPending
        isolated.keeps_ReissueInvoice isolated.keeps_CreateCreditNote isolated.keeps_Retry
        isolated.keeps_ProcessStoredC2B)?)
      (simp_all, metis isolated.keeps_Submit tenant_scopes_simps(1) prod.collapse)
qed

end
