(* ===== verification/LifecycleProps.thy ===== *)
theory LifecycleProps
  imports SubmitProps System
begin

text \<open>
  Activation of eTIMS releases every waiting invoice once; the chain of superseded invoices
  never loops, so following it ends.
\<close>

subsection \<open>Activation\<close>

lemma for_each_EnqueueTx:
  "\<not> aborted s \<Longrightarrow> for_each (\<lambda>i. EnqueueTx (f i)) xs s = (Inr (), s\<lparr>jobs := jobs s @ map (\<lambda>i. (f i, None)) xs\<rparr>)"
  by (induction xs arbitrary: s) (simp_all add: EnqueueTx_def update_apply tbind_def)

lemma update_rows_none: "filter p xs = [] \<Longrightarrow> update_rows p f xs = xs"
  by (induction xs) (auto split: if_splits)

definition awaiting :: "uuid \<Rightarrow> Invoice \<Rightarrow> bool" where
  "awaiting oid i \<longleftrightarrow> inv_org_id i = oid \<and> inv_state i = StateTaxPending"

definition released_row :: "time \<Rightarrow> Invoice \<Rightarrow> Invoice" where
  "released_row now i = i\<lparr>inv_state := StateQueued, inv_updated_at := now\<rparr>"

lemma none_awaiting: "filter (awaiting oid) (update_rows (awaiting oid) (released_row c) xs) = []"
  by (induction xs) (simp_all add: awaiting_def released_row_def)

lemma activate_effect:
  obtains log where "ActivateTaxPending oid s = (Inr (int (length (filter (awaiting oid) (invoices s)))),
    s\<lparr>invoices := update_rows (awaiting oid) (released_row (clock s)) (invoices s),
      jobs := jobs s @ map (\<lambda>i. (SubmitInvoiceArgs oid (inv_id i), None)) (filter (awaiting oid) (invoices s)),
      audit_log := log\<rparr>)"
proof -
  let ?s0 = "s\<lparr>scope := ScopeOrg oid, aborted := False\<rparr>"
  let ?ids = "map inv_id (filter (awaiting oid) (invoices s))"
  let ?rows = "update_rows (awaiting oid) (released_row (clock s)) (invoices s)"
  let ?jobs = "map (\<lambda>i. (SubmitInvoiceArgs oid i, None)) ?ids"
  have p: "(\<lambda>i. writes_invoice ?s0 i \<and> inv_org_id i = oid \<and> inv_state i = StateTaxPending) = awaiting oid"
    by (rule ext) (auto simp: awaiting_def writes_invoice_def own_def)
  have f: "(\<lambda>i. i\<lparr>inv_state := StateQueued, inv_updated_at := clock s\<rparr>) = released_row (clock s)"
    by (rule ext) (simp add: released_row_def)
  have act: "ActivateTaxPendingInvoices oid ?s0 = (Inr ?ids, ?s0\<lparr>invoices := ?rows\<rparr>)"
    unfolding ActivateTaxPendingInvoices_def Let_def stmt_def p by (simp add: f)
  have enq: "for_each (\<lambda>i. EnqueueTx (SubmitInvoiceArgs oid i)) ?ids (?s0\<lparr>invoices := ?rows\<rparr>) =
      (Inr (), ?s0\<lparr>invoices := ?rows, jobs := jobs s @ ?jobs\<rparr>)"
    by (subst for_each_EnqueueTx) simp_all
  obtain log where au: "(if ?ids = [] then ret ()
       else AppendAudit oid ''system'' None ''invoice.tax_pending_activated'' ''org'' oid
         (CountAfter (int (length ?ids)))) (?s0\<lparr>invoices := ?rows, jobs := jobs s @ ?jobs\<rparr>) =
      (Inr (), ?s0\<lparr>invoices := ?rows, jobs := jobs s @ ?jobs, audit_log := log\<rparr>)"
  proof (cases "?ids = []")
    case True
    then show thesis by (intro that [of "audit_log s"]) simp
  next
    case False
    then show thesis by (intro that) (simp add: AppendAudit_def stmt_def own_def)
  qed
  have body: "tbind (ActivateTaxPendingInvoices oid) (\<lambda>ids.
     tbind (for_each (\<lambda>i. EnqueueTx (SubmitInvoiceArgs oid i)) ids) (\<lambda>_.
     tbind (if ids = [] then ret ()
       else AppendAudit oid ''system'' None ''invoice.tax_pending_activated'' ''org'' oid
         (CountAfter (int (length ids)))) (\<lambda>_.
     ret (int (length ids))))) ?s0 = (Inr (int (length ?ids)),
      ?s0\<lparr>invoices := ?rows, jobs := jobs s @ ?jobs, audit_log := log\<rparr>)"
    by (simp only: tbind_def act enq au prod.case sum.case ret_apply)
  have "ActivateTaxPending oid s = (Inr (int (length ?ids)),
      ?s0\<lparr>invoices := ?rows, jobs := jobs s @ ?jobs, audit_log := log,
        scope := scope s, aborted := aborted s\<rparr>)"
    unfolding ActivateTaxPending_def scope_defs scoped_def body by simp
  moreover have "?s0\<lparr>invoices := ?rows, jobs := jobs s @ ?jobs, audit_log := log,
        scope := scope s, aborted := aborted s\<rparr> = s\<lparr>invoices := ?rows, jobs := jobs s @ ?jobs, audit_log := log\<rparr>"
    by (cases s) simp
  ultimately show thesis by (intro that [of log]) (simp add: comp_def)
qed

text \<open>
  C16. Activating eTIMS releases exactly the invoices that were waiting for it: every
  TAX_PENDING invoice of the organisation becomes QUEUED and gets exactly one submission
  job, every other invoice stays as it was, and a second activation finds nothing to do
  and changes neither invoices nor jobs.
\<close>

theorem activation_releases_once:
  "\<exists>s'. ActivateTaxPending oid s = (Inr (int (length (filter (awaiting oid) (invoices s)))), s') \<and>
    invoices s' = map (\<lambda>i. if awaiting oid i then released_row (clock s) i else i) (invoices s) \<and>
    jobs s' = jobs s @ map (\<lambda>i. (SubmitInvoiceArgs oid (inv_id i), None)) (filter (awaiting oid) (invoices s)) \<and>
    (\<exists>s''. ActivateTaxPending oid s' = (Inr 0, s'') \<and> invoices s'' = invoices s' \<and> jobs s'' = jobs s')"
proof -
  obtain log where one: "ActivateTaxPending oid s = (Inr (int (length (filter (awaiting oid) (invoices s)))),
    s\<lparr>invoices := update_rows (awaiting oid) (released_row (clock s)) (invoices s),
      jobs := jobs s @ map (\<lambda>i. (SubmitInvoiceArgs oid (inv_id i), None)) (filter (awaiting oid) (invoices s)),
      audit_log := log\<rparr>)" (is "_ = (_, ?s1)") by (rule activate_effect)
  have none: "filter (awaiting oid) (invoices ?s1) = []"
    by (simp add: none_awaiting)
  have same: "update_rows (awaiting oid) (released_row (clock ?s1)) (invoices ?s1) = invoices ?s1"
    using none by (rule update_rows_none)
  obtain log' where "ActivateTaxPending oid ?s1 =
      (Inr (int (length (filter (awaiting oid) (invoices ?s1)))),
       ?s1\<lparr>invoices := update_rows (awaiting oid) (released_row (clock ?s1)) (invoices ?s1),
         jobs := jobs ?s1 @ map (\<lambda>i. (SubmitInvoiceArgs oid (inv_id i), None)) (filter (awaiting oid) (invoices ?s1)),
         audit_log := log'\<rparr>)" by (rule activate_effect)
  then have "ActivateTaxPending oid ?s1 = (Inr 0, ?s1\<lparr>invoices := invoices ?s1, jobs := jobs ?s1, audit_log := log'\<rparr>)"
    unfolding none same by simp
  with one show ?thesis by (auto simp: update_rows_def)
qed

subsection \<open>The chain of superseded invoices ends\<close>

definition ordered :: "tables \<Rightarrow> bool" where
  "ordered t \<longleftrightarrow> (\<forall>i \<in> set (invoices t). \<forall>j. inv_superseded_by i = Some j \<longrightarrow> inv_id i < j)"

definition keeps_ordered :: "tables \<Rightarrow> tables \<Rightarrow> bool" where
  "keeps_ordered t u \<longleftrightarrow> (ordered t \<longrightarrow> ordered u)"

definition keeps_chain :: "tables \<Rightarrow> tables \<Rightarrow> bool" where
  "keeps_chain t u \<longleftrightarrow> (wf t \<and> ordered t \<longrightarrow> wf u \<and> ordered u)"

lemma ordered_frame: "table_frame keeps_ordered"
  by unfold_locales (auto simp: keeps_ordered_def)

lemmas ordered_stmt = table_frame.keeps_stmt [OF ordered_frame]
lemmas ordered_update = table_frame.keeps_update [OF ordered_frame]

lemma ordered_update_invoice:
  assumes "\<And>now r. inv_id (f now r) = inv_id r" and "\<And>now r. inv_superseded_by (f now r) = inv_superseded_by r"
  shows "keeps S keeps_ordered (update_invoice p f)"
proof (rule keeps_update_invoice)
  show "keeps_ordered t t" for t by (simp add: keeps_ordered_def)
  show "keeps_ordered (tbl s) (tbl (updated_db p f s))" for s
    using assms by (auto simp: keeps_ordered_def ordered_def updated_db_def set_update_rows split: if_splits)
qed

interpretation ordered: write_frame keeps_ordered UNIV
proof (intro write_frame.intro ordered_frame write_frame_axioms.intro, goal_cases)
  case (16 p)
  show ?case unfolding CreateInvoice_def Let_def
    by (rule ordered_stmt) (auto simp: keeps_ordered_def ordered_def new_invoice_def split: if_splits)
next
  case (17 old i new att nxt err)
  show ?case unfolding SetInvoiceState_def by (rule ordered_update_invoice) simp_all
next
  case (18 i no sig qr at)
  show ?case unfolding AckInvoice_def by (rule ordered_update_invoice) simp_all
next
  case (19 i)
  show ?case unfolding ResetInvoiceForRetry_def by (rule ordered_update_invoice) simp_all
next
  case (20 i)
  show ?case unfolding ActivateTaxPendingInvoices_def Let_def
    by (rule ordered_stmt) (auto simp: keeps_ordered_def ordered_def set_update_rows split: if_splits)
qed (unfold write_defs Let_def,
  (rule ordered_stmt ordered_update, force simp: keeps_ordered_def ordered_def split: if_splits)+)

lemma keeps_chainI: "keeps S keeps_wf m \<Longrightarrow> keeps S keeps_ordered m \<Longrightarrow> keeps S keeps_chain m"
  unfolding keeps_def keeps_wf_def keeps_ordered_def keeps_chain_def by blast

lemma chain_frame: "table_frame keeps_chain"
  by unfold_locales (auto simp: keeps_chain_def)

interpretation chain: write_frame keeps_chain UNIV
  by (intro write_frame.intro chain_frame write_frame_axioms.intro keeps_chainI)
    (rule wf.keeps_writes ordered.keeps_writes | erule wf.k_SetInvoiceState ordered.k_SetInvoiceState)+

text \<open>A link made by a re-issue or a credit note points to a document created later.\<close>

lemma relinked_ordered:
  assumes lt: "\<And>r. r \<in> set rows \<Longrightarrow> inv_id r < j"
    and old: "\<And>r k. r \<in> set rows \<Longrightarrow> inv_id r \<notin> set ids \<Longrightarrow> inv_superseded_by r = Some k \<Longrightarrow> inv_id r < k"
    and i: "i \<in> set (relinked j now ids rows)" "inv_superseded_by i = Some k"
  shows "inv_id i < k"
proof -
  from i(1) obtain r where r: "r \<in> set rows" and e: "i = (if inv_id r \<in> set ids then superseding j now r else r)"
    by (auto simp: relinked_def)
  show ?thesis
    using i(2) lt [OF r] old [OF r] unfolding e by (auto simp: superseding_def split: if_splits)
qed

lemma reissue_ordered:
  assumes w: "wf (tbl s)" and ord: "ordered (tbl s)" and run: "ReissueInvoice k now oid iid ri s = (Inr new, s')"
  shows "ordered (tbl s')"
proof -
  from ReissueInvoice_Inr [OF w run] obtain orig oo ns where eff: "reissue_effect k ri oo oid s orig ns new s'"
    by blast
  let ?rows = "invoices s @ ns" and ?ids = "map inv_id (orig # ns)"
  have rows: "invoices s' = relinked (inv_id new) (clock s) ?ids ?rows @ [new]" "inv_superseded_by new = None"
    and id: "inv_id new = next_id s + length ns" "\<forall>c \<in> set ns. inv_id c = next_id s"
    using eff by (auto simp: reissue_effect_def)
  have lt: "inv_id r < inv_id new" if "r \<in> set ?rows" for r
    using that id wf_fresh_id [OF w, of r] by (cases ns) auto
  have "inv_id i < j" if "i \<in> set (relinked (inv_id new) (clock s) ?ids ?rows)" "inv_superseded_by i = Some j" for i j
    by (rule relinked_ordered [OF lt _ that]) (use ord in \<open>auto simp: ordered_def\<close>)
  with rows show ?thesis by (auto simp: ordered_def)
qed

lemma credit_note_ordered:
  assumes w: "wf (tbl s)" and ord: "ordered (tbl s)"
    and run: "CreateCreditNoteForInvoice now oid iid reason at' ai s = (Inr cn, s')"
  shows "ordered (tbl s')"
proof -
  from CreateCreditNote_Inr [OF run w] obtain orig oo where eff: "credit_effect oo oid s orig cn s'" by blast
  then have rows: "invoices s' = relinked (inv_id cn) (clock s) [inv_id orig] (invoices s) @ [cn]"
      "inv_superseded_by cn = None" "inv_id cn = next_id s"
    by (simp_all add: credit_effect_def)
  have "inv_id i < j" if "i \<in> set (relinked (inv_id cn) (clock s) [inv_id orig] (invoices s))"
      "inv_superseded_by i = Some j" for i j
    by (rule relinked_ordered [OF _ _ that]) (use wf_fresh_id [OF w] rows(3) ord in \<open>auto simp: ordered_def\<close>)
  with rows show ?thesis by (auto simp: ordered_def)
qed

lemma scoped_keeps_chain:
  assumes "\<And>s x s'. wf (tbl s) \<Longrightarrow> ordered (tbl s) \<Longrightarrow> m s = (Inr x, s') \<Longrightarrow> ordered (tbl s')"
    and "\<And>s e s'. m s = (Inl e, s') \<Longrightarrow> tbl s' = tbl s" and "keeps UNIV keeps_wf m"
  shows "keeps UNIV keeps_chain m"
proof (rule keepsI)
  fix s r s'
  assume run: "m s = (r, s')"
  note k = keepsD [OF assms(3) UNIV_I run]
  show "scope s' = scope s \<and> clock s' = clock s \<and> keeps_chain (tbl s) (tbl s')"
  proof (cases r)
    case (Inl e)
    with run assms(2) k show ?thesis by (simp add: keeps_chain_def)
  next
    case (Inr x)
    with run assms(1) k show ?thesis by (auto simp: keeps_chain_def keeps_wf_def)
  qed
qed

lemma scoped_Inl_tbl: "scoped sc m s = (Inl e, s') \<Longrightarrow> tbl s' = tbl s"
  using arg_cong [OF scoped_Inl [of sc m s e s'], of tbl] by simp

interpretation chain: op_frame keeps_chain UNIV
proof unfold_locales
  show "(UNIV :: Scope set) = UNIV" by simp
  show "keeps UNIV keeps_chain (ReissueInvoice k now oid iid ri)" for k now oid iid ri
  proof (rule scoped_keeps_chain)
    show "ReissueInvoice k now oid iid ri s = (Inl e, s') \<Longrightarrow> tbl s' = tbl s" for s e s'
      by (auto simp: ReissueInvoice_def Let_def scope_defs split: if_splits dest: scoped_Inl_tbl)
  qed (erule (2) reissue_ordered, rule wf.keeps_op_reissue)
  show "keeps UNIV keeps_chain (CreateCreditNoteForInvoice now oid iid reason at' ai)" for now oid iid reason at' ai
  proof (rule scoped_keeps_chain)
    show "CreateCreditNoteForInvoice now oid iid reason at' ai s = (Inl e, s') \<Longrightarrow> tbl s' = tbl s" for s e s'
      by (auto simp: CreateCreditNoteForInvoice_def scope_defs dest: scoped_Inl_tbl)
  qed (erule (2) credit_note_ordered, rule wf.keeps_op_credit_note)
qed

lemma active_from_ends:
  assumes "ordered (tbl s)" and "\<not> aborted s"
  shows "i \<in> set (invoices s) \<Longrightarrow> card {r \<in> set (invoices s). inv_id i < inv_id r} < n \<Longrightarrow>
    \<exists>j. active_from n i s = (Inr j, s)"
proof (induction n arbitrary: i)
  case (Suc n)
  show ?case
  proof (cases "inv_superseded_by i")
    case None
    then show ?thesis by simp
  next
    case (Some m)
    have q: "GetInvoice m s = (case find (\<lambda>r. sees_invoice s r \<and> inv_id r = m) (invoices s) of
        None \<Rightarrow> (Inl ErrNoRows, s) | Some x \<Rightarrow> (Inr x, s))"
      using assms(2) by (simp add: GetInvoice_def query_one_apply)
    show ?thesis
    proof (cases "find (\<lambda>r. sees_invoice s r \<and> inv_id r = m) (invoices s)")
      case None
      with q Some show ?thesis by (simp add: attempt_def tbind_def)
    next
      case (Some x)
      then have x: "x \<in> set (invoices s)" "inv_id x = m" by (auto simp: find_Some_iff)
      have lt: "inv_id i < inv_id x"
        using assms(1) Suc.prems(1) \<open>inv_superseded_by i = Some m\<close> x(2) by (simp add: ordered_def)
      have "{r \<in> set (invoices s). inv_id x < inv_id r} \<subset> {r \<in> set (invoices s). inv_id i < inv_id r}"
        using lt x(1) by auto
      then have "card {r \<in> set (invoices s). inv_id x < inv_id r} < card {r \<in> set (invoices s). inv_id i < inv_id r}"
        by (intro psubset_card_mono) auto
      with Suc.IH [OF x(1)] Suc.prems(2) q Some \<open>inv_superseded_by i = Some m\<close> show ?thesis by auto
    qed
  qed
qed simp

text \<open>The loop that looks for the active document of an invoice returns the end of its chain.\<close>

lemma active_invoice_ends:
  assumes "ordered (tbl s')" and "i \<in> set (invoices s')" and "inv_org_id i = oid"
  shows "\<exists>j. active_invoice i (s'\<lparr>scope := ScopeOrg oid, aborted := False\<rparr>) =
      (Inr j, s'\<lparr>scope := ScopeOrg oid, aborted := False\<rparr>) \<and> chain_end s' oid j"
proof -
  let ?u = "s'\<lparr>scope := ScopeOrg oid, aborted := False\<rparr>"
  have ord: "ordered (tbl ?u)" using assms(1) by simp
  have "{r \<in> set (invoices s'). inv_id i < inv_id r} \<subseteq> set (invoices s')" by blast
  then have "card {r \<in> set (invoices s'). inv_id i < inv_id r} \<le> length (invoices s')"
    by (meson List.finite_set card_length card_mono le_trans)
  then obtain j where run: "active_invoice i ?u = (Inr j, ?u)"
    using active_from_ends [OF ord, of i "Suc (length (invoices s'))"] assms(2)
    by (auto simp: active_invoice_def simp del: active_from.simps)
  have "scope ?u = ScopeOrg oid" "\<not> aborted ?u" "i \<in> set (invoices ?u)" using assms(2) by simp_all
  with active_from_Inr [of _ i ?u j ?u oid] run assms(3) have "chain_end ?u oid j"
    unfolding active_invoice_def by blast
  with run show ?thesis by (auto simp: chain_end_def)
qed

corollary correction_chain_ends:
  assumes "wf (tbl s)" and "ordered (tbl s)" and "(step k b P)\<^sup>*\<^sup>* (s, p) (s', p')"
    and "i \<in> set (invoices s')" and "inv_org_id i = oid"
  shows "\<exists>j. active_invoice i (s'\<lparr>scope := ScopeOrg oid, aborted := False\<rparr>) =
      (Inr j, s'\<lparr>scope := ScopeOrg oid, aborted := False\<rparr>) \<and> chain_end s' oid j"
  using chain.frame_run [OF assms(3)] assms(1,2) by (intro active_invoice_ends assms(4,5)) (simp add: keeps_chain_def)

lemma corrected_once:
  "\<exists>s' i. step plain_keyring id (mock_provider sample_env) (acked_db, mock_New FailNone 5) (s', mock_New FailNone 5) \<and>
     i \<in> set (invoices s') \<and> inv_superseded_by i \<noteq> None \<and> inv_org_id i = 1"
proof -
  let ?r = "ReissueInvoice plain_keyring 9 1 5 new_buyer acked_db"
  have "map inv_superseded_by (invoices (snd ?r)) \<noteq> [] \<and> hd (map inv_superseded_by (invoices (snd ?r))) \<noteq> None \<and>
      inv_org_id (hd (invoices (snd ?r))) = 1" by code_simp
  then have i: "hd (invoices (snd ?r)) \<in> set (invoices (snd ?r))" "inv_superseded_by (hd (invoices (snd ?r))) \<noteq> None"
      "inv_org_id (hd (invoices (snd ?r))) = 1"
    by (auto simp: hd_map)
  have "step plain_keyring id (mock_provider sample_env) (acked_db, mock_New FailNone 5) (snd ?r, mock_New FailNone 5)"
    by (rule step_reissue [of plain_keyring 9 1 5 new_buyer acked_db "fst ?r"]) simp
  with i show ?thesis by blast
qed

lemma ordered_acked: "ordered (tbl acked_db)"
  by (simp add: ordered_def acked_db_def acked_invoice_def new_invoice_def)

end
