(* ===== verification/Platform.thy ===== *)
theory Platform
  imports ReadRoutes SalesProps LifecycleProps
begin

text \<open>
  Every operation of the program keeps the ledger's relations. \<open>aside\<close> is what a statement on
  accounts, messages, subscriptions or operator settings may change: none of the ledger's tables.
  The locale \<open>platform_frame\<close> asks of a relation that it allows such a change and an operator's
  edit of an invoice's state, on top of the laws of the ledger's routes; inside it every route of
  the server, every job of the worker and the sweeps are shown to keep the relation.
\<close>

subsection \<open>Beside the ledger\<close>

definition aside :: "tables \<Rightarrow> tables \<Rightarrow> bool" where
  "aside t u \<longleftrightarrow> u = t\<lparr>orgs := orgs u, users := users u, memberships := memberships u, sessions := sessions u,
     otp_codes := otp_codes u, org_invites := org_invites u, notifications := notifications u,
     subscriptions := subscriptions u, next_id := next_id u\<rparr> \<and> next_id t \<le> next_id u"

interpretation aside: table_frame aside
proof
  show "aside t t" for t by (simp add: aside_def)
  show "aside t v" if "aside t u" "aside u v" for t u v
    using that unfolding aside_def by (cases t; cases u; cases v) simp
qed

lemma aside_stmt:
  assumes "\<And>s x s'. q s = Inr (x, s') \<Longrightarrow> scope s' = scope s \<and> clock s' = clock s \<and> aside (tbl s) (tbl s')"
  shows "keeps S aside (stmt q)"
  using assms by (intro aside.keeps_stmt) blast

lemma aside_update:
  assumes "\<And>s. scope (u s) = scope s \<and> clock (u s) = clock s \<and> aside (tbl s) (tbl (u s))"
  shows "keeps S aside (update u)"
  using assms by (intro aside.keeps_update) blast

lemmas aside_defs = CreateOTP_def BumpOTPAttempts_def ConsumeOTP_def CreateUser_def CreateSession_def
  RevokeSession_def CreateMembership_def DeleteMembership_def insert_org_def update_org_def CreateInvite_def
  revoke_invite_def close_invite_def insert_notification_def update_notification_def upsert_subscription_def
  set_daraja_status_def Let_def

lemma aside_account_writes:
  "keeps S aside (CreateOTP h ch ex)" "keeps S aside (BumpOTPAttempts i)" "keeps S aside (ConsumeOTP i)"
  "keeps S aside (CreateUser enc h name loc)" "keeps S aside (CreateSession i th csrf ex ua ip)"
  "keeps S aside (RevokeSession i)" "keeps S aside (CreateMembership i j role dflt)" "keeps S aside (DeleteMembership i j)"
  "keeps S aside (insert_org name enc h vat loc)" "keeps S aside (update_org i f)"
  unfolding aside_defs
  by (rule aside_stmt aside_update, force simp: aside_def tbl_def split: if_splits option.splits)+

lemma aside_other_writes:
  "keeps S aside (CreateInvite i j role phone h email st)" "keeps S aside (revoke_invite i j)"
  "keeps S aside (close_invite st i)" "keeps S aside (insert_notification row)" "keeps S aside (update_notification p g)"
  "keeps S aside (upsert_subscription sub sf)" "keeps S aside (set_daraja_status i st)"
  unfolding aside_defs
  by (rule aside_stmt aside_update, force simp: aside_def tbl_def split: if_splits option.splits)+

subsection \<open>The merchant's routes\<close>

context sales_frame
begin

lemma keeps_serve_write:
  assumes "ScopeOrg (pr_OrgID p) \<in> S" and "ScopeIngest \<in> S"
    and reissue: "\<And>S' k now iid ri. keeps S' R (ReissueInvoice k now (pr_OrgID p) iid ri)"
    and credit_note: "\<And>S' now iid reason at' ai. keeps S' R (CreateCreditNoteForInvoice now (pr_OrgID p) iid reason at' ai)"
  shows "keeps S' R (serve_write sv p r)"
proof -
  have "keeps S'' R (retryInvoice k base p i)" "keeps S'' R (reissueInvoice k base now p i body)"
      "keeps S'' R (createCreditNote k base now p i reason)" for S'' k base now i body reason
    unfolding retryInvoice_def reissueInvoice_def createCreditNote_def Let_def
    by (intro t_intros reissue credit_note keeps_Retry assms)+
  note docs = this
  show ?thesis unfolding serve_write_def Let_def
    by (cases r; simp; intro t_plain docs keeps_createShortcode keeps_updateShortcode keeps_submitAuthorization
        keeps_convertPayment keeps_createItem keeps_updateItem keeps_createSale keeps_settleSale keeps_resendInvoice assms)
qed

end

subsection \<open>The frame of the whole program\<close>

locale platform_frame = sales_frame + op_frame +
  assumes k_aside: "aside t u \<Longrightarrow> R t u"
    and k_operator_edit: "(\<And>now r. invoice_core (f now r) = invoice_core r) \<Longrightarrow>
      (\<And>now r. inv_superseded_by (f now r) = inv_superseded_by r) \<Longrightarrow>
      (\<And>now r. p r \<Longrightarrow> inv_state r = StateAcked \<Longrightarrow> inv_state (f now r) = StateAcked) \<Longrightarrow>
      (\<And>now r. state_valid (inv_state (f now r))) \<Longrightarrow> keeps UNIV R (update_invoice p f)"
begin

lemma p_any: "keeps S R m \<Longrightarrow> keeps S' R m"
  using keeps_mono [of S R m S'] by (simp add: all_scopes)

lemma p_aside: "keeps S' aside m \<Longrightarrow> keeps S' R m"
  unfolding keeps_def using k_aside by blast

lemmas p_account_writes = aside_account_writes [THEN p_aside] aside_other_writes [THEN p_aside]

lemmas p_writes = keeps_writes [THEN p_any]

lemmas p_intros = t_intros p_writes p_account_writes keeps_EncryptString

lemma p_randomToken: "keeps S' R (randomToken n)"
  unfolding randomToken_def by (intro t_intros)

lemma p_requestOTP: "keeps S' R (requestOTP svc now draw body)"
  unfolding requestOTP_def RequestOTP_def request_otp_tx_def by (intro p_intros)

lemma p_verifyOTP: "keeps S' R (verifyOTP svc now ua addr body)"
  unfolding verifyOTP_def VerifyOTP_def verify_otp_tx_def by (intro p_intros p_randomToken)

lemma p_createOrg: "keeps S' R (createOrg svc now p body)"
  unfolding createOrg_def CreateOrg_def org_pin_def create_org_tx_def set_pin_verified_def UpdateOrgFiscalProfile_def Let_def
  by (intro p_intros)

lemma p_configureEtims: "keeps S' R (configureEtims svc p body)"
  unfolding configureEtims_def ConfigureEtims_def register_device_def etims_configured_tx_def SetEtimsConfigured_def
    SetEtimsFailed_def set_org_name_def Let_def
  by (intro p_intros keeps_ActivateTaxPending any_scope)

lemma p_invites:
  "keeps S' R (createInvite svc p body)" "keeps S' R (revokeInvite p pid)" "keeps S' R (removeMember p uid)"
  "keeps S' R (acceptAccountantInvite p pid)" "keeps S' R (rejectAccountantInvite p pid)" "keeps S' R (logout p)"
  unfolding createInvite_def InviteMember_def invite_tx_def check_invitee_def revokeInvite_def RevokeInvite_def
    drop_provisioned_def removeMember_def RemoveMember_def acceptAccountantInvite_def AcceptInvite_def
    rejectAccountantInvite_def RejectInvite_def pending_invite_def logout_def Logout_def Let_def
  by (intro p_intros)+

lemma p_serve_account: "keeps S' R (serve_account sv p r)"
  unfolding serve_account_def Let_def
  by (cases r; simp; intro t_plain t_account_reads p_createOrg p_configureEtims p_invites)

lemma p_operator_invoices: "keeps S' R (requeueInvoice h pid)" "keeps S' R (forceAcked h pid body)"
proof -
  have "keeps UNIV R (RequeueInvoice i)" for i
    unfolding RequeueInvoice_def affected_or_def
    by (intro t_intros k_operator_edit) (auto simp: invoice_core_def amounts_def state_valid_def)
  moreover have "keeps UNIV R (ForceAcked i no sig)" for i no sig
    unfolding ForceAcked_def affected_or_def
    by (intro t_intros k_operator_edit) (auto simp: invoice_core_def amounts_def state_valid_def)
  ultimately have edits: "keeps S'' R (RequeueInvoice i)" "keeps S'' R (ForceAcked i no sig)" for S'' i no sig
    using keeps_mono by blast+
  show "keeps S' R (requeueInvoice h pid)" "keeps S' R (forceAcked h pid body)"
    unfolding requeueInvoice_def forceAcked_def by (intro t_intros edits)+
qed

lemma p_updateOrg: "keeps S' R (updateOrg h pid body)"
proof -
  have at_clock: "keeps S'' R (\<lambda>s. m (clock s) s)" if "\<And>c. keeps S'' R (m c)" for S'' and m :: "time \<Rightarrow> unit tx"
    using that unfolding keeps_def by blast
  have tier: "keeps S'' R (set_tier i tier)" for S'' i tier
    unfolding set_tier_def
    by (rule at_clock [where m = "\<lambda>c. tbind (upsert_subscription \<lparr>sub_org_id = i, sub_plan_code = tier,
        sub_status = ''active'', sub_period_start = c, sub_period_end = None\<rparr> (\<lambda>q. q\<lparr>sub_plan_code := tier\<rparr>)) (\<lambda>_. ret ())"])
      (intro p_intros)
  show ?thesis unfolding updateOrg_def UpdateOrg_def Let_def by (intro p_intros tier)
qed

lemma p_notifyMerchant: "keeps S' R (notifyMerchant h pid body)"
  unfolding notifyMerchant_def NotifyMerchant_def Let_def by (intro p_intros)

lemma p_replay_ingest: "replay_ingest h ev = Inr m \<Longrightarrow> keeps S' R m"
  by (auto simp: replay_ingest_def Let_def split: if_splits option.splits sum.splits
      intro!: t_intros keeps_IngestC2B keeps_IngestSTK keeps_IngestReversal)

lemma p_replayWebhook: "keeps S' R (replayWebhook h pid)"
proof -
  have tail: "keeps S'' R (case replay_ingest w ev of Inl e \<Rightarrow> raise e | Inr m \<Rightarrow> tbind (attempt m) (f m))"
    if "\<And>m x. keeps S'' R (f m x)" for S'' w ev f
    using that p_replay_ingest [of w ev] by (cases "replay_ingest w ev") (auto intro!: t_intros)
  show ?thesis unfolding replayWebhook_def ReplayWebhook_def
    by (intro t_answer t_gates t_params keeps_option keeps_tbind keeps_if keeps_raise t_scopes keeps_query_one tail p_intros)
qed

lemma p_review:
  "keeps S' R (adminVerifyShortcode k daraja q pid remark)" "keeps S' R (adminRejectShortcode k q pid reason)"
  unfolding adminVerifyShortcode_def adminRejectShortcode_def
  by (intro t_intros keeps_Verify keeps_Reject any_scope)+

lemma p_serve_admin: "keeps S' R (serve_admin sv p r)"
  unfolding serve_admin_def Let_def
  by (cases r; simp; intro t_plain t_admin_reads p_operator_invoices p_updateOrg p_notifyMerchant p_replayWebhook p_review)

lemma p_serve_daraja: "keeps S' R (serve_daraja h d body)"
proof -
  have "keeps S' R validation" "keeps S' R (confirmation h body)" "keeps S' R (Daraja.stk h body)" "keeps S' R (reversal h body)"
    unfolding validation_def confirmation_def stk_def reversal_def Let_def
    by (intro t_intros keeps_IngestC2B keeps_IngestSTK keeps_IngestReversal)+
  then show ?thesis unfolding serve_daraja_def by (cases d; simp; intro t_gates)
qed

lemma p_delivery: "keeps S' R (delivery form)"
  unfolding delivery_def MarkNotificationDelivered_def by (intro p_intros)

lemma p_receipt_claim: "keeps S' R (receipt_claim k resolver now code body)"
  unfolding receipt_claim_def Claim_def Lookup_def lookup_tx_def by (intro t_intros keeps_ClaimReceipt)

lemma p_SendReceipt: "keeps S' R (SendReceipt svc now oid iid template)"
  unfolding SendReceipt_def prepare_receipt_def compose_receipt_def record_sent_def recipient_def payer_number_def
    CreateNotification_def MarkNotificationFailed_def MarkNotificationSent_def Let_def
  by (intro p_intros)

lemma p_Work: "keeps S' R (Work svc now oid iid template)"
  unfolding Work_def by (intro t_intros p_SendReceipt)

lemma p_EnsureSubscription: "keeps S' R (EnsureSubscription now oid)"
  unfolding EnsureSubscription_def UpsertSubscription_def by (intro p_intros)

lemma p_serve_write: "keeps S' R (serve_write sv p r)"
  by (intro keeps_serve_write any_scope keeps_op_reissue keeps_op_credit_note)

lemma p_reconcile_events: "keeps S' R (reconcile_events rc evs st)"
proof (induction evs arbitrary: st)
  case (Cons ev evs)
  have "keeps S' R (reconcile_event rc ev st)"
    unfolding reconcile_event_def markError_def ResolveForC2B_def Let_def
    by (intro p_intros keeps_ProcessStoredC2B any_scope)
  then show ?case unfolding reconcile_events.simps by (intro keeps_tbind Cons)
qed (unfold reconcile_events.simps, rule keeps_ret)

lemma p_Run: "keeps S' R (Run rc)"
  unfolding Run_def by (intro t_intros p_reconcile_events)

lemma p_pull_all: "keeps S' R (pull_all w pts c)"
proof (induction pts arbitrary: c)
  case (Cons pt pts)
  have "keeps S' R (pull_one w pt c)"
    unfolding pull_one_def payment_known_def Let_def
    by (cases c) (auto intro!: t_intros keeps_IngestC2B split: bool.splits)
  then show ?case unfolding pull_all.simps by (intro keeps_tbind Cons)
qed (unfold pull_all.simps, rule keeps_ret)

lemma p_pull_shortcodes: "keeps S' R (pull_shortcodes w pull scs c)"
proof (induction scs arbitrary: c)
  case (Cons sc scs)
  show ?case unfolding pull_shortcodes.simps by (intro t_intros p_pull_all Cons)
qed (unfold pull_shortcodes.simps, rule keeps_ret)

lemma p_PullWork: "keeps S' R (PullWork w)"
  unfolding PullWork_def by (intro t_intros p_pull_shortcodes)

lemma p_in_tx: "keeps S' R (in_tx sv aq r)"
  unfolding in_tx_def authenticated_def operator_only_def
  by (rule t_Authenticate, cases r; simp; intro t_gates t_serve_read p_serve_account p_serve_write p_serve_admin keeps_ret)

lemma p_Recover: "keeps UNIV R m \<Longrightarrow> R (tbl (st_db st)) (tbl (st_db (snd (Recover m st))))"
  using keeps_tables [of R m "st_db st"] by (auto simp: Recover_def split: prod.splits sum.splits)

lemma p_limited:
  assumes "\<And>u. R (tbl (st_db u)) (tbl (st_db (snd (h u))))"
  shows "R (tbl (st_db st)) (tbl (st_db (snd (limited l now ip h st))))"
  using assms [of "st\<lparr>st_limits := (st_limits st)(l := snd (RateLimit (fst (limiter_config l)) (fst (snd (limiter_config l)))
    (snd (snd (limiter_config l)) @ ip) now (st_limits st l)))\<rparr>"]
  by (auto simp: limited_def Let_def R_refl split: prod.splits)

lemma p_serve_public: "R (tbl (st_db st)) (tbl (st_db (snd (serve_public sv aq q st))))"
proof (cases q)
  case (POST_daraja d body)
  have "R (tbl (st_db st)) (tbl (st_db (snd (limited WebhookLimiter now ip
      (Recover (plain (serve_daraja (sv_Webhooks sv) d body))) st))))" for now ip
    by (intro p_limited p_Recover t_plain p_serve_daraja)
  then show ?thesis by (simp add: POST_daraja serve_public_def R_refl Let_def)
qed ((hypsubst, unfold serve_public_def Let_def public_route.case,
  intro p_limited p_Recover t_plain t_public_reads t_account_reads p_delivery p_receipt_claim p_requestOTP p_verifyOTP)+)

lemma p_serve: "R (tbl (st_db st)) (tbl (st_db (snd (serve sv aq r st))))"
proof -
  have tx: "R (tbl (st_db st)) (tbl (st_db (snd (Recover (in_tx sv aq r) st))))" by (rule p_Recover, rule p_in_tx)
  show ?thesis
  proof (cases r)
    case (Public q)
    then show ?thesis using p_serve_public by (simp add: serve_def)
  qed (use tx in \<open>auto simp: serve_def split: prod.splits response.splits\<close>)
qed

end

subsection \<open>The relations\<close>

lemma aside_rows:
  assumes "aside t u"
  shows "invoices u = invoices t" "payments u = payments t" "sales u = sales t" "sale_items u = sale_items t"
    "webhook_events u = webhook_events t" "fiscal_submissions u = fiscal_submissions t" "audit_log u = audit_log t"
    "jobs u = jobs t" "mpesa_shortcodes u = mpesa_shortcodes t" "next_id t \<le> next_id u"
  using assms unfolding aside_def by (cases t; cases u; simp)+

interpretation history: platform_frame history UNIV
  by (intro platform_frame.intro history.sales_frame_axioms history.op_frame_axioms platform_frame_axioms.intro)
    (auto simp: aside_rows intro!: history_other history_update_invoice history_frame)

lemma core_ids: "invoice_core (f now r) = invoice_core r \<Longrightarrow>
    inv_id (f now r) = inv_id r \<and> inv_kind (f now r) = inv_kind r \<and> inv_receipt_code (f now r) = inv_receipt_code r"
  by (simp add: invoice_core_def)

interpretation wf: platform_frame keeps_wf UNIV
  by (intro platform_frame.intro wf.sales_frame_axioms wf.op_frame_axioms platform_frame_axioms.intro)
    (auto simp: aside_rows core_ids intro!: wf_other wf_update_invoice)

interpretation gate: platform_frame keeps_gate_rel UNIV
  by (intro platform_frame.intro gate.sales_frame_axioms gate.op_frame_axioms platform_frame_axioms.intro)
    (auto simp: aside_rows intro!: gate_other gate_update_invoice)

lemma chain_other:
  "invoices u = invoices t \<Longrightarrow> payments u = payments t \<Longrightarrow> sales u = sales t \<Longrightarrow>
   webhook_events u = webhook_events t \<Longrightarrow> next_id t \<le> next_id u \<Longrightarrow> keeps_chain t u"
  using wf_other [of u t] by (auto simp: keeps_chain_def keeps_wf_def ordered_def)

lemmas chain_stmt = table_frame.keeps_stmt [OF chain_frame] table_frame.keeps_update [OF chain_frame]

interpretation chain: gate_frame keeps_chain UNIV
  by (intro gate_frame.intro chain.write_frame_axioms gate_frame_axioms.intro; unfold shortcode_defs;
    rule chain_stmt; force simp: chain_other split: if_splits option.splits)

interpretation chain: sales_frame keeps_chain UNIV
proof (intro sales_frame.intro chain.gate_frame_axioms sales_frame_axioms.intro, goal_cases)
  case (7 enc h i)
  have "keeps UNIV keeps_ordered (set_payment_msisdn enc h i)"
    unfolding set_payment_msisdn_def by (rule ordered_update) (simp add: keeps_ordered_def ordered_def)
  then show ?case by (intro keeps_chainI wf.k_set_payment_msisdn)
qed (unfold sales_write_defs, (rule chain_stmt, force simp: chain_other split: if_splits option.splits)+)

interpretation chain: platform_frame keeps_chain UNIV
  by (intro platform_frame.intro chain.sales_frame_axioms chain.op_frame_axioms platform_frame_axioms.intro)
    (auto simp: aside_rows core_ids intro!: chain_other keeps_chainI wf_update_invoice ordered_update_invoice)

end
