(* ===== verification/AccountProps.thy ===== *)
theory AccountProps
  imports AccountRoutes LifecycleProps
begin

text \<open>
  What login, the caller of a request and invitations guarantee: a code logs in once and opens
  a session that names its user until logout; a request is served only for a live session and
  a membership; an invitation is used once, by whom it is addressed to. And where the code
  falls short of its intent: failed guesses are not counted, revoking an invitation does
  nothing, and an owner can create platform administrators.
\<close>

subsection \<open>Login and logout\<close>

lemma RawURLEncoding_Nil [simp]: "RawURLEncoding x = [] \<longleftrightarrow> x = []"
  by (cases x rule: RawURLEncoding.cases) auto

lemma randomToken_Inr:
  "randomToken n s = (Inr t, s') \<Longrightarrow> s' = s\<lparr>reads := Suc (reads s)\<rparr> \<and> (0 < n \<longrightarrow> t \<noteq> [])"
  by (auto simp: randomToken_def tbind_Inr_iff rand_read_apply split: sum.splits)

lemma readonly_randomToken: "readonly (randomToken n)"
  unfolding randomToken_def by (intro readonly_intros)

lemma LatestOTP_Inr:
  "LatestOTP h s = (Inr r, s') \<longleftrightarrow> \<not> aborted s \<and> s' = s \<and>
     latest otp_created_at (filter (live_otp s h) (otp_codes s)) = Some r"
  by (auto simp: LatestOTP_def query_one_Inr_iff)

definition consumed :: "uuid \<Rightarrow> time \<Rightarrow> OtpCode list \<Rightarrow> OtpCode list" where
  "consumed i t rows = update_rows (\<lambda>r. otp_id r = i) (\<lambda>r. r\<lparr>otp_consumed_at := Some t\<rparr>) rows"

lemma CreateUser_Inr:
  assumes "CreateUser enc h name loc s = (Inr u, s')"
  shows "user_msisdn_hash u = h \<and> u \<in> set (users s') \<and> sessions s' = sessions s \<and> otp_codes s' = otp_codes s \<and>
    clock s' = clock s \<and> aborted s' = aborted s \<and> memberships s' = memberships s \<and> scope s' = scope s"
  using assms
  by (auto simp: CreateUser_def stmt_Inr_iff Let_def set_update_rows split: if_splits option.splits dest!: row_by_Some)

lemma CreateSession_Inr:
  assumes "CreateSession uid th csrf ex ua ip s = (Inr r, s')"
  shows "th \<notin> ses_token_hash ` set (sessions s) \<and> s' = s\<lparr>next_id := Suc (next_id s), sessions := sessions s @ [r]\<rparr> \<and>
    ses_user_id r = uid \<and> ses_token_hash r = th \<and> ses_csrf_token r = csrf \<and> ses_expires_at r = ex \<and> ses_revoked_at r = None"
  using assms by (auto simp: CreateSession_def stmt_Inr_iff Let_def split: if_splits)

text \<open>A successful verification, step by step.\<close>

definition logged_in :: "OrgService \<Rightarrow> bytes \<Rightarrow> string \<Rightarrow> Session \<Rightarrow> string \<Rightarrow> OtpCode \<Rightarrow> SessionRow \<Rightarrow> db \<Rightarrow> db \<Rightarrow> bool" where
  "logged_in svc h code sess token otp row s s' \<longleftrightarrow>
     otp \<in> set (otp_codes s) \<and> live_otp s h otp \<and> otp_code_hash otp = hashCode svc h code \<and>
     otp_attempts otp < OTPMaxAttempts \<and>
     (\<forall>r \<in> set (otp_codes s). live_otp s h r \<longrightarrow> otp_created_at r \<le> otp_created_at otp) \<and>
     otp_codes s' = consumed (otp_id otp) (clock s) (otp_codes s) \<and>
     sessions s' = sessions s @ [row] \<and> ses_token_hash row = hashToken svc token \<and>
     hashToken svc token \<notin> ses_token_hash ` set (sessions s) \<and> ses_user_id row = se_UserID sess \<and>
     ses_csrf_token row = se_CSRFToken sess \<and> ses_expires_at row = se_ExpiresAt sess \<and> ses_revoked_at row = None \<and>
     (\<exists>u \<in> set (users s'). user_id u = se_UserID sess \<and> user_msisdn_hash u = h) \<and>
     clock s' = clock s"

lemma verify_otp_tx_Inr:
  assumes "verify_otp_tx svc now norm h enc token csrf code ua addr s = (Inr sess, s')"
  shows "\<exists>otp row. logged_in svc h code sess token otp row s s' \<and> se_ExpiresAt sess = now + SessionTTL \<and>
    memberships s' = memberships s"
proof -
  from assms obtain otp where otp: "LatestOTP h s = (Inr otp, s)" "otp_attempts otp < OTPMaxAttempts"
      "otp_code_hash otp = hashCode svc h code"
    unfolding verify_otp_tx_def attempt_case_Inr
    by (auto simp: LatestOTP_Inr tbind_Inr_iff split: if_splits)
  from otp(1) have live: "otp \<in> set (otp_codes s)" "live_otp s h otp"
      "\<forall>r \<in> set (otp_codes s). live_otp s h r \<longrightarrow> otp_created_at r \<le> otp_created_at otp"
    by (auto simp: LatestOTP_Inr dest: latest_in latest_max)
  from assms otp obtain u s1 row s2 ms s3 s0 where
      c: "ConsumeOTP (otp_id otp) s = (Inr (), s0)" and u: "CreateUser enc h [] ''en'' s0 = (Inr u, s1)"
    and r: "CreateSession (user_id u) (hashToken svc token) csrf (now + SessionTTL) (truncate_bytes ua 200) addr s1 = (Inr row, s2)"
    and m: "ListMembershipsForUser (user_id u) s2 = (Inr ms, s3)"
    and sess: "sess = \<lparr>se_UserID = user_id u, se_CSRFToken = csrf, se_Token = [], se_ExpiresAt = now + SessionTTL,
        se_MsisdnMasked = MaskMSISDN norm, se_Orgs = toMemberships ms\<rparr>" "s' = s3"
    unfolding verify_otp_tx_def by (auto simp: tbind_Inr_iff)
  have s0: "s0 = s\<lparr>otp_codes := consumed (otp_id otp) (clock s) (otp_codes s)\<rparr>"
    using c by (auto simp: ConsumeOTP_def update_def stmt_Inr_iff consumed_def)
  note u' = CreateUser_Inr [OF u] and r' = CreateSession_Inr [OF r]
  have "s3 = s2" using m by (simp add: ListMembershipsForUser_def query_Inr_iff)
  with sess(2) r' have s': "s' = s1\<lparr>next_id := Suc (next_id s1), sessions := sessions s1 @ [row]\<rparr>" by simp
  from u' s0 have s1: "sessions s1 = sessions s" "otp_codes s1 = consumed (otp_id otp) (clock s) (otp_codes s)"
      "clock s1 = clock s" "memberships s1 = memberships s" "u \<in> set (users s1)" "user_msisdn_hash u = h" by simp_all
  have "logged_in svc h code sess token otp row s s'"
    unfolding logged_in_def s' sess(1) using live otp(2,3) r' s1 by simp blast
  then show ?thesis using s1(4) by (intro exI [of _ otp] exI [of _ row]) (simp add: s' sess(1))
qed

lemma VerifyOTP_Inr:
  assumes "VerifyOTP svc now msisdn code ua addr s = (Inr (sess, token), s')"
  obtains norm otp row where "NormaliseMSISDN msisdn = Inr norm" "token \<noteq> []"
    "logged_in svc (Hash (os_Keys svc) norm) (trim_space code) sess token otp row s s'"
    "se_ExpiresAt sess = now + SessionTTL"
proof -
  from assms obtain norm where norm: "NormaliseMSISDN msisdn = Inr norm" "length (trim_space code) = 6"
    by (auto simp: VerifyOTP_def split: sum.splits if_splits)
  from assms norm obtain enc s1 s2 csrf s3 where
      e: "EncryptString (os_Keys svc) norm s = (Inr enc, s1)" and t: "randomToken 32 s1 = (Inr token, s2)"
    and c: "randomToken 24 s2 = (Inr csrf, s3)"
    and v: "Unscoped (verify_otp_tx svc now norm (Hash (os_Keys svc) norm) enc token csrf (trim_space code) ua addr) s3 =
      (Inr sess, s')"
    unfolding VerifyOTP_def by (auto simp: tbind_Inr_iff)
  have s3: "s3 = s\<lparr>reads := reads s3\<rparr>"
    using readonlyD [OF readonly_EncryptString e] readonlyD [OF readonly_randomToken t]
      readonlyD [OF readonly_randomToken c] by (cases s) auto
  from v obtain s4 where "verify_otp_tx svc now norm (Hash (os_Keys svc) norm) enc token csrf (trim_space code) ua addr
      (s3\<lparr>scope := ScopeNone, aborted := False\<rparr>) = (Inr sess, s4)" and s': "s' = s4\<lparr>scope := scope s3, aborted := aborted s3\<rparr>"
    by (auto simp: scope_defs scoped_Inr_iff)
  from verify_otp_tx_Inr [OF this(1)] obtain otp row where
    l: "logged_in svc (Hash (os_Keys svc) norm) (trim_space code) sess token otp row
      (s3\<lparr>scope := ScopeNone, aborted := False\<rparr>) s4" "se_ExpiresAt sess = now + SessionTTL" by blast
  have eq: "otp_codes s3 = otp_codes s" "sessions s3 = sessions s" "clock s3 = clock s"
    by (subst s3, simp)+
  have "logged_in svc (Hash (os_Keys svc) norm) (trim_space code) sess token otp row s s'"
    using l(1) by (simp add: logged_in_def live_otp_def s' eq)
  moreover have "token \<noteq> []" using randomToken_Inr [OF t] by simp
  ultimately show thesis using that norm(1) l(2) by blast
qed

text \<open>A session is found by its token while it is live.\<close>

definition live_session :: "OrgService \<Rightarrow> string \<Rightarrow> db \<Rightarrow> SessionRow \<Rightarrow> User \<Rightarrow> bool" where
  "live_session svc token s row u \<longleftrightarrow>
     find (\<lambda>r. ses_token_hash r = hashToken svc token \<and> ses_revoked_at r = None \<and> clock s < ses_expires_at r)
       (sessions s) = Some row \<and> row_by user_id (ses_user_id row) (users s) = Some u"

lemma GetSession_Inr:
  "GetSessionByTokenHash (hashToken svc token) s = (Inr (row, u), s') \<longleftrightarrow>
     \<not> aborted s \<and> s' = s \<and> live_session svc token s row u"
  by (auto simp: GetSessionByTokenHash_def query_one_Inr_iff live_session_def split: option.splits)

definition sorted_orgs :: "db \<Rightarrow> uuid \<Rightarrow> (Membership \<times> Org) list" where
  "sorted_orgs s uid = sort_key (\<lambda>(m, r). (\<not> mem_is_default m, org_name r)) (joined_orgs s uid)"

lemma sorted_orgs_cong [simp]:
  "sorted_orgs (s\<lparr>scope := sc\<rparr>) = sorted_orgs s" "sorted_orgs (s\<lparr>aborted := b\<rparr>) = sorted_orgs s"
  by (simp_all add: sorted_orgs_def joined_orgs_def fun_eq_iff)

lemma live_session_cong [simp]:
  "live_session svc token (s\<lparr>scope := sc\<rparr>) = live_session svc token s"
  "live_session svc token (s\<lparr>aborted := b\<rparr>) = live_session svc token s"
  by (simp_all add: live_session_def fun_eq_iff)

lemma ListMemberships_run: "\<not> aborted s \<Longrightarrow> ListMembershipsForUser uid s = (Inr (sorted_orgs s uid), s)"
  by (simp add: ListMembershipsForUser_def query_apply sorted_orgs_def)

lemma readonly_select_org: "readonly (select_org h p)"
  unfolding select_org_def by (cases h) (auto intro!: readonly_intros split: option.splits)

lemma select_org_same: "select_org h p s = (r, s') \<Longrightarrow> s' = s"
  by (auto simp: select_org_def split: option.splits)

text \<open>Resolving a token writes nothing; it depends on the live session only.\<close>

lemma Principal_of_live:
  assumes "live_session svc token s row u" and "token \<noteq> []"
  shows "Principal_of svc token h s = (fst (select_org h (caller row u (sorted_orgs s (ses_user_id row))) s), s)"
proof -
  let ?s = "s\<lparr>scope := ScopeNone, aborted := False\<rparr>" and ?p = "caller row u (sorted_orgs s (ses_user_id row))"
  have "GetSessionByTokenHash (hashToken svc token) ?s = (Inr (row, u), ?s)"
    unfolding GetSession_Inr using assms(1) by simp
  then have body: "principal_tx svc token h ?s = select_org h ?p ?s" by (simp add: principal_tx_def ListMemberships_run)
  have fst: "fst (select_org h ?p ?s) = fst (select_org h ?p s)"
    by (auto simp: select_org_def split: option.splits)
  obtain r where r: "select_org h ?p ?s = (r, ?s)" by (metis select_org_same surj_pair)
  have "Principal_of svc token h s = (r, s)"
    using assms(2) body r by (cases r) (simp_all add: Principal_of_def scope_defs scoped_def rollback_def)
  with r fst show ?thesis by simp
qed

lemma Principal_of_dead:
  assumes "\<nexists>row u. live_session svc token s row u"
  shows "Principal_of svc token h s = (Inl ErrUnauthorised, s)"
proof (cases "token = []")
  case True
  then show ?thesis by (simp add: Principal_of_def)
next
  case False
  let ?s = "s\<lparr>scope := ScopeNone, aborted := False\<rparr>"
  have "GetSessionByTokenHash (hashToken svc token) ?s = (Inl ErrNoRows, ?s)"
    using assms by (auto simp: GetSessionByTokenHash_def query_one_apply live_session_def split: option.splits)
  then have "attempt (GetSessionByTokenHash (hashToken svc token)) ?s = (Inr (Inl ErrNoRows), ?s)" by simp
  with False show ?thesis
    by (simp add: Principal_of_def principal_tx_def scope_defs scoped_def rollback_def errors_is_def)
qed

lemma find_snoc: "find P xs = None \<Longrightarrow> P x \<Longrightarrow> find P (xs @ [x]) = Some x"
  by (induction xs) (auto split: if_splits)

lemma logged_in_live:
  assumes "logged_in svc h code sess token otp row s s'" and "clock s < se_ExpiresAt sess"
  shows "\<exists>u. live_session svc token s' row u"
proof -
  let ?live = "\<lambda>r. ses_token_hash r = hashToken svc token \<and> ses_revoked_at r = None \<and> clock s' < ses_expires_at r"
  have "\<not> ?live r" if "r \<in> set (sessions s)" for r
    using assms(1) that by (force simp: logged_in_def)
  then have "find ?live (sessions s) = None" by (auto simp: find_None_iff)
  moreover have "?live row" using assms by (simp add: logged_in_def)
  ultimately have "find ?live (sessions s @ [row]) = Some row" by (rule find_snoc)
  moreover obtain u where "u \<in> set (users s')" "user_id u = ses_user_id row"
    using assms(1) by (auto simp: logged_in_def)
  then have "row_by user_id (ses_user_id row) (users s') \<noteq> None" unfolding row_by_None by force
  ultimately show ?thesis using assms(1) by (auto simp: live_session_def logged_in_def)
qed

lemma logout_kills:
  assumes "live_session svc token s row u" and "Logout (ses_id row) s = (Inr (), s')"
    and "\<And>r. r \<in> set (sessions s) \<Longrightarrow> ses_token_hash r = hashToken svc token \<Longrightarrow> r = row"
  shows "\<nexists>row u. live_session svc token s' row u"
proof -
  have upd: "sessions s' = update_rows (\<lambda>r. ses_id r = ses_id row) (\<lambda>r. r\<lparr>ses_revoked_at := Some (clock s)\<rparr>) (sessions s)"
    using assms(2) by (auto simp: Logout_def scope_defs scoped_Inr_iff RevokeSession_def update_def stmt_Inr_iff)
  have "\<not> (ses_token_hash q = hashToken svc token \<and> ses_revoked_at q = None)" if q: "q \<in> set (sessions s')" for q
  proof -
    obtain r where "r \<in> set (sessions s)" "q = (if ses_id r = ses_id row then r\<lparr>ses_revoked_at := Some (clock s)\<rparr> else r)"
      using q unfolding upd set_update_rows by blast
    with assms(3) [of r] show ?thesis by (cases "ses_id r = ses_id row") auto
  qed
  then show ?thesis by (auto simp: live_session_def find_Some_iff)
qed

text \<open>
  C28. Login with a phone code: when a verification succeeds, the newest unused and unexpired
  code of that number has the given digits, and it is used up; the returned token identifies
  the user of that number, with the returned CSRF token, while the session has not expired;
  and once that session is logged out, the token identifies nobody.
\<close>

theorem login_roundtrip:
  assumes "VerifyOTP svc now msisdn code ua addr s = (Inr (sess, token), s')" and "clock s < now + SessionTTL"
    and "NormaliseMSISDN msisdn = Inr norm"
  shows "(\<exists>otp \<in> set (otp_codes s). live_otp s (Hash (os_Keys svc) norm) otp \<and>
      otp_code_hash otp = hashCode svc (Hash (os_Keys svc) norm) (trim_space code) \<and>
      (\<forall>r \<in> set (otp_codes s). live_otp s (Hash (os_Keys svc) norm) r \<longrightarrow> otp_created_at r \<le> otp_created_at otp) \<and>
      otp_codes s' = consumed (otp_id otp) (clock s) (otp_codes s)) \<and>
    (\<exists>u \<in> set (users s'). user_id u = se_UserID sess \<and> user_msisdn_hash u = Hash (os_Keys svc) norm) \<and>
    (\<exists>p. Principal_of svc token None s' = (Inr p, s') \<and> pp_UserID p = se_UserID sess \<and> pp_CSRF p = se_CSRFToken sess \<and>
      (\<forall>s'' h. Logout (pp_SessionID p) s' = (Inr (), s'') \<longrightarrow>
         Principal_of svc token h s'' = (Inl ErrUnauthorised, s'')))"
proof -
  let ?h = "Hash (os_Keys svc) norm"
  obtain otp row where tok: "token \<noteq> []" and l: "logged_in svc ?h (trim_space code) sess token otp row s s'"
      and ex: "se_ExpiresAt sess = now + SessionTTL"
    using VerifyOTP_Inr [OF assms(1)] assms(3) by (metis Inr_inject)
  obtain u where live: "live_session svc token s' row u"
    using logged_in_live [OF l] assms(2) ex by auto
  have uniq: "r = row" if "r \<in> set (sessions s')" "ses_token_hash r = hashToken svc token" for r
  proof -
    have "sessions s' = sessions s @ [row]" "hashToken svc token \<notin> ses_token_hash ` set (sessions s)"
      using l by (simp_all add: logged_in_def)
    with that show ?thesis by (auto simp: image_iff)
  qed
  let ?p = "default_org (toMemberships (sorted_orgs s' (ses_user_id row))) (caller row u (sorted_orgs s' (ses_user_id row)))"
  have "pp_UserID (default_org ms p) = pp_UserID p \<and> pp_CSRF (default_org ms p) = pp_CSRF p \<and>
      pp_SessionID (default_org ms p) = pp_SessionID p" for ms p
    unfolding default_org_def by (induction ms arbitrary: p) simp_all
  then have p: "pp_UserID ?p = se_UserID sess" "pp_CSRF ?p = se_CSRFToken sess" "pp_SessionID ?p = ses_id row"
    using l by (simp_all add: logged_in_def caller_def)
  have "Principal_of svc token None s' = (Inr ?p, s')"
    using Principal_of_live [OF live tok] by (simp add: select_org_def caller_def)
  moreover have "Principal_of svc token h s'' = (Inl ErrUnauthorised, s'')"
    if "Logout (pp_SessionID ?p) s' = (Inr (), s'')" for s'' h
    using logout_kills [OF live _ uniq] that p(3) by (intro Principal_of_dead) simp
  ultimately show ?thesis using l p by (auto simp: logged_in_def)
qed

definition plain_service :: OrgService where
  "plain_service = \<lparr>os_Keys = plain_keyring, os_SessionSecret = ''secret'', os_FiscalAdapter = ''mock'',
     os_DevLogOTP = True, os_SendOTP = None, os_CheckPIN = (\<lambda>_. None), os_RegisterDevice = None,
     os_json_string = (\<lambda>_ _. [])\<rparr>"

definition coded_db :: db where
  "coded_db = snd (RequestOTP plain_service (clock shop_db) (Inr 4711) ''0712345678'' ''en'' shop_db)"

lemma coded_login:
  "map_sum id (\<lambda>(x, _). se_UserID x) (fst (VerifyOTP plain_service (clock shop_db) ''0712345678'' ''004711'' [] None coded_db)) = Inr 11"
  by code_simp

theorem login_roundtrip_witness:
  "\<exists>sess token s' p. VerifyOTP plain_service (clock shop_db) ''0712345678'' ''004711'' [] None coded_db = (Inr (sess, token), s') \<and>
     Principal_of plain_service token None s' = (Inr p, s') \<and> pp_UserID p = 11"
proof -
  obtain r s' where run: "VerifyOTP plain_service (clock shop_db) ''0712345678'' ''004711'' [] None coded_db = (r, s')"
    by (cases "VerifyOTP plain_service (clock shop_db) ''0712345678'' ''004711'' [] None coded_db")
  with coded_login obtain sess token where r: "r = Inr (sess, token)" "se_UserID sess = 11" by (cases r) auto
  have "clock coded_db < clock shop_db + SessionTTL" by code_simp
  moreover have "NormaliseMSISDN ''0712345678'' = Inr ''254712345678''" by code_simp
  ultimately show ?thesis using login_roundtrip [OF run [unfolded r(1)]] run r by fastforce
qed

subsection \<open>The caller of a request\<close>

text \<open>The organisation and role of a caller are those of one of its memberships.\<close>

definition acts_for :: "MembershipView list \<Rightarrow> Principal \<Rightarrow> bool" where
  "acts_for ms p \<longleftrightarrow> ms = [] \<and> pp_OrgID p = nil_uuid \<and> pp_Role p = [] \<or>
     (\<exists>m \<in> set ms. pp_OrgID p = mv_OrgID m \<and> pp_Role p = mv_Role m)"

lemma default_org_cases:
  "default_org ms p = p \<or> (\<exists>m \<in> set ms. default_org ms p = p\<lparr>pp_OrgID := mv_OrgID m, pp_Role := mv_Role m\<rparr>)"
proof (induction ms rule: rev_induct)
  case Nil
  show ?case by (simp add: default_org_def)
next
  case (snoc m ms)
  have "default_org (ms @ [m]) p = (let q = default_org ms p in
      if mv_IsDefault m \<or> pp_OrgID q = nil_uuid then q\<lparr>pp_OrgID := mv_OrgID m, pp_Role := mv_Role m\<rparr> else q)"
    by (simp add: default_org_def)
  with snoc show ?case by (auto simp: Let_def)
qed

lemma default_org_acts:
  assumes "pp_OrgID p = nil_uuid" and "pp_Role p = []"
  shows "acts_for ms (default_org ms p)"
proof (cases ms)
  case Nil
  with assms show ?thesis by (simp add: default_org_def acts_for_def)
next
  case (Cons m ms')
  have "default_org ms p = default_org ms' (p\<lparr>pp_OrgID := mv_OrgID m, pp_Role := mv_Role m\<rparr>)"
    using assms(1) by (simp add: Cons default_org_def)
  with default_org_cases [of ms' "p\<lparr>pp_OrgID := mv_OrgID m, pp_Role := mv_Role m\<rparr>"]
  show ?thesis by (auto simp: Cons acts_for_def)
qed

lemma select_org_acts:
  assumes "select_org h (caller row u rows) s = (Inr p, s')"
  shows "acts_for (toMemberships rows) p \<and> pp_UserID p = ses_user_id row \<and> pp_CSRF p = ses_csrf_token row \<and>
    (\<forall>want. h = Some want \<longrightarrow> want = Some (pp_OrgID p) \<and> toMemberships rows \<noteq> [])"
proof (cases h)
  case None
  with assms have "p = default_org (toMemberships rows) (caller row u rows)"
    by (simp add: select_org_def caller_def)
  moreover have "acts_for (toMemberships rows) (default_org (toMemberships rows) (caller row u rows))"
    by (rule default_org_acts) (simp_all add: caller_def)
  ultimately show ?thesis
    using None default_org_cases [of "toMemberships rows" "caller row u rows"] by (auto simp: caller_def)
next
  case (Some w)
  with assms show ?thesis
    by (auto simp: select_org_def caller_def acts_for_def find_Some_iff split: option.splits)
qed

lemma sorted_orgs_member:
  assumes "m \<in> set (toMemberships (sorted_orgs s uid))"
  shows "\<exists>r \<in> set (memberships s). mem_user_id r = uid \<and> mem_org_id r = mv_OrgID m \<and> mem_role r = mv_Role m"
  using assms by (auto simp: toMemberships_def sorted_orgs_def joined_orgs_def)

lemma Principal_of_same: "Principal_of svc token h s = (r, s') \<Longrightarrow> s' = s"
  by (cases "token = []"; cases "\<exists>row u. live_session svc token s row u")
    (auto simp: Principal_of_live Principal_of_dead, simp add: Principal_of_def)

definition may_act :: "OrgService \<Rightarrow> Request \<Rightarrow> db \<Rightarrow> HttpPrincipal \<Rightarrow> bool" where
  "may_act svc rq s p \<longleftrightarrow>
     (\<exists>row \<in> set (sessions s). ses_token_hash row = hashToken svc (bearer_token rq) \<and> ses_revoked_at row = None \<and>
        clock s < ses_expires_at row \<and> ses_user_id row = pr_UserID p \<and> ses_csrf_token row = pr_CSRF p) \<and>
     (pr_OrgID p = nil_uuid \<and> pr_Role p = [] \<or>
      (\<exists>m \<in> set (memberships s). mem_user_id m = pr_UserID p \<and> mem_org_id m = pr_OrgID p \<and> mem_role m = pr_Role p)) \<and>
     (mutating rq \<longrightarrow> rq_CSRF rq = pr_CSRF p)"

lemma Principal_of_acts:
  assumes "Principal_of svc token h s = (Inr p, s')"
  obtains row u where "live_session svc token s row u" "pp_UserID p = ses_user_id row" "pp_CSRF p = ses_csrf_token row"
    "acts_for (toMemberships (sorted_orgs s (ses_user_id row))) p"
    "\<forall>want. h = Some want \<longrightarrow> want = Some (pp_OrgID p) \<and> toMemberships (sorted_orgs s (ses_user_id row)) \<noteq> []"
proof -
  have tok: "token \<noteq> []" using assms by (auto simp: Principal_of_def)
  obtain row u where live: "live_session svc token s row u"
    using assms Principal_of_dead [of svc token s h] by fastforce
  obtain s1 where "select_org h (caller row u (sorted_orgs s (ses_user_id row))) s = (Inr p, s1)"
    using assms Principal_of_live [OF live tok, of h] by (metis fst_conv prod.collapse)
  from select_org_acts [OF this] live that show thesis by blast
qed

lemma Authenticate_cases:
  "(\<exists>p. Authenticate svc parse rq handler s = handler p s \<and> may_act svc rq s p \<and>
      (\<forall>want. requested_org rq = Some want \<and> want \<noteq> [] \<longrightarrow> parse want = Some (pr_OrgID p) \<and>
         (\<exists>m \<in> set (memberships s). mem_user_id m = pr_UserID p \<and> mem_org_id m = pr_OrgID p))) \<or>
   (\<exists>r. Authenticate svc parse rq handler s = (Inr r, s) \<and> http_status r \<in> {401, 403, 500})"
proof (cases "requested_org rq")
  case None
  then show ?thesis by (simp add: Authenticate_def not_a_member_def http_status_def)
next
  case (Some req)
  let ?h = "if req = [] then None else Some (parse req)"
  obtain r where r: "Principal_of svc (bearer_token rq) ?h s = (r, s)"
    using Principal_of_same by (metis surj_pair)
  show ?thesis
  proof (cases r)
    case (Inl e)
    have "e = ErrUnauthorised \<or> e = ErrForbidden"
    proof (cases "\<exists>row u. live_session svc (bearer_token rq) s row u \<and> bearer_token rq \<noteq> []")
      case True
      with r Inl show ?thesis
        by (auto simp: Principal_of_live select_org_def split: option.splits if_splits)
    next
      case False
      with r Inl Principal_of_dead [of svc "bearer_token rq" s ?h] show ?thesis
        by (cases "bearer_token rq = []") (auto simp: Principal_of_def)
    qed
    with Some r Inl show ?thesis
      by (auto simp: Authenticate_def not_a_member_def http_status_def org_errors)
  next
    case (Inr p)
    from r [unfolded Inr] obtain row u where p: "live_session svc (bearer_token rq) s row u"
      "pp_UserID p = ses_user_id row" "pp_CSRF p = ses_csrf_token row"
      "acts_for (toMemberships (sorted_orgs s (ses_user_id row))) p"
      "\<forall>want. ?h = Some want \<longrightarrow> want = Some (pp_OrgID p) \<and> toMemberships (sorted_orgs s (ses_user_id row)) \<noteq> []"
      by (rule Principal_of_acts)
    show ?thesis
    proof (cases "mutating rq \<and> rq_CSRF rq \<noteq> pp_CSRF p")
      case True
      with Some r Inr show ?thesis by (simp add: Authenticate_def http_status_def)
    next
      case False
      have run: "Authenticate svc parse rq handler s = handler (http_principal p) s"
        using Some r Inr False by (auto simp: Authenticate_def)
      have row: "row \<in> set (sessions s)" "ses_token_hash row = hashToken svc (bearer_token rq)"
        "ses_revoked_at row = None" "clock s < ses_expires_at row"
        using p(1) by (auto simp: live_session_def find_Some_iff)
      have mem: "\<exists>m \<in> set (memberships s). mem_user_id m = pp_UserID p \<and> mem_org_id m = pp_OrgID p \<and> mem_role m = pp_Role p"
        if "toMemberships (sorted_orgs s (ses_user_id row)) \<noteq> []"
        using p(2,4) that sorted_orgs_member [of _ s "ses_user_id row"] by (auto simp: acts_for_def)
      have "pp_OrgID p = nil_uuid \<and> pp_Role p = [] \<or>
          (\<exists>m \<in> set (memberships s). mem_user_id m = pp_UserID p \<and> mem_org_id m = pp_OrgID p \<and> mem_role m = pp_Role p)"
        using mem p(4) unfolding acts_for_def by fastforce
      then have "may_act svc rq s (http_principal p)"
        unfolding may_act_def using row p(2,3) False by (auto simp: http_principal_def)
      moreover have "parse want = Some (pp_OrgID p) \<and>
          (\<exists>m \<in> set (memberships s). mem_user_id m = pp_UserID p \<and> mem_org_id m = pp_OrgID p)"
        if "requested_org rq = Some want" "want \<noteq> []" for want
        using p(5) mem that Some by auto
      ultimately show ?thesis using run by (intro disjI1 exI [of _ "http_principal p"]) (auto simp: http_principal_def)
    qed
  qed
qed

text \<open>
  C29. A handler behind the authentication middleware runs only for a caller with a live session
  whose token the request carries, in the name of that session's user; the organisation and the
  role it acts with are those of a membership of that user, or none at all; an organisation the
  request names is the one it acts for; and a request that may change something carries the
  session's CSRF token. In every other case the request is refused with 401, 403 or 500, the
  handler does not run and nothing changes.
\<close>

theorem authenticated_caller:
  "(\<exists>p. Authenticate svc parse rq handler s = handler p s \<and> may_act svc rq s p \<and>
      (\<forall>want. requested_org rq = Some want \<and> want \<noteq> [] \<longrightarrow> parse want = Some (pr_OrgID p) \<and>
         (\<exists>m \<in> set (memberships s). mem_user_id m = pr_UserID p \<and> mem_org_id m = pr_OrgID p))) \<or>
   (\<exists>r. Authenticate svc parse rq handler s = (Inr r, s) \<and> http_status r \<in> {401, 403, 500})"
  by (rule Authenticate_cases)

definition staffed_db :: db where
  "staffed_db = shop_db\<lparr>
     users := [\<lparr>user_id = 5, user_msisdn_enc = ''x'', user_msisdn_hash = ''h:254712345678'', user_name = [],
       user_locale = ''en'', user_email = None, user_created_at = 0\<rparr>],
     memberships := [\<lparr>mem_id = 6, mem_org_id = 1, mem_user_id = 5, mem_role = ''owner'', mem_is_default = True,
       mem_created_at = 0\<rparr>],
     sessions := [\<lparr>ses_id = 7, ses_user_id = 5, ses_token_hash = ''h:tok'', ses_csrf_token = ''csrf'',
       ses_expires_at = clock shop_db + 1, ses_revoked_at = None, ses_user_agent = [], ses_ip = None\<rparr>]\<rparr>"

definition owner_request :: Request where
  "owner_request = \<lparr>rq_Method = ''POST'', rq_Authorization = ''Bearer tok'', rq_Cookie = None, rq_OrgHeader = ''one'',
     rq_org_id = [], rq_orgId = [], rq_CSRF = ''csrf''\<rparr>"

definition parse_one :: "string \<Rightarrow> uuid option" where
  "parse_one x = (if x = ''one'' then Some 1 else None)"

lemma owner_admitted:
  "map_sum id http_status (fst (Authenticate plain_service parse_one owner_request
     (\<lambda>p. ret (JSON 200 (pr_OrgID p))) staffed_db)) = Inr 200"
  by code_simp

theorem authenticated_caller_witness:
  "\<exists>p. Authenticate plain_service parse_one owner_request (\<lambda>p. ret (JSON 200 (pr_OrgID p))) staffed_db =
      (Inr (JSON 200 (pr_OrgID p)), staffed_db) \<and> may_act plain_service owner_request staffed_db p \<and> pr_OrgID p = 1"
proof -
  have "requested_org owner_request = Some ''one''" by code_simp
  with owner_admitted authenticated_caller [of plain_service parse_one owner_request
      "\<lambda>p. ret (JSON 200 (pr_OrgID p))" staffed_db]
  show ?thesis by (auto simp: parse_one_def)
qed

subsection \<open>Guesses\<close>

definition uncounted :: "tables \<Rightarrow> bool" where
  "uncounted t \<longleftrightarrow> (\<forall>r \<in> set (otp_codes t). otp_attempts r = 0)"

lemma tbind_Inl_tbl:
  assumes "readonly m" and "\<And>x s e s'. f x s = (Inl e, s') \<Longrightarrow> tbl s' = tbl s" and "tbind m f s = (Inl e, s')"
  shows "tbl s' = tbl s"
proof -
  obtain r s1 where m: "m s = (r, s1)" by (cases "m s")
  have "tbl s1 = tbl s" using readonlyD [OF assms(1) m] by auto
  with m assms(2,3) show ?thesis by (cases r) auto
qed

lemma VerifyOTP_Inl:
  assumes "VerifyOTP svc now msisdn code ua addr s = (Inl e, s')"
  shows "tbl s' = tbl s"
proof -
  have tx: "tbind (Unscoped m) (\<lambda>x. ret (f x)) s = (Inl e, s') \<Longrightarrow> tbl s' = tbl s"
    for m :: "Session tx" and f :: "Session \<Rightarrow> Session \<times> string" and s e s'
    by (cases "Unscoped m s"; cases "fst (Unscoped m s)") (auto simp: scope_defs dest: scoped_Inl_tbl)
  show ?thesis
    using assms unfolding VerifyOTP_def
    by (cases "NormaliseMSISDN msisdn"; cases "length (trim_space code) = 6")
      (auto elim!: tbind_Inl_tbl [OF readonly_EncryptString, rotated]
        tbind_Inl_tbl [OF readonly_randomToken, rotated] intro: tx)
qed

lemma RequestOTP_uncounted: "uncounted (tbl s) \<Longrightarrow> uncounted (tbl (snd (RequestOTP svc now draw msisdn loc s)))"
  by (auto simp: RequestOTP_def request_otp_tx_def scope_defs scoped_def rollback_def tbind_def CountRecentOTPs_def
      query_def CreateOTP_def stmt_def Let_def uncounted_def of_result_def
      split: sum.splits prod.splits if_splits option.splits)

text \<open>
  Wrong guesses are not counted. A verification that fails leaves the store as it was,
  because the statement that counts the attempt is rolled back with the transaction that
  reports the wrong code. So the counter of every code stays at zero through all requests and
  verifications, and the limit of five attempts never applies.
\<close>

theorem guesses_uncounted:
  assumes "uncounted (tbl s)"
  shows "uncounted (tbl (snd (RequestOTP svc now draw msisdn loc s))) \<and>
    uncounted (tbl (snd (VerifyOTP svc now msisdn code ua addr s))) \<and>
    (\<forall>e s'. VerifyOTP svc now msisdn code ua addr s = (Inl e, s') \<longrightarrow> tbl s' = tbl s)"
proof -
  obtain r s' where run: "VerifyOTP svc now msisdn code ua addr s = (r, s')"
    by (cases "VerifyOTP svc now msisdn code ua addr s")
  have "uncounted (tbl s')"
  proof (cases r)
    case (Inl e)
    with run VerifyOTP_Inl assms show ?thesis by metis
  next
    case (Inr x)
    obtain sess token where x: "x = (sess, token)" by (cases x)
    obtain norm otp row where "logged_in svc (Hash (os_Keys svc) norm) (trim_space code) sess token otp row s s'"
      using VerifyOTP_Inr [OF run [unfolded Inr x]] by metis
    with assms show ?thesis
      by (auto simp: uncounted_def logged_in_def consumed_def set_update_rows)
  qed
  with run VerifyOTP_Inl RequestOTP_uncounted [OF assms] show ?thesis by auto
qed

theorem guesses_uncounted_witness:
  "uncounted (tbl coded_db) \<and>
   tbl (snd (VerifyOTP plain_service (clock shop_db) ''0712345678'' ''000001'' [] None coded_db)) = tbl coded_db"
proof -
  have u: "uncounted (tbl coded_db)" by code_simp
  have "\<exists>e. fst (VerifyOTP plain_service (clock shop_db) ''0712345678'' ''000001'' [] None coded_db) = Inl e"
    by (rule exI [of _ ErrOTPInvalid]) code_simp
  then show ?thesis
    using u guesses_uncounted [OF u, of plain_service "clock shop_db" "Inr 0" "''0712345678''" "[]" "''000001''" "[]" None]
    by (metis prod.collapse)
qed

subsection \<open>Invitations\<close>

lemma sees_invite_simps [simp]:
  "scope s = ScopeAccountant \<Longrightarrow> sees_invite s r" "scope s = ScopeNone \<Longrightarrow> \<not> sees_invite s r"
  by (simp_all add: sees_invite_def own_def)

text \<open>
  Revoking an invitation does nothing. \<open>RevokeInvite\<close> runs outside every tenant scope,
  where row-level security hides all invitations: it always reports success, and neither an
  invitation nor a membership changes.
\<close>

theorem revoke_invite_noop:
  "RevokeInvite oid iid s = (Inr (), s)"
proof -
  let ?s = "s\<lparr>scope := ScopeNone, aborted := False\<rparr>"
  have "ListInvitesForOrg oid ?s = (Inr [], ?s)"
    by (simp add: ListInvitesForOrg_def query_apply)
  moreover have "revoke_invite iid oid ?s = (Inr (), ?s)"
    by (cases s) (simp add: revoke_invite_def update_apply update_rows_id)
  ultimately show ?thesis
    by (simp add: RevokeInvite_def scope_defs scoped_def)
qed

definition closed_invite :: "string \<Rightarrow> uuid \<Rightarrow> time \<Rightarrow> OrgInvite list \<Rightarrow> OrgInvite list" where
  "closed_invite st i t rows = update_rows (\<lambda>r. oi_id r = i \<and> oi_status r = ''pending'')
     (\<lambda>r. r\<lparr>oi_status := st, oi_updated_at := t\<rparr>) rows"

definition joined :: "uuid \<Rightarrow> uuid \<Rightarrow> string \<Rightarrow> Membership list \<Rightarrow> Membership list \<Rightarrow> bool" where
  "joined oid uid role rows rows' \<longleftrightarrow>
     (let same = (\<lambda>r. mem_org_id r = oid \<and> mem_user_id r = uid) in
      if list_ex same rows then rows' = update_rows same (\<lambda>r. r\<lparr>mem_role := role\<rparr>) rows
      else \<exists>m. rows' = rows @ [m] \<and> same m \<and> mem_role m = role)"

lemma pending_invite_Inr:
  assumes "pending_invite uid iid s = (Inr i, s')" and "scope s = ScopeAccountant"
  obtains u where "\<not> aborted s" "s' = s" "row_by user_id uid (users s) = Some u" "oi_status i = ''pending''"
    "addressed i u" "find (\<lambda>r. oi_id r = iid) (org_invites s) = Some i"
    "row_by org_id (oi_org_id i) (orgs s) \<noteq> None"
proof -
  from assms(1) obtain u where u: "GetUser uid s = (Inr u, s)" "\<not> aborted s" "row_by user_id uid (users s) = Some u"
    by (auto simp: pending_invite_def tbind_Inr_iff GetUser_def query_one_Inr_iff)
  from assms(1) u have "\<exists>q. GetInviteByID iid s = (Inr (i, q), s') \<and> oi_status i = ''pending'' \<and> addressed i u"
    unfolding pending_invite_def tbind_step [of "GetUser uid", OF u(1)] attempt_case_Inr
    by (auto split: if_splits)
  then show thesis
    using that [of u] u assms(2) by (auto simp: GetInviteByID_def query_one_Inr_iff split: option.splits)
qed

lemma close_invite_Inr:
  assumes "close_invite st i s = (Inr r, s')" and "scope s = ScopeAccountant"
  shows "s' = s\<lparr>org_invites := closed_invite st i (clock s) (org_invites s)\<rparr>"
  using assms by (auto simp: close_invite_def stmt_Inr_iff Let_def closed_invite_def split: option.splits)

lemma CreateMembership_Inr:
  assumes "CreateMembership oid uid role dflt s = (Inr u, s')"
  shows "joined oid uid role (memberships s) (memberships s') \<and> users s' = users s \<and> orgs s' = orgs s \<and>
    org_invites s' = org_invites s"
  using assms by (auto simp: CreateMembership_def stmt_Inr_iff Let_def joined_def split: if_splits)

lemma AcceptInvite_Inr:
  assumes "AcceptInvite uid iid s = (Inr (), s')"
  obtains i u where "find (\<lambda>r. oi_id r = iid) (org_invites s) = Some i" "oi_status i = ''pending''" "addressed i u"
    "row_by user_id uid (users s) = Some u" "row_by org_id (oi_org_id i) (orgs s) \<noteq> None"
    "org_invites s' = closed_invite ''accepted'' iid (clock s) (org_invites s)"
    "joined (oi_org_id i) uid (oi_role i) (memberships s) (memberships s')" "users s' = users s" "orgs s' = orgs s"
proof -
  let ?s = "s\<lparr>scope := ScopeAccountant, aborted := False\<rparr>"
  from assms obtain i s1 r s2 ms s3 s4 where
      p: "pending_invite uid iid ?s = (Inr i, s1)" and c: "close_invite ''accepted'' iid s1 = (Inr r, s2)"
    and l: "attempt (ListMembershipsForUser uid) s2 = (Inr ms, s3)"
    and m: "CreateMembership (oi_org_id i) uid (oi_role i) (case ms of Inl _ \<Rightarrow> True | Inr rows \<Rightarrow> rows = []) s3 = (Inr (), s4)"
    and s': "s' = s4\<lparr>scope := scope s, aborted := aborted s\<rparr>"
    by (auto simp: AcceptInvite_def scope_defs scoped_Inr_iff tbind_Inr_iff)
  have s3: "s3 = s2" using l by (auto simp: attempt_def ListMembershipsForUser_def query_def split: if_splits)
  from p show thesis
  proof (rule pending_invite_Inr)
    fix u
    assume u: "s1 = ?s" "row_by user_id uid (users ?s) = Some u" "oi_status i = ''pending''" "addressed i u"
      "find (\<lambda>r. oi_id r = iid) (org_invites ?s) = Some i" "row_by org_id (oi_org_id i) (orgs ?s) \<noteq> None"
    have "s2 = s1\<lparr>org_invites := closed_invite ''accepted'' iid (clock s1) (org_invites s1)\<rparr>"
      using close_invite_Inr [OF c] u(1) by simp
    with CreateMembership_Inr [OF m] u show thesis by (intro that [of i u]) (simp_all add: s3 s')
  qed simp
qed

lemma find_update_rows:
  "(\<And>r. P (f r) = P r) \<Longrightarrow> find P (update_rows q f rows) = map_option (\<lambda>r. if q r then f r else r) (find P rows)"
  by (induction rows) auto

text \<open>
  C30. An invitation is accepted only by the user it is addressed to and only while it is
  pending; accepting it gives that user the membership with the invited role, changes no
  membership of anybody else, and marks it accepted; nobody can accept or reject it afterwards.
\<close>

theorem invite_used_once:
  assumes "AcceptInvite uid iid s = (Inr (), s')"
  shows "(\<exists>i u. i \<in> set (org_invites s) \<and> oi_id i = iid \<and> oi_status i = ''pending'' \<and> row_by user_id uid (users s) = Some u \<and>
      addressed i u \<and> org_invites s' = closed_invite ''accepted'' iid (clock s) (org_invites s) \<and>
      joined (oi_org_id i) uid (oi_role i) (memberships s) (memberships s')) \<and>
    (\<forall>other. row_by user_id other (users s) \<noteq> None \<longrightarrow>
      fst (AcceptInvite other iid s') = Inl (ErrorString ''invitation is no longer pending'') \<and>
      fst (RejectInvite other iid s') = Inl (ErrorString ''invitation is no longer pending''))"
proof -
  obtain i u where a: "find (\<lambda>r. oi_id r = iid) (org_invites s) = Some i" "oi_status i = ''pending''" "addressed i u"
    "row_by user_id uid (users s) = Some u" "row_by org_id (oi_org_id i) (orgs s) \<noteq> None"
    "org_invites s' = closed_invite ''accepted'' iid (clock s) (org_invites s)"
    "joined (oi_org_id i) uid (oi_role i) (memberships s) (memberships s')" "users s' = users s" "orgs s' = orgs s"
    by (rule AcceptInvite_Inr [OF assms])
  have i: "i \<in> set (org_invites s)" "oi_id i = iid" using a(1) by (auto simp: find_Some_iff)
  have closed: "find (\<lambda>r. oi_id r = iid) (org_invites s') = Some (i\<lparr>oi_status := ''accepted'', oi_updated_at := clock s\<rparr>)"
    unfolding a(6) closed_invite_def using a(1,2) i by (simp add: find_update_rows)
  have "pending_invite other iid (s'\<lparr>scope := ScopeAccountant, aborted := False\<rparr>) =
      (Inl (ErrorString ''invitation is no longer pending''), s'\<lparr>scope := ScopeAccountant, aborted := False\<rparr>)"
    if "row_by user_id other (users s) \<noteq> None" for other
    using that a(5,8,9) closed
    by (auto simp: pending_invite_def GetUser_def GetInviteByID_def query_one_apply attempt_def tbind_def)
  then have "fst (AcceptInvite other iid s') = Inl (ErrorString ''invitation is no longer pending'') \<and>
      fst (RejectInvite other iid s') = Inl (ErrorString ''invitation is no longer pending'')"
    if "row_by user_id other (users s) \<noteq> None" for other
    using that by (simp add: AcceptInvite_def RejectInvite_def scope_defs scoped_def)
  with a i show ?thesis by blast
qed

definition invited_db :: db where
  "invited_db = staffed_db\<lparr>
     users := users staffed_db @ [\<lparr>user_id = 8, user_msisdn_enc = ''y'', user_msisdn_hash = ''h:254700000001'',
       user_name = [], user_locale = ''en'', user_email = None, user_created_at = 0\<rparr>],
     sessions := sessions staffed_db @ [\<lparr>ses_id = 9, ses_user_id = 8, ses_token_hash = ''h:guest'',
       ses_csrf_token = ''c2'', ses_expires_at = clock shop_db + 1, ses_revoked_at = None, ses_user_agent = [],
       ses_ip = None\<rparr>]\<rparr>"

definition admin_invite :: InviteInput where
  "admin_invite = \<lparr>iv_Phone = ''0700000001'', iv_Email = [], iv_Role = RoleAdmin\<rparr>"

definition accepting_db :: db where
  "accepting_db = snd (InviteMember plain_service 1 5 admin_invite invited_db)"

lemma accepting_invite: "map_sum id inv_ID (fst (InviteMember plain_service 1 5 admin_invite invited_db)) = Inr 10"
  by code_simp

lemma accepting_run: "fst (AcceptInvite 8 10 accepting_db) = Inr ()"
  by code_simp

theorem invite_used_once_witness:
  "\<exists>s'. AcceptInvite 8 10 accepting_db = (Inr (), s') \<and>
     fst (AcceptInvite 5 10 s') = Inl (ErrorString ''invitation is no longer pending'')"
proof -
  obtain s' where run: "AcceptInvite 8 10 accepting_db = (Inr (), s')"
    using accepting_run by (cases "AcceptInvite 8 10 accepting_db") simp
  have "row_by user_id 5 (users accepting_db) \<noteq> None" by code_simp
  with invite_used_once [OF run] run show ?thesis by blast
qed

lemma InviteMember_Inr:
  assumes "InviteMember svc oid by inp s = (Inr v, s')"
  obtains r where "v = toInvite r" "oi_id r = next_id s" "oi_org_id r = oid"
    "oi_role r = (if iv_Role inp = [] then RoleAccountant else iv_Role inp)"
    "org_invites s' = org_invites s @ [r]"
proof -
  define role where "role = (if iv_Role inp = [] then RoleAccountant else iv_Role inp)"
  from assms obtain ph h where "WithOrg oid (invite_tx oid by role ph h (iv_Email inp)) s = (Inr v, s')"
    unfolding InviteMember_def Let_def role_def [symmetric] by (auto split: if_splits sum.splits)
  then obtain s1 u s2 r where
      c: "(if ph = None then ret () else check_invitee oid by h) (s\<lparr>scope := ScopeOrg oid, aborted := False\<rparr>) = (Inr u, s1)"
    and r: "CreateInvite oid by role ph h (optString (iv_Email inp)) ''pending'' s1 = (Inr r, s2)"
    and v: "v = toInvite r" "s' = s2\<lparr>scope := scope s, aborted := aborted s\<rparr>"
    by (auto simp: invite_tx_def scope_defs scoped_Inr_iff tbind_Inr_iff)
  have "readonly (if ph = None then ret () else check_invitee oid by h)"
    unfolding check_invitee_def GetUserByMSISDNHash_def ListMembersForOrg_def query_one_def
    by (auto intro!: readonly_intros split: sum.splits option.splits)
  from readonlyD [OF this c] have s1: "next_id s1 = next_id s" "org_invites s1 = org_invites s" by auto
  with r v that [of r] show thesis
    by (auto simp: CreateInvite_def stmt_Inr_iff Let_def role_def split: if_splits)
qed

lemma joined_same:
  assumes "joined oid uid role rows rows'"
  shows "filter (\<lambda>m. mem_org_id m = oid \<and> mem_user_id m = uid) rows' \<noteq> []"
    and "\<forall>m \<in> set rows'. mem_org_id m = oid \<and> mem_user_id m = uid \<longrightarrow> mem_role m = role"
proof -
  let ?same = "\<lambda>m. mem_org_id m = oid \<and> mem_user_id m = uid"
  have "filter ?same rows' \<noteq> [] \<and> (\<forall>m \<in> set rows'. ?same m \<longrightarrow> mem_role m = role)"
  proof (cases "list_ex ?same rows")
    case True
    then have upd: "rows' = update_rows ?same (\<lambda>r. r\<lparr>mem_role := role\<rparr>) rows"
      using assms by (simp add: joined_def)
    have "filter ?same (update_rows ?same (\<lambda>r. r\<lparr>mem_role := role\<rparr>) rows) \<noteq> []"
      using True by (induction rows) auto
    moreover have "\<forall>m \<in> set (update_rows ?same (\<lambda>r. r\<lparr>mem_role := role\<rparr>) rows). ?same m \<longrightarrow> mem_role m = role"
      by (induction rows) auto
    ultimately show ?thesis by (simp add: upd)
  next
    case False
    then obtain m where "rows' = rows @ [m]" "?same m" "mem_role m = role" using assms by (auto simp: joined_def)
    with False show ?thesis by (auto simp: list_ex_iff)
  qed
  then show "filter ?same rows' \<noteq> []" "\<forall>m \<in> set rows'. ?same m \<longrightarrow> mem_role m = role" by blast+
qed

text \<open>
  C40. An owner can create platform administrators. The role \<open>admin\<close> is one an owner may
  invite to the own business; whoever accepts such an invitation gets a caller with the role
  \<open>admin\<close>, and that role alone is what the operator routes ask for.
\<close>

theorem owner_creates_admin:
  assumes "InviteMember svc oid inviter inp s = (Inr v, s1)" and "iv_Role inp = RoleAdmin"
    and "\<forall>r \<in> set (org_invites s). oi_id r < next_id s"
    and "AcceptInvite uid (inv_ID v) s1 = (Inr (), s2)"
    and "live_session svc token s2 row u" and "ses_user_id row = uid" and "token \<noteq> []"
  shows "\<exists>p. Principal_of svc token (Some (Some oid)) s2 = (Inr p, s2) \<and>
    RequireRole [RoleAdmin] (Some (http_principal p)) handler = handler"
proof -
  obtain r where r: "v = toInvite r" "oi_id r = next_id s" "oi_org_id r = oid" "oi_role r = RoleAdmin"
      "org_invites s1 = org_invites s @ [r]"
    using InviteMember_Inr [OF assms(1)] assms(2) by (metis RoleAdmin_def list.distinct(1))
  have "find (\<lambda>q. oi_id q = next_id s) (org_invites s) = None"
    using assms(3) by (auto simp: find_None_iff)
  then have new: "find (\<lambda>q. oi_id q = inv_ID v) (org_invites s1) = Some r"
    using find_snoc [of "\<lambda>q. oi_id q = next_id s" "org_invites s" r] r by (simp add: toInvite_def)
  from assms(4) obtain i u' where a: "find (\<lambda>q. oi_id q = inv_ID v) (org_invites s1) = Some i"
    "row_by org_id (oi_org_id i) (orgs s1) \<noteq> None"
    "joined (oi_org_id i) uid (oi_role i) (memberships s1) (memberships s2)" "orgs s2 = orgs s1"
    by (rule AcceptInvite_Inr)
  have i: "i = r" using a(1) new by simp
  let ?ms = "toMemberships (sorted_orgs s2 uid)"
  obtain m where m: "m \<in> set (memberships s2)" "mem_org_id m = oid" "mem_user_id m = uid"
    using joined_same(1) [OF a(3)] i r by (auto simp: filter_empty_conv)
  obtain q where q: "q \<in> set (orgs s2)" "org_id q = oid"
    using a(2,4) i r by (auto simp: row_by_def find_Some_iff dest: nth_mem)
  have "(m, q) \<in> set (sorted_orgs s2 uid)"
    using m q by (auto simp: sorted_orgs_def joined_orgs_def)
  then have "\<exists>x \<in> set ?ms. mv_OrgID x = oid" using m(2) by (force simp: toMemberships_def)
  then obtain x where x: "find (\<lambda>x. mv_OrgID x = oid) ?ms = Some x"
    by (cases "find (\<lambda>x. mv_OrgID x = oid) ?ms") (auto simp: find_None_iff)
  then have "x \<in> set ?ms" "mv_OrgID x = oid" by (auto simp: find_Some_iff)
  then have role: "mv_Role x = RoleAdmin"
    using sorted_orgs_member [of x s2 uid] joined_same(2) [OF a(3)] i r by auto
  have "Principal_of svc token (Some (Some oid)) s2 =
      (Inr ((caller row u (sorted_orgs s2 uid))\<lparr>pp_OrgID := oid, pp_Role := RoleAdmin\<rparr>), s2)"
    using Principal_of_live [OF assms(5,7)] assms(6) x role \<open>mv_OrgID x = oid\<close>
    by (simp add: select_org_def caller_def)
  then show ?thesis by (simp add: RequireRole_def http_principal_def)
qed

lemma guest_session: "\<exists>row u. live_session plain_service ''guest'' (snd (AcceptInvite 8 10 accepting_db)) row u \<and> ses_user_id row = 8"
  by (intro exI [of _ "sessions invited_db ! 1"] exI [of _ "users invited_db ! 1"]) code_simp

theorem owner_creates_admin_witness:
  "\<exists>p. Principal_of plain_service ''guest'' (Some (Some 1)) (snd (AcceptInvite 8 10 accepting_db)) =
      (Inr p, snd (AcceptInvite 8 10 accepting_db)) \<and>
    RequireRole [RoleAdmin] (Some (http_principal p)) (ret (JSON 200 ())) = ret (JSON 200 ())"
proof -
  obtain v where v: "InviteMember plain_service 1 5 admin_invite invited_db = (Inr v, accepting_db)" "inv_ID v = 10"
    using accepting_invite unfolding accepting_db_def
    by (cases "InviteMember plain_service 1 5 admin_invite invited_db"; cases "fst (InviteMember plain_service 1 5 admin_invite invited_db)") auto
  have acc: "AcceptInvite 8 (inv_ID v) accepting_db = (Inr (), snd (AcceptInvite 8 10 accepting_db))"
    using accepting_run v(2) by (metis prod.collapse)
  have "\<forall>r \<in> set (org_invites invited_db). oi_id r < next_id invited_db" by code_simp
  with guest_session owner_creates_admin [OF v(1) _ _ acc, of "''guest''"] show ?thesis
    by (auto simp: admin_invite_def)
qed

end
