(* ===== verification/PlatformProps.thy ===== *)
theory PlatformProps
  imports Platform AccountProps ReissueProps
begin

text \<open>
  The whole platform as one step relation: requests served by the API, the fiscal worker and its
  watchdog, the receipt worker, the sweep over stored events and the pull job, in any order. The
  invariants of the ledger hold over all of its runs, and the router's gates decide who may
  change what.
\<close>

inductive platform_step ::
    "('n, 'ip) Server set \<Rightarrow> Keyring \<Rightarrow> (string \<Rightarrow> string) \<Rightarrow> 'p Provider \<Rightarrow>
      'n api_state \<times> 'p \<Rightarrow> 'n api_state \<times> 'p \<Rightarrow> bool"
  for SV :: "('n, 'ip) Server set" and k :: Keyring and b :: "string \<Rightarrow> string" and P :: "'p Provider" where
  step_serve: "sv \<in> SV \<Longrightarrow> serve sv aq r st = (resp, st') \<Longrightarrow> platform_step SV k b P (st, p) (st', p)"
| step_worker: "step k b P (st_db st, p) (s', p') \<Longrightarrow> platform_step SV k b P (st, p) (st\<lparr>st_db := s'\<rparr>, p')"
| step_message: "Work svc now oid iid template (st_db st) = (x, s') \<Longrightarrow>
    platform_step SV k b P (st, p) (st\<lparr>st_db := s'\<rparr>, p)"
| step_reconcile: "Run rc (st_db st) = (x, s') \<Longrightarrow> platform_step SV k b P (st, p) (st\<lparr>st_db := s'\<rparr>, p)"
| step_pull: "PullWork w (st_db st) = (x, s') \<Longrightarrow> platform_step SV k b P (st, p) (st\<lparr>st_db := s'\<rparr>, p)"

context platform_frame
begin

lemma p_step: "platform_step SV k b P x y \<Longrightarrow> R (tbl (st_db (fst x))) (tbl (st_db (fst y)))"
proof (induction rule: platform_step.induct)
  case (step_serve sv aq r st resp st' p)
  then show ?case using p_serve [of st sv aq r] by simp
next
  case (step_worker st p s' p')
  then show ?case using frame_step by fastforce
next
  case (step_message svc now oid iid template st x s' p)
  then show ?case using keepsD [OF p_Work [of UNIV] UNIV_I] by fastforce
next
  case (step_reconcile rc st x s' p)
  then show ?case using keepsD [OF p_Run [of UNIV] UNIV_I] by fastforce
next
  case (step_pull w st x s' p)
  then show ?case using keepsD [OF p_PullWork [of UNIV] UNIV_I] by fastforce
qed

lemma p_run: "(platform_step SV k b P)\<^sup>*\<^sup>* x y \<Longrightarrow> R (tbl (st_db (fst x))) (tbl (st_db (fst y)))"
  by (induction rule: rtranclp_induct) (auto intro: R_refl R_trans dest: p_step)

end

subsection \<open>Invariants of every run\<close>

definition shop_api :: "string api_state" where
  "shop_api = \<lparr>st_db = shop_db, st_allowlist = \<lparr>al_cidrs = [], al_nets = []\<rparr>, st_limits = (\<lambda>_. [])\<rparr>"

lemma shop_run:
  "\<exists>s'. (platform_step {} plain_keyring id (mock_provider sample_env))\<^sup>*\<^sup>*
       (shop_api, mock_New FailNone 5) (shop_api\<lparr>st_db := s'\<rparr>, mock_New FailNone 5) \<and>
     length (invoices s') = 1 \<and> length (payments s') = 1"
proof -
  obtain r s' where run: "IngestC2B plain_keyring 0 cash_payment shop_db = (r, s')"
    by (cases "IngestC2B plain_keyring 0 cash_payment shop_db")
  then have "step plain_keyring id (mock_provider sample_env) (st_db shop_api, mock_New FailNone 5) (s', mock_New FailNone 5)"
    by (intro step_c2b) (simp add: shop_api_def)
  from step_worker [OF this] have "(platform_step {} plain_keyring id (mock_provider sample_env))\<^sup>*\<^sup>*
      (shop_api, mock_New FailNone 5) (shop_api\<lparr>st_db := s'\<rparr>, mock_New FailNone 5)" by blast
  moreover have "s' = snd (IngestC2B plain_keyring 0 cash_payment shop_db)" using run by simp
  ultimately show ?thesis using shop_ingest by auto
qed

text \<open>
  C1. The ledger is append-only: whatever requests, jobs and sweeps run, in whatever order and
  however a submission is interrupted, every invoice, payment, sale, sale line, webhook event,
  submission record, audit entry and job request that was there before is still there, in the
  same order, with its identity, organisation, kind, parent, receipt code and amounts unchanged,
  and an invoice KRA has acknowledged stays acknowledged.
\<close>

theorem platform_append_only:
  assumes "(platform_step SV k b P)\<^sup>*\<^sup>* (st, p) (st', p')"
  shows "history (tbl (st_db st)) (tbl (st_db st'))"
  using history.p_run [OF assms] by simp

theorem platform_append_only_witness:
  "\<exists>s'. history (tbl shop_db) (tbl s') \<and> length (invoices s') = 1 \<and> length (payments s') = 1"
proof -
  obtain s' where s': "(platform_step {} plain_keyring id (mock_provider sample_env))\<^sup>*\<^sup>*
      (shop_api, mock_New FailNone 5) (shop_api\<lparr>st_db := s'\<rparr>, mock_New FailNone 5)"
      "length (invoices s') = 1" "length (payments s') = 1" using shop_run by blast
  from platform_append_only [OF s'(1)] s'(2,3) show ?thesis by (auto simp: shop_api_def)
qed

text \<open>
  C2. Keys stay keys in every run of the platform. From a well-formed store every reachable store
  is well-formed: no two invoices share an identifier or a receipt code, no two payments a
  transaction id, no two sales of an organisation a reference, no two webhook events an external
  id, and the checked columns hold values the schema allows; and a number stays verified by at
  most one organisation.
\<close>

theorem platform_well_formed:
  assumes "wf (tbl (st_db st))" and "gate (tbl (st_db st))" and "(platform_step SV k b P)\<^sup>*\<^sup>* (st, p) (st', p')"
  shows "wf (tbl (st_db st')) \<and> gate (tbl (st_db st'))"
  using wf.p_run [OF assms(3)] gate.p_run [OF assms(3)] assms(1,2) by (simp add: keeps_wf_def keeps_gate_rel_def)

lemma gate_shop: "gate (tbl shop_db)"
  by (simp add: gate_def keyed_def shop_db_def empty_db_def shop_till_def shortcode_checks_def)

theorem platform_well_formed_witness:
  "\<exists>s'. wf (tbl s') \<and> gate (tbl s') \<and> length (invoices s') = 1 \<and> length (payments s') = 1"
proof -
  obtain s' where s': "(platform_step {} plain_keyring id (mock_provider sample_env))\<^sup>*\<^sup>*
      (shop_api, mock_New FailNone 5) (shop_api\<lparr>st_db := s'\<rparr>, mock_New FailNone 5)"
      "length (invoices s') = 1" "length (payments s') = 1" using shop_run by blast
  from platform_well_formed [OF _ _ s'(1)] wf_shop gate_shop s'(2,3) show ?thesis by (auto simp: shop_api_def)
qed

text \<open>
  C17. Following the chain of corrections ends. In every store the platform can reach, the loop
  that looks for the active document of an invoice returns, for every invoice, and returns the
  end of the chain: a link always leads to a document created later.
\<close>

theorem platform_chain_ends:
  assumes "wf (tbl (st_db st))" and "ordered (tbl (st_db st))"
    and "(platform_step SV k b P)\<^sup>*\<^sup>* (st, p) (st', p')"
    and "i \<in> set (invoices (st_db st'))" and "inv_org_id i = oid"
  shows "\<exists>j. active_invoice i ((st_db st')\<lparr>scope := ScopeOrg oid, aborted := False\<rparr>) =
      (Inr j, (st_db st')\<lparr>scope := ScopeOrg oid, aborted := False\<rparr>) \<and> chain_end (st_db st') oid j"
proof -
  have "ordered (tbl (st_db st'))" using chain.p_run [OF assms(3)] assms(1,2) by (simp add: keeps_chain_def)
  from active_invoice_ends [OF this assms(4,5)] show ?thesis .
qed

theorem platform_chain_ends_witness:
  "\<exists>s' i j. i \<in> set (invoices s') \<and> inv_superseded_by i \<noteq> None \<and>
     active_invoice i (s'\<lparr>scope := ScopeOrg 1, aborted := False\<rparr>) = (Inr j, s'\<lparr>scope := ScopeOrg 1, aborted := False\<rparr>)"
proof -
  let ?st = "shop_api\<lparr>st_db := acked_db\<rparr>"
  obtain s' i where run: "step plain_keyring id (mock_provider sample_env) (acked_db, mock_New FailNone 5) (s', mock_New FailNone 5)"
      and i: "i \<in> set (invoices s')" "inv_superseded_by i \<noteq> None" "inv_org_id i = 1"
    using corrected_once by blast
  have "(platform_step {} plain_keyring id (mock_provider sample_env))\<^sup>*\<^sup>* (?st, mock_New FailNone 5)
      (?st\<lparr>st_db := s'\<rparr>, mock_New FailNone 5)"
    using step_worker [of plain_keyring id "mock_provider sample_env" ?st _ s' _ "{}"] run
    by (intro r_into_rtranclp) simp
  from platform_chain_ends [OF _ _ this _ i(3)] wf_acked ordered_acked i(1,2) show ?thesis by (auto simp: shop_api_def)
qed

subsection \<open>Who may change what\<close>

definition signed_in :: "('n, 'ip) Server \<Rightarrow> ApiRequest \<Rightarrow> api_route \<Rightarrow> db \<Rightarrow> HttpPrincipal \<Rightarrow> bool" where
  "signed_in sv aq r s p = may_act (sv_Org sv) ((aq_Request aq)\<lparr>rq_Method := route_method r\<rparr>) s p"

definition member_as :: "db \<Rightarrow> HttpPrincipal \<Rightarrow> bool" where
  "member_as s p \<longleftrightarrow> (\<exists>m \<in> set (memberships s). mem_user_id m = pr_UserID p \<and> mem_org_id m = pr_OrgID p \<and>
     mem_role m = pr_Role p)"

lemma acts_as_member: "may_act svc rq s p \<Longrightarrow> pr_Role p \<noteq> [] \<or> pr_OrgID p \<noteq> nil_uuid \<Longrightarrow> member_as s p"
  by (auto simp: may_act_def member_as_def)

lemma in_tx_cases:
  "(\<exists>p. signed_in sv aq r s p \<and> in_tx sv aq r s = (case r of
       Account a \<Rightarrow> serve_account sv p a
     | Reads q \<Rightarrow> RequireOrg (Some p) (serve_read sv p q)
     | Writes w \<Rightarrow> RequireOrg (Some p) (accountants_read_only (Some p) (serve_write sv p w))
     | Admin a \<Rightarrow> operator_only p (serve_admin sv p a)
     | _ \<Rightarrow> operator_only p (ret (JSON 200 ()))) s) \<or>
   (\<exists>resp. in_tx sv aq r s = (Inr resp, s) \<and> \<not> accepted_response resp)"
proof -
  let ?h = "\<lambda>p. case r of
       Account a \<Rightarrow> serve_account sv p a
     | Reads q \<Rightarrow> RequireOrg (Some p) (serve_read sv p q)
     | Writes w \<Rightarrow> RequireOrg (Some p) (accountants_read_only (Some p) (serve_write sv p w))
     | Admin a \<Rightarrow> operator_only p (serve_admin sv p a)
     | _ \<Rightarrow> operator_only p (ret (JSON 200 ()))"
  have run: "in_tx sv aq r s = Authenticate (sv_Org sv) (sv_ParseUUID sv) ((aq_Request aq)\<lparr>rq_Method := route_method r\<rparr>) ?h s"
    by (simp add: in_tx_def authenticated_def)
  from Authenticate_cases [of "sv_Org sv" "sv_ParseUUID sv" "(aq_Request aq)\<lparr>rq_Method := route_method r\<rparr>" ?h s]
  show ?thesis
  proof
    assume "\<exists>p. Authenticate (sv_Org sv) (sv_ParseUUID sv) ((aq_Request aq)\<lparr>rq_Method := route_method r\<rparr>) ?h s = ?h p s \<and>
        may_act (sv_Org sv) ((aq_Request aq)\<lparr>rq_Method := route_method r\<rparr>) s p \<and> (\<forall>want. requested_org
          ((aq_Request aq)\<lparr>rq_Method := route_method r\<rparr>) = Some want \<and> want \<noteq> [] \<longrightarrow> sv_ParseUUID sv want = Some (pr_OrgID p) \<and>
          (\<exists>m \<in> set (memberships s). mem_user_id m = pr_UserID p \<and> mem_org_id m = pr_OrgID p))"
    then show ?thesis unfolding run signed_in_def by blast
  next
    assume "\<exists>resp. Authenticate (sv_Org sv) (sv_ParseUUID sv) ((aq_Request aq)\<lparr>rq_Method := route_method r\<rparr>) ?h s = (Inr resp, s) \<and>
        http_status resp \<in> {401, 403, 500}"
    then show ?thesis unfolding run by (auto simp: accepted_response_def)
  qed
qed

lemma write_isolated: "keeps UNIV (isolated (pr_OrgID p)) (serve_write sv p w)"
  by (intro isolated.keeps_serve_write isolated.keeps_ReissueInvoice isolated.keeps_CreateCreditNote) simp_all

lemma in_tx_same:
  assumes "\<And>p. keeps UNIV (=) (case r of
       Account a \<Rightarrow> serve_account sv p a
     | Reads q \<Rightarrow> RequireOrg (Some p) (serve_read sv p q)
     | Writes w \<Rightarrow> RequireOrg (Some p) (accountants_read_only (Some p) (serve_write sv p w))
     | Admin a \<Rightarrow> operator_only p (serve_admin sv p a)
     | _ \<Rightarrow> operator_only p (ret (JSON 200 ())))"
  shows "tbl (snd (in_tx sv aq r s)) = tbl s"
  using same.t_Authenticate [OF assms] unfolding in_tx_def authenticated_def by (simp add: keeps_def)

lemma Recover_db: "st_db (snd (Recover m st)) = snd (m (st_db st))" "st_allowlist (snd (Recover m st)) = st_allowlist st"
  by (simp_all add: Recover_def split: prod.splits sum.splits)

lemma serve_public_allowlist: "st_allowlist (snd (serve_public sv aq q st)) = st_allowlist st"
  by (cases q) (auto simp: serve_public_def limited_def Let_def Recover_db split: prod.splits)

definition may_operate :: "('n, 'ip) Server \<Rightarrow> ApiRequest \<Rightarrow> api_route \<Rightarrow> db \<Rightarrow> HttpPrincipal \<Rightarrow> bool" where
  "may_operate sv aq r s p \<longleftrightarrow> signed_in sv aq r s p \<and> member_as s p \<and> pr_Role p = RoleAdmin"

definition may_write :: "('n, 'ip) Server \<Rightarrow> ApiRequest \<Rightarrow> api_route \<Rightarrow> db \<Rightarrow> HttpPrincipal \<Rightarrow> bool" where
  "may_write sv aq r s p \<longleftrightarrow> signed_in sv aq r s p \<and> member_as s p \<and> pr_Role p \<noteq> RoleAccountant"

lemma operator_cases:
  assumes "signed_in sv aq r s p"
  shows "may_operate sv aq r s p \<or> operator_only p m s = (Inr (Fail 403 ''forbidden'' ''Your role cannot do that''), s)"
  using assms acts_as_member [of _ _ s p]
  by (auto simp: may_operate_def signed_in_def operator_only_def RequireRole_def RoleAdmin_def)

lemma writer_cases:
  assumes "signed_in sv aq r s p"
  shows "may_write sv aq r s p \<or>
    (\<exists>resp. RequireOrg (Some p) (accountants_read_only (Some p) m) s = (Inr resp, s) \<and> \<not> accepted_response resp)"
  using assms acts_as_member [of _ _ s p]
  by (auto simp: may_write_def signed_in_def RequireOrg_def accountants_read_only_def RoleAccountant_def)

text \<open>
  C4. Who may change what. Reading routes change no table. A writing route of the ledger changes
  something only for a signed-in member of the organisation it acts for whose role is not
  accountant, and then no row of another organisation. An operator route changes something only
  for a signed-in member with the role admin, and only such a caller replaces the allowlist of
  callback addresses; no other route touches it.
\<close>

theorem access_control:
  "case r of
     Reads q \<Rightarrow> tbl (st_db (snd (serve sv aq r st))) = tbl (st_db st)
   | Writes w \<Rightarrow> tbl (st_db (snd (serve sv aq r st))) = tbl (st_db st) \<or>
       (\<exists>p. may_write sv aq r (st_db st) p \<and> isolated (pr_OrgID p) (tbl (st_db st)) (tbl (st_db (snd (serve sv aq r st)))))
   | Admin a \<Rightarrow> tbl (st_db (snd (serve sv aq r st))) = tbl (st_db st) \<or> (\<exists>p. may_operate sv aq r (st_db st) p)
   | POST_daraja_ips body \<Rightarrow> tbl (st_db (snd (serve sv aq r st))) = tbl (st_db st) \<and>
       (st_allowlist (snd (serve sv aq r st)) = st_allowlist st \<or> (\<exists>p. may_operate sv aq r (st_db st) p))
   | _ \<Rightarrow> st_allowlist (snd (serve sv aq r st)) = st_allowlist st"
proof (cases r)
  case (Reads q)
  have "tbl (snd (in_tx sv aq r (st_db st))) = tbl (st_db st)"
    by (rule in_tx_same) (simp add: Reads same.t_gates same.t_serve_read)
  then show ?thesis by (simp add: Reads serve_def Recover_db)
next
  case (Writes w)
  from in_tx_cases [of sv aq r "st_db st"] show ?thesis
  proof
    assume "\<exists>resp. in_tx sv aq r (st_db st) = (Inr resp, st_db st) \<and> \<not> accepted_response resp"
    then show ?thesis by (auto simp: Writes serve_def Recover_db)
  next
    assume "\<exists>p. signed_in sv aq r (st_db st) p \<and> in_tx sv aq r (st_db st) = (case r of
         Account a \<Rightarrow> serve_account sv p a
       | Reads q \<Rightarrow> RequireOrg (Some p) (serve_read sv p q)
       | Writes w \<Rightarrow> RequireOrg (Some p) (accountants_read_only (Some p) (serve_write sv p w))
       | Admin a \<Rightarrow> operator_only p (serve_admin sv p a)
       | _ \<Rightarrow> operator_only p (ret (JSON 200 ()))) (st_db st)"
    then obtain p where p: "signed_in sv aq r (st_db st) p" "in_tx sv aq r (st_db st) =
        RequireOrg (Some p) (accountants_read_only (Some p) (serve_write sv p w)) (st_db st)"
      by (auto simp: Writes)
    have "keeps UNIV (isolated (pr_OrgID p)) (RequireOrg (Some p) (accountants_read_only (Some p) (serve_write sv p w)))"
      by (intro isolated.t_gates write_isolated)
    then have "isolated (pr_OrgID p) (tbl (st_db st)) (tbl (snd (in_tx sv aq r (st_db st))))"
      unfolding p(2) by (rule keeps_tables)
    with writer_cases [OF p(1), of "serve_write sv p w"] p(2) show ?thesis
      by (auto simp: Writes serve_def Recover_db)
  qed
next
  case (Admin a)
  from in_tx_cases [of sv aq r "st_db st"] show ?thesis
    using operator_cases [of sv aq r "st_db st" _ "serve_admin sv _ a"] by (auto simp: Admin serve_def Recover_db)
next
  case (POST_daraja_ips body)
  have same: "tbl (snd (in_tx sv aq r (st_db st))) = tbl (st_db st)"
    by (rule in_tx_same) (simp add: POST_daraja_ips operator_only_def same.t_gates same.keeps_ret)
  from in_tx_cases [of sv aq r "st_db st"]
  have "(\<exists>p. may_operate sv aq r (st_db st) p) \<or> \<not> accepted_response (fst (Recover (in_tx sv aq r) st))"
    using operator_cases [of sv aq r "st_db st" _ "ret (JSON 200 ())"] by (auto simp: POST_daraja_ips Recover_def)
  moreover obtain g st1 where g: "Recover (in_tx sv aq r) st = (g, st1)" by (cases "Recover (in_tx sv aq r) st")
  moreover have "st_db st1 = snd (in_tx sv aq r (st_db st))" "st_allowlist st1 = st_allowlist st"
    using Recover_db [of "in_tx sv aq r" st] g by simp_all
  ultimately show ?thesis using same by (auto simp: POST_daraja_ips serve_def split: prod.splits)
qed (simp_all add: serve_def Recover_db serve_public_allowlist)

lemma serve_cong:
  "client_ip a = client_ip c \<Longrightarrow> aq_Request a = aq_Request c \<Longrightarrow> serve sv a r st = serve sv c r st"
  by (simp only: serve_def serve_public_def in_tx_def authenticated_def)

text \<open>
  The caller chooses the address it is judged by. When a request has an X-Forwarded-For
  header, the allowlist of callback addresses and every rate limiter use the text of that header
  and never the address the request came from.
\<close>

theorem peer_address_ignored:
  "serve sv (aq\<lparr>aq_XFF := c # cs, aq_Host := h\<rparr>) r st = serve sv (aq\<lparr>aq_XFF := c # cs, aq_Host := h'\<rparr>) r st"
  by (rule serve_cong) (simp_all add: client_ip_def ClientIP_def)

end
