(* ===== verification/DarajaProps.thy ===== *)
theory DarajaProps
  imports Reconcile Notify IngestProps PaymentProps
begin

text \<open>
  What the callback routes and the two catch-up jobs guarantee: amounts survive printing
  and parsing, an acknowledged payment is on record, a stored payment whose processing was
  interrupted is finished as if it had not been, and where reversals, request-to-pay events
  and the pull job fall short.
\<close>

subsection \<open>Amounts\<close>

lemma digit_cases:
  assumes "0 \<le> (d::int)" and "d < 10"
  shows "d = 0 \<or> d = 1 \<or> d = 2 \<or> d = 3 \<or> d = 4 \<or> d = 5 \<or> d = 6 \<or> d = 7 \<or> d = 8 \<or> d = 9"
  using assms by presburger

lemma digit_char_facts:
  assumes "0 \<le> d" and "d < 10"
  shows "scan_digit (digit_char d) = d" and "digit_char d \<noteq> CHR ''.''" and "digit_char d \<noteq> CHR ''_''"
    and "digit_char d \<noteq> CHR ''/''" and "digit_char d \<noteq> CHR '',''" and "is_digit (digit_char d)"
    and "digit_char d = CHR ''0'' \<longleftrightarrow> d = 0" and "digit_char d \<notin> set ''bBoOxX''"
    and "digit_char d \<notin> set ''+-''"
  using digit_cases [OF assms]
  by (auto simp: digit_char_def scan_digit_def char_class_defs)

lemma scan_step:
  assumes "0 \<le> d" and "d < 10"
  shows "scan_loop 10 fr prev bad v n dp (digit_char d # rest) =
    scan_loop 10 fr (CHR ''0'') bad (v * 10 + d) (n + 1) dp rest"
  using digit_char_facts(1,2,3) [OF assms] assms by simp

lemma scan_digits:
  assumes "0 \<le> m"
  shows "scan_loop 10 fr prev False v n dp (digits 10 m @ rest) =
    scan_loop 10 fr (CHR ''0'') False (v * 10 ^ length (digits 10 m) + m)
      (n + int (length (digits 10 m))) dp rest"
  using assms
proof (induction "10::int" m arbitrary: rest rule: digits.induct)
  case (1 m)
  show ?case
  proof (cases "m < 10")
    case True
    with 1 show ?thesis by (simp add: digits.simps [of 10 m] digit_char_facts)
  next
    case False
    have d: "digits 10 m = digits 10 (m div 10) @ [digit_char (m mod 10)]"
      using False by (subst digits.simps) simp
    have "scan_loop 10 fr prev False v n dp (digits 10 (m div 10) @ digit_char (m mod 10) # rest) =
      scan_loop 10 fr (CHR ''0'') False (v * 10 ^ length (digits 10 (m div 10)) + m div 10)
        (n + int (length (digits 10 (m div 10)))) dp (digit_char (m mod 10) # rest)"
      using False 1 by (intro 1(1)) simp_all
    also have "\<dots> = scan_loop 10 fr (CHR ''0'') False
        ((v * 10 ^ length (digits 10 (m div 10)) + m div 10) * 10 + m mod 10)
        (n + int (length (digits 10 (m div 10))) + 1) dp rest"
      by (rule scan_step) simp_all
    also have "(v * 10 ^ length (digits 10 (m div 10)) + m div 10) * 10 + m mod 10 =
        v * 10 ^ length (digits 10 m) + m"
      by (simp add: d algebra_simps)
    finally show ?thesis by (simp add: d algebra_simps)
  qed
qed

lemma digits_chars: "0 \<le> m \<Longrightarrow> list_all is_digit (digits 10 m)"
proof (induction "10::int" m rule: digits.induct)
  case (1 m)
  then show ?case
    using digit_char_facts(6) [of m] digit_char_facts(6) [of "m mod 10"]
    by (subst digits.simps) auto
qed

lemma digits_head: "0 < m \<Longrightarrow> hd (digits 10 m) \<noteq> CHR ''0''"
proof (induction "10::int" m rule: digits.induct)
  case (1 m)
  then show ?case
    using digit_char_facts(7) [of m] by (subst digits.simps) (auto simp: hd_append)
qed

lemma zero_pad_two:
  assumes "0 \<le> r" and "r < 100"
  shows "zero_pad 2 r = [digit_char (r div 10), digit_char (r mod 10)]"
proof (cases "r < 10")
  case True
  with assms show ?thesis by (simp add: zero_pad_def digits.simps [of 10 r] digit_char_def)
next
  case False
  with assms have "r div 10 < 10" by simp
  with False have "digits 10 r = [digit_char (r div 10), digit_char (r mod 10)]"
    by (simp add: digits.simps [of 10 r] digits.simps [of 10 "r div 10"])
  then show ?thesis by (simp add: zero_pad_def)
qed

lemma FormatCents_nonneg:
  assumes "0 \<le> c"
  shows "FormatCents c = digits 10 (c div 100) @
     [CHR ''.'', digit_char (c mod 100 div 10), digit_char (c mod 10)]"
proof -
  have "\<not> c div 100 < 0" "\<not> c mod 100 < 0" using assms by (simp_all add: pos_imp_zdiv_neg_iff)
  then show ?thesis
    using zero_pad_two [of "c mod 100"] assms
    by (simp add: FormatCents_def itoa_def quo_nonneg rem_nonneg Let_def mod_mod_cancel [of 10 100 c])
qed

lemma nat_scan_amount:
  assumes "0 \<le> c"
  shows "nat_scan True (FormatCents c) = Some (c, 10, - 2, [])"
proof -
  define q where "q = c div 100"
  define r where "r = c mod 100"
  have q: "0 \<le> q" and r: "0 \<le> r div 10" "r div 10 < 10" "0 \<le> c mod 10" "c mod 10 < 10"
    using assms by (simp_all add: q_def r_def)
  have c: "(q * 10 + r div 10) * 10 + c mod 10 = c"
  proof -
    have "c mod 10 = r mod 10" by (simp add: r_def mod_mod_cancel)
    moreover have "q * 100 + r = c" by (simp add: q_def r_def)
    ultimately show ?thesis using div_mult_mod_eq [of r 10] by (simp add: algebra_simps)
  qed
  note f = FormatCents_nonneg [OF assms, folded q_def r_def]
  have tail: "scan_loop 10 True (CHR ''0'') False q n None [CHR ''.'', digit_char (r div 10), digit_char (c mod 10)] =
      (c, n + 2, Some n, False, [])" for n
    using c r digit_char_facts(1,2,3) [OF r(1,2)] digit_char_facts(1,2,3) [OF r(3,4)] by simp
  show ?thesis
  proof (cases "q = 0")
    case True
    then have "digits 10 q = [CHR ''0'']" by (simp add: digits.simps digit_char_def)
    with True tail [of 1] show ?thesis
      by (simp add: f nat_scan_def scan_prefix_def)
  next
    case False
    with q have "hd (digits 10 q) \<noteq> CHR ''0''" by (intro digits_head) simp
    then have "scan_prefix True (FormatCents c) = (10, False, CHR ''.'', 0, FormatCents c)"
      unfolding f by (cases "digits 10 q") (simp_all add: scan_prefix_def)
    moreover have "scan_loop 10 True (CHR ''.'') False 0 0 None (FormatCents c) =
        (c, int (length (digits 10 q)) + 2, Some (int (length (digits 10 q))), False, [])"
      unfolding f using scan_digits [OF q, of True "CHR ''.''" 0 0 None] tail by simp
    ultimately show ?thesis by (simp add: nat_scan_def)
  qed
qed

lemma FormatCents_plain:
  assumes "0 \<le> c"
  shows "list_all (\<lambda>x. is_digit x \<or> x = CHR ''.'') (FormatCents c)"
    and "trim_space (FormatCents c) = FormatCents c"
    and "scan_sign (FormatCents c) = (False, FormatCents c)" and "FormatCents c \<noteq> []"
proof -
  have q: "list_all is_digit (digits 10 (c div 100))" using assms by (intro digits_chars) simp
  have d: "is_digit (digit_char (c mod 100 div 10))" "is_digit (digit_char (c mod 10))"
    by (simp_all add: digit_char_facts)
  show l: "list_all (\<lambda>x. is_digit x \<or> x = CHR ''.'') (FormatCents c)"
    unfolding FormatCents_nonneg [OF assms] using q d by (auto simp: list_all_iff)
  obtain x xs where x: "digits 10 (c div 100) = x # xs" by (cases "digits 10 (c div 100)") auto
  with q have dx: "is_digit x" by simp
  have "solid (hd (FormatCents c))" and "solid (last (FormatCents c))"
    using dx d x by (simp_all add: FormatCents_nonneg [OF assms] solid_alnum)
  then show "trim_space (FormatCents c) = FormatCents c"
    by (intro trim_space_solid) (simp_all add: FormatCents_nonneg [OF assms])
  show "scan_sign (FormatCents c) = (False, FormatCents c)"
    using dx by (auto simp: FormatCents_nonneg [OF assms] x scan_sign_def char_class_defs)
  show "FormatCents c \<noteq> []" by (simp add: FormatCents_nonneg [OF assms])
qed

lemma not_amount_char: "\<not> is_digit (CHR ''/'')" "\<not> is_digit (CHR '','')"
  by (simp_all add: char_class_defs)

text \<open>The whole shillings alone.\<close>

lemma nat_scan_whole:
  assumes "0 \<le> q"
  shows "\<exists>n>0. nat_scan True (digits 10 q) = Some (q, 10, n, [])"
proof (cases "q = 0")
  case True
  then have "digits 10 q = [CHR ''0'']" by (simp add: digits.simps digit_char_def)
  then show ?thesis by (simp add: True nat_scan_def scan_prefix_def)
next
  case False
  with assms have "hd (digits 10 q) \<noteq> CHR ''0''" by (intro digits_head) simp
  then have "scan_prefix True (digits 10 q) = (10, False, CHR ''.'', 0, digits 10 q)"
    by (cases "digits 10 q") (simp_all add: scan_prefix_def)
  with scan_digits [OF assms, of True "CHR ''.''" 0 0 None "[]"]
  show ?thesis by (simp add: nat_scan_def)
qed

lemma ParseAmount_float:
  assumes "filter (\<lambda>x. x \<noteq> CHR '','') (trim_space t) = u" and "u \<noteq> []" and "CHR ''/'' \<notin> set u"
    and "rat_float u = Some (num, den)" and "den dvd num * 100" and "num * 100 div den = c" and "in_int64 c"
  shows "ParseAmount t = Inr c"
  using assms by (simp add: ParseAmount_def Rat_SetString_def)

lemma whole_amount:
  assumes "0 \<le> q" and "in_int64 (q * 100)" and "filter (\<lambda>x. x \<noteq> CHR '','') (trim_space t) = digits 10 q"
  shows "ParseAmount t = Inr (q * 100)"
proof (rule ParseAmount_float [OF assms(3)])
  have d: "list_all is_digit (digits 10 q)" by (rule digits_chars [OF assms(1)])
  then show "CHR ''/'' \<notin> set (digits 10 q)" using not_amount_char by (auto simp: list_all_iff)
  obtain n where n: "0 < n" "nat_scan True (digits 10 q) = Some (q, 10, n, [])" using nat_scan_whole [OF assms(1)] by blast
  have "scan_sign (digits 10 q) = (False, digits 10 q)"
    using d by (cases "digits 10 q") (auto simp: scan_sign_def char_class_defs)
  with n show "rat_float (digits 10 q) = Some (q, 1)"
    by (simp add: rat_float_def scan_exponent_def scale_rat_def)
qed (use assms(2) in simp_all)

lemma cents_amount:
  assumes "0 \<le> c" and "in_int64 c" and "filter (\<lambda>x. x \<noteq> CHR '','') (trim_space t) = FormatCents c"
  shows "ParseAmount t = Inr c"
proof (rule ParseAmount_float [OF assms(3)])
  note plain = FormatCents_plain [OF assms(1)]
  show "FormatCents c \<noteq> []" by (rule plain(4))
  show "CHR ''/'' \<notin> set (FormatCents c)" using plain(1) not_amount_char by (auto simp: list_all_iff)
  show "rat_float (FormatCents c) = Some (if c = 0 then 0 else c, if c = 0 then 1 else 100)"
    using plain(3) nat_scan_amount [OF assms(1)]
    by (simp add: rat_float_def scan_exponent_def scale_rat_def)
qed (use assms(2) in simp_all)

text \<open>Grouping only adds commas, and none at the ends.\<close>

lemma ungroup: "filter (\<lambda>x. x \<noteq> CHR '','') (group_thousands b s) = filter (\<lambda>x. x \<noteq> CHR '','') s"
  by (induction s arbitrary: b) auto

lemma group_ends:
  "s \<noteq> [] \<Longrightarrow> hd (group_thousands True s) = hd s \<and> last (group_thousands b s) = last s \<and> group_thousands b s \<noteq> []"
proof (induction s arbitrary: b)
  case (Cons c s)
  then show ?case by (cases "s = []") (auto simp: last_ConsR)
qed simp

lemma FormatKES_text:
  assumes "0 \<le> c"
  shows "filter (\<lambda>x. x \<noteq> CHR '','') (trim_space (FormatKES c)) =
    (if c mod 100 = 0 then digits 10 (c div 100) else FormatCents c)"
proof -
  have np: "\<not> c < 0" "\<not> c div 100 < 0" "\<not> c mod 100 < 0" using assms by (simp_all add: pos_imp_zdiv_neg_iff)
  have q: "list_all is_digit (digits 10 (c div 100))" using assms by (intro digits_chars) simp
  have d: "is_digit (digit_char (c mod 100 div 10))" "is_digit (digit_char (c mod 10))"
    by (simp_all add: digit_char_facts)
  have kes: "FormatKES c = group_thousands True (digits 10 (c div 100)) @ (if c mod 100 = 0 then []
      else [CHR ''.'', digit_char (c mod 100 div 10), digit_char (c mod 10)])"
    using np assms zero_pad_two [of "c mod 100"]
    by (simp add: FormatKES_def itoa_def quo_nonneg rem_nonneg Let_def mod_mod_cancel [of 10 100 c])
  note ends = group_ends [OF digits_not_Nil, of 10 "c div 100" True]
  have "is_digit (hd (digits 10 (c div 100)))" "is_digit (last (digits 10 (c div 100)))"
    using q by (cases "digits 10 (c div 100)"; simp add: list_all_iff)+
  then have "trim_space (FormatKES c) = FormatKES c"
    using ends d by (intro trim_space_solid) (simp_all add: kes solid_alnum hd_append)
  moreover have "filter (\<lambda>x. x \<noteq> CHR '','') (digits 10 (c div 100)) = digits 10 (c div 100)"
    using q not_amount_char by (auto simp: filter_id_conv list_all_iff)
  moreover have "digit_char (c mod 100 div 10) \<noteq> CHR '',''" "digit_char (c mod 10) \<noteq> CHR '',''"
    using d not_amount_char by auto
  ultimately show ?thesis by (simp add: kes ungroup FormatCents_nonneg [OF assms])
qed



subsection \<open>Confirmations\<close>

lemma ToC2BInput_fields [simp]:
  "c2b_Kind (ToC2BInput p raw) \<in> set webhook_kinds" "c2b_TransID (ToC2BInput p raw) = cb_TransID p"
  "c2b_ShortCode (ToC2BInput p raw) = cb_BusinessShortCode p" "c2b_Raw (ToC2BInput p raw) = raw"
  by (simp_all add: ToC2BInput_def webhook_kinds_def Let_def)

definition stale :: "Webhooks \<Rightarrow> C2BPayload \<Rightarrow> string \<Rightarrow> bool" where
  "stale h p raw \<longleftrightarrow> c2b_PaidAt (ToC2BInput p raw) \<noteq> 0 \<and>
     24 * hour < wh_now h - c2b_PaidAt (ToC2BInput p raw)"

lemma confirmation_valid:
  assumes "Option.bind (wh_J h raw) unmarshal_C2B = Some p" and "Validate p = None"
  shows "confirmation h (Some raw) = (if stale h p raw then ret (JSON 200 Accepted)
    else tbind (attempt (IngestC2B (wh_Keys h) (wh_ledger_now h) (ToC2BInput p raw))) (\<lambda>_. ret (JSON 200 Accepted)))"
  using assms by (simp add: confirmation_def stale_def Let_def)


definition sample_raw :: string where "sample_raw = ''{...}''"

definition text_member :: "string \<Rightarrow> string \<Rightarrow> string \<times> json" where
  "text_member k v = (k, JStr v v)"

definition sample_json :: json where
  "sample_json = JObj sample_raw [text_member ''TransactionType'' ''Buy Goods'',
     text_member ''TransID'' ''SLT1ABC2D3'', text_member ''TransTime'' ''20241231103000'',
     text_member ''TransAmount'' ''116.00'', text_member ''BusinessShortCode'' ''174379'',
     (''OrgAccountBalance'', JNull), text_member ''FirstName'' ''Asha'']"

definition sample_J :: "string \<Rightarrow> json option" where
  "sample_J raw = (if raw = sample_raw then Some sample_json else None)"

definition sample_payload :: C2BPayload where
  "sample_payload = no_payload\<lparr>cb_TransactionType := ''Buy Goods'', cb_TransID := ''SLT1ABC2D3'',
     cb_TransTime := ''20241231103000'', cb_TransAmount := ''116.00'',
     cb_BusinessShortCode := ''174379'', cb_FirstName := ''Asha''\<rparr>"

definition sample_hooks :: Webhooks where
  "sample_hooks = \<lparr>wh_Token = ''secret'', wh_now = 63871200000 * second,
     wh_ledger_now = 63871200000 * second, wh_Keys = plain_keyring, wh_J = sample_J\<rparr>"

lemma sample_decoded: "Option.bind (sample_J sample_raw) unmarshal_C2B = Some sample_payload"
  by code_simp

lemma sample_valid: "Validate sample_payload = None" "\<not> stale sample_hooks sample_payload sample_raw"
  by code_simp+


subsection \<open>Recovery\<close>

lemma WithIngest_clock:
  "WithIngest (ResolveForC2B inp) (s\<lparr>clock := c\<rparr>) =
     (fst (WithIngest (ResolveForC2B inp) s), s\<lparr>clock := c\<rparr>)"
  by (cases s) (simp add: scope_defs scoped_def ResolveForC2B_def ResolveShortcode_def query_one_apply
      sees_shortcode_def own_def rollback_def split: option.splits)

lemma readonly_resolve: "WithIngest (ResolveForC2B inp) s = (fst (WithIngest (ResolveForC2B inp) s), s)"
  by (cases s) (simp add: scope_defs scoped_def ResolveForC2B_def ResolveShortcode_def query_one_apply
      rollback_def split: option.splits)

lemma reconcile_resolved:
  assumes "we_kind ev = ''c2b_confirmation'' \<or> we_kind ev = ''reversal''"
    and "stored_payload r ev = Some p"
    and "fst (WithIngest (ResolveForC2B (ToC2BInput p (we_payload ev))) s) = Inr sc"
  shows "snd (reconcile_event r ev st s) =
    snd (ProcessStoredC2B (rc_Keys r) (rc_now r) (we_id ev) sc (ToC2BInput p (we_payload ev)) s)"
  using assms readonly_resolve [of "ToC2BInput p (we_payload ev)" s]
  by (cases "ProcessStoredC2B (rc_Keys r) (rc_now r) (we_id ev) sc (ToC2BInput p (we_payload ev)) s")
    (auto simp: reconcile_event_def Let_def attempt_def tbind_def ret_def split: prod.splits sum.splits)

definition event_row :: "C2BInput \<Rightarrow> db \<Rightarrow> WebhookEvent" where
  "event_row inp s = \<lparr>we_id = next_id s, we_kind = c2b_Kind inp,
     we_external_id = ''mpesa:'' @ c2b_TransID inp, we_payload = c2b_Raw inp,
     we_received_at = clock s, we_processed_at = None, we_error = None\<rparr>"

definition stored_db :: "C2BInput \<Rightarrow> db \<Rightarrow> db" where
  "stored_db inp s = s\<lparr>next_id := Suc (next_id s), webhook_events := webhook_events s @ [event_row inp s]\<rparr>"

lemma resolve_same: "snd (ResolveForC2B inp s) = s"
  by (simp add: ResolveForC2B_def ResolveShortcode_def query_one_apply split: option.splits)

lemma store_pending:
  assumes "WithIngest (store_and_resolve inp) s = (Inr (i, Some sc), s1)"
  shows "i = next_id s" and "s1 = stored_db inp s" and "fst (WithIngest (ResolveForC2B inp) s1) = Inr sc"
proof -
  let ?s = "s\<lparr>scope := ScopeIngest, aborted := False\<rparr>"
  let ?t = "?s\<lparr>next_id := Suc (next_id s), webhook_events := webhook_events s @ [event_row inp s]\<rparr>"
  obtain u where u: "store_and_resolve inp ?s = (Inr (i, Some sc), u)" and "\<not> aborted u"
      and s1: "s1 = u\<lparr>scope := scope s, aborted := aborted s\<rparr>"
    using assms by (auto simp: scope_defs scoped_Inr_iff)
  have *: "i = next_id s \<and> ?t = u \<and> fst (ResolveForC2B inp ?t) = Inr sc"
    using u unfolding store_and_resolve_def attempt_case_Inr
    by (auto simp: InsertWebhookEvent_def stmt_Inr_iff tbind_Inr_iff event_row_def ResolveForC2B_def
        ResolveShortcode_def query_one_apply ret_def raise_def split: if_splits option.splits)
  then show "i = next_id s" by blast
  from * s1 show s1': "s1 = stored_db inp s" by (cases s) (auto simp: stored_db_def event_row_def)
  have "s1\<lparr>scope := ScopeIngest, aborted := False\<rparr> = ?t" unfolding s1' stored_db_def event_row_def by (cases s) simp
  moreover have "ResolveForC2B inp ?t = (Inr sc, ?t)"
    using * resolve_same [of inp ?t] by (metis prod.collapse)
  ultimately show "fst (WithIngest (ResolveForC2B inp) s1) = Inr sc"
    by (simp add: scope_defs scoped_def)
qed



subsection \<open>Where the callbacks fall short\<close>

text \<open>
  The reversal callback does nothing: on its route without a token every request is
  refused with 401, because the group's token check compares an empty token; on the route
  with a token the notice is acknowledged, but no row of the store changes.
\<close>

theorem reversal_route_inert:
  "(\<exists>resp. serve_daraja h ReversalBare body s = (Inr resp, s) \<and> http_status resp = 401) \<and>
   (\<exists>resp. serve_daraja h (ReversalRoute tok) body s = (Inr resp, s))"
proof
  show "\<exists>resp. serve_daraja h ReversalBare body s = (Inr resp, s) \<and> http_status resp = 401"
    by (auto simp: serve_daraja_def requireToken_def ret_def http_status_def)
  show "\<exists>resp. serve_daraja h (ReversalRoute tok) body s = (Inr resp, s)"
    by (auto simp: serve_daraja_def requireToken_def reversal_def reversal_lookup_fails ret_def
        split: option.splits)
qed

text \<open>An object without a member of the payload decodes to the empty payload.\<close>

lemma dec_members_unknown:
  "list_all (\<lambda>(k, _). list_all (\<lambda>(n, _). \<not> equal_fold n k) fs) ms \<Longrightarrow> dec_members fs ms r = Some r"
proof (induction ms)
  case (Cons m ms)
  obtain k j where m: "m = (k, j)" by (cases m)
  with Cons.prems have "find (\<lambda>(n, _). equal_fold n k) fs = None"
    by (auto simp: find_None_iff list_all_iff)
  with Cons m show ?case by simp
qed simp

lemma stk_body_decodes: "unmarshal_C2B (JObj raw [(''Body'', j)]) = Some no_payload"
proof -
  have "list_all (\<lambda>(k, _). list_all (\<lambda>(n, _). \<not> equal_fold n k) C2BPayload_fields) [(''Body'', j)]"
    by (simp add: C2BPayload_fields_def equal_fold_def upper_char_def lower_chars_def upper_chars_def)
  from dec_members_unknown [OF this] show ?thesis by (simp add: unmarshal_C2B_def dec_struct_def)
qed

lemma no_payload_invalid: "Validate no_payload \<noteq> None"
  by (simp add: Validate_def no_payload_def)

text \<open>
  A request-to-pay result that was stored but not processed is given up: its event is
  kept under the kind of a C2B confirmation with the request-to-pay body, which holds no C2B
  field, so the sweep marks the event processed with an error and books no payment.
\<close>

theorem stk_event_given_up:
  assumes "we_kind ev = ''c2b_confirmation''" and "rc_J r (we_payload ev) = Some (JObj raw [(''Body'', j)])"
  shows "reconcile_event r ev st s = (Inr (st\<lparr>st_Seen := st_Seen st + 1, st_Failed := st_Failed st + 1\<rparr>),
    s\<lparr>webhook_events := update_rows (\<lambda>e. we_id e = we_id ev) (\<lambda>e. e\<lparr>we_processed_at := Some (clock s),
      we_error := Some ''payload no longer parses''\<rparr>) (webhook_events s)\<rparr>)"
proof -
  have "stored_payload r ev = None"
    using assms(2) no_payload_invalid by (simp add: stored_payload_def stk_body_decodes)
  then show ?thesis
    using assms(1) by (cases s) (simp add: reconcile_event_def Let_def markError_def ignore_def scope_defs
        scoped_def MarkWebhookProcessed_def update_apply attempt_def tbind_def ret_def)
qed

theorem stk_event_given_up_witness:
  "\<exists>s'. reconcile_event (NewReconciler plain_keyring 0 (\<lambda>_. Some (JObj [] [(''Body'', JNull)])))
      (event_row cash_payment shop_db) no_stats (stored_db cash_payment shop_db) =
     (Inr \<lparr>st_Seen = 1, st_Processed = 0, st_Skipped = 0, st_Failed = 1\<rparr>, s') \<and> payments s' = []"
  using stk_event_given_up [of "event_row cash_payment shop_db"
      "NewReconciler plain_keyring 0 (\<lambda>_. Some (JObj [] [(''Body'', JNull)]))" "[]" JNull no_stats
      "stored_db cash_payment shop_db"]
  by (simp add: event_row_def cash_payment_def shop_payment_def NewReconciler_def no_stats_def
      stored_db_def shop_db_def empty_db_def)

subsection \<open>The pull job\<close>

lemma payment_known_never: "payment_known tid s = (Inr False, s)"
  by (cases s) (simp add: payment_known_def scope_defs scoped_def hidden_payment attempt_def tbind_def ret_def errors_is_def)

lemma pull_one_seen:
  assumes "pt_TransID pt \<noteq> []" and "seen s (pt_TransID pt)"
  shows "pull_one w pt (a, b, c) s = (Inr (a + 1, b + 1, c), s)"
  using assms ingest_duplicate [of "ToC2BInput (pulled_payload pt) (pw_marshal w (pulled_payload pt))" s]
  by (simp add: pull_one_def payment_known_never Let_def pulled_payload_def attempt_def tbind_def ret_def)

text \<open>
  C20. The pull job's check for payments already booked never finds one: it runs without a
  scope, where row-level security hides every payment. What keeps the job from booking a
  payment twice is the stored event: when the transactions Daraja lists are all on record,
  the job changes nothing, and reports each of them as ingested and none as skipped.
\<close>

theorem pull_idempotent:
  assumes "list_all (\<lambda>pt. pt_TransID pt \<noteq> [] \<and> seen s (pt_TransID pt)) pts"
  shows "payment_known tid s = (Inr False, s) \<and>
    pull_all w pts (a, b, c) s = (Inr (a + int (length pts), b + int (length pts), c), s)"
  using assms
proof (induction pts arbitrary: a b)
  case Nil
  then show ?case by (simp add: payment_known_never ret_def)
next
  case (Cons pt pts)
  then show ?case by (simp add: pull_one_seen tbind_def)
qed

definition sample_pull :: PullTransaction where
  "sample_pull = \<lparr>pt_TransactionType = [], pt_TransID = ''TX1'', pt_TransTime = [], pt_TransAmount = [],
     pt_BusinessShortCode = [], pt_BillRefNumber = [], pt_InvoiceNumber = [], pt_OrgAccountBalance = [],
     pt_ThirdPartyTransID = [], pt_MSISDN = [], pt_FirstName = [], pt_MiddleName = [], pt_LastName = []\<rparr>"

theorem pull_idempotent_witness:
  "pull_all \<lparr>pw_pull = None, pw_Keys = plain_keyring, pw_now = 0, pw_marshal = (\<lambda>_. [])\<rparr>
     [sample_pull, sample_pull] (0, 0, 0) (stored_db cash_payment shop_db) =
   (Inr (2, 2, 0), stored_db cash_payment shop_db)"
  using pull_idempotent [of "stored_db cash_payment shop_db" "[sample_pull, sample_pull]" "[]"
      "\<lparr>pw_pull = None, pw_Keys = plain_keyring, pw_now = 0, pw_marshal = (\<lambda>_. [])\<rparr>" 0 0 0]
  by (simp add: sample_pull_def seen_def stored_db_def event_row_def cash_payment_def shop_payment_def)

end
