(* ===== verification/NotifyProps.thy ===== *)
theory NotifyProps
  imports Notify Billing Samples
begin

text \<open>
  Receipts by message are sent once, to the payer, with the text of their template; where a
  crash or a delivery report leaves them; and what an organisation owes above its plan.
\<close>

subsection \<open>Receipts\<close>

lemma find_SomeD: "find P xs = Some x \<Longrightarrow> x \<in> set xs \<and> P x"
  by (induction xs) (auto split: if_splits)

lemma payer_number_same: "payer_number iv s = (r, s') \<Longrightarrow> s' = s"
  by (auto simp: payer_number_def GetPayment_def run_defs split: option.splits if_splits)

lemma recipient_same: "recipient iv s = (r, s') \<Longrightarrow> s' = s"
  unfolding recipient_def tbind_def [of "payer_number iv"]
  by (auto simp: GetSale_def FindCustomerByID_def run_defs dest!: payer_number_same
      split: option.splits if_splits prod.splits sum.splits)

lemma raise_or_ret:
  "(case d of Inl e \<Rightarrow> raise (f e) | Inr x \<Rightarrow> ret x) s = (Inr y, s') \<longleftrightarrow> d = Inr y \<and> s' = s"
  by (cases d) auto

lemma reads_same:
  "ListNotificationsForInvoice i s = (Inr p, s1) \<Longrightarrow> s1 = s" "GetInvoice i s = (Inr iv, s1) \<Longrightarrow> s1 = s"
  "GetOrg i s = (Inr og, s1) \<Longrightarrow> s1 = s"
  by (auto simp: ListNotificationsForInvoice_def GetInvoice_def GetOrg_def query_Inr_iff query_one_Inr_iff)

definition sent_before :: "db \<Rightarrow> uuid \<Rightarrow> uuid \<Rightarrow> string \<Rightarrow> bool" where
  "sent_before s oid iid template \<longleftrightarrow> (\<exists>p \<in> set (notifications s). nt_org_id p = oid \<and>
     nt_invoice_id p = Some iid \<and> nt_template p = template \<and> nt_status p \<noteq> ''failed'')"

lemma prepare_existing:
  assumes "sent_before s oid iid template" and "scope s = ScopeOrg oid" and "\<not> aborted s"
  shows "\<exists>m. prepare_receipt svc oid iid template s = (Inr (Inl m), s) \<and> m \<in> set (notifications s) \<and>
    nt_invoice_id m = Some iid \<and> nt_template m = template"
proof -
  let ?prior = "sort_key nt_created_at
     (filter (\<lambda>n. reads_notification s n \<and> nt_invoice_id n = Some iid) (notifications s))"
  have "\<exists>p \<in> set ?prior. nt_template p = template \<and> nt_status p \<noteq> ''failed''"
    using assms(1,2) by (auto simp: sent_before_def reads_notification_def own_def)
  then obtain m where m: "find (\<lambda>p. nt_template p = template \<and> nt_status p \<noteq> ''failed'') ?prior = Some m"
    by (cases "find (\<lambda>p. nt_template p = template \<and> nt_status p \<noteq> ''failed'') ?prior") (auto simp: find_None_iff)
  from find_SomeD [OF m] have "m \<in> set ?prior" "nt_template m = template" by simp_all
  with m assms(3) show ?thesis
    by (auto simp: prepare_receipt_def ListNotificationsForInvoice_def query_apply)
qed

lemma send_existing:
  assumes "sent_before s oid iid template"
  shows "\<exists>m. SendReceipt svc now oid iid template s = (Inr (Existing m), s) \<and> m \<in> set (notifications s) \<and>
    nt_invoice_id m = Some iid \<and> nt_template m = template"
proof -
  let ?s = "s\<lparr>scope := ScopeOrg oid, aborted := False\<rparr>"
  have "sent_before ?s oid iid template" using assms by (simp add: sent_before_def)
  from prepare_existing [OF this, of svc] obtain m where
    "prepare_receipt svc oid iid template ?s = (Inr (Inl m), ?s)" "m \<in> set (notifications s)"
    "nt_invoice_id m = Some iid" "nt_template m = template" by auto
  then show ?thesis by (cases s) (simp add: SendReceipt_def scope_defs scoped_def)
qed

lemma prepare_new:
  assumes "prepare_receipt svc oid iid template s = (Inr (Inr (n, to', body)), s')"
  obtains iv org enc where "GetInvoice iid s = (Inr iv, s)" "GetOrg (inv_org_id iv) s = (Inr org, s)"
    "recipient iv s = (Inr (enc, nt_to_msisdn_hash n), s)" "DecryptString (ns_Keys svc) enc = Inr to'"
    "Render template (org_locale org) (receipt_vars svc org iv) = Inr body"
    "template = TemplateReceiptPending \<longrightarrow> stillPending (inv_state iv)"
    "nt_id n = next_id s" "nt_org_id n = oid" "nt_invoice_id n = Some iid" "nt_channel n = ''sms''"
    "nt_to_msisdn_enc n = enc" "nt_template n = template" "nt_body n = body" "nt_status n = ''queued''"
    "s' = s\<lparr>next_id := Suc (next_id s), notifications := notifications s @ [n]\<rparr>"
proof -
  from assms obtain prior sa iv sb org sc where l: "ListNotificationsForInvoice iid s = (Inr prior, sa)"
      and iv': "GetInvoice iid sa = (Inr iv, sb)" and org': "GetOrg (inv_org_id iv) sb = (Inr org, sc)"
      and pend: "template = TemplateReceiptPending \<longrightarrow> stillPending (inv_state iv)"
      and fin': "compose_receipt svc oid iid template iv org sc = (Inr (n, to', body), s')"
    unfolding prepare_receipt_def by (auto simp: tbind_Inr_iff split: option.splits if_splits)
  note iv = iv' [unfolded reads_same(1) [OF l] reads_same(2) [OF iv']]
    and org = org' [unfolded reads_same(2) [OF iv'] reads_same(1) [OF l] reads_same(3) [OF org']]
    and fin = fin' [unfolded reads_same(3) [OF org'] reads_same(2) [OF iv'] reads_same(1) [OF l]]
  from fin obtain enc h s1 where r1: "recipient iv s = (Inr (enc, h), s1)"
      and dec: "DecryptString (ns_Keys svc) enc = Inr to'"
      and ren: "Render template (org_locale org) (receipt_vars svc org iv) = Inr body"
      and "CreateNotification oid (Some iid) ''sms'' enc h template (org_locale org) body s1 = (Inr n, s')"
    unfolding compose_receipt_def by (auto simp: tbind_Inr_iff raise_or_ret)
  with recipient_same [OF r1] have rec: "recipient iv s = (Inr (enc, h), s)"
    and ins: "CreateNotification oid (Some iid) ''sms'' enc h template (org_locale org) body s = (Inr n, s')"
    by simp_all
  from ins have "nt_id n = next_id s \<and> nt_org_id n = oid \<and> nt_invoice_id n = Some iid \<and> nt_channel n = ''sms'' \<and>
    nt_to_msisdn_enc n = enc \<and> nt_to_msisdn_hash n = h \<and> nt_template n = template \<and> nt_body n = body \<and>
    nt_status n = ''queued'' \<and> s' = s\<lparr>next_id := Suc (next_id s), notifications := notifications s @ [n]\<rparr>"
    by (auto simp: CreateNotification_def insert_notification_def stmt_Inr_iff Let_def split: if_splits)
  with iv org pend rec dec ren that show thesis by blast
qed

definition sent_row :: "time \<Rightarrow> SendResult \<Rightarrow> Notification \<Rightarrow> Notification" where
  "sent_row now r n = n\<lparr>nt_status := ''sent'', nt_message_id := Some (snd_MessageID r),
     nt_cost_cents := snd_CostCents r, nt_sent_at := Some now\<rparr>"


definition number_enc :: bytes where
  "number_enc = (case fst (EncryptString plain_keyring ''254712345678'' empty_db) of Inr b \<Rightarrow> b | Inl _ \<Rightarrow> [])"

text \<open>The shop with one customer, a sale to that customer and its invoice.\<close>

definition receipt_db :: db where
  "receipt_db = shop_db\<lparr>
     customers := [\<lparr>cust_id = 4, cust_org_id = 1, cust_name = ''Asha'', cust_msisdn_enc = number_enc,
       cust_msisdn_hash = ''h'', cust_kra_pin_enc = [], cust_kra_pin_hash = [], cust_created_at = 0\<rparr>],
     sales := [\<lparr>sale_id = 5, sale_org_id = 1, sale_ref = ''S-1'', sale_kind = ''cash'', sale_status = ''paid'',
       sale_customer_id = Some 4, sale_subtotal_cents = 10000, sale_tax_cents = 1600, sale_total_cents = 11600,
       sale_client_ref = None, sale_created_by = None, sale_paid_at = Some 0, sale_buyer_name = [], sale_created_at = 0\<rparr>],
     invoices := [new_invoice 6 0 \<lparr>iv_OrgID = 1, iv_SaleID = 5, iv_PaymentID = None, iv_Kind = ''INVOICE'',
       iv_ParentInvoiceID = None, iv_State = StateQueued, iv_BuyerPinEnc = [], iv_BuyerPinHash = [],
       iv_BuyerName = [], iv_ReceiptCode = ''ABCDEFGH'', iv_SubtotalCents = 10000, iv_TaxCents = 1600,
       iv_TotalCents = 11600, iv_IssuedAt = 0\<rparr>]\<rparr>"

definition ok_service :: NotifyService where
  "ok_service = notify_New plain_keyring (\<lambda>to' body. Inr \<lparr>snd_MessageID = to', snd_CostCents = 80\<rparr>) ''https://c.ke/''"


text \<open>
  A receipt whose sending was interrupted is never sent: when the process stops between
  recording the message and handing it to the gateway, the recorded row, still queued, makes
  every later attempt of the job end as if the receipt had gone out.
\<close>

theorem interrupted_receipt_lost:
  assumes "WithOrg oid (prepare_receipt svc oid iid template) s = (Inr (Inr (n, to', body)), s')"
  shows "nt_status n = ''queued'' \<and> n \<in> set (notifications s') \<and>
    (\<forall>svc' now'. Work svc' now' oid iid template s' = (Inr JobDone, s'))"
proof -
  let ?s = "s\<lparr>scope := ScopeOrg oid, aborted := False\<rparr>"
  obtain u where p: "prepare_receipt svc oid iid template ?s = (Inr (Inr (n, to', body)), u)"
      and s': "s' = u\<lparr>scope := scope s, aborted := aborted s\<rparr>"
    using assms by (auto simp: scope_defs scoped_Inr_iff)
  have n: "nt_status n = ''queued'' \<and> nt_org_id n = oid \<and> nt_invoice_id n = Some iid \<and> nt_template n = template \<and>
      n \<in> set (notifications s')"
    by (rule prepare_new [OF p]) (simp add: s')
  then have "sent_before s' oid iid template" by (auto simp: sent_before_def)
  then have "Work svc' now' oid iid template s' = (Inr JobDone, s')" for svc' now'
    using send_existing [of s' oid iid template svc' now'] by (auto simp: Work_def)
  with n show ?thesis by blast
qed

theorem interrupted_receipt_lost_witness:
  "\<exists>s'. fst (WithOrg 1 (prepare_receipt ok_service 1 6 TemplateReceiptPending) receipt_db) \<noteq> Inl ErrNoRows \<and>
     length (notifications s') = 1 \<and> Work ok_service 0 1 6 TemplateReceiptPending s' = (Inr JobDone, s')"
proof -
  let ?p = "WithOrg 1 (prepare_receipt ok_service 1 6 TemplateReceiptPending) receipt_db"
  have e: "(case ?p of (Inr (Inr x), s') \<Rightarrow> length (notifications s') | _ \<Rightarrow> 0) = 1" by code_simp
  then obtain n to' body s' where run: "?p = (Inr (Inr (n, to', body)), s')"
    by (cases ?p) (auto split: sum.splits)
  with interrupted_receipt_lost [OF run] e show ?thesis by (intro exI [of _ s']) auto
qed

subsection \<open>Delivery reports\<close>

text \<open>
  A delivery report changes nothing: the update runs in the ingest scope, which may write
  notifications but not read them, so no row matches and no message is ever marked delivered;
  the gateway is answered 200 all the same.
\<close>

theorem delivery_report_ignored:
  "\<exists>resp. delivery form s = (Inr resp, s) \<and>
    (\<forall>i status. form = Some (i, status) \<longrightarrow> i \<noteq> [] \<longrightarrow> http_status resp = 200)"
proof -
  have "\<not> writes_notification (s\<lparr>scope := ScopeIngest, aborted := False\<rparr>) n" for n
    by (simp add: writes_notification_def reads_notification_def own_def)
  then have "WithIngest (MarkNotificationDelivered i) s = (Inr (), s)" for i
    by (cases s) (simp add: scope_defs scoped_def MarkNotificationDelivered_def update_notification_def
        update_apply update_rows_id)
  then show ?thesis
    by (auto simp: delivery_def ignore_def http_status_def split: option.splits)
qed

theorem delivery_report_ignored_witness:
  "delivery (Some (''ATXid_1'', ''Success'')) receipt_db = (Inr (NoContent 200), receipt_db)"
  using delivery_report_ignored [of "Some (''ATXid_1'', ''Success'')" receipt_db]
  by (auto simp: delivery_def ignore_def tbind_def attempt_def split: sum.splits prod.splits if_splits)

subsection \<open>Entitlement\<close>

definition plan_of :: "db \<Rightarrow> uuid \<Rightarrow> (Subscription \<times> Plan) option" where
  "plan_of s oid = Option.bind (row_by sub_org_id oid (subscriptions s)) (\<lambda>r.
     map_option (\<lambda>p. (r, p)) (row_by plan_code (sub_plan_code r) (plans s)))"

definition usage_of :: "db \<Rightarrow> uuid \<Rightarrow> string \<Rightarrow> UsageCounter option" where
  "usage_of s oid period = find (\<lambda>u. uc_org_id u = oid \<and> uc_period u = period) (usage_counters s)"

lemma no_rows_query:
  "\<not> aborted s \<Longrightarrow> no_rows_to_none (query_one q) s = (Inr (q s), s)"
  by (cases "q s") (simp_all add: no_rows_to_none_def query_one_apply errors_is_def)

lemma entitlement_value:
  "get_entitlement now oid s = (Inr (usage_part
     (case usage_of s oid (format_month now) of None \<Rightarrow> 0 | Some u \<Rightarrow> uc_invoices_acked u)
     (case usage_of s oid (format_month now) of None \<Rightarrow> 0 | Some u \<Rightarrow> uc_sms_sent u)
     (plan_part (format_month now) (plan_of s oid))), s)"
proof -
  let ?s = "s\<lparr>scope := ScopeOrg oid, aborted := False\<rparr>"
  have "find (\<lambda>r. sees_subscription ?s r \<and> sub_org_id r = oid) (subscriptions s) = row_by sub_org_id oid (subscriptions s)"
    unfolding row_by_def by (rule arg_cong [of _ _ "\<lambda>p. find p _"]) (auto simp: sees_subscription_def own_def)
  then have "no_rows_to_none (GetSubscription oid) ?s = (Inr (plan_of s oid), ?s)"
    unfolding GetSubscription_def by (subst no_rows_query) (simp_all add: plan_of_def)
  moreover have "find (\<lambda>u. own ?s (uc_org_id u) \<and> uc_org_id u = oid \<and> uc_period u = p) (usage_counters s) =
      usage_of s oid p" for p
    unfolding usage_of_def by (rule arg_cong [of _ _ "\<lambda>p. find p _"]) (auto simp: own_def)
  then have "no_rows_to_none (GetUsage oid p) ?s = (Inr (usage_of s oid p), ?s)" for p
    unfolding GetUsage_def by (subst no_rows_query) simp_all
  ultimately show ?thesis by (cases s) (simp add: get_entitlement_def scope_defs scoped_def)
qed

text \<open>
  What a month costs above the plan: with a capped plan the invoices above the cap are
  counted and charged at the plan's rate, exactly as long as the product fits 64 bits, and
  nothing is charged up to the cap or without one. An organisation without a subscription
  appears on the free plan, but without that plan's cap, so it is never charged.
\<close>

theorem entitlement_overage:
  assumes "\<And>u. usage_of s oid (format_month now) = Some u \<Longrightarrow> 0 \<le> uc_invoices_acked u \<and> uc_invoices_acked u < 2 ^ 31"
    and "\<And>r p cap. plan_of s oid = Some (r, p) \<Longrightarrow> plan_invoice_cap p = Some cap \<Longrightarrow>
      0 \<le> cap \<and> 0 \<le> plan_overage_cents p \<and> plan_overage_cents p < 2 ^ 32"
  shows "\<exists>e. get_entitlement now oid s = (Inr e, s) \<and>
    (case plan_of s oid of
       None \<Rightarrow> en_PlanCode e = PlanHustler \<and> en_InvoiceCap e = None \<and> en_OverInvoices e = 0 \<and> en_OverageCents e = 0
     | Some (r, p) \<Rightarrow> en_PlanCode e = sub_plan_code r \<and> en_InvoiceCap e = plan_invoice_cap p \<and>
         (case plan_invoice_cap p of
            None \<Rightarrow> en_OverInvoices e = 0 \<and> en_OverageCents e = 0
          | Some cap \<Rightarrow> en_OverInvoices e = max 0 (en_InvoicesAcked e - cap) \<and>
              en_OverageCents e = plan_overage_cents p * en_OverInvoices e))"
proof -
  let ?acked = "case usage_of s oid (format_month now) of None \<Rightarrow> 0 | Some u \<Rightarrow> uc_invoices_acked u"
  have a: "0 \<le> ?acked" "?acked < 2 ^ 31" using assms(1) by (auto split: option.splits)
  show ?thesis
  proof (cases "plan_of s oid")
    case None
    then show ?thesis unfolding entitlement_value by (simp add: plan_part_def usage_part_def Let_def)
  next
    case (Some rp)
    obtain r p where rp: "rp = (r, p)" by (cases rp)
    show ?thesis
    proof (cases "plan_invoice_cap p")
      case None
      with Some rp show ?thesis unfolding entitlement_value by (simp add: plan_part_def usage_part_def Let_def)
    next
      case c: (Some cap)
      from assms(2) [OF Some [unfolded rp] c] have cap: "0 \<le> cap" "0 \<le> plan_overage_cents p" "plan_overage_cents p < 2 ^ 32"
        by auto
      have w: "wrap32 (?acked - cap) = ?acked - cap" if "cap < ?acked"
        using that a cap by (simp add: wrap32_def)
      have m: "wrap64 (plan_overage_cents p * (?acked - cap)) = plan_overage_cents p * (?acked - cap)" if "cap < ?acked"
      proof (rule wrap64_id)
        have "plan_overage_cents p * (?acked - cap) \<le> 2 ^ 32 * (2 ^ 31 - 1)"
          using that a cap by (intro mult_mono) auto
        moreover have "0 \<le> plan_overage_cents p * (?acked - cap)" using that cap by (intro mult_nonneg_nonneg) auto
        ultimately show "in_int64 (plan_overage_cents p * (?acked - cap))"
          by (simp add: in_int64_def)
      qed
      show ?thesis
        using Some rp c w m unfolding entitlement_value
        by (auto simp: plan_part_def usage_part_def Let_def max_def)
    qed
  qed
qed

definition duka_db :: db where
  "duka_db = shop_db\<lparr>
     plans := [\<lparr>plan_code = ''duka'', plan_name = ''Duka'', plan_price_cents = 150000,
       plan_invoice_cap = Some 500, plan_overage_cents = 500, plan_features = []\<rparr>],
     subscriptions := [\<lparr>sub_org_id = 1, sub_plan_code = ''duka'', sub_status = ''active'',
       sub_period_start = 0, sub_period_end = None\<rparr>],
     usage_counters := [\<lparr>uc_org_id = 1, uc_period = ''0001-01'', uc_invoices_acked = 512,
       uc_sms_sent = 3, uc_whatsapp_sent = 0\<rparr>]\<rparr>"

theorem entitlement_overage_witness:
  "\<exists>e. get_entitlement 0 1 duka_db = (Inr e, duka_db) \<and> en_OverInvoices e = 12 \<and> en_OverageCents e = 6000"
proof -
  have m: "format_month 0 = ''0001-01''" by code_simp
  have u: "usage_of duka_db 1 (format_month 0) = Some \<lparr>uc_org_id = 1, uc_period = ''0001-01'',
      uc_invoices_acked = 512, uc_sms_sent = 3, uc_whatsapp_sent = 0\<rparr>"
    unfolding m by (simp add: usage_of_def duka_db_def)
  have p: "plan_of duka_db 1 = Some (hd (subscriptions duka_db), hd (plans duka_db))"
    by (simp add: plan_of_def duka_db_def)
  have h: "hd (plans duka_db) = \<lparr>plan_code = ''duka'', plan_name = ''Duka'', plan_price_cents = 150000,
       plan_invoice_cap = Some 500, plan_overage_cents = 500, plan_features = []\<rparr>"
    by (simp add: duka_db_def)
  have "\<exists>e. get_entitlement 0 1 duka_db = (Inr e, duka_db) \<and>
      en_OverInvoices e = max 0 (en_InvoicesAcked e - 500) \<and> en_OverageCents e = 500 * en_OverInvoices e"
    using entitlement_overage [of duka_db 1 0] u p h by auto
  moreover have "en_InvoicesAcked e = 512" if "get_entitlement 0 1 duka_db = (Inr e, duka_db)" for e
    using that unfolding entitlement_value u p h by (auto simp: usage_part_def Let_def split: option.splits)
  ultimately show ?thesis by fastforce
qed

end
