(* ===== verification/OperatorProps.thy ===== *)
theory OperatorProps
  imports Operators DarajaProps NotifyProps
begin

text \<open>
  The back office: what an operator's requeue, forced acknowledgement, replay, broadcast and
  change of an organisation do to the store.
\<close>

subsection \<open>Invoices\<close>

lemma affected_Inr: "affected_or msg m s = (Inr x, s') \<longleftrightarrow> (\<exists>r. m s = (Inr r, s'))"
  by (auto simp: affected_or_def tbind_def attempt_def ret_def raise_def split: prod.splits sum.splits if_splits)

lemma admin_update_Inr:
  assumes "WithAdmin (affected_or msg (update_invoice p f)) s = (Inr x, s')"
  obtains iv where "iv \<in> set (invoices s)" "p iv"
    "s' = s\<lparr>invoices := update_rows p (stamped f (clock s)) (invoices s)\<rparr>"
proof -
  let ?s = "s\<lparr>scope := ScopeAdmin, aborted := False\<rparr>"
  obtain r u where u: "update_invoice p f ?s = (Inr r, u)" and s': "s' = u\<lparr>scope := scope s, aborted := aborted s\<rparr>"
    using assms by (auto simp: scope_defs scoped_Inr_iff affected_Inr)
  have w: "writes_invoice ?s x" for x by (simp add: writes_invoice_def)
  from update_invoice_Inr [OF u] obtain iv where "iv \<in> set (invoices s)" "p iv" and "u = updated_db p f ?s"
    by auto
  with s' w that show thesis by (cases s) (simp add: updated_db_def)
qed

text \<open>
  Requeueing a dead letter does not resubmit it: the invoice, which must have failed or
  await review, is set QUEUED with its attempts and last error as they were, and nothing else
  of the store changes; in particular no submission job is created, and no audit entry.
\<close>

theorem requeue_without_job:
  assumes "RequeueInvoice i s = (Inr (), s')"
  shows "(\<exists>iv \<in> set (invoices s). inv_id iv = i \<and>
      inv_state iv \<in> {StateFailedTerminal, StateNeedsReview, StateFailedRetryable}) \<and>
    jobs s' = jobs s \<and> audit_log s' = audit_log s \<and>
    s' = s\<lparr>invoices := update_rows (\<lambda>r. inv_id r = i \<and>
        inv_state r \<in> {StateFailedTerminal, StateNeedsReview, StateFailedRetryable})
      (\<lambda>r. r\<lparr>inv_state := StateQueued, inv_next_attempt_at := Some (clock s), inv_updated_at := clock s\<rparr>) (invoices s)\<rparr>"
  using assms unfolding RequeueInvoice_def
  by (rule admin_update_Inr) (auto simp: stamped_def [abs_def])

text \<open>
  A forced acknowledgement accepts any invoice: whatever its state, also one KRA has
  acknowledged already, the operator's number and signature replace what is there, the time
  of a first acknowledgement is kept, the amounts are untouched, and neither an audit entry,
  a submission record, a usage count nor a message to the buyer is made.
\<close>

theorem force_acked_any:
  assumes "inv_id iv = i" and "iv \<in> set (invoices s)"
    and "\<forall>r \<in> set (invoices s). inv_id r = i \<longrightarrow> r = iv"
  shows "ForceAcked i no sig s = (Inr (), s\<lparr>invoices := update_rows (\<lambda>r. inv_id r = i)
    (\<lambda>r. r\<lparr>inv_state := StateAcked, inv_kra_invoice_no := Some no, inv_kra_signature := Some sig,
       inv_acked_at := (case inv_acked_at iv of Some t \<Rightarrow> Some t | None \<Rightarrow> Some (clock s)),
       inv_updated_at := clock s\<rparr>) (invoices s)\<rparr>)"
proof -
  let ?s = "s\<lparr>scope := ScopeAdmin, aborted := False\<rparr>"
  let ?f = "\<lambda>now r. r\<lparr>inv_state := StateAcked, inv_kra_invoice_no := Some no, inv_kra_signature := Some sig,
    inv_acked_at := (case inv_acked_at r of Some t \<Rightarrow> Some t | None \<Rightarrow> Some now)\<rparr>"
  have w: "writes_invoice ?s x" for x by (simp add: writes_invoice_def)
  have v: "state_valid StateAcked" by code_simp
  obtain q where q: "find (\<lambda>r. inv_id r = i) (invoices s) = Some q"
    using assms(1,2) by (cases "find (\<lambda>r. inv_id r = i) (invoices s)") (auto simp: find_None_iff)
  have u: "update_invoice (\<lambda>r. inv_id r = i) ?f ?s = (Inr (stamped ?f (clock s) q),
      ?s\<lparr>invoices := update_rows (\<lambda>r. inv_id r = i) (stamped ?f (clock s)) (invoices s)\<rparr>)"
    using q by (auto simp: update_invoice_def w v stmt_def Let_def list_ex_iff amounts_def stamped_def [abs_def] cong: option.case_cong)
  have "update_rows (\<lambda>r. inv_id r = i) (stamped ?f (clock s)) (invoices s) =
    update_rows (\<lambda>r. inv_id r = i) (\<lambda>r. r\<lparr>inv_state := StateAcked, inv_kra_invoice_no := Some no,
      inv_kra_signature := Some sig, inv_acked_at := (case inv_acked_at iv of Some t \<Rightarrow> Some t | None \<Rightarrow> Some (clock s)),
      inv_updated_at := clock s\<rparr>) (invoices s)"
    using assms(3) by (auto simp: update_rows_def stamped_def)
  with u show ?thesis
    by (cases s) (simp add: ForceAcked_def affected_or_def scope_defs scoped_def)
qed

definition stuck_invoice :: Invoice where
  "stuck_invoice = (hd (invoices receipt_db))\<lparr>inv_state := StateFailedTerminal, inv_attempt := 8\<rparr>"

definition stuck_db :: db where
  "stuck_db = receipt_db\<lparr>invoices := [stuck_invoice]\<rparr>"

theorem requeue_without_job_witness:
  "\<exists>s'. RequeueInvoice 6 stuck_db = (Inr (), s') \<and> map inv_state (invoices s') = [StateQueued] \<and>
     map inv_attempt (invoices s') = [8] \<and> jobs s' = []"
proof -
  have "fst (RequeueInvoice 6 stuck_db) = Inr ()" by code_simp
  then obtain s' where run: "RequeueInvoice 6 stuck_db = (Inr (), s')"
    by (cases "RequeueInvoice 6 stuck_db") simp
  have "invoices stuck_db = [stuck_invoice]" "jobs stuck_db = []"
    by (simp_all add: stuck_db_def receipt_db_def shop_db_def empty_db_def)
  moreover have "inv_id stuck_invoice = 6" "inv_state stuck_invoice = StateFailedTerminal" "inv_attempt stuck_invoice = 8"
    by (simp_all add: stuck_invoice_def receipt_db_def new_invoice_def)
  ultimately show ?thesis using requeue_without_job [OF run] run by auto
qed

theorem force_acked_any_witness:
  "\<exists>s'. ForceAcked 6 ''N1'' ''S1'' stuck_db = (Inr (), s') \<and> map inv_state (invoices s') = [StateAcked] \<and>
     map inv_kra_invoice_no (invoices s') = [Some ''N1''] \<and> audit_log s' = audit_log stuck_db"
  using force_acked_any [of stuck_invoice 6 stuck_db "''N1''" "''S1''"]
  by (simp add: stuck_db_def stuck_invoice_def receipt_db_def new_invoice_def)

subsection \<open>Replay\<close>

text \<open>
  Replaying a confirmation erases its failure without repairing it: the ingestion sees the
  transaction id of the event being replayed and answers that it is a duplicate; no payment
  is booked, but the event is marked processed and its error is cleared, so that the sweep
  over unprocessed events will never take it up again.
\<close>

theorem replay_erases_failure:
  assumes "row_by we_id i (webhook_events s) = Some ev" and "we_kind ev = ''c2b_confirmation''"
    and "we_payload ev \<noteq> []" and "Option.bind (wh_J h (we_payload ev)) unmarshal_C2B = Some p"
    and "we_external_id ev = ''mpesa:'' @ cb_TransID p"
  shows "ReplayWebhook (Some h) i s = (Inr (ReplayC2B duplicate_result),
    s\<lparr>webhook_events := update_rows (\<lambda>e. we_id e = i)
      (\<lambda>e. e\<lparr>we_processed_at := Some (clock s), we_error := None\<rparr>) (webhook_events s)\<rparr>)"
proof -
  let ?inp = "ToC2BInput p (we_payload ev)"
  have get: "WithAdmin (query_one (\<lambda>s. row_by we_id i (webhook_events s))) s = (Inr ev, s)"
    using assms(1) by (cases s) (simp add: scope_defs scoped_def query_one_apply)
  have "seen s (c2b_TransID ?inp)"
    using assms(5) row_by_Some [OF assms(1)] by (auto simp: seen_def intro!: image_eqI [of _ _ ev])
  then have dup: "IngestC2B (wh_Keys h) (wh_ledger_now h) ?inp s = (Inr duplicate_result, s)"
    by (intro ingest_duplicate) simp_all
  have mark: "WithAdmin (MarkWebhookProcessed i None) s = (Inr (), s\<lparr>webhook_events := update_rows (\<lambda>e. we_id e = i)
      (\<lambda>e. e\<lparr>we_processed_at := Some (clock s), we_error := None\<rparr>) (webhook_events s)\<rparr>)"
    by (cases s) (simp add: scope_defs scoped_def MarkWebhookProcessed_def update_apply)
  show ?thesis
    using assms(2-4) get dup mark by (simp add: ReplayWebhook_def replay_ingest_def Let_def ignore_def)
qed

definition failed_event :: WebhookEvent where
  "failed_event = (event_row (ToC2BInput sample_payload sample_raw) shop_db)\<lparr>we_error := Some ''SQLSTATE 23514''\<rparr>"

theorem replay_erases_failure_witness:
  "\<exists>s'. ReplayWebhook (Some sample_hooks) 10 (shop_db\<lparr>webhook_events := [failed_event]\<rparr>) =
      (Inr (ReplayC2B duplicate_result), s') \<and>
     map we_error (webhook_events s') = [None] \<and> payments s' = []"
proof -
  have e: "we_id failed_event = 10" "we_kind failed_event = ''c2b_confirmation''" "we_payload failed_event = sample_raw"
    "we_external_id failed_event = ''mpesa:'' @ cb_TransID sample_payload"
    by (simp_all add: failed_event_def event_row_def shop_db_def ToC2BInput_def IsReversal_def Let_def)
      (code_simp)
  have "sample_raw \<noteq> []" "wh_J sample_hooks = sample_J" by (simp_all add: sample_raw_def sample_hooks_def)
  then show ?thesis
    using replay_erases_failure [of 10 "shop_db\<lparr>webhook_events := [failed_event]\<rparr>" failed_event sample_hooks sample_payload]
      e sample_decoded by (simp add: shop_db_def empty_db_def)
qed

subsection \<open>Messages and listings\<close>

text \<open>
  A broadcast by e-mail is lost: it is accepted and reported as sent, but nothing is sent
  (no sender is asked, whatever it would answer) and nothing recorded, because the table of
  messages has no such channel and the refusal of the insertion is dropped.
\<close>

theorem email_broadcast_lost:
  assumes "fst (WithAdmin (owner_number oid) s) = Inr enc" and "trim_space msg \<noteq> []"
  shows "NotifyMerchant k sender oid msg ''email'' s = (Inr (), s)"
proof -
  have own: "WithAdmin (owner_number oid) s = (Inr enc, s)"
    using assms(1) by (cases s) (auto simp: scope_defs scoped_def owner_number_def query_one_apply split: option.splits)
  have "insert_notification (broadcast_row oid ''email'' msg) (s\<lparr>scope := ScopeAdmin, aborted := False\<rparr>) =
      (Inl check_violation, s\<lparr>scope := ScopeAdmin, aborted := True\<rparr>)"
    by (simp add: insert_notification_def stmt_def Let_def broadcast_row_def notification_checks_def check_violation_def)
  then have "WithAdmin (insert_notification (broadcast_row oid ''email'' msg)) s = (Inl check_violation, s)"
    by (cases s) (simp add: scope_defs scoped_def rollback_def)
  with own assms(2) show ?thesis
    by (cases sender) (simp_all add: NotifyMerchant_def Let_def ignore_def check_violation_def)
qed

lemma undefined_query: "WithAdmin (stmt (\<lambda>s. Inl undefined_column)) s = (Inl undefined_column, s)"
  by (cases s) (simp add: scope_defs scoped_def stmt_def rollback_def undefined_column_def)

text \<open>
  The lists of dead webhook events and of feature flags never answer: both queries name
  columns the schema does not have, so every request ends with status 500.
\<close>

theorem operator_lists_fail:
  assumes "ah_S h"
  shows "dead h limit s = (Inr (Fail 500 ''internal'' ''Could not list webhook events''), s) \<and>
    admin_flags h s = (Inr (Fail 500 ''internal'' ''Could not list flags''), s)"
proof -
  have "\<not> is_panic undefined_column" by (simp add: undefined_column_def)
  with assms show ?thesis
    by (simp add: dead_def admin_flags_def with_service_def DeadWebhooks_def Flags_def
        answer_Inl [OF undefined_query] internal_error_def)
qed

theorem email_broadcast_lost_witness:
  "NotifyMerchant plain_keyring (Some (\<lambda>_ _. Inl (PermanentError ''down''))) 1 ''Hello'' ''email''
     (shop_db\<lparr>users := [\<lparr>user_id = 7, user_msisdn_enc = number_enc, user_msisdn_hash = [], user_name = [],
          user_locale = ''en'', user_email = None, user_created_at = 0\<rparr>],
        memberships := [\<lparr>mem_id = 8, mem_org_id = 1, mem_user_id = 7, mem_role = ''owner'', mem_is_default = True,
          mem_created_at = 0\<rparr>]\<rparr>) =
   (Inr (), shop_db\<lparr>users := [\<lparr>user_id = 7, user_msisdn_enc = number_enc, user_msisdn_hash = [], user_name = [],
          user_locale = ''en'', user_email = None, user_created_at = 0\<rparr>],
        memberships := [\<lparr>mem_id = 8, mem_org_id = 1, mem_user_id = 7, mem_role = ''owner'', mem_is_default = True,
          mem_created_at = 0\<rparr>]\<rparr>)"
proof (rule email_broadcast_lost)
  show "trim_space ''Hello'' \<noteq> []" by code_simp
qed (simp add: scope_defs scoped_def owner_number_def query_one_apply shop_db_def empty_db_def)

theorem operator_lists_fail_witness:
  "\<exists>h. dead h ''5'' shop_db = (Inr (Fail 500 ''internal'' ''Could not list webhook events''), shop_db)"
proof -
  let ?h = "\<lparr>ah_S = True, ah_Keys = plain_keyring, ah_Sender = None, ah_Ingest = None, ah_J = sample_J\<rparr>"
  from operator_lists_fail [of ?h "''5''" shop_db] show ?thesis by auto
qed

subsection \<open>Organisations\<close>

lemma set_daraja_Inr:
  "set_daraja_status i st s = (Inr n, s') \<longleftrightarrow> \<not> aborted s \<and> n = length (filter (\<lambda>g. org_id g = i) (orgs s)) \<and>
     (st \<in> set daraja_statuses \<or> n = 0) \<and>
     s' = s\<lparr>orgs := update_rows (\<lambda>g. org_id g = i) (\<lambda>g. g\<lparr>org_daraja_status := st\<rparr>) (orgs s)\<rparr>"
  by (auto simp: set_daraja_status_def stmt_Inr_iff Let_def list_ex_iff filter_empty_conv split: if_splits)

definition tier_rows :: "uuid \<Rightarrow> string \<Rightarrow> time \<Rightarrow> Subscription list \<Rightarrow> Subscription list" where
  "tier_rows i tier now rows = (case row_by sub_org_id i rows of
     Some _ \<Rightarrow> update_rows (\<lambda>x. sub_org_id x = i) (\<lambda>q. q\<lparr>sub_plan_code := tier\<rparr>) rows
   | None \<Rightarrow> rows @ [\<lparr>sub_org_id = i, sub_plan_code = tier, sub_status = ''active'', sub_period_start = now,
       sub_period_end = None\<rparr>])"

lemma set_tier_Inr:
  assumes "set_tier i tier s = (Inr x, s')"
  shows "i \<in> org_id ` set (orgs s) \<and> s' = s\<lparr>subscriptions := tier_rows i tier (clock s) (subscriptions s)\<rparr>"
  using assms
  by (auto simp: set_tier_def tbind_Inr_iff upsert_subscription_def stmt_Inr_iff tier_rows_def
      split: if_splits option.splits)

lemma tier_of_rows: "\<exists>r. row_by sub_org_id i (tier_rows i tier now rows) = Some r \<and> sub_plan_code r = tier"
  by (auto simp: tier_rows_def row_by_update_rows dest: row_by_Some split: option.splits)

definition orgs_after :: "uuid \<Rightarrow> string \<Rightarrow> Org list \<Rightarrow> Org list" where
  "orgs_after i st rows = (if st = [] then rows
     else update_rows (\<lambda>g. org_id g = i) (\<lambda>g. g\<lparr>org_daraja_status := st\<rparr>) rows)"

definition subs_after :: "uuid \<Rightarrow> string \<Rightarrow> time \<Rightarrow> Subscription list \<Rightarrow> Subscription list" where
  "subs_after i tier now rows = (if tier = [] then rows else tier_rows i tier now rows)"

definition update_body :: "uuid \<Rightarrow> string \<Rightarrow> string \<Rightarrow> unit tx" where
  "update_body i st tier = tbind (if st = [] then ret ()
      else tbind (set_daraja_status i st) (\<lambda>n. if n = 0 then raise (ErrorString ''org not found'') else ret ())) (\<lambda>_.
    if tier = [] then ret () else set_tier i tier)"

definition read_org :: "uuid \<Rightarrow> OrgRow tx" where
  "read_org i = WithAdmin (query_one (\<lambda>s. map_option (org_row s) (row_by org_id i (orgs s))))"

lemma UpdateOrg_valid:
  "st = [] \<or> st \<in> set daraja_statuses \<Longrightarrow> tier = [] \<or> tier \<in> set tiers \<Longrightarrow>
   UpdateOrg i st tier = tbind (WithAdmin (update_body i st tier)) (\<lambda>_. read_org i)"
  by (auto simp: UpdateOrg_def update_body_def read_org_def)

lemma orgs_after_row: "row_by org_id i (orgs_after i st rows) = None \<longleftrightarrow> i \<notin> org_id ` set rows"
  by (simp add: orgs_after_def row_by_update_rows flip: row_by_None)

lemma update_body_Inr:
  assumes "WithAdmin (update_body i st tier) s = (Inr x, s1)"
  shows "s1 = s\<lparr>orgs := orgs_after i st (orgs s), subscriptions := subs_after i tier (clock s) (subscriptions s)\<rparr>"
    and "st \<noteq> [] \<or> tier \<noteq> [] \<Longrightarrow> i \<in> org_id ` set (orgs s)"
proof -
  let ?a = "s\<lparr>scope := ScopeAdmin, aborted := False\<rparr>"
  obtain b where b: "update_body i st tier ?a = (Inr x, b)" and s1: "s1 = b\<lparr>scope := scope s, aborted := aborted s\<rparr>"
    using assms by (auto simp: scope_defs scoped_Inr_iff)
  have "b = ?a\<lparr>orgs := orgs_after i st (orgs s), subscriptions := subs_after i tier (clock s) (subscriptions s)\<rparr> \<and>
      (st \<noteq> [] \<or> tier \<noteq> [] \<longrightarrow> i \<in> org_id ` set (orgs s))"
    using b by (auto simp: update_body_def tbind_Inr_iff set_daraja_Inr filter_empty_conv image_iff set_update_rows
        orgs_after_def subs_after_def split: if_splits dest!: set_tier_Inr)
  then show "s1 = s\<lparr>orgs := orgs_after i st (orgs s), subscriptions := subs_after i tier (clock s) (subscriptions s)\<rparr>"
    and "st \<noteq> [] \<or> tier \<noteq> [] \<Longrightarrow> i \<in> org_id ` set (orgs s)"
    using s1 by (cases s; simp)+
qed

lemma read_org_row:
  assumes "orgs s = orgs_after i st os" and "subscriptions s = subs_after i tier now ss"
    and "i \<in> org_id ` set os"
  shows "\<exists>row. read_org i s = (Inr row, s) \<and> or_ID row = i \<and> (st = [] \<or> or_DarajaStatus row = st) \<and>
    (tier = [] \<or> or_Tier row = tier)"
proof -
  let ?v = "s\<lparr>scope := ScopeAdmin, aborted := False\<rparr>"
  obtain g where g: "row_by org_id i (orgs s) = Some g"
    using assms(1,3) orgs_after_row [of i st os] by fastforce
  have "read_org i s = (Inr (org_row ?v g), s)"
    using g by (cases s) (simp add: read_org_def scope_defs scoped_def query_one_apply)
  moreover have "or_ID (org_row ?v g) = i" using row_by_Some [OF g] by (simp add: org_row_def)
  moreover have "or_DarajaStatus (org_row ?v g) = st" if "st \<noteq> []"
    using g assms(1) that row_by_Some [of org_id i os]
    by (auto simp: org_row_def orgs_after_def row_by_update_rows)
  moreover have "or_Tier (org_row ?v g) = tier" if "tier \<noteq> []"
  proof -
    have "find (\<lambda>r. sees_subscription ?v r \<and> sub_org_id r = i) (subscriptions s) = row_by sub_org_id i (subscriptions s)"
      unfolding row_by_def by (rule arg_cong [of _ _ "\<lambda>p. find p _"]) (auto simp: sees_subscription_def)
    then show ?thesis
      using that assms(2) tier_of_rows [of i tier now ss] row_by_Some [OF g] by (auto simp: org_row_def subs_after_def)
  qed
  ultimately show ?thesis by blast
qed

text \<open>
  Changing an organisation is all or nothing: when it answers, the organisation exists,
  the given status and tier are ones the program knows, exactly that organisation's status
  and subscription are changed, each only when a value was given, and the row that is shown
  has the new values; when it fails, no table changes.
\<close>

theorem organisation_update:
  "case UpdateOrg i st tier s of
     (Inl e, s') \<Rightarrow> tbl s' = tbl s
   | (Inr row, s') \<Rightarrow> i \<in> org_id ` set (orgs s) \<and>
       (st = [] \<or> st \<in> set daraja_statuses) \<and> (tier = [] \<or> tier \<in> set tiers) \<and>
       s' = s\<lparr>orgs := orgs_after i st (orgs s), subscriptions := subs_after i tier (clock s) (subscriptions s)\<rparr> \<and>
       or_ID row = i \<and> (st = [] \<or> or_DarajaStatus row = st) \<and> (tier = [] \<or> or_Tier row = tier)"
proof (cases "(st = [] \<or> st \<in> set daraja_statuses) \<and> (tier = [] \<or> tier \<in> set tiers)")
  case False
  then show ?thesis by (auto simp: UpdateOrg_def)
next
  case True
  then have u: "UpdateOrg i st tier = tbind (WithAdmin (update_body i st tier)) (\<lambda>_. read_org i)"
    by (intro UpdateOrg_valid) auto
  obtain r s1 where run: "WithAdmin (update_body i st tier) s = (r, s1)" by (cases "WithAdmin (update_body i st tier) s")
  show ?thesis
  proof (cases r)
    case (Inl e)
    then show ?thesis
      using run arg_cong [OF scoped_Inl [of ScopeAdmin "update_body i st tier" s e s1], of tbl]
      unfolding u by (simp add: WithAdmin_def)
  next
    case (Inr x)
    note s1 = update_body_Inr [OF run [unfolded Inr]]
    show ?thesis
    proof (cases "i \<in> org_id ` set (orgs s)")
      case i: True
      from s1(1) have "orgs s1 = orgs_after i st (orgs s)" "subscriptions s1 = subs_after i tier (clock s) (subscriptions s)"
        by simp_all
      from read_org_row [OF this i] obtain row where row: "read_org i s1 = (Inr row, s1)" "or_ID row = i"
          "st = [] \<or> or_DarajaStatus row = st" "tier = [] \<or> or_Tier row = tier" by blast
      have "UpdateOrg i st tier s = (Inr row, s1)" unfolding u using run Inr row(1) by simp
      then show ?thesis using row(2-) True i s1(1) by simp
    next
      case i: False
      with s1 have "st = []" "tier = []" "s1 = s" by (auto simp: orgs_after_def subs_after_def)
      with i have "read_org i s1 = (Inl ErrNoRows, s1)"
        by (cases s) (simp add: read_org_def scope_defs scoped_def query_one_apply rollback_def row_by_None [THEN iffD2])
      with run Inr \<open>s1 = s\<close> show ?thesis unfolding u by simp
    qed
  qed
qed

end
