(* ===== verification/Calendar.thy ===== *)
theory Calendar
  imports Dates
begin

text \<open>
  The calendar: \<open>civil\<close>, which computes the date of a day number by the division scheme of the
  400-year era, and \<open>days_to\<close>, which counts the days of months and years, undo each other.
\<close>

subsection \<open>Years of an era\<close>

text \<open>Years begin on 1 March, so that a leap day is the last of its year.\<close>

definition year_start :: "int \<Rightarrow> int" where
  "year_start k = 365 * k + k div 4 - k div 100 + k div 400"

definition year_index :: "int \<Rightarrow> int" where
  "year_index n = n - n div 1460 + n div 36524 - n div 146096"

lemma year_index_step:
  assumes "0 \<le> n" and "n < 146096"
  shows "year_index n \<le> year_index (n + 1)"
proof (cases "n = 146095")
  case True
  then show ?thesis by (simp add: year_index_def)
next
  case False
  have "(n + 1) div 1460 \<le> n div 1460 + 1" by linarith
  moreover have "n div 36524 \<le> (n + 1) div 36524" by (rule zdiv_mono1) simp_all
  moreover have "(n + 1) div 146096 = 0" "n div 146096 = 0" using assms False by simp_all
  ultimately show ?thesis unfolding year_index_def by linarith
qed

lemma year_index_mono: "0 \<le> a \<Longrightarrow> a \<le> b \<Longrightarrow> b \<le> 146096 \<Longrightarrow> year_index a \<le> year_index b"
proof (induction "nat (b - a)" arbitrary: b)
  case 0
  then show ?case by simp
next
  case (Suc k)
  then have "year_index a \<le> year_index (b - 1)" by simp
  also have "\<dots> \<le> year_index b" using Suc.prems Suc.hyps(2) year_index_step [of "b - 1"] by simp
  finally show ?case .
qed

lemma year_bounds: "list_all (\<lambda>k. 0 \<le> year_start k \<and> 365 * k \<le> year_index (year_start k) \<and>
    year_index (year_start (k + 1) - 1) < 365 * (k + 1) \<and> year_start (k + 1) \<le> 146097) [0..399]"
  by code_simp

lemma year_of_day:
  assumes "0 \<le> k" "k < 400" "year_start k \<le> n" "n < year_start (k + 1)"
  shows "year_index n div 365 = k"
proof -
  have "k \<in> set [0..399]" using assms by simp
  with year_bounds have lo: "0 \<le> year_start k" and hi: "year_start (k + 1) \<le> 146097"
      and k: "365 * k \<le> year_index (year_start k)" "year_index (year_start (k + 1) - 1) < 365 * (k + 1)"
    unfolding list_all_iff by blast+
  have "year_index (year_start k) \<le> year_index n" "year_index n \<le> year_index (year_start (k + 1) - 1)"
    using year_index_mono lo hi assms(3,4) by simp_all
  with k show ?thesis by (intro int_div_pos_eq [of _ 365 _ "year_index n - 365 * k"]) simp_all
qed

lemma year_exists:
  assumes "0 \<le> n" "n < 146097"
  obtains k where "0 \<le> k" "k < 400" "year_start k \<le> n" "n < year_start (k + 1)"
proof -
  let ?k = "GREATEST k. year_start (int k) \<le> n \<and> k < 400"
  have "year_start (int ?k) \<le> n \<and> ?k < 400"
    by (rule GreatestI_nat [of "\<lambda>k. year_start (int k) \<le> n \<and> k < 400" 0 400])
      (use assms in \<open>simp_all add: year_start_def\<close>)
  moreover have "n < year_start (int ?k + 1)"
  proof (rule ccontr)
    assume "\<not> n < year_start (int ?k + 1)"
    then have le: "year_start (int (Suc ?k)) \<le> n" by (simp add: add.commute)
    with assms(2) have "Suc ?k \<noteq> 400" by (auto simp: year_start_def)
    with calculation have "Suc ?k < 400" by linarith
    with le have "Suc ?k \<le> ?k"
      by (intro Greatest_le_nat [of "\<lambda>k. year_start (int k) \<le> n \<and> k < 400" _ 400]) simp_all
    then show False by simp
  qed
  ultimately show thesis by (intro that [of "int ?k"]) simp_all
qed

text \<open>The length of the year that begins on 1 March of year \<open>k\<close>.\<close>

lemma div_succ:
  assumes "0 < q"
  shows "(k + 1) div q = k div q + (if (k + 1) mod q = 0 then 1 else 0 :: int)"
proof (cases "k mod q = q - 1")
  case True
  have "k = q * (k div q) + k mod q" by simp
  then have k1: "k + 1 = q * (k div q + 1)" unfolding True by (simp add: distrib_left)
  show ?thesis unfolding k1 using assms by simp
next
  case False
  have "k mod q < q" "0 \<le> k mod q" using assms by simp_all
  with False have r: "0 \<le> k mod q + 1" "k mod q + 1 < q" by linarith+
  have e: "k + 1 = q * (k div q) + (k mod q + 1)" by simp
  from int_div_pos_eq [OF e r] int_mod_pos_eq [OF e r] \<open>0 \<le> k mod q\<close> show ?thesis by simp
qed

lemma year_length: "year_start (k + 1) - year_start k = (if is_leap (k + 1) then 366 else 365)"
proof -
  have "(k + 1) mod 4 = 0" if "(k + 1) mod 100 = 0"
    using that dvd_trans [of 4 100 "k + 1"] by (simp add: dvd_eq_mod_eq_0)
  then show ?thesis
    unfolding year_start_def is_leap_def div_succ [of 4 k, simplified] div_succ [of 100 k, simplified] div_succ [of 400 k, simplified]
    by auto
qed

subsection \<open>Months of a year\<close>

definition month_offset :: "int \<Rightarrow> int" where
  "month_offset mp = (153 * mp + 2) div 5"

lemma month_of_day: "list_all (\<lambda>doy. let mp = (5 * doy + 2) div 153; d = doy - month_offset mp + 1 in
    0 \<le> mp \<and> mp \<le> 11 \<and> 1 \<le> d \<and>
    d \<le> (if mp = 11 then (if doy = 365 then 29 else 28) else if mp \<in> {1, 3, 6, 8} then 30 else 31)) [0..365]"
  by code_simp

lemma before_march: "days_to y 3 1 = year_start y - 306"
proof -
  have "year_start y - year_start (y - 1) = (if is_leap y then 366 else 365)" using year_length [of "y - 1"] by simp
  then show ?thesis by (simp add: days_to_def days_in_def year_start_def upto.simps split: if_splits)
qed

lemma days_to_day: "days_to y m d = days_to y m 1 + (d - 1)"
  by (simp add: days_to_def)

lemma days_to_next: "1 \<le> m \<Longrightarrow> days_to y (m + 1) 1 = days_to y m 1 + days_in m y"
  by (simp add: days_to_def upto_rec2)

lemma year_turn: "days_to (y + 1) 1 1 = year_start y"
  by (simp add: days_to_def year_start_def)

lemma days_to_late:
  assumes "0 \<le> mp" and "mp < 10"
  shows "days_to y (mp + 3) d = year_start y - 306 + month_offset mp + (d - 1)"
proof -
  have m: "days_to y 4 1 = days_to y 3 1 + 31" "days_to y 5 1 = days_to y 4 1 + 30" "days_to y 6 1 = days_to y 5 1 + 31"
    "days_to y 7 1 = days_to y 6 1 + 30" "days_to y 8 1 = days_to y 7 1 + 31" "days_to y 9 1 = days_to y 8 1 + 31"
    "days_to y 10 1 = days_to y 9 1 + 30" "days_to y 11 1 = days_to y 10 1 + 31" "days_to y 12 1 = days_to y 11 1 + 30"
    using days_to_next [of 3 y] days_to_next [of 4 y] days_to_next [of 5 y] days_to_next [of 6 y] days_to_next [of 7 y]
      days_to_next [of 8 y] days_to_next [of 9 y] days_to_next [of 10 y] days_to_next [of 11 y]
    by (simp_all add: days_in_def)
  have "mp = 0 \<or> mp = 1 \<or> mp = 2 \<or> mp = 3 \<or> mp = 4 \<or> mp = 5 \<or> mp = 6 \<or> mp = 7 \<or> mp = 8 \<or> mp = 9"
    using assms by presburger
  then show ?thesis using m before_march [of y] unfolding days_to_day [of y _ d] by (auto simp: month_offset_def)
qed

lemma days_to_early:
  assumes "mp = 10 \<or> mp = 11"
  shows "days_to (y + 1) (mp - 9) d = year_start y - 306 + month_offset mp + (d - 1)"
  using assms year_turn [of y] days_to_next [of 1 "y + 1"] unfolding days_to_day [of "y + 1" _ d]
  by (auto simp: month_offset_def days_in_def)

lemma year_start_era: "year_start (k + era * 400) = year_start k + era * 146097"
proof -
  have "(k + era * 400) div 4 = k div 4 + era * 100" "(k + era * 400) div 100 = k div 100 + era * 4"
    using div_mult_self3 [of 4 "era * 100" k] div_mult_self3 [of 100 "era * 4" k] by (simp_all add: algebra_simps)
  then show ?thesis by (simp add: year_start_def)
qed

lemma leap_era: "is_leap (k + era * 400 + 1) \<longleftrightarrow> is_leap (k + 1)"
  using year_length [of "k + era * 400"] year_length [of k] year_start_era [of k era] year_start_era [of "k + 1" era]
  by (simp add: add.assoc add.commute [of "era * 400" 1] split: if_splits)

text \<open>Every day number has a date, and counting days to that date gives the number back.\<close>

lemma days_to_civil:
  assumes "civil n = (y, m, d)"
  shows "1 \<le> m \<and> m \<le> 12 \<and> 1 \<le> d \<and> d \<le> days_in m y \<and> days_to y m d = n"
proof -
  define era where "era = (n + 306) div 146097"
  define doe where "doe = (n + 306) mod 146097"
  have n: "n = era * 146097 + doe - 306" by (simp add: era_def doe_def)
  have "0 \<le> doe" "doe < 146097" by (simp_all add: doe_def)
  then obtain k where k: "0 \<le> k" "k < 400" "year_start k \<le> doe" "doe < year_start (k + 1)" by (rule year_exists)
  have yoe: "(doe - doe div 1460 + doe div 36524 - doe div 146096) div 365 = k"
    using year_of_day [OF k] by (simp add: year_index_def)
  define doy where "doy = doe - year_start k"
  define mp where "mp = (5 * doy + 2) div 153"
  define Y where "Y = k + era * 400"
  have doy: "0 \<le> doy" "doy \<le> 365" "doy = 365 \<longrightarrow> is_leap (Y + 1)"
    using k year_length [of k] leap_era [of k era] by (auto simp: doy_def Y_def split: if_splits)
  then have "doy \<in> set [0..365]" by simp
  with month_of_day have mp: "0 \<le> mp" "mp \<le> 11" "1 \<le> doy - month_offset mp + 1"
      "doy - month_offset mp + 1 \<le> (if mp = 11 then (if doy = 365 then 29 else 28) else if mp \<in> {1, 3, 6, 8} then 30 else 31)"
    unfolding list_all_iff Let_def mp_def by blast+
  have dy: "doe - (365 * k + k div 4 - k div 100) = doy" using k by (simp add: doy_def year_start_def)
  have c: "civil n = (Y + (if (if mp < 10 then mp + 3 else mp - 9) \<le> 2 then 1 else 0),
      (if mp < 10 then mp + 3 else mp - 9), doy - month_offset mp + 1)"
    unfolding civil_def Let_def era_def [symmetric] doe_def [symmetric] yoe dy mp_def [symmetric]
    by (simp add: Y_def month_offset_def)
  have ny: "n = year_start Y - 306 + doy" using n year_start_era [of k era] by (simp add: doy_def Y_def)
  show ?thesis
  proof (cases "mp < 10")
    case True
    with c assms mp(1) have "y = Y" "m = mp + 3" "d = doy - month_offset mp + 1" by auto
    with True mp ny days_to_late [of mp Y d] show ?thesis by (auto simp: days_in_def split: if_splits)
  next
    case False
    with mp have e: "mp = 10 \<or> mp = 11" by linarith
    with c assms have "y = Y + 1" "m = mp - 9" "d = doy - month_offset mp + 1" by auto
    with e mp ny doy days_to_early [of mp Y d] show ?thesis by (auto simp: days_in_def split: if_splits)
  qed
qed

subsection \<open>Windows of months\<close>

text \<open>Months are numbered through; the first day of a month, as a function of that number, grows.\<close>

definition month_index :: "int \<times> int \<Rightarrow> int" where
  "month_index ym = 12 * fst ym + snd ym - 1"

definition first_day :: "int \<Rightarrow> int" where
  "first_day i = days_to (i div 12) (i mod 12 + 1) 1"

lemma first_day_next: "first_day (i + 1) = first_day i + days_in (i mod 12 + 1) (i div 12)"
proof (cases "i mod 12 = 11")
  case True
  then have m: "(i + 1) mod 12 = 0" using mod_add_left_eq [of i 12 1] by simp
  then have "(i + 1) div 12 = i div 12 + 1" using div_succ [of 12 i] by simp
  note this m
  then show ?thesis
    using True year_turn [of "i div 12"] days_to_late [of 9 "i div 12" 1] by (simp add: first_day_def month_offset_def days_in_def)
next
  case False
  moreover have r: "0 \<le> i mod 12" "i mod 12 < 12" by simp_all
  ultimately have lt: "i mod 12 + 1 < 12" by linarith
  have e: "i + 1 = 12 * (i div 12) + (i mod 12 + 1)" by simp
  have "(i + 1) div 12 = i div 12" "(i + 1) mod 12 = i mod 12 + 1"
    using int_div_pos_eq [OF e _ lt] int_mod_pos_eq [OF e _ lt] r by simp_all
  moreover have "1 \<le> i mod 12 + 1" using r by simp
  ultimately show ?thesis using days_to_next [of "i mod 12 + 1" "i div 12"] by (simp add: first_day_def)
qed

lemma first_day_mono: "i \<le> j \<Longrightarrow> first_day i \<le> first_day j"
proof (induction "nat (j - i)" arbitrary: j)
  case 0
  then show ?case by simp
next
  case (Suc k)
  then have "first_day i \<le> first_day (j - 1)" by simp
  also have "\<dots> \<le> first_day j" using first_day_next [of "j - 1"] by (simp add: days_in_def)
  finally show ?case .
qed

lemma first_day_index: "1 \<le> m \<Longrightarrow> m \<le> 12 \<Longrightarrow> first_day (month_index (y, m)) = days_to y m 1"
proof -
  assume "1 \<le> m" "m \<le> 12"
  then have "(12 * y + m - 1) div 12 = y" "(12 * y + m - 1) mod 12 = m - 1" by presburger+
  then show ?thesis by (simp add: first_day_def month_index_def)
qed

lemma month_start_day: "month_start ym = days_to (fst ym) (snd ym) 1 * day - nairobi_offset"
  by (simp add: month_start_def nairobi_date_def)

lemma add_months_index: "month_start (add_months k ym) = first_day (month_index ym + k) * day - nairobi_offset"
proof (cases ym)
  case (Pair y m)
  have "(12 * y + m - 1 + k) div 12 = y + (m - 1 + k) div 12" "(12 * y + m - 1 + k) mod 12 = (m - 1 + k) mod 12"
    using div_mult_self4 [of 12 y "m - 1 + k"] mod_mult_self4 [of 12 y "m - 1 + k"] by (simp_all add: algebra_simps)
  then show ?thesis unfolding Pair by (simp add: month_start_day add_months_def first_day_def month_index_def)
qed

lemma nairobi_day_ge: "n * day - nairobi_offset \<le> t \<longleftrightarrow> n \<le> nairobi_day t"
proof
  have pos: "(0::int) < day" by (simp add: day_def duration_defs)
  assume "n * day - nairobi_offset \<le> t"
  then have "n * day div day \<le> (t + nairobi_offset) div day" using pos by (intro zdiv_mono1) simp_all
  then show "n \<le> nairobi_day t" using pos by (simp add: nairobi_day_def)
next
  have pos: "(0::int) < day" by (simp add: day_def duration_defs)
  assume "n \<le> nairobi_day t"
  then have "n * day \<le> nairobi_day t * day" using pos by (simp add: mult_right_mono)
  then show "n * day - nairobi_offset \<le> t" using nairobi_midnight_le [of t] by (simp add: nairobi_midnight_def)
qed

lemma in_month: "civil n = (y, m, d) \<Longrightarrow> first_day i \<le> n \<longleftrightarrow> i \<le> month_index (y, m)"
proof -
  assume "civil n = (y, m, d)"
  note c = days_to_civil [OF this]
  have lo: "first_day (month_index (y, m)) \<le> n" and hi: "n < first_day (month_index (y, m) + 1)"
  proof -
    have "(12 * y + m - 1) div 12 = y" "(12 * y + m - 1) mod 12 = m - 1" using c by presburger+
    then have "days_in (month_index (y, m) mod 12 + 1) (month_index (y, m) div 12) = days_in m y"
      by (simp add: month_index_def)
    then show "first_day (month_index (y, m)) \<le> n" "n < first_day (month_index (y, m) + 1)"
      using c first_day_index [of m y] first_day_next [of "month_index (y, m)"] days_to_day [of y m d] by simp_all
  qed
  show ?thesis
  proof
    assume "first_day i \<le> n"
    with hi have "\<not> month_index (y, m) + 1 \<le> i" using first_day_mono [of "month_index (y, m) + 1" i] by linarith
    then show "i \<le> month_index (y, m)" by simp
  next
    assume "i \<le> month_index (y, m)"
    then show "first_day i \<le> n" using first_day_mono [of i "month_index (y, m)"] lo by linarith
  qed
qed

lemma within_months:
  assumes "civil (nairobi_day t) = (y', m', d')" and "1 \<le> m" and "m \<le> 12"
  shows "month_start (y, m) \<le> t \<and> t < month_start (add_months k (y, m)) \<longleftrightarrow>
    month_index (y, m) \<le> month_index (y', m') \<and> month_index (y', m') < month_index (y, m) + k"
  using in_month [OF assms(1), of "month_index (y, m)"] in_month [OF assms(1), of "month_index (y, m) + k"]
    nairobi_day_ge [of "first_day (month_index (y, m))" t] nairobi_day_ge [of "first_day (month_index (y, m) + k)" t]
    first_day_index [OF assms(2,3), of y]
  unfolding add_months_index [of k "(y, m)"] month_start_day [of "(y, m)"] by (auto simp: not_le [symmetric])

end
