(* ===== verification/ReportProps.thy ===== *)
theory ReportProps
  imports Reports Calendar ReissueProps
begin

text \<open>
  What the reports say: which payments and documents a period covers, the fee of a payment, and
  how credit notes enter the VAT position.
\<close>

subsection \<open>Periods\<close>

definition covers :: "time \<times> time \<Rightarrow> time \<Rightarrow> bool" where
  "covers w t \<longleftrightarrow> fst w \<le> t \<and> t < snd w"

lemma months_cover:
  fixes y k :: int
  assumes "civil (nairobi_day t) = (y', m', d')" and "1 \<le> m" and "m \<le> 12"
  shows "covers (months_window k (y, m)) t \<longleftrightarrow>
    month_index (y, m) \<le> month_index (y', m') \<and> month_index (y', m') < month_index (y, m) + k"
  using within_months [OF assms, of y k] by (simp add: covers_def months_window_def)

lemma midnight_not_zero: "n * day - nairobi_offset \<noteq> 0"
proof
  assume "n * day - nairobi_offset = 0"
  then have "24 * n = (3 :: int)" by (simp add: day_def nairobi_offset_def duration_defs)
  then show False by presburger
qed

lemma month_start_not_zero: "month_start ym \<noteq> 0"
  unfolding month_start_day by (rule midnight_not_zero)

lemma months_window_not_zero: "fst (months_window k ym) \<noteq> 0" "snd (months_window k ym) \<noteq> 0"
  by (simp_all add: months_window_def month_start_not_zero)

lemma days_cover: "covers (day_window now) t \<longleftrightarrow> nairobi_day t = nairobi_day now"
  using nairobi_day_ge [of "nairobi_day now" t] nairobi_day_ge [of "nairobi_day now + 1" t]
  by (auto simp: covers_def day_window_def nairobi_midnight_def algebra_simps not_le [symmetric])

lemma named_window:
  "trim_space p = p \<Longrightarrow> period_window now p = Some (months_window k ym) \<Longrightarrow> ParseSummaryWindow now p = months_window k ym"
  using months_window_not_zero [of k ym] by (auto simp: ParseSummaryWindow_def split: prod.splits)

lemma trim_names [simp]: "trim_space ''month'' = ''month''" "trim_space ''quarter'' = ''quarter''"
  "trim_space ''year'' = ''year''" "trim_space ''today'' = ''today''"
  by code_simp+

lemma quarter_index: "1 \<le> (m::int) \<Longrightarrow> m \<le> 12 \<Longrightarrow> 1 \<le> (m - 1) div 3 * 3 + 1 \<and> (m - 1) div 3 * 3 + 1 \<le> 12"
  by presburger

lemma same_month:
  assumes "1 \<le> (m::int)" and "m \<le> 12" and "1 \<le> m'" and "m' \<le> 12"
  shows "12 * y + m - 1 \<le> 12 * y' + m' - 1 \<and> 12 * y' + m' - 1 < 12 * y + m - 1 + 1 \<longleftrightarrow> y' = y \<and> m' = m"
proof -
  have "y' = y" if "12 * y + m = 12 * y' + m'" using that assms by linarith
  then show ?thesis by auto
qed

lemma same_quarter:
  assumes "1 \<le> (m::int)" and "m \<le> 12" and "1 \<le> m'" and "m' \<le> 12"
  shows "12 * y + ((m - 1) div 3 * 3 + 1) - 1 \<le> 12 * y' + m' - 1 \<and> 12 * y' + m' - 1 < 12 * y + ((m - 1) div 3 * 3 + 1) - 1 + 3 \<longleftrightarrow>
    y' = y \<and> (m' - 1) div 3 = (m - 1) div 3"
proof -
  define q q' where "q = (m - 1) div 3" and "q' = (m' - 1) div 3"
  have q: "0 \<le> q" "q \<le> 3" and q': "0 \<le> q'" "q' \<le> 3" "3 * q' \<le> m' - 1" "m' - 1 < 3 * q' + 3"
    using assms unfolding q_def q'_def by presburger+
  have "y' = y \<and> q' = q" if "12 * y + (q * 3 + 1) - 1 \<le> 12 * y' + m' - 1" "12 * y' + m' - 1 < 12 * y + (q * 3 + 1) - 1 + 3"
  proof -
    have "y' = y" using that q q' by linarith
    then show ?thesis using that q' by linarith
  qed
  moreover have "12 * y + (q * 3 + 1) - 1 \<le> 12 * y' + m' - 1 \<and> 12 * y' + m' - 1 < 12 * y + (q * 3 + 1) - 1 + 3"
    if "y' = y \<and> q' = q" using that q' by linarith
  ultimately show ?thesis unfolding q_def [symmetric] q'_def [symmetric] by blast
qed

lemma read_layout_month:
  assumes "read_layout month_layout p = Some ([y, m], [])"
  shows "1 \<le> m \<and> m \<le> 12"
  using assms by (auto simp: month_layout_def Let_def split: option.splits if_splits)

lemma parse_month_range: "parse_month p = Some (y, m) \<Longrightarrow> 1 \<le> m \<and> m \<le> 12"
  unfolding parse_month_def by (auto split: option.splits list.splits prod.splits dest!: read_layout_month)

text \<open>
  C35. A report covers exactly its period of the Nairobi calendar. At any moment the summaries of
  the day, month, quarter and year cover exactly the times of the same day, month, quarter and
  year; the VAT position and the export of a month cover exactly the times of that month, and a
  text that names no month is refused.
\<close>

theorem report_periods:
  assumes "civil (nairobi_day now) = (y, m, d)" and "civil (nairobi_day t) = (y', m', d')"
  shows "(covers (ParseSummaryWindow now ''today'') t \<longleftrightarrow> nairobi_day t = nairobi_day now) \<and>
    (covers (ParseSummaryWindow now ''month'') t \<longleftrightarrow> y' = y \<and> m' = m) \<and>
    (covers (ParseSummaryWindow now ''quarter'') t \<longleftrightarrow> y' = y \<and> (m' - 1) div 3 = (m - 1) div 3) \<and>
    (covers (ParseSummaryWindow now ''year'') t \<longleftrightarrow> y' = y) \<and>
    (case ParsePeriod p of Inl e \<Rightarrow> parse_month p = None
     | Inr w \<Rightarrow> (\<exists>py pm. parse_month p = Some (py, pm) \<and> (covers w t \<longleftrightarrow> y' = py \<and> m' = pm)))"
proof -
  have m: "1 \<le> m" "m \<le> 12" and m': "1 \<le> m'" "m' \<le> 12"
    using days_to_civil [OF assms(1)] days_to_civil [OF assms(2)] by simp_all
  note idx = month_index_def
  have day: "ParseSummaryWindow now ''today'' = day_window now"
    by (simp add: ParseSummaryWindow_def period_window_def assms(1) day_window_def)
  have month: "ParseSummaryWindow now ''month'' = months_window 1 (y, m)"
    by (rule named_window) (simp_all add: period_window_def assms(1))
  have quarter: "ParseSummaryWindow now ''quarter'' = months_window 3 (y, (m - 1) div 3 * 3 + 1)"
    by (rule named_window) (simp_all add: period_window_def assms(1))
  have year: "ParseSummaryWindow now ''year'' = months_window 12 (y, 1)"
    by (rule named_window) (simp_all add: period_window_def assms(1))
  have c1: "covers (months_window 1 (py, pm)) t \<longleftrightarrow> y' = py \<and> m' = pm" if "1 \<le> pm" "pm \<le> 12" for py pm
    using months_cover [OF assms(2) that, where k = 1 and y = py] same_month [OF that m', of py y'] unfolding idx fst_conv snd_conv by (rule trans)
  have c3: "covers (months_window 3 (y, (m - 1) div 3 * 3 + 1)) t \<longleftrightarrow> y' = y \<and> (m' - 1) div 3 = (m - 1) div 3"
    using months_cover [OF assms(2) quarter_index [OF m, THEN conjunct1] quarter_index [OF m, THEN conjunct2], where k = 3 and y = y]
      same_quarter [OF m m', of y y'] unfolding idx fst_conv snd_conv by (rule trans)
  have c12: "covers (months_window 12 (y, 1)) t \<longleftrightarrow> y' = y"
    using months_cover [OF assms(2), where m = 1 and k = 12 and y = y] m' by (auto simp: idx)
  have parsed: "case ParsePeriod p of Inl e \<Rightarrow> parse_month p = None
     | Inr w \<Rightarrow> (\<exists>py pm. parse_month p = Some (py, pm) \<and> (covers w t \<longleftrightarrow> y' = py \<and> m' = pm))"
    using c1 parse_month_range [of p] by (auto simp: ParsePeriod_def split: option.splits)
  show ?thesis unfolding day month quarter year by (intro conjI days_cover c1 [OF m] c3 c12 parsed)
qed

theorem report_periods_witness:
  "covers (ParseSummaryWindow 63871200000000000000 ''month'') 63870000000000000000 \<and>
   \<not> covers (ParseSummaryWindow 63871200000000000000 ''today'') 63870000000000000000 \<and>
   (\<exists>w. ParsePeriod ''2024-12'' = Inr w \<and> covers w 63870000000000000000)"
proof -
  have n: "civil (nairobi_day 63871200000000000000) = (2024, 12, 31)" and t: "civil (nairobi_day 63870000000000000000) = (2024, 12, 17)"
    and p: "map_sum id (\<lambda>_. ()) (ParsePeriod ''2024-12'') = Inr ()" "parse_month ''2024-12'' = Some (2024, 12)"
    and d: "nairobi_day 63871200000000000000 \<noteq> nairobi_day 63870000000000000000" by code_simp+
  from p(1) obtain w where "ParsePeriod ''2024-12'' = Inr w" by (cases "ParsePeriod ''2024-12''") auto
  with report_periods [OF n t, of "''2024-12''"] p(2) d show ?thesis by auto
qed

subsection \<open>Fees\<close>

text \<open>
  The fee of a payment is free up to 200 shillings, at most 200 shillings, never more than the
  payment, and never falls when the amount grows, as long as the product fits 64 bits.
\<close>

lemma fee_value: "20000 < a \<Longrightarrow> a < 2 ^ 57 \<Longrightarrow> DarajaMerchantFeeCents a = min 20000 (a * 55 div 10000)"
  by (simp add: DarajaMerchantFeeCents_def quo_def in_int64_def Let_def min_def)

theorem merchant_fee_bounds:
  assumes "0 \<le> a" and "a \<le> b" and "b < 2 ^ 57"
  shows "0 \<le> DarajaMerchantFeeCents a \<and> DarajaMerchantFeeCents a \<le> 20000 \<and> DarajaMerchantFeeCents a \<le> a \<and>
    DarajaMerchantFeeCents a \<le> DarajaMerchantFeeCents b"
proof (cases "a \<le> 20000")
  case True
  moreover have "0 \<le> DarajaMerchantFeeCents b"
    using fee_value [of b] assms by (cases "b \<le> 20000") (simp_all add: DarajaMerchantFeeCents_def)
  ultimately show ?thesis using assms by (simp add: DarajaMerchantFeeCents_def)
next
  case False
  have le: "a * 55 div 10000 \<le> b * 55 div 10000" using assms by (intro zdiv_mono1) simp_all
  have "0 \<le> a * 55 div 10000" using assms by (simp add: pos_imp_zdiv_nonneg_iff)
  then show ?thesis using False le fee_value [of a] fee_value [of b] assms by (simp add: min_def split: if_splits)
qed

subsection \<open>VAT\<close>

text \<open>
  C39. A credit note raises the VAT position instead of lowering it. The amounts of a credit note
  are stored as negative numbers, and the report subtracts them once more: over documents with
  the signs the ledger gives them, the output VAT of a month is the sum of the absolute amounts,
  so that an invoice and the credit note that cancels it count twice rather than not at all.
\<close>

theorem credit_notes_added:
  assumes "VATPosition oid period s = (Inr v, s')" and "ParsePeriod period = Inr w"
    and "\<forall>i \<in> set (invoices s). if inv_kind i = ''INVOICE'' then 0 \<le> inv_tax_cents i else inv_tax_cents i \<le> 0"
  shows "vat_OutputVATCents v = sum_list (map (\<lambda>i. \<bar>inv_tax_cents i\<bar>)
    (acked_within (s\<lparr>scope := ScopeOrg oid, aborted := False\<rparr>) oid (fst w) (snd w)))"
proof -
  let ?s = "s\<lparr>scope := ScopeOrg oid, aborted := False\<rparr>"
  let ?rows = "acked_within ?s oid (fst w) (snd w)"
  have "vat_OutputVATCents v = sum_list (map (signed_by_kind inv_tax_cents) ?rows)"
    using assms(1,2)
    by (cases w) (auto simp: VATPosition_def VATPosition_row_def sum_bigint_def scope_defs scoped_Inr_iff tbind_Inr_iff
      stmt_Inr_iff query_Inr_iff split: if_splits)
  also have "map (signed_by_kind inv_tax_cents) ?rows = map (\<lambda>i. \<bar>inv_tax_cents i\<bar>) ?rows"
    using assms(3) by (auto simp: acked_within_def signed_by_kind_def split: if_splits)
  finally show ?thesis .
qed

definition noted_invoice :: Invoice where
  "noted_invoice = acked_invoice\<lparr>inv_acked_at := Some 63870000000000000000, inv_tax_cents := 1600\<rparr>"

definition noted_db :: db where
  "noted_db = acked_db\<lparr>invoices := [noted_invoice, noted_invoice\<lparr>inv_id := 9, inv_kind := ''CREDIT_NOTE'', inv_tax_cents := - 1600\<rparr>]\<rparr>"

theorem credit_notes_added_witness:
  "\<exists>v s'. VATPosition 1 ''2024-12'' noted_db = (Inr v, s') \<and> vat_OutputVATCents v = 3200"
proof -
  have "map_sum id (\<lambda>_. ()) (fst (VATPosition 1 ''2024-12'' noted_db)) = Inr ()" by code_simp
  then obtain v s' where run: "VATPosition 1 ''2024-12'' noted_db = (Inr v, s')"
    by (cases "VATPosition 1 ''2024-12'' noted_db"; cases "fst (VATPosition 1 ''2024-12'' noted_db)") auto
  have "map_sum id (\<lambda>_. ()) (ParsePeriod ''2024-12'') = Inr ()" by code_simp
  then obtain w where w: "ParsePeriod ''2024-12'' = Inr w" by (cases "ParsePeriod ''2024-12''") auto
  have signs: "\<forall>i \<in> set (invoices noted_db). if inv_kind i = ''INVOICE'' then 0 \<le> inv_tax_cents i else inv_tax_cents i \<le> 0"
    by code_simp
  have "(case ParsePeriod ''2024-12'' of Inl _ \<Rightarrow> 0 | Inr w \<Rightarrow> sum_list (map (\<lambda>i. \<bar>inv_tax_cents i\<bar>)
      (acked_within (noted_db\<lparr>scope := ScopeOrg 1, aborted := False\<rparr>) 1 (fst w) (snd w)))) = 3200" by code_simp
  with credit_notes_added [OF run w signs] w run show ?thesis by auto
qed

end
