(* ===== verification/ReceiptProps.thy ===== *)
theory ReceiptProps
  imports Receipts ReissueProps
begin

text \<open>
  The public receipt: which invoice a code shows, with which state, and the VAT of its lines by
  category.
\<close>

subsection \<open>VAT by category\<close>

definition of_category :: "string \<Rightarrow> SaleItem list \<Rightarrow> SaleItem list" where
  "of_category c ls = filter (\<lambda>l. si_tax_category l = c) ls"

definition vat_row_of :: "string \<Rightarrow> SaleItem list \<Rightarrow> VATRow" where
  "vat_row_of c ls = \<lparr>vr_Category = c,
     vr_TaxableCents = wrap64 (sum_list (map (\<lambda>l. si_line_total_cents l - si_line_tax_cents l) (of_category c ls))),
     vr_TaxCents = wrap64 (sum_list (map si_line_tax_cents (of_category c ls)))\<rparr>"

lemma of_category_snoc [simp]:
  "of_category c (ls @ [l]) = of_category c ls @ (if si_tax_category l = c then [l] else [])"
  by (simp add: of_category_def)

lemma vat_row_snoc:
  "vat_row_of c (ls @ [l]) = (if si_tax_category l = c then vat_add l (vat_row_of c ls) else vat_row_of c ls)"
  by (simp add: vat_row_of_def vat_add_def)

lemma vat_row_Nil: "c \<notin> si_tax_category ` set ls \<Longrightarrow> vat_row_of c ls = \<lparr>vr_Category = c, vr_TaxableCents = 0, vr_TaxCents = 0\<rparr>"
proof -
  assume "c \<notin> si_tax_category ` set ls"
  then have "of_category c ls = []" by (auto simp: of_category_def filter_empty_conv)
  then show ?thesis by (simp add: vat_row_of_def wrap64_def)
qed

lemma add_line_rows:
  assumes "distinct cs" and "set cs = si_tax_category ` set ls"
  shows "add_line l (map (\<lambda>c. vat_row_of c ls) cs) =
    map (\<lambda>c. vat_row_of c (ls @ [l])) (if si_tax_category l \<in> set cs then cs else cs @ [si_tax_category l])"
proof -
  have rows: "add_line l (map (\<lambda>c. vat_row_of c ls) cs) =
      map (\<lambda>c. vat_row_of c (ls @ [l])) (if si_tax_category l \<in> set cs then cs else cs @ [si_tax_category l])"
    if "distinct cs" "si_tax_category l \<notin> set cs \<Longrightarrow> si_tax_category l \<notin> si_tax_category ` set ls" for cs
    using that
  proof (induction cs)
    case Nil
    then show ?case by (simp add: vat_row_snoc vat_row_Nil)
  next
    case (Cons c cs)
    have same: "map (\<lambda>c. vat_row_of c (ls @ [l])) cs = map (\<lambda>c. vat_row_of c ls) cs" if "si_tax_category l \<notin> set cs"
      using that by (auto simp: vat_row_snoc)
    show ?case
    proof (cases "c = si_tax_category l")
      case True
      with Cons.prems(1) same show ?thesis by (simp add: vat_row_snoc) (simp add: vat_row_of_def)
    next
      case False
      with Cons show ?thesis by (auto simp: vat_row_snoc) (simp_all add: vat_row_of_def)
    qed
  qed
  show ?thesis using assms by (intro rows) auto
qed

lemma vat_by_category_rows:
  "\<exists>cs. distinct cs \<and> set cs = si_tax_category ` set ls \<and> vat_by_category ls = map (\<lambda>c. vat_row_of c ls) cs"
proof (induction ls rule: rev_induct)
  case Nil
  show ?case by (simp add: vat_by_category_def)
next
  case (snoc l ls)
  then obtain cs where cs: "distinct cs" "set cs = si_tax_category ` set ls"
      "vat_by_category ls = map (\<lambda>c. vat_row_of c ls) cs" by blast
  let ?cs = "if si_tax_category l \<in> set cs then cs else cs @ [si_tax_category l]"
  have "vat_by_category (ls @ [l]) = map (\<lambda>c. vat_row_of c (ls @ [l])) ?cs"
    using add_line_rows [OF cs(1,2)] cs(3) by (simp add: vat_by_category_def)
  then show ?case using cs(1,2) by (intro exI [of _ ?cs]) auto
qed

subsection \<open>Looking a receipt up\<close>

lemma last_map_filter:
  "rows = List.map_filter f xs \<Longrightarrow> rows \<noteq> [] \<Longrightarrow> \<exists>x \<in> set xs. f x = Some (last rows)"
proof -
  assume r: "rows = List.map_filter f xs" "rows \<noteq> []"
  then have "last rows \<in> set (List.map_filter f xs)" using last_in_set by metis
  then show ?thesis by (auto simp: map_filter_def)
qed

lemma receipt_row_invoice: "receipt_row s i = Some row \<Longrightarrow> rr_Invoice row = i"
  by (auto simp: receipt_row_def split: option.splits)

lemma chain_from_subset: "i \<in> set rows \<Longrightarrow> set (chain_from n rows i) \<subseteq> set rows"
proof (induction n rows i rule: chain_from.induct)
  case (2 n rows i)
  show ?case
  proof (cases "Option.bind (inv_superseded_by i) (\<lambda>j. row_by inv_id j rows)")
    case None
    then show ?thesis using "2.prems" by (cases "inv_superseded_by i") simp_all
  next
    case (Some k)
    then obtain j where "inv_superseded_by i = Some j" "row_by inv_id j rows = Some k"
      by (cases "inv_superseded_by i") simp_all
    then show ?thesis using "2.IH" [of j k] "2.prems" row_by_Some [of inv_id j rows k] by simp
  qed
qed simp

lemma receipt_chain_subset: "set (receipt_chain rows code) \<subseteq> set rows"
proof (cases "row_by inv_receipt_code code rows")
  case (Some i)
  then show ?thesis using chain_from_subset [of i rows] row_by_Some [of inv_receipt_code code rows i]
    by (simp add: receipt_chain_def)
qed (simp add: receipt_chain_def)

lemma GetInvoiceByReceiptCode_Inr:
  assumes "GetInvoiceByReceiptCode code s = (Inr row, s')" and "scope s = ScopeReceipt code"
  shows "s' = s \<and> rr_Invoice row \<in> set (invoices s) \<and>
    (inv_receipt_code (rr_Invoice row) = code \<or>
     inv_id (rr_Invoice row) \<in> inv_id ` set (receipt_chain (invoices s) code))"
proof -
  let ?xs = "receipt_chain (filter (sees_invoice s) (invoices s)) code"
  from assms(1) have s: "s' = s" and r: "List.map_filter (receipt_row s) ?xs \<noteq> []"
      "row = last (List.map_filter (receipt_row s) ?xs)"
    by (auto simp: GetInvoiceByReceiptCode_def query_one_Inr_iff Let_def split: if_splits)
  from last_map_filter [OF refl r(1)] obtain i where i: "i \<in> set ?xs" "receipt_row s i = Some row"
    using r(2) by auto
  have "i \<in> set (invoices s)" "sees_invoice s i" using receipt_chain_subset i(1) by fastforce+
  with s assms(2) receipt_row_invoice [OF i(2)] show ?thesis
    by (auto simp: sees_invoice_def own_def receipt_sees_def)
qed


definition receipt_line_row :: SaleItem where
  "receipt_line_row = \<lparr>si_id = 20, si_org_id = 1, si_sale_id = 4, si_item_id = None, si_description = ''Unga'',
     si_class_code = [], si_unit = ''PCS'', si_qty = 1000, si_unit_price_cents = 11600, si_tax_category = ''B'',
     si_tax_rate_bp = 1600, si_line_total_cents = 11600, si_line_tax_cents = 1600, si_position = 0\<rparr>"

definition shown_db :: db where "shown_db = acked_db\<lparr>sale_items := [receipt_line_row]\<rparr>"


text \<open>A malformed code, and a code no invoice has, are answered as not found.\<close>

lemma receipt_not_found:
  assumes "\<forall>code. NormaliseReceiptCode raw = Inr code \<longrightarrow> code \<notin> inv_receipt_code ` set (invoices s)"
  shows "\<exists>s'. receipt_get k raw s = (Inr (Fail 404 ''not_found'' ''No receipt with that code''), s') \<and> tbl s' = tbl s"
proof (cases "NormaliseReceiptCode raw")
  case (Inl e)
  then show ?thesis
    by (simp add: receipt_get_def Lookup_def answer_def attempt_def receipt_ErrNotFound_def errors_is_def is_panic_def tbind_def)
next
  case (Inr code)
  let ?s = "s\<lparr>scope := ScopeReceipt code, aborted := False\<rparr>"
  have "row_by inv_receipt_code code (filter (sees_invoice ?s) (invoices s)) = None"
    using assms Inr by (auto simp: row_by_None)
  then have "GetInvoiceByReceiptCode code ?s = (Inl ErrNoRows, ?s)"
    by (simp add: GetInvoiceByReceiptCode_def query_one_apply receipt_chain_def map_filter_simps)
  then have "lookup_tx k code ?s = (Inl receipt_ErrNotFound, ?s)"
    by (simp add: lookup_tx_def tbind_def attempt_def errors_is_def raise_def)
  with Inr show ?thesis
    by (simp add: receipt_get_def Lookup_def scope_defs scoped_def rollback_def answer_def attempt_def tbind_def
      receipt_ErrNotFound_def errors_is_def is_panic_def)
qed

end
