(* ===== verification/Transport.thy ===== *)
theory Transport
  imports Daraja
begin

text \<open>
  What the HTTP clients share. The network is an argument: it maps a request and the state of
  the world to the response and the next state, so that a client is a function on the world and
  the other side may be any service. A request keeps its method, address, headers and the value
  its body prints; an answer is an error of the transport, or a status with the body, or with
  the error of reading it. Clocks and the caller's context are read from the world. Name
  resolution, time-outs and the limit on the size of a body belong to the network.
\<close>

subsection \<open>Requests\<close>

datatype payload =
    PStr string
  | PInt int
  | PBool bool
  | PArr "payload list"
  | PObj "(string \<times> payload) list"

datatype credentials = NoAuth | BasicAuth string string | Bearer string

record HttpReq =
  hr_Method :: string
  hr_URL :: string
  hr_Auth :: credentials
  hr_Headers :: "(string \<times> string) list"
  hr_Body :: "payload option"

type_synonym net_answer = "go_error + nat \<times> (go_error + string)"

record 'w Net =
  net_Do :: "HttpReq \<Rightarrow> 'w \<Rightarrow> net_answer \<times> 'w"
  net_Now :: "'w \<Rightarrow> time"
  net_Ctx :: "'w \<Rightarrow> go_error option"
  net_J :: "string \<Rightarrow> json option"
  net_Print :: "payload \<Rightarrow> string"

text \<open>A member with \<open>omitempty\<close>.\<close>

definition omit_empty :: "string \<Rightarrow> string \<Rightarrow> (string \<times> payload) list" where
  "omit_empty name v = (if v = [] then [] else [(name, PStr v)])"

definition TrimRight :: "char \<Rightarrow> string \<Rightarrow> string" where
  "TrimRight c s = rev (dropWhile (\<lambda>x. x = c) (rev s))"

subsection \<open>Decoding\<close>

text \<open>
  \<open>json.Unmarshal\<close> with its error ignored: a member of the wrong kind leaves its field alone and
  the rest is still stored.
\<close>

fun lenient_members :: "'r fields \<Rightarrow> (string \<times> json) list \<Rightarrow> 'r \<Rightarrow> 'r" where
  "lenient_members fs [] r = r"
| "lenient_members fs ((k, j) # ms) r = lenient_members fs ms (case find (\<lambda>(n, _). equal_fold n k) fs of
     None \<Rightarrow> r
   | Some (_, put) \<Rightarrow> (case put r j of None \<Rightarrow> r | Some r' \<Rightarrow> r'))"

definition lenient_struct :: "'r fields \<Rightarrow> 'r \<Rightarrow> json \<Rightarrow> 'r" where
  "lenient_struct fs r j = (case j of JObj _ ms \<Rightarrow> lenient_members fs ms r | _ \<Rightarrow> r)"

definition put_bool :: "((bool \<Rightarrow> bool) \<Rightarrow> 'r \<Rightarrow> 'r) \<Rightarrow> 'r \<Rightarrow> json \<Rightarrow> 'r option" where
  "put_bool upd r j = (case j of JBool v \<Rightarrow> Some (upd (\<lambda>_. v) r) | JNull \<Rightarrow> Some r | _ \<Rightarrow> None)"

text \<open>A slice of structs.\<close>

definition dec_list :: "(json \<Rightarrow> 'a option) \<Rightarrow> json \<Rightarrow> 'a list option" where
  "dec_list d j = (case j of JNull \<Rightarrow> Some [] | JArr _ js \<Rightarrow> those (map d js) | _ \<Rightarrow> None)"

text \<open>
  The elements of a slice when the error is ignored: an element of the wrong kind is the zero
  value.
\<close>

definition lenient_list :: "(json \<Rightarrow> 'a) \<Rightarrow> json \<Rightarrow> 'a list" where
  "lenient_list d j = (case j of JArr _ js \<Rightarrow> map d js | _ \<Rightarrow> [])"

subsection \<open>A cached token\<close>

record TokenCache =
  tk_token :: string
  tk_exp :: time

definition no_token :: TokenCache where "no_token = \<lparr>tk_token = [], tk_exp = 0\<rparr>"

definition cached :: "'w Net \<Rightarrow> TokenCache \<Rightarrow> 'w \<Rightarrow> bool" where
  "cached net c w \<longleftrightarrow> tk_token c \<noteq> [] \<and> net_Now net w < tk_exp c"

definition token_request :: "string \<Rightarrow> string \<Rightarrow> string \<Rightarrow> HttpReq" where
  "token_request base key secret = \<lparr>hr_Method = ''GET'',
     hr_URL = TrimRight (CHR ''/'') base @ ''/v1/token/generate?grant_type=client_credentials'',
     hr_Auth = BasicAuth key secret, hr_Headers = [(''Accept'', ''application/json'')], hr_Body = None\<rparr>"

text \<open>KRA's two hosts have a separate address for the invoicing interface.\<close>

definition api_base :: "string \<Rightarrow> string \<Rightarrow> string" where
  "api_base apiBase baseURL =
     (let base = TrimRight (CHR ''/'') baseURL in
      if apiBase \<noteq> [] then TrimRight (CHR ''/'') apiBase
      else if base = ''https://sbx.kra.go.ke'' then ''https://etims-api-sbx.kra.go.ke''
      else if base = ''https://api.kra.go.ke'' then ''https://etims-api.kra.go.ke''
      else base)"

end
