(* ===== verification/Oscu.thy ===== *)
theory Oscu
  imports Transport MockProvider Identity
begin

text \<open>
  The direct adapter to KRA, \<open>internal/fiscal/oscu/oscu.go\<close>: the client with its token cache, the
  initialisation of a device, and the provider that submits invoices and credit notes and keeps
  the acknowledgements of this process. The network, the clock, the caller's context, the JSON
  parser and printer are arguments (Transport). Seconds of a token's life that are not whole are
  cut; the limits of a 64-bit float are not modelled, nor are the texts of decoding errors.
\<close>

subsection \<open>State and errors\<close>

record OscuConfig =
  oc_BaseURL :: string
  oc_APIBaseURL :: string
  oc_ConsumerKey :: string
  oc_ConsumerSecret :: string
  oc_DeviceSerial :: string

record 'w OscuClient =
  ox_cfg :: OscuConfig
  ox_net :: "'w Net"

record 'w OscuState =
  ox_token :: TokenCache
  ox_acks :: "string \<rightharpoonup> Ack"
  ox_world :: 'w

definition oscu_NewClient :: "'w Net \<Rightarrow> (string \<Rightarrow> string option) \<Rightarrow> OscuConfig \<Rightarrow> go_error + 'w OscuClient" where
  "oscu_NewClient net parse_url cfg =
     (if oc_BaseURL cfg = [] \<or> oc_ConsumerKey cfg = [] \<or> oc_ConsumerSecret cfg = []
      then Inl (ConfigError ''oscu_not_configured''
        ''KRA_OSCU_BASE_URL, KRA_OSCU_CONSUMER_KEY and KRA_OSCU_CONSUMER_SECRET are required'')
      else case parse_url (oc_BaseURL cfg) of
        Some e \<Rightarrow> Inl (ConfigError ''oscu_bad_url'' e)
      | None \<Rightarrow> Inr \<lparr>ox_cfg = cfg, ox_net = net\<rparr>)"

definition oscu_New :: "'w \<Rightarrow> 'w OscuState" where
  "oscu_New w = \<lparr>ox_token = no_token, ox_acks = Map.empty, ox_world = w\<rparr>"

definition oscu_apiBaseURL :: "'w OscuClient \<Rightarrow> string" where
  "oscu_apiBaseURL c = api_base (oc_APIBaseURL (ox_cfg c)) (oc_BaseURL (ox_cfg c))"

definition doRaw :: "'w Net \<Rightarrow> HttpReq \<Rightarrow> 'w \<Rightarrow> (go_error + nat \<times> string) \<times> 'w" where
  "doRaw net req w = (case net_Do net req w of
     (Inl e, w') \<Rightarrow> (Inl (if errors_is e Canceled \<or> errors_is e DeadlineExceeded then e
       else TransientError ''network'' (err_text e)), w')
   | (Inr (_, Inl e), w') \<Rightarrow> (Inl (TransientError ''network'' (err_text e)), w')
   | (Inr (status, Inr raw), w') \<Rightarrow> (Inr (status, raw), w'))"

definition gateway_returned :: "nat \<Rightarrow> string" where
  "gateway_returned status = ''KRA gateway returned '' @ digits 10 (int status)"

definition classifyStatus :: "nat \<Rightarrow> string \<Rightarrow> go_error option" where
  "classifyStatus status raw =
     (if 200 \<le> status \<and> status < 300 then None
      else if status = 401 \<or> status = 403 then Some (ConfigError ''invalid_api_key'' (gateway_returned status))
      else if status = 429 then Some (TransientError ''rate_limited'' ''KRA gateway rate limit'')
      else if 500 \<le> status then Some (TransientError ''upstream_5xx'' (gateway_returned status))
      else if 400 \<le> status
      then Some (ValidationError ''oscu_rejected'' (gateway_returned status @ '': '' @ take 300 raw) [])
      else None)"

definition classifyResultCode :: "string \<Rightarrow> string \<Rightarrow> go_error option" where
  "classifyResultCode code msg =
     (if code = [] then None
      else if code = ''001'' \<or> code = ''999'' then Some (TransientError ''oscu_system_busy'' msg)
      else Some (ValidationError (''oscu_rejected_'' @ code) msg []))"

definition oscu_bad_json :: go_error where
  "oscu_bad_json = TransientError ''oscu_bad_json'' ''invalid JSON''"

subsection \<open>Tokens\<close>

record tokenResponse =
  tr_AccessToken :: string
  tr_TokenType :: string
  tr_ExpiresIn :: "json option"

definition unmarshal_tokenResponse :: "json \<Rightarrow> tokenResponse option" where
  "unmarshal_tokenResponse = dec_struct
     [(''access_token'', put_string tr_AccessToken_update), (''token_type'', put_string tr_TokenType_update),
      (''expires_in'', put_raw tr_ExpiresIn_update)]
     \<lparr>tr_AccessToken = [], tr_TokenType = [], tr_ExpiresIn = None\<rparr>"

text \<open>The life the answer names, when it is positive, else 55 minutes.\<close>

definition token_ttl :: "json option \<Rightarrow> duration" where
  "token_ttl j = (case j of
     Some (JNum s) \<Rightarrow> (case Rat_SetString s of
         Some (num, den) \<Rightarrow> if 0 < num then wrap64 (quo num den * second) else 55 * minute
       | None \<Rightarrow> 55 * minute)
   | Some (JStr _ v) \<Rightarrow> (case ParseInt v of
         Some n \<Rightarrow> if 0 < n then wrap64 (n * second) else 55 * minute
       | None \<Rightarrow> 55 * minute)
   | _ \<Rightarrow> 55 * minute)"

definition oscu_Token :: "'w OscuClient \<Rightarrow> 'w OscuState \<Rightarrow> (go_error + string) \<times> 'w OscuState" where
  "oscu_Token c p =
     (if cached (ox_net c) (ox_token p) (ox_world p) then (Inr (tk_token (ox_token p)), p)
      else case doRaw (ox_net c) (token_request (oc_BaseURL (ox_cfg c)) (oc_ConsumerKey (ox_cfg c))
          (oc_ConsumerSecret (ox_cfg c))) (ox_world p) of
        (Inl e, w) \<Rightarrow> (Inl e, p\<lparr>ox_world := w\<rparr>)
      | (Inr (status, raw), w) \<Rightarrow> (case classifyStatus status raw of
          Some e \<Rightarrow> (Inl e, p\<lparr>ox_world := w\<rparr>)
        | None \<Rightarrow> (case Option.bind (net_J (ox_net c) raw) unmarshal_tokenResponse of
            Some tr \<Rightarrow>
              if tr_AccessToken tr = []
              then (Inl (TransientError ''oscu_bad_json'' ''token response missing access_token''), p\<lparr>ox_world := w\<rparr>)
              else (Inr (tr_AccessToken tr), p\<lparr>ox_world := w, ox_token := \<lparr>tk_token = tr_AccessToken tr,
                tk_exp = net_Now (ox_net c) w + (token_ttl (tr_ExpiresIn tr) - 30 * second)\<rparr>\<rparr>)
          | None \<Rightarrow> (Inl (TransientError ''oscu_bad_json'' ''token response missing access_token''), p\<lparr>ox_world := w\<rparr>))))"

subsection \<open>The envelope of a result\<close>

record resultEnvelope =
  re_ResultCd :: string
  re_ResultMsg :: string
  re_ResultDt :: string
  re_Data :: "json option"

definition unmarshal_envelope :: "json \<Rightarrow> resultEnvelope option" where
  "unmarshal_envelope = dec_struct
     [(''resultCd'', put_string re_ResultCd_update), (''resultMsg'', put_string re_ResultMsg_update),
      (''resultDt'', put_string re_ResultDt_update), (''data'', put_raw re_Data_update)]
     \<lparr>re_ResultCd = [], re_ResultMsg = [], re_ResultDt = [], re_Data = None\<rparr>"

text \<open>The data of an answer, or the error of its status, its text or its result code.\<close>

definition result_data :: "'w Net \<Rightarrow> nat \<Rightarrow> string \<Rightarrow> go_error + json option" where
  "result_data net status raw = (case classifyStatus status raw of
     Some e \<Rightarrow> Inl e
   | None \<Rightarrow> (case Option.bind (net_J net raw) unmarshal_envelope of
       None \<Rightarrow> Inl oscu_bad_json
     | Some env \<Rightarrow>
         if re_ResultCd env \<noteq> [] \<and> re_ResultCd env \<noteq> ''000''
         then Inl (case classifyResultCode (re_ResultCd env) (re_ResultMsg env) of Some e \<Rightarrow> e | None \<Rightarrow> oscu_bad_json)
         else Inr (re_Data env)))"

definition ignoring :: "'r fields \<Rightarrow> 'r \<Rightarrow> json option \<Rightarrow> 'r" where
  "ignoring fs r data = (case data of None \<Rightarrow> r | Some j \<Rightarrow> lenient_struct fs r j)"

subsection \<open>Device initialisation\<close>

record Info =
  if_TIN :: string
  if_TaxpayerName :: string
  if_BranchID :: string
  if_BranchName :: string
  if_DeviceID :: string
  if_SDCID :: string
  if_MRCNo :: string
  if_CmcKey :: string

definition no_info :: Info where
  "no_info = \<lparr>if_TIN = [], if_TaxpayerName = [], if_BranchID = [], if_BranchName = [], if_DeviceID = [],
     if_SDCID = [], if_MRCNo = [], if_CmcKey = []\<rparr>"

definition initData :: "json option \<Rightarrow> Info" where
  "initData = ignoring [(''info'', \<lambda>r j. Some (lenient_struct
     [(''tin'', put_string if_TIN_update), (''taxprNm'', put_string if_TaxpayerName_update),
      (''bhfId'', put_string if_BranchID_update), (''bhfNm'', put_string if_BranchName_update),
      (''dvcId'', put_string if_DeviceID_update), (''sdcId'', put_string if_SDCID_update),
      (''mrcNo'', put_string if_MRCNo_update), (''cmcKey'', put_string if_CmcKey_update)] r j))] no_info"

definition oscu_headers :: "string \<Rightarrow> string \<Rightarrow> (string \<times> string) list" where
  "oscu_headers tin bhf = [(''Content-Type'', ''application/json''), (''tin'', tin), (''bhfId'', bhf)]"

definition init_request :: "'w OscuClient \<Rightarrow> string \<Rightarrow> string \<Rightarrow> string \<Rightarrow> string \<Rightarrow> HttpReq" where
  "init_request c tok pin branch serial = \<lparr>hr_Method = ''POST'',
     hr_URL = oscu_apiBaseURL c @ ''/etims-api/selectInitOsdcInfo'', hr_Auth = Bearer tok,
     hr_Headers = oscu_headers pin branch,
     hr_Body = Some (PObj [(''tin'', PStr pin), (''bhfId'', PStr branch), (''dvcSrlNo'', PStr serial)])\<rparr>"

definition init_info :: "string \<Rightarrow> string \<Rightarrow> json option \<Rightarrow> go_error + Info" where
  "init_info pin branch data =
     (let d = initData data;
          info = d\<lparr>if_TIN := (if if_TIN d = [] then pin else if_TIN d),
            if_BranchID := (if if_BranchID d = [] then branch else if_BranchID d)\<rparr> in
      if if_CmcKey info = []
      then Inl (TransientError ''oscu_bad_ack'' ''device initialisation response is missing cmcKey'') else Inr info)"

definition Initialize ::
    "'w OscuClient \<Rightarrow> string \<Rightarrow> string \<Rightarrow> string \<Rightarrow> 'w OscuState \<Rightarrow> (go_error + Info) \<times> 'w OscuState" where
  "Initialize c pin branch0 serial0 p =
     (let branch = (if branch0 = [] then ''00'' else branch0);
          serial = (if serial0 = [] then oc_DeviceSerial (ox_cfg c) else serial0) in
      if pin = [] \<or> serial = []
      then (Inl (ValidationError ''oscu_init_missing_fields''
        ''pin and device serial are required to initialise an OSCU device'' []), p)
      else case oscu_Token c p of
        (Inl e, p1) \<Rightarrow> (Inl e, p1)
      | (Inr tok, p1) \<Rightarrow>
          (case doRaw (ox_net c) (init_request c tok pin branch serial) (ox_world p1) of
             (Inl e, w) \<Rightarrow> (Inl e, p1\<lparr>ox_world := w\<rparr>)
           | (Inr (status, raw), w) \<Rightarrow> ((case result_data (ox_net c) status raw of
               Inl e \<Rightarrow> Inl e | Inr data \<Rightarrow> init_info pin branch data), p1\<lparr>ox_world := w\<rparr>)))"

subsection \<open>The profile of a device\<close>

record deviceProfile =
  dp_DeviceID :: string
  dp_BranchID :: string
  dp_DeviceSerial :: string
  dp_CmcKey :: string
  dp_SDCID :: string
  dp_MRCNo :: string
  dp_TaxpayerName :: string

definition decodeDeviceProfile :: "'w Net \<Rightarrow> string \<Rightarrow> deviceProfile" where
  "decodeDeviceProfile net raw = ignoring
     [(''device_id'', put_string dp_DeviceID_update), (''branch_id'', put_string dp_BranchID_update),
      (''device_serial'', put_string dp_DeviceSerial_update), (''cmc_key'', put_string dp_CmcKey_update),
      (''sdc_id'', put_string dp_SDCID_update), (''mrc_no'', put_string dp_MRCNo_update),
      (''taxpayer_name'', put_string dp_TaxpayerName_update)]
     \<lparr>dp_DeviceID = [], dp_BranchID = [], dp_DeviceSerial = [], dp_CmcKey = [], dp_SDCID = [], dp_MRCNo = [],
      dp_TaxpayerName = []\<rparr> (if raw = [] then None else net_J net raw)"

definition marshal_profile :: "deviceProfile \<Rightarrow> payload" where
  "marshal_profile d = PObj ([(''device_id'', PStr (dp_DeviceID d)), (''branch_id'', PStr (dp_BranchID d)),
     (''device_serial'', PStr (dp_DeviceSerial d)), (''cmc_key'', PStr (dp_CmcKey d)),
     (''sdc_id'', PStr (dp_SDCID d)), (''mrc_no'', PStr (dp_MRCNo d))] @ omit_empty ''taxpayer_name'' (dp_TaxpayerName d))"

definition profile_of :: "Info \<Rightarrow> string \<Rightarrow> deviceProfile" where
  "profile_of info serial = \<lparr>dp_DeviceID = if_DeviceID info, dp_BranchID = if_BranchID info,
     dp_DeviceSerial = serial, dp_CmcKey = if_CmcKey info, dp_SDCID = if_SDCID info, dp_MRCNo = if_MRCNo info,
     dp_TaxpayerName = if_TaxpayerName info\<rparr>"

definition oscu_RegisterDevice ::
    "'w OscuClient \<Rightarrow> OrgFiscalProfile \<Rightarrow> 'w OscuState \<Rightarrow> (go_error + DeviceRef) \<times> 'w OscuState" where
  "oscu_RegisterDevice c prof p =
     (let branch = (if ofp_BranchID prof = [] then ''00'' else ofp_BranchID prof);
          serial = (if ofp_DeviceSerial prof = [] then oc_DeviceSerial (ox_cfg c) else ofp_DeviceSerial prof) in
      if \<not> PINRe (ofp_KRAPIN prof)
      then (Inl (ValidationError ''seller_pin_invalid'' ''KRA PIN must match A/P + 9 digits + letter'' ''kra_pin''), p)
      else if serial = []
      then (Inl (ValidationError ''device_serial_required''
        ''a KRA device serial (dvcSrlNo) is required to initialise OSCU'' ''device_serial''), p)
      else case Initialize c (ofp_KRAPIN prof) branch serial p of
        (Inl e, p') \<Rightarrow> (Inl e, p')
      | (Inr info, p') \<Rightarrow> (Inr \<lparr>dr_DeviceID = if_DeviceID info, dr_BranchID = if_BranchID info,
          dr_Raw = net_Print (ox_net c) (marshal_profile (profile_of info serial))\<rparr>, p'))"

subsection \<open>Sales\<close>

definition wireLine :: "int \<Rightarrow> Line \<Rightarrow> int \<Rightarrow> int \<Rightarrow> int \<Rightarrow> payload" where
  "wireLine seq l taxable tax tot = PObj [(''itemSeq'', PInt seq), (''itemCd'', PStr (ItemCode l)),
     (''itemNm'', PStr (Description l)), (''qty'', PStr (Qty l)), (''prc'', PInt (UnitPriceCents l)),
     (''splyAmt'', PInt taxable), (''taxTyCd'', PStr (LineTaxCategory l)), (''taxblAmt'', PInt taxable),
     (''taxAmt'', PInt tax), (''totAmt'', PInt tot)]"

fun toWireLines :: "int \<Rightarrow> Line list \<Rightarrow> payload list" where
  "toWireLines n [] = []"
| "toWireLines n (l # ls) = wireLine n l (wrap64 (LineTotalCents l - LineTaxCents l)) (LineTaxCents l) (LineTotalCents l)
     # toWireLines (n + 1) ls"

fun toWireCreditLines :: "int \<Rightarrow> Line list \<Rightarrow> payload list" where
  "toWireCreditLines n [] = []"
| "toWireCreditLines n (l # ls) = wireLine n l (wrap64 (- abs64 (wrap64 (LineTotalCents l - LineTaxCents l))))
     (wrap64 (- abs64 (LineTaxCents l))) (wrap64 (- abs64 (LineTotalCents l))) # toWireCreditLines (n + 1) ls"

record wireSale =
  ws_TIN :: string
  ws_BhfID :: string
  ws_InvcNo :: string
  ws_OrgInvcNo :: string
  ws_CustTin :: string
  ws_CustNm :: string
  ws_RcptTyCd :: string
  ws_RfdRsnCd :: string
  ws_SalesDt :: string
  ws_TotItemCnt :: int
  ws_TotTaxblAmt :: int
  ws_TotTaxAmt :: int
  ws_TotAmt :: int
  ws_ItemList :: "payload list"

definition marshal_sale :: "wireSale \<Rightarrow> payload" where
  "marshal_sale s = PObj ([(''tin'', PStr (ws_TIN s)), (''bhfId'', PStr (ws_BhfID s)), (''invcNo'', PStr (ws_InvcNo s))] @
     omit_empty ''orgInvcNo'' (ws_OrgInvcNo s) @ omit_empty ''custTin'' (ws_CustTin s) @
     omit_empty ''custNm'' (ws_CustNm s) @ [(''rcptTyCd'', PStr (ws_RcptTyCd s))] @
     omit_empty ''rfdRsnCd'' (ws_RfdRsnCd s) @ [(''pmtTyCd'', PStr ''04''), (''salesDt'', PStr (ws_SalesDt s)),
      (''totItemCnt'', PInt (ws_TotItemCnt s)), (''totTaxblAmt'', PInt (ws_TotTaxblAmt s)),
      (''totTaxAmt'', PInt (ws_TotTaxAmt s)), (''totAmt'', PInt (ws_TotAmt s)), (''itemList'', PArr (ws_ItemList s))])"

text \<open>\<open>t.UTC().Format("20060102")\<close>\<close>

definition sales_date :: "time \<Rightarrow> string" where
  "sales_date t = (case civil (t div day) of (y, m, d) \<Rightarrow> zero_pad 4 y @ two m @ two d)"

definition coalesce_text :: "string list \<Rightarrow> string" where
  "coalesce_text vals = (case dropWhile (\<lambda>v. v = []) vals of [] \<Rightarrow> [] | v # _ \<Rightarrow> v)"

definition device_not_registered :: go_error where
  "device_not_registered = ConfigError ''device_not_registered''
     ''this org has no cmcKey yet; configure eTIMS (RegisterDevice) first''"

record saleData =
  sd_RcptNo :: string
  sd_IntrlData :: string
  sd_RcptSign :: string
  sd_QrCodeURL :: string

definition unmarshal_saleData :: "json option \<Rightarrow> saleData" where
  "unmarshal_saleData = ignoring
     [(''rcptNo'', put_string sd_RcptNo_update), (''intrlData'', put_string sd_IntrlData_update),
      (''rcptSign'', put_string sd_RcptSign_update), (''qrCodeUrl'', put_string sd_QrCodeURL_update)]
     \<lparr>sd_RcptNo = [], sd_IntrlData = [], sd_RcptSign = [], sd_QrCodeURL = []\<rparr>"

definition sale_ack :: "time \<Rightarrow> string \<Rightarrow> json option \<Rightarrow> go_error + Ack" where
  "sale_ack now raw data =
     (let d = unmarshal_saleData data; kraNo = (if sd_RcptNo d = [] then sd_IntrlData d else sd_RcptNo d) in
      if kraNo = [] \<or> sd_RcptSign d = []
      then Inl (TransientError ''oscu_bad_ack'' ''sales response missing rcptNo/rcptSign'')
      else Inr \<lparr>KRAInvoiceNo = kraNo, Signature = sd_RcptSign d, QRPayload = sd_QrCodeURL d, ReceivedAt = now, Raw = raw\<rparr>)"

definition sale_request :: "'w OscuClient \<Rightarrow> string \<Rightarrow> deviceProfile \<Rightarrow> wireSale \<Rightarrow> HttpReq" where
  "sale_request c tok prof s = \<lparr>hr_Method = ''POST'', hr_URL = oscu_apiBaseURL c @ ''/etims-api/insertTrnsSalesReq'',
     hr_Auth = Bearer tok, hr_Headers = oscu_headers (ws_TIN s) (ws_BhfID s) @ [(''cmcKey'', dp_CmcKey prof)],
     hr_Body = Some (marshal_sale s)\<rparr>"

definition oscu_post :: "'w OscuClient \<Rightarrow> string \<Rightarrow> deviceProfile \<Rightarrow> wireSale \<Rightarrow> 'w OscuState \<Rightarrow> ack_result \<times> 'w OscuState" where
  "oscu_post c i prof s p = (case oscu_Token c p of
     (Inl e, p1) \<Rightarrow> ((no_ack, Some e), p1)
   | (Inr tok, p1) \<Rightarrow>
       (case doRaw (ox_net c) (sale_request c tok prof s) (ox_world p1) of
          (Inl e, w) \<Rightarrow> ((no_ack, Some e), p1\<lparr>ox_world := w\<rparr>)
        | (Inr (status, raw), w) \<Rightarrow>
            (case (case result_data (ox_net c) status raw of
                Inl e \<Rightarrow> Inl e | Inr data \<Rightarrow> sale_ack (net_Now (ox_net c) w) raw data) of
               Inl e \<Rightarrow> ((no_ack, Some e), p1\<lparr>ox_world := w\<rparr>)
             | Inr ack \<Rightarrow> ((ack, None), p1\<lparr>ox_world := w, ox_acks := (ox_acks p1)(i \<mapsto> ack)\<rparr>))))"

definition oscu_submit :: "'w OscuClient \<Rightarrow> string \<Rightarrow> deviceProfile \<Rightarrow> wireSale \<Rightarrow> 'w OscuState \<Rightarrow> ack_result \<times> 'w OscuState" where
  "oscu_submit c i prof s p = (case net_Ctx (ox_net c) (ox_world p) of
     Some e \<Rightarrow> ((no_ack, Some e), p)
   | None \<Rightarrow> (case ox_acks p i of
       Some ack \<Rightarrow> ((ack, None), p)
     | None \<Rightarrow> oscu_post c i prof (s\<lparr>ws_InvcNo := i\<rparr>) p))"

definition invoice_sale :: "FiscalInvoice \<Rightarrow> deviceProfile \<Rightarrow> wireSale" where
  "invoice_sale d prof = \<lparr>ws_TIN = doc_SellerPIN d,
     ws_BhfID = coalesce_text [dp_BranchID prof, doc_BranchID d, ''00''],
     ws_InvcNo = [], ws_OrgInvcNo = [], ws_CustTin = doc_BuyerPIN d, ws_CustNm = [], ws_RcptTyCd = ''S'',
     ws_RfdRsnCd = [], ws_SalesDt = sales_date (doc_IssuedAt d), ws_TotItemCnt = int (length (doc_Lines d)),
     ws_TotTaxblAmt = doc_SubtotalCents d, ws_TotTaxAmt = doc_TaxCents d, ws_TotAmt = doc_TotalCents d,
     ws_ItemList = toWireLines 1 (doc_Lines d)\<rparr>"

definition oscu_SubmitInvoice :: "'w OscuClient \<Rightarrow> FiscalInvoice \<Rightarrow> 'w OscuState \<Rightarrow> ack_result \<times> 'w OscuState" where
  "oscu_SubmitInvoice c d p = (case validateInvoice d of
     Some e \<Rightarrow> ((no_ack, Some e), p)
   | None \<Rightarrow>
       (let prof = decodeDeviceProfile (ox_net c) (doc_DeviceProfile d) in
        if dp_CmcKey prof = [] then ((no_ack, Some device_not_registered), p)
        else oscu_submit c (doc_ID d) prof (invoice_sale d prof) p))"

definition credit_sale :: "time \<Rightarrow> CreditNote \<Rightarrow> deviceProfile \<Rightarrow> wireSale" where
  "credit_sale now n prof = (case Totals (cn_Lines n) of (subtotal, tax, tot) \<Rightarrow>
     \<lparr>ws_TIN = doc_SellerPIN (cn_OriginalInvoice n),
      ws_BhfID = coalesce_text [dp_BranchID prof, doc_BranchID (cn_OriginalInvoice n), ''00''],
      ws_InvcNo = [], ws_OrgInvcNo = cn_OriginalKRANo n, ws_CustTin = doc_BuyerPIN (cn_OriginalInvoice n),
      ws_CustNm = doc_BuyerName (cn_OriginalInvoice n), ws_RcptTyCd = ''R'',
      ws_RfdRsnCd = (if cn_ReasonCode n = [] then ''01'' else cn_ReasonCode n),
      ws_SalesDt = sales_date now, ws_TotItemCnt = int (length (cn_Lines n)),
      ws_TotTaxblAmt = wrap64 (- abs64 subtotal), ws_TotTaxAmt = wrap64 (- abs64 tax),
      ws_TotAmt = wrap64 (- abs64 tot), ws_ItemList = toWireCreditLines 1 (cn_Lines n)\<rparr>)"

definition oscu_SubmitCreditNote :: "'w OscuClient \<Rightarrow> CreditNote \<Rightarrow> 'w OscuState \<Rightarrow> ack_result \<times> 'w OscuState" where
  "oscu_SubmitCreditNote c n p =
     (if cn_OriginalKRANo n = [] then ((no_ack, Some (ValidationError ''original_invoice_missing''
        ''credit note needs the original KRA invoice number'' ''original_kra_no'')), p)
      else
        (let prof = decodeDeviceProfile (ox_net c) (cn_DeviceProfile n);
             s = credit_sale (net_Now (ox_net c) (ox_world p)) n prof in
         if dp_CmcKey prof = [] then ((no_ack, Some device_not_registered), p)
         else if 0 \<le> ws_TotAmt s then ((no_ack, Some (ValidationError ''credit_note_not_negative''
           ''credit note total must be negative'' ''total_cents'')), p)
         else oscu_submit c (cn_ID n) prof s p))"

definition oscu_LookupInvoice :: "'w OscuClient \<Rightarrow> string \<Rightarrow> 'w OscuState \<Rightarrow> ack_result \<times> 'w OscuState" where
  "oscu_LookupInvoice c i p = (case net_Ctx (ox_net c) (ox_world p) of
     Some e \<Rightarrow> ((no_ack, Some e), p)
   | None \<Rightarrow> (case ox_acks p i of Some ack \<Rightarrow> ((ack, None), p) | None \<Rightarrow> ((no_ack, Some ErrLookupNotSupported), p)))"

definition oscu_provider :: "'w OscuClient \<Rightarrow> 'w OscuState Provider" where
  "oscu_provider c = \<lparr>provider_Name = ''oscu'', SubmitInvoice = oscu_SubmitInvoice c,
     SubmitCreditNote = oscu_SubmitCreditNote c, LookupInvoice = oscu_LookupInvoice c\<rparr>"

definition oscu_Health :: "'w OscuClient \<Rightarrow> 'w OscuState \<Rightarrow> go_error option \<times> 'w OscuState" where
  "oscu_Health c p = apfst (case_sum Some (\<lambda>_. None)) (oscu_Token c p)"

subsection \<open>Item codes\<close>

record ItemCodeEntry =
  ic_Code :: string
  ic_Description :: string
  ic_TaxCategory :: string

definition item_code_entry :: "json \<Rightarrow> ItemCodeEntry" where
  "item_code_entry = lenient_struct
     [(''itemClsCd'', put_string ic_Code_update), (''itemClsNm'', put_string ic_Description_update),
      (''taxTyCd'', put_string ic_TaxCategory_update)] \<lparr>ic_Code = [], ic_Description = [], ic_TaxCategory = []\<rparr>"

text \<open>\<open>escape\<close> is \<open>url.QueryEscape\<close>.\<close>

definition oscu_LookupItemCodes ::
    "'w OscuClient \<Rightarrow> (string \<Rightarrow> string) \<Rightarrow> string \<Rightarrow> 'w OscuState \<Rightarrow> (go_error + ItemCodeEntry list) \<times> 'w OscuState" where
  "oscu_LookupItemCodes c escape q p = (case oscu_Token c p of
     (Inl e, p1) \<Rightarrow> (Inl e, p1)
   | (Inr tok, p1) \<Rightarrow>
       (case doRaw (ox_net c) \<lparr>hr_Method = ''GET'', hr_URL = oscu_apiBaseURL c @ ''/etims-api/selectItemClsCodeList'' @
           (if q \<noteq> [] then ''?cls='' @ escape q else []), hr_Auth = Bearer tok, hr_Headers = [], hr_Body = None\<rparr> (ox_world p1) of
          (Inl e, w) \<Rightarrow> (Inl e, p1\<lparr>ox_world := w\<rparr>)
        | (Inr (status, raw), w) \<Rightarrow> ((case result_data (ox_net c) status raw of
            Inl e \<Rightarrow> Inl e
          | Inr data \<Rightarrow> Inr (filter (\<lambda>x. tax_category_valid (ic_TaxCategory x))
              (ignoring [(''itemClsList'', \<lambda>r j. Some (lenient_list item_code_entry j))] [] data))), p1\<lparr>ox_world := w\<rparr>)))"

end
