(* ===== verification/OscuProps.thy ===== *)
theory OscuProps
  imports Oscu SubmitProps
begin

text \<open>
  The OSCU adapter keeps the contract of the provider interface within one process (the
  interpretation \<open>oscu\<close>). Its acknowledgements live in memory and KRA has no lookup by our id, so an
  answer that is lost is not recovered: the retry sends the document again.
\<close>

subsection \<open>The contract\<close>

definition oscu_inv :: "'w OscuState \<Rightarrow> bool" where
  "oscu_inv p \<longleftrightarrow> (\<forall>i a. ox_acks p i = Some a \<longrightarrow> KRAInvoiceNo a \<noteq> [])"

lemma Token_acks: "oscu_Token c p = (r, p') \<Longrightarrow> ox_acks p' = ox_acks p"
  by (auto simp: oscu_Token_def split: if_splits prod.splits sum.splits option.splits)

lemma sale_ack_no: "sale_ack now raw data = Inr ack \<Longrightarrow> KRAInvoiceNo ack \<noteq> []"
  by (auto simp: sale_ack_def Let_def split: if_splits)

text \<open>A post leaves the acknowledgements alone, or adds the one it answers.\<close>

lemma oscu_post_cases:
  assumes "oscu_post c i prof s p = ((a, e), p')"
  shows "e \<noteq> None \<and> ox_acks p' = ox_acks p \<or>
    e = None \<and> ox_acks p' = (ox_acks p)(i \<mapsto> a) \<and> KRAInvoiceNo a \<noteq> []"
  using assms
  by (auto simp: oscu_post_def split: prod.splits sum.splits dest!: Token_acks dest: sale_ack_no)

lemma oscu_submit_cases:
  assumes "oscu_submit c i prof s p = ((a, e), p')"
  shows "e \<noteq> None \<and> ox_acks p' = ox_acks p \<or> e = None \<and> ox_acks p i = Some a \<and> p' = p \<or>
    e = None \<and> ox_acks p i = None \<and> ox_acks p' = (ox_acks p)(i \<mapsto> a) \<and> KRAInvoiceNo a \<noteq> []"
  using assms oscu_post_cases [of c i prof "s\<lparr>ws_InvcNo := i\<rparr>" p a e p']
  by (auto simp: oscu_submit_def split: option.splits)

lemma oscu_submit_ok: "oscu_submit c i prof s p = ((a, None), p') \<Longrightarrow> ox_acks p' i = Some a"
  by (drule oscu_submit_cases) auto

lemma oscu_submit_stable:
  "oscu_submit c i prof s p = (r, p') \<Longrightarrow> ox_acks p j = Some a \<Longrightarrow> ox_acks p' j = Some a"
  using oscu_submit_cases [of c i prof s p "fst r" "snd r" p'] by (auto simp: fun_upd_def)

lemma oscu_submit_inv: "oscu_inv p \<Longrightarrow> oscu_inv (snd (oscu_submit c i prof s p))"
proof (cases "oscu_submit c i prof s p")
  case (Pair r p')
  assume iv: "oscu_inv p"
  obtain a e where r: "r = (a, e)" by (cases r)
  from oscu_submit_cases [OF Pair [unfolded r]] iv show ?thesis
    unfolding Pair by (auto simp: oscu_inv_def split: if_splits)
qed

lemmas oscu_calls_defs = oscu_provider_def oscu_SubmitInvoice_def oscu_SubmitCreditNote_def
  oscu_LookupInvoice_def Let_def

interpretation oscu: fiscal_provider "oscu_provider c" ox_acks oscu_inv for c :: "'w OscuClient"
proof
  fix p p' :: "'w OscuState" and d a r i n
  show "SubmitInvoice (oscu_provider c) d p = ((a, None), p') \<Longrightarrow> ox_acks p' (doc_ID d) = Some a"
    by (auto simp: oscu_calls_defs split: option.splits if_splits dest: oscu_submit_ok)
  show "SubmitCreditNote (oscu_provider c) n p = ((a, None), p') \<Longrightarrow> ox_acks p' (cn_ID n) = Some a"
    by (auto simp: oscu_calls_defs split: if_splits dest: oscu_submit_ok)
  show "SubmitInvoice (oscu_provider c) d p = (r, p') \<Longrightarrow> ox_acks p i = Some a \<Longrightarrow> ox_acks p' i = Some a"
    by (auto simp: oscu_calls_defs split: option.splits if_splits dest: oscu_submit_stable)
  show "SubmitCreditNote (oscu_provider c) n p = (r, p') \<Longrightarrow> ox_acks p i = Some a \<Longrightarrow> ox_acks p' i = Some a"
    by (auto simp: oscu_calls_defs split: if_splits dest: oscu_submit_stable)
  show "LookupInvoice (oscu_provider c) i p = (r, p') \<Longrightarrow> p' = p"
    by (auto simp: oscu_calls_defs split: option.splits)
  show "LookupInvoice (oscu_provider c) i p = ((a, None), p') \<Longrightarrow> ox_acks p i = Some a"
    by (auto simp: oscu_calls_defs split: option.splits)
  show "oscu_inv p \<Longrightarrow> oscu_inv (snd (SubmitInvoice (oscu_provider c) d p))"
    by (auto simp: oscu_calls_defs oscu_submit_inv split: option.splits)
  show "oscu_inv p \<Longrightarrow> oscu_inv (snd (SubmitCreditNote (oscu_provider c) n p))"
    by (auto simp: oscu_calls_defs oscu_submit_inv)
  show "oscu_inv p \<Longrightarrow> ox_acks p i = Some a \<Longrightarrow> KRAInvoiceNo a \<noteq> []"
    by (simp add: oscu_inv_def)
qed

text \<open>A document this process has an acknowledgement for is not sent again.\<close>

lemma oscu_acked_not_sent:
  assumes "ox_acks p (doc_ID d) = Some a" and "validateInvoice d = None" and "net_Ctx (ox_net c) (ox_world p) = None"
    and "dp_CmcKey (decodeDeviceProfile (ox_net c) (doc_DeviceProfile d)) \<noteq> []"
  shows "SubmitInvoice (oscu_provider c) d p = ((a, None), p)"
  using assms by (simp add: oscu_calls_defs oscu_submit_def)

subsection \<open>A lost answer\<close>

definition ready :: "'w OscuClient \<Rightarrow> FiscalInvoice \<Rightarrow> 'w OscuState \<Rightarrow> bool" where
  "ready c d p \<longleftrightarrow> validateInvoice d = None \<and>
     dp_CmcKey (decodeDeviceProfile (ox_net c) (doc_DeviceProfile d)) \<noteq> [] \<and>
     ox_acks p (doc_ID d) = None \<and> cached (ox_net c) (ox_token p) (ox_world p) \<and>
     net_Ctx (ox_net c) (ox_world p) = None"

definition post_of :: "'w OscuClient \<Rightarrow> FiscalInvoice \<Rightarrow> 'w OscuState \<Rightarrow> HttpReq" where
  "post_of c d p = (let prof = decodeDeviceProfile (ox_net c) (doc_DeviceProfile d) in
     sale_request c (tk_token (ox_token p)) prof ((invoice_sale d prof)\<lparr>ws_InvcNo := doc_ID d\<rparr>))"

lemma submit_ready:
  assumes "ready c d p"
  shows "SubmitInvoice (oscu_provider c) d p =
    oscu_post c (doc_ID d) (decodeDeviceProfile (ox_net c) (doc_DeviceProfile d))
      ((invoice_sale d (decodeDeviceProfile (ox_net c) (doc_DeviceProfile d)))\<lparr>ws_InvcNo := doc_ID d\<rparr>) p"
  using assms by (simp add: ready_def oscu_calls_defs oscu_submit_def)

lemma submit_ready_posts:
  assumes "ready c d p" and "net_Do (ox_net c) (post_of c d p) (ox_world p) = (ans, w)"
  shows "ox_world (snd (SubmitInvoice (oscu_provider c) d p)) = w \<and>
    ox_token (snd (SubmitInvoice (oscu_provider c) d p)) = ox_token p"
  using assms unfolding submit_ready [OF assms(1)]
  by (auto simp: oscu_post_def oscu_Token_def ready_def post_of_def Let_def doRaw_def split: sum.splits prod.splits)

lemma lost_post:
  assumes "ready c d p" and "net_Do (ox_net c) (post_of c d p) (ox_world p) = (Inl e, w)"
    and "\<not> errors_is e Canceled" "\<not> errors_is e DeadlineExceeded"
  shows "SubmitInvoice (oscu_provider c) d p =
    ((no_ack, Some (TransientError ''network'' (err_text e))), p\<lparr>ox_world := w\<rparr>)"
  using assms unfolding submit_ready [OF assms(1)]
  by (simp add: oscu_post_def oscu_Token_def ready_def post_of_def Let_def doRaw_def)

text \<open>The lookup before the retry finds nothing and does not stop it.\<close>

lemma retry_submits:
  assumes "cl_kind cl \<noteq> ''CREDIT_NOTE''" and "ox_acks p (doc_ID (cl_doc cl)) = None"
    and "net_Ctx (ox_net c) (ox_world p) = None"
  shows "submit_call (oscu_provider c) cl p = SubmitInvoice (oscu_provider c) (cl_doc cl) p"
  using assms
  by (simp add: submit_call_def lookup_first_def oscu_provider_def oscu_LookupInvoice_def errors_is_def
      isNotFound_def split: prod.splits)

text \<open>
  C37. KRA's answer to a submission is lost on the way (the connection fails after the request was
  sent, so KRA may have accepted the invoice). The adapter keeps nothing, the failure is transient,
  and the retry, in spite of its lookup, sends the same invoice to KRA a second time.
\<close>

theorem oscu_lost_answer_resubmits:
  assumes first: "ready c d p" "net_Do (ox_net c) (post_of c d p) (ox_world p) = (Inl e, w)"
      "\<not> errors_is e Canceled" "\<not> errors_is e DeadlineExceeded"
    and later: "cached (ox_net c) (ox_token p) w" "net_Ctx (ox_net c) w = None"
    and retry: "cl_doc cl = d" "cl_kind cl \<noteq> ''CREDIT_NOTE''"
  shows "\<exists>p1. SubmitInvoice (oscu_provider c) d p = ((no_ack, Some (TransientError ''network'' (err_text e))), p1) \<and>
    Classify (Some (TransientError ''network'' (err_text e))) = ClassRetryable \<and>
    ox_acks p1 (doc_ID d) = None \<and>
    post_of c d p1 = post_of c d p \<and>
    ox_world (snd (submit_call (oscu_provider c) cl p1)) = snd (net_Do (ox_net c) (post_of c d p) w)"
proof (intro exI conjI)
  let ?p1 = "p\<lparr>ox_world := w\<rparr>"
  show "SubmitInvoice (oscu_provider c) d p = ((no_ack, Some (TransientError ''network'' (err_text e))), ?p1)"
    using first by (rule lost_post)
  show "ox_acks ?p1 (doc_ID d) = None" using first(1) by (simp add: ready_def)
  show same: "post_of c d ?p1 = post_of c d p" by (simp add: post_of_def)
  have again: "ready c d ?p1" using first(1) later by (simp add: ready_def)
  obtain ans w2 where net: "net_Do (ox_net c) (post_of c d ?p1) w = (ans, w2)" by fastforce
  have "submit_call (oscu_provider c) cl ?p1 = SubmitInvoice (oscu_provider c) d ?p1"
    using retry first(1) later(2) by (subst retry_submits) (simp_all add: ready_def)
  with submit_ready_posts [OF again] net
  show "ox_world (snd (submit_call (oscu_provider c) cl ?p1)) = snd (net_Do (ox_net c) (post_of c d p) w)"
    by (simp add: same)
qed (simp add: Classify_def)

text \<open>A network that records what it is sent and answers nothing.\<close>

definition dead_net :: "HttpReq list Net" where
  "dead_net = \<lparr>net_Do = (\<lambda>req w. (Inl (ErrorString ''EOF''), w @ [req])), net_Now = (\<lambda>_. 0), net_Ctx = (\<lambda>_. None),
     net_J = (\<lambda>_. Some (JObj [] [(''cmc_key'', JStr [] ''K'')])), net_Print = (\<lambda>_. [])\<rparr>"

definition sample_client :: "HttpReq list OscuClient" where
  "sample_client = \<lparr>ox_cfg = \<lparr>oc_BaseURL = ''https://kra'', oc_APIBaseURL = [], oc_ConsumerKey = ''k'',
     oc_ConsumerSecret = ''s'', oc_DeviceSerial = ''D1''\<rparr>, ox_net = dead_net\<rparr>"

definition sample_state :: "HttpReq list OscuState" where
  "sample_state = (oscu_New [])\<lparr>ox_token := \<lparr>tk_token = ''T'', tk_exp = 60\<rparr>\<rparr>"

definition sample_sale :: FiscalInvoice where
  "sample_sale = sample_doc\<lparr>doc_DeviceProfile := ''P''\<rparr>"

definition sample_claim :: Claim where
  "sample_claim = (no_claim (new_Result 5))\<lparr>cl_doc := sample_sale, cl_isRetry := True, cl_kind := ''INVOICE''\<rparr>"

lemma sample_ready: "ready sample_client sample_sale sample_state"
  unfolding ready_def
proof (intro conjI)
  show "validateInvoice sample_sale = None" by code_simp
  show "dp_CmcKey (decodeDeviceProfile (ox_net sample_client) (doc_DeviceProfile sample_sale)) \<noteq> []" by code_simp
qed (simp_all add: sample_state_def oscu_New_def sample_client_def dead_net_def cached_def)

theorem oscu_lost_answer_resubmits_witness:
  "\<exists>p1. snd (SubmitInvoice (oscu_provider sample_client) sample_sale sample_state) = p1 \<and>
     ox_world (snd (submit_call (oscu_provider sample_client) sample_claim p1)) =
       [post_of sample_client sample_sale sample_state, post_of sample_client sample_sale sample_state]"
proof -
  let ?req = "post_of sample_client sample_sale sample_state"
  have net: "net_Do (ox_net sample_client) ?req w = (Inl (ErrorString ''EOF''), w @ [?req])" for w
    by (simp add: sample_client_def dead_net_def)
  have w: "ox_world sample_state = []" by (simp add: sample_state_def oscu_New_def)
  from oscu_lost_answer_resubmits [OF sample_ready, unfolded net w, OF refl, of sample_claim] show ?thesis
    by (auto simp: net errors_is_def sample_claim_def no_claim_def sample_client_def dead_net_def cached_def
      sample_state_def oscu_New_def)
qed

subsection \<open>What the wire carries\<close>

lemma neg_abs64: "in_int64 x \<Longrightarrow> wrap64 (- abs64 x) = - \<bar>x\<bar>"
proof (cases "x = - (2 ^ 63)")
  case False
  assume x: "in_int64 x"
  with False have "in_int64 (- \<bar>x\<bar>)" by (auto simp: in_int64_def)
  then show ?thesis unfolding abs64_nonneg [OF x False] by (rule wrap64_id)
qed (simp add: abs64_def wrap64_def)

text \<open>
  A credit note that reaches KRA names the invoice it corrects and takes its total away.
\<close>

lemma credit_note_sent:
  assumes "net_Ctx (ox_net c) (ox_world p) = None"
    and "snd (fst (SubmitCreditNote (oscu_provider c) n p)) = None"
  shows "cn_OriginalKRANo n \<noteq> [] \<and>
    ws_TotAmt (credit_sale (net_Now (ox_net c) (ox_world p)) n (decodeDeviceProfile (ox_net c) (cn_DeviceProfile n))) < 0"
  using assms by (auto simp: oscu_calls_defs split: if_splits)

subsection \<open>The device profile\<close>

lemma Initialize_key:
  assumes "Initialize c pin branch serial p = (Inr info, p')"
  shows "if_CmcKey info \<noteq> []"
  using assms by (auto simp: Initialize_def init_info_def Let_def split: if_splits sum.splits prod.splits)

definition profile_members :: "deviceProfile \<Rightarrow> (string \<times> string) list" where
  "profile_members d = [(''device_id'', dp_DeviceID d), (''branch_id'', dp_BranchID d),
     (''device_serial'', dp_DeviceSerial d), (''cmc_key'', dp_CmcKey d), (''sdc_id'', dp_SDCID d),
     (''mrc_no'', dp_MRCNo d)] @ (if dp_TaxpayerName d = [] then [] else [(''taxpayer_name'', dp_TaxpayerName d)])"

lemma marshal_profile_members:
  "marshal_profile d = PObj (map (\<lambda>(k, v). (k, PStr v)) (profile_members d))"
  by (simp add: marshal_profile_def profile_members_def omit_empty_def)

lemma profile_names:
  "list_all (\<lambda>a. list_all (\<lambda>b. equal_fold a b = (a = b)) [''device_id'', ''branch_id'', ''device_serial'', ''cmc_key'',
     ''sdc_id'', ''mrc_no'', ''taxpayer_name'']) [''device_id'', ''branch_id'', ''device_serial'', ''cmc_key'', ''sdc_id'',
     ''mrc_no'', ''taxpayer_name'']"
  by code_simp

lemma decode_profile:
  assumes "net_J net raw = Some (JObj t (map (\<lambda>(k, v). (k, JStr (esc v) v)) (profile_members d)))" and "raw \<noteq> []"
  shows "decodeDeviceProfile net raw = d"
  using assms by (cases d) (simp add: decodeDeviceProfile_def profile_members_def ignoring_def lenient_struct_def
    profile_names [simplified] put_string_def)

text \<open>
  What \<open>RegisterDevice\<close> prints into the profile of the organisation is what a submission reads
  back, the communication key in clear among it, whatever the texts are; the printer and the
  parser of JSON agree on objects of strings.
\<close>

theorem device_profile_roundtrip:
  assumes json: "\<And>ms. \<exists>t. net_J (ox_net c) (net_Print (ox_net c) (PObj (map (\<lambda>(k, v). (k, PStr v)) ms))) =
      Some (JObj t (map (\<lambda>(k, v). (k, JStr (escape v) v)) ms))"
    and empty: "\<And>v. net_Print (ox_net c) v \<noteq> []"
    and run: "oscu_RegisterDevice c prof p = (Inr ref, p')"
  shows "\<exists>info. decodeDeviceProfile (ox_net c) (dr_Raw ref) =
      profile_of info (if ofp_DeviceSerial prof = [] then oc_DeviceSerial (ox_cfg c) else ofp_DeviceSerial prof) \<and>
    dr_DeviceID ref = if_DeviceID info \<and> dr_BranchID ref = if_BranchID info \<and> if_CmcKey info \<noteq> []"
proof -
  let ?serial = "if ofp_DeviceSerial prof = [] then oc_DeviceSerial (ox_cfg c) else ofp_DeviceSerial prof"
  from run obtain info branch q where init: "Initialize c (ofp_KRAPIN prof) branch ?serial p = (Inr info, q)"
    and ref: "ref = \<lparr>dr_DeviceID = if_DeviceID info, dr_BranchID = if_BranchID info,
      dr_Raw = net_Print (ox_net c) (marshal_profile (profile_of info ?serial))\<rparr>"
    by (auto simp: oscu_RegisterDevice_def Let_def split: if_splits sum.splits prod.splits)
  from json [of "profile_members (profile_of info ?serial)"] obtain t where
    "net_J (ox_net c) (dr_Raw ref) = Some (JObj t (map (\<lambda>(k, v). (k, JStr (escape v) v)) (profile_members (profile_of info ?serial))))"
    unfolding ref marshal_profile_members by auto
  then have "decodeDeviceProfile (ox_net c) (dr_Raw ref) = profile_of info ?serial"
    by (rule decode_profile) (simp add: ref empty)
  moreover have "if_CmcKey info \<noteq> []" using init by (rule Initialize_key)
  ultimately show ?thesis by (auto simp: ref)
qed

text \<open>A printer of objects of strings, with its parser: each text is escaped and closed by a quote.\<close>

definition escaped :: "string \<Rightarrow> string" where
  "escaped s = concat (map (\<lambda>c. [CHR 0x5C, c]) s) @ [CHR 0x22]"

fun unescaped :: "string \<Rightarrow> string \<times> string" where
  "unescaped [] = ([], [])"
| "unescaped (c # cs) = (if c = CHR 0x5C \<and> cs \<noteq> [] then apfst ((#) (hd cs)) (unescaped (tl cs)) else ([], cs))"

fun read_members :: "nat \<Rightarrow> string \<Rightarrow> (string \<times> string) list" where
  "read_members 0 s = []"
| "read_members (Suc n) s = (if s = [] then [] else case unescaped s of (k, r) \<Rightarrow>
     (case unescaped r of (v, r') \<Rightarrow> (k, v) # read_members n r'))"

definition print_members :: "(string \<times> string) list \<Rightarrow> string" where
  "print_members ms = concat (map (\<lambda>(k, v). escaped k @ escaped v) ms)"

lemma unescaped_escaped [simp]: "unescaped (escaped s @ r) = (s, r)"
  by (induction s) (simp_all add: escaped_def)

lemma escaped_not_Nil [simp]: "escaped s \<noteq> []"
  by (simp add: escaped_def)

lemma read_print_members: "length ms \<le> n \<Longrightarrow> read_members n (print_members ms) = ms"
proof (induction ms arbitrary: n)
  case Nil
  then show ?case by (cases n) (simp_all add: print_members_def)
next
  case (Cons m ms)
  then obtain n' where "n = Suc n'" "length ms \<le> n'" by (cases n) auto
  with Cons.IH [of n'] show ?case
    by (cases m) (simp add: print_members_def)
qed

lemma length_print_members: "length ms \<le> length (print_members ms)"
  by (induction ms) (auto simp: print_members_def escaped_def)

definition string_of :: "payload \<Rightarrow> string" where
  "string_of v = (case v of PStr s \<Rightarrow> s | _ \<Rightarrow> [])"

definition text_net :: "HttpReq list Net" where
  "text_net = dead_net\<lparr>net_Do := (\<lambda>req w. (Inr (200, Inr ''R''), w @ [req])),
     net_Print := (\<lambda>v. ''{'' @ (case v of PObj ms \<Rightarrow> print_members (map (\<lambda>(k, v). (k, string_of v)) ms) | _ \<Rightarrow> [])),
     net_J := (\<lambda>raw. if raw = ''R'' then Some (JObj [] [(''data'', JObj [] [(''info'', JObj []
         [(''dvcId'', JStr [] ''D9''), (''cmcKey'', JStr [] ''K9'')])])])
       else Some (JObj raw (map (\<lambda>(k, v). (k, JStr v v)) (read_members (length raw) (tl raw)))))\<rparr>"

lemma text_net_print: "net_Print text_net v \<noteq> []"
  by (simp add: text_net_def)

lemma text_net_json:
  "net_J text_net (net_Print text_net (PObj (map (\<lambda>(k, v). (k, PStr v)) ms))) =
    Some (JObj (''{'' @ print_members ms) (map (\<lambda>(k, v). (k, JStr v v)) ms))"
proof -
  have ms: "map (\<lambda>(k, v). (k, string_of v)) (map (\<lambda>(k, v). (k, PStr v)) ms) = ms"
    by (induction ms) (auto simp: string_of_def)
  show ?thesis using read_print_members [of ms "Suc (length (print_members ms))"] length_print_members [of ms]
    by (simp add: text_net_def ms del: read_members.simps map_map)
qed

definition sample_org :: OrgFiscalProfile where
  "sample_org = \<lparr>ofp_OrgID = [], ofp_Name = [], ofp_KRAPIN = ''P051234567A'', ofp_VATRegistered = True,
     ofp_BranchID = [], ofp_DeviceSerial = []\<rparr>"

definition text_client :: "HttpReq list OscuClient" where
  "text_client = sample_client\<lparr>ox_net := text_net\<rparr>"

lemma register_runs:
  "map_sum id dr_DeviceID (fst (oscu_RegisterDevice text_client sample_org sample_state)) = Inr ''D9''"
  by code_simp

theorem device_profile_roundtrip_witness:
  "\<exists>ref p'. oscu_RegisterDevice text_client sample_org sample_state = (Inr ref, p') \<and>
     dp_DeviceID (decodeDeviceProfile text_net (dr_Raw ref)) = ''D9'' \<and>
     dp_DeviceSerial (decodeDeviceProfile text_net (dr_Raw ref)) = ''D1'' \<and>
     dp_CmcKey (decodeDeviceProfile text_net (dr_Raw ref)) \<noteq> []"
proof -
  obtain ref p' where run: "oscu_RegisterDevice text_client sample_org sample_state = (Inr ref, p')"
    and id: "dr_DeviceID ref = ''D9''"
    using register_runs
    by (cases "oscu_RegisterDevice text_client sample_org sample_state";
      cases "fst (oscu_RegisterDevice text_client sample_org sample_state)") auto
  have net: "ox_net text_client = text_net" and serial: "oc_DeviceSerial (ox_cfg text_client) = ''D1''"
    by (simp_all add: text_client_def sample_client_def)
  from device_profile_roundtrip [OF _ _ run, of "\<lambda>v. v", unfolded net] run id show ?thesis
    by (auto simp: text_net_json text_net_print profile_of_def sample_org_def serial)
qed

end
