(* ===== verification/Gateway.thy ===== *)
theory Gateway
  imports Transport Accounts Receipts
begin

text \<open>
  KRA's taxpayer registry: the client \<open>internal/kra/gateway/gateway.go\<close> with its token cache, its
  routes (\<open>handler.go\<close>), and the checkers of \<open>internal/org/pin.go\<close> that onboarding asks. A PIN
  that matches the format is unchanged by URL escaping. SHA-256 is an argument; the texts of
  decoding errors are not modelled.
\<close>

subsection \<open>The client\<close>

record KraConfig =
  kc_BaseURL :: string
  kc_APIBaseURL :: string
  kc_ConsumerKey :: string
  kc_ConsumerSecret :: string
  kc_UseMockGateway :: bool
  kc_IsProduction :: bool

definition ErrNotConfigured :: go_error where
  "ErrNotConfigured = ErrorString ''kra: gateway credentials not configured''"

definition UnknownPIN :: string where "UnknownPIN = ''P000000000Z''"

record TaxpayerDetails =
  tx_PIN :: string
  tx_TaxpayerName :: string
  tx_TaxpayerStatus :: string
  tx_VATRegistered :: bool
  tx_Email :: string

record TaxObligation =
  ob_ObligationID :: string
  ob_ObligationName :: string
  ob_EffectiveFrom :: string
  ob_Status :: string

text \<open>The provider of a token, when the client shares one, is another client on the same world.\<close>

record 'w KraClient =
  kr_cfg :: KraConfig
  kr_net :: "'w Net"
  kr_tokenProvider :: "('w \<Rightarrow> (go_error + string) \<times> 'w) option"
  kr_sha256 :: "string \<Rightarrow> nat list"

type_synonym 'w kra_state = "TokenCache \<times> 'w"

definition kra_wrap :: "string \<Rightarrow> go_error \<Rightarrow> go_error" where
  "kra_wrap msg e = Wrap (''kra: '' @ msg @ '': '' @ err_text e) e"

definition bad_json :: go_error where "bad_json = ErrorString ''invalid JSON''"

text \<open>The body of a response with status 2xx, or the error of its status.\<close>

definition status_body :: "string \<Rightarrow> nat \<Rightarrow> string \<Rightarrow> go_error + string" where
  "status_body what status raw = (if status < 200 \<or> 300 \<le> status
     then Inl (ErrorString (''kra: '' @ what @ '' '' @ digits 10 (int status) @ '': '' @ raw)) else Inr raw)"

definition unmarshal_token :: "json \<Rightarrow> string option" where
  "unmarshal_token = dec_struct [(''access_token'', put_string (\<lambda>f. f)), (''expires_in'', \<lambda>r j. Some r)] []"

definition fresh_token :: "'w KraClient \<Rightarrow> 'w \<Rightarrow> (go_error + string) \<times> 'w" where
  "fresh_token c w =
     (case net_Do (kr_net c) (token_request (kc_BaseURL (kr_cfg c)) (kc_ConsumerKey (kr_cfg c)) (kc_ConsumerSecret (kr_cfg c))) w of
        (Inl e, w') \<Rightarrow> (Inl (kra_wrap ''oauth token request failed'' e), w')
      | (Inr (_, Inl e), w') \<Rightarrow> (Inl (kra_wrap ''read token body'' e), w')
      | (Inr (status, Inr raw), w') \<Rightarrow> ((case status_body ''token returned status'' status raw of
           Inl e \<Rightarrow> Inl e
         | Inr raw \<Rightarrow> (case Option.bind (net_J (kr_net c) raw) unmarshal_token of
             Some tok \<Rightarrow> if tok = [] then Inl (ErrorString ''kra: invalid token response: %!w(<nil>)'') else Inr tok
           | None \<Rightarrow> Inl (kra_wrap ''invalid token response'' bad_json))), w'))"

definition gateway_Token :: "'w KraClient \<Rightarrow> 'w kra_state \<Rightarrow> (go_error + string) \<times> 'w kra_state" where
  "gateway_Token c = (\<lambda>(tc, w). case kr_tokenProvider c of
     Some tp \<Rightarrow> (case tp w of (r, w') \<Rightarrow> (r, (tc, w')))
   | None \<Rightarrow>
       if cached (kr_net c) tc w then (Inr (tk_token tc), (tc, w))
       else if kc_ConsumerKey (kr_cfg c) = [] \<or> kc_ConsumerSecret (kr_cfg c) = [] then (Inl ErrNotConfigured, (tc, w))
       else (case fresh_token c w of
         (Inl e, w') \<Rightarrow> (Inl e, (tc, w'))
       | (Inr tok, w') \<Rightarrow> (Inr tok, (\<lparr>tk_token = tok, tk_exp = net_Now (kr_net c) w' + 55 * minute\<rparr>, w'))))"

definition gateway_apiBaseURL :: "'w KraClient \<Rightarrow> string" where
  "gateway_apiBaseURL c = api_base (kc_APIBaseURL (kr_cfg c)) (kc_BaseURL (kr_cfg c))"

definition contains_text :: "string \<Rightarrow> string \<Rightarrow> bool" where
  "contains_text s sub \<longleftrightarrow> list_ex (\<lambda>n. prefix sub (drop n s)) [0..<Suc (length s)]"

definition isSandbox :: "KraConfig \<Rightarrow> bool" where
  "isSandbox cfg \<longleftrightarrow> contains_text (kc_BaseURL cfg) ''sbx.'' \<or> kc_UseMockGateway cfg \<and> \<not> kc_IsProduction cfg"

definition hex_byte :: "nat \<Rightarrow> string" where
  "hex_byte b = [''0123456789abcdef'' ! (b div 16 mod 16), ''0123456789abcdef'' ! (b mod 16)]"

definition is_company :: "string \<Rightarrow> bool" where
  "is_company pin \<longleftrightarrow> pin \<noteq> [] \<and> hd pin = CHR ''P''"

definition mockTaxpayer :: "(string \<Rightarrow> nat list) \<Rightarrow> string \<Rightarrow> TaxpayerDetails" where
  "mockTaxpayer sha pin = (let suffix = to_upper (concat (map hex_byte (take 3 (sha pin)))) in
     \<lparr>tx_PIN = pin,
      tx_TaxpayerName = (if is_company pin then ''SAFARICOM COMMERCIAL PARTNER '' @ suffix @ '' LTD'' else ''TAXPAYER '' @ suffix),
      tx_TaxpayerStatus = ''ACTIVE'', tx_VATRegistered = is_company pin,
      tx_Email = ''taxpayer.'' @ map ascii_lower suffix @ ''@example.com''\<rparr>)"

definition mockObligations :: "string \<Rightarrow> TaxObligation list" where
  "mockObligations pin =
     \<lparr>ob_ObligationID = ''IT01'',
      ob_ObligationName = (if is_company pin then ''Income Tax - Company'' else ''Income Tax - Resident Individual''),
      ob_EffectiveFrom = ''2020-01-01'', ob_Status = ''ACTIVE''\<rparr> #
     (if is_company pin then [\<lparr>ob_ObligationID = ''VAT01'', ob_ObligationName = ''Value Added Tax (VAT)'',
        ob_EffectiveFrom = ''2021-06-01'', ob_Status = ''ACTIVE''\<rparr>] else [])"

text \<open>A GET with the token: 404 means an unknown PIN.\<close>

definition kra_get ::
    "'w KraClient \<Rightarrow> string \<Rightarrow> string \<Rightarrow> string \<Rightarrow> string \<Rightarrow> 'w kra_state \<Rightarrow> (go_error + string) \<times> 'w kra_state" where
  "kra_get c path neterr readerr stat = (\<lambda>st. case gateway_Token c st of
     (Inl e, st') \<Rightarrow> (Inl e, st')
   | (Inr tok, (tc, w)) \<Rightarrow>
       (case net_Do (kr_net c) \<lparr>hr_Method = ''GET'', hr_URL = gateway_apiBaseURL c @ path, hr_Auth = Bearer tok,
           hr_Headers = [(''Accept'', ''application/json'')], hr_Body = None\<rparr> w of
          (Inl e, w') \<Rightarrow> (Inl (kra_wrap neterr e), (tc, w'))
        | (Inr (_, Inl e), w') \<Rightarrow> (Inl (kra_wrap readerr e), (tc, w'))
        | (Inr (status, Inr raw), w') \<Rightarrow>
            (if status = 404 then Inl ErrPINNotFound else status_body stat status raw, (tc, w'))))"

record pin_answer =
  pa_TaxpayerName :: string
  pa_TaxprNm :: string
  pa_Name :: string
  pa_Status :: string
  pa_TaxpayerSts :: string
  pa_VATReg :: bool
  pa_Email :: string

definition unmarshal_pin :: "json \<Rightarrow> pin_answer option" where
  "unmarshal_pin = dec_struct
     [(''pin'', put_string (\<lambda>_ r. r)), (''taxpayerName'', put_string pa_TaxpayerName_update),
      (''taxprNm'', put_string pa_TaxprNm_update), (''name'', put_string pa_Name_update),
      (''status'', put_string pa_Status_update), (''taxpayerSts'', put_string pa_TaxpayerSts_update),
      (''vatRegistered'', put_bool pa_VATReg_update), (''email'', put_string pa_Email_update)]
     \<lparr>pa_TaxpayerName = [], pa_TaxprNm = [], pa_Name = [], pa_Status = [], pa_TaxpayerSts = [],
      pa_VATReg = False, pa_Email = []\<rparr>"

definition first_text :: "string list \<Rightarrow> string" where
  "first_text xs = (case dropWhile (\<lambda>x. x = []) xs of [] \<Rightarrow> [] | x # _ \<Rightarrow> x)"

definition taxpayer_of :: "string \<Rightarrow> pin_answer \<Rightarrow> TaxpayerDetails" where
  "taxpayer_of pin a = \<lparr>tx_PIN = pin,
     tx_TaxpayerName = trim_space (first_text [pa_TaxpayerName a, pa_TaxprNm a, pa_Name a]),
     tx_TaxpayerStatus = trim_space (first_text [pa_Status a, pa_TaxpayerSts a, ''ACTIVE'']),
     tx_VATRegistered = (pa_VATReg a \<or> is_company pin), tx_Email = pa_Email a\<rparr>"

definition gateway_CheckPIN :: "'w KraClient \<Rightarrow> string \<Rightarrow> 'w kra_state \<Rightarrow> (go_error + TaxpayerDetails) \<times> 'w kra_state" where
  "gateway_CheckPIN c rawPIN st =
     (let pin = to_upper (trim_space rawPIN) in
      if \<not> PINRe pin then (Inl ErrPINInvalid, st)
      else if isSandbox (kr_cfg c) then
        (if pin = UnknownPIN then Inl ErrPINNotFound else Inr (mockTaxpayer (kr_sha256 c) pin), st)
      else (case kra_get c (''/kra/pin/'' @ pin) ''pin checker network error'' ''read pin response''
          ''gateway returned status'' st of
        (Inl e, st') \<Rightarrow> (Inl e, st')
      | (Inr raw, st') \<Rightarrow> (case Option.bind (net_J (kr_net c) raw) unmarshal_pin of
          None \<Rightarrow> Inl (kra_wrap ''invalid pin checker json response'' bad_json)
        | Some a \<Rightarrow> Inr (taxpayer_of pin a), st')))"

record obligation_answer =
  oa_ID :: string
  oa_ObligationID :: string
  oa_Name :: string
  oa_ObligationNm :: string
  oa_EffectiveFrom :: string
  oa_Status :: string

definition unmarshal_obligation :: "json \<Rightarrow> obligation_answer option" where
  "unmarshal_obligation = dec_struct
     [(''obligationId'', put_string oa_ID_update), (''obligation_id'', put_string oa_ObligationID_update),
      (''obligationName'', put_string oa_Name_update), (''obligation_name'', put_string oa_ObligationNm_update),
      (''effectiveFrom'', put_string oa_EffectiveFrom_update), (''status'', put_string oa_Status_update)]
     \<lparr>oa_ID = [], oa_ObligationID = [], oa_Name = [], oa_ObligationNm = [], oa_EffectiveFrom = [], oa_Status = []\<rparr>"

definition unmarshal_obligations :: "json \<Rightarrow> obligation_answer list option" where
  "unmarshal_obligations = dec_struct [(''obligations'', \<lambda>r j. dec_list unmarshal_obligation j)] []"

definition obligation_of :: "obligation_answer \<Rightarrow> TaxObligation" where
  "obligation_of a = \<lparr>ob_ObligationID = first_text [oa_ObligationID a, oa_ID a],
     ob_ObligationName = first_text [oa_ObligationNm a, oa_Name a], ob_EffectiveFrom = oa_EffectiveFrom a,
     ob_Status = first_text [oa_Status a, ''ACTIVE'']\<rparr>"

definition FetchObligations :: "'w KraClient \<Rightarrow> string \<Rightarrow> 'w kra_state \<Rightarrow> (go_error + TaxObligation list) \<times> 'w kra_state" where
  "FetchObligations c rawPIN st =
     (let pin = to_upper (trim_space rawPIN) in
      if \<not> PINRe pin then (Inl ErrPINInvalid, st)
      else if isSandbox (kr_cfg c) then
        (if pin = UnknownPIN then Inl ErrPINNotFound else Inr (mockObligations pin), st)
      else (case kra_get c (''/kra/obligations/'' @ pin) ''obligations network error'' ''read obligations response''
          ''gateway obligations status'' st of
        (Inl e, st') \<Rightarrow> (Inl e, st')
      | (Inr raw, st') \<Rightarrow> (case Option.bind (net_J (kr_net c) raw) unmarshal_obligations of
          None \<Rightarrow> Inl (kra_wrap ''parse obligations json'' bad_json)
        | Some obs \<Rightarrow> Inr (map obligation_of obs), st')))"

subsection \<open>Routes\<close>

definition gateway_fail :: "go_error \<Rightarrow> 'v response" where
  "gateway_fail e =
     (if errors_is e ErrPINInvalid then Fail 400 ''invalid_pin'' ''KRA PIN must match format A/P + 9 digits + letter''
      else if errors_is e ErrPINNotFound then Fail 404 ''pin_not_found'' ''PIN not found in KRA registry''
      else Fail 502 ''gateway_error'' (err_text e))"

definition getTaxpayerByPIN :: "'w KraClient \<Rightarrow> string \<Rightarrow> 'w kra_state \<Rightarrow> TaxpayerDetails response \<times> 'w kra_state" where
  "getTaxpayerByPIN c pin st = apfst (case_sum gateway_fail (JSON 200)) (gateway_CheckPIN c pin st)"

definition getObligationsByPIN ::
    "'w KraClient \<Rightarrow> string \<Rightarrow> 'w kra_state \<Rightarrow> (string \<times> TaxObligation list) response \<times> 'w kra_state" where
  "getObligationsByPIN c pin st = apfst (case_sum gateway_fail (\<lambda>obs. JSON 200 (pin, obs))) (FetchObligations c pin st)"

subsection \<open>Checkers\<close>

definition lookup_unavailable :: "go_error \<Rightarrow> go_error" where
  "lookup_unavailable e = Wrap (err_text ErrLookupUnavailable @ '': '' @ err_text e) ErrLookupUnavailable"

definition GatewayPINChecker :: "'w KraClient option \<Rightarrow> string \<Rightarrow> 'w kra_state \<Rightarrow> go_error option \<times> 'w kra_state" where
  "GatewayPINChecker client pin st =
     (if \<not> PINRe pin then (Some ErrBadPIN, st)
      else case client of
        None \<Rightarrow> (Some (Wrap (err_text ErrLookupUnavailable @ '': gateway client is nil'') ErrLookupUnavailable), st)
      | Some c \<Rightarrow> apfst (case_sum (\<lambda>e.
            if errors_is e ErrPINNotFound then Some org_ErrPINUnknown
            else if errors_is e ErrPINInvalid then Some ErrBadPIN
            else Some (lookup_unavailable e)) (\<lambda>_. None)) (gateway_CheckPIN c pin st))"

text \<open>
  The error wraps both \<open>ErrLookupUnavailable\<close> and the cause; the cause is neither of the errors
  onboarding asks for. The fiscal provider with its name, and its PIN lookup when the adapter has one; a lookup
  answers with an error or nothing.
\<close>

definition FiscalPINChecker ::
    "(string \<times> (string \<Rightarrow> 'p \<Rightarrow> go_error option \<times> 'p) option) option \<Rightarrow> string \<Rightarrow> 'p \<Rightarrow> go_error option \<times> 'p" where
  "FiscalPINChecker prov pin p =
     (if \<not> PINRe pin then (Some ErrBadPIN, p)
      else let no_lookup = (\<lambda>name. (Some (Wrap (err_text ErrLookupUnavailable @ '': adapter '' @ name @
          '' has no PIN lookup'') ErrLookupUnavailable), p)) in
        case prov of
          None \<Rightarrow> no_lookup ''none''
        | Some (name, None) \<Rightarrow> no_lookup name
        | Some (name, Some lookup) \<Rightarrow> apfst (\<lambda>e. case e of
              None \<Rightarrow> None
            | Some e \<Rightarrow> if errors_is e ErrPINUnknown then Some org_ErrPINUnknown else Some (lookup_unavailable e)) (lookup pin p))"

definition FormatOnlyPINChecker :: "string \<Rightarrow> go_error option" where
  "FormatOnlyPINChecker pin = (if PINRe pin then None else Some ErrBadPIN)"

end
