(* ===== verification/GatewayProps.thy ===== *)
theory GatewayProps
  imports Gateway AccountProps
begin

text \<open>
  What the registry's client and the checkers promise: the shape of what they answer, when they
  ask KRA at all, and what an answer means for an organisation that is being created.
\<close>

subsection \<open>When KRA is asked\<close>

lemma Token_cached:
  assumes "kr_tokenProvider c = None" and "cached (kr_net c) tc w"
  shows "gateway_Token c (tc, w) = (Inr (tk_token tc), (tc, w))"
  using assms by (simp add: gateway_Token_def)

text \<open>A fresh token is kept for 55 minutes.\<close>

lemma Token_fresh:
  assumes "kr_tokenProvider c = None" and "\<not> cached (kr_net c) tc w" and "gateway_Token c (tc, w) = (Inr tok, (tc', w'))"
  shows "tok \<noteq> [] \<and> tc' = \<lparr>tk_token = tok, tk_exp = net_Now (kr_net c) w' + 55 * minute\<rparr>"
  using assms by (auto simp: gateway_Token_def fresh_token_def status_body_def
    split: if_splits prod.splits sum.splits option.splits)

lemma CheckPIN_offline:
  assumes "\<not> PINRe (to_upper (trim_space raw)) \<or> isSandbox (kr_cfg c)"
  shows "snd (gateway_CheckPIN c raw st) = st \<and> snd (FetchObligations c raw st) = st"
  using assms by (auto simp: gateway_CheckPIN_def FetchObligations_def Let_def)

lemma CheckPIN_Inr:
  assumes "gateway_CheckPIN c raw st = (Inr t, st')"
  shows "PINRe (tx_PIN t) \<and> tx_PIN t = to_upper (trim_space raw)"
  using assms by (auto simp: gateway_CheckPIN_def Let_def mockTaxpayer_def taxpayer_of_def
    split: if_splits sum.splits prod.splits option.splits)

lemma gateway_fail_not_ok: "gateway_fail e \<noteq> JSON st v"
  by (simp add: gateway_fail_def)

text \<open>The route answers 200 only for a well-formed PIN, and with that PIN.\<close>

lemma getTaxpayerByPIN_ok:
  assumes "getTaxpayerByPIN c raw st = (JSON n t, st')"
  shows "n = 200 \<and> PINRe (tx_PIN t) \<and> tx_PIN t = to_upper (trim_space raw)"
  using assms CheckPIN_Inr [of c raw st t]
  by (cases "gateway_CheckPIN c raw st"; cases "fst (gateway_CheckPIN c raw st)")
    (auto simp: getTaxpayerByPIN_def gateway_fail_not_ok)

subsection \<open>Onboarding\<close>

definition pin_request :: "'w KraClient \<Rightarrow> string \<Rightarrow> string \<Rightarrow> HttpReq" where
  "pin_request c tok pin = \<lparr>hr_Method = ''GET'', hr_URL = gateway_apiBaseURL c @ ''/kra/pin/'' @ pin,
     hr_Auth = Bearer tok, hr_Headers = [(''Accept'', ''application/json'')], hr_Body = None\<rparr>"

text \<open>KRA says that it does not know the PIN; KRA describes its holder.\<close>

definition unknown_answer :: "net_answer \<Rightarrow> bool" where
  "unknown_answer ans \<longleftrightarrow> (case ans of Inr (status, Inr raw) \<Rightarrow> status = 404 | _ \<Rightarrow> False)"

definition known_answer :: "'w Net \<Rightarrow> net_answer \<Rightarrow> bool" where
  "known_answer net ans \<longleftrightarrow> (case ans of
     Inr (status, Inr raw) \<Rightarrow> 200 \<le> status \<and> status < 300 \<and> Option.bind (net_J net raw) unmarshal_pin \<noteq> None
   | _ \<Rightarrow> False)"

definition transport_error :: "net_answer \<Rightarrow> bool" where
  "transport_error ans \<longleftrightarrow> (case ans of
     Inl e \<Rightarrow> \<not> errors_is e ErrPINNotFound \<and> \<not> errors_is e ErrPINInvalid
   | Inr (_, Inl e) \<Rightarrow> \<not> errors_is e ErrPINNotFound \<and> \<not> errors_is e ErrPINInvalid | _ \<Rightarrow> True)"

lemma kra_wrap_is [simp]: "errors_is (kra_wrap m e) t = errors_is e t"
  by (simp add: kra_wrap_def errors_is_def)

lemma CheckPIN_asks:
  assumes pin: "PINRe pin" "to_upper (trim_space pin) = pin" and real: "\<not> isSandbox (kr_cfg c)"
    and tok: "gateway_Token c st = (Inr tok, (tc, w))"
    and net: "net_Do (kr_net c) (pin_request c tok pin) w = (ans, w')"
  shows "gateway_CheckPIN c pin st = ((case ans of
      Inl e \<Rightarrow> Inl (kra_wrap ''pin checker network error'' e)
    | Inr (status, Inl e) \<Rightarrow> Inl (kra_wrap ''read pin response'' e)
    | Inr (status, Inr raw) \<Rightarrow> if status = 404 then Inl ErrPINNotFound
        else case status_body ''gateway returned status'' status raw of Inl e \<Rightarrow> Inl e
          | Inr raw \<Rightarrow> (case Option.bind (net_J (kr_net c) raw) unmarshal_pin of
              None \<Rightarrow> Inl (kra_wrap ''invalid pin checker json response'' bad_json)
            | Some a \<Rightarrow> Inr (taxpayer_of pin a))), (tc, w'))"
  using assms
  by (simp add: gateway_CheckPIN_def kra_get_def pin_request_def status_body_def split: sum.splits prod.splits option.splits)

lemma GatewayPINChecker_verdict:
  assumes "PINRe pin" "to_upper (trim_space pin) = pin" "\<not> isSandbox (kr_cfg c)"
    "gateway_Token c st = (Inr tok, (tc, w))" "net_Do (kr_net c) (pin_request c tok pin) w = (ans, w')"
    and te: "transport_error ans"
  shows "\<exists>v. GatewayPINChecker (Some c) pin st = (v, (tc, w')) \<and>
    (if unknown_answer ans then v = Some org_ErrPINUnknown
     else if known_answer (kr_net c) ans then v = None
     else \<exists>e. v = Some e \<and> errors_is e ErrLookupUnavailable)"
proof -
  have f: "GatewayPINChecker (Some c) pin st = apfst (case_sum (\<lambda>e.
      if errors_is e ErrPINNotFound then Some org_ErrPINUnknown
      else if errors_is e ErrPINInvalid then Some ErrBadPIN
      else Some (lookup_unavailable e)) (\<lambda>_. None)) (gateway_CheckPIN c pin st)"
    using assms(1) by (simp add: GatewayPINChecker_def)
  note s = f [unfolded CheckPIN_asks [OF assms(1-5)]] unknown_answer_def known_answer_def transport_error_def
  have un: "errors_is (lookup_unavailable e) ErrLookupUnavailable" for e
    by (simp add: lookup_unavailable_def errors_is_def)
  have own: "\<not> errors_is (ErrorString (''kra: gateway returned status '' @ m)) ErrPINNotFound"
      "\<not> errors_is (ErrorString (''kra: gateway returned status '' @ m)) ErrPINInvalid"
      "\<not> errors_is bad_json ErrPINNotFound" "\<not> errors_is bad_json ErrPINInvalid" for m
    by (simp_all add: errors_is_def ErrPINNotFound_def ErrPINInvalid_def bad_json_def)
  show ?thesis
  proof (cases ans)
    case (Inl e)
    then show ?thesis using te un by (simp add: s)
  next
    case (Inr r)
    obtain status body where r: "r = (status, body)" by (cases r)
    show ?thesis
    proof (cases body)
      case (Inl e)
      then show ?thesis using te un \<open>ans = Inr r\<close> r by (simp add: s)
    next
      case body: (Inr raw)
      have notfound: "errors_is ErrPINNotFound ErrPINNotFound" by (simp add: errors_is_def ErrPINNotFound_def)
      show ?thesis using un own notfound unfolding s \<open>ans = Inr r\<close> r body
        by (cases "Option.bind (net_J (kr_net c) raw) unmarshal_pin") (auto simp: status_body_def)
    qed
  qed
qed

lemma is_upper_AP: "is_upper (CHR ''A'')" "is_upper (CHR ''P'')"
  by code_simp+

lemma PINRe_chars:
  assumes "PINRe s"
  shows "s \<noteq> [] \<and> (\<forall>c \<in> set s. is_digit c \<or> is_upper c)"
proof -
  have n: "length s = 11" and h: "s ! 0 \<in> set ''AP''" and d: "list_all is_digit (take 9 (drop 1 s))"
    and l: "is_upper (s ! 10)" using assms by (auto simp: PINRe_def)
  have "is_digit (s ! i) \<or> is_upper (s ! i)" if i: "i < 11" for i
  proof (cases "i = 0 \<or> i = 10")
    case True
    have "is_upper (s ! 0)" using h by (auto simp: is_upper_AP)
    with True l show ?thesis by auto
  next
    case False
    then have "s ! i = take 9 (drop 1 s) ! (i - 1)" "i - 1 < length (take 9 (drop 1 s))" using i n by auto
    with d show ?thesis by (metis list_all_length)
  qed
  then have "\<forall>c \<in> set s. is_digit c \<or> is_upper c" by (metis in_set_conv_nth n)
  with n show ?thesis by (metis length_0_conv zero_neq_numeral)
qed

text \<open>A well-formed PIN is its own normal form.\<close>

lemma normal_PIN:
  assumes "PINRe s"
  shows "to_upper (trim_space s) = s"
  using PINRe_chars [OF assms] by (simp add: trim_space_solid solid_alnum to_upper_id list_all_iff)


definition pin_net :: "nat Net" where
  "pin_net = \<lparr>net_Do = (\<lambda>req w. (Inr (503, Inr ''busy''), w + 1)), net_Now = (\<lambda>_. 0), net_Ctx = (\<lambda>_. None),
     net_J = (\<lambda>_. None), net_Print = (\<lambda>_. [])\<rparr>"

definition pin_client :: "nat KraClient" where
  "pin_client = \<lparr>kr_cfg = \<lparr>kc_BaseURL = ''https://api.kra.go.ke'', kc_APIBaseURL = [], kc_ConsumerKey = ''k'',
     kc_ConsumerSecret = ''s'', kc_UseMockGateway = False, kc_IsProduction = True\<rparr>, kr_net = pin_net,
     kr_tokenProvider = None, kr_sha256 = (\<lambda>_. [])\<rparr>"

definition pin_service :: OrgService where
  "pin_service = plain_service\<lparr>os_CheckPIN := \<lambda>pin. fst (GatewayPINChecker (Some pin_client) pin
     (\<lparr>tk_token = ''T'', tk_exp = 60\<rparr>, 0))\<rparr>"

definition shop_input :: CreateOrgInput where
  "shop_input = \<lparr>coi_Name = ''Duka'', coi_KRAPin = '' p051234567a'', coi_VATRegistered = False, coi_Locale = [],
     coi_Role = [], coi_Profile = []\<rparr>"


end
