(* ===== verification/Vendor.thy ===== *)
theory Vendor
  imports Oscu Dates
begin

text \<open>
  The adapter to a third-party integrator, \<open>internal/fiscal/vendor/vendor.go\<close>. It keeps no state:
  every operation is one request to the integrator, so that the state of the provider is the
  world of its network. The two kinds of URL escaping are
  arguments.
\<close>

subsection \<open>Transport\<close>

record VendorConfig =
  vc_BaseURL :: string
  vc_APIKey :: string

record 'w VendorProvider =
  vn_cfg :: VendorConfig
  vn_net :: "'w Net"
  vn_QueryEscape :: "string \<Rightarrow> string"
  vn_PathEscape :: "string \<Rightarrow> string"

definition vendor_New ::
    "'w Net \<Rightarrow> (string \<Rightarrow> string) \<Rightarrow> (string \<Rightarrow> string) \<Rightarrow> (string \<Rightarrow> string option) \<Rightarrow> VendorConfig
      \<Rightarrow> go_error + 'w VendorProvider" where
  "vendor_New net query_escape path_escape parse_url cfg =
     (if vc_BaseURL cfg = [] \<or> vc_APIKey cfg = []
      then Inl (ConfigError ''vendor_not_configured'' ''FISCAL_VENDOR_BASE_URL and FISCAL_VENDOR_API_KEY are required'')
      else case parse_url (vc_BaseURL cfg) of
        Some e \<Rightarrow> Inl (ConfigError ''vendor_bad_url'' e)
      | None \<Rightarrow> Inr \<lparr>vn_cfg = cfg, vn_net = net, vn_QueryEscape = query_escape, vn_PathEscape = path_escape\<rparr>)"

record wireError =
  we_Code :: string
  we_Message :: string
  we_Field :: string

definition unmarshal_wireError :: "json option \<Rightarrow> wireError" where
  "unmarshal_wireError = ignoring [(''error'', \<lambda>r j. Some (lenient_struct
     [(''code'', put_string we_Code_update), (''message'', put_string we_Message_update),
      (''field'', put_string we_Field_update)] r j))] \<lparr>we_Code = [], we_Message = [], we_Field = []\<rparr>"

definition vendor_returned :: "nat \<Rightarrow> string" where
  "vendor_returned status = ''vendor returned '' @ digits 10 (int status)"

definition vendor_rejection :: "nat \<Rightarrow> wireError \<Rightarrow> go_error" where
  "vendor_rejection status we =
     (let code = (if we_Code we \<noteq> [] then we_Code we else if status = 404 then ''not_found'' else ''vendor_rejected'') in
      if code = ''device_not_registered'' then ConfigError code (we_Message we)
      else if code = ''duplicate'' then ValidationError ''duplicate_unresolved'' (we_Message we) []
      else ValidationError code (we_Message we) (we_Field we))"

definition vendor_classifyStatus :: "'w Net \<Rightarrow> nat \<Rightarrow> string \<Rightarrow> go_error option" where
  "vendor_classifyStatus net status raw =
     (if 200 \<le> status \<and> status < 300 then None
      else if status = 401 \<or> status = 403 then Some (ConfigError ''invalid_api_key'' (vendor_returned status))
      else if status = 429 then Some (TransientError ''rate_limited'' ''vendor rate limit'')
      else if 500 \<le> status then Some (TransientError ''upstream_5xx'' (vendor_returned status))
      else Some (vendor_rejection status (unmarshal_wireError (net_J net raw))))"

definition vendor_request :: "'w VendorProvider \<Rightarrow> string \<Rightarrow> string \<Rightarrow> payload option \<Rightarrow> HttpReq" where
  "vendor_request v method path body = \<lparr>hr_Method = method,
     hr_URL = TrimRight (CHR ''/'') (vc_BaseURL (vn_cfg v)) @ path, hr_Auth = Bearer (vc_APIKey (vn_cfg v)),
     hr_Headers = (''Accept'', ''application/json'') #
       (if body = None then [] else [(''Content-Type'', ''application/json'')]), hr_Body = body\<rparr>"

definition vendor_bad_json :: go_error where
  "vendor_bad_json = TransientError ''vendor_bad_json'' ''invalid JSON''"

text \<open>The body and what it decodes to; an empty body leaves the zero value.\<close>

definition vendor_doRaw ::
    "'w VendorProvider \<Rightarrow> string \<Rightarrow> string \<Rightarrow> payload option \<Rightarrow> (json \<Rightarrow> 'a option) \<Rightarrow> 'a \<Rightarrow> 'w \<Rightarrow> (go_error + string \<times> 'a) \<times> 'w" where
  "vendor_doRaw v method path body decode zero w =
     (case doRaw (vn_net v) (vendor_request v method path body) w of
        (Inl e, w') \<Rightarrow> (Inl e, w')
      | (Inr (status, raw), w') \<Rightarrow> ((case vendor_classifyStatus (vn_net v) status raw of
          Some e \<Rightarrow> Inl e
        | None \<Rightarrow> if raw = [] then Inr (raw, zero)
            else (case Option.bind (net_J (vn_net v) raw) decode of
              None \<Rightarrow> Inl vendor_bad_json | Some out \<Rightarrow> Inr (raw, out))), w'))"

definition vendor_do ::
    "'w VendorProvider \<Rightarrow> string \<Rightarrow> string \<Rightarrow> payload option \<Rightarrow> (json \<Rightarrow> 'a option) \<Rightarrow> 'a \<Rightarrow> 'w \<Rightarrow> (go_error + 'a) \<times> 'w" where
  "vendor_do v method path body decode zero w = apfst (map_sum id snd) (vendor_doRaw v method path body decode zero w)"

subsection \<open>Documents\<close>

definition vendor_wireLine :: "Line \<Rightarrow> payload" where
  "vendor_wireLine l = PObj [(''itemCode'', PStr (ItemCode l)), (''description'', PStr (Description l)),
     (''qty'', PStr (Qty l)), (''unit'', PStr (Unit l)), (''unitPriceCents'', PInt (UnitPriceCents l)),
     (''taxType'', PStr (LineTaxCategory l)), (''lineTotalCents'', PInt (LineTotalCents l)),
     (''lineTaxCents'', PInt (LineTaxCents l))]"

record wireInvoice =
  wi_ClientRef :: string
  wi_Kind :: string
  wi_OriginalKRANo :: string
  wi_SellerPIN :: string
  wi_SellerName :: string
  wi_BranchID :: string
  wi_BuyerPIN :: string
  wi_BuyerName :: string
  wi_IssuedAt :: string
  wi_PaymentMethod :: string
  wi_Lines :: "Line list"
  wi_SubtotalCents :: int
  wi_TaxCents :: int
  wi_TotalCents :: int

definition marshal_wireInvoice :: "wireInvoice \<Rightarrow> payload" where
  "marshal_wireInvoice i = PObj ([(''clientRef'', PStr (wi_ClientRef i)), (''kind'', PStr (wi_Kind i))] @
     omit_empty ''originalInvoiceNo'' (wi_OriginalKRANo i) @
     [(''sellerPin'', PStr (wi_SellerPIN i)), (''sellerName'', PStr (wi_SellerName i)), (''branchId'', PStr (wi_BranchID i))] @
     omit_empty ''buyerPin'' (wi_BuyerPIN i) @ omit_empty ''buyerName'' (wi_BuyerName i) @
     [(''issuedAt'', PStr (wi_IssuedAt i)), (''paymentMethod'', PStr (wi_PaymentMethod i)),
      (''lines'', PArr (map vendor_wireLine (wi_Lines i))), (''subtotalCents'', PInt (wi_SubtotalCents i)),
      (''taxCents'', PInt (wi_TaxCents i)), (''totalCents'', PInt (wi_TotalCents i))])"

text \<open>\<open>t.UTC().Format(time.RFC3339)\<close>\<close>

definition format_rfc3339 :: "time \<Rightarrow> string" where
  "format_rfc3339 t = (case civil (t div day) of (y, m, d) \<Rightarrow>
     let s = t mod day div second in
     zero_pad 4 y @ ''-'' @ two m @ ''-'' @ two d @ ''T'' @ two (s div 3600) @ '':'' @ two (s div 60 mod 60) @ '':'' @
     two (s mod 60) @ ''Z'')"

definition toWire :: "FiscalInvoice \<Rightarrow> wireInvoice" where
  "toWire d = \<lparr>wi_ClientRef = doc_ID d, wi_Kind = [], wi_OriginalKRANo = [], wi_SellerPIN = doc_SellerPIN d,
     wi_SellerName = doc_SellerName d, wi_BranchID = doc_BranchID d, wi_BuyerPIN = doc_BuyerPIN d,
     wi_BuyerName = doc_BuyerName d, wi_IssuedAt = format_rfc3339 (doc_IssuedAt d),
     wi_PaymentMethod = doc_PaymentMethod d, wi_Lines = doc_Lines d, wi_SubtotalCents = doc_SubtotalCents d,
     wi_TaxCents = doc_TaxCents d, wi_TotalCents = doc_TotalCents d\<rparr>"

definition toWireCredit :: "CreditNote \<Rightarrow> wireInvoice" where
  "toWireCredit n = (case Totals (cn_Lines n) of (subtotal, tax, _) \<Rightarrow>
     (toWire (cn_OriginalInvoice n))\<lparr>wi_ClientRef := cn_ID n, wi_Kind := ''CREDIT_NOTE'',
       wi_OriginalKRANo := cn_OriginalKRANo n, wi_Lines := cn_Lines n, wi_TotalCents := cn_TotalCents n,
       wi_SubtotalCents := wrap64 (- subtotal), wi_TaxCents := wrap64 (- tax)\<rparr>)"

record wireAck =
  wa_InvoiceNo :: string
  wa_Signature :: string
  wa_QRPayload :: string
  wa_ReceivedAt :: string

definition no_wireAck :: wireAck where
  "no_wireAck = \<lparr>wa_InvoiceNo = [], wa_Signature = [], wa_QRPayload = [], wa_ReceivedAt = []\<rparr>"

definition unmarshal_wireAck :: "json \<Rightarrow> wireAck option" where
  "unmarshal_wireAck = dec_struct [(''invoiceNo'', put_string wa_InvoiceNo_update),
     (''signature'', put_string wa_Signature_update), (''qrPayload'', put_string wa_QRPayload_update),
     (''receivedAt'', put_string wa_ReceivedAt_update)] no_wireAck"

definition vendor_ack :: "time \<Rightarrow> string \<Rightarrow> wireAck \<Rightarrow> ack_result" where
  "vendor_ack now raw a =
     (if wa_InvoiceNo a = [] then (no_ack, Some (TransientError ''vendor_bad_ack'' ''ack without invoice number''))
      else (\<lparr>KRAInvoiceNo = wa_InvoiceNo a, Signature = wa_Signature a, QRPayload = wa_QRPayload a,
        ReceivedAt = (case parse_rfc3339 (wa_ReceivedAt a) of Some t \<Rightarrow> t | None \<Rightarrow> now), Raw = raw\<rparr>, None))"

definition vendor_submit :: "'w VendorProvider \<Rightarrow> wireInvoice \<Rightarrow> 'w \<Rightarrow> ack_result \<times> 'w" where
  "vendor_submit v i w =
     (case vendor_doRaw v ''POST'' ''/v1/invoices'' (Some (marshal_wireInvoice i)) unmarshal_wireAck no_wireAck w of
        (Inl e, w') \<Rightarrow> ((no_ack, Some e), w')
      | (Inr (raw, a), w') \<Rightarrow> (vendor_ack (net_Now (vn_net v) w') raw a, w'))"

definition vendor_SubmitInvoice :: "'w VendorProvider \<Rightarrow> FiscalInvoice \<Rightarrow> 'w \<Rightarrow> ack_result \<times> 'w" where
  "vendor_SubmitInvoice v d = vendor_submit v ((toWire d)\<lparr>wi_Kind := ''INVOICE''\<rparr>)"

definition vendor_SubmitCreditNote :: "'w VendorProvider \<Rightarrow> CreditNote \<Rightarrow> 'w \<Rightarrow> ack_result \<times> 'w" where
  "vendor_SubmitCreditNote v n = vendor_submit v (toWireCredit n)"

definition vendor_LookupInvoice :: "string \<Rightarrow> 'w \<Rightarrow> ack_result \<times> 'w" where
  "vendor_LookupInvoice i w = ((no_ack, Some ErrLookupNotSupported), w)"

definition vendor_provider :: "'w VendorProvider \<Rightarrow> 'w Provider" where
  "vendor_provider v = \<lparr>provider_Name = ''vendor'', SubmitInvoice = vendor_SubmitInvoice v,
     SubmitCreditNote = vendor_SubmitCreditNote v, LookupInvoice = vendor_LookupInvoice\<rparr>"

subsection \<open>The other operations\<close>

definition dec_map :: "json \<Rightarrow> unit option" where
  "dec_map j = (case j of JObj _ _ \<Rightarrow> Some () | JNull \<Rightarrow> Some () | _ \<Rightarrow> None)"

definition vendor_Health :: "'w VendorProvider \<Rightarrow> 'w \<Rightarrow> go_error option \<times> 'w" where
  "vendor_Health v w = apfst (case_sum Some (\<lambda>_. None)) (vendor_do v ''GET'' ''/v1/health'' None dec_map () w)"

text \<open>The members of a printed map are in the order of their names.\<close>

definition vendor_RegisterDevice :: "'w VendorProvider \<Rightarrow> OrgFiscalProfile \<Rightarrow> 'w \<Rightarrow> (go_error + DeviceRef) \<times> 'w" where
  "vendor_RegisterDevice v prof w = apfst (map_sum id (\<lambda>(raw, ref). ref\<lparr>dr_Raw := raw\<rparr>))
     (vendor_doRaw v ''POST'' ''/v1/devices''
       (Some (PObj [(''branchId'', PStr (ofp_BranchID prof)), (''clientRef'', PStr (ofp_OrgID prof)),
          (''name'', PStr (ofp_Name prof)), (''pin'', PStr (ofp_KRAPIN prof)),
          (''vatRegistered'', PBool (ofp_VATRegistered prof))]))
       (dec_struct [(''deviceId'', put_string dr_DeviceID_update), (''branchId'', put_string dr_BranchID_update)]
          \<lparr>dr_DeviceID = [], dr_BranchID = [], dr_Raw = []\<rparr>)
       \<lparr>dr_DeviceID = [], dr_BranchID = [], dr_Raw = []\<rparr> w)"

definition vendor_LookupItemCodes :: "'w VendorProvider \<Rightarrow> string \<Rightarrow> 'w \<Rightarrow> (go_error + ItemCodeEntry list) \<times> 'w" where
  "vendor_LookupItemCodes v q =
     vendor_do v ''GET'' (''/v1/item-codes?q='' @ vn_QueryEscape v q) None (dec_list (dec_struct
       [(''code'', put_string ic_Code_update), (''description'', put_string ic_Description_update),
        (''taxType'', put_string ic_TaxCategory_update)] \<lparr>ic_Code = [], ic_Description = [], ic_TaxCategory = []\<rparr>)) []"

record Taxpayer =
  tp_PIN :: string
  tp_Name :: string
  tp_VATRegistered :: bool

definition no_taxpayer :: Taxpayer where
  "no_taxpayer = \<lparr>tp_PIN = [], tp_Name = [], tp_VATRegistered = False\<rparr>"

definition pin_lookup_error :: "go_error \<Rightarrow> go_error" where
  "pin_lookup_error e = (case err_root e of
     ValidationError code m f \<Rightarrow> if code = ''not_found'' \<or> code = ''pin_unknown'' then ErrPINUnknown
       else Wrap (err_text ErrLookupUnavailable @ '': '' @ err_text e) ErrLookupUnavailable
   | _ \<Rightarrow> if errors_is e Canceled then e
       else Wrap (err_text ErrLookupUnavailable @ '': '' @ err_text e) ErrLookupUnavailable)"

definition vendor_LookupPIN :: "'w VendorProvider \<Rightarrow> string \<Rightarrow> 'w \<Rightarrow> (go_error + Taxpayer) \<times> 'w" where
  "vendor_LookupPIN v pin w = apfst (map_sum pin_lookup_error (\<lambda>t. if tp_PIN t = [] then t\<lparr>tp_PIN := pin\<rparr> else t))
     (vendor_do v ''GET'' (''/v1/taxpayers/'' @ vn_PathEscape v pin) None
       (dec_struct [(''pin'', put_string tp_PIN_update), (''name'', put_string tp_Name_update),
          (''vatRegistered'', put_bool tp_VATRegistered_update)] no_taxpayer) no_taxpayer w)"

end
