(* ===== verification/VendorProps.thy ===== *)
theory VendorProps
  imports Vendor Gateway OscuProps
begin

text \<open>
  The integrator's adapter remembers nothing, so what it promises rests on the integrator: a
  retry always sends the document again, and an integrator that recognises the repetition leads the
  invoice into manual review. Its PIN lookup feeds the checker of onboarding.
\<close>

subsection \<open>Retries\<close>

lemma vendor_retry:
  "submit_call (vendor_provider v) cl w =
    (if cl_kind cl = ''CREDIT_NOTE'' then vendor_SubmitCreditNote v (credit_note_of cl) w
     else vendor_SubmitInvoice v (cl_doc cl) w)"
  by (simp add: submit_call_def lookup_first_def vendor_provider_def vendor_LookupInvoice_def errors_is_def)

definition says_duplicate :: "'w Net \<Rightarrow> net_answer \<Rightarrow> string \<Rightarrow> bool" where
  "says_duplicate net ans msg \<longleftrightarrow> (case ans of
     Inr (status, Inr raw) \<Rightarrow> status = 409 \<and> we_Code (unmarshal_wireError (net_J net raw)) = ''duplicate'' \<and>
       we_Message (unmarshal_wireError (net_J net raw)) = msg
   | _ \<Rightarrow> False)"

lemma says_duplicateE:
  assumes "says_duplicate net ans msg"
  obtains raw where "ans = Inr (409, Inr raw)" and "we_Code (unmarshal_wireError (net_J net raw)) = ''duplicate''"
    and "we_Message (unmarshal_wireError (net_J net raw)) = msg"
  using assms unfolding says_duplicate_def by (auto split: sum.splits prod.splits)

lemma vendor_duplicate:
  assumes "\<And>req w. says_duplicate (vn_net v) (fst (net_Do (vn_net v) req w)) msg"
  shows "fst (vendor_submit v i w) = (no_ack, Some (ValidationError ''duplicate_unresolved'' msg []))"
proof -
  let ?req = "vendor_request v ''POST'' ''/v1/invoices'' (Some (marshal_wireInvoice i))"
  from assms [of ?req w] obtain raw where "fst (net_Do (vn_net v) ?req w) = Inr (409, Inr raw)"
    and "we_Code (unmarshal_wireError (net_J (vn_net v) raw)) = ''duplicate''"
      "we_Message (unmarshal_wireError (net_J (vn_net v) raw)) = msg"
    by (rule says_duplicateE)
  then show ?thesis
    by (cases "net_Do (vn_net v) ?req w")
      (simp add: vendor_submit_def vendor_doRaw_def doRaw_def vendor_classifyStatus_def vendor_rejection_def)
qed

text \<open>
  The integrator has accepted an invoice whose answer was lost, and tells the retry that it is a
  duplicate: the retry is answered with a validation error, and the invoice ends in NEEDS_REVIEW
  without the number KRA gave it.
\<close>

theorem vendor_duplicate_reviewed:
  assumes w: "wf (tbl s)" and iv: "iv \<in> set (invoices s)" "inv_id iv = iid" "inv_org_id iv = oid"
    and due: "due now iv" and dup: "\<And>req w. says_duplicate (vn_net v) (fst (net_Do (vn_net v) req w)) msg"
    and run: "Submit k b (vendor_provider v) now oid iid (s, p) = (Inr res, s', p')"
  shows "r_State res = StateNeedsReview \<and> (\<exists>row \<in> set (invoices s'). inv_id row = iid \<and>
    inv_state row = StateNeedsReview \<and> inv_kra_invoice_no row = inv_kra_invoice_no iv)"
proof -
  from submit_effect [OF w iv due run] obtain cl answer where
    call: "submit_call (vendor_provider v) cl p = (answer, p')"
    and rows: "invoices s' = set_row iid (\<lambda>_. attempt_row now (clock s) answer iv) (invoices s)"
    and st: "r_State res = inv_state (attempt_row now (clock s) answer iv)" by blast
  let ?e = "ValidationError ''duplicate_unresolved'' msg []"
  have "fst (submit_call (vendor_provider v) cl p) = (no_ack, Some ?e)"
    using vendor_duplicate [OF dup] by (simp add: vendor_retry vendor_SubmitInvoice_def vendor_SubmitCreditNote_def)
  then have "answer = (no_ack, Some ?e)" using call by simp
  moreover have "Next (Resolve (inv_attempt iv + 1) (Some ?e)) \<noteq> StateAcked \<and>
      Next (Resolve (inv_attempt iv + 1) (Some ?e)) \<noteq> StateQueued"
    by (simp add: Resolve_Some Classify_def)
  ultimately have row: "attempt_row now (clock s) answer iv =
      to_state StateNeedsReview None None (Some (err_text ?e)) (clock s) (submitted (clock s) iv)"
    by (simp add: attempt_row_def answered_row_def)
  have "attempt_row now (clock s) answer iv \<in> set (invoices s')"
    using rows iv by (force simp: set_row_def)
  then show ?thesis using st iv(2) unfolding row
    by (intro conjI bexI [of _ "to_state StateNeedsReview None None (Some (err_text ?e)) (clock s) (submitted (clock s) iv)"])
      (simp_all add: to_state_def submitted_def)
qed

text \<open>An integrator that answers every request with the error of a duplicate.\<close>

definition dup_net :: "HttpReq list Net" where
  "dup_net = dead_net\<lparr>net_Do := (\<lambda>req w. (Inr (409, Inr ''D''), w @ [req])),
     net_J := (\<lambda>_. Some (JObj [] [(''error'', JObj [] [(''code'', JStr [] ''duplicate'')])]))\<rparr>"

definition dup_vendor :: "HttpReq list VendorProvider" where
  "dup_vendor = \<lparr>vn_cfg = \<lparr>vc_BaseURL = ''https://v'', vc_APIKey = ''k''\<rparr>, vn_net = dup_net,
     vn_QueryEscape = id, vn_PathEscape = id\<rparr>"

lemma dup_error:
  "unmarshal_wireError (Some (JObj [] [(''error'', JObj [] [(''code'', JStr [] ''duplicate'')])])) =
    \<lparr>we_Code = ''duplicate'', we_Message = [], we_Field = []\<rparr>"
  by code_simp

theorem vendor_duplicate_reviewed_witness:
  "\<exists>res s' p'. Submit plain_keyring id (vendor_provider dup_vendor) 0 1 5 (released_db, []) = (Inr res, s', p') \<and>
     length p' = 1 \<and> (\<exists>row \<in> set (invoices s'). inv_id row = 5 \<and> inv_state row = StateNeedsReview \<and>
       inv_kra_invoice_no row = inv_kra_invoice_no released_invoice)"
proof -
  have "map_sum id r_State (fst (Submit plain_keyring id (vendor_provider dup_vendor) 0 1 5
      (released_db, []))) = Inr StateNeedsReview" by code_simp
  then obtain res s' p' where run: "Submit plain_keyring id (vendor_provider dup_vendor) 0 1 5
      (released_db, []) = (Inr res, s', p')" by (rule submit_Inr)
  have dup: "says_duplicate (vn_net dup_vendor) (fst (net_Do (vn_net dup_vendor) req w)) []" for req w
    by (simp add: says_duplicate_def dup_vendor_def dup_net_def dup_error)
  have "length (snd (snd (Submit plain_keyring id (vendor_provider dup_vendor) 0 1 5 (released_db, [])))) = 1"
    by code_simp
  with vendor_duplicate_reviewed [OF released_facts(1-5) dup run] run show ?thesis by auto
qed

subsection \<open>The checker of onboarding\<close>

text \<open>What the provider's lookup of a PIN means: only a PIN it does not know stops onboarding.\<close>

lemma vendor_pin_verdict:
  assumes "PINRe pin" and "vendor_LookupPIN v pin w = (r, w')"
  shows "FiscalPINChecker (Some (''vendor'', Some (\<lambda>pin w. apfst (case_sum Some (\<lambda>_. None)) (vendor_LookupPIN v pin w)))) pin w =
    (case r of Inr _ \<Rightarrow> None
     | Inl e \<Rightarrow> if errors_is e ErrPINUnknown then Some org_ErrPINUnknown else Some (lookup_unavailable e), w')"
  using assms by (auto simp: FiscalPINChecker_def Let_def split: sum.splits)

end
