(* ===== verification/DarajaClient.thy ===== *)
theory DarajaClient
  imports Transport Reconcile
begin

text \<open>
  The client of Safaricom's interface, \<open>internal/mpesa/client.go\<close>: the cached token, the
  registration of the callback addresses, the sandbox simulator and the pull of past transactions.
  A failure to read a body is not looked at by the code, which goes on with what was read; the
  network answers a body that was read in part as that part, and one of which nothing was read as
  an error. The texts of decoding errors are not modelled; the fraction of a duration is
  computed exactly.
\<close>

subsection \<open>Durations\<close>

definition unit_of :: "string \<Rightarrow> int option" where
  "unit_of = map_of [(''ns'', 1), (''us'', 1000), ([CHR 0xC2, CHR 0xB5, CHR ''s''], 1000),
     ([CHR 0xCE, CHR 0xBC, CHR ''s''], 1000), (''ms'', 1000000), (''s'', second), (''m'', minute), (''h'', hour)]"

text \<open>The digits after a point, and what follows them.\<close>

definition fraction_of :: "string \<Rightarrow> string \<times> string" where
  "fraction_of r = (if r \<noteq> [] \<and> hd r = CHR ''.'' then (takeWhile is_digit (tl r), dropWhile is_digit (tl r)) else ([], r))"

definition unit_char :: "char \<Rightarrow> bool" where
  "unit_char c \<longleftrightarrow> c \<noteq> CHR ''.'' \<and> \<not> is_digit c"

text \<open>One number with its unit, and the rest; the bound is \<open>1 << 63\<close>.\<close>

definition duration_part :: "string \<Rightarrow> (int \<times> string) option" where
  "duration_part s =
     (let whole = takeWhile is_digit s; frac = fst (fraction_of (dropWhile is_digit s));
          r = snd (fraction_of (dropWhile is_digit s))
      in if whole = [] \<and> frac = [] \<or> 2 ^ 63 < decimal whole then None
         else case unit_of (takeWhile unit_char r) of
           None \<Rightarrow> None
         | Some m \<Rightarrow> (let v = decimal whole * m + decimal frac * m div 10 ^ length frac in
             if 2 ^ 63 < v then None else Some (v, dropWhile unit_char r)))"

function duration_loop :: "int \<Rightarrow> string \<Rightarrow> int option" where
  "duration_loop d s = (if s = [] then Some d else case duration_part s of
     None \<Rightarrow> None
   | Some (v, rest) \<Rightarrow> if length s \<le> length rest \<or> 2 ^ 63 < d + v then None else duration_loop (d + v) rest)"
  by pat_completeness auto
termination by (relation "measure (\<lambda>(d, s). length s)") auto

declare duration_loop.simps [simp del]

text \<open>\<open>time.ParseDuration\<close>\<close>

definition ParseDuration :: "string \<Rightarrow> duration option" where
  "ParseDuration s0 =
     (let neg = (s0 \<noteq> [] \<and> hd s0 = CHR ''-''); s = (if s0 \<noteq> [] \<and> hd s0 \<in> {CHR ''-'', CHR ''+''} then tl s0 else s0) in
      if s = ''0'' then Some 0 else if s = [] then None
      else case duration_loop 0 s of
        None \<Rightarrow> None
      | Some d \<Rightarrow> if neg then Some (- d) else if d \<le> 2 ^ 63 - 1 then Some d else None)"

text \<open>The text left over after one part is shorter, so the loop reads every part.\<close>

lemma duration_part_shorter:
  assumes "duration_part s = Some (v, rest)"
  shows "length rest < length s"
proof -
  let ?r = "snd (fraction_of (dropWhile is_digit s))"
  from assms have u: "unit_of (takeWhile unit_char ?r) \<noteq> None" and rest: "rest = dropWhile unit_char ?r"
    by (auto simp: duration_part_def Let_def split: if_splits option.splits)
  from u have "takeWhile unit_char ?r \<noteq> []" by (auto simp: unit_of_def)
  moreover have "length (takeWhile unit_char ?r) + length rest = length ?r"
    unfolding rest by (metis length_append takeWhile_dropWhile_id)
  ultimately have "length rest < length ?r" by (cases "takeWhile unit_char ?r") auto
  moreover have "length ?r \<le> length (dropWhile is_digit s)"
    using length_dropWhile_le [of is_digit "tl (dropWhile is_digit s)"] by (auto simp: fraction_of_def)
  ultimately show ?thesis using length_dropWhile_le [of is_digit s] by linarith
qed

subsection \<open>The client\<close>

record DarajaConfig =
  da_Env :: string
  da_BaseURL :: string
  da_ConsumerKey :: string
  da_ConsumerSecret :: string
  da_WebhookToken :: string

text \<open>The path of an address, of which an error speaks, is the part that \<open>url.Parse\<close> finds.\<close>

record 'w DarajaClient =
  dc_cfg :: DarajaConfig
  dc_net :: "'w Net"
  dc_url_path :: "string \<Rightarrow> string"

type_synonym 'w daraja_state = "TokenCache \<times> 'w"

definition mpesa_Configured :: "'w DarajaClient \<Rightarrow> bool" where
  "mpesa_Configured c \<longleftrightarrow> da_ConsumerKey (dc_cfg c) \<noteq> [] \<and> da_ConsumerSecret (dc_cfg c) \<noteq> []"

definition mpesa_do :: "'w DarajaClient \<Rightarrow> HttpReq \<Rightarrow> (json \<Rightarrow> 'a option) \<Rightarrow> 'a \<Rightarrow> 'w \<Rightarrow> (go_error + 'a) \<times> 'w" where
  "mpesa_do c req decode zero w = (case net_Do (dc_net c) req w of
     (Inl e, w') \<Rightarrow> (Inl e, w')
   | (Inr (status, body), w') \<Rightarrow>
       (let raw = case_sum (\<lambda>_. []) (\<lambda>r. r) body in
        (if status < 200 \<or> 300 \<le> status
         then Inl (ErrorString (''mpesa: '' @ dc_url_path c (hr_URL req) @ '' -> '' @ digits 10 (int status) @ '': '' @ trim_space raw))
         else if raw = [] then Inr zero
         else (case Option.bind (net_J (dc_net c) raw) decode of
           Some out \<Rightarrow> Inr out | None \<Rightarrow> Inl (ErrorString ''invalid JSON'')), w')))"

definition oauth_request :: "'w DarajaClient \<Rightarrow> HttpReq" where
  "oauth_request c = \<lparr>hr_Method = ''GET'',
     hr_URL = da_BaseURL (dc_cfg c) @ ''/oauth/v1/generate?grant_type=client_credentials'',
     hr_Auth = BasicAuth (da_ConsumerKey (dc_cfg c)) (da_ConsumerSecret (dc_cfg c)), hr_Headers = [], hr_Body = None\<rparr>"

definition unmarshal_oauth :: "json \<Rightarrow> (string \<times> string) option" where
  "unmarshal_oauth = dec_struct [(''access_token'', put_string apfst), (''expires_in'', put_string apsnd)] ([], [])"

definition mpesa_Token :: "'w DarajaClient \<Rightarrow> 'w daraja_state \<Rightarrow> (go_error + string) \<times> 'w daraja_state" where
  "mpesa_Token c = (\<lambda>(tc, w).
     if tk_token tc \<noteq> [] \<and> 30 * second < tk_exp tc - net_Now (dc_net c) w then (Inr (tk_token tc), (tc, w))
     else if \<not> mpesa_Configured c
     then (Inl (ErrorString ''mpesa: DARAJA_CONSUMER_KEY/SECRET not configured''), (tc, w))
     else (case mpesa_do c (oauth_request c) unmarshal_oauth ([], []) w of
        (Inl e, w') \<Rightarrow> (Inl (Wrap (''mpesa: oauth: '' @ err_text e) e), (tc, w'))
      | (Inr (tok, expires), w') \<Rightarrow>
          (let ttl = (case ParseDuration (expires @ ''s'') of Some d \<Rightarrow> d | None \<Rightarrow> hour) in
           (Inr tok, (\<lparr>tk_token = tok, tk_exp = net_Now (dc_net c) w' + ttl\<rparr>, w')))))"

definition mpesa_post ::
    "'w DarajaClient \<Rightarrow> string \<Rightarrow> payload \<Rightarrow> (json \<Rightarrow> 'a option) \<Rightarrow> 'a \<Rightarrow> 'w daraja_state \<Rightarrow> (go_error + 'a) \<times> 'w daraja_state" where
  "mpesa_post c path body decode zero st = (case mpesa_Token c st of
     (Inl e, st') \<Rightarrow> (Inl e, st')
   | (Inr tok, (tc, w)) \<Rightarrow> apsnd (Pair tc) (mpesa_do c \<lparr>hr_Method = ''POST'', hr_URL = da_BaseURL (dc_cfg c) @ path,
       hr_Auth = Bearer tok, hr_Headers = [(''Content-Type'', ''application/json'')], hr_Body = Some body\<rparr> decode zero w))"

definition decode_map :: "json \<Rightarrow> json option" where
  "decode_map j = (case j of JObj _ _ \<Rightarrow> Some j | JNull \<Rightarrow> Some JNull | _ \<Rightarrow> None)"

definition RegisterC2BURLs :: "'w DarajaClient \<Rightarrow> string \<Rightarrow> string \<Rightarrow> 'w daraja_state \<Rightarrow> go_error option \<times> 'w daraja_state" where
  "RegisterC2BURLs c shortcode base st = apfst (case_sum Some (\<lambda>_. None)) (mpesa_post c ''/mpesa/c2b/v1/registerurl''
     (PObj [(''ConfirmationURL'', PStr (base @ ''/webhooks/daraja/c2b/confirmation/'' @ da_WebhookToken (dc_cfg c))),
       (''ResponseType'', PStr ''Completed''), (''ShortCode'', PStr shortcode),
       (''ValidationURL'', PStr (base @ ''/webhooks/daraja/c2b/validation/'' @ da_WebhookToken (dc_cfg c)))])
     decode_map JNull st)"

record STKPushResult =
  sr_MerchantRequestID :: string
  sr_CheckoutRequestID :: string
  sr_ResponseCode :: string
  sr_ResponseDescription :: string
  sr_CustomerMessage :: string

definition ErrSTKNotConfigured :: go_error where
  "ErrSTKNotConfigured =
     ErrorString ''mpesa: STK push is not available (no DARAJA passkey; request-to-pay is Phase 2)''"

definition STKPush :: "string \<Rightarrow> string \<Rightarrow> int \<Rightarrow> go_error + STKPushResult" where
  "STKPush shortcode msisdn cents = Inl ErrSTKNotConfigured"

definition SimulateC2B ::
    "'w DarajaClient \<Rightarrow> string \<Rightarrow> string \<Rightarrow> int \<Rightarrow> string \<Rightarrow> 'w daraja_state \<Rightarrow> (go_error + json) \<times> 'w daraja_state" where
  "SimulateC2B c shortcode msisdn cents billRef st =
     (if da_Env (dc_cfg c) = ''production''
      then (Inl (ErrorString ''mpesa: C2B simulate is a sandbox-only endpoint''), st)
      else mpesa_post c ''/mpesa/c2b/v1/simulate''
        (PObj [(''Amount'', PInt (quo cents 100)), (''BillRefNumber'', PStr billRef),
          (''CommandID'', PStr ''CustomerPayBillOnline''), (''Msisdn'', PStr msisdn), (''ShortCode'', PStr shortcode)])
        decode_map JNull st)"

definition unmarshal_pulled :: "json \<Rightarrow> PullTransaction option" where
  "unmarshal_pulled = dec_struct
     [(''TransactionType'', put_string pt_TransactionType_update), (''TransID'', put_string pt_TransID_update),
      (''TransTime'', put_string pt_TransTime_update), (''TransAmount'', put_string pt_TransAmount_update),
      (''BusinessShortCode'', put_string pt_BusinessShortCode_update), (''BillRefNumber'', put_string pt_BillRefNumber_update),
      (''InvoiceNumber'', put_string pt_InvoiceNumber_update), (''OrgAccountBalance'', put_string pt_OrgAccountBalance_update),
      (''ThirdPartyTransID'', put_string pt_ThirdPartyTransID_update), (''MSISDN'', put_string pt_MSISDN_update),
      (''FirstName'', put_string pt_FirstName_update), (''MiddleName'', put_string pt_MiddleName_update),
      (''LastName'', put_string pt_LastName_update)]
     \<lparr>pt_TransactionType = [], pt_TransID = [], pt_TransTime = [], pt_TransAmount = [], pt_BusinessShortCode = [],
      pt_BillRefNumber = [], pt_InvoiceNumber = [], pt_OrgAccountBalance = [], pt_ThirdPartyTransID = [],
      pt_MSISDN = [], pt_FirstName = [], pt_MiddleName = [], pt_LastName = []\<rparr>"

definition unmarshal_pull :: "json \<Rightarrow> PullTransaction list option" where
  "unmarshal_pull = map_option snd \<circ> dec_struct
     [(''ResponseCode'', put_string (\<lambda>f r. r)), (''ResponseDescription'', put_string (\<lambda>f r. r)),
      (''Response'', \<lambda>r j. map_option (\<lambda>ts. apsnd (\<lambda>_. ts) r) (dec_list unmarshal_pulled j))] ((), [])"

definition pull_query :: "string \<Rightarrow> string \<Rightarrow> string \<Rightarrow> string \<Rightarrow> payload" where
  "pull_query shortcode startDate endDate offset = PObj [(''ShortCode'', PStr shortcode), (''StartDate'', PStr startDate),
     (''EndDate'', PStr endDate), (''OffSetValue'', PStr offset)]"

definition PullTransactions ::
    "'w DarajaClient \<Rightarrow> string \<Rightarrow> string \<Rightarrow> string \<Rightarrow> string \<Rightarrow> 'w daraja_state \<Rightarrow>
      (go_error + PullTransaction list) \<times> 'w daraja_state" where
  "PullTransactions c shortcode startDate endDate offset st =
     (if \<not> mpesa_Configured c then (Inl (ErrorString ''mpesa: DARAJA credentials not configured''), st)
      else mpesa_post c ''/pulltransactions/v1/query''
        (pull_query shortcode startDate endDate (if offset = [] then ''0'' else offset)) unmarshal_pull [] st)"

end
