(* ===== verification/SmsGateway.thy ===== *)
theory SmsGateway
  imports Transport Notify
begin

text \<open>
  The client of the SMS gateway, \<open>internal/notify/at.go\<close>, the production instance of the sender
  that messages are handed to. The body of its request is a form: the printed fields in the order
  of their names. As in the Daraja client, what was read of a body counts as the body; the texts of
  decoding errors are not modelled.
\<close>

record AtConfig =
  at_BaseURL :: string
  at_Username :: string
  at_APIKey :: string
  at_SenderID :: string

record 'w ATClient =
  ac_cfg :: AtConfig
  ac_net :: "'w Net"

record Recipient =
  rp_Number :: string
  rp_Status :: string
  rp_StatusCode :: int
  rp_MessageID :: string
  rp_Cost :: string

definition unmarshal_recipient :: "json \<Rightarrow> Recipient option" where
  "unmarshal_recipient = dec_struct
     [(''number'', put_string rp_Number_update), (''status'', put_string rp_Status_update),
      (''statusCode'', put_int rp_StatusCode_update), (''messageId'', put_string rp_MessageID_update),
      (''cost'', put_string rp_Cost_update)]
     \<lparr>rp_Number = [], rp_Status = [], rp_StatusCode = 0, rp_MessageID = [], rp_Cost = []\<rparr>"

text \<open>The message and the recipients of an answer.\<close>

definition unmarshal_sms_data :: "string \<times> Recipient list \<Rightarrow> json \<Rightarrow> (string \<times> Recipient list) option" where
  "unmarshal_sms_data = dec_struct [(''Message'', put_string apfst),
     (''Recipients'', \<lambda>r j. map_option (\<lambda>rs. apsnd (\<lambda>_. rs) r) (dec_list unmarshal_recipient j))]"

definition unmarshal_atResponse :: "json \<Rightarrow> (string \<times> Recipient list) option" where
  "unmarshal_atResponse = dec_struct [(''SMSMessageData'', unmarshal_sms_data)] ([], [])"

text \<open>\<open>strconv.ParseInt\<close> with its error ignored: the nearest value when the text is out of range, else 0.\<close>

definition parse_clamped :: "string \<Rightarrow> int" where
  "parse_clamped s = (case ParseInt s of Some n \<Rightarrow> n | None \<Rightarrow>
     (let ds = (if s \<noteq> [] \<and> hd s \<in> {CHR ''-'', CHR ''+''} then tl s else s) in
      if ds = [] \<or> \<not> list_all is_digit ds then 0 else if hd s = CHR ''-'' then - (2 ^ 63) else 2 ^ 63 - 1))"

text \<open>\<open>strings.Fields\<close>: the bytes of a space rune still to skip, and the field read so far, reversed.\<close>

fun fields_loop :: "nat \<Rightarrow> string \<Rightarrow> string \<Rightarrow> string list" where
  "fields_loop k cur [] = (if cur = [] then [] else [rev cur])"
| "fields_loop (Suc k) cur (c # cs) = fields_loop k cur cs"
| "fields_loop 0 cur (c # cs) = (let n = leading space_runes (c # cs) in
     if n = 0 then fields_loop 0 (c # cur) cs
     else (if cur = [] then [] else [rev cur]) @ fields_loop (n - 1) [] cs)"

definition parseCost :: "string \<Rightarrow> int" where
  "parseCost s = (case fields_loop 0 [] s of
     [_, v] \<Rightarrow>
       (let w = takeWhile (\<lambda>c. c \<noteq> CHR ''.'') v; r = dropWhile (\<lambda>c. c \<noteq> CHR ''.'') v;
            frac = (if r = [] then 0 else parse_clamped (take 2 (tl r @ ''00'')))
        in wrap64 (parse_clamped w * 100 + frac))
   | _ \<Rightarrow> 0)"

definition sms_form :: "AtConfig \<Rightarrow> string \<Rightarrow> string \<Rightarrow> payload" where
  "sms_form cfg to' body = PObj
     ((if at_SenderID cfg \<noteq> [] \<and> at_SenderID cfg \<noteq> ''none'' \<and> at_Username cfg \<noteq> ''sandbox''
       then [(''from'', PStr (at_SenderID cfg))] else []) @
      [(''message'', PStr body), (''to'', PStr to'), (''username'', PStr (at_Username cfg))])"

definition sms_request :: "AtConfig \<Rightarrow> string \<Rightarrow> string \<Rightarrow> HttpReq" where
  "sms_request cfg to' body = \<lparr>hr_Method = ''POST'',
     hr_URL = TrimRight (CHR ''/'') (at_BaseURL cfg) @ ''/version1/messaging'', hr_Auth = NoAuth,
     hr_Headers = [(''Content-Type'', ''application/x-www-form-urlencoded''), (''Accept'', ''application/json''),
       (''apiKey'', at_APIKey cfg)], hr_Body = Some (sms_form cfg to' body)\<rparr>"

definition sms_answer :: "'w Net \<Rightarrow> nat \<Rightarrow> string \<Rightarrow> send_error + SendResult" where
  "sms_answer net status raw =
     (if 500 \<le> status then Inl (SendFailed (ErrorString (''notify: at upstream '' @ digits 10 (int status))))
      else if 400 \<le> status
      then Inl (PermanentError (''at '' @ digits 10 (int status) @ '': '' @ trim_space raw))
      else case Option.bind (net_J net raw) unmarshal_atResponse of
        None \<Rightarrow> Inl (SendFailed (ErrorString ''notify: at response: invalid JSON''))
      | Some (msg, []) \<Rightarrow> Inl (PermanentError (''at: '' @ msg))
      | Some (_, r # _) \<Rightarrow>
          if 400 \<le> rp_StatusCode r \<and> rp_StatusCode r < 500
          then Inl (PermanentError (''at recipient: '' @ rp_Status r))
          else Inr \<lparr>snd_MessageID = rp_MessageID r, snd_CostCents = parseCost (rp_Cost r)\<rparr>)"

definition SendSMS :: "'w ATClient \<Rightarrow> string \<Rightarrow> string \<Rightarrow> 'w \<Rightarrow> (send_error + SendResult) \<times> 'w" where
  "SendSMS c to' body w = (case net_Do (ac_net c) (sms_request (ac_cfg c) to' body) w of
     (Inl e, w') \<Rightarrow> (Inl (SendFailed (Wrap (''notify: at: '' @ err_text e) e)), w')
   | (Inr (status, b), w') \<Rightarrow> (sms_answer (ac_net c) status (case_sum (\<lambda>_. []) (\<lambda>r. r) b), w'))"

text \<open>Costs as the gateway prints them, and texts that are none.\<close>

lemma parseCost_samples:
  "map parseCost [''KES 0.8000'', ''KES 12.5'', ''KES 7'', ''0.8000'', ''KES x'', ''KES 1.2.3''] =
    [80, 1250, 700, 0, 0, 100]"
  by code_simp

text \<open>What a worker sees of a message: a permanent error cancels its job, any other is tried again.\<close>

lemma sms_answer_cases:
  "(500 \<le> status \<longrightarrow> (\<exists>e. sms_answer net status raw = Inl (SendFailed e))) \<and>
   (400 \<le> status \<and> status < 500 \<longrightarrow> (\<exists>m. sms_answer net status raw = Inl (PermanentError m)))"
  by (simp add: sms_answer_def)

end
