(* ===== verification/Config.thy ===== *)
theory Config
  imports Gateway Vendor DarajaClient SmsGateway
begin

text \<open>
  The configuration of a process, \<open>internal/platform/config\<close>, its key material
  (\<open>internal/platform/crypto/keyring.go\<close>) and what \<open>internal/boot\<close> and the start of
  \<open>cmd/api/main.go\<close> build from it. Reading the environment into the record is the work of a
  third-party package; the record is where the model starts.
\<close>

subsection \<open>Settings\<close>

record DarajaSettings = DarajaConfig +
  da_Shortcode :: string
  da_IPAllowlist :: "string list"

record FiscalConfig =
  fc_Adapter :: string
  fc_VendorBaseURL :: string
  fc_VendorAPIKey :: string
  fc_TimeoutSeconds :: int
  fc_MockFailMode :: string

record KRA =
  ka_Env :: string
  ka_BaseURL :: string
  ka_APIBaseURL :: string
  ka_ConsumerKey :: string
  ka_ConsumerSecret :: string
  ka_DeviceSerial :: string
  ka_UseMockGateway :: bool

record Settings =
  cf_AppEnv :: string
  cf_PublicBaseURL :: string
  cf_WebhookBaseURL :: string
  cf_SessionSecret :: string
  cf_MasterKeyB64 :: string
  cf_HashPepper :: string
  cf_UploadDir :: string
  cf_Daraja :: DarajaSettings
  cf_Fiscal :: FiscalConfig
  cf_KRA :: KRA
  cf_AT :: AtConfig

text \<open>The defaults of the environment variables.\<close>

definition default_config :: Settings where
  "default_config = \<lparr>cf_AppEnv = ''local'', cf_PublicBaseURL = ''http://localhost:3000'',
     cf_WebhookBaseURL = ''http://localhost:8080'', cf_SessionSecret = ''dev-session-secret-change-me'',
     cf_MasterKeyB64 = ''ZGV2LW1hc3Rlci1rZXktMzItYnl0ZXMtZm9yLWRldiE='', cf_HashPepper = ''dev-hash-pepper-change-me'',
     cf_UploadDir = ''./var/uploads'',
     cf_Daraja = \<lparr>da_Env = ''sandbox'', da_BaseURL = ''https://sandbox.safaricom.co.ke'', da_ConsumerKey = [],
       da_ConsumerSecret = [], da_WebhookToken = ''dev-webhook-token'', da_Shortcode = ''600000'', da_IPAllowlist = []\<rparr>,
     cf_Fiscal = \<lparr>fc_Adapter = ''mock'', fc_VendorBaseURL = [], fc_VendorAPIKey = [], fc_TimeoutSeconds = 20,
       fc_MockFailMode = ''none''\<rparr>,
     cf_KRA = \<lparr>ka_Env = ''sandbox'', ka_BaseURL = ''https://sbx.kra.go.ke'', ka_APIBaseURL = [], ka_ConsumerKey = [],
       ka_ConsumerSecret = [], ka_DeviceSerial = [], ka_UseMockGateway = False\<rparr>,
     cf_AT = \<lparr>at_BaseURL = ''http://localhost:8025'', at_Username = ''sandbox'', at_APIKey = ''dev-at-key'',
       at_SenderID = ''CIFTPAY''\<rparr>\<rparr>"

definition KRA_Configured :: "KRA \<Rightarrow> bool" where
  "KRA_Configured k \<longleftrightarrow> ka_ConsumerKey k \<noteq> [] \<and> ka_ConsumerSecret k \<noteq> []"

definition IsProduction :: "Settings \<Rightarrow> bool" where "IsProduction c \<longleftrightarrow> cf_AppEnv c = ''production''"

definition IsLocal :: "Settings \<Rightarrow> bool" where
  "IsLocal c \<longleftrightarrow> cf_AppEnv c = ''local'' \<or> cf_AppEnv c = ''test''"

subsection \<open>The master key\<close>

definition base64_chars :: string where
  "base64_chars = ''ABCDEFGHIJKLMNOPQRSTUVWXYZabcdefghijklmnopqrstuvwxyz0123456789+/''"

definition base64_value :: "char \<Rightarrow> int option" where
  "base64_value c = (let n = length (takeWhile (\<lambda>d. d \<noteq> c) base64_chars) in if n < 64 then Some (int n) else None)"

text \<open>The bytes of four characters, of which the first \<open>k + 1\<close> carry bits.\<close>

definition quantum :: "nat \<Rightarrow> char list \<Rightarrow> string option" where
  "quantum k cs = (case those (map base64_value (take (k + 1) cs)) of
     None \<Rightarrow> None
   | Some vs \<Rightarrow> (let n = foldl (\<lambda>a v. 64 * a + v) 0 (take 4 (vs @ replicate 3 0)) in
       Some (take k [char_of (n div 65536), char_of (n div 256 mod 256), char_of (n mod 256)])))"

fun base64_quanta :: "string \<Rightarrow> string option" where
  "base64_quanta [] = Some []"
| "base64_quanta (a # b # c # d # cs) =
     (if cs = [] \<and> d = CHR ''='' then quantum (if c = CHR ''='' then 1 else 2) [a, b, c, d]
      else case (quantum 3 [a, b, c, d], base64_quanta cs) of
        (Some x, Some y) \<Rightarrow> Some (x @ y) | _ \<Rightarrow> None)"
| "base64_quanta cs = None"

text \<open>\<open>base64.StdEncoding.DecodeString\<close>\<close>

definition base64_decode :: "string \<Rightarrow> string option" where
  "base64_decode s = base64_quanta (filter (\<lambda>c. c \<noteq> CHR 0x0A \<and> c \<noteq> CHR 0x0D) s)"

definition master_key :: "string \<Rightarrow> string \<Rightarrow> string \<Rightarrow> go_error + bytes" where
  "master_key what wrong s = (case base64_decode s of
     None \<Rightarrow> Inl (ErrorString (what @ '' is not valid base64''))
   | Some key \<Rightarrow> if length key \<noteq> 32 then Inl (ErrorString (what @ wrong @ digits 10 (int (length key)))) else Inr key)"

definition MasterKey :: "Settings \<Rightarrow> go_error + bytes" where
  "MasterKey c = master_key ''config: MASTER_KEY_B64'' '' must decode to 32 bytes, got '' (cf_MasterKeyB64 c)"

text \<open>
  The provider of the key reads the variable once more, \<open>None\<close> when it is not set; the context of
  the caller is live at the start of a process.
\<close>

definition FetchMasterKey :: "string \<Rightarrow> string option \<Rightarrow> string \<Rightarrow> go_error + bytes" where
  "FetchMasterKey envVar0 getenv deflt =
     (let envVar = (if envVar0 = [] then ''MASTER_KEY_B64'' else envVar0);
          v = (case getenv of None \<Rightarrow> [] | Some x \<Rightarrow> x);
          val = (if v = [] then deflt else v) in
      if val = [] then Inl (ErrorString (''crypto: environment variable '' @ Daraja.quoted envVar @ '' is not set''))
      else master_key (''crypto: '' @ envVar) '' must decode to 32 bytes, got '' val)"

text \<open>The ciphers are arguments, as in the keyring itself.\<close>

definition crypto_New :: "Keyring \<Rightarrow> bytes \<Rightarrow> bytes \<Rightarrow> go_error + Keyring" where
  "crypto_New ciphers key pep =
     (if length key \<noteq> 32
      then Inl (ErrorString (''crypto: master key must be 32 bytes, got '' @ digits 10 (int (length key))))
      else if pep = [] then Inl (ErrorString ''crypto: hash pepper must not be empty'')
      else Inr (ciphers\<lparr>master := key, pepper := pep\<rparr>))"

definition NewKeyring :: "Keyring \<Rightarrow> go_error + bytes \<Rightarrow> bytes \<Rightarrow> go_error + Keyring" where
  "NewKeyring ciphers fetched pep = (case fetched of
     Inl e \<Rightarrow> Inl (Wrap (''crypto: failed to fetch master key: '' @ err_text e) e)
   | Inr key \<Rightarrow> crypto_New ciphers key pep)"

subsection \<open>Validation\<close>

definition Validate :: "Settings \<Rightarrow> go_error option" where
  "Validate c =
     (let fail = (\<lambda>m. Some (ErrorString (''config: '' @ m))); f = cf_Fiscal c; k = cf_KRA c; d = cf_Daraja c in
      if cf_AppEnv c \<notin> {''local'', ''test'', ''staging'', ''production''}
      then fail (''APP_ENV '' @ Daraja.quoted (cf_AppEnv c) @ '' is not one of local|test|staging|production'')
      else case MasterKey c of Inl e \<Rightarrow> Some e | Inr _ \<Rightarrow>
      if fc_Adapter f \<notin> {''mock'', ''vendor'', ''oscu''}
      then fail (''FISCAL_ADAPTER '' @ Daraja.quoted (fc_Adapter f) @ '' is not one of mock|vendor|oscu'')
      else if fc_MockFailMode f \<notin> {''none'', ''retryable'', ''terminal''}
      then fail (''MOCK_FAIL_MODE '' @ Daraja.quoted (fc_MockFailMode f) @ '' is not one of none|retryable|terminal'')
      else if fc_Adapter f = ''vendor'' \<and> (fc_VendorBaseURL f = [] \<or> fc_VendorAPIKey f = [])
      then fail ''FISCAL_ADAPTER=vendor requires FISCAL_VENDOR_BASE_URL and FISCAL_VENDOR_API_KEY''
      else if ka_Env k \<notin> {''sandbox'', ''production''}
      then fail (''KRA_OSCU_ENV '' @ Daraja.quoted (ka_Env k) @ '' is not one of sandbox|production'')
      else if fc_Adapter f = ''oscu'' \<and> \<not> KRA_Configured k
      then fail ''FISCAL_ADAPTER=oscu requires KRA_OSCU_CONSUMER_KEY and KRA_OSCU_CONSUMER_SECRET''
      else if fc_Adapter f = ''oscu'' \<and> ka_Env k = ''production'' \<and> contains_text (ka_BaseURL k) ''sbx.''
      then fail ''KRA_OSCU_ENV=production cannot use the sandbox KRA_OSCU_BASE_URL''
      else if IsProduction c \<and> ka_UseMockGateway k
      then fail ''USE_MOCK_KRA_GATEWAY cannot be true when APP_ENV=production''
      else if IsProduction c \<and> (prefix ''dev-'' (cf_SessionSecret c) \<or> prefix ''dev-'' (cf_HashPepper c))
      then fail ''dev secrets are not allowed when APP_ENV=production''
      else if IsProduction c \<and> da_WebhookToken d = ''dev-webhook-token''
      then fail ''DARAJA_WEBHOOK_TOKEN must be changed when APP_ENV=production''
      else if IsProduction c \<and> (da_ConsumerKey d = [] \<or> da_ConsumerSecret d = [])
      then fail ''DARAJA_CONSUMER_KEY and DARAJA_CONSUMER_SECRET are required when APP_ENV=production''
      else if trim_space (cf_UploadDir c) = [] then fail ''UPLOAD_DIR must not be empty''
      else None)"

text \<open>\<open>Load\<close>, after the environment is parsed.\<close>

definition load_config :: "go_error + Settings \<Rightarrow> go_error + Settings" where
  "load_config parsed = (case parsed of
     Inl e \<Rightarrow> Inl (Wrap (''config: '' @ err_text e) e)
   | Inr c \<Rightarrow> (case Validate c of Some e \<Rightarrow> Inl e | None \<Rightarrow> Inr c))"

definition boot_keys :: "Keyring \<Rightarrow> string option \<Rightarrow> Settings \<Rightarrow> go_error + Keyring" where
  "boot_keys ciphers getenv c =
     NewKeyring ciphers (FetchMasterKey ''MASTER_KEY_B64'' getenv (cf_MasterKeyB64 c)) (cf_HashPepper c)"

subsection \<open>Dependencies\<close>

datatype 'w adapter = MockAdapter FailMode | VendorAdapter "'w VendorProvider" | OscuAdapter "'w OscuClient"

text \<open>What the standard library and the network supply.\<close>

record 'w Host =
  ho_net :: "'w Net"
  ho_parse_url :: "string \<Rightarrow> string option"
  ho_QueryEscape :: "string \<Rightarrow> string"
  ho_PathEscape :: "string \<Rightarrow> string"
  ho_sha256 :: "string \<Rightarrow> nat list"

definition OSCUConfig :: "KRA \<Rightarrow> OscuConfig" where
  "OSCUConfig k = \<lparr>oc_BaseURL = ka_BaseURL k, oc_APIBaseURL = ka_APIBaseURL k, oc_ConsumerKey = ka_ConsumerKey k,
     oc_ConsumerSecret = ka_ConsumerSecret k, oc_DeviceSerial = ka_DeviceSerial k\<rparr>"

definition FiscalProvider :: "'w Host \<Rightarrow> FiscalConfig \<Rightarrow> KRA \<Rightarrow> go_error + 'w adapter" where
  "FiscalProvider h f k =
     (if fc_Adapter f = ''mock'' then map_sum id MockAdapter (ParseFailMode (fc_MockFailMode f))
      else if fc_Adapter f = ''vendor''
      then map_sum id VendorAdapter (vendor_New (ho_net h) (ho_QueryEscape h) (ho_PathEscape h) (ho_parse_url h)
        \<lparr>vc_BaseURL = fc_VendorBaseURL f, vc_APIKey = fc_VendorAPIKey f\<rparr>)
      else if fc_Adapter f = ''oscu'' then map_sum id OscuAdapter (oscu_NewClient (ho_net h) (ho_parse_url h) (OSCUConfig k))
      else Inl (ErrorString (''boot: fiscal adapter '' @ Daraja.quoted (fc_Adapter f) @ '' is not available yet'')))"

text \<open>
  The client of KRA's registry in the api process: the resolver of taxpayers of every ledger
  operation and, with the \<open>oscu\<close> adapter, the checker of PINs. \<open>tp\<close> is the token of the OSCU
  client, when that is the adapter; the state of that client is then part of the world.
\<close>

definition kra_gateway :: "'w Host \<Rightarrow> ('w \<Rightarrow> (go_error + string) \<times> 'w) option \<Rightarrow> Settings \<Rightarrow> 'w KraClient" where
  "kra_gateway h tp c = \<lparr>kr_cfg = \<lparr>kc_BaseURL = ka_BaseURL (cf_KRA c), kc_APIBaseURL = ka_APIBaseURL (cf_KRA c),
       kc_ConsumerKey = ka_ConsumerKey (cf_KRA c), kc_ConsumerSecret = ka_ConsumerSecret (cf_KRA c),
       kc_UseMockGateway = ka_UseMockGateway (cf_KRA c), kc_IsProduction = IsProduction c\<rparr>,
     kr_net = ho_net h, kr_tokenProvider = tp, kr_sha256 = ho_sha256 h\<rparr>"

definition taxpayer_resolver :: "'w KraClient \<Rightarrow> 'w kra_state \<Rightarrow> string \<Rightarrow> go_error + string" where
  "taxpayer_resolver c st pin = map_sum id tx_TaxpayerName (fst (gateway_CheckPIN c pin st))"

text \<open>The allow-list of callers of the webhooks starts empty in local runs.\<close>

definition initial_allowlist :: "Settings \<Rightarrow> string list" where
  "initial_allowlist c = (if IsLocal c then [] else da_IPAllowlist (cf_Daraja c))"

end
