(* ===== verification/ConfigProps.thy ===== *)
theory ConfigProps
  imports Config Ledger
begin

text \<open>
  What a validated configuration guarantees, and what it does not: in production the checks leave
  the published master key and the sandbox address of KRA's registry in place.
\<close>

subsection \<open>Guarantees\<close>

lemma Validate_key:
  assumes "Validate c = None"
  shows "\<exists>key. MasterKey c = Inr key \<and> length key = 32"
proof (cases "MasterKey c")
  case (Inl e)
  with assms show ?thesis by (simp add: Validate_def Let_def split: if_splits)
next
  case (Inr key)
  then show ?thesis by (auto simp: MasterKey_def master_key_def split: option.splits if_splits)
qed

lemma Validate_adapter:
  assumes "Validate c = None"
  shows "fc_Adapter (cf_Fiscal c) \<in> {''mock'', ''vendor'', ''oscu''} \<and>
    fc_MockFailMode (cf_Fiscal c) \<in> {''none'', ''retryable'', ''terminal''} \<and>
    (fc_Adapter (cf_Fiscal c) = ''vendor'' \<longrightarrow> fc_VendorBaseURL (cf_Fiscal c) \<noteq> [] \<and> fc_VendorAPIKey (cf_Fiscal c) \<noteq> []) \<and>
    (fc_Adapter (cf_Fiscal c) = ''oscu'' \<longrightarrow> KRA_Configured (cf_KRA c))"
  using assms by (auto simp: Validate_def Let_def split: if_splits sum.splits)

lemma Validate_production:
  assumes "Validate c = None" and "IsProduction c"
  shows "\<not> prefix ''dev-'' (cf_SessionSecret c) \<and> \<not> prefix ''dev-'' (cf_HashPepper c) \<and>
    da_WebhookToken (cf_Daraja c) \<noteq> ''dev-webhook-token'' \<and> \<not> ka_UseMockGateway (cf_KRA c) \<and>
    da_ConsumerKey (cf_Daraja c) \<noteq> [] \<and> da_ConsumerSecret (cf_Daraja c) \<noteq> []"
  using assms by (auto simp: Validate_def Let_def split: if_splits sum.splits)

text \<open>
  A validated configuration starts: its master key has 32 bytes and, when the environment
  still holds it and the pepper is not empty, makes the keyring; its adapter is one the program
  builds, unless the address of the integrator or of KRA cannot be parsed or KRA's is empty. In
  production it has no development secrets and no mock flag.
\<close>

theorem validated_boots:
  assumes ok: "Validate c = None" and pep: "cf_HashPepper c \<noteq> []"
    and url: "\<And>u. ho_parse_url h u = None" and kra: "ka_BaseURL (cf_KRA c) \<noteq> []"
  shows "(\<exists>k. boot_keys ciphers None c = Inr k \<and> length (master k) = 32 \<and> pepper k = cf_HashPepper c) \<and>
    (\<exists>a. FiscalProvider h (cf_Fiscal c) (cf_KRA c) = Inr a \<and>
      (fc_Adapter (cf_Fiscal c) = ''mock'' \<longleftrightarrow> (\<exists>m. a = MockAdapter m))) \<and>
    (IsProduction c \<longrightarrow> \<not> prefix ''dev-'' (cf_SessionSecret c) \<and> \<not> prefix ''dev-'' (cf_HashPepper c) \<and>
      da_WebhookToken (cf_Daraja c) \<noteq> ''dev-webhook-token'' \<and> \<not> ka_UseMockGateway (cf_KRA c))"
proof (intro conjI)
  from Validate_key [OF ok] obtain key where key: "base64_decode (cf_MasterKeyB64 c) = Some key" "length key = 32"
    by (auto simp: MasterKey_def master_key_def split: option.splits if_splits)
  then have "cf_MasterKeyB64 c \<noteq> []" by (auto simp: base64_decode_def)
  with key pep show "\<exists>k. boot_keys ciphers None c = Inr k \<and> length (master k) = 32 \<and> pepper k = cf_HashPepper c"
    by (simp add: boot_keys_def NewKeyring_def FetchMasterKey_def master_key_def crypto_New_def)
  show "\<exists>a. FiscalProvider h (cf_Fiscal c) (cf_KRA c) = Inr a \<and>
      (fc_Adapter (cf_Fiscal c) = ''mock'' \<longleftrightarrow> (\<exists>m. a = MockAdapter m))"
    using Validate_adapter [OF ok] kra
    by (auto simp: FiscalProvider_def ParseFailMode_def vendor_New_def oscu_NewClient_def OSCUConfig_def KRA_Configured_def url)
  show "IsProduction c \<longrightarrow> \<not> prefix ''dev-'' (cf_SessionSecret c) \<and> \<not> prefix ''dev-'' (cf_HashPepper c) \<and>
      da_WebhookToken (cf_Daraja c) \<noteq> ''dev-webhook-token'' \<and> \<not> ka_UseMockGateway (cf_KRA c)"
    using Validate_production [OF ok] by blast
qed

subsection \<open>What production accepts\<close>

definition production_config :: Settings where
  "production_config = default_config\<lparr>cf_AppEnv := ''production'', cf_SessionSecret := ''s'', cf_HashPepper := ''p'',
     cf_Daraja := (cf_Daraja default_config)\<lparr>da_ConsumerKey := ''k'', da_ConsumerSecret := ''s'', da_WebhookToken := ''t''\<rparr>,
     cf_Fiscal := (cf_Fiscal default_config)\<lparr>fc_Adapter := ''vendor'', fc_VendorBaseURL := ''https://v'',
       fc_VendorAPIKey := ''k''\<rparr>\<rparr>"

text \<open>The published key of the example environment.\<close>

lemma production_dev_key:
  "Validate production_config = None \<and> IsProduction production_config \<and>
   MasterKey production_config = Inr ''dev-master-key-32-bytes-for-dev!''"
proof (intro conjI)
  show "Validate production_config = None" by code_simp
  show "IsProduction production_config" by code_simp
  show "MasterKey production_config = Inr ''dev-master-key-32-bytes-for-dev!''" by code_simp
qed

definition plain_host :: "nat Host" where
  "plain_host = \<lparr>ho_net = \<lparr>net_Do = (\<lambda>req w. (Inl (NetError ''down''), w + 1)), net_Now = (\<lambda>_. 0), net_Ctx = (\<lambda>_. None),
       net_J = (\<lambda>_. None), net_Print = (\<lambda>_. [])\<rparr>, ho_parse_url = (\<lambda>_. None), ho_QueryEscape = id,
     ho_PathEscape = id, ho_sha256 = (\<lambda>_. replicate 32 0xAB)\<rparr>"

theorem validated_boots_witness:
  "\<exists>k a. boot_keys plain_keyring None production_config = Inr k \<and> length (master k) = 32 \<and>
     FiscalProvider plain_host (cf_Fiscal production_config) (cf_KRA production_config) = Inr a \<and>
     (\<forall>m. a \<noteq> MockAdapter m)"
proof -
  have pep: "cf_HashPepper production_config \<noteq> []" and kra: "ka_BaseURL (cf_KRA production_config) \<noteq> []"
    and ad: "fc_Adapter (cf_Fiscal production_config) \<noteq> ''mock''"
    by (simp_all add: production_config_def default_config_def)
  have url: "ho_parse_url plain_host u = None" for u by (simp add: plain_host_def)
  from validated_boots [OF conjunct1 [OF production_dev_key] pep url kra, of plain_keyring] ad show ?thesis by blast
qed



end
