(* ===== verification/DarajaClientProps.thy ===== *)
theory DarajaClientProps
  imports DarajaClient Gateway
begin

text \<open>When the Daraja client asks for a token, and what it takes for an answer.\<close>

lemma duration_samples:
  "map ParseDuration [''3599s'', ''1.5h'', ''-2m30s'', ''0'', ''s'', ''3599'', ''12x''] =
    [Some (3599 * second), Some (90 * minute), Some (- (150 * second)), Some 0, None, None, None]"
  by code_simp

lemma mpesa_Token_cached:
  assumes "tk_token tc \<noteq> []" and "30 * second < tk_exp tc - net_Now (dc_net c) w"
  shows "mpesa_Token c (tc, w) = (Inr (tk_token tc), (tc, w))"
  using assms by (simp add: mpesa_Token_def)

text \<open>Without credentials and without a token nothing is sent.\<close>

lemma mpesa_unconfigured:
  assumes "\<not> mpesa_Configured c" and "tk_token tc = []"
  shows "mpesa_post c path body decode zero (tc, w) =
    (Inl (ErrorString ''mpesa: DARAJA_CONSUMER_KEY/SECRET not configured''), (tc, w))"
  using assms by (simp add: mpesa_post_def mpesa_Token_def)

lemma production_never_simulates:
  assumes "da_Env (dc_cfg c) = ''production''"
  shows "snd (SimulateC2B c sc msisdn cents ref st) = st"
  using assms by (simp add: SimulateC2B_def)

text \<open>A refusal that Daraja answers with status 2xx passes for success, and for an empty page.\<close>

lemma pull_ignores_code: "unmarshal_pull (JObj t [(''ResponseCode'', JStr q code)]) = Some []"
proof -
  have "equal_fold ''ResponseCode'' ''ResponseCode''" by (simp add: equal_fold_def)
  then show ?thesis by (simp add: unmarshal_pull_def dec_struct_def put_string_def)
qed

lemma register_ignores_code:
  assumes "tk_token tc \<noteq> []" and "30 * second < tk_exp tc - net_Now (dc_net c) w"
    and "\<And>req. net_Do (dc_net c) req w = (Inr (200, Inr raw), w')" and "raw \<noteq> []"
    and "net_J (dc_net c) raw = Some (JObj t ms)"
  shows "RegisterC2BURLs c shortcode base (tc, w) = (None, (tc, w'))"
  using assms by (simp add: RegisterC2BURLs_def mpesa_post_def mpesa_Token_def mpesa_do_def decode_map_def)

end
