(* ===== verification/Ciftctl.thy ===== *)
theory Ciftctl
  imports Config Operators SalesApi
begin

text \<open>
  The developer's command line, \<open>cmd/ciftctl/main.go\<close>: its dispatch, the seed of a demo
  organisation, the shell entry into the administrative gate, the live check of the KRA client,
  and the commands that talk to Daraja or replay a webhook. Parsing of flags, and printing beyond
  the values printed, are not modelled; nor are the migration and the fake server.
\<close>

subsection \<open>Dispatch\<close>

datatype command =
    CmdMigrate | CmdSeed | CmdReplay string | CmdRegisterURLs string | CmdSimulate "string list"
  | CmdFake "string list" | CmdVerify "string list" | CmdKraInit "string list" | CmdUsage

fun parse_command :: "string list \<Rightarrow> command" where
  "parse_command [] = CmdUsage"
| "parse_command (c # args) =
     (if c = ''migrate'' then CmdMigrate
      else if c = ''seed'' then CmdSeed
      else if c = ''replay-webhook'' then (case args of [] \<Rightarrow> CmdUsage | a # _ \<Rightarrow> CmdReplay a)
      else if c = ''register-urls'' then (case args of [] \<Rightarrow> CmdUsage | a # _ \<Rightarrow> CmdRegisterURLs a)
      else if c = ''simulate-c2b'' then CmdSimulate args
      else if c = ''daraja-fake'' then CmdFake args
      else if c = ''verify-shortcode'' then (case args of [] \<Rightarrow> CmdUsage | _ \<Rightarrow> CmdVerify args)
      else if c = ''kra-init'' then CmdKraInit args
      else CmdUsage)"

text \<open>The exit status, from what the command returns.\<close>

definition ciftctl_run :: "(command \<Rightarrow> go_error option) \<Rightarrow> string list \<Rightarrow> int" where
  "ciftctl_run perform args = (case parse_command args of
     CmdUsage \<Rightarrow> 2 | c \<Rightarrow> (case perform c of None \<Rightarrow> 0 | Some _ \<Rightarrow> 1))"

subsection \<open>Seed\<close>

definition seedOrgName :: string where "seedOrgName = ''Mama Njeri Wholesalers''"
definition seedPIN :: string where "seedPIN = ''P051234567X''"
definition seedShortcode :: string where "seedShortcode = ''600123''"
definition seedOwnerPhone :: string where "seedOwnerPhone = ''254712345678''"
definition seedBuyerPhone :: string where "seedBuyerPhone = ''254708374149''"
definition seedCheckoutID :: string where "seedCheckoutID = ''ws_CO_02092026121712345''"

definition CreateSTKRequest :: "uuid \<Rightarrow> uuid option \<Rightarrow> uuid \<Rightarrow> bytes \<Rightarrow> int \<Rightarrow> string \<Rightarrow> string \<Rightarrow> StkRequest tx" where
  "CreateSTKRequest oid sale sc h cents checkout purpose = stmt (\<lambda>s.
     let r = \<lparr>stk_id = next_id s, stk_org_id = oid, stk_sale_id = sale, stk_shortcode_id = sc, stk_msisdn_hash = h,
       stk_amount_cents = cents, stk_checkout_id = checkout, stk_purpose = purpose, stk_status = ''pending'',
       stk_result_code = None, stk_result_desc = None, stk_created_at = clock s\<rparr> in
     if \<not> own s oid then Inl rls_violation
     else if purpose \<notin> {''sale'', ''verify''} then Inl check_violation
     else if list_ex (\<lambda>q. stk_checkout_id q = checkout) (stk_requests s) then Inl unique_violation
     else Inr (r, s\<lparr>next_id := Suc (next_id s), stk_requests := stk_requests s @ [r]\<rparr>))"

definition seed_org :: "Keyring \<Rightarrow> bytes \<Rightarrow> bytes \<Rightarrow> uuid tx" where
  "seed_org k pinEnc ownerEnc =
     tbind (attempt (GetOrgByPINHash (Hash k seedPIN))) (\<lambda>r.
     tbind (case r of Inr g \<Rightarrow> ret g
       | Inl e \<Rightarrow> if errors_is e ErrNoRows then insert_org seedOrgName pinEnc (Hash k seedPIN) True ''en'' else raise e) (\<lambda>g.
     tbind (CreateUser ownerEnc (Hash k seedOwnerPhone) ''Njeri Kamau'' ''en'') (\<lambda>u.
     tbind (CreateMembership (org_id g) (user_id u) ''owner'' True) (\<lambda>_.
     ret (org_id g)))))"

definition seed_item :: "uuid \<Rightarrow> Item tx" where
  "seed_item oid = tbind (ListItems oid) (\<lambda>items. case items of
     it # _ \<Rightarrow> ret it
   | [] \<Rightarrow> CreateItem oid \<lparr>item_id = 0, item_org_id = oid, item_name = ''General goods'',
       item_class_code = ''5020230000'', item_tax_category = ''B'', item_unit = ''PCS'', item_price_cents = 0,
       item_is_active = True, item_track_stock = False, item_stock_qty = 0\<rparr>)"

definition seed_shortcode :: "uuid \<Rightarrow> uuid \<Rightarrow> uuid tx" where
  "seed_shortcode oid item = tbind (ListShortcodes oid) (\<lambda>scs.
     case rev (filter (\<lambda>r. sc_shortcode r = seedShortcode) scs) of
       r # _ \<Rightarrow> ret (sc_id r)
     | [] \<Rightarrow> tbind (CreateShortcode oid ''till'' seedShortcode ''Shop till'' (Some item) True) (\<lambda>sc.
         tbind (VerifyShortcode (sc_id sc) ''seed'') (\<lambda>_. ret (sc_id sc))))"

text \<open>An open sale of KES 1, waiting for the callback of the recorded request.\<close>

definition seed_sale :: "Keyring \<Rightarrow> bytes \<Rightarrow> uuid \<Rightarrow> Item \<Rightarrow> uuid \<Rightarrow> unit tx" where
  "seed_sale k buyerEnc oid item sc =
     tbind (UpsertCustomerByMSISDN oid ''Mary Wanjiku Kamau'' buyerEnc (Hash k seedBuyerPhone)) (\<lambda>cust.
     tbind (NextSaleRef oid) (\<lambda>ref.
     tbind (CreateSale \<lparr>cs_OrgID = oid, cs_Ref = ref, cs_Kind = ''open'', cs_Status = ''open'',
       cs_CustomerID = Some (cust_id cust), cs_SubtotalCents = 86, cs_TaxCents = 14, cs_TotalCents = 100,
       cs_ClientRef = None, cs_CreatedBy = None, cs_PaidAt = None, cs_BuyerName = ''Mary Wanjiku Kamau''\<rparr>) (\<lambda>sale.
     tbind (CreateSaleItem \<lparr>ci_OrgID = oid, ci_SaleID = sale_id sale, ci_ItemID = Some (item_id item),
       ci_Description = item_name item, ci_EtimsClassCode = item_class_code item, ci_Unit = item_unit item,
       ci_Qty = 1000, ci_UnitPriceCents = 100, ci_TaxCategory = ''B'', ci_TaxRateBp = 1600,
       ci_LineTotalCents = 100, ci_LineTaxCents = 14, ci_Position = 0\<rparr>) (\<lambda>_.
     tbind (CreateSTKRequest oid (Some (sale_id sale)) sc (Hash k seedBuyerPhone) 100 seedCheckoutID ''sale'') (\<lambda>_.
     ret ())))))"

definition seed_shop :: "Keyring \<Rightarrow> bytes \<Rightarrow> uuid \<Rightarrow> unit tx" where
  "seed_shop k buyerEnc oid =
     tbind (seed_item oid) (\<lambda>item.
     tbind (seed_shortcode oid (item_id item)) (\<lambda>sc.
     tbind (attempt (GetSTKRequestByCheckoutID seedCheckoutID)) (\<lambda>r. case r of
       Inr _ \<Rightarrow> ret () | Inl _ \<Rightarrow> seed_sale k buyerEnc oid item sc)))"

definition seed_rows :: "Keyring \<Rightarrow> bytes \<Rightarrow> bytes \<Rightarrow> bytes \<Rightarrow> unit tx" where
  "seed_rows k pinEnc ownerEnc buyerEnc =
     tbind (Unscoped (seed_org k pinEnc ownerEnc)) (\<lambda>oid. WithOrg oid (seed_shop k buyerEnc oid))"

definition seed :: "Keyring \<Rightarrow> unit tx" where
  "seed k =
     tbind (EncryptString k seedPIN) (\<lambda>pinEnc.
     tbind (EncryptString k seedOwnerPhone) (\<lambda>ownerEnc.
     tbind (EncryptString k seedBuyerPhone) (\<lambda>buyerEnc.
     seed_rows k pinEnc ownerEnc buyerEnc)))"

subsection \<open>The gate from the shell\<close>

definition shortcode_arg :: "uuid option \<Rightarrow> string \<Rightarrow> uuid tx" where
  "shortcode_arg parsed arg = (case parsed of
     Some i \<Rightarrow> ret i
   | None \<Rightarrow> tbind (FindByNumber (trim_space arg)) (\<lambda>rows. case rows of
       [] \<Rightarrow> raise (ErrorString (''no shortcode '' @ Daraja.quoted arg))
     | [r] \<Rightarrow> ret (sc_id r)
     | _ \<Rightarrow> raise (ErrorString ''ambiguous shortcode'')))"

definition verifyShortcode ::
    "Keyring \<Rightarrow> (string \<Rightarrow> go_error option) \<Rightarrow> uuid option \<Rightarrow> string \<Rightarrow> string \<Rightarrow> string \<Rightarrow> AdminShortcodeView tx" where
  "verifyShortcode k register parsed arg reject remark =
     tbind (shortcode_arg parsed arg) (\<lambda>i.
     if reject \<noteq> [] then Reject k i ''ciftctl'' reject
     else Verify k (Some register) i ''ciftctl'' remark)"

subsection \<open>KRA and Daraja\<close>

definition ctl_mask :: "string \<Rightarrow> string" where
  "ctl_mask s = (if length s \<le> 8 then replicate (length s) (CHR ''*'')
     else take 4 s @ replicate (length s - 8) (CHR ''*'') @ drop (length s - 4) s)"

text \<open>What is printed: the length of the token, and the device with its key masked.\<close>

definition kra_check ::
    "'w OscuClient \<Rightarrow> string \<Rightarrow> string \<Rightarrow> string \<Rightarrow> bool \<Rightarrow> 'w OscuState \<Rightarrow> (go_error + nat \<times> Info option) \<times> 'w OscuState" where
  "kra_check c pin branch serial tokenOnly p = (case oscu_Token c p of
     (Inl e, p1) \<Rightarrow> (Inl (Wrap (''token: '' @ err_text e) e), p1)
   | (Inr tok, p1) \<Rightarrow>
       if tokenOnly then (Inr (length tok, None), p1)
       else if pin = [] then (Inl (ErrorString ''--pin is required (or pass --token-only)''), p1)
       else (case Initialize c pin branch serial p1 of
           (Inl e, p2) \<Rightarrow> (Inl (Wrap (''selectInitOsdcInfo: '' @ err_text e) e), p2)
         | (Inr info, p2) \<Rightarrow> (Inr (length tok, Some (info\<lparr>if_CmcKey := ctl_mask (if_CmcKey info)\<rparr>)), p2)))"

definition kraInit ::
    "'w Host \<Rightarrow> go_error + Settings \<Rightarrow> string \<Rightarrow> string \<Rightarrow> string \<Rightarrow> bool \<Rightarrow> 'w \<Rightarrow> (go_error + nat \<times> Info option) \<times> 'w" where
  "kraInit h loaded pin branch serial tokenOnly w = (case loaded of
     Inl e \<Rightarrow> (Inl e, w)
   | Inr cfg \<Rightarrow>
       if \<not> KRA_Configured (cf_KRA cfg)
       then (Inl (ErrorString ''KRA_OSCU_CONSUMER_KEY and KRA_OSCU_CONSUMER_SECRET are not set''), w)
       else (case oscu_NewClient (ho_net h) (ho_parse_url h) (OSCUConfig (cf_KRA cfg)) of
         Inl e \<Rightarrow> (Inl e, w)
       | Inr c \<Rightarrow> apsnd ox_world (kra_check c pin branch serial tokenOnly (oscu_New w))))"

definition darajaClient :: "'w Host \<Rightarrow> (string \<Rightarrow> string) \<Rightarrow> go_error + Settings \<Rightarrow> go_error + 'w DarajaClient" where
  "darajaClient h path loaded = (case loaded of
     Inl e \<Rightarrow> Inl e
   | Inr cfg \<Rightarrow>
       (let c = \<lparr>dc_cfg = DarajaConfig.truncate (cf_Daraja cfg), dc_net = ho_net h, dc_url_path = path\<rparr> in
        if mpesa_Configured c then Inr c
        else Inl (ErrorString (''DARAJA_CONSUMER_KEY and DARAJA_CONSUMER_SECRET are required '' @
          ''(any value works against the fake)''))))"

definition registerURLs ::
    "'w Host \<Rightarrow> (string \<Rightarrow> string) \<Rightarrow> go_error + Settings \<Rightarrow> string \<Rightarrow> 'w \<Rightarrow> go_error option \<times> 'w" where
  "registerURLs h path loaded shortcode w = (case darajaClient h path loaded of
     Inl e \<Rightarrow> (Some e, w)
   | Inr c \<Rightarrow> apsnd snd (RegisterC2BURLs c shortcode (case_sum (\<lambda>_. []) cf_WebhookBaseURL loaded) (no_token, w)))"

text \<open>The amount is given in cents: its rounding from a float is not modelled.\<close>

definition simulateC2B ::
    "'w Host \<Rightarrow> (string \<Rightarrow> string) \<Rightarrow> go_error + Settings \<Rightarrow> string \<Rightarrow> string \<Rightarrow> int \<Rightarrow> string \<Rightarrow> 'w \<Rightarrow> (go_error + json) \<times> 'w" where
  "simulateC2B h path loaded shortcode msisdn cents ref w =
     (if shortcode = [] \<or> msisdn = [] then (Inl (ErrorString ''--shortcode and --msisdn are required''), w)
      else case NormaliseMSISDN msisdn of
        Inl e \<Rightarrow> (Inl e, w)
      | Inr norm \<Rightarrow> (case darajaClient h path loaded of
          Inl e \<Rightarrow> (Inl e, w)
        | Inr c \<Rightarrow> apsnd snd (SimulateC2B c shortcode norm cents ref (no_token, w))))"

definition env_or :: "string option \<Rightarrow> string \<Rightarrow> string" where
  "env_or v deflt = (case v of None \<Rightarrow> deflt | Some x \<Rightarrow> if x = [] then deflt else x)"

text \<open>A recorded body goes to the route of its kind; the body is posted as it is.\<close>

definition replay_path :: "string \<Rightarrow> (string \<times> json) list \<Rightarrow> string" where
  "replay_path token probe = (if list_ex (\<lambda>(name, _). name = ''Body'') probe
     then ''/webhooks/daraja/stk/'' @ token else ''/webhooks/daraja/c2b/confirmation/'' @ token)"

definition replay ::
    "'w Net \<Rightarrow> string option \<Rightarrow> string option \<Rightarrow> string \<Rightarrow> go_error + string \<Rightarrow> 'w \<Rightarrow> go_error option \<times> 'w" where
  "replay net token base file content w = (case content of
     Inl e \<Rightarrow> (Some e, w)
   | Inr body \<Rightarrow>
       (case Option.bind (net_J net body) (\<lambda>j. case j of JObj _ ms \<Rightarrow> Some ms | JNull \<Rightarrow> Some [] | _ \<Rightarrow> None) of
          None \<Rightarrow> (Some (ErrorString (file @ '' is not JSON: invalid JSON'')), w)
        | Some probe \<Rightarrow>
            (case net_Do net \<lparr>hr_Method = ''POST'',
                hr_URL = TrimRight (CHR ''/'') (env_or base ''http://localhost:8080'') @
                  replay_path (env_or token ''dev-webhook-token'') probe,
                hr_Auth = NoAuth, hr_Headers = [(''Content-Type'', ''application/json'')], hr_Body = Some (PStr body)\<rparr> w of
               (Inl e, w') \<Rightarrow> (Some e, w')
             | (Inr (status, _), w') \<Rightarrow>
                 (if status = 200 then None else Some (ErrorString (''api returned '' @ digits 10 (int status))), w'))))"

end
