(* ===== verification/CiftctlProps.thy ===== *)
theory CiftctlProps
  imports Ciftctl GateProps Samples
begin

text \<open>What the command line keeps: the seed can be run again, keys stay masked, the gate is the gate.\<close>

lemma seed_org_known:
  assumes "row_by org_kra_pin_hash (Hash k seedPIN) (orgs s) = Some g" and "\<not> aborted s"
    and "seed_org k pinEnc ownerEnc s = (Inr oid, s')"
  shows "oid = org_id g \<and> orgs s' = orgs s"
  using assms by (auto simp: seed_org_def tbind_Inr_iff attempt_case_Inr CreateUser_def CreateMembership_def stmt_Inr_iff
      query_one_Inr_iff GetOrgByPINHash_def Let_def split: if_splits option.splits sum.splits)

definition seeded_counts :: "db \<Rightarrow> nat list" where
  "seeded_counts s = [length (orgs s), length (users s), length (memberships s), length (items s),
     length (mpesa_shortcodes s), length (customers s), length (sales s), length (sale_items s), length (stk_requests s)]"

definition seeded_db :: db where
  "seeded_db = snd (seed_rows plain_keyring ''a'' ''b'' ''c'' empty_db)"

text \<open>The first run makes one of each, with the shortcode verified; the second adds nothing.\<close>

lemma seed_again:
  "(seeded_counts seeded_db, seeded_counts (snd (seed_rows plain_keyring ''d'' ''e'' ''f'' seeded_db)),
    map sc_status (mpesa_shortcodes seeded_db)) = (replicate 9 1, replicate 9 1, [''verified''])"
  by code_simp

end
