(* ===== verification/Storage.thy ===== *)
theory Storage
  imports Gateway
begin

text \<open>
  The store of uploaded letters, \<open>internal/platform/storage/storage.go\<close>. A file system is a map
  from absolute paths to contents; the root is the list of the components of its absolute path.
  What the operating system may refuse at each stage of a write is an argument. Directories,
  permissions and the handle an open file gives are not modelled.
\<close>

subsection \<open>Paths\<close>

fun split_slash :: "string \<Rightarrow> string list" where
  "split_slash [] = [[]]"
| "split_slash (c # cs) = (case split_slash cs of
     [] \<Rightarrow> [[c]]
   | w # ws \<Rightarrow> if c = CHR ''/'' then [] # w # ws else (c # w) # ws)"

text \<open>The components \<open>path.Clean\<close> leaves of a rooted path, kept in reverse.\<close>

fun clean_loop :: "string list \<Rightarrow> string list \<Rightarrow> string list" where
  "clean_loop acc [] = rev acc"
| "clean_loop acc (w # ws) =
     (if w = [] \<or> w = ''.'' then clean_loop acc ws
      else if w = ''..'' then clean_loop (drop 1 acc) ws
      else clean_loop (w # acc) ws)"

definition clean_rooted :: "string \<Rightarrow> string list" where
  "clean_rooted p = clean_loop [] (split_slash p)"

definition path_text :: "string list \<Rightarrow> string" where
  "path_text ws = concat (map (\<lambda>w. CHR ''/'' # w) ws)"

definition resolve_key :: "string list \<Rightarrow> string \<Rightarrow> go_error + string" where
  "resolve_key root key =
     (let ws = clean_rooted (CHR ''/'' # map (\<lambda>c. if c = CHR 0x5C then CHR ''/'' else c) key) in
      if ws = [] \<or> contains_text key ''..''
      then Inl (ErrorString (''storage: invalid key '' @ Daraja.quoted key))
      else Inr (path_text (root @ ws)))"

subsection \<open>Operations\<close>

type_synonym files = "string \<rightharpoonup> bytes"

definition storage_ErrNotFound :: go_error where
  "storage_ErrNotFound = ErrorString ''storage: not found''"

text \<open>The stage at which a write fails, with the error.\<close>

datatype put_fault = MkdirFault go_error | TempFault go_error | WriteFault go_error | CloseFault go_error
  | ChmodFault go_error | RenameFault go_error

definition put_error :: "put_fault \<Rightarrow> go_error" where
  "put_error f = (let w = (\<lambda>stage e. Wrap (''storage: '' @ stage @ '': '' @ err_text e) e) in case f of
     MkdirFault e \<Rightarrow> w ''mkdir'' e | TempFault e \<Rightarrow> w ''temp'' e | WriteFault e \<Rightarrow> w ''write'' e
   | CloseFault e \<Rightarrow> w ''close'' e | ChmodFault e \<Rightarrow> w ''chmod'' e | RenameFault e \<Rightarrow> w ''rename'' e)"

text \<open>
  The content goes to a temporary file that is renamed over the key, and removed when a later
  stage fails.
\<close>

definition Put :: "string list \<Rightarrow> put_fault option \<Rightarrow> string \<Rightarrow> bytes \<Rightarrow> files \<Rightarrow> go_error option \<times> files" where
  "Put root fault key content fs = (case resolve_key root key of
     Inl e \<Rightarrow> (Some e, fs)
   | Inr dst \<Rightarrow> (case fault of Some f \<Rightarrow> (Some (put_error f), fs) | None \<Rightarrow> (None, fs(dst \<mapsto> content))))"

definition Open :: "string list \<Rightarrow> string \<Rightarrow> files \<Rightarrow> go_error + bytes" where
  "Open root key fs = (case resolve_key root key of
     Inl e \<Rightarrow> Inl e
   | Inr p \<Rightarrow> (case fs p of None \<Rightarrow> Inl storage_ErrNotFound | Some b \<Rightarrow> Inr b))"

definition Delete :: "string list \<Rightarrow> go_error option \<Rightarrow> string \<Rightarrow> files \<Rightarrow> go_error option \<times> files" where
  "Delete root fault key fs = (case resolve_key root key of
     Inl e \<Rightarrow> (Some e, fs)
   | Inr p \<Rightarrow> (case fault of Some e \<Rightarrow> (Some e, fs) | None \<Rightarrow> (None, fs(p := None))))"

subsection \<open>Confinement\<close>

definition plain_component :: "string \<Rightarrow> bool" where
  "plain_component w \<longleftrightarrow> w \<noteq> [] \<and> w \<noteq> ''.'' \<and> w \<noteq> ''..'' \<and> CHR ''/'' \<notin> set w"

lemma split_slash_not_Nil: "split_slash s \<noteq> []"
  by (cases s) (auto split: list.splits)

lemma split_slash_parts: "w \<in> set (split_slash s) \<Longrightarrow> CHR ''/'' \<notin> set w"
  by (induction s arbitrary: w) (auto simp: split_slash_not_Nil split: list.splits if_splits)

lemma clean_loop_plain:
  "list_all plain_component acc \<Longrightarrow> \<forall>w \<in> set ws. CHR ''/'' \<notin> set w \<Longrightarrow> list_all plain_component (clean_loop acc ws)"
proof (induction ws arbitrary: acc)
  case Nil
  then show ?case by (simp add: list_all_iff)
next
  case (Cons w ws)
  have step: "list_all plain_component (clean_loop acc' ws)" if "list_all plain_component acc'" for acc'
    using Cons.IH [OF that] Cons.prems(2) by simp
  have "list_all plain_component (w # acc)" if "w \<noteq> []" "w \<noteq> ''.''" "w \<noteq> ''..''"
  proof -
    have "plain_component w" using that Cons.prems(2) by (simp add: plain_component_def)
    then show ?thesis using Cons.prems(1) by simp
  qed
  then show ?case using step list_all_drop [OF Cons.prems(1)] Cons.prems(1) by (simp only: clean_loop.simps split: if_split) blast
qed

lemma clean_rooted_plain: "list_all plain_component (clean_rooted p)"
  unfolding clean_rooted_def by (rule clean_loop_plain) (auto dest: split_slash_parts)


lemma resolve_samples:
  "map (resolve_key [''var'', ''up'']) [''authorizations/o/s-1.jpg'', ''a//./b'', ''a'' @ [CHR 0x5C] @ ''b/c'', ''../x'', ''/'', [] ] =
    [Inr ''/var/up/authorizations/o/s-1.jpg'', Inr ''/var/up/a/b'', Inr ''/var/up/a/b/c'',
     Inl (ErrorString (''storage: invalid key '' @ Daraja.quoted ''../x'')),
     Inl (ErrorString (''storage: invalid key '' @ Daraja.quoted ''/'')),
     Inl (ErrorString (''storage: invalid key '' @ Daraja.quoted []))]"
  by code_simp

end
