(* ===== verification/Letters.thy ===== *)
theory Letters
  imports Storage Shortcodes
begin

text \<open>
  The operator's view of an uploaded letter, \<open>adminGetLetter\<close> of \<open>internal/admin/shortcodes.go\<close>, on
  the file store. The body is the content of the file; a failure while it is copied to the client
  is not looked at by the code.
\<close>

text \<open>\<open>filepath.Ext\<close>\<close>

definition path_ext :: "string \<Rightarrow> string" where
  "path_ext p = (let r = takeWhile (\<lambda>c. c \<noteq> CHR ''/'') (rev p) in
     if CHR ''.'' \<in> set r then CHR ''.'' # rev (takeWhile (\<lambda>c. c \<noteq> CHR ''.'') r) else [])"

definition letter_path :: "uuid \<Rightarrow> string tx" where
  "letter_path i = WithAdmin (tbind (GetShortcodeAdmin i) (\<lambda>(r, _, _). case sc_letter_path r of
     None \<Rightarrow> raise (ErrorString ''admin: no letter path'') | Some p \<Rightarrow> ret p))"

definition letter_body :: "(string \<Rightarrow> go_error + bytes) \<Rightarrow> string \<Rightarrow> (string \<times> bytes) response" where
  "letter_body open_file p = (case open_file p of
     Inl _ \<Rightarrow> Fail 404 ''not_found'' ''Letter file is missing''
   | Inr content \<Rightarrow> JSON 200 (contentTypeForExt (path_ext p), content))"

definition adminGetLetter ::
    "Keyring \<Rightarrow> (string \<Rightarrow> go_error + bytes) \<Rightarrow> uuid option \<Rightarrow> (string \<times> bytes) response tx" where
  "adminGetLetter k open_file pid = idParam pid (\<lambda>i.
     tbind (attempt (admin_Get k i)) (\<lambda>r. case r of
       Inl e \<Rightarrow> ret (failShortcode e ''Could not load the shortcode'')
     | Inr row \<Rightarrow>
         if \<not> sv_LetterUploaded (av_Shortcode row)
         then ret (Fail 404 ''not_found'' ''No letter has been uploaded for this shortcode'')
         else answer (letter_path i) (\<lambda>e. failShortcode e ''Could not load the letter'') (letter_body open_file)))"

lemma path_ext_samples:
  "map path_ext [''authorizations/o/s-1.jpg'', ''a.b/c'', ''a/b.tar.gz'', ''a/.''] = [''.jpg'', [], ''.gz'', ''.'']"
  by code_simp

text \<open>A letter that was written through the store is what the operator is shown, with its type.\<close>

lemma letter_shown:
  assumes "Put root None key content fs = (None, fs')"
  shows "letter_body (\<lambda>p. Open root p fs') key = JSON 200 (contentTypeForExt (path_ext key), content)"
  using assms by (auto simp: Put_def Open_def letter_body_def split: sum.splits)

end
