(* ===== verification/MockDevice.thy ===== *)
theory MockDevice
  imports Vendor
begin

text \<open>
  The operations of the mock backend beside submission, \<open>internal/fiscal/mock/mock.go\<close>: registration
  of a device, the check of a PIN, the list of item codes and the settings tests change.
\<close>

definition mock_SetFailMode :: "FailMode \<Rightarrow> MockState \<Rightarrow> MockState" where
  "mock_SetFailMode m p = p\<lparr>failMode := m\<rparr>"

definition mock_SetClock :: "time \<Rightarrow> MockState \<Rightarrow> MockState" where
  "mock_SetClock t p = p\<lparr>mock_now := t\<rparr>"

definition mock_SetAck :: "string \<Rightarrow> Ack \<Rightarrow> MockState \<Rightarrow> MockState" where
  "mock_SetAck i a p = p\<lparr>acks := (acks p)(i \<mapsto> a)\<rparr>"

definition mock_Health :: "MockState \<Rightarrow> go_error option" where "mock_Health p = None"

definition mock_taxpayer_name :: "MockEnv \<Rightarrow> string \<Rightarrow> string" where
  "mock_taxpayer_name env pin = ''TAXPAYER '' @ to_upper (take 6 (shortHash env pin))"

text \<open>\<open>print\<close> is the printer of JSON values; the members of a map are printed in order.\<close>

definition mock_RegisterDevice :: "MockEnv \<Rightarrow> (payload \<Rightarrow> string) \<Rightarrow> OrgFiscalProfile \<Rightarrow> go_error + DeviceRef" where
  "mock_RegisterDevice env print prof =
     (if \<not> PINRe (ofp_KRAPIN prof)
      then Inl (ValidationError ''seller_pin_invalid'' ''KRA PIN must match A/P + 9 digits + letter'' ''kra_pin'')
      else let branch = (if ofp_BranchID prof = [] then ''00'' else ofp_BranchID prof);
               i = ''MOCKDEV'' @ take 8 (shortHash env (ofp_OrgID prof)) in
        Inr \<lparr>dr_DeviceID = i, dr_BranchID = branch,
          dr_Raw = print (PObj [(''bhfId'', PStr branch), (''deviceId'', PStr i),
            (''taxpayer_name'', PStr (mock_taxpayer_name env (ofp_KRAPIN prof)))])\<rparr>)"

definition mock_UnknownPIN :: string where "mock_UnknownPIN = ''P000000000Z''"

definition mock_LookupPIN :: "MockEnv \<Rightarrow> string \<Rightarrow> MockState \<Rightarrow> go_error + Taxpayer" where
  "mock_LookupPIN env raw p = (case ctx_err p of
     Some e \<Rightarrow> Inl e
   | None \<Rightarrow>
       (let pin = to_upper (trim_space raw) in
        if \<not> PINRe pin
        then Inl (ValidationError ''pin_invalid'' ''KRA PIN must match A/P + 9 digits + letter'' ''kra_pin'')
        else if pin = mock_UnknownPIN then Inl ErrPINUnknown
        else Inr \<lparr>tp_PIN = pin, tp_Name = mock_taxpayer_name env pin, tp_VATRegistered = (hd pin = CHR ''P'')\<rparr>))"

definition Catalog :: "ItemCodeEntry list" where
  "Catalog = map (\<lambda>(code, descr, cat). \<lparr>ic_Code = code, ic_Description = descr, ic_TaxCategory = cat\<rparr>)
     [(''50000000'', ''Food, beverage and tobacco products'', TaxStandard),
      (''50401500'', ''Fresh vegetables'', TaxExempt), (''50301500'', ''Fresh fruits'', TaxExempt),
      (''31160000'', ''Hardware'', TaxStandard), (''78100000'', ''Transport services'', TaxStandard),
      (''72100000'', ''Building and facility maintenance services'', TaxStandard),
      (''91111500'', ''Hair and beauty services'', TaxStandard), (''99000000'', ''General retail sale'', TaxStandard)]"

text \<open>The query is compared in lower case; the catalogue holds ASCII text.\<close>

definition text_in :: "string \<Rightarrow> string \<Rightarrow> bool" where
  "text_in sub s \<longleftrightarrow> list_ex (\<lambda>n. prefix sub (drop n s)) [0..<Suc (length s)]"

definition mock_LookupItemCodes :: "string \<Rightarrow> ItemCodeEntry list" where
  "mock_LookupItemCodes q0 = (let q = map ascii_lower (trim_space q0) in
     filter (\<lambda>c. q = [] \<or> text_in q (map ascii_lower (ic_Description c)) \<or> prefix q (ic_Code c)) Catalog)"

lemma mock_LookupItemCodes_samples:
  "map ic_Code (mock_LookupItemCodes '' FRESH '') = [''50401500'', ''50301500'']"
  "map ic_Code (mock_LookupItemCodes ''78'') = [''78100000'']"
  "length (mock_LookupItemCodes []) = 8"
  by code_simp+

text \<open>Setting an acknowledgement by hand keeps the contract as long as it has a number.\<close>

lemma mock_SetAck_inv: "mock_inv p \<Longrightarrow> KRAInvoiceNo a \<noteq> [] \<Longrightarrow> mock_inv (mock_SetAck i a p)"
  by (auto simp: mock_inv_def mock_SetAck_def)

lemma mock_LookupPIN_Inr:
  assumes "mock_LookupPIN env raw p = Inr t"
  shows "PINRe (tp_PIN t) \<and> tp_PIN t = to_upper (trim_space raw)"
  using assms by (auto simp: mock_LookupPIN_def Let_def split: option.splits if_splits)

end
