(* ===== verification/Middleware.thy ===== *)
theory Middleware
  imports Transport
begin

text \<open>
  The middleware every request passes, \<open>internal/platform/httpx/httpx.go\<close> in the order
  \<open>cmd/api/main.go\<close> installs it: the request id, the headers of an API, and the answer to other
  origins. The host name of an origin and the class of an address are what \<open>url.Parse\<close> and
  \<open>net.ParseIP\<close> find; the log line and the recovery of panics are left to the dispatcher.
\<close>

type_synonym headers = "(string \<times> string) list"

definition set_header :: "string \<Rightarrow> string \<Rightarrow> headers \<Rightarrow> headers" where
  "set_header k v hs = (k, v) # filter (\<lambda>(n, _). n \<noteq> k) hs"

definition set_headers :: "headers \<Rightarrow> headers \<Rightarrow> headers" where
  "set_headers kvs hs = fold (\<lambda>(k, v). set_header k v) kvs hs"

record WebRequest =
  wr_Method :: string
  wr_Origin :: string
  wr_RequestID :: string

record Origins =
  ori_allowed :: "string list"
  ori_hostname :: "string \<Rightarrow> string option"
  ori_local_ip :: "string \<Rightarrow> bool" \<comment> \<open>an address of the loopback, a private network or the local link\<close>

definition isOriginAllowed :: "Origins \<Rightarrow> string \<Rightarrow> bool" where
  "isOriginAllowed os origin =
     (let allowed = map (TrimRight (CHR ''/'')) (ori_allowed os) in
      if ''*'' \<in> set allowed \<or> origin \<in> set allowed \<or> TrimRight (CHR ''/'') origin \<in> set allowed then True
      else case ori_hostname os origin of
        None \<Rightarrow> False
      | Some host \<Rightarrow> host = ''localhost'' \<or> host = ''127.0.0.1'' \<or> ori_local_ip os host)"

definition cors_headers :: "string \<Rightarrow> headers" where
  "cors_headers origin = [(''Access-Control-Allow-Origin'', origin), (''Access-Control-Allow-Credentials'', ''true''),
     (''Access-Control-Allow-Headers'', ''Content-Type, X-CSRF-Token, X-Request-ID, X-Org-Id, Authorization''),
     (''Access-Control-Expose-Headers'', ''X-Request-ID''), (''Access-Control-Max-Age'', ''600''),
     (''Access-Control-Allow-Methods'', ''GET, POST, PATCH, DELETE, OPTIONS, PUT''), (''Vary'', ''Origin'')]"

text \<open>A handler gets the headers set so far and answers a status with the headers.\<close>

type_synonym web_handler = "WebRequest \<Rightarrow> headers \<Rightarrow> nat \<times> headers"

definition CORS :: "Origins \<Rightarrow> web_handler \<Rightarrow> web_handler" where
  "CORS os next' r hs =
     (if wr_Origin r \<noteq> [] \<and> isOriginAllowed os (wr_Origin r)
      then (let hs' = set_headers (cors_headers (wr_Origin r)) hs in
        if wr_Method r = ''OPTIONS'' then (204, hs') else next' r hs')
      else next' r hs)"

definition SecurityHeaders :: "web_handler \<Rightarrow> web_handler" where
  "SecurityHeaders next' r hs = next' r (set_headers [(''X-Content-Type-Options'', ''nosniff''),
     (''X-Frame-Options'', ''DENY''), (''Referrer-Policy'', ''no-referrer''), (''Cache-Control'', ''no-store'')] hs)"

text \<open>\<open>fresh\<close> is the new identifier.\<close>

definition RequestID :: "string \<Rightarrow> web_handler \<Rightarrow> web_handler" where
  "RequestID fresh next' r hs =
     (let i = (if wr_RequestID r = [] \<or> 64 < length (wr_RequestID r) then fresh else wr_RequestID r) in
      next' (r\<lparr>wr_RequestID := i\<rparr>) (set_header ''X-Request-ID'' i hs))"

definition middleware_stack :: "string \<Rightarrow> Origins \<Rightarrow> web_handler \<Rightarrow> web_handler" where
  "middleware_stack fresh os h = RequestID fresh (SecurityHeaders (CORS os h))"

subsection \<open>What every answer carries\<close>

lemma map_of_set_header: "map_of (set_header k v hs) n = (if n = k then Some v else map_of hs n)"
proof -
  have "map_of (filter (\<lambda>(m, _). m \<noteq> k) hs) n = map_of hs n" if "n \<noteq> k"
    using that by (induction hs) auto
  then show ?thesis by (simp add: set_header_def)
qed

text \<open>
  An answer to a browser of another origin allows credentials exactly when the origin is
  configured, or all are, or it is a machine of the local network, in every environment.
\<close>

lemma cors_credentials:
  assumes "h = (\<lambda>r hs. (200, hs))"
  shows "map_of (snd (middleware_stack fresh os h r [])) ''Access-Control-Allow-Credentials'' = Some ''true'' \<longleftrightarrow>
    wr_Origin r \<noteq> [] \<and> isOriginAllowed os (wr_Origin r)"
  by (simp add: assms middleware_stack_def RequestID_def SecurityHeaders_def CORS_def set_headers_def cors_headers_def
      map_of_set_header Let_def)

lemma local_origin_allowed:
  assumes "ori_hostname os origin = Some host" and "ori_local_ip os host"
  shows "isOriginAllowed os origin"
  using assms by (simp add: isOriginAllowed_def Let_def)

lemma stack_headers:
  assumes "h = (\<lambda>r hs. (200, hs))" and "fresh \<noteq> []" and "length fresh \<le> 64"
  shows "(\<exists>i. map_of (snd (middleware_stack fresh os h r [])) ''X-Request-ID'' = Some i \<and> i \<noteq> [] \<and> length i \<le> 64) \<and>
    map_of (snd (middleware_stack fresh os h r [])) ''X-Frame-Options'' = Some ''DENY'' \<and>
    map_of (snd (middleware_stack fresh os h r [])) ''Cache-Control'' = Some ''no-store''"
  using assms by (auto simp: middleware_stack_def RequestID_def SecurityHeaders_def CORS_def set_headers_def
      cors_headers_def map_of_set_header Let_def)

end
