(* ===== verification/Spec2Isabelle.thy ===== *)
theory Spec2Isabelle
  imports PlatformProps OperatorProps DarajaProps NotifyProps ReportProps ReceiptProps
    OscuProps GatewayProps VendorProps ConfigProps DarajaClientProps CiftctlProps Letters MockDevice Middleware
begin

text \<open>
  A verification library for CiftPay, a service that turns M-Pesa payments of Kenyan businesses
  into fiscal invoices. The Go module under \<open>src/backend\<close> has two programs over one Postgres
  database: \<open>cmd/api\<close> (HTTP routes and webhooks) and \<open>cmd/worker\<close> (submission of invoices to
  KRA). The library models the packages below \<open>src/backend/internal\<close> that carry the logic.

  \<^bold>\<open>The store\<close> (Prelude, Formats, Store, Queries, TxLogic, StoreInvariants). The database is a
  record of tables, each the list of its rows. A statement of \<open>platform/db/gen\<close> is a function
  on the store with the constraints, triggers and row-level security of the migrations;
  \<open>DB.scoped\<close> (\<open>platform/db/db.go\<close>) runs a body under a scope and rolls it back on an error or
  when a statement has aborted the transaction. An operation has the type \<open>'a tx\<close>, from a store
  to an error or a value and the next store. Time, random bytes and remote services are given.
  TxLogic has the locales \<open>table_frame\<close>, \<open>write_frame\<close>, \<open>store_frame\<close>: a relation on tables
  that every statement keeps is kept by every operation. They are interpreted on history
  (nothing recorded is edited or lost), well-formedness, tenant isolation, the verified-shortcode
  gate and the order of the correction chain.

  \<^bold>\<open>Fiscal rules\<close> (TaxCodes, FiscalState, ReceiptCode, Provider, MockProvider; package
  \<open>fiscal\<close>): contained VAT with half-up rounding in 64-bit arithmetic, the invoice life cycle
  and retry schedule, receipt codes, and the contract of a fiscal backend as the locale
  \<open>fiscal_provider\<close>, interpreted on the mock adapter and, in OscuProps, on the OSCU adapter.

  \<^bold>\<open>Payments and invoices\<close> (Matcher, Ledger, with LedgerProps, IngestProps, PaymentProps,
  InvoiceProps, ReissueProps; \<open>ledger/matcher.go\<close>, \<open>service.go\<close>, \<open>stk.go\<close>): a confirmation is
  applied once and only for a verified shortcode, what it books, what an invoice of a sale, a
  correction and a credit note contain.

  \<^bold>\<open>Submission\<close> (Submitter, SubmitProps; \<open>fiscal/submitter.go\<close>, \<open>watchdog.go\<close>): one attempt
  refines an abstract step on the invoice; two workers never submit the same invoice at once; a
  lost answer is recovered by lookup; the watchdog releases stale claims.

  \<^bold>\<open>All operations together\<close> (System, LifecycleProps): a step relation over the operations of
  the ledger and the submitter, the release of held-back invoices, and the end of every
  correction chain.

  \<^bold>\<open>The platform\<close> (Api, ReadRoutes, Platform, PlatformProps; \<open>cmd/api/main.go\<close> and the Mount
  functions): every route behind its gates and rate limiter as a function on the server's state,
  and one step relation over requests, the workers, the sweep and the pull job. The locale
  \<open>platform_frame\<close> shows that all of them keep a relation, and is interpreted on history,
  well-formedness, the verified-shortcode gate and the correction chain; so the invariants hold in
  every run of the platform, and the gates decide who may change what.

  \<^bold>\<open>Routes\<close> (Http, Shortcodes, GateProps, SalesApi, SalesProps; \<open>platform/httpx\<close>,
  \<open>ledger/handler.go\<close>, \<open>views.go\<close>, \<open>authorization.go\<close>, \<open>admin/shortcodes.go\<close>): responses and
  gates, the rate limiter, shortcode registration and review, recorded sales, conversion of
  payments, settlement.

  \<^bold>\<open>Views, receipts and reports\<close> (Search, Dates, Calendar, LedgerViews, Receipts, ReceiptProps,
  Reports, ReportProps; \<open>ledger/handler.go\<close>, \<open>publicapi/receipt.go\<close>, \<open>reports/reports.go\<close>): the
  pages of payments and invoices with their filters, where an ILIKE pattern is shown to be a
  substring search; Go's date layouts and the civil calendar; the public page of a receipt and its
  claim; summaries, VAT position and the iTax export, with the periods they cover.

  \<^bold>\<open>M-Pesa callbacks\<close> (Daraja, Reconcile, DarajaProps; \<open>mpesa/types.go\<close>, \<open>webhook.go\<close>,
  \<open>reconcile.go\<close>, \<open>pull_worker.go\<close>): decoding of the JSON values of a callback, amounts and
  times, the callback routes, the sweep over stored events and the pull job. What is acknowledged
  is stored, and a sweep after a crash does what the delivery would have done.

  \<^bold>\<open>Remote services\<close> (Transport, Gateway, GatewayProps, Oscu, OscuProps, Vendor, VendorProps,
  DarajaClient, DarajaClientProps, SmsGateway; \<open>kra/gateway\<close>, \<open>fiscal/oscu\<close>, \<open>fiscal/vendor\<close>,
  \<open>mpesa/client.go\<close>, \<open>notify/at.go\<close>, \<open>org/pin.go\<close>). Transport holds the network: a record whose
  functions give the answer of a request and the next state of the world, the clock, and the JSON
  parser and printer. On it stand the clients with their requests, wire values, token caches,
  error classes and decoding: the OSCU and the integrator's adapter of the fiscal provider, the
  PIN check of KRA and what its answers mean for onboarding, the calls to Daraja and the SMS
  gateway. The lemmas give the meaning of every class of answer, when a token is reused, that the
  OSCU adapter keeps the contract of a provider, and what it does when an answer is lost.

  \<^bold>\<open>Configuration, files, commands\<close> (Config, ConfigProps, Storage, Letters, Middleware, Ciftctl,
  CiftctlProps, MockDevice; \<open>platform/config\<close>, \<open>platform/crypto/keyring.go\<close>, \<open>boot\<close>,
  \<open>platform/storage\<close>, \<open>admin/shortcodes.go\<close>, \<open>cmd/ciftctl\<close>): the settings and what a validated
  configuration guarantees; the keyring and the provider it boots with; the file store, whose keys
  never leave its directory, and the letters read from it; the headers of a response; the
  operator's command line; the simulated device.

  \<^bold>\<open>Accounts\<close> (Identity, Accounts, AccountRoutes, Accountants, AccountProps; package \<open>org\<close>):
  login by phone code, sessions, the caller of a request, organisations, eTIMS settings,
  invitations, the clients of an accountant.

  \<^bold>\<open>Messages and plans\<close> (Notify, Billing, NotifyProps; packages \<open>notify\<close>, \<open>billing\<close>): templates,
  receipts and login codes by SMS, delivery reports, subscriptions and their monthly entitlement.

  \<^bold>\<open>Operators\<close> (Operators, OperatorProps; \<open>admin/admin.go\<close>): the lists and actions of the
  platform operators, their routes, and the allowlist of callback addresses.

  \<^bold>\<open>Faults the library proves\<close>: an exhausted invoice is still submitted, with an empty document;
  a payment matched by the counter window cannot be booked; a reversal never finds its payment,
  and its route never changes a row; a receipt-code collision cannot be retried; wrong login codes
  are not counted; revoking an invitation does nothing; an owner can create platform
  administrators; a sale is settled whatever was paid; the check of the pull job never finds a
  known payment; an interrupted STK result is given up; replaying a failed confirmation erases the
  failure; a requeued dead letter has no job; broadcasts by e-mail are never sent and two operator
  lists always fail; delivery reports are ignored; an interrupted receipt is never sent; credit
  notes raise the VAT position; the allowlist and the rate limiters judge a request by a header its
  caller writes; an invoice whose answer from KRA is lost is sent again; the registry of taxpayers
  can be simulated in production, which also accepts the published master key.

  \<^bold>\<open>Bounds.\<close> Amounts are 64-bit integers with the wrap-around written out. Loops are structural
  or have a termination proof; the receipt-code loop has the source's five rounds, and following
  superseded invoices has as fuel the number of invoices, which LifecycleProps shows to be enough;
  the public receipt page follows nine links, the depth the query is written with.

  \<^bold>\<open>Not modelled\<close>: the servers behind the network (Daraja, KRA, the integrator, the SMS gateway),
  name resolution and TLS, and the JSON text itself, which are parameters; logging; the setting of
  cookies; parsing of command line flags; the migrations and the fake Daraja server of \<open>ciftctl\<close>;
  start-up and shut-down of the programs; the job queue's scheduler, a third-party library; the
  text of exported CSV files; test helpers (\<open>providertest\<close>, \<open>mpesatest\<close>, \<open>dbtest\<close>,
  \<open>cmd/sandbox_test\<close>, \<open>cmd/smssink\<close>); \<open>publicapi/admin.go\<close>, whose routes are not mounted; and
  the web client. AES-GCM, HMAC and SHA-256 are parameters, with laws as hypotheses where they are
  needed. Foreign keys are not modelled; identifiers are numbers drawn from a counter.
\<close>

end
